(* ===== verification/Prelude.thy ===== *)
theory Prelude
  imports Main "HOL-Library.Word" "HOL-Library.Char_ord" "HOL-Library.List_Lexorder"
begin

text \<open>
  What every component of the development shares: the machine integers of the Rust code, the
  result type \<open>'e + 'a\<close> (\<open>Inl\<close> is \<open>Err\<close>, \<open>Inr\<close> is \<open>Ok\<close>) with the combinators the code writes
  as \<open>?\<close>, \<open>map_err\<close> and \<open>ok_or\<close>, checked and saturating arithmetic, the byte-level string
  predicates, and the list and map lemmas the components reuse.
\<close>

section \<open>Types\<close>

text \<open>Unsigned Rust integers keep their width; comparison on words is unsigned.  Signed
  integers that the code only compares and never computes with are \<^typ>\<open>int\<close>.\<close>

type_synonym u8 = "8 word"
type_synonym u16 = "16 word"
type_synonym u32 = "32 word"
type_synonym u64 = "64 word"
type_synonym u128 = "128 word"

text \<open>\<open>chrono::DateTime<Utc>\<close>: nanoseconds since the epoch.  The code only compares instants and
  adds a duration with \<open>checked_add_signed\<close>, a function of the chrono crate: the latter is an
  argument of the definitions that use it.\<close>

type_synonym instant = int

named_theorems result_simps "inversion of the result combinators"

section \<open>Results\<close>

definition rbind :: "'e + 'a \<Rightarrow> ('a \<Rightarrow> 'e + 'b) \<Rightarrow> 'e + 'b" where
  "rbind m f = (case m of Inl e \<Rightarrow> Inl e | Inr x \<Rightarrow> f x)"

definition map_err :: "'f \<Rightarrow> 'e + 'a \<Rightarrow> 'f + 'a" where
  "map_err e m = (case m of Inl _ \<Rightarrow> Inl e | Inr x \<Rightarrow> Inr x)"

definition ok_or :: "'e \<Rightarrow> 'a option \<Rightarrow> 'e + 'a" where
  "ok_or e m = (case m of None \<Rightarrow> Inl e | Some x \<Rightarrow> Inr x)"

text \<open>\<open>if c { return Err(e) }\<close>\<close>

definition fail_if :: "bool \<Rightarrow> 'e \<Rightarrow> 'e + unit" where
  "fail_if c e = (if c then Inl e else Inr ())"

definition is_ok :: "'e + 'a \<Rightarrow> bool" where
  "is_ok m = (case m of Inl _ \<Rightarrow> False | Inr _ \<Rightarrow> True)"

text \<open>\<open>for x in xs { f(x)? }\<close>: the first error stops the loop.\<close>

fun check_all :: "('a \<Rightarrow> 'e + unit) \<Rightarrow> 'a list \<Rightarrow> 'e + unit" where
  "check_all f [] = Inr ()"
| "check_all f (x # xs) = rbind (f x) (\<lambda>_. check_all f xs)"

text \<open>\<open>xs.iter().map(f).collect::<Result<Vec<_>, _>>()\<close>.\<close>

fun traverse :: "('a \<Rightarrow> 'e + 'b) \<Rightarrow> 'a list \<Rightarrow> 'e + 'b list" where
  "traverse f [] = Inr []"
| "traverse f (x # xs) = rbind (f x) (\<lambda>y. rbind (traverse f xs) (\<lambda>ys. Inr (y # ys)))"

text \<open>A loop that threads its variables through \<open>?\<close>: the first error stops it.\<close>

fun fold_result :: "('s \<Rightarrow> 'a \<Rightarrow> 'e + 's) \<Rightarrow> 's \<Rightarrow> 'a list \<Rightarrow> 'e + 's" where
  "fold_result f s [] = Inr s"
| "fold_result f s (x # xs) = rbind (f s x) (\<lambda>s'. fold_result f s' xs)"

lemma rbind_Inr [simp]: "rbind (Inr x) f = f x"
  by (simp add: rbind_def)

lemma rbind_Inl [simp]: "rbind (Inl e) f = Inl e"
  by (simp add: rbind_def)

lemma rbind_eq_Inr [result_simps]: "rbind m f = Inr y \<longleftrightarrow> (\<exists>x. m = Inr x \<and> f x = Inr y)"
  by (simp add: rbind_def split: sum.splits)

lemma rbind_eq_Inl [result_simps]:
  "rbind m f = Inl e \<longleftrightarrow> m = Inl e \<or> (\<exists>x. m = Inr x \<and> f x = Inl e)"
  by (simp add: rbind_def split: sum.splits)

lemma fail_if_eq_Inr [result_simps]: "fail_if c e = Inr u \<longleftrightarrow> \<not> c"
  by (simp add: fail_if_def)

lemma fail_if_eq_Inl [result_simps]: "fail_if c e = Inl e' \<longleftrightarrow> c \<and> e' = e"
  by (auto simp: fail_if_def)

lemma fail_if_simps [simp]: "fail_if True e = Inl e" "fail_if False e = Inr ()"
  by (simp_all add: fail_if_def)

lemma if_Inl_eq_Inr [result_simps]: "(if c then Inl e else m) = Inr y \<longleftrightarrow> \<not> c \<and> m = Inr y"
  by simp

lemma map_err_eq_Inr [result_simps]: "map_err e m = Inr x \<longleftrightarrow> m = Inr x"
  by (auto simp: map_err_def split: sum.splits)

lemma map_err_eq_Inl [result_simps]: "map_err e m = Inl e' \<longleftrightarrow> e' = e \<and> (\<exists>d. m = Inl d)"
  by (auto simp: map_err_def split: sum.splits)

lemma map_err_simps [simp]: "map_err e (Inr x) = Inr x" "map_err e (Inl d) = Inl e"
  by (simp_all add: map_err_def)

lemma ok_or_eq_Inr [result_simps]: "ok_or e m = Inr x \<longleftrightarrow> m = Some x"
  by (simp add: ok_or_def split: option.splits)

lemma ok_or_eq_Inl [result_simps]: "ok_or e m = Inl e' \<longleftrightarrow> m = None \<and> e' = e"
  by (auto simp: ok_or_def split: option.splits)

lemma ok_or_simps [simp]: "ok_or e (Some x) = Inr x" "ok_or e None = Inl e"
  by (simp_all add: ok_or_def)

lemma is_ok_simps [simp]: "is_ok (Inr x)" "\<not> is_ok (Inl e)"
  by (simp_all add: is_ok_def)

lemma is_ok_iff [result_simps]: "is_ok m \<longleftrightarrow> (\<exists>x. m = Inr x)"
  by (simp add: is_ok_def split: sum.splits)

lemma check_all_eq_Inr [result_simps]: "check_all f xs = Inr u \<longleftrightarrow> (\<forall>x \<in> set xs. f x = Inr ())"
  by (induction xs) (auto simp: rbind_eq_Inr)

lemma check_all_eq_Inl: "check_all f xs = Inl e \<Longrightarrow> \<exists>x \<in> set xs. f x = Inl e"
  by (induction xs) (auto simp: rbind_eq_Inl)

lemma traverse_eq_Inr:
  "traverse f xs = Inr ys \<longleftrightarrow> length ys = length xs \<and> (\<forall>i < length xs. f (xs ! i) = Inr (ys ! i))"
proof (induction xs arbitrary: ys)
  case (Cons x xs)
  show ?case
    by (cases ys) (auto simp: rbind_eq_Inr Cons.IH nth_Cons split: nat.splits)
qed auto

lemma traverse_eq_Inl: "traverse f xs = Inl e \<Longrightarrow> \<exists>x \<in> set xs. f x = Inl e"
  by (induction xs) (auto simp: rbind_eq_Inl)

text \<open>The loop invariant may speak of the elements already processed.\<close>

lemma fold_result_invariant:
  assumes "fold_result f s xs = Inr s'" and "P [] s"
    and "\<And>ys y t t'. P ys t \<Longrightarrow> y \<in> set xs \<Longrightarrow> f t y = Inr t' \<Longrightarrow> P (ys @ [y]) t'"
  shows "P xs s'"
proof -
  have "P (ys @ zs) t'" if "P ys t" "fold_result f t zs = Inr t'" "set zs \<subseteq> set xs" for ys zs t t'
    using that
  proof (induction zs arbitrary: ys t)
    case (Cons z zs)
    then obtain u where "f t z = Inr u" "fold_result f u zs = Inr t'"
      by (auto simp: rbind_eq_Inr)
    with Cons.prems assms(3) have "P (ys @ [z]) u" by simp
    from Cons.IH [OF this] Cons.prems \<open>fold_result f u zs = Inr t'\<close> show ?case by simp
  qed simp
  from this [of "[]" s xs s'] assms(1,2) show ?thesis by simp
qed

section \<open>Options\<close>

text \<open>\<open>Option::is_some_and\<close> and \<open>Option::is_none_or\<close>.\<close>

definition some_and :: "'a option \<Rightarrow> ('a \<Rightarrow> bool) \<Rightarrow> bool" where
  "some_and m p = (case m of None \<Rightarrow> False | Some x \<Rightarrow> p x)"

definition none_or :: "'a option \<Rightarrow> ('a \<Rightarrow> bool) \<Rightarrow> bool" where
  "none_or m p = (case m of None \<Rightarrow> True | Some x \<Rightarrow> p x)"

lemma some_and_simps [simp]: "some_and (Some x) p = p x" "\<not> some_and None p"
  by (simp_all add: some_and_def)

lemma none_or_simps [simp]: "none_or (Some x) p = p x" "none_or None p"
  by (simp_all add: none_or_def)

lemma some_and_iff [result_simps]: "some_and m p \<longleftrightarrow> (\<exists>x. m = Some x \<and> p x)"
  by (cases m) simp_all

lemma none_or_iff [result_simps]: "none_or m p \<longleftrightarrow> (\<forall>x. m = Some x \<longrightarrow> p x)"
  by (cases m) simp_all

section \<open>Checked and saturating arithmetic\<close>

definition checked_add :: "'a::len word \<Rightarrow> 'a word \<Rightarrow> 'a word option" where
  "checked_add a b = (if unat a + unat b < 2 ^ LENGTH('a) then Some (a + b) else None)"

definition saturating_add :: "'a::len word \<Rightarrow> 'a word \<Rightarrow> 'a word" where
  "saturating_add a b = (if unat a + unat b < 2 ^ LENGTH('a) then a + b else -1)"

definition saturating_sub :: "'a::len word \<Rightarrow> 'a word \<Rightarrow> 'a word" where
  "saturating_sub a b = (if b \<le> a then a - b else 0)"

lemma checked_add_Some: "checked_add a b = Some c \<Longrightarrow> unat c = unat a + unat b"
  by (auto simp: checked_add_def unat_word_ariths split: if_splits)

lemma checked_add_None: "checked_add (a :: 'a::len word) b = None \<longleftrightarrow> 2 ^ LENGTH('a) \<le> unat a + unat b"
  by (auto simp: checked_add_def)

lemma checked_add_one:
  assumes "checked_add a 1 = Some c"
  shows "c = a + 1" and "a < c" and "c \<noteq> 0" and "unat c = Suc (unat a)"
proof -
  from assms show c: "c = a + 1"
    by (simp add: checked_add_def split: if_splits)
  from checked_add_Some [OF assms] show u: "unat c = Suc (unat a)"
    by simp
  then show "a < c" by (simp add: word_less_nat_alt)
  from u show "c \<noteq> 0" by (metis nat.distinct(1) unat_0)
qed

lemma unat_saturating_add:
  "unat (saturating_add (a :: 'a::len word) b) = min (unat a + unat b) (2 ^ LENGTH('a) - 1)"
  by (auto simp: saturating_add_def unat_word_ariths unsigned_minus_1_eq_mask mask_eq_exp_minus_1 min_def)

lemma unat_saturating_sub: "unat (saturating_sub a b) = unat a - unat b"
  by (auto simp: saturating_sub_def unat_sub word_le_nat_alt)

section \<open>Strings as byte lists\<close>

definition byte_of :: "char \<Rightarrow> nat" where
  "byte_of c = of_char c"

definition is_ascii_lowercase :: "char \<Rightarrow> bool" where
  "is_ascii_lowercase c \<longleftrightarrow> 97 \<le> byte_of c \<and> byte_of c \<le> 122"

definition is_ascii_uppercase :: "char \<Rightarrow> bool" where
  "is_ascii_uppercase c \<longleftrightarrow> 65 \<le> byte_of c \<and> byte_of c \<le> 90"

definition is_ascii_digit :: "char \<Rightarrow> bool" where
  "is_ascii_digit c \<longleftrightarrow> 48 \<le> byte_of c \<and> byte_of c \<le> 57"

definition is_ascii_alphanumeric :: "char \<Rightarrow> bool" where
  "is_ascii_alphanumeric c \<longleftrightarrow> is_ascii_lowercase c \<or> is_ascii_uppercase c \<or> is_ascii_digit c"

section \<open>Lists and maps\<close>

text \<open>\<open>xs.windows(2).any(|pair| p(pair[0], pair[1]))\<close> and its \<open>all\<close>.\<close>

fun windows2_any :: "('a \<Rightarrow> 'a \<Rightarrow> bool) \<Rightarrow> 'a list \<Rightarrow> bool" where
  "windows2_any p (x # y # zs) = (p x y \<or> windows2_any p (y # zs))"
| "windows2_any p _ = False"

fun windows2_all :: "('a \<Rightarrow> 'a \<Rightarrow> bool) \<Rightarrow> 'a list \<Rightarrow> bool" where
  "windows2_all p (x # y # zs) = (p x y \<and> windows2_all p (y # zs))"
| "windows2_all p _ = True"

lemma windows2_any_not: "windows2_any p xs \<longleftrightarrow> \<not> windows2_all (\<lambda>x y. \<not> p x y) xs"
  by (induction p xs rule: windows2_any.induct) simp_all

lemma windows2_all_sorted: "windows2_all (<) (xs :: 'a::linorder list) \<longleftrightarrow> sorted_wrt (<) xs"
proof (induction xs rule: induct_list012)
  case (3 x y zs)
  then show ?case by (auto intro: less_trans)
qed simp_all

text \<open>\<open>xs.iter().collect::<BTreeSet<_>>().len() != xs.len()\<close>: an executable test for
  duplicates is \<open>\<not> distinct xs\<close>.\<close>

lemma distinct_iff_card: "distinct xs \<longleftrightarrow> card (set xs) = length xs"
  using card_distinct distinct_card by blast

lemma find_None_iff2: "List.find p xs = None \<longleftrightarrow> (\<forall>x \<in> set xs. \<not> p x)"
  by (induction xs) auto

lemma find_SomeD: "List.find p xs = Some x \<Longrightarrow> x \<in> set xs \<and> p x"
  by (induction xs) (auto split: if_splits)

section \<open>Closed registries\<close>

text \<open>The contracts declare every closed enum with its wire text.  What both macros
  (\<open>string_enum!\<close> and \<open>closed_state_machine!\<close>) rely on: the list of values is complete and
  no two values share a text.\<close>

locale closed_registry =
  fixes all :: "'s list"
    and as_str :: "'s \<Rightarrow> string"
  assumes complete: "s \<in> set all"
    and unique_wires: "distinct (map as_str all)"
begin

lemma as_str_eq_iff [simp]: "as_str a = as_str b \<longleftrightarrow> a = b"
  using unique_wires complete by (auto simp: distinct_map inj_on_def)

lemma find_as_str: "List.find (\<lambda>x. as_str x = as_str s) all = Some s"
proof (cases "List.find (\<lambda>x. as_str x = as_str s) all")
  case None
  then show ?thesis using complete [of s] by (auto simp: find_None_iff2)
next
  case (Some t)
  then have "t = s" by (auto dest: find_SomeD)
  with Some show ?thesis by simp
qed

lemma find_Some: "List.find (\<lambda>x. as_str x = v) all = Some s \<longleftrightarrow> v = as_str s"
proof
  assume "List.find (\<lambda>x. as_str x = v) all = Some s"
  then show "v = as_str s" by (auto dest!: find_SomeD)
next
  assume "v = as_str s"
  then show "List.find (\<lambda>x. as_str x = v) all = Some s" by (simp only: find_as_str)
qed

end

end
