(* ===== verification/Ids.thy ===== *)
theory Ids
  imports Prelude
begin

text \<open>
  Resource identities (\<open>platform-contracts/src/id.rs\<close>, \<open>types.rs\<close>): the closed registry of
  resource kinds with their prefixes, names and exposure, the nominal UUIDv7 identity
  \<open>{prefix}_{uuid}\<close> with its parser and printer, and the SHA-256 digest text.  The kinds and the
  identities carry the derived order of the Rust code (declaration order, then UUID bytes).
  The uuid crate is not part of the repository: its parser, its printer and its version test are
  arguments.
\<close>

section \<open>Resource kinds\<close>

datatype (plugins only: code) ResourceKind =
    Tenant | Principal | InstallationService | WorkerProcessGeneration | SecretProvider |
    SecretBinding | Agent | AgentInterfaceRevision | AgentPlanRevision | AgentDeployment |
    Skill | SkillRevision | SkillDeployment | SkillActivation | CapabilityInterface |
    CapabilityInterfaceRevision | CapabilityImplementation | CapabilityImplementationRevision |
    CapabilityDeployment | ContextSourceInterface | ContextSourceInterfaceRevision |
    ContextSourceImplementation | ContextSourceImplementationRevision | ContextDeployment |
    ContextBinding | ContextDataset | DatasetGeneration | ContextQuery | ContextObservation |
    ContextItem | McpServer | McpServerRevision | McpDeployment | McpDiscoverySnapshot |
    McpAuthorizationBinding | McpOperation | ModelProvider | ModelProviderRevision |
    ModelProviderDeployment | ModelProfile | ModelProfileRevision | ModelDeployment |
    ModelTurn | UsageReservation | Policy | PolicyRevision | PolicyDeployment |
    SandboxRuntime | SandboxRuntimeRevision | SandboxPackage | SandboxPackageRevision |
    SandboxProfile | SandboxProfileRevision | SandboxProfileDeployment | Run | RunValue |
    NodeExecution | ScopeInstance | CapabilityInvocation | ChildRunLink | Artifact |
    ArtifactGrant | InternalBlob | EncryptionDomain | Interaction | ApprovalTask | Job | Task |
    Receipt | OutboxEvent | QuotaAccount | QuotaLedgerEntry | Event | ServerRequest |
    ArtifactLink

datatype ResourceIdExposure = Public | Internal | CorrelationOnly

record ResourceKindDescriptor =
  rkd_prefix :: string
  rkd_name :: string
  rkd_exposure :: ResourceIdExposure

text \<open>The discriminant of the Rust enum (\<open>kind as u8\<close>), which also gives the derived order.\<close>

primrec kind_rank :: "ResourceKind \<Rightarrow> nat" where
  "kind_rank ResourceKind.Tenant = 0"
| "kind_rank ResourceKind.Principal = 1"
| "kind_rank ResourceKind.InstallationService = 2"
| "kind_rank ResourceKind.WorkerProcessGeneration = 3"
| "kind_rank ResourceKind.SecretProvider = 4"
| "kind_rank ResourceKind.SecretBinding = 5"
| "kind_rank ResourceKind.Agent = 6"
| "kind_rank ResourceKind.AgentInterfaceRevision = 7"
| "kind_rank ResourceKind.AgentPlanRevision = 8"
| "kind_rank ResourceKind.AgentDeployment = 9"
| "kind_rank ResourceKind.Skill = 10"
| "kind_rank ResourceKind.SkillRevision = 11"
| "kind_rank ResourceKind.SkillDeployment = 12"
| "kind_rank ResourceKind.SkillActivation = 13"
| "kind_rank ResourceKind.CapabilityInterface = 14"
| "kind_rank ResourceKind.CapabilityInterfaceRevision = 15"
| "kind_rank ResourceKind.CapabilityImplementation = 16"
| "kind_rank ResourceKind.CapabilityImplementationRevision = 17"
| "kind_rank ResourceKind.CapabilityDeployment = 18"
| "kind_rank ResourceKind.ContextSourceInterface = 19"
| "kind_rank ResourceKind.ContextSourceInterfaceRevision = 20"
| "kind_rank ResourceKind.ContextSourceImplementation = 21"
| "kind_rank ResourceKind.ContextSourceImplementationRevision = 22"
| "kind_rank ResourceKind.ContextDeployment = 23"
| "kind_rank ResourceKind.ContextBinding = 24"
| "kind_rank ResourceKind.ContextDataset = 25"
| "kind_rank ResourceKind.DatasetGeneration = 26"
| "kind_rank ResourceKind.ContextQuery = 27"
| "kind_rank ResourceKind.ContextObservation = 28"
| "kind_rank ResourceKind.ContextItem = 29"
| "kind_rank ResourceKind.McpServer = 30"
| "kind_rank ResourceKind.McpServerRevision = 31"
| "kind_rank ResourceKind.McpDeployment = 32"
| "kind_rank ResourceKind.McpDiscoverySnapshot = 33"
| "kind_rank ResourceKind.McpAuthorizationBinding = 34"
| "kind_rank ResourceKind.McpOperation = 35"
| "kind_rank ResourceKind.ModelProvider = 36"
| "kind_rank ResourceKind.ModelProviderRevision = 37"
| "kind_rank ResourceKind.ModelProviderDeployment = 38"
| "kind_rank ResourceKind.ModelProfile = 39"
| "kind_rank ResourceKind.ModelProfileRevision = 40"
| "kind_rank ResourceKind.ModelDeployment = 41"
| "kind_rank ResourceKind.ModelTurn = 42"
| "kind_rank ResourceKind.UsageReservation = 43"
| "kind_rank ResourceKind.Policy = 44"
| "kind_rank ResourceKind.PolicyRevision = 45"
| "kind_rank ResourceKind.PolicyDeployment = 46"
| "kind_rank ResourceKind.SandboxRuntime = 47"
| "kind_rank ResourceKind.SandboxRuntimeRevision = 48"
| "kind_rank ResourceKind.SandboxPackage = 49"
| "kind_rank ResourceKind.SandboxPackageRevision = 50"
| "kind_rank ResourceKind.SandboxProfile = 51"
| "kind_rank ResourceKind.SandboxProfileRevision = 52"
| "kind_rank ResourceKind.SandboxProfileDeployment = 53"
| "kind_rank ResourceKind.Run = 54"
| "kind_rank ResourceKind.RunValue = 55"
| "kind_rank ResourceKind.NodeExecution = 56"
| "kind_rank ResourceKind.ScopeInstance = 57"
| "kind_rank ResourceKind.CapabilityInvocation = 58"
| "kind_rank ResourceKind.ChildRunLink = 59"
| "kind_rank ResourceKind.Artifact = 60"
| "kind_rank ResourceKind.ArtifactGrant = 61"
| "kind_rank ResourceKind.InternalBlob = 62"
| "kind_rank ResourceKind.EncryptionDomain = 63"
| "kind_rank ResourceKind.Interaction = 64"
| "kind_rank ResourceKind.ApprovalTask = 65"
| "kind_rank ResourceKind.Job = 66"
| "kind_rank ResourceKind.Task = 67"
| "kind_rank ResourceKind.Receipt = 68"
| "kind_rank ResourceKind.OutboxEvent = 69"
| "kind_rank ResourceKind.QuotaAccount = 70"
| "kind_rank ResourceKind.QuotaLedgerEntry = 71"
| "kind_rank ResourceKind.Event = 72"
| "kind_rank ResourceKind.ServerRequest = 73"
| "kind_rank ResourceKind.ArtifactLink = 74"

definition all_resource_kinds :: "ResourceKind list" where
  "all_resource_kinds = [
     ResourceKind.Tenant, ResourceKind.Principal, ResourceKind.InstallationService,
     ResourceKind.WorkerProcessGeneration, ResourceKind.SecretProvider,
     ResourceKind.SecretBinding, ResourceKind.Agent, ResourceKind.AgentInterfaceRevision,
     ResourceKind.AgentPlanRevision, ResourceKind.AgentDeployment, ResourceKind.Skill,
     ResourceKind.SkillRevision, ResourceKind.SkillDeployment, ResourceKind.SkillActivation,
     ResourceKind.CapabilityInterface, ResourceKind.CapabilityInterfaceRevision,
     ResourceKind.CapabilityImplementation, ResourceKind.CapabilityImplementationRevision,
     ResourceKind.CapabilityDeployment, ResourceKind.ContextSourceInterface,
     ResourceKind.ContextSourceInterfaceRevision, ResourceKind.ContextSourceImplementation,
     ResourceKind.ContextSourceImplementationRevision, ResourceKind.ContextDeployment,
     ResourceKind.ContextBinding, ResourceKind.ContextDataset, ResourceKind.DatasetGeneration,
     ResourceKind.ContextQuery, ResourceKind.ContextObservation, ResourceKind.ContextItem,
     ResourceKind.McpServer, ResourceKind.McpServerRevision, ResourceKind.McpDeployment,
     ResourceKind.McpDiscoverySnapshot, ResourceKind.McpAuthorizationBinding,
     ResourceKind.McpOperation, ResourceKind.ModelProvider, ResourceKind.ModelProviderRevision,
     ResourceKind.ModelProviderDeployment, ResourceKind.ModelProfile,
     ResourceKind.ModelProfileRevision, ResourceKind.ModelDeployment, ResourceKind.ModelTurn,
     ResourceKind.UsageReservation, ResourceKind.Policy, ResourceKind.PolicyRevision,
     ResourceKind.PolicyDeployment, ResourceKind.SandboxRuntime,
     ResourceKind.SandboxRuntimeRevision, ResourceKind.SandboxPackage,
     ResourceKind.SandboxPackageRevision, ResourceKind.SandboxProfile,
     ResourceKind.SandboxProfileRevision, ResourceKind.SandboxProfileDeployment,
     ResourceKind.Run, ResourceKind.RunValue, ResourceKind.NodeExecution,
     ResourceKind.ScopeInstance, ResourceKind.CapabilityInvocation, ResourceKind.ChildRunLink,
     ResourceKind.Artifact, ResourceKind.ArtifactGrant, ResourceKind.InternalBlob,
     ResourceKind.EncryptionDomain, ResourceKind.Interaction, ResourceKind.ApprovalTask,
     ResourceKind.Job, ResourceKind.Task, ResourceKind.Receipt, ResourceKind.OutboxEvent,
     ResourceKind.QuotaAccount, ResourceKind.QuotaLedgerEntry, ResourceKind.Event,
     ResourceKind.ServerRequest, ResourceKind.ArtifactLink]"

primrec kind_descriptor :: "ResourceKind \<Rightarrow> ResourceKindDescriptor" where
  "kind_descriptor ResourceKind.Tenant = \<lparr>rkd_prefix = ''ten'', rkd_name = ''tenant'', rkd_exposure = Public\<rparr>"
| "kind_descriptor ResourceKind.Principal = \<lparr>rkd_prefix = ''prn'', rkd_name = ''principal'', rkd_exposure = Public\<rparr>"
| "kind_descriptor ResourceKind.InstallationService = \<lparr>rkd_prefix = ''svc'', rkd_name = ''installation_service'', rkd_exposure = Internal\<rparr>"
| "kind_descriptor ResourceKind.WorkerProcessGeneration = \<lparr>rkd_prefix = ''wrk'', rkd_name = ''worker_process_generation'', rkd_exposure = Internal\<rparr>"
| "kind_descriptor ResourceKind.SecretProvider = \<lparr>rkd_prefix = ''spr'', rkd_name = ''secret_provider'', rkd_exposure = Public\<rparr>"
| "kind_descriptor ResourceKind.SecretBinding = \<lparr>rkd_prefix = ''sbd'', rkd_name = ''secret_binding'', rkd_exposure = Public\<rparr>"
| "kind_descriptor ResourceKind.Agent = \<lparr>rkd_prefix = ''agt'', rkd_name = ''agent'', rkd_exposure = Public\<rparr>"
| "kind_descriptor ResourceKind.AgentInterfaceRevision = \<lparr>rkd_prefix = ''aif'', rkd_name = ''agent_interface_revision'', rkd_exposure = Public\<rparr>"
| "kind_descriptor ResourceKind.AgentPlanRevision = \<lparr>rkd_prefix = ''arev'', rkd_name = ''agent_plan_revision'', rkd_exposure = Public\<rparr>"
| "kind_descriptor ResourceKind.AgentDeployment = \<lparr>rkd_prefix = ''adep'', rkd_name = ''agent_deployment'', rkd_exposure = Public\<rparr>"
| "kind_descriptor ResourceKind.Skill = \<lparr>rkd_prefix = ''skl'', rkd_name = ''skill'', rkd_exposure = Public\<rparr>"
| "kind_descriptor ResourceKind.SkillRevision = \<lparr>rkd_prefix = ''srev'', rkd_name = ''skill_revision'', rkd_exposure = Public\<rparr>"
| "kind_descriptor ResourceKind.SkillDeployment = \<lparr>rkd_prefix = ''skdep'', rkd_name = ''skill_deployment'', rkd_exposure = Public\<rparr>"
| "kind_descriptor ResourceKind.SkillActivation = \<lparr>rkd_prefix = ''sact'', rkd_name = ''skill_activation'', rkd_exposure = Public\<rparr>"
| "kind_descriptor ResourceKind.CapabilityInterface = \<lparr>rkd_prefix = ''cap'', rkd_name = ''capability_interface'', rkd_exposure = Public\<rparr>"
| "kind_descriptor ResourceKind.CapabilityInterfaceRevision = \<lparr>rkd_prefix = ''cirev'', rkd_name = ''capability_interface_revision'', rkd_exposure = Public\<rparr>"
| "kind_descriptor ResourceKind.CapabilityImplementation = \<lparr>rkd_prefix = ''cim'', rkd_name = ''capability_implementation'', rkd_exposure = Public\<rparr>"
| "kind_descriptor ResourceKind.CapabilityImplementationRevision = \<lparr>rkd_prefix = ''cimp'', rkd_name = ''capability_implementation_revision'', rkd_exposure = Public\<rparr>"
| "kind_descriptor ResourceKind.CapabilityDeployment = \<lparr>rkd_prefix = ''cdep'', rkd_name = ''capability_deployment'', rkd_exposure = Public\<rparr>"
| "kind_descriptor ResourceKind.ContextSourceInterface = \<lparr>rkd_prefix = ''ctx'', rkd_name = ''context_source_interface'', rkd_exposure = Public\<rparr>"
| "kind_descriptor ResourceKind.ContextSourceInterfaceRevision = \<lparr>rkd_prefix = ''xirev'', rkd_name = ''context_source_interface_revision'', rkd_exposure = Public\<rparr>"
| "kind_descriptor ResourceKind.ContextSourceImplementation = \<lparr>rkd_prefix = ''xim'', rkd_name = ''context_source_implementation'', rkd_exposure = Public\<rparr>"
| "kind_descriptor ResourceKind.ContextSourceImplementationRevision = \<lparr>rkd_prefix = ''ximp'', rkd_name = ''context_source_implementation_revision'', rkd_exposure = Public\<rparr>"
| "kind_descriptor ResourceKind.ContextDeployment = \<lparr>rkd_prefix = ''xdep'', rkd_name = ''context_deployment'', rkd_exposure = Public\<rparr>"
| "kind_descriptor ResourceKind.ContextBinding = \<lparr>rkd_prefix = ''xcb'', rkd_name = ''context_binding'', rkd_exposure = Public\<rparr>"
| "kind_descriptor ResourceKind.ContextDataset = \<lparr>rkd_prefix = ''dset'', rkd_name = ''context_dataset'', rkd_exposure = Public\<rparr>"
| "kind_descriptor ResourceKind.DatasetGeneration = \<lparr>rkd_prefix = ''dgen'', rkd_name = ''dataset_generation'', rkd_exposure = Public\<rparr>"
| "kind_descriptor ResourceKind.ContextQuery = \<lparr>rkd_prefix = ''cqry'', rkd_name = ''context_query'', rkd_exposure = Public\<rparr>"
| "kind_descriptor ResourceKind.ContextObservation = \<lparr>rkd_prefix = ''cobs'', rkd_name = ''context_observation'', rkd_exposure = Public\<rparr>"
| "kind_descriptor ResourceKind.ContextItem = \<lparr>rkd_prefix = ''cit'', rkd_name = ''context_item'', rkd_exposure = Public\<rparr>"
| "kind_descriptor ResourceKind.McpServer = \<lparr>rkd_prefix = ''mcp'', rkd_name = ''mcp_server'', rkd_exposure = Public\<rparr>"
| "kind_descriptor ResourceKind.McpServerRevision = \<lparr>rkd_prefix = ''mrev'', rkd_name = ''mcp_server_revision'', rkd_exposure = Public\<rparr>"
| "kind_descriptor ResourceKind.McpDeployment = \<lparr>rkd_prefix = ''mcdep'', rkd_name = ''mcp_deployment'', rkd_exposure = Public\<rparr>"
| "kind_descriptor ResourceKind.McpDiscoverySnapshot = \<lparr>rkd_prefix = ''mdsc'', rkd_name = ''mcp_discovery_snapshot'', rkd_exposure = Public\<rparr>"
| "kind_descriptor ResourceKind.McpAuthorizationBinding = \<lparr>rkd_prefix = ''mab'', rkd_name = ''mcp_authorization_binding'', rkd_exposure = Public\<rparr>"
| "kind_descriptor ResourceKind.McpOperation = \<lparr>rkd_prefix = ''mop'', rkd_name = ''mcp_operation'', rkd_exposure = Public\<rparr>"
| "kind_descriptor ResourceKind.ModelProvider = \<lparr>rkd_prefix = ''mpr'', rkd_name = ''model_provider'', rkd_exposure = Public\<rparr>"
| "kind_descriptor ResourceKind.ModelProviderRevision = \<lparr>rkd_prefix = ''mprev'', rkd_name = ''model_provider_revision'', rkd_exposure = Public\<rparr>"
| "kind_descriptor ResourceKind.ModelProviderDeployment = \<lparr>rkd_prefix = ''mpdep'', rkd_name = ''model_provider_deployment'', rkd_exposure = Public\<rparr>"
| "kind_descriptor ResourceKind.ModelProfile = \<lparr>rkd_prefix = ''mdl'', rkd_name = ''model_profile'', rkd_exposure = Public\<rparr>"
| "kind_descriptor ResourceKind.ModelProfileRevision = \<lparr>rkd_prefix = ''mdrev'', rkd_name = ''model_profile_revision'', rkd_exposure = Public\<rparr>"
| "kind_descriptor ResourceKind.ModelDeployment = \<lparr>rkd_prefix = ''mdep'', rkd_name = ''model_deployment'', rkd_exposure = Public\<rparr>"
| "kind_descriptor ResourceKind.ModelTurn = \<lparr>rkd_prefix = ''mturn'', rkd_name = ''model_turn'', rkd_exposure = Public\<rparr>"
| "kind_descriptor ResourceKind.UsageReservation = \<lparr>rkd_prefix = ''ures'', rkd_name = ''usage_reservation'', rkd_exposure = Public\<rparr>"
| "kind_descriptor ResourceKind.Policy = \<lparr>rkd_prefix = ''pol'', rkd_name = ''policy'', rkd_exposure = Public\<rparr>"
| "kind_descriptor ResourceKind.PolicyRevision = \<lparr>rkd_prefix = ''prev'', rkd_name = ''policy_revision'', rkd_exposure = Public\<rparr>"
| "kind_descriptor ResourceKind.PolicyDeployment = \<lparr>rkd_prefix = ''pdep'', rkd_name = ''policy_deployment'', rkd_exposure = Public\<rparr>"
| "kind_descriptor ResourceKind.SandboxRuntime = \<lparr>rkd_prefix = ''srt'', rkd_name = ''sandbox_runtime'', rkd_exposure = Public\<rparr>"
| "kind_descriptor ResourceKind.SandboxRuntimeRevision = \<lparr>rkd_prefix = ''srrev'', rkd_name = ''sandbox_runtime_revision'', rkd_exposure = Public\<rparr>"
| "kind_descriptor ResourceKind.SandboxPackage = \<lparr>rkd_prefix = ''spk'', rkd_name = ''sandbox_package'', rkd_exposure = Public\<rparr>"
| "kind_descriptor ResourceKind.SandboxPackageRevision = \<lparr>rkd_prefix = ''sprev'', rkd_name = ''sandbox_package_revision'', rkd_exposure = Public\<rparr>"
| "kind_descriptor ResourceKind.SandboxProfile = \<lparr>rkd_prefix = ''sxp'', rkd_name = ''sandbox_profile'', rkd_exposure = Public\<rparr>"
| "kind_descriptor ResourceKind.SandboxProfileRevision = \<lparr>rkd_prefix = ''sxrev'', rkd_name = ''sandbox_profile_revision'', rkd_exposure = Public\<rparr>"
| "kind_descriptor ResourceKind.SandboxProfileDeployment = \<lparr>rkd_prefix = ''sxdep'', rkd_name = ''sandbox_profile_deployment'', rkd_exposure = Public\<rparr>"
| "kind_descriptor ResourceKind.Run = \<lparr>rkd_prefix = ''run'', rkd_name = ''run'', rkd_exposure = Public\<rparr>"
| "kind_descriptor ResourceKind.RunValue = \<lparr>rkd_prefix = ''val'', rkd_name = ''run_value'', rkd_exposure = Internal\<rparr>"
| "kind_descriptor ResourceKind.NodeExecution = \<lparr>rkd_prefix = ''nod'', rkd_name = ''node_execution'', rkd_exposure = Public\<rparr>"
| "kind_descriptor ResourceKind.ScopeInstance = \<lparr>rkd_prefix = ''scp'', rkd_name = ''scope_instance'', rkd_exposure = Internal\<rparr>"
| "kind_descriptor ResourceKind.CapabilityInvocation = \<lparr>rkd_prefix = ''inv'', rkd_name = ''capability_invocation'', rkd_exposure = Public\<rparr>"
| "kind_descriptor ResourceKind.ChildRunLink = \<lparr>rkd_prefix = ''crun'', rkd_name = ''child_run_link'', rkd_exposure = Public\<rparr>"
| "kind_descriptor ResourceKind.Artifact = \<lparr>rkd_prefix = ''art'', rkd_name = ''artifact'', rkd_exposure = Public\<rparr>"
| "kind_descriptor ResourceKind.ArtifactGrant = \<lparr>rkd_prefix = ''grt'', rkd_name = ''artifact_grant'', rkd_exposure = Internal\<rparr>"
| "kind_descriptor ResourceKind.InternalBlob = \<lparr>rkd_prefix = ''blb'', rkd_name = ''internal_blob'', rkd_exposure = Internal\<rparr>"
| "kind_descriptor ResourceKind.EncryptionDomain = \<lparr>rkd_prefix = ''enc'', rkd_name = ''encryption_domain'', rkd_exposure = Internal\<rparr>"
| "kind_descriptor ResourceKind.Interaction = \<lparr>rkd_prefix = ''int'', rkd_name = ''interaction'', rkd_exposure = Public\<rparr>"
| "kind_descriptor ResourceKind.ApprovalTask = \<lparr>rkd_prefix = ''apr'', rkd_name = ''approval_task'', rkd_exposure = Public\<rparr>"
| "kind_descriptor ResourceKind.Job = \<lparr>rkd_prefix = ''job'', rkd_name = ''job'', rkd_exposure = Internal\<rparr>"
| "kind_descriptor ResourceKind.Task = \<lparr>rkd_prefix = ''tsk'', rkd_name = ''task'', rkd_exposure = Internal\<rparr>"
| "kind_descriptor ResourceKind.Receipt = \<lparr>rkd_prefix = ''rcp'', rkd_name = ''receipt'', rkd_exposure = Internal\<rparr>"
| "kind_descriptor ResourceKind.OutboxEvent = \<lparr>rkd_prefix = ''obx'', rkd_name = ''outbox_event'', rkd_exposure = Internal\<rparr>"
| "kind_descriptor ResourceKind.QuotaAccount = \<lparr>rkd_prefix = ''qac'', rkd_name = ''quota_account'', rkd_exposure = Internal\<rparr>"
| "kind_descriptor ResourceKind.QuotaLedgerEntry = \<lparr>rkd_prefix = ''qle'', rkd_name = ''quota_ledger_entry'', rkd_exposure = Internal\<rparr>"
| "kind_descriptor ResourceKind.Event = \<lparr>rkd_prefix = ''evt'', rkd_name = ''event'', rkd_exposure = Internal\<rparr>"
| "kind_descriptor ResourceKind.ServerRequest = \<lparr>rkd_prefix = ''req'', rkd_name = ''server_request'', rkd_exposure = CorrelationOnly\<rparr>"
| "kind_descriptor ResourceKind.ArtifactLink = \<lparr>rkd_prefix = ''lnk'', rkd_name = ''artifact_link'', rkd_exposure = Internal\<rparr>"

text \<open>\<open>ResourceKind::from_prefix\<close>: the match over the prefix literals, in declaration order.\<close>

definition from_prefix :: "string \<Rightarrow> ResourceKind option" where
  "from_prefix p = List.find (\<lambda>k. rkd_prefix (kind_descriptor k) = p) all_resource_kinds"

definition is_revision :: "ResourceKind \<Rightarrow> bool" where
  "is_revision k \<longleftrightarrow> k \<in> {
     ResourceKind.AgentInterfaceRevision, ResourceKind.AgentPlanRevision,
     ResourceKind.SkillRevision, ResourceKind.CapabilityInterfaceRevision,
     ResourceKind.CapabilityImplementationRevision,
     ResourceKind.ContextSourceInterfaceRevision,
     ResourceKind.ContextSourceImplementationRevision, ResourceKind.DatasetGeneration,
     ResourceKind.McpServerRevision, ResourceKind.ModelProviderRevision,
     ResourceKind.ModelProfileRevision, ResourceKind.PolicyRevision,
     ResourceKind.SandboxRuntimeRevision, ResourceKind.SandboxPackageRevision,
     ResourceKind.SandboxProfileRevision}"

definition is_deployment :: "ResourceKind \<Rightarrow> bool" where
  "is_deployment k \<longleftrightarrow> k \<in> {
     ResourceKind.AgentDeployment, ResourceKind.SkillDeployment,
     ResourceKind.CapabilityDeployment, ResourceKind.ContextDeployment,
     ResourceKind.McpDeployment, ResourceKind.ModelProviderDeployment,
     ResourceKind.ModelDeployment, ResourceKind.PolicyDeployment,
     ResourceKind.SandboxProfileDeployment}"

definition supports_exact_registry_projection :: "ResourceKind \<Rightarrow> bool" where
  "supports_exact_registry_projection k \<longleftrightarrow> k \<in> {
     ResourceKind.Artifact, ResourceKind.AgentInterfaceRevision,
     ResourceKind.AgentPlanRevision, ResourceKind.AgentDeployment, ResourceKind.SkillRevision,
     ResourceKind.SkillDeployment, ResourceKind.CapabilityInterfaceRevision,
     ResourceKind.CapabilityImplementationRevision, ResourceKind.CapabilityDeployment,
     ResourceKind.ContextSourceInterfaceRevision,
     ResourceKind.ContextSourceImplementationRevision, ResourceKind.ContextDeployment,
     ResourceKind.ContextBinding, ResourceKind.ContextDataset, ResourceKind.DatasetGeneration,
     ResourceKind.McpServerRevision, ResourceKind.McpDeployment,
     ResourceKind.McpDiscoverySnapshot, ResourceKind.ModelProviderRevision,
     ResourceKind.ModelProviderDeployment, ResourceKind.ModelProfileRevision,
     ResourceKind.ModelDeployment, ResourceKind.PolicyDeployment,
     ResourceKind.SandboxRuntimeRevision, ResourceKind.SandboxPackageRevision,
     ResourceKind.SandboxProfileRevision, ResourceKind.SandboxProfileDeployment}"

section \<open>The registry is closed and unambiguous\<close>

lemma nth_kind_rank: "all_resource_kinds ! kind_rank k = k"
  by (cases k) (simp_all add: all_resource_kinds_def)

lemma kind_rank_inj [simp]: "kind_rank a = kind_rank b \<longleftrightarrow> a = b"
  by (metis nth_kind_rank)

lemma kind_rank_bound: "kind_rank k < 75"
  by (cases k) simp_all

lemma length_all_resource_kinds: "length all_resource_kinds = 75"
  by (simp add: all_resource_kinds_def)

lemma set_all_resource_kinds [simp]: "k \<in> set all_resource_kinds"
  by (metis kind_rank_bound length_all_resource_kinds nth_kind_rank nth_mem)

lemma distinct_all_resource_kinds: "distinct all_resource_kinds"
proof -
  have "map kind_rank all_resource_kinds = [0..<75]"
    by code_simp
  then show ?thesis by (metis distinct_map distinct_upt)
qed

text \<open>Two kinds with one prefix would have one position in the table of prefixes.\<close>

lemma distinct_prefixes: "distinct (map (\<lambda>k. rkd_prefix (kind_descriptor k)) all_resource_kinds)"
  by code_simp

lemma distinct_names: "distinct (map (\<lambda>k. rkd_name (kind_descriptor k)) all_resource_kinds)"
  by code_simp

interpretation kind_prefixes: closed_registry all_resource_kinds "\<lambda>k. rkd_prefix (kind_descriptor k)"
  by unfold_locales (simp_all add: distinct_prefixes)

interpretation kind_names: closed_registry all_resource_kinds "\<lambda>k. rkd_name (kind_descriptor k)"
  by unfold_locales (simp_all add: distinct_names)

lemma from_prefix_prefix [simp]: "from_prefix (rkd_prefix (kind_descriptor k)) = Some k"
  unfolding from_prefix_def by (rule kind_prefixes.find_as_str)

lemma from_prefix_Some: "from_prefix p = Some k \<longleftrightarrow> p = rkd_prefix (kind_descriptor k)"
  unfolding from_prefix_def by (rule kind_prefixes.find_Some)

lemma prefix_shape: "rkd_prefix (kind_descriptor k) \<noteq> [] \<and> CHR ''_'' \<notin> set (rkd_prefix (kind_descriptor k))"
proof -
  have "list_all (\<lambda>k. rkd_prefix (kind_descriptor k) \<noteq> [] \<and>
      \<not> List.member (rkd_prefix (kind_descriptor k)) (CHR ''_'')) all_resource_kinds"
    by code_simp
  then show ?thesis by (simp add: list_all_iff)
qed

instantiation ResourceKind :: linorder
begin

definition less_eq_ResourceKind :: "ResourceKind \<Rightarrow> ResourceKind \<Rightarrow> bool" where
  "less_eq_ResourceKind a b \<longleftrightarrow> kind_rank a \<le> kind_rank b"

definition less_ResourceKind :: "ResourceKind \<Rightarrow> ResourceKind \<Rightarrow> bool" where
  "less_ResourceKind a b \<longleftrightarrow> kind_rank a < kind_rank b"

instance
  by standard (auto simp: less_eq_ResourceKind_def less_ResourceKind_def dest!: antisym)

end

section \<open>Nominal identities\<close>

datatype ResourceId = ResourceId (rid_kind: ResourceKind) (rid_uuid: u128)

text \<open>The derived \<open>Ord\<close>: lexicographic in the declaration order of the fields.\<close>

instantiation ResourceId :: linorder
begin

definition less_eq_ResourceId :: "ResourceId \<Rightarrow> ResourceId \<Rightarrow> bool" where
  "less_eq_ResourceId a b \<longleftrightarrow>
     rid_kind a < rid_kind b \<or> rid_kind a = rid_kind b \<and> rid_uuid a \<le> rid_uuid b"

definition less_ResourceId :: "ResourceId \<Rightarrow> ResourceId \<Rightarrow> bool" where
  "less_ResourceId a b \<longleftrightarrow>
     rid_kind a < rid_kind b \<or> rid_kind a = rid_kind b \<and> rid_uuid a < rid_uuid b"

instance
  by standard (auto simp: less_eq_ResourceId_def less_ResourceId_def intro: ResourceId.expand)

end

datatype ResourceIdError =
    InvalidFormat
  | UnknownPrefix string
  | InvalidUuid
  | NotUuidV7
  | NonCanonical
  | WrongKind (expected_kind: ResourceKind) (actual_kind: ResourceKind)

text \<open>\<open>str::split_once(c)\<close>: the text before and after the first occurrence.\<close>

fun split_once :: "char \<Rightarrow> string \<Rightarrow> (string \<times> string) option" where
  "split_once c [] = None"
| "split_once c (x # xs) =
     (if x = c then Some ([], xs)
      else case split_once c xs of None \<Rightarrow> None | Some (a, b) \<Rightarrow> Some (x # a, b))"

text \<open>The uuid crate: \<open>Uuid::parse_str\<close>, \<open>Uuid::hyphenated\<close> as text, and whether the version is 7
  and the variant RFC 4122.\<close>

record uuid_codec =
  uuid_parse :: "string \<Rightarrow> u128 option"
  uuid_show :: "u128 \<Rightarrow> string"
  uuid_is_v7 :: "u128 \<Rightarrow> bool"

definition from_uuid_v7 :: "uuid_codec \<Rightarrow> ResourceKind \<Rightarrow> u128 \<Rightarrow> ResourceIdError + ResourceId" where
  "from_uuid_v7 uc k u = (if \<not> uuid_is_v7 uc u then Inl NotUuidV7 else Inr (ResourceId k u))"

definition show_resource_id :: "uuid_codec \<Rightarrow> ResourceId \<Rightarrow> string" where
  "show_resource_id uc i = rkd_prefix (kind_descriptor (rid_kind i)) @ ''_'' @ uuid_show uc (rid_uuid i)"

definition parse_resource_id :: "uuid_codec \<Rightarrow> string \<Rightarrow> ResourceIdError + ResourceId" where
  "parse_resource_id uc value =
     (case split_once (CHR ''_'') value of
        None \<Rightarrow> Inl InvalidFormat
      | Some (prefix, raw_uuid) \<Rightarrow>
          if prefix = [] \<or> raw_uuid = [] \<or> CHR ''_'' \<in> set raw_uuid then Inl InvalidFormat
          else rbind (ok_or (UnknownPrefix prefix) (from_prefix prefix)) (\<lambda>k.
               rbind (ok_or InvalidUuid (uuid_parse uc raw_uuid)) (\<lambda>u.
               if \<not> uuid_is_v7 uc u then Inl NotUuidV7
               else let parsed = ResourceId k u in
                 if show_resource_id uc parsed \<noteq> value then Inl NonCanonical else Inr parsed)))"

definition parse_expected :: "uuid_codec \<Rightarrow> string \<Rightarrow> ResourceKind \<Rightarrow> ResourceIdError + ResourceId" where
  "parse_expected uc value expected =
     rbind (parse_resource_id uc value) (\<lambda>parsed.
       if rid_kind parsed \<noteq> expected then Inl (WrongKind expected (rid_kind parsed)) else Inr parsed)"

text \<open>Documented behaviour of the uuid crate: the hyphenated form has no underscore, is not empty,
  and parses back to the same value.\<close>

definition uuid_codec_ok :: "uuid_codec \<Rightarrow> bool" where
  "uuid_codec_ok uc \<longleftrightarrow>
     (\<forall>u. uuid_parse uc (uuid_show uc u) = Some u \<and> uuid_show uc u \<noteq> []
        \<and> CHR ''_'' \<notin> set (uuid_show uc u))"

lemma split_once_append: "c \<notin> set a \<Longrightarrow> split_once c (a @ c # b) = Some (a, b)"
  by (induction a) auto

lemma split_once_Some: "split_once c s = Some (a, b) \<Longrightarrow> s = a @ c # b \<and> c \<notin> set a"
  by (induction s arbitrary: a) (auto split: if_splits option.splits)

lemma parse_resource_id_Inr:
  assumes "parse_resource_id uc s = Inr i"
  shows "show_resource_id uc i = s \<and> uuid_is_v7 uc (rid_uuid i)"
  using assms unfolding parse_resource_id_def
  by (auto simp: result_simps Let_def split: option.splits prod.splits if_splits)

section \<open>Digests\<close>

text \<open>\<open>Sha256Digest\<close> is a checked newtype over its text; its derived order is the text's.\<close>

type_synonym Sha256Digest = string

definition is_lower_hex :: "char \<Rightarrow> bool" where
  "is_lower_hex c \<longleftrightarrow> is_ascii_digit c \<or> (97 \<le> byte_of c \<and> byte_of c \<le> 102)"

definition parse_digest :: "string \<Rightarrow> Sha256Digest option" where
  "parse_digest value =
     (if take 7 value \<noteq> ''sha256:'' then None
      else let hex = drop 7 value in
        if length hex \<noteq> 64 \<or> \<not> list_all is_lower_hex hex then None else Some value)"

end
