(* ===== verification/States.thy ===== *)
theory States
  imports Ids
begin

text \<open>
  The closed state machines of \<open>platform-contracts/src/state.rs\<close>.  The Rust macro
  \<open>closed_state_machine!\<close> generates, for each table, an enum, its wire text, its transition test,
  its descriptor and its parser; here the generated functions are written once over a list of
  states (\<open>descriptor\<close>, \<open>state_from_str\<close>), each table gives an enum, its texts and its targets,
  and the locale \<open>closed_machine\<close> proves once what holds of every table.  Each machine
  interprets it.  The first section is the commit rule of a fenced attempt.
\<close>

section \<open>Attempt commit disposition\<close>

datatype AttemptCommitDisposition = Committed | RejectedStaleFence | RejectedTerminalWinner

definition attempt_commit_disposition :: "u64 \<Rightarrow> u64 \<Rightarrow> bool \<Rightarrow> AttemptCommitDisposition" where
  "attempt_commit_disposition stored_epoch attempt_epoch terminal_already_committed =
     (if attempt_epoch \<noteq> stored_epoch then RejectedStaleFence
      else if terminal_already_committed then RejectedTerminalWinner
      else Committed)"

section \<open>The functions the macro generates\<close>

record StateMachineDescriptor =
  sm_name :: string
  sm_states :: "string list"
  sm_transitions :: "(string \<times> string) list"
  sm_terminal_states :: "string list"

datatype StateParseError = StateParseError (spe_machine: string) (spe_value: string)

definition descriptor ::
  "string \<Rightarrow> 's list \<Rightarrow> ('s \<Rightarrow> string) \<Rightarrow> ('s \<Rightarrow> 's \<Rightarrow> bool) \<Rightarrow> StateMachineDescriptor" where
  "descriptor machine all as_str can =
     \<lparr>sm_name = machine,
      sm_states = map as_str all,
      sm_transitions =
        concat (map (\<lambda>s. map (\<lambda>t. (as_str s, as_str t)) (filter (can s) all)) all),
      sm_terminal_states = map as_str (filter (\<lambda>s. \<not> list_ex (can s) all) all)\<rparr>"

definition state_from_str ::
  "string \<Rightarrow> 's list \<Rightarrow> ('s \<Rightarrow> string) \<Rightarrow> string \<Rightarrow> StateParseError + 's" where
  "state_from_str machine all as_str v =
     ok_or (StateParseError machine v) (List.find (\<lambda>s. as_str s = v) all)"

text \<open>A machine can finish from a state within \<open>n\<close> steps when some terminal state is that close.\<close>

primrec can_finish :: "'s list \<Rightarrow> ('s \<Rightarrow> 's \<Rightarrow> bool) \<Rightarrow> nat \<Rightarrow> 's \<Rightarrow> bool" where
  "can_finish all can 0 s = (\<not> list_ex (can s) all)"
| "can_finish all can (Suc n) s =
     (\<not> list_ex (can s) all \<or> list_ex (\<lambda>t. can s t \<and> can_finish all can n t) all)"

section \<open>What holds of every closed machine\<close>

locale closed_machine = closed_registry all as_str
  for machine :: string and all :: "'s list" and as_str :: "'s \<Rightarrow> string" +
  fixes can :: "'s \<Rightarrow> 's \<Rightarrow> bool"
begin

lemma from_str_as_str: "state_from_str machine all as_str (as_str s) = Inr s"
  unfolding state_from_str_def find_as_str by simp

lemma from_str_Inr: "state_from_str machine all as_str v = Inr s \<longleftrightarrow> v = as_str s"
  by (simp add: state_from_str_def ok_or_eq_Inr find_Some)

lemma transitions_iff:
  "(as_str s, as_str t) \<in> set (sm_transitions (descriptor machine all as_str can)) \<longleftrightarrow> can s t"
  using complete by (auto simp: descriptor_def)

lemma terminal_iff:
  "as_str s \<in> set (sm_terminal_states (descriptor machine all as_str can)) \<longleftrightarrow> (\<forall>t. \<not> can s t)"
  using complete by (auto simp: descriptor_def list_ex_iff)

lemma terminal_no_edges:
  assumes "w \<in> set (sm_terminal_states (descriptor machine all as_str can))"
  shows "(w, v) \<notin> set (sm_transitions (descriptor machine all as_str can))"
  using assms by (auto simp: descriptor_def list_ex_iff)

lemma descriptor_distinct: "distinct (sm_states (descriptor machine all as_str can))"
  by (simp add: descriptor_def unique_wires)

lemma can_finish_reaches:
  "can_finish all can n s \<Longrightarrow> \<exists>t. can\<^sup>*\<^sup>* s t \<and> (\<forall>u. \<not> can t u)"
proof (induction n arbitrary: s)
  case 0
  then show ?case using complete by (auto simp: list_ex_iff)
next
  case (Suc n)
  show ?case
  proof (cases "list_ex (can s) all")
    case False
    then show ?thesis using complete by (auto simp: list_ex_iff)
  next
    case True
    with Suc.prems obtain t where "can s t" "can_finish all can n t"
      by (auto simp: list_ex_iff)
    with Suc.IH show ?thesis by (meson converse_rtranclp_into_rtranclp)
  qed
qed

end

section \<open>The machines\<close>

subsection \<open>EntityLifecycle (entity lifecycle)\<close>

datatype (plugins only: code) EntityLifecycle = Active | Archived | Retired

primrec entity_lifecycle_str :: "EntityLifecycle \<Rightarrow> string" where
  "entity_lifecycle_str EntityLifecycle.Active = ''active''"
| "entity_lifecycle_str EntityLifecycle.Archived = ''archived''"
| "entity_lifecycle_str EntityLifecycle.Retired = ''retired''"

primrec entity_lifecycle_targets :: "EntityLifecycle \<Rightarrow> EntityLifecycle list" where
  "entity_lifecycle_targets EntityLifecycle.Active = [EntityLifecycle.Archived, EntityLifecycle.Retired]"
| "entity_lifecycle_targets EntityLifecycle.Archived = [EntityLifecycle.Active, EntityLifecycle.Retired]"
| "entity_lifecycle_targets EntityLifecycle.Retired = []"

definition all_entity_lifecycle :: "EntityLifecycle list" where
  "all_entity_lifecycle = [EntityLifecycle.Active, EntityLifecycle.Archived, EntityLifecycle.Retired]"

definition entity_lifecycle_can_transition_to :: "EntityLifecycle \<Rightarrow> EntityLifecycle \<Rightarrow> bool" where
  "entity_lifecycle_can_transition_to s t \<longleftrightarrow> t \<in> set (entity_lifecycle_targets s)"

interpretation entity_lifecycle_m: closed_machine "''entity_lifecycle''" all_entity_lifecycle entity_lifecycle_str entity_lifecycle_can_transition_to
proof
  show "x \<in> set all_entity_lifecycle" for x
    by (cases x) (simp_all add: all_entity_lifecycle_def)
  show "distinct (map entity_lifecycle_str all_entity_lifecycle)"
    by code_simp
qed

subsection \<open>AdministrativeGate (administrative gate)\<close>

datatype (plugins only: code) AdministrativeGate = Enabled | Suspended

primrec administrative_gate_str :: "AdministrativeGate \<Rightarrow> string" where
  "administrative_gate_str AdministrativeGate.Enabled = ''enabled''"
| "administrative_gate_str AdministrativeGate.Suspended = ''suspended''"

primrec administrative_gate_targets :: "AdministrativeGate \<Rightarrow> AdministrativeGate list" where
  "administrative_gate_targets AdministrativeGate.Enabled = [AdministrativeGate.Suspended]"
| "administrative_gate_targets AdministrativeGate.Suspended = [AdministrativeGate.Enabled]"

definition all_administrative_gate :: "AdministrativeGate list" where
  "all_administrative_gate = [AdministrativeGate.Enabled, AdministrativeGate.Suspended]"

definition administrative_gate_can_transition_to :: "AdministrativeGate \<Rightarrow> AdministrativeGate \<Rightarrow> bool" where
  "administrative_gate_can_transition_to s t \<longleftrightarrow> t \<in> set (administrative_gate_targets s)"

interpretation administrative_gate_m: closed_machine "''administrative_gate''" all_administrative_gate administrative_gate_str administrative_gate_can_transition_to
proof
  show "x \<in> set all_administrative_gate" for x
    by (cases x) (simp_all add: all_administrative_gate_def)
  show "distinct (map administrative_gate_str all_administrative_gate)"
    by code_simp
qed

subsection \<open>PrincipalIdentityState (principal identity)\<close>

datatype (plugins only: code) PrincipalIdentityState = Active | Revoked

primrec principal_identity_state_str :: "PrincipalIdentityState \<Rightarrow> string" where
  "principal_identity_state_str PrincipalIdentityState.Active = ''active''"
| "principal_identity_state_str PrincipalIdentityState.Revoked = ''revoked''"

primrec principal_identity_state_targets :: "PrincipalIdentityState \<Rightarrow> PrincipalIdentityState list" where
  "principal_identity_state_targets PrincipalIdentityState.Active = [PrincipalIdentityState.Revoked]"
| "principal_identity_state_targets PrincipalIdentityState.Revoked = []"

definition all_principal_identity_state :: "PrincipalIdentityState list" where
  "all_principal_identity_state = [PrincipalIdentityState.Active, PrincipalIdentityState.Revoked]"

definition principal_identity_state_can_transition_to :: "PrincipalIdentityState \<Rightarrow> PrincipalIdentityState \<Rightarrow> bool" where
  "principal_identity_state_can_transition_to s t \<longleftrightarrow> t \<in> set (principal_identity_state_targets s)"

interpretation principal_identity_m: closed_machine "''principal_identity''" all_principal_identity_state principal_identity_state_str principal_identity_state_can_transition_to
proof
  show "x \<in> set all_principal_identity_state" for x
    by (cases x) (simp_all add: all_principal_identity_state_def)
  show "distinct (map principal_identity_state_str all_principal_identity_state)"
    by code_simp
qed

subsection \<open>PrincipalBindingState (principal binding)\<close>

datatype (plugins only: code) PrincipalBindingState = Active | Revoked

primrec principal_binding_state_str :: "PrincipalBindingState \<Rightarrow> string" where
  "principal_binding_state_str PrincipalBindingState.Active = ''active''"
| "principal_binding_state_str PrincipalBindingState.Revoked = ''revoked''"

primrec principal_binding_state_targets :: "PrincipalBindingState \<Rightarrow> PrincipalBindingState list" where
  "principal_binding_state_targets PrincipalBindingState.Active = [PrincipalBindingState.Revoked]"
| "principal_binding_state_targets PrincipalBindingState.Revoked = []"

definition all_principal_binding_state :: "PrincipalBindingState list" where
  "all_principal_binding_state = [PrincipalBindingState.Active, PrincipalBindingState.Revoked]"

definition principal_binding_state_can_transition_to :: "PrincipalBindingState \<Rightarrow> PrincipalBindingState \<Rightarrow> bool" where
  "principal_binding_state_can_transition_to s t \<longleftrightarrow> t \<in> set (principal_binding_state_targets s)"

interpretation principal_binding_m: closed_machine "''principal_binding''" all_principal_binding_state principal_binding_state_str principal_binding_state_can_transition_to
proof
  show "x \<in> set all_principal_binding_state" for x
    by (cases x) (simp_all add: all_principal_binding_state_def)
  show "distinct (map principal_binding_state_str all_principal_binding_state)"
    by code_simp
qed

subsection \<open>SecretBindingState (secret binding)\<close>

datatype (plugins only: code) SecretBindingState = Active | Revoked

primrec secret_binding_state_str :: "SecretBindingState \<Rightarrow> string" where
  "secret_binding_state_str SecretBindingState.Active = ''active''"
| "secret_binding_state_str SecretBindingState.Revoked = ''revoked''"

primrec secret_binding_state_targets :: "SecretBindingState \<Rightarrow> SecretBindingState list" where
  "secret_binding_state_targets SecretBindingState.Active = [SecretBindingState.Revoked]"
| "secret_binding_state_targets SecretBindingState.Revoked = []"

definition all_secret_binding_state :: "SecretBindingState list" where
  "all_secret_binding_state = [SecretBindingState.Active, SecretBindingState.Revoked]"

definition secret_binding_state_can_transition_to :: "SecretBindingState \<Rightarrow> SecretBindingState \<Rightarrow> bool" where
  "secret_binding_state_can_transition_to s t \<longleftrightarrow> t \<in> set (secret_binding_state_targets s)"

interpretation secret_binding_m: closed_machine "''secret_binding''" all_secret_binding_state secret_binding_state_str secret_binding_state_can_transition_to
proof
  show "x \<in> set all_secret_binding_state" for x
    by (cases x) (simp_all add: all_secret_binding_state_def)
  show "distinct (map secret_binding_state_str all_secret_binding_state)"
    by code_simp
qed

subsection \<open>ApprovalState (approval task)\<close>

datatype (plugins only: code) ApprovalState = Pending | Approved | Rejected | Expired | Cancelled

primrec approval_state_str :: "ApprovalState \<Rightarrow> string" where
  "approval_state_str ApprovalState.Pending = ''pending''"
| "approval_state_str ApprovalState.Approved = ''approved''"
| "approval_state_str ApprovalState.Rejected = ''rejected''"
| "approval_state_str ApprovalState.Expired = ''expired''"
| "approval_state_str ApprovalState.Cancelled = ''cancelled''"

primrec approval_state_targets :: "ApprovalState \<Rightarrow> ApprovalState list" where
  "approval_state_targets ApprovalState.Pending = [ApprovalState.Approved, ApprovalState.Rejected, ApprovalState.Expired, ApprovalState.Cancelled]"
| "approval_state_targets ApprovalState.Approved = []"
| "approval_state_targets ApprovalState.Rejected = []"
| "approval_state_targets ApprovalState.Expired = []"
| "approval_state_targets ApprovalState.Cancelled = []"

definition all_approval_state :: "ApprovalState list" where
  "all_approval_state = [ApprovalState.Pending, ApprovalState.Approved, ApprovalState.Rejected, ApprovalState.Expired, ApprovalState.Cancelled]"

definition approval_state_can_transition_to :: "ApprovalState \<Rightarrow> ApprovalState \<Rightarrow> bool" where
  "approval_state_can_transition_to s t \<longleftrightarrow> t \<in> set (approval_state_targets s)"

interpretation approval_m: closed_machine "''approval_task''" all_approval_state approval_state_str approval_state_can_transition_to
proof
  show "x \<in> set all_approval_state" for x
    by (cases x) (simp_all add: all_approval_state_def)
  show "distinct (map approval_state_str all_approval_state)"
    by code_simp
qed

subsection \<open>RunState (run)\<close>

datatype (plugins only: code) RunState = Queued | Running | Waiting | Cancelling | Succeeded | Failed | Cancelled | TimedOut

primrec run_state_str :: "RunState \<Rightarrow> string" where
  "run_state_str RunState.Queued = ''queued''"
| "run_state_str RunState.Running = ''running''"
| "run_state_str RunState.Waiting = ''waiting''"
| "run_state_str RunState.Cancelling = ''cancelling''"
| "run_state_str RunState.Succeeded = ''succeeded''"
| "run_state_str RunState.Failed = ''failed''"
| "run_state_str RunState.Cancelled = ''cancelled''"
| "run_state_str RunState.TimedOut = ''timed_out''"

primrec run_state_targets :: "RunState \<Rightarrow> RunState list" where
  "run_state_targets RunState.Queued = [RunState.Running, RunState.Cancelling, RunState.TimedOut]"
| "run_state_targets RunState.Running = [RunState.Waiting, RunState.Cancelling, RunState.Succeeded, RunState.Failed, RunState.TimedOut]"
| "run_state_targets RunState.Waiting = [RunState.Running, RunState.Cancelling, RunState.Failed, RunState.TimedOut]"
| "run_state_targets RunState.Cancelling = [RunState.Cancelled, RunState.Failed, RunState.TimedOut]"
| "run_state_targets RunState.Succeeded = []"
| "run_state_targets RunState.Failed = []"
| "run_state_targets RunState.Cancelled = []"
| "run_state_targets RunState.TimedOut = []"

definition all_run_state :: "RunState list" where
  "all_run_state = [RunState.Queued, RunState.Running, RunState.Waiting, RunState.Cancelling, RunState.Succeeded, RunState.Failed, RunState.Cancelled, RunState.TimedOut]"

definition run_state_can_transition_to :: "RunState \<Rightarrow> RunState \<Rightarrow> bool" where
  "run_state_can_transition_to s t \<longleftrightarrow> t \<in> set (run_state_targets s)"

interpretation run_m: closed_machine "''run''" all_run_state run_state_str run_state_can_transition_to
proof
  show "x \<in> set all_run_state" for x
    by (cases x) (simp_all add: all_run_state_def)
  show "distinct (map run_state_str all_run_state)"
    by code_simp
qed

subsection \<open>ScopeState (scope instance)\<close>

datatype (plugins only: code) ScopeState = Open | Closing | Succeeded | Failed | Cancelled

primrec scope_state_str :: "ScopeState \<Rightarrow> string" where
  "scope_state_str ScopeState.Open = ''open''"
| "scope_state_str ScopeState.Closing = ''closing''"
| "scope_state_str ScopeState.Succeeded = ''succeeded''"
| "scope_state_str ScopeState.Failed = ''failed''"
| "scope_state_str ScopeState.Cancelled = ''cancelled''"

primrec scope_state_targets :: "ScopeState \<Rightarrow> ScopeState list" where
  "scope_state_targets ScopeState.Open = [ScopeState.Closing]"
| "scope_state_targets ScopeState.Closing = [ScopeState.Succeeded, ScopeState.Failed, ScopeState.Cancelled]"
| "scope_state_targets ScopeState.Succeeded = []"
| "scope_state_targets ScopeState.Failed = []"
| "scope_state_targets ScopeState.Cancelled = []"

definition all_scope_state :: "ScopeState list" where
  "all_scope_state = [ScopeState.Open, ScopeState.Closing, ScopeState.Succeeded, ScopeState.Failed, ScopeState.Cancelled]"

definition scope_state_can_transition_to :: "ScopeState \<Rightarrow> ScopeState \<Rightarrow> bool" where
  "scope_state_can_transition_to s t \<longleftrightarrow> t \<in> set (scope_state_targets s)"

interpretation scope_m: closed_machine "''scope_instance''" all_scope_state scope_state_str scope_state_can_transition_to
proof
  show "x \<in> set all_scope_state" for x
    by (cases x) (simp_all add: all_scope_state_def)
  show "distinct (map scope_state_str all_scope_state)"
    by code_simp
qed

subsection \<open>NodeExecutionState (node execution)\<close>

datatype (plugins only: code) NodeExecutionState = Pending | Ready | Running | Waiting | RetryScheduled | Cancelling | Succeeded | Failed | Cancelled | TimedOut

primrec node_execution_state_str :: "NodeExecutionState \<Rightarrow> string" where
  "node_execution_state_str NodeExecutionState.Pending = ''pending''"
| "node_execution_state_str NodeExecutionState.Ready = ''ready''"
| "node_execution_state_str NodeExecutionState.Running = ''running''"
| "node_execution_state_str NodeExecutionState.Waiting = ''waiting''"
| "node_execution_state_str NodeExecutionState.RetryScheduled = ''retry_scheduled''"
| "node_execution_state_str NodeExecutionState.Cancelling = ''cancelling''"
| "node_execution_state_str NodeExecutionState.Succeeded = ''succeeded''"
| "node_execution_state_str NodeExecutionState.Failed = ''failed''"
| "node_execution_state_str NodeExecutionState.Cancelled = ''cancelled''"
| "node_execution_state_str NodeExecutionState.TimedOut = ''timed_out''"

primrec node_execution_state_targets :: "NodeExecutionState \<Rightarrow> NodeExecutionState list" where
  "node_execution_state_targets NodeExecutionState.Pending = [NodeExecutionState.Ready, NodeExecutionState.Failed, NodeExecutionState.Cancelled, NodeExecutionState.TimedOut]"
| "node_execution_state_targets NodeExecutionState.Ready = [NodeExecutionState.Running, NodeExecutionState.Cancelled, NodeExecutionState.TimedOut]"
| "node_execution_state_targets NodeExecutionState.Running = [NodeExecutionState.Waiting, NodeExecutionState.RetryScheduled, NodeExecutionState.Cancelling, NodeExecutionState.Succeeded, NodeExecutionState.Failed, NodeExecutionState.TimedOut]"
| "node_execution_state_targets NodeExecutionState.Waiting = [NodeExecutionState.Ready, NodeExecutionState.Cancelling, NodeExecutionState.Failed, NodeExecutionState.Cancelled, NodeExecutionState.TimedOut]"
| "node_execution_state_targets NodeExecutionState.RetryScheduled = [NodeExecutionState.Ready, NodeExecutionState.Cancelling, NodeExecutionState.Cancelled, NodeExecutionState.TimedOut]"
| "node_execution_state_targets NodeExecutionState.Cancelling = [NodeExecutionState.Cancelled, NodeExecutionState.Failed, NodeExecutionState.TimedOut]"
| "node_execution_state_targets NodeExecutionState.Succeeded = []"
| "node_execution_state_targets NodeExecutionState.Failed = []"
| "node_execution_state_targets NodeExecutionState.Cancelled = []"
| "node_execution_state_targets NodeExecutionState.TimedOut = []"

definition all_node_execution_state :: "NodeExecutionState list" where
  "all_node_execution_state = [NodeExecutionState.Pending, NodeExecutionState.Ready, NodeExecutionState.Running, NodeExecutionState.Waiting, NodeExecutionState.RetryScheduled, NodeExecutionState.Cancelling, NodeExecutionState.Succeeded, NodeExecutionState.Failed, NodeExecutionState.Cancelled, NodeExecutionState.TimedOut]"

definition node_execution_state_can_transition_to :: "NodeExecutionState \<Rightarrow> NodeExecutionState \<Rightarrow> bool" where
  "node_execution_state_can_transition_to s t \<longleftrightarrow> t \<in> set (node_execution_state_targets s)"

interpretation node_execution_m: closed_machine "''node_execution''" all_node_execution_state node_execution_state_str node_execution_state_can_transition_to
proof
  show "x \<in> set all_node_execution_state" for x
    by (cases x) (simp_all add: all_node_execution_state_def)
  show "distinct (map node_execution_state_str all_node_execution_state)"
    by code_simp
qed

subsection \<open>AttemptObservationState (attempt observation)\<close>

datatype (plugins only: code) AttemptObservationState = Leased | Started | Succeeded | Failed | Cancelled | TimedOut | Lost

primrec attempt_observation_state_str :: "AttemptObservationState \<Rightarrow> string" where
  "attempt_observation_state_str AttemptObservationState.Leased = ''leased''"
| "attempt_observation_state_str AttemptObservationState.Started = ''started''"
| "attempt_observation_state_str AttemptObservationState.Succeeded = ''succeeded''"
| "attempt_observation_state_str AttemptObservationState.Failed = ''failed''"
| "attempt_observation_state_str AttemptObservationState.Cancelled = ''cancelled''"
| "attempt_observation_state_str AttemptObservationState.TimedOut = ''timed_out''"
| "attempt_observation_state_str AttemptObservationState.Lost = ''lost''"

primrec attempt_observation_state_targets :: "AttemptObservationState \<Rightarrow> AttemptObservationState list" where
  "attempt_observation_state_targets AttemptObservationState.Leased = [AttemptObservationState.Started, AttemptObservationState.Cancelled, AttemptObservationState.TimedOut, AttemptObservationState.Lost]"
| "attempt_observation_state_targets AttemptObservationState.Started = [AttemptObservationState.Succeeded, AttemptObservationState.Failed, AttemptObservationState.Cancelled, AttemptObservationState.TimedOut, AttemptObservationState.Lost]"
| "attempt_observation_state_targets AttemptObservationState.Succeeded = []"
| "attempt_observation_state_targets AttemptObservationState.Failed = []"
| "attempt_observation_state_targets AttemptObservationState.Cancelled = []"
| "attempt_observation_state_targets AttemptObservationState.TimedOut = []"
| "attempt_observation_state_targets AttemptObservationState.Lost = []"

definition all_attempt_observation_state :: "AttemptObservationState list" where
  "all_attempt_observation_state = [AttemptObservationState.Leased, AttemptObservationState.Started, AttemptObservationState.Succeeded, AttemptObservationState.Failed, AttemptObservationState.Cancelled, AttemptObservationState.TimedOut, AttemptObservationState.Lost]"

definition attempt_observation_state_can_transition_to :: "AttemptObservationState \<Rightarrow> AttemptObservationState \<Rightarrow> bool" where
  "attempt_observation_state_can_transition_to s t \<longleftrightarrow> t \<in> set (attempt_observation_state_targets s)"

interpretation attempt_observation_m: closed_machine "''attempt_observation''" all_attempt_observation_state attempt_observation_state_str attempt_observation_state_can_transition_to
proof
  show "x \<in> set all_attempt_observation_state" for x
    by (cases x) (simp_all add: all_attempt_observation_state_def)
  show "distinct (map attempt_observation_state_str all_attempt_observation_state)"
    by code_simp
qed

subsection \<open>JobState (job)\<close>

datatype (plugins only: code) JobState = Ready | Leased | Running | Waiting | RetryScheduled | Cancelling | ReconciliationRequired | Succeeded | Failed | Cancelled | TimedOut

primrec job_state_str :: "JobState \<Rightarrow> string" where
  "job_state_str JobState.Ready = ''ready''"
| "job_state_str JobState.Leased = ''leased''"
| "job_state_str JobState.Running = ''running''"
| "job_state_str JobState.Waiting = ''waiting''"
| "job_state_str JobState.RetryScheduled = ''retry_scheduled''"
| "job_state_str JobState.Cancelling = ''cancelling''"
| "job_state_str JobState.ReconciliationRequired = ''reconciliation_required''"
| "job_state_str JobState.Succeeded = ''succeeded''"
| "job_state_str JobState.Failed = ''failed''"
| "job_state_str JobState.Cancelled = ''cancelled''"
| "job_state_str JobState.TimedOut = ''timed_out''"

primrec job_state_targets :: "JobState \<Rightarrow> JobState list" where
  "job_state_targets JobState.Ready = [JobState.Leased, JobState.Cancelling, JobState.Cancelled, JobState.TimedOut]"
| "job_state_targets JobState.Leased = [JobState.Running, JobState.Ready, JobState.Cancelling, JobState.Cancelled, JobState.TimedOut]"
| "job_state_targets JobState.Running = [JobState.Ready, JobState.Waiting, JobState.RetryScheduled, JobState.Cancelling, JobState.Succeeded, JobState.Failed, JobState.Cancelled, JobState.TimedOut, JobState.ReconciliationRequired]"
| "job_state_targets JobState.Waiting = [JobState.Ready, JobState.Cancelling, JobState.Succeeded, JobState.Failed, JobState.Cancelled, JobState.TimedOut, JobState.ReconciliationRequired]"
| "job_state_targets JobState.RetryScheduled = [JobState.Ready, JobState.Cancelling, JobState.Cancelled, JobState.TimedOut]"
| "job_state_targets JobState.Cancelling = [JobState.Cancelled, JobState.Failed, JobState.TimedOut, JobState.ReconciliationRequired]"
| "job_state_targets JobState.ReconciliationRequired = [JobState.Succeeded, JobState.Failed, JobState.Cancelled]"
| "job_state_targets JobState.Succeeded = []"
| "job_state_targets JobState.Failed = []"
| "job_state_targets JobState.Cancelled = []"
| "job_state_targets JobState.TimedOut = []"

definition all_job_state :: "JobState list" where
  "all_job_state = [JobState.Ready, JobState.Leased, JobState.Running, JobState.Waiting, JobState.RetryScheduled, JobState.Cancelling, JobState.ReconciliationRequired, JobState.Succeeded, JobState.Failed, JobState.Cancelled, JobState.TimedOut]"

definition job_state_can_transition_to :: "JobState \<Rightarrow> JobState \<Rightarrow> bool" where
  "job_state_can_transition_to s t \<longleftrightarrow> t \<in> set (job_state_targets s)"

interpretation job_m: closed_machine "''job''" all_job_state job_state_str job_state_can_transition_to
proof
  show "x \<in> set all_job_state" for x
    by (cases x) (simp_all add: all_job_state_def)
  show "distinct (map job_state_str all_job_state)"
    by code_simp
qed

subsection \<open>WakeContractState (wake contract)\<close>

datatype (plugins only: code) WakeContractState = Pending | Consumed | Cancelled | TimedOut

primrec wake_contract_state_str :: "WakeContractState \<Rightarrow> string" where
  "wake_contract_state_str WakeContractState.Pending = ''pending''"
| "wake_contract_state_str WakeContractState.Consumed = ''consumed''"
| "wake_contract_state_str WakeContractState.Cancelled = ''cancelled''"
| "wake_contract_state_str WakeContractState.TimedOut = ''timed_out''"

primrec wake_contract_state_targets :: "WakeContractState \<Rightarrow> WakeContractState list" where
  "wake_contract_state_targets WakeContractState.Pending = [WakeContractState.Consumed, WakeContractState.Cancelled, WakeContractState.TimedOut]"
| "wake_contract_state_targets WakeContractState.Consumed = []"
| "wake_contract_state_targets WakeContractState.Cancelled = []"
| "wake_contract_state_targets WakeContractState.TimedOut = []"

definition all_wake_contract_state :: "WakeContractState list" where
  "all_wake_contract_state = [WakeContractState.Pending, WakeContractState.Consumed, WakeContractState.Cancelled, WakeContractState.TimedOut]"

definition wake_contract_state_can_transition_to :: "WakeContractState \<Rightarrow> WakeContractState \<Rightarrow> bool" where
  "wake_contract_state_can_transition_to s t \<longleftrightarrow> t \<in> set (wake_contract_state_targets s)"

interpretation wake_contract_m: closed_machine "''wake_contract''" all_wake_contract_state wake_contract_state_str wake_contract_state_can_transition_to
proof
  show "x \<in> set all_wake_contract_state" for x
    by (cases x) (simp_all add: all_wake_contract_state_def)
  show "distinct (map wake_contract_state_str all_wake_contract_state)"
    by code_simp
qed

subsection \<open>InteractionState (interaction task)\<close>

datatype (plugins only: code) InteractionState = Pending | Responded | Declined | Cancelled | Expired

primrec interaction_state_str :: "InteractionState \<Rightarrow> string" where
  "interaction_state_str InteractionState.Pending = ''pending''"
| "interaction_state_str InteractionState.Responded = ''responded''"
| "interaction_state_str InteractionState.Declined = ''declined''"
| "interaction_state_str InteractionState.Cancelled = ''cancelled''"
| "interaction_state_str InteractionState.Expired = ''expired''"

primrec interaction_state_targets :: "InteractionState \<Rightarrow> InteractionState list" where
  "interaction_state_targets InteractionState.Pending = [InteractionState.Responded, InteractionState.Declined, InteractionState.Cancelled, InteractionState.Expired]"
| "interaction_state_targets InteractionState.Responded = []"
| "interaction_state_targets InteractionState.Declined = []"
| "interaction_state_targets InteractionState.Cancelled = []"
| "interaction_state_targets InteractionState.Expired = []"

definition all_interaction_state :: "InteractionState list" where
  "all_interaction_state = [InteractionState.Pending, InteractionState.Responded, InteractionState.Declined, InteractionState.Cancelled, InteractionState.Expired]"

definition interaction_state_can_transition_to :: "InteractionState \<Rightarrow> InteractionState \<Rightarrow> bool" where
  "interaction_state_can_transition_to s t \<longleftrightarrow> t \<in> set (interaction_state_targets s)"

interpretation interaction_m: closed_machine "''interaction_task''" all_interaction_state interaction_state_str interaction_state_can_transition_to
proof
  show "x \<in> set all_interaction_state" for x
    by (cases x) (simp_all add: all_interaction_state_def)
  show "distinct (map interaction_state_str all_interaction_state)"
    by code_simp
qed

subsection \<open>InvocationState (capability invocation)\<close>

datatype (plugins only: code) InvocationState = Created | AwaitingApproval | Ready | InFlight | Deferred | AwaitingInput | RetryScheduled | Cancelling | ReconciliationRequired | Succeeded | Failed | Cancelled | TimedOut

primrec invocation_state_str :: "InvocationState \<Rightarrow> string" where
  "invocation_state_str InvocationState.Created = ''created''"
| "invocation_state_str InvocationState.AwaitingApproval = ''awaiting_approval''"
| "invocation_state_str InvocationState.Ready = ''ready''"
| "invocation_state_str InvocationState.InFlight = ''in_flight''"
| "invocation_state_str InvocationState.Deferred = ''deferred''"
| "invocation_state_str InvocationState.AwaitingInput = ''awaiting_input''"
| "invocation_state_str InvocationState.RetryScheduled = ''retry_scheduled''"
| "invocation_state_str InvocationState.Cancelling = ''cancelling''"
| "invocation_state_str InvocationState.ReconciliationRequired = ''reconciliation_required''"
| "invocation_state_str InvocationState.Succeeded = ''succeeded''"
| "invocation_state_str InvocationState.Failed = ''failed''"
| "invocation_state_str InvocationState.Cancelled = ''cancelled''"
| "invocation_state_str InvocationState.TimedOut = ''timed_out''"

primrec invocation_state_targets :: "InvocationState \<Rightarrow> InvocationState list" where
  "invocation_state_targets InvocationState.Created = [InvocationState.AwaitingApproval, InvocationState.Ready, InvocationState.Failed]"
| "invocation_state_targets InvocationState.AwaitingApproval = [InvocationState.Ready, InvocationState.Failed, InvocationState.Cancelled, InvocationState.TimedOut]"
| "invocation_state_targets InvocationState.Ready = [InvocationState.InFlight, InvocationState.Cancelling, InvocationState.TimedOut]"
| "invocation_state_targets InvocationState.InFlight = [InvocationState.Succeeded, InvocationState.Failed, InvocationState.Deferred, InvocationState.AwaitingInput, InvocationState.RetryScheduled, InvocationState.ReconciliationRequired, InvocationState.Cancelling, InvocationState.TimedOut]"
| "invocation_state_targets InvocationState.Deferred = [InvocationState.InFlight, InvocationState.Succeeded, InvocationState.Failed, InvocationState.AwaitingInput, InvocationState.RetryScheduled, InvocationState.ReconciliationRequired, InvocationState.Cancelling, InvocationState.TimedOut]"
| "invocation_state_targets InvocationState.AwaitingInput = [InvocationState.Ready, InvocationState.Deferred, InvocationState.Failed, InvocationState.Cancelled, InvocationState.TimedOut]"
| "invocation_state_targets InvocationState.RetryScheduled = [InvocationState.Ready, InvocationState.Deferred, InvocationState.Cancelling, InvocationState.TimedOut]"
| "invocation_state_targets InvocationState.Cancelling = [InvocationState.Cancelled, InvocationState.Failed, InvocationState.ReconciliationRequired, InvocationState.TimedOut]"
| "invocation_state_targets InvocationState.ReconciliationRequired = [InvocationState.Succeeded, InvocationState.Failed, InvocationState.Cancelled]"
| "invocation_state_targets InvocationState.Succeeded = []"
| "invocation_state_targets InvocationState.Failed = []"
| "invocation_state_targets InvocationState.Cancelled = []"
| "invocation_state_targets InvocationState.TimedOut = []"

definition all_invocation_state :: "InvocationState list" where
  "all_invocation_state = [InvocationState.Created, InvocationState.AwaitingApproval, InvocationState.Ready, InvocationState.InFlight, InvocationState.Deferred, InvocationState.AwaitingInput, InvocationState.RetryScheduled, InvocationState.Cancelling, InvocationState.ReconciliationRequired, InvocationState.Succeeded, InvocationState.Failed, InvocationState.Cancelled, InvocationState.TimedOut]"

definition invocation_state_can_transition_to :: "InvocationState \<Rightarrow> InvocationState \<Rightarrow> bool" where
  "invocation_state_can_transition_to s t \<longleftrightarrow> t \<in> set (invocation_state_targets s)"

interpretation invocation_m: closed_machine "''capability_invocation''" all_invocation_state invocation_state_str invocation_state_can_transition_to
proof
  show "x \<in> set all_invocation_state" for x
    by (cases x) (simp_all add: all_invocation_state_def)
  show "distinct (map invocation_state_str all_invocation_state)"
    by code_simp
qed

subsection \<open>SkillActivationState (skill activation)\<close>

datatype (plugins only: code) SkillActivationState = Proposed | Active | Rejected | Superseded

primrec skill_activation_state_str :: "SkillActivationState \<Rightarrow> string" where
  "skill_activation_state_str SkillActivationState.Proposed = ''proposed''"
| "skill_activation_state_str SkillActivationState.Active = ''active''"
| "skill_activation_state_str SkillActivationState.Rejected = ''rejected''"
| "skill_activation_state_str SkillActivationState.Superseded = ''superseded''"

primrec skill_activation_state_targets :: "SkillActivationState \<Rightarrow> SkillActivationState list" where
  "skill_activation_state_targets SkillActivationState.Proposed = [SkillActivationState.Active, SkillActivationState.Rejected]"
| "skill_activation_state_targets SkillActivationState.Active = [SkillActivationState.Superseded]"
| "skill_activation_state_targets SkillActivationState.Rejected = []"
| "skill_activation_state_targets SkillActivationState.Superseded = []"

definition all_skill_activation_state :: "SkillActivationState list" where
  "all_skill_activation_state = [SkillActivationState.Proposed, SkillActivationState.Active, SkillActivationState.Rejected, SkillActivationState.Superseded]"

definition skill_activation_state_can_transition_to :: "SkillActivationState \<Rightarrow> SkillActivationState \<Rightarrow> bool" where
  "skill_activation_state_can_transition_to s t \<longleftrightarrow> t \<in> set (skill_activation_state_targets s)"

interpretation skill_activation_m: closed_machine "''skill_activation''" all_skill_activation_state skill_activation_state_str skill_activation_state_can_transition_to
proof
  show "x \<in> set all_skill_activation_state" for x
    by (cases x) (simp_all add: all_skill_activation_state_def)
  show "distinct (map skill_activation_state_str all_skill_activation_state)"
    by code_simp
qed

subsection \<open>ContextQueryState (context query)\<close>

datatype (plugins only: code) ContextQueryState = Created | AwaitingAuthorization | Ready | InFlight | Deferred | RetryScheduled | Succeeded | Failed | Cancelled | TimedOut

primrec context_query_state_str :: "ContextQueryState \<Rightarrow> string" where
  "context_query_state_str ContextQueryState.Created = ''created''"
| "context_query_state_str ContextQueryState.AwaitingAuthorization = ''awaiting_authorization''"
| "context_query_state_str ContextQueryState.Ready = ''ready''"
| "context_query_state_str ContextQueryState.InFlight = ''in_flight''"
| "context_query_state_str ContextQueryState.Deferred = ''deferred''"
| "context_query_state_str ContextQueryState.RetryScheduled = ''retry_scheduled''"
| "context_query_state_str ContextQueryState.Succeeded = ''succeeded''"
| "context_query_state_str ContextQueryState.Failed = ''failed''"
| "context_query_state_str ContextQueryState.Cancelled = ''cancelled''"
| "context_query_state_str ContextQueryState.TimedOut = ''timed_out''"

primrec context_query_state_targets :: "ContextQueryState \<Rightarrow> ContextQueryState list" where
  "context_query_state_targets ContextQueryState.Created = [ContextQueryState.AwaitingAuthorization, ContextQueryState.Ready, ContextQueryState.Failed, ContextQueryState.Cancelled, ContextQueryState.TimedOut]"
| "context_query_state_targets ContextQueryState.AwaitingAuthorization = [ContextQueryState.Ready, ContextQueryState.Failed, ContextQueryState.Cancelled, ContextQueryState.TimedOut]"
| "context_query_state_targets ContextQueryState.Ready = [ContextQueryState.InFlight, ContextQueryState.Cancelled, ContextQueryState.TimedOut]"
| "context_query_state_targets ContextQueryState.InFlight = [ContextQueryState.Succeeded, ContextQueryState.Deferred, ContextQueryState.RetryScheduled, ContextQueryState.Failed, ContextQueryState.Cancelled, ContextQueryState.TimedOut]"
| "context_query_state_targets ContextQueryState.Deferred = [ContextQueryState.InFlight, ContextQueryState.Succeeded, ContextQueryState.RetryScheduled, ContextQueryState.Failed, ContextQueryState.Cancelled, ContextQueryState.TimedOut]"
| "context_query_state_targets ContextQueryState.RetryScheduled = [ContextQueryState.Ready, ContextQueryState.Cancelled, ContextQueryState.TimedOut]"
| "context_query_state_targets ContextQueryState.Succeeded = []"
| "context_query_state_targets ContextQueryState.Failed = []"
| "context_query_state_targets ContextQueryState.Cancelled = []"
| "context_query_state_targets ContextQueryState.TimedOut = []"

definition all_context_query_state :: "ContextQueryState list" where
  "all_context_query_state = [ContextQueryState.Created, ContextQueryState.AwaitingAuthorization, ContextQueryState.Ready, ContextQueryState.InFlight, ContextQueryState.Deferred, ContextQueryState.RetryScheduled, ContextQueryState.Succeeded, ContextQueryState.Failed, ContextQueryState.Cancelled, ContextQueryState.TimedOut]"

definition context_query_state_can_transition_to :: "ContextQueryState \<Rightarrow> ContextQueryState \<Rightarrow> bool" where
  "context_query_state_can_transition_to s t \<longleftrightarrow> t \<in> set (context_query_state_targets s)"

interpretation context_query_m: closed_machine "''context_query''" all_context_query_state context_query_state_str context_query_state_can_transition_to
proof
  show "x \<in> set all_context_query_state" for x
    by (cases x) (simp_all add: all_context_query_state_def)
  show "distinct (map context_query_state_str all_context_query_state)"
    by code_simp
qed

subsection \<open>McpSessionState (mcp session)\<close>

datatype (plugins only: code) McpSessionState = Disconnected | Connecting | Initializing | Ready | ReauthRequired | Degraded | Draining | Closed | Failed

primrec mcp_session_state_str :: "McpSessionState \<Rightarrow> string" where
  "mcp_session_state_str McpSessionState.Disconnected = ''disconnected''"
| "mcp_session_state_str McpSessionState.Connecting = ''connecting''"
| "mcp_session_state_str McpSessionState.Initializing = ''initializing''"
| "mcp_session_state_str McpSessionState.Ready = ''ready''"
| "mcp_session_state_str McpSessionState.ReauthRequired = ''reauth_required''"
| "mcp_session_state_str McpSessionState.Degraded = ''degraded''"
| "mcp_session_state_str McpSessionState.Draining = ''draining''"
| "mcp_session_state_str McpSessionState.Closed = ''closed''"
| "mcp_session_state_str McpSessionState.Failed = ''failed''"

primrec mcp_session_state_targets :: "McpSessionState \<Rightarrow> McpSessionState list" where
  "mcp_session_state_targets McpSessionState.Disconnected = [McpSessionState.Connecting]"
| "mcp_session_state_targets McpSessionState.Connecting = [McpSessionState.Initializing, McpSessionState.ReauthRequired, McpSessionState.Failed]"
| "mcp_session_state_targets McpSessionState.Initializing = [McpSessionState.Ready, McpSessionState.ReauthRequired, McpSessionState.Failed]"
| "mcp_session_state_targets McpSessionState.Ready = [McpSessionState.Degraded, McpSessionState.ReauthRequired, McpSessionState.Draining, McpSessionState.Failed]"
| "mcp_session_state_targets McpSessionState.ReauthRequired = [McpSessionState.Connecting, McpSessionState.Draining, McpSessionState.Failed]"
| "mcp_session_state_targets McpSessionState.Degraded = [McpSessionState.Ready, McpSessionState.ReauthRequired, McpSessionState.Draining, McpSessionState.Failed]"
| "mcp_session_state_targets McpSessionState.Draining = [McpSessionState.Closed, McpSessionState.Failed]"
| "mcp_session_state_targets McpSessionState.Closed = []"
| "mcp_session_state_targets McpSessionState.Failed = []"

definition all_mcp_session_state :: "McpSessionState list" where
  "all_mcp_session_state = [McpSessionState.Disconnected, McpSessionState.Connecting, McpSessionState.Initializing, McpSessionState.Ready, McpSessionState.ReauthRequired, McpSessionState.Degraded, McpSessionState.Draining, McpSessionState.Closed, McpSessionState.Failed]"

definition mcp_session_state_can_transition_to :: "McpSessionState \<Rightarrow> McpSessionState \<Rightarrow> bool" where
  "mcp_session_state_can_transition_to s t \<longleftrightarrow> t \<in> set (mcp_session_state_targets s)"

interpretation mcp_session_m: closed_machine "''mcp_session''" all_mcp_session_state mcp_session_state_str mcp_session_state_can_transition_to
proof
  show "x \<in> set all_mcp_session_state" for x
    by (cases x) (simp_all add: all_mcp_session_state_def)
  show "distinct (map mcp_session_state_str all_mcp_session_state)"
    by code_simp
qed

subsection \<open>McpAuthorizationState (mcp authorization)\<close>

datatype (plugins only: code) McpAuthorizationState = Active | ReauthRequired | Revoked | Expired

primrec mcp_authorization_state_str :: "McpAuthorizationState \<Rightarrow> string" where
  "mcp_authorization_state_str McpAuthorizationState.Active = ''active''"
| "mcp_authorization_state_str McpAuthorizationState.ReauthRequired = ''reauth_required''"
| "mcp_authorization_state_str McpAuthorizationState.Revoked = ''revoked''"
| "mcp_authorization_state_str McpAuthorizationState.Expired = ''expired''"

primrec mcp_authorization_state_targets :: "McpAuthorizationState \<Rightarrow> McpAuthorizationState list" where
  "mcp_authorization_state_targets McpAuthorizationState.Active = [McpAuthorizationState.ReauthRequired, McpAuthorizationState.Revoked, McpAuthorizationState.Expired]"
| "mcp_authorization_state_targets McpAuthorizationState.ReauthRequired = [McpAuthorizationState.Active, McpAuthorizationState.Revoked, McpAuthorizationState.Expired]"
| "mcp_authorization_state_targets McpAuthorizationState.Revoked = []"
| "mcp_authorization_state_targets McpAuthorizationState.Expired = []"

definition all_mcp_authorization_state :: "McpAuthorizationState list" where
  "all_mcp_authorization_state = [McpAuthorizationState.Active, McpAuthorizationState.ReauthRequired, McpAuthorizationState.Revoked, McpAuthorizationState.Expired]"

definition mcp_authorization_state_can_transition_to :: "McpAuthorizationState \<Rightarrow> McpAuthorizationState \<Rightarrow> bool" where
  "mcp_authorization_state_can_transition_to s t \<longleftrightarrow> t \<in> set (mcp_authorization_state_targets s)"

interpretation mcp_authorization_m: closed_machine "''mcp_authorization''" all_mcp_authorization_state mcp_authorization_state_str mcp_authorization_state_can_transition_to
proof
  show "x \<in> set all_mcp_authorization_state" for x
    by (cases x) (simp_all add: all_mcp_authorization_state_def)
  show "distinct (map mcp_authorization_state_str all_mcp_authorization_state)"
    by code_simp
qed

subsection \<open>ChildLinkState (child run link)\<close>

datatype (plugins only: code) ChildLinkState = Running | Waiting | Cancelling | Succeeded | Failed | Cancelled | TimedOut

primrec child_link_state_str :: "ChildLinkState \<Rightarrow> string" where
  "child_link_state_str ChildLinkState.Running = ''running''"
| "child_link_state_str ChildLinkState.Waiting = ''waiting''"
| "child_link_state_str ChildLinkState.Cancelling = ''cancelling''"
| "child_link_state_str ChildLinkState.Succeeded = ''succeeded''"
| "child_link_state_str ChildLinkState.Failed = ''failed''"
| "child_link_state_str ChildLinkState.Cancelled = ''cancelled''"
| "child_link_state_str ChildLinkState.TimedOut = ''timed_out''"

primrec child_link_state_targets :: "ChildLinkState \<Rightarrow> ChildLinkState list" where
  "child_link_state_targets ChildLinkState.Running = [ChildLinkState.Waiting, ChildLinkState.Cancelling, ChildLinkState.Succeeded, ChildLinkState.Failed, ChildLinkState.Cancelled, ChildLinkState.TimedOut]"
| "child_link_state_targets ChildLinkState.Waiting = [ChildLinkState.Running, ChildLinkState.Cancelling, ChildLinkState.Succeeded, ChildLinkState.Failed, ChildLinkState.Cancelled, ChildLinkState.TimedOut]"
| "child_link_state_targets ChildLinkState.Cancelling = [ChildLinkState.Succeeded, ChildLinkState.Cancelled, ChildLinkState.Failed, ChildLinkState.TimedOut]"
| "child_link_state_targets ChildLinkState.Succeeded = []"
| "child_link_state_targets ChildLinkState.Failed = []"
| "child_link_state_targets ChildLinkState.Cancelled = []"
| "child_link_state_targets ChildLinkState.TimedOut = []"

definition all_child_link_state :: "ChildLinkState list" where
  "all_child_link_state = [ChildLinkState.Running, ChildLinkState.Waiting, ChildLinkState.Cancelling, ChildLinkState.Succeeded, ChildLinkState.Failed, ChildLinkState.Cancelled, ChildLinkState.TimedOut]"

definition child_link_state_can_transition_to :: "ChildLinkState \<Rightarrow> ChildLinkState \<Rightarrow> bool" where
  "child_link_state_can_transition_to s t \<longleftrightarrow> t \<in> set (child_link_state_targets s)"

interpretation child_link_m: closed_machine "''child_run_link''" all_child_link_state child_link_state_str child_link_state_can_transition_to
proof
  show "x \<in> set all_child_link_state" for x
    by (cases x) (simp_all add: all_child_link_state_def)
  show "distinct (map child_link_state_str all_child_link_state)"
    by code_simp
qed

subsection \<open>ModelTurnState (model turn)\<close>

datatype (plugins only: code) ModelTurnState = Created | AwaitingBudget | Ready | InFlight | RetryScheduled | Cancelling | Succeeded | Failed | Cancelled | TimedOut

primrec model_turn_state_str :: "ModelTurnState \<Rightarrow> string" where
  "model_turn_state_str ModelTurnState.Created = ''created''"
| "model_turn_state_str ModelTurnState.AwaitingBudget = ''awaiting_budget''"
| "model_turn_state_str ModelTurnState.Ready = ''ready''"
| "model_turn_state_str ModelTurnState.InFlight = ''in_flight''"
| "model_turn_state_str ModelTurnState.RetryScheduled = ''retry_scheduled''"
| "model_turn_state_str ModelTurnState.Cancelling = ''cancelling''"
| "model_turn_state_str ModelTurnState.Succeeded = ''succeeded''"
| "model_turn_state_str ModelTurnState.Failed = ''failed''"
| "model_turn_state_str ModelTurnState.Cancelled = ''cancelled''"
| "model_turn_state_str ModelTurnState.TimedOut = ''timed_out''"

primrec model_turn_state_targets :: "ModelTurnState \<Rightarrow> ModelTurnState list" where
  "model_turn_state_targets ModelTurnState.Created = [ModelTurnState.AwaitingBudget, ModelTurnState.Ready, ModelTurnState.Failed, ModelTurnState.Cancelled, ModelTurnState.TimedOut]"
| "model_turn_state_targets ModelTurnState.AwaitingBudget = [ModelTurnState.Ready, ModelTurnState.Failed, ModelTurnState.Cancelled, ModelTurnState.TimedOut]"
| "model_turn_state_targets ModelTurnState.Ready = [ModelTurnState.InFlight, ModelTurnState.Cancelling, ModelTurnState.Cancelled, ModelTurnState.TimedOut]"
| "model_turn_state_targets ModelTurnState.InFlight = [ModelTurnState.Succeeded, ModelTurnState.RetryScheduled, ModelTurnState.Failed, ModelTurnState.Cancelling, ModelTurnState.TimedOut]"
| "model_turn_state_targets ModelTurnState.RetryScheduled = [ModelTurnState.Ready, ModelTurnState.Cancelling, ModelTurnState.Cancelled, ModelTurnState.TimedOut]"
| "model_turn_state_targets ModelTurnState.Cancelling = [ModelTurnState.Cancelled, ModelTurnState.Failed, ModelTurnState.TimedOut]"
| "model_turn_state_targets ModelTurnState.Succeeded = []"
| "model_turn_state_targets ModelTurnState.Failed = []"
| "model_turn_state_targets ModelTurnState.Cancelled = []"
| "model_turn_state_targets ModelTurnState.TimedOut = []"

definition all_model_turn_state :: "ModelTurnState list" where
  "all_model_turn_state = [ModelTurnState.Created, ModelTurnState.AwaitingBudget, ModelTurnState.Ready, ModelTurnState.InFlight, ModelTurnState.RetryScheduled, ModelTurnState.Cancelling, ModelTurnState.Succeeded, ModelTurnState.Failed, ModelTurnState.Cancelled, ModelTurnState.TimedOut]"

definition model_turn_state_can_transition_to :: "ModelTurnState \<Rightarrow> ModelTurnState \<Rightarrow> bool" where
  "model_turn_state_can_transition_to s t \<longleftrightarrow> t \<in> set (model_turn_state_targets s)"

interpretation model_turn_m: closed_machine "''model_turn''" all_model_turn_state model_turn_state_str model_turn_state_can_transition_to
proof
  show "x \<in> set all_model_turn_state" for x
    by (cases x) (simp_all add: all_model_turn_state_def)
  show "distinct (map model_turn_state_str all_model_turn_state)"
    by code_simp
qed

subsection \<open>SandboxJobState (sandbox job)\<close>

datatype (plugins only: code) SandboxJobState = Accepted | Preparing | Starting | Running | Collecting | Cancelling | Succeeded | Failed | Cancelled | TimedOut | Lost

primrec sandbox_job_state_str :: "SandboxJobState \<Rightarrow> string" where
  "sandbox_job_state_str SandboxJobState.Accepted = ''accepted''"
| "sandbox_job_state_str SandboxJobState.Preparing = ''preparing''"
| "sandbox_job_state_str SandboxJobState.Starting = ''starting''"
| "sandbox_job_state_str SandboxJobState.Running = ''running''"
| "sandbox_job_state_str SandboxJobState.Collecting = ''collecting''"
| "sandbox_job_state_str SandboxJobState.Cancelling = ''cancelling''"
| "sandbox_job_state_str SandboxJobState.Succeeded = ''succeeded''"
| "sandbox_job_state_str SandboxJobState.Failed = ''failed''"
| "sandbox_job_state_str SandboxJobState.Cancelled = ''cancelled''"
| "sandbox_job_state_str SandboxJobState.TimedOut = ''timed_out''"
| "sandbox_job_state_str SandboxJobState.Lost = ''lost''"

primrec sandbox_job_state_targets :: "SandboxJobState \<Rightarrow> SandboxJobState list" where
  "sandbox_job_state_targets SandboxJobState.Accepted = [SandboxJobState.Preparing, SandboxJobState.Cancelling, SandboxJobState.TimedOut, SandboxJobState.Failed]"
| "sandbox_job_state_targets SandboxJobState.Preparing = [SandboxJobState.Starting, SandboxJobState.Cancelling, SandboxJobState.TimedOut, SandboxJobState.Failed, SandboxJobState.Lost]"
| "sandbox_job_state_targets SandboxJobState.Starting = [SandboxJobState.Running, SandboxJobState.Cancelling, SandboxJobState.TimedOut, SandboxJobState.Failed, SandboxJobState.Lost]"
| "sandbox_job_state_targets SandboxJobState.Running = [SandboxJobState.Collecting, SandboxJobState.Cancelling, SandboxJobState.TimedOut, SandboxJobState.Failed, SandboxJobState.Lost]"
| "sandbox_job_state_targets SandboxJobState.Collecting = [SandboxJobState.Succeeded, SandboxJobState.Cancelling, SandboxJobState.TimedOut, SandboxJobState.Failed, SandboxJobState.Lost]"
| "sandbox_job_state_targets SandboxJobState.Cancelling = [SandboxJobState.Cancelled, SandboxJobState.Failed, SandboxJobState.TimedOut, SandboxJobState.Lost]"
| "sandbox_job_state_targets SandboxJobState.Succeeded = []"
| "sandbox_job_state_targets SandboxJobState.Failed = []"
| "sandbox_job_state_targets SandboxJobState.Cancelled = []"
| "sandbox_job_state_targets SandboxJobState.TimedOut = []"
| "sandbox_job_state_targets SandboxJobState.Lost = []"

definition all_sandbox_job_state :: "SandboxJobState list" where
  "all_sandbox_job_state = [SandboxJobState.Accepted, SandboxJobState.Preparing, SandboxJobState.Starting, SandboxJobState.Running, SandboxJobState.Collecting, SandboxJobState.Cancelling, SandboxJobState.Succeeded, SandboxJobState.Failed, SandboxJobState.Cancelled, SandboxJobState.TimedOut, SandboxJobState.Lost]"

definition sandbox_job_state_can_transition_to :: "SandboxJobState \<Rightarrow> SandboxJobState \<Rightarrow> bool" where
  "sandbox_job_state_can_transition_to s t \<longleftrightarrow> t \<in> set (sandbox_job_state_targets s)"

interpretation sandbox_job_m: closed_machine "''sandbox_job''" all_sandbox_job_state sandbox_job_state_str sandbox_job_state_can_transition_to
proof
  show "x \<in> set all_sandbox_job_state" for x
    by (cases x) (simp_all add: all_sandbox_job_state_def)
  show "distinct (map sandbox_job_state_str all_sandbox_job_state)"
    by code_simp
qed

subsection \<open>ArtifactState (artifact)\<close>

datatype (plugins only: code) ArtifactState = Staging | Uploaded | Verifying | Verified | Ready | Quarantined | Rejected | Deleting | Deleted | Corrupt

primrec artifact_state_str :: "ArtifactState \<Rightarrow> string" where
  "artifact_state_str ArtifactState.Staging = ''staging''"
| "artifact_state_str ArtifactState.Uploaded = ''uploaded''"
| "artifact_state_str ArtifactState.Verifying = ''verifying''"
| "artifact_state_str ArtifactState.Verified = ''verified''"
| "artifact_state_str ArtifactState.Ready = ''ready''"
| "artifact_state_str ArtifactState.Quarantined = ''quarantined''"
| "artifact_state_str ArtifactState.Rejected = ''rejected''"
| "artifact_state_str ArtifactState.Deleting = ''deleting''"
| "artifact_state_str ArtifactState.Deleted = ''deleted''"
| "artifact_state_str ArtifactState.Corrupt = ''corrupt''"

primrec artifact_state_targets :: "ArtifactState \<Rightarrow> ArtifactState list" where
  "artifact_state_targets ArtifactState.Staging = [ArtifactState.Uploaded, ArtifactState.Rejected, ArtifactState.Deleting]"
| "artifact_state_targets ArtifactState.Uploaded = [ArtifactState.Verifying, ArtifactState.Rejected, ArtifactState.Deleting]"
| "artifact_state_targets ArtifactState.Verifying = [ArtifactState.Verified, ArtifactState.Quarantined, ArtifactState.Rejected]"
| "artifact_state_targets ArtifactState.Verified = [ArtifactState.Ready, ArtifactState.Quarantined, ArtifactState.Rejected, ArtifactState.Deleting]"
| "artifact_state_targets ArtifactState.Ready = [ArtifactState.Quarantined, ArtifactState.Deleting, ArtifactState.Corrupt]"
| "artifact_state_targets ArtifactState.Quarantined = [ArtifactState.Ready, ArtifactState.Rejected, ArtifactState.Deleting, ArtifactState.Corrupt]"
| "artifact_state_targets ArtifactState.Rejected = [ArtifactState.Deleting]"
| "artifact_state_targets ArtifactState.Deleting = [ArtifactState.Deleted]"
| "artifact_state_targets ArtifactState.Deleted = []"
| "artifact_state_targets ArtifactState.Corrupt = [ArtifactState.Quarantined, ArtifactState.Deleting]"

definition all_artifact_state :: "ArtifactState list" where
  "all_artifact_state = [ArtifactState.Staging, ArtifactState.Uploaded, ArtifactState.Verifying, ArtifactState.Verified, ArtifactState.Ready, ArtifactState.Quarantined, ArtifactState.Rejected, ArtifactState.Deleting, ArtifactState.Deleted, ArtifactState.Corrupt]"

definition artifact_state_can_transition_to :: "ArtifactState \<Rightarrow> ArtifactState \<Rightarrow> bool" where
  "artifact_state_can_transition_to s t \<longleftrightarrow> t \<in> set (artifact_state_targets s)"

interpretation artifact_m: closed_machine "''artifact''" all_artifact_state artifact_state_str artifact_state_can_transition_to
proof
  show "x \<in> set all_artifact_state" for x
    by (cases x) (simp_all add: all_artifact_state_def)
  show "distinct (map artifact_state_str all_artifact_state)"
    by code_simp
qed


definition all_state_machines :: "StateMachineDescriptor list" where
  "all_state_machines = [
     descriptor ''entity_lifecycle'' all_entity_lifecycle entity_lifecycle_str entity_lifecycle_can_transition_to,
     descriptor ''administrative_gate'' all_administrative_gate administrative_gate_str administrative_gate_can_transition_to,
     descriptor ''principal_identity'' all_principal_identity_state principal_identity_state_str principal_identity_state_can_transition_to,
     descriptor ''principal_binding'' all_principal_binding_state principal_binding_state_str principal_binding_state_can_transition_to,
     descriptor ''secret_binding'' all_secret_binding_state secret_binding_state_str secret_binding_state_can_transition_to,
     descriptor ''approval_task'' all_approval_state approval_state_str approval_state_can_transition_to,
     descriptor ''run'' all_run_state run_state_str run_state_can_transition_to,
     descriptor ''scope_instance'' all_scope_state scope_state_str scope_state_can_transition_to,
     descriptor ''node_execution'' all_node_execution_state node_execution_state_str node_execution_state_can_transition_to,
     descriptor ''attempt_observation'' all_attempt_observation_state attempt_observation_state_str attempt_observation_state_can_transition_to,
     descriptor ''job'' all_job_state job_state_str job_state_can_transition_to,
     descriptor ''wake_contract'' all_wake_contract_state wake_contract_state_str wake_contract_state_can_transition_to,
     descriptor ''interaction_task'' all_interaction_state interaction_state_str interaction_state_can_transition_to,
     descriptor ''capability_invocation'' all_invocation_state invocation_state_str invocation_state_can_transition_to,
     descriptor ''skill_activation'' all_skill_activation_state skill_activation_state_str skill_activation_state_can_transition_to,
     descriptor ''context_query'' all_context_query_state context_query_state_str context_query_state_can_transition_to,
     descriptor ''mcp_session'' all_mcp_session_state mcp_session_state_str mcp_session_state_can_transition_to,
     descriptor ''mcp_authorization'' all_mcp_authorization_state mcp_authorization_state_str mcp_authorization_state_can_transition_to,
     descriptor ''child_run_link'' all_child_link_state child_link_state_str child_link_state_can_transition_to,
     descriptor ''model_turn'' all_model_turn_state model_turn_state_str model_turn_state_can_transition_to,
     descriptor ''sandbox_job'' all_sandbox_job_state sandbox_job_state_str sandbox_job_state_can_transition_to,
     descriptor ''artifact'' all_artifact_state artifact_state_str artifact_state_can_transition_to]"


section \<open>Facts about particular machines the other components use\<close>

definition job_state_is_terminal :: "JobState \<Rightarrow> bool" where
  "job_state_is_terminal s \<longleftrightarrow>
     s \<in> {JobState.Succeeded, JobState.Failed, JobState.Cancelled, JobState.TimedOut}"

definition run_state_is_terminal :: "RunState \<Rightarrow> bool" where
  "run_state_is_terminal s \<longleftrightarrow>
     s \<in> {RunState.Succeeded, RunState.Failed, RunState.Cancelled, RunState.TimedOut}"

lemma job_terminal_iff: "job_state_is_terminal s \<longleftrightarrow> (\<forall>t. \<not> job_state_can_transition_to s t)"
  by (cases s) (auto simp: job_state_is_terminal_def job_state_can_transition_to_def)

lemma run_terminal_iff: "run_state_is_terminal s \<longleftrightarrow> (\<forall>t. \<not> run_state_can_transition_to s t)"
  by (cases s) (auto simp: run_state_is_terminal_def run_state_can_transition_to_def)

end
