(* ===== verification/Trace.thy ===== *)
theory Trace
  imports Prelude
begin

text \<open>
  Trace identity (\<open>platform-contracts/src/trace.rs\<close>): the closed W3C \<open>traceparent\<close> text, its
  parser and its printer, and the trace identity that every durable aggregate carries.  The random
  constructors (\<open>new\<close>, \<open>generate\<close>, \<open>child\<close>) draw from the uuid crate and are left out.
\<close>

unbundle bit_operations_syntax

section \<open>Lower-case hexadecimal\<close>

datatype TraceContractError =
    InvalidTraceId
  | ZeroTraceId
  | InvalidSpanId
  | ZeroSpanId
  | InvalidTraceFlags
  | InvalidTraceParent
  | UnsupportedSchemaVersion

definition HEX :: string where
  "HEX = ''0123456789abcdef''"

definition is_lower_hex_byte :: "char \<Rightarrow> bool" where
  "is_lower_hex_byte c \<longleftrightarrow> is_ascii_digit c \<or> 97 \<le> byte_of c \<and> byte_of c \<le> 102"

text \<open>The third arm of the match is \<open>unreachable!\<close>: the only caller has checked every byte.\<close>

definition hex_nibble :: "char \<Rightarrow> u8" where
  "hex_nibble c =
     (if is_ascii_digit c then word_of_nat (byte_of c - 48) else word_of_nat (byte_of c - 97 + 10))"

definition hex_byte :: "char \<Rightarrow> char \<Rightarrow> u8" where
  "hex_byte hi lo = (push_bit 4 (hex_nibble hi) OR hex_nibble lo)"

text \<open>\<open>chunks_exact(2)\<close>\<close>

fun decode_hex :: "string \<Rightarrow> u8 list" where
  "decode_hex (hi # lo # rest) = hex_byte hi lo # decode_hex rest"
| "decode_hex _ = []"

definition parse_exact_lower_hex :: "nat \<Rightarrow> string \<Rightarrow> TraceContractError \<Rightarrow> TraceContractError + u8 list" where
  "parse_exact_lower_hex n v invalid =
     (if length v \<noteq> n * 2 \<or> \<not> list_all is_lower_hex_byte v then Inl invalid
      else Inr (decode_hex v))"

definition show_hex_byte :: "u8 \<Rightarrow> string" where
  "show_hex_byte b = [HEX ! unat (drop_bit 4 b), HEX ! unat (b AND 15)]"

definition write_hex :: "u8 list \<Rightarrow> string" where
  "write_hex bytes = concat (map show_hex_byte bytes)"

lemma lt_16: "n < (16 :: nat) \<longleftrightarrow> n \<in> {0,1,2,3,4,5,6,7,8,9,10,11,12,13,14,15}"
  by simp presburger

lemma HEX_nth:
  "n < 16 \<Longrightarrow> is_lower_hex_byte (HEX ! n) \<and> hex_nibble (HEX ! n) = word_of_nat n"
  unfolding lt_16
  by (auto simp: HEX_def is_lower_hex_byte_def hex_nibble_def is_ascii_digit_def byte_of_def)

lemma is_lower_hex_byte_HEX:
  assumes "is_lower_hex_byte c"
  obtains n where "n < 16" "c = HEX ! n"
proof (cases "is_ascii_digit c")
  case True
  then have "of_char c \<in> {48::nat..57}" by (simp add: is_ascii_digit_def byte_of_def)
  then have "of_char c \<in> {48::nat,49,50,51,52,53,54,55,56,57}"
    by simp presburger
  then have "char_of (of_char c :: nat) = HEX ! (of_char c - 48) \<and> of_char c - (48::nat) < 16"
    by (auto simp: HEX_def char_of_def bit_simps)
  then show ?thesis using that by (metis char_of_char)
next
  case False
  with assms have "of_char c \<in> {97::nat..102}" by (simp add: is_lower_hex_byte_def byte_of_def)
  then have "of_char c \<in> {97::nat,98,99,100,101,102}"
    by simp presburger
  then have "char_of (of_char c :: nat) = HEX ! (of_char c - 87) \<and> of_char c - (87::nat) < 16"
    by (auto simp: HEX_def char_of_def bit_simps)
  then show ?thesis using that by (metis char_of_char)
qed

lemma nibble_bounds: "unat (drop_bit 4 (b :: u8)) < 16" "unat (b AND 15) < 16"
proof -
  show "unat (drop_bit 4 b) < 16"
    using unsigned_less [of b, where 'a = nat]
    by (simp add: drop_bit_eq_div unat_div less_mult_imp_div_less)
  have "unat (b AND 15) = take_bit 4 (unat b)"
    by (simp add: unsigned_and_eq take_bit_eq_mask mask_eq_exp_minus_1)
  then show "unat (b AND 15) < 16" using take_bit_nat_less_exp [of 4 "unat b"] by simp
qed

lemma nibbles_join: "push_bit 4 (drop_bit 4 b) OR (b AND 15) = (b :: u8)"
proof -
  have "b AND 15 = take_bit 4 b" by (simp add: take_bit_eq_mask mask_eq_exp_minus_1)
  moreover have "push_bit 4 (drop_bit 4 b) OR take_bit 4 b = b"
    by (rule bit_eqI) (auto simp: bit_simps)
  ultimately show ?thesis by simp
qed

lemma nibbles_split:
  fixes b :: u8
  assumes "b = (push_bit 4 (word_of_nat m) OR word_of_nat n)" and "m < 16" and "n < 16"
  shows "unat (drop_bit 4 b) = m" and "unat (b AND 15) = n"
  using assms unfolding lt_16 by auto

lemma hex_byte_show:
  obtains hi lo where "show_hex_byte b = [hi, lo]" "hex_byte hi lo = b"
    "is_lower_hex_byte hi" "is_lower_hex_byte lo"
  using that [of "HEX ! unat (drop_bit 4 b)" "HEX ! unat (b AND 15)"] nibble_bounds [of b]
  by (simp add: show_hex_byte_def hex_byte_def HEX_nth nibbles_join)

lemma show_hex_byte_hex_byte:
  assumes "is_lower_hex_byte hi" and "is_lower_hex_byte lo"
  shows "show_hex_byte (hex_byte hi lo) = [hi, lo]"
proof -
  obtain m n where "m < 16" "hi = HEX ! m" "n < 16" "lo = HEX ! n"
    using assms by (meson is_lower_hex_byte_HEX)
  then show ?thesis
    using nibbles_split [of "hex_byte hi lo" m n]
    by (simp add: show_hex_byte_def hex_byte_def HEX_nth)
qed

lemma length_write_hex [simp]: "length (write_hex bs) = length bs * 2"
  by (induction bs) (simp_all add: write_hex_def show_hex_byte_def)

lemma decode_write_hex [simp]: "decode_hex (write_hex bs) = bs"
proof (induction bs)
  case (Cons b bs)
  obtain hi lo where "show_hex_byte b = [hi, lo]" "hex_byte hi lo = b"
    by (rule hex_byte_show)
  with Cons show ?case by (simp add: write_hex_def)
qed (simp add: write_hex_def)

lemma write_hex_lower [simp]: "list_all is_lower_hex_byte (write_hex bs)"
proof (induction bs)
  case (Cons b bs)
  obtain hi lo where "show_hex_byte b = [hi, lo]" "is_lower_hex_byte hi" "is_lower_hex_byte lo"
    by (rule hex_byte_show)
  with Cons show ?case by (simp add: write_hex_def)
qed (simp add: write_hex_def)

lemma write_decode_hex:
  "even (length v) \<Longrightarrow> list_all is_lower_hex_byte v \<Longrightarrow> write_hex (decode_hex v) = v"
  by (induction v rule: decode_hex.induct) (auto simp: write_hex_def show_hex_byte_hex_byte)

lemma length_decode_hex: "length (decode_hex v) = length v div 2"
  by (induction v rule: decode_hex.induct) auto

lemma parse_write_hex: "length bs = n \<Longrightarrow> parse_exact_lower_hex n (write_hex bs) e = Inr bs"
  by (simp add: parse_exact_lower_hex_def)

lemma parse_exact_lower_hex_Inr:
  "parse_exact_lower_hex n v e = Inr bs \<Longrightarrow> length bs = n \<and> v = write_hex bs"
  by (auto simp: parse_exact_lower_hex_def length_decode_hex write_decode_hex split: if_splits)

lemma write_hex_no_dash: "CHR ''-'' \<notin> set (write_hex bs)"
  using write_hex_lower [of bs]
  by (auto simp: list_all_iff is_lower_hex_byte_def is_ascii_digit_def byte_of_def)

section \<open>Identifiers and flags\<close>

datatype TraceId = TraceId (trace_bytes: "u8 list")

datatype SpanId = SpanId (span_bytes: "u8 list")

datatype TraceFlags = NotSampled | Sampled

definition trace_id_from_bytes :: "u8 list \<Rightarrow> TraceContractError + TraceId" where
  "trace_id_from_bytes bytes =
     (if bytes = replicate 16 0 then Inl ZeroTraceId else Inr (TraceId bytes))"

definition trace_id_from_str :: "string \<Rightarrow> TraceContractError + TraceId" where
  "trace_id_from_str v = rbind (parse_exact_lower_hex 16 v InvalidTraceId) trace_id_from_bytes"

definition show_trace_id :: "TraceId \<Rightarrow> string" where
  "show_trace_id t = write_hex (trace_bytes t)"

definition span_id_from_bytes :: "u8 list \<Rightarrow> TraceContractError + SpanId" where
  "span_id_from_bytes bytes =
     (if bytes = replicate 8 0 then Inl ZeroSpanId else Inr (SpanId bytes))"

definition span_id_from_str :: "string \<Rightarrow> TraceContractError + SpanId" where
  "span_id_from_str v = rbind (parse_exact_lower_hex 8 v InvalidSpanId) span_id_from_bytes"

definition show_span_id :: "SpanId \<Rightarrow> string" where
  "show_span_id s = write_hex (span_bytes s)"

primrec trace_flags_str :: "TraceFlags \<Rightarrow> string" where
  "trace_flags_str NotSampled = ''00''"
| "trace_flags_str Sampled = ''01''"

definition trace_flags_from_str :: "string \<Rightarrow> TraceContractError + TraceFlags" where
  "trace_flags_from_str v =
     (if v = ''00'' then Inr NotSampled
      else if v = ''01'' then Inr Sampled
      else Inl InvalidTraceFlags)"

text \<open>The fields are private arrays of fixed length, built by \<open>from_bytes\<close> only.\<close>

definition trace_id_ok :: "TraceId \<Rightarrow> bool" where
  "trace_id_ok t \<longleftrightarrow> length (trace_bytes t) = 16 \<and> trace_bytes t \<noteq> replicate 16 0"

definition span_id_ok :: "SpanId \<Rightarrow> bool" where
  "span_id_ok s \<longleftrightarrow> length (span_bytes s) = 8 \<and> span_bytes s \<noteq> replicate 8 0"

lemma trace_id_from_str_show: "trace_id_ok t \<Longrightarrow> trace_id_from_str (show_trace_id t) = Inr t"
  by (simp add: trace_id_from_str_def show_trace_id_def trace_id_ok_def parse_write_hex
      trace_id_from_bytes_def)

lemma span_id_from_str_show: "span_id_ok s \<Longrightarrow> span_id_from_str (show_span_id s) = Inr s"
  by (simp add: span_id_from_str_def show_span_id_def span_id_ok_def parse_write_hex
      span_id_from_bytes_def)

lemma trace_id_from_str_Inr: "trace_id_from_str v = Inr t \<Longrightarrow> trace_id_ok t \<and> v = show_trace_id t"
  by (auto simp: trace_id_from_str_def trace_id_ok_def show_trace_id_def trace_id_from_bytes_def
      result_simps dest!: parse_exact_lower_hex_Inr split: if_splits)

lemma span_id_from_str_Inr: "span_id_from_str v = Inr s \<Longrightarrow> span_id_ok s \<and> v = show_span_id s"
  by (auto simp: span_id_from_str_def span_id_ok_def show_span_id_def span_id_from_bytes_def
      result_simps dest!: parse_exact_lower_hex_Inr split: if_splits)

lemma trace_flags_from_str_Inr: "trace_flags_from_str v = Inr f \<longleftrightarrow> v = trace_flags_str f"
  by (cases f) (auto simp: trace_flags_from_str_def)

section \<open>The traceparent text\<close>

record W3cTraceParent =
  tp_trace_id :: TraceId
  tp_parent_span_id :: SpanId
  tp_flags :: TraceFlags

text \<open>\<open>str::split(c)\<close>: one more component than separators.\<close>

fun split_on :: "char \<Rightarrow> string \<Rightarrow> string list" where
  "split_on c [] = [[]]"
| "split_on c (x # xs) =
     (if x = c then [] # split_on c xs
      else case split_on c xs of [] \<Rightarrow> [[x]] | y # ys \<Rightarrow> (x # y) # ys)"

definition show_traceparent :: "W3cTraceParent \<Rightarrow> string" where
  "show_traceparent p =
     ''00'' @ ''-'' @ show_trace_id (tp_trace_id p) @ ''-'' @ show_span_id (tp_parent_span_id p)
       @ ''-'' @ trace_flags_str (tp_flags p)"

definition next_component :: "string list \<Rightarrow> string option \<times> string list" where
  "next_component cs = (case cs of [] \<Rightarrow> (None, []) | c # rest \<Rightarrow> (Some c, rest))"

definition traceparent_from_str :: "string \<Rightarrow> TraceContractError + W3cTraceParent" where
  "traceparent_from_str v =
     (if length v \<noteq> 55 then Inl InvalidTraceParent
      else
        let (version, c1) = next_component (split_on (CHR ''-'') v);
            (trace_id, c2) = next_component c1;
            (parent_span_id, c3) = next_component c2;
            (flags, c4) = next_component c3
        in if version \<noteq> Some ''00'' \<or> c4 \<noteq> [] then Inl InvalidTraceParent
           else
             rbind (ok_or InvalidTraceParent trace_id) (\<lambda>t. rbind (trace_id_from_str t) (\<lambda>tid.
             rbind (ok_or InvalidTraceParent parent_span_id) (\<lambda>s. rbind (span_id_from_str s) (\<lambda>sid.
             rbind (ok_or InvalidTraceParent flags) (\<lambda>f. rbind (trace_flags_from_str f) (\<lambda>fl.
             Inr \<lparr>tp_trace_id = tid, tp_parent_span_id = sid, tp_flags = fl\<rparr>)))))))"

definition traceparent_ok :: "W3cTraceParent \<Rightarrow> bool" where
  "traceparent_ok p \<longleftrightarrow> trace_id_ok (tp_trace_id p) \<and> span_id_ok (tp_parent_span_id p)"

lemma split_on_not_Nil [simp]: "split_on c xs \<noteq> []"
  by (induction xs) (auto split: list.splits)

lemma split_on_no_sep: "c \<notin> set xs \<Longrightarrow> split_on c xs = [xs]"
  by (induction xs) auto

lemma split_on_append: "c \<notin> set xs \<Longrightarrow> split_on c (xs @ c # ys) = xs # split_on c ys"
  by (induction xs) auto

text \<open>Joining the components again gives the text back.\<close>

primrec join_on :: "char \<Rightarrow> string list \<Rightarrow> string" where
  "join_on c [] = []"
| "join_on c (x # xs) = (if xs = [] then x else x @ c # join_on c xs)"

lemma join_split_on: "join_on c (split_on c xs) = xs"
proof (induction xs)
  case (Cons x xs)
  then show ?case by (cases "split_on c xs") auto
qed simp

lemma split_on_traceparent:
  "split_on (CHR ''-'') (show_traceparent p) =
     [''00'', show_trace_id (tp_trace_id p), show_span_id (tp_parent_span_id p),
      trace_flags_str (tp_flags p)]"
proof -
  have "CHR ''-'' \<notin> set (trace_flags_str f)" for f by (cases f) simp_all
  then show ?thesis
    by (simp add: show_traceparent_def show_trace_id_def show_span_id_def split_on_append
        split_on_no_sep write_hex_no_dash)
qed

lemma length_trace_flags [simp]: "length (trace_flags_str f) = 2"
  by (cases f) simp_all

lemma length_traceparent: "traceparent_ok p \<Longrightarrow> length (show_traceparent p) = 55"
  by (simp add: show_traceparent_def traceparent_ok_def trace_id_ok_def span_id_ok_def
      show_trace_id_def show_span_id_def)

lemma traceparent_from_str_show:
  "traceparent_ok p \<Longrightarrow> traceparent_from_str (show_traceparent p) = Inr p"
  by (simp add: traceparent_from_str_def length_traceparent split_on_traceparent
      next_component_def trace_id_from_str_show span_id_from_str_show traceparent_ok_def
      trace_flags_from_str_Inr [THEN iffD2])

lemma traceparent_from_str_Inr:
  assumes "traceparent_from_str v = Inr p"
  shows "traceparent_ok p \<and> v = show_traceparent p"
proof -
  from assms obtain t s f where c: "split_on (CHR ''-'') v = [''00'', t, s, f]"
    and "trace_id_from_str t = Inr (tp_trace_id p)"
    and "span_id_from_str s = Inr (tp_parent_span_id p)"
    and "trace_flags_from_str f = Inr (tp_flags p)"
    by (auto simp: traceparent_from_str_def next_component_def result_simps Let_def
        split: if_splits list.splits)
  then show ?thesis
    using join_split_on [of "CHR ''-''" v]
    by (auto dest!: trace_id_from_str_Inr span_id_from_str_Inr
        simp: trace_flags_from_str_Inr traceparent_ok_def show_traceparent_def)
qed

section \<open>Trace identity\<close>

record TraceIdentityV1 =
  ti_schema_version :: u32
  ti_trace_id :: TraceId

definition trace_identity_new :: "TraceId \<Rightarrow> TraceIdentityV1" where
  "trace_identity_new t = \<lparr>ti_schema_version = 1, ti_trace_id = t\<rparr>"

definition trace_identity_validate :: "TraceIdentityV1 \<Rightarrow> TraceContractError + unit" where
  "trace_identity_validate i = fail_if (ti_schema_version i \<noteq> 1) UnsupportedSchemaVersion"

end
