(* ===== verification/Digests.thy ===== *)
theory Digests
  imports Ids Trace
begin

text \<open>
  JSON values and canonical digests (\<open>platform-contracts/src/json.rs\<close>).  The canonical form is that
  of the serde_jcs crate and the hash that of the sha2 crate; both are arguments, as is the number
  type of serde_json.
\<close>

datatype 'n Json =
    Null
  | Bool bool
  | Number 'n
  | String string
  | Array "'n Json list"
  | Object "(string \<times> 'n Json) list"

text \<open>\<open>serde_json::Map\<close>: one entry for a key, in key order; a later entry replaces an earlier one.\<close>

fun json_insert :: "string \<Rightarrow> 'n Json \<Rightarrow> (string \<times> 'n Json) list \<Rightarrow> (string \<times> 'n Json) list" where
  "json_insert k v [] = [(k, v)]"
| "json_insert k v ((l, w) # rest) =
     (if k < l then (k, v) # (l, w) # rest
      else if k = l then (k, v) # rest
      else (l, w) # json_insert k v rest)"

definition json_object :: "(string \<times> 'n Json) list \<Rightarrow> 'n Json" where
  "json_object entries = Object (foldl (\<lambda>m (k, v). json_insert k v m) [] entries)"

lemma json_insert_lookup:
  "map_of (json_insert k v m) x = (if x = k then Some v else map_of m x)" if "sorted_wrt (<) (map fst m)"
  using that
proof (induction m)
  case (Cons e m)
  then show ?case by (cases e) (auto simp: map_of_eq_None_iff [symmetric] split: if_splits)
qed simp

lemma json_insert_keys: "fst ` set (json_insert k v m) = insert k (fst ` set m)"
  by (induction k v m rule: json_insert.induct) auto

lemma json_insert_sorted: "sorted_wrt (<) (map fst m) \<Longrightarrow> sorted_wrt (<) (map fst (json_insert k v m))"
proof (induction k v m rule: json_insert.induct)
  case (2 k v l w rest)
  have "x \<in> set (map fst (json_insert k v rest)) \<Longrightarrow> x = k \<or> x \<in> set (map fst rest)" for x
    using json_insert_keys [of k v rest] by auto
  with 2 show ?case by fastforce
qed simp

text \<open>\<open>Value::from(u64)\<close>, \<open>serde_jcs::to_vec\<close> and \<open>Sha256::digest\<close>\<close>

record 'n digest_env =
  de_number :: "u64 \<Rightarrow> 'n"
  de_jcs :: "'n Json \<Rightarrow> u8 list option"
  de_sha256 :: "u8 list \<Rightarrow> u8 list"

datatype StrictJsonError =
    InvalidLimits
  | DocumentTooLarge nat nat
  | InvalidJson
  | Canonicalization

definition canonical_json :: "('n, 'z) digest_env_scheme \<Rightarrow> 'n Json \<Rightarrow> StrictJsonError + u8 list" where
  "canonical_json env v = ok_or Canonicalization (de_jcs env v)"

definition lowercase_hex :: "u8 list \<Rightarrow> string" where
  "lowercase_hex bytes = concat (map show_hex_byte bytes)"

definition canonical_digest :: "('n, 'z) digest_env_scheme \<Rightarrow> 'n Json \<Rightarrow> StrictJsonError + string" where
  "canonical_digest env v =
     rbind (canonical_json env v) (\<lambda>canonical.
     Inr (''sha256:'' @ lowercase_hex (de_sha256 env canonical)))"

end
