(* ===== verification/Registry.thy ===== *)
theory Registry
  imports Ids
begin

text \<open>
  The closed string enums of \<open>platform-contracts/src/registry.rs\<close> that the components use, each
  with its wire text and its list of values (the macro \<open>string_enum!\<close> derives all three), the
  orders the contracts give some of them, and the tables of \<open>work_ownership.rs\<close> that say which
  resource may own which work.
\<close>

section \<open>What the macro derives\<close>

datatype UnknownRegistryValue = UnknownRegistryValue (urv_registry: string) (urv_value: string)

text \<open>\<open>FromStr\<close>: the match over the wire literals.\<close>

definition registry_from_str ::
  "string \<Rightarrow> 's list \<Rightarrow> ('s \<Rightarrow> string) \<Rightarrow> string \<Rightarrow> UnknownRegistryValue + 's" where
  "registry_from_str registry all as_str v =
     ok_or (UnknownRegistryValue registry v) (List.find (\<lambda>s. as_str s = v) all)"

context closed_registry
begin

lemma registry_from_str_as_str: "registry_from_str registry all as_str (as_str s) = Inr s"
  unfolding registry_from_str_def find_as_str by simp

lemma registry_from_str_Inr: "registry_from_str registry all as_str v = Inr s \<longleftrightarrow> v = as_str s"
  by (simp add: registry_from_str_def ok_or_eq_Inr find_Some)

lemma registry_from_str_Inl:
  "registry_from_str registry all as_str v = Inl e \<Longrightarrow> e = UnknownRegistryValue registry v"
  by (auto simp: registry_from_str_def ok_or_eq_Inl)

end

section \<open>The enums\<close>

subsection \<open>Principal kind\<close>

datatype (plugins only: code) PrincipalKind =
    InstallationOperator
  | TenantAdmin
  | AgentAuthor
  | AgentRunner
  | HumanApprover
  | ServiceIdentity

primrec principal_kind_str :: "PrincipalKind \<Rightarrow> string" where
  "principal_kind_str PrincipalKind.InstallationOperator = ''installation_operator''"
| "principal_kind_str PrincipalKind.TenantAdmin = ''tenant_admin''"
| "principal_kind_str PrincipalKind.AgentAuthor = ''agent_author''"
| "principal_kind_str PrincipalKind.AgentRunner = ''agent_runner''"
| "principal_kind_str PrincipalKind.HumanApprover = ''human_approver''"
| "principal_kind_str PrincipalKind.ServiceIdentity = ''service_identity''"

definition all_principal_kind :: "PrincipalKind list" where
  "all_principal_kind =
    [PrincipalKind.InstallationOperator, PrincipalKind.TenantAdmin, PrincipalKind.AgentAuthor,
     PrincipalKind.AgentRunner, PrincipalKind.HumanApprover, PrincipalKind.ServiceIdentity]"

interpretation principal_kind_r: closed_registry all_principal_kind principal_kind_str
proof
  show "x \<in> set all_principal_kind" for x
    by (cases x) (simp_all add: all_principal_kind_def)
  show "distinct (map principal_kind_str all_principal_kind)"
    by code_simp
qed

subsection \<open>Lock rank\<close>

datatype (plugins only: code) LockRank =
    CommandReceipt
  | SchedulerFairness
  | TenantQuotaPolicy
  | ParentRootAggregate
  | ChildLeafAggregate
  | JobFence
  | PublicRunStreamHead
  | AppendOnlyProjectionOutbox

primrec lock_rank_str :: "LockRank \<Rightarrow> string" where
  "lock_rank_str LockRank.CommandReceipt = ''command_receipt''"
| "lock_rank_str LockRank.SchedulerFairness = ''scheduler_fairness''"
| "lock_rank_str LockRank.TenantQuotaPolicy = ''tenant_quota_policy''"
| "lock_rank_str LockRank.ParentRootAggregate = ''parent_root_aggregate''"
| "lock_rank_str LockRank.ChildLeafAggregate = ''child_leaf_aggregate''"
| "lock_rank_str LockRank.JobFence = ''job_fence''"
| "lock_rank_str LockRank.PublicRunStreamHead = ''public_run_stream_head''"
| "lock_rank_str LockRank.AppendOnlyProjectionOutbox = ''append_only_projection_outbox''"

definition all_lock_rank :: "LockRank list" where
  "all_lock_rank =
    [LockRank.CommandReceipt, LockRank.SchedulerFairness, LockRank.TenantQuotaPolicy,
     LockRank.ParentRootAggregate, LockRank.ChildLeafAggregate, LockRank.JobFence,
     LockRank.PublicRunStreamHead, LockRank.AppendOnlyProjectionOutbox]"

interpretation lock_rank_r: closed_registry all_lock_rank lock_rank_str
proof
  show "x \<in> set all_lock_rank" for x
    by (cases x) (simp_all add: all_lock_rank_def)
  show "distinct (map lock_rank_str all_lock_rank)"
    by code_simp
qed

subsection \<open>Work class\<close>

datatype (plugins only: code) WorkClass =
    RegistryValidation
  | Orchestration
  | Model
  | CapabilityNative
  | CapabilityRemote
  | Mcp
  | Context
  | Sandbox
  | Interaction
  | Artifact
  | Recovery

primrec work_class_str :: "WorkClass \<Rightarrow> string" where
  "work_class_str WorkClass.RegistryValidation = ''registry_validation''"
| "work_class_str WorkClass.Orchestration = ''orchestration''"
| "work_class_str WorkClass.Model = ''model''"
| "work_class_str WorkClass.CapabilityNative = ''capability_native''"
| "work_class_str WorkClass.CapabilityRemote = ''capability_remote''"
| "work_class_str WorkClass.Mcp = ''mcp''"
| "work_class_str WorkClass.Context = ''context''"
| "work_class_str WorkClass.Sandbox = ''sandbox''"
| "work_class_str WorkClass.Interaction = ''interaction''"
| "work_class_str WorkClass.Artifact = ''artifact''"
| "work_class_str WorkClass.Recovery = ''recovery''"

definition all_work_class :: "WorkClass list" where
  "all_work_class =
    [WorkClass.RegistryValidation, WorkClass.Orchestration, WorkClass.Model,
     WorkClass.CapabilityNative, WorkClass.CapabilityRemote, WorkClass.Mcp, WorkClass.Context,
     WorkClass.Sandbox, WorkClass.Interaction, WorkClass.Artifact, WorkClass.Recovery]"

interpretation work_class_r: closed_registry all_work_class work_class_str
proof
  show "x \<in> set all_work_class" for x
    by (cases x) (simp_all add: all_work_class_def)
  show "distinct (map work_class_str all_work_class)"
    by code_simp
qed

subsection \<open>Job kind\<close>

datatype (plugins only: code) JobKind =
    RegistryValidation
  | OrchestrationNode
  | ModelTurn
  | CapabilityInvocation
  | McpDiscovery
  | McpSubscription
  | McpOAuthPkceCleanup
  | ContextQueryNative
  | ContextQueryRemote
  | ContextDatasetBuild
  | ContextSubscriptionRefresh
  | SandboxCapabilityExecution
  | Interaction
  | ArtifactScan
  | ArtifactRescan
  | ArtifactDelete
  | ArtifactBlobCleanup
  | Recovery

primrec job_kind_str :: "JobKind \<Rightarrow> string" where
  "job_kind_str JobKind.RegistryValidation = ''registry_validation''"
| "job_kind_str JobKind.OrchestrationNode = ''orchestration_node''"
| "job_kind_str JobKind.ModelTurn = ''model_turn''"
| "job_kind_str JobKind.CapabilityInvocation = ''capability_invocation''"
| "job_kind_str JobKind.McpDiscovery = ''mcp_discovery''"
| "job_kind_str JobKind.McpSubscription = ''mcp_subscription''"
| "job_kind_str JobKind.McpOAuthPkceCleanup = ''mcp_oauth_pkce_cleanup''"
| "job_kind_str JobKind.ContextQueryNative = ''context_query_native''"
| "job_kind_str JobKind.ContextQueryRemote = ''context_query_remote''"
| "job_kind_str JobKind.ContextDatasetBuild = ''context_dataset_build''"
| "job_kind_str JobKind.ContextSubscriptionRefresh = ''context_subscription_refresh''"
| "job_kind_str JobKind.SandboxCapabilityExecution = ''sandbox_capability_execution''"
| "job_kind_str JobKind.Interaction = ''interaction''"
| "job_kind_str JobKind.ArtifactScan = ''artifact_scan''"
| "job_kind_str JobKind.ArtifactRescan = ''artifact_rescan''"
| "job_kind_str JobKind.ArtifactDelete = ''artifact_delete''"
| "job_kind_str JobKind.ArtifactBlobCleanup = ''artifact_blob_cleanup''"
| "job_kind_str JobKind.Recovery = ''recovery''"

definition all_job_kind :: "JobKind list" where
  "all_job_kind =
    [JobKind.RegistryValidation, JobKind.OrchestrationNode, JobKind.ModelTurn,
     JobKind.CapabilityInvocation, JobKind.McpDiscovery, JobKind.McpSubscription,
     JobKind.McpOAuthPkceCleanup, JobKind.ContextQueryNative, JobKind.ContextQueryRemote,
     JobKind.ContextDatasetBuild, JobKind.ContextSubscriptionRefresh,
     JobKind.SandboxCapabilityExecution, JobKind.Interaction, JobKind.ArtifactScan,
     JobKind.ArtifactRescan, JobKind.ArtifactDelete, JobKind.ArtifactBlobCleanup,
     JobKind.Recovery]"

interpretation job_kind_r: closed_registry all_job_kind job_kind_str
proof
  show "x \<in> set all_job_kind" for x
    by (cases x) (simp_all add: all_job_kind_def)
  show "distinct (map job_kind_str all_job_kind)"
    by code_simp
qed

subsection \<open>Plan node kind\<close>

datatype (plugins only: code) PlanNodeKind =
    Start
  | Compute
  | Branch
  | Fork
  | Join
  | Map
  | Loop
  | ErrorBoundary
  | ModelLoop
  | CapabilityCall
  | ContextQuery
  | ChildAgentCall
  | HumanTask
  | TimerWait
  | SignalWait
  | Return
  | Raise

primrec plan_node_kind_str :: "PlanNodeKind \<Rightarrow> string" where
  "plan_node_kind_str PlanNodeKind.Start = ''start''"
| "plan_node_kind_str PlanNodeKind.Compute = ''compute''"
| "plan_node_kind_str PlanNodeKind.Branch = ''branch''"
| "plan_node_kind_str PlanNodeKind.Fork = ''fork''"
| "plan_node_kind_str PlanNodeKind.Join = ''join''"
| "plan_node_kind_str PlanNodeKind.Map = ''map''"
| "plan_node_kind_str PlanNodeKind.Loop = ''loop''"
| "plan_node_kind_str PlanNodeKind.ErrorBoundary = ''error_boundary''"
| "plan_node_kind_str PlanNodeKind.ModelLoop = ''model_loop''"
| "plan_node_kind_str PlanNodeKind.CapabilityCall = ''capability_call''"
| "plan_node_kind_str PlanNodeKind.ContextQuery = ''context_query''"
| "plan_node_kind_str PlanNodeKind.ChildAgentCall = ''child_agent_call''"
| "plan_node_kind_str PlanNodeKind.HumanTask = ''human_task''"
| "plan_node_kind_str PlanNodeKind.TimerWait = ''timer_wait''"
| "plan_node_kind_str PlanNodeKind.SignalWait = ''signal_wait''"
| "plan_node_kind_str PlanNodeKind.Return = ''return''"
| "plan_node_kind_str PlanNodeKind.Raise = ''raise''"

definition all_plan_node_kind :: "PlanNodeKind list" where
  "all_plan_node_kind =
    [PlanNodeKind.Start, PlanNodeKind.Compute, PlanNodeKind.Branch, PlanNodeKind.Fork,
     PlanNodeKind.Join, PlanNodeKind.Map, PlanNodeKind.Loop, PlanNodeKind.ErrorBoundary,
     PlanNodeKind.ModelLoop, PlanNodeKind.CapabilityCall, PlanNodeKind.ContextQuery,
     PlanNodeKind.ChildAgentCall, PlanNodeKind.HumanTask, PlanNodeKind.TimerWait,
     PlanNodeKind.SignalWait, PlanNodeKind.Return, PlanNodeKind.Raise]"

interpretation plan_node_kind_r: closed_registry all_plan_node_kind plan_node_kind_str
proof
  show "x \<in> set all_plan_node_kind" for x
    by (cases x) (simp_all add: all_plan_node_kind_def)
  show "distinct (map plan_node_kind_str all_plan_node_kind)"
    by code_simp
qed

subsection \<open>Scope kind\<close>

datatype (plugins only: code) ScopeKind =
    Root
  | BranchLeg
  | ParallelLeg
  | MapItem
  | LoopIteration
  | ModelRound
  | ErrorBoundary

primrec scope_kind_str :: "ScopeKind \<Rightarrow> string" where
  "scope_kind_str ScopeKind.Root = ''root''"
| "scope_kind_str ScopeKind.BranchLeg = ''branch_leg''"
| "scope_kind_str ScopeKind.ParallelLeg = ''parallel_leg''"
| "scope_kind_str ScopeKind.MapItem = ''map_item''"
| "scope_kind_str ScopeKind.LoopIteration = ''loop_iteration''"
| "scope_kind_str ScopeKind.ModelRound = ''model_round''"
| "scope_kind_str ScopeKind.ErrorBoundary = ''error_boundary''"

definition all_scope_kind :: "ScopeKind list" where
  "all_scope_kind =
    [ScopeKind.Root, ScopeKind.BranchLeg, ScopeKind.ParallelLeg, ScopeKind.MapItem,
     ScopeKind.LoopIteration, ScopeKind.ModelRound, ScopeKind.ErrorBoundary]"

interpretation scope_kind_r: closed_registry all_scope_kind scope_kind_str
proof
  show "x \<in> set all_scope_kind" for x
    by (cases x) (simp_all add: all_scope_kind_def)
  show "distinct (map scope_kind_str all_scope_kind)"
    by code_simp
qed

subsection \<open>Wake contract kind\<close>

datatype (plugins only: code) WakeContractKind =
    Timer
  | Signal
  | HumanTask
  | Approval
  | RemoteInvocation
  | ChildRun
  | RetryDeadline

primrec wake_contract_kind_str :: "WakeContractKind \<Rightarrow> string" where
  "wake_contract_kind_str WakeContractKind.Timer = ''timer''"
| "wake_contract_kind_str WakeContractKind.Signal = ''signal''"
| "wake_contract_kind_str WakeContractKind.HumanTask = ''human_task''"
| "wake_contract_kind_str WakeContractKind.Approval = ''approval''"
| "wake_contract_kind_str WakeContractKind.RemoteInvocation = ''remote_invocation''"
| "wake_contract_kind_str WakeContractKind.ChildRun = ''child_run''"
| "wake_contract_kind_str WakeContractKind.RetryDeadline = ''retry_deadline''"

definition all_wake_contract_kind :: "WakeContractKind list" where
  "all_wake_contract_kind =
    [WakeContractKind.Timer, WakeContractKind.Signal, WakeContractKind.HumanTask,
     WakeContractKind.Approval, WakeContractKind.RemoteInvocation, WakeContractKind.ChildRun,
     WakeContractKind.RetryDeadline]"

interpretation wake_contract_kind_r: closed_registry all_wake_contract_kind wake_contract_kind_str
proof
  show "x \<in> set all_wake_contract_kind" for x
    by (cases x) (simp_all add: all_wake_contract_kind_def)
  show "distinct (map wake_contract_kind_str all_wake_contract_kind)"
    by code_simp
qed

subsection \<open>Scheduler priority\<close>

datatype (plugins only: code) SchedulerPriority =
    Low
  | Normal
  | High
  | CriticalControl

primrec scheduler_priority_str :: "SchedulerPriority \<Rightarrow> string" where
  "scheduler_priority_str SchedulerPriority.Low = ''low''"
| "scheduler_priority_str SchedulerPriority.Normal = ''normal''"
| "scheduler_priority_str SchedulerPriority.High = ''high''"
| "scheduler_priority_str SchedulerPriority.CriticalControl = ''critical_control''"

definition all_scheduler_priority :: "SchedulerPriority list" where
  "all_scheduler_priority =
    [SchedulerPriority.Low, SchedulerPriority.Normal, SchedulerPriority.High,
     SchedulerPriority.CriticalControl]"

interpretation scheduler_priority_r: closed_registry all_scheduler_priority scheduler_priority_str
proof
  show "x \<in> set all_scheduler_priority" for x
    by (cases x) (simp_all add: all_scheduler_priority_def)
  show "distinct (map scheduler_priority_str all_scheduler_priority)"
    by code_simp
qed

subsection \<open>Public service class\<close>

datatype (plugins only: code) ServiceClass =
    Low
  | Normal
  | High

primrec service_class_str :: "ServiceClass \<Rightarrow> string" where
  "service_class_str ServiceClass.Low = ''low''"
| "service_class_str ServiceClass.Normal = ''normal''"
| "service_class_str ServiceClass.High = ''high''"

definition all_service_class :: "ServiceClass list" where
  "all_service_class =
    [ServiceClass.Low, ServiceClass.Normal, ServiceClass.High]"

interpretation service_class_r: closed_registry all_service_class service_class_str
proof
  show "x \<in> set all_service_class" for x
    by (cases x) (simp_all add: all_service_class_def)
  show "distinct (map service_class_str all_service_class)"
    by code_simp
qed

subsection \<open>Quota accounting mode\<close>

datatype (plugins only: code) QuotaAccountingMode =
    Leased
  | Consumable
  | Reclaimable

primrec quota_accounting_mode_str :: "QuotaAccountingMode \<Rightarrow> string" where
  "quota_accounting_mode_str QuotaAccountingMode.Leased = ''leased''"
| "quota_accounting_mode_str QuotaAccountingMode.Consumable = ''consumable''"
| "quota_accounting_mode_str QuotaAccountingMode.Reclaimable = ''reclaimable''"

definition all_quota_accounting_mode :: "QuotaAccountingMode list" where
  "all_quota_accounting_mode =
    [QuotaAccountingMode.Leased, QuotaAccountingMode.Consumable, QuotaAccountingMode.Reclaimable]"

interpretation quota_accounting_mode_r: closed_registry all_quota_accounting_mode quota_accounting_mode_str
proof
  show "x \<in> set all_quota_accounting_mode" for x
    by (cases x) (simp_all add: all_quota_accounting_mode_def)
  show "distinct (map quota_accounting_mode_str all_quota_accounting_mode)"
    by code_simp
qed

subsection \<open>Permission\<close>

datatype (plugins only: code) Permission =
    InstallationManage
  | InstallationSupport
  | HistoryHoldManage
  | McpCleanupRecover
  | TenantRead
  | TenantManage
  | TenantEmergencyStop
  | AgentRead
  | AgentWrite
  | AgentPublish
  | AgentDeploy
  | AgentActivate
  | AgentRun
  | SkillRead
  | SkillWrite
  | SkillPublish
  | SkillBind
  | SkillActivate
  | CapabilityRead
  | CapabilityWrite
  | CapabilityPublish
  | CapabilityDeploy
  | CapabilityActivate
  | CapabilityBind
  | CapabilityInvoke
  | ContextRead
  | ContextWrite
  | ContextPublish
  | ContextDeploy
  | ContextActivate
  | ContextQuery
  | ContextBuildDataset
  | McpRead
  | McpWrite
  | McpDiscover
  | McpImport
  | McpPublish
  | McpDeploy
  | McpActivate
  | McpInvoke
  | ModelRead
  | ModelWrite
  | ModelDiscover
  | ModelImport
  | ModelPublish
  | ModelDeploy
  | ModelActivate
  | ModelInvoke
  | SandboxRead
  | SandboxWrite
  | SandboxBuild
  | SandboxPublish
  | SandboxActivate
  | SandboxExecute
  | ArtifactRead
  | ArtifactWrite
  | ArtifactDelete
  | ArtifactHold
  | ArtifactRescan
  | ApprovalRead
  | ApprovalRespond
  | InteractionRead
  | InteractionRespond
  | PolicyRead
  | PolicyWrite
  | PolicyPublish
  | PolicyActivate
  | OperationRead
  | OperationCancel
  | RuntimeRead
  | RuntimeControl
  | RuntimeSignal
  | SecretInspect
  | SecretBind
  | SecretRotate
  | SecretRevoke

primrec permission_str :: "Permission \<Rightarrow> string" where
  "permission_str Permission.InstallationManage = ''installation.manage''"
| "permission_str Permission.InstallationSupport = ''installation.support''"
| "permission_str Permission.HistoryHoldManage = ''history.hold.manage''"
| "permission_str Permission.McpCleanupRecover = ''mcp.cleanup.recover''"
| "permission_str Permission.TenantRead = ''tenant.read''"
| "permission_str Permission.TenantManage = ''tenant.manage''"
| "permission_str Permission.TenantEmergencyStop = ''tenant.emergency_stop''"
| "permission_str Permission.AgentRead = ''agent.read''"
| "permission_str Permission.AgentWrite = ''agent.write''"
| "permission_str Permission.AgentPublish = ''agent.publish''"
| "permission_str Permission.AgentDeploy = ''agent.deploy''"
| "permission_str Permission.AgentActivate = ''agent.activate''"
| "permission_str Permission.AgentRun = ''agent.run''"
| "permission_str Permission.SkillRead = ''skill.read''"
| "permission_str Permission.SkillWrite = ''skill.write''"
| "permission_str Permission.SkillPublish = ''skill.publish''"
| "permission_str Permission.SkillBind = ''skill.bind''"
| "permission_str Permission.SkillActivate = ''skill.activate''"
| "permission_str Permission.CapabilityRead = ''capability.read''"
| "permission_str Permission.CapabilityWrite = ''capability.write''"
| "permission_str Permission.CapabilityPublish = ''capability.publish''"
| "permission_str Permission.CapabilityDeploy = ''capability.deploy''"
| "permission_str Permission.CapabilityActivate = ''capability.activate''"
| "permission_str Permission.CapabilityBind = ''capability.bind''"
| "permission_str Permission.CapabilityInvoke = ''capability.invoke''"
| "permission_str Permission.ContextRead = ''context.read''"
| "permission_str Permission.ContextWrite = ''context.write''"
| "permission_str Permission.ContextPublish = ''context.publish''"
| "permission_str Permission.ContextDeploy = ''context.deploy''"
| "permission_str Permission.ContextActivate = ''context.activate''"
| "permission_str Permission.ContextQuery = ''context.query''"
| "permission_str Permission.ContextBuildDataset = ''context.build_dataset''"
| "permission_str Permission.McpRead = ''mcp.read''"
| "permission_str Permission.McpWrite = ''mcp.write''"
| "permission_str Permission.McpDiscover = ''mcp.discover''"
| "permission_str Permission.McpImport = ''mcp.import''"
| "permission_str Permission.McpPublish = ''mcp.publish''"
| "permission_str Permission.McpDeploy = ''mcp.deploy''"
| "permission_str Permission.McpActivate = ''mcp.activate''"
| "permission_str Permission.McpInvoke = ''mcp.invoke''"
| "permission_str Permission.ModelRead = ''model.read''"
| "permission_str Permission.ModelWrite = ''model.write''"
| "permission_str Permission.ModelDiscover = ''model.discover''"
| "permission_str Permission.ModelImport = ''model.import''"
| "permission_str Permission.ModelPublish = ''model.publish''"
| "permission_str Permission.ModelDeploy = ''model.deploy''"
| "permission_str Permission.ModelActivate = ''model.activate''"
| "permission_str Permission.ModelInvoke = ''model.invoke''"
| "permission_str Permission.SandboxRead = ''sandbox.read''"
| "permission_str Permission.SandboxWrite = ''sandbox.write''"
| "permission_str Permission.SandboxBuild = ''sandbox.build''"
| "permission_str Permission.SandboxPublish = ''sandbox.publish''"
| "permission_str Permission.SandboxActivate = ''sandbox.activate''"
| "permission_str Permission.SandboxExecute = ''sandbox.execute''"
| "permission_str Permission.ArtifactRead = ''artifact.read''"
| "permission_str Permission.ArtifactWrite = ''artifact.write''"
| "permission_str Permission.ArtifactDelete = ''artifact.delete''"
| "permission_str Permission.ArtifactHold = ''artifact.hold''"
| "permission_str Permission.ArtifactRescan = ''artifact.rescan''"
| "permission_str Permission.ApprovalRead = ''approval.read''"
| "permission_str Permission.ApprovalRespond = ''approval.respond''"
| "permission_str Permission.InteractionRead = ''interaction.read''"
| "permission_str Permission.InteractionRespond = ''interaction.respond''"
| "permission_str Permission.PolicyRead = ''policy.read''"
| "permission_str Permission.PolicyWrite = ''policy.write''"
| "permission_str Permission.PolicyPublish = ''policy.publish''"
| "permission_str Permission.PolicyActivate = ''policy.activate''"
| "permission_str Permission.OperationRead = ''operation.read''"
| "permission_str Permission.OperationCancel = ''operation.cancel''"
| "permission_str Permission.RuntimeRead = ''runtime.read''"
| "permission_str Permission.RuntimeControl = ''runtime.control''"
| "permission_str Permission.RuntimeSignal = ''runtime.signal''"
| "permission_str Permission.SecretInspect = ''secret.inspect''"
| "permission_str Permission.SecretBind = ''secret.bind''"
| "permission_str Permission.SecretRotate = ''secret.rotate''"
| "permission_str Permission.SecretRevoke = ''secret.revoke''"

definition all_permission :: "Permission list" where
  "all_permission =
    [Permission.InstallationManage, Permission.InstallationSupport,
     Permission.HistoryHoldManage, Permission.McpCleanupRecover, Permission.TenantRead,
     Permission.TenantManage, Permission.TenantEmergencyStop, Permission.AgentRead,
     Permission.AgentWrite, Permission.AgentPublish, Permission.AgentDeploy,
     Permission.AgentActivate, Permission.AgentRun, Permission.SkillRead,
     Permission.SkillWrite, Permission.SkillPublish, Permission.SkillBind,
     Permission.SkillActivate, Permission.CapabilityRead, Permission.CapabilityWrite,
     Permission.CapabilityPublish, Permission.CapabilityDeploy, Permission.CapabilityActivate,
     Permission.CapabilityBind, Permission.CapabilityInvoke, Permission.ContextRead,
     Permission.ContextWrite, Permission.ContextPublish, Permission.ContextDeploy,
     Permission.ContextActivate, Permission.ContextQuery, Permission.ContextBuildDataset,
     Permission.McpRead, Permission.McpWrite, Permission.McpDiscover, Permission.McpImport,
     Permission.McpPublish, Permission.McpDeploy, Permission.McpActivate, Permission.McpInvoke,
     Permission.ModelRead, Permission.ModelWrite, Permission.ModelDiscover,
     Permission.ModelImport, Permission.ModelPublish, Permission.ModelDeploy,
     Permission.ModelActivate, Permission.ModelInvoke, Permission.SandboxRead,
     Permission.SandboxWrite, Permission.SandboxBuild, Permission.SandboxPublish,
     Permission.SandboxActivate, Permission.SandboxExecute, Permission.ArtifactRead,
     Permission.ArtifactWrite, Permission.ArtifactDelete, Permission.ArtifactHold,
     Permission.ArtifactRescan, Permission.ApprovalRead, Permission.ApprovalRespond,
     Permission.InteractionRead, Permission.InteractionRespond, Permission.PolicyRead,
     Permission.PolicyWrite, Permission.PolicyPublish, Permission.PolicyActivate,
     Permission.OperationRead, Permission.OperationCancel, Permission.RuntimeRead,
     Permission.RuntimeControl, Permission.RuntimeSignal, Permission.SecretInspect,
     Permission.SecretBind, Permission.SecretRotate, Permission.SecretRevoke]"

interpretation permission_r: closed_registry all_permission permission_str
proof
  show "x \<in> set all_permission" for x
    by (cases x) (simp_all add: all_permission_def)
  show "distinct (map permission_str all_permission)"
    by code_simp
qed

subsection \<open>Effect\<close>

datatype (plugins only: code) Effect =
    Pure
  | ReadOnly
  | IdempotentWrite
  | NonIdempotentWrite
  | Irreversible

primrec effect_str :: "Effect \<Rightarrow> string" where
  "effect_str Effect.Pure = ''pure''"
| "effect_str Effect.ReadOnly = ''read_only''"
| "effect_str Effect.IdempotentWrite = ''idempotent_write''"
| "effect_str Effect.NonIdempotentWrite = ''non_idempotent_write''"
| "effect_str Effect.Irreversible = ''irreversible''"

definition all_effect :: "Effect list" where
  "all_effect =
    [Effect.Pure, Effect.ReadOnly, Effect.IdempotentWrite, Effect.NonIdempotentWrite,
     Effect.Irreversible]"

interpretation effect_r: closed_registry all_effect effect_str
proof
  show "x \<in> set all_effect" for x
    by (cases x) (simp_all add: all_effect_def)
  show "distinct (map effect_str all_effect)"
    by code_simp
qed

subsection \<open>Data classification\<close>

datatype (plugins only: code) DataClassification =
    Public
  | Internal
  | Confidential
  | Restricted

primrec data_classification_str :: "DataClassification \<Rightarrow> string" where
  "data_classification_str DataClassification.Public = ''public''"
| "data_classification_str DataClassification.Internal = ''internal''"
| "data_classification_str DataClassification.Confidential = ''confidential''"
| "data_classification_str DataClassification.Restricted = ''restricted''"

definition all_data_classification :: "DataClassification list" where
  "all_data_classification =
    [DataClassification.Public, DataClassification.Internal, DataClassification.Confidential,
     DataClassification.Restricted]"

interpretation data_classification_r: closed_registry all_data_classification data_classification_str
proof
  show "x \<in> set all_data_classification" for x
    by (cases x) (simp_all add: all_data_classification_def)
  show "distinct (map data_classification_str all_data_classification)"
    by code_simp
qed

subsection \<open>Code trust class\<close>

datatype (plugins only: code) CodeTrustClass =
    BuiltIn
  | ReviewedPublished
  | TenantPublished
  | ModelGenerated

primrec code_trust_class_str :: "CodeTrustClass \<Rightarrow> string" where
  "code_trust_class_str CodeTrustClass.BuiltIn = ''built_in''"
| "code_trust_class_str CodeTrustClass.ReviewedPublished = ''reviewed_published''"
| "code_trust_class_str CodeTrustClass.TenantPublished = ''tenant_published''"
| "code_trust_class_str CodeTrustClass.ModelGenerated = ''model_generated''"

definition all_code_trust_class :: "CodeTrustClass list" where
  "all_code_trust_class =
    [CodeTrustClass.BuiltIn, CodeTrustClass.ReviewedPublished, CodeTrustClass.TenantPublished,
     CodeTrustClass.ModelGenerated]"

interpretation code_trust_class_r: closed_registry all_code_trust_class code_trust_class_str
proof
  show "x \<in> set all_code_trust_class" for x
    by (cases x) (simp_all add: all_code_trust_class_def)
  show "distinct (map code_trust_class_str all_code_trust_class)"
    by code_simp
qed

subsection \<open>Failure class\<close>

datatype (plugins only: code) FailureClass =
    Validation
  | Authorization
  | Policy
  | Quota
  | Deadline
  | Dependency
  | External
  | Resource
  | Cancelled
  | UncertainEffect
  | Platform

primrec failure_class_str :: "FailureClass \<Rightarrow> string" where
  "failure_class_str FailureClass.Validation = ''validation''"
| "failure_class_str FailureClass.Authorization = ''authorization''"
| "failure_class_str FailureClass.Policy = ''policy''"
| "failure_class_str FailureClass.Quota = ''quota''"
| "failure_class_str FailureClass.Deadline = ''deadline''"
| "failure_class_str FailureClass.Dependency = ''dependency''"
| "failure_class_str FailureClass.External = ''external''"
| "failure_class_str FailureClass.Resource = ''resource''"
| "failure_class_str FailureClass.Cancelled = ''cancelled''"
| "failure_class_str FailureClass.UncertainEffect = ''uncertain_effect''"
| "failure_class_str FailureClass.Platform = ''platform''"

definition all_failure_class :: "FailureClass list" where
  "all_failure_class =
    [FailureClass.Validation, FailureClass.Authorization, FailureClass.Policy,
     FailureClass.Quota, FailureClass.Deadline, FailureClass.Dependency, FailureClass.External,
     FailureClass.Resource, FailureClass.Cancelled, FailureClass.UncertainEffect,
     FailureClass.Platform]"

interpretation failure_class_r: closed_registry all_failure_class failure_class_str
proof
  show "x \<in> set all_failure_class" for x
    by (cases x) (simp_all add: all_failure_class_def)
  show "distinct (map failure_class_str all_failure_class)"
    by code_simp
qed

subsection \<open>Retryability\<close>

datatype (plugins only: code) Retryability =
    Never
  | SafeWithinPolicy
  | ReconcileBeforeRetry

primrec retryability_str :: "Retryability \<Rightarrow> string" where
  "retryability_str Retryability.Never = ''never''"
| "retryability_str Retryability.SafeWithinPolicy = ''safe_within_policy''"
| "retryability_str Retryability.ReconcileBeforeRetry = ''reconcile_before_retry''"

definition all_retryability :: "Retryability list" where
  "all_retryability =
    [Retryability.Never, Retryability.SafeWithinPolicy, Retryability.ReconcileBeforeRetry]"

interpretation retryability_r: closed_registry all_retryability retryability_str
proof
  show "x \<in> set all_retryability" for x
    by (cases x) (simp_all add: all_retryability_def)
  show "distinct (map retryability_str all_retryability)"
    by code_simp
qed

subsection \<open>Failure source\<close>

datatype (plugins only: code) FailureSource =
    Agent
  | Plan
  | Capability
  | Context
  | Model
  | ChildAgent
  | Artifact
  | Interaction
  | Dependency
  | Platform

primrec failure_source_str :: "FailureSource \<Rightarrow> string" where
  "failure_source_str FailureSource.Agent = ''agent''"
| "failure_source_str FailureSource.Plan = ''plan''"
| "failure_source_str FailureSource.Capability = ''capability''"
| "failure_source_str FailureSource.Context = ''context''"
| "failure_source_str FailureSource.Model = ''model''"
| "failure_source_str FailureSource.ChildAgent = ''child_agent''"
| "failure_source_str FailureSource.Artifact = ''artifact''"
| "failure_source_str FailureSource.Interaction = ''interaction''"
| "failure_source_str FailureSource.Dependency = ''dependency''"
| "failure_source_str FailureSource.Platform = ''platform''"

definition all_failure_source :: "FailureSource list" where
  "all_failure_source =
    [FailureSource.Agent, FailureSource.Plan, FailureSource.Capability, FailureSource.Context,
     FailureSource.Model, FailureSource.ChildAgent, FailureSource.Artifact,
     FailureSource.Interaction, FailureSource.Dependency, FailureSource.Platform]"

interpretation failure_source_r: closed_registry all_failure_source failure_source_str
proof
  show "x \<in> set all_failure_source" for x
    by (cases x) (simp_all add: all_failure_source_def)
  show "distinct (map failure_source_str all_failure_source)"
    by code_simp
qed

subsection \<open>Platform failure code\<close>

datatype (plugins only: code) PlatformFailureCode =
    AgentInputInvalid
  | AgentOutputInvalid
  | PlanInvariantFailed
  | BudgetExhausted
  | DeadlineExceeded
  | CapabilityFailed
  | ContextQueryFailed
  | ModelTurnFailed
  | ChildAgentFailed
  | ArtifactUnavailable
  | InteractionFailed
  | DependencyUnavailable
  | ContentRejected
  | UncertainEffect
  | PlatformInvariantFailed

primrec platform_failure_code_str :: "PlatformFailureCode \<Rightarrow> string" where
  "platform_failure_code_str PlatformFailureCode.AgentInputInvalid = ''agent_input_invalid''"
| "platform_failure_code_str PlatformFailureCode.AgentOutputInvalid = ''agent_output_invalid''"
| "platform_failure_code_str PlatformFailureCode.PlanInvariantFailed = ''plan_invariant_failed''"
| "platform_failure_code_str PlatformFailureCode.BudgetExhausted = ''budget_exhausted''"
| "platform_failure_code_str PlatformFailureCode.DeadlineExceeded = ''deadline_exceeded''"
| "platform_failure_code_str PlatformFailureCode.CapabilityFailed = ''capability_failed''"
| "platform_failure_code_str PlatformFailureCode.ContextQueryFailed = ''context_query_failed''"
| "platform_failure_code_str PlatformFailureCode.ModelTurnFailed = ''model_turn_failed''"
| "platform_failure_code_str PlatformFailureCode.ChildAgentFailed = ''child_agent_failed''"
| "platform_failure_code_str PlatformFailureCode.ArtifactUnavailable = ''artifact_unavailable''"
| "platform_failure_code_str PlatformFailureCode.InteractionFailed = ''interaction_failed''"
| "platform_failure_code_str PlatformFailureCode.DependencyUnavailable = ''dependency_unavailable''"
| "platform_failure_code_str PlatformFailureCode.ContentRejected = ''content_rejected''"
| "platform_failure_code_str PlatformFailureCode.UncertainEffect = ''uncertain_effect''"
| "platform_failure_code_str PlatformFailureCode.PlatformInvariantFailed = ''platform_invariant_failed''"

definition all_platform_failure_code :: "PlatformFailureCode list" where
  "all_platform_failure_code =
    [PlatformFailureCode.AgentInputInvalid, PlatformFailureCode.AgentOutputInvalid,
     PlatformFailureCode.PlanInvariantFailed, PlatformFailureCode.BudgetExhausted,
     PlatformFailureCode.DeadlineExceeded, PlatformFailureCode.CapabilityFailed,
     PlatformFailureCode.ContextQueryFailed, PlatformFailureCode.ModelTurnFailed,
     PlatformFailureCode.ChildAgentFailed, PlatformFailureCode.ArtifactUnavailable,
     PlatformFailureCode.InteractionFailed, PlatformFailureCode.DependencyUnavailable,
     PlatformFailureCode.ContentRejected, PlatformFailureCode.UncertainEffect,
     PlatformFailureCode.PlatformInvariantFailed]"

interpretation platform_failure_code_r: closed_registry all_platform_failure_code platform_failure_code_str
proof
  show "x \<in> set all_platform_failure_code" for x
    by (cases x) (simp_all add: all_platform_failure_code_def)
  show "distinct (map platform_failure_code_str all_platform_failure_code)"
    by code_simp
qed

section \<open>Orders\<close>

primrec lock_rank_ordinal :: "LockRank \<Rightarrow> u8" where
  "lock_rank_ordinal LockRank.CommandReceipt = 10"
| "lock_rank_ordinal LockRank.SchedulerFairness = 15"
| "lock_rank_ordinal LockRank.TenantQuotaPolicy = 20"
| "lock_rank_ordinal LockRank.ParentRootAggregate = 30"
| "lock_rank_ordinal LockRank.ChildLeafAggregate = 40"
| "lock_rank_ordinal LockRank.JobFence = 50"
| "lock_rank_ordinal LockRank.PublicRunStreamHead = 60"
| "lock_rank_ordinal LockRank.AppendOnlyProjectionOutbox = 70"

primrec risk_rank :: "Effect \<Rightarrow> u8" where
  "risk_rank Effect.Pure = 0"
| "risk_rank Effect.ReadOnly = 1"
| "risk_rank Effect.IdempotentWrite = 2"
| "risk_rank Effect.NonIdempotentWrite = 3"
| "risk_rank Effect.Irreversible = 4"

primrec classification_rank :: "DataClassification \<Rightarrow> u8" where
  "classification_rank DataClassification.Public = 0"
| "classification_rank DataClassification.Internal = 1"
| "classification_rank DataClassification.Confidential = 2"
| "classification_rank DataClassification.Restricted = 3"

definition classification_join ::
  "DataClassification \<Rightarrow> DataClassification \<Rightarrow> DataClassification" where
  "classification_join a b = (if classification_rank b \<le> classification_rank a then a else b)"

text \<open>The lock order is the declaration order: a later rank has a larger ordinal.\<close>

lemma lock_order_strict: "sorted_wrt (<) (map lock_rank_ordinal all_lock_rank)"
  by code_simp

lemma classification_rank_inj [simp]: "classification_rank a = classification_rank b \<longleftrightarrow> a = b"
  by (cases a; cases b) simp_all

lemma classification_rank_join:
  "classification_rank (classification_join a b) = max (classification_rank a) (classification_rank b)"
  using linear [of "classification_rank a" "classification_rank b"]
  by (auto simp: classification_join_def max_def)

text \<open>Joining classifications is a semilattice: order and repetition of the sources of a value
  cannot lower its classification.\<close>

lemma classification_join_semilattice:
  "classification_join a a = a"
  "classification_join a b = classification_join b a"
  "classification_join (classification_join a b) c = classification_join a (classification_join b c)"
proof -
  have "classification_rank (classification_join (classification_join a b) c) =
      classification_rank (classification_join a (classification_join b c))"
    by (simp only: classification_rank_join max.assoc)
  then show "classification_join (classification_join a b) c = classification_join a (classification_join b c)"
    by simp
  have "classification_rank (classification_join a b) = classification_rank (classification_join b a)"
    by (simp only: classification_rank_join max.commute)
  then show "classification_join a b = classification_join b a" by simp
qed (simp add: classification_join_def)

section \<open>Who may own which work\<close>

definition execution_work_owner_pairs :: "(WorkClass \<times> ResourceKind) list" where
  "execution_work_owner_pairs =
    [(WorkClass.RegistryValidation, ResourceKind.Job),
     (WorkClass.Orchestration, ResourceKind.NodeExecution),
     (WorkClass.Model, ResourceKind.ModelTurn),
     (WorkClass.CapabilityNative, ResourceKind.CapabilityInvocation),
     (WorkClass.CapabilityRemote, ResourceKind.CapabilityInvocation),
     (WorkClass.Mcp, ResourceKind.McpOperation),
     (WorkClass.Context, ResourceKind.ContextQuery),
     (WorkClass.Context, ResourceKind.ContextDataset),
     (WorkClass.Context, ResourceKind.McpOperation),
     (WorkClass.Sandbox, ResourceKind.Job),
     (WorkClass.Interaction, ResourceKind.Interaction),
     (WorkClass.Artifact, ResourceKind.Artifact),
     (WorkClass.Artifact, ResourceKind.InternalBlob),
     (WorkClass.Recovery, ResourceKind.Run),
     (WorkClass.Recovery, ResourceKind.NodeExecution),
     (WorkClass.Recovery, ResourceKind.CapabilityInvocation),
     (WorkClass.Recovery, ResourceKind.ContextQuery),
     (WorkClass.Recovery, ResourceKind.McpOperation),
     (WorkClass.Recovery, ResourceKind.ModelTurn),
     (WorkClass.Recovery, ResourceKind.Job),
     (WorkClass.Recovery, ResourceKind.Interaction)]"

definition job_kind_work_owner_triples :: "(JobKind \<times> WorkClass \<times> ResourceKind) list" where
  "job_kind_work_owner_triples =
    [(JobKind.RegistryValidation, WorkClass.RegistryValidation, ResourceKind.Job),
     (JobKind.OrchestrationNode, WorkClass.Orchestration, ResourceKind.NodeExecution),
     (JobKind.ModelTurn, WorkClass.Model, ResourceKind.ModelTurn),
     (JobKind.CapabilityInvocation, WorkClass.CapabilityNative, ResourceKind.CapabilityInvocation),
     (JobKind.CapabilityInvocation, WorkClass.CapabilityRemote, ResourceKind.CapabilityInvocation),
     (JobKind.McpDiscovery, WorkClass.Mcp, ResourceKind.McpOperation),
     (JobKind.McpSubscription, WorkClass.Mcp, ResourceKind.McpOperation),
     (JobKind.ContextQueryNative, WorkClass.Context, ResourceKind.ContextQuery),
     (JobKind.ContextQueryRemote, WorkClass.Context, ResourceKind.ContextQuery),
     (JobKind.ContextDatasetBuild, WorkClass.Context, ResourceKind.ContextDataset),
     (JobKind.ContextSubscriptionRefresh, WorkClass.Context, ResourceKind.McpOperation),
     (JobKind.SandboxCapabilityExecution, WorkClass.Sandbox, ResourceKind.Job),
     (JobKind.Interaction, WorkClass.Interaction, ResourceKind.Interaction),
     (JobKind.ArtifactScan, WorkClass.Artifact, ResourceKind.Artifact),
     (JobKind.ArtifactRescan, WorkClass.Artifact, ResourceKind.Artifact),
     (JobKind.ArtifactDelete, WorkClass.Artifact, ResourceKind.Artifact),
     (JobKind.ArtifactBlobCleanup, WorkClass.Artifact, ResourceKind.InternalBlob),
     (JobKind.Recovery, WorkClass.Recovery, ResourceKind.Run),
     (JobKind.Recovery, WorkClass.Recovery, ResourceKind.NodeExecution),
     (JobKind.Recovery, WorkClass.Recovery, ResourceKind.CapabilityInvocation),
     (JobKind.Recovery, WorkClass.Recovery, ResourceKind.ContextQuery),
     (JobKind.Recovery, WorkClass.Recovery, ResourceKind.McpOperation),
     (JobKind.Recovery, WorkClass.Recovery, ResourceKind.ModelTurn),
     (JobKind.Recovery, WorkClass.Recovery, ResourceKind.Job),
     (JobKind.McpOAuthPkceCleanup, WorkClass.Recovery, ResourceKind.Interaction)]"

text \<open>The two lookups scan the table by discriminant.\<close>

definition is_job_kind_work_owner_triple :: "JobKind \<Rightarrow> WorkClass \<Rightarrow> ResourceKind \<Rightarrow> bool" where
  "is_job_kind_work_owner_triple job_kind work_class owner_kind \<longleftrightarrow>
     list_ex (\<lambda>c. c = (job_kind, work_class, owner_kind)) job_kind_work_owner_triples"

definition is_execution_work_owner_pair :: "WorkClass \<Rightarrow> ResourceKind \<Rightarrow> bool" where
  "is_execution_work_owner_pair work_class owner_kind \<longleftrightarrow>
     list_ex (\<lambda>c. c = (work_class, owner_kind)) execution_work_owner_pairs"

lemma triple_pairs_listed:
  "list_all (\<lambda>(_, w, k). list_ex (\<lambda>c. c = (w, k)) execution_work_owner_pairs)
     job_kind_work_owner_triples"
  unfolding job_kind_work_owner_triples_def execution_work_owner_pairs_def by simp

lemma triple_is_pair:
  "is_job_kind_work_owner_triple j w k \<Longrightarrow> is_execution_work_owner_pair w k"
  using triple_pairs_listed
  by (auto simp: is_job_kind_work_owner_triple_def is_execution_work_owner_pair_def
      list_all_iff list_ex_iff)

end
