(* ===== verification/Authority.thy ===== *)
theory Authority
  imports Digests Registry
begin

text \<open>
  Authorization evidence and failures: the contracts of \<open>platform-contracts/src/security.rs\<close> that
  travel inside other aggregates (permission sets, principal snapshots, task eligibility), the exact
  deployment reference of \<open>resource.rs\<close> and the failure value of \<open>types.rs\<close>.  A snapshot carries
  the canonical digest of its own fields; the digest is computed over the JSON form serde gives
  the struct.
\<close>

section \<open>Digests of documents\<close>

record 'n platform_env = "'n digest_env" +
  pe_uuid :: uuid_codec

text \<open>\<open>canonical_digest(&value).map_err(e)?.parse().map_err(e)\<close>\<close>

definition document_digest ::
  "('n, 'z) platform_env_scheme \<Rightarrow> 'e \<Rightarrow> 'n Json \<Rightarrow> 'e + Sha256Digest" where
  "document_digest env e v =
     rbind (map_err e (canonical_digest env v)) (\<lambda>text. ok_or e (parse_digest text))"

definition json_number :: "('n, 'z) platform_env_scheme \<Rightarrow> u64 \<Rightarrow> 'n Json" where
  "json_number env w = Number (de_number env w)"

definition json_id :: "('n, 'z) platform_env_scheme \<Rightarrow> ResourceId \<Rightarrow> 'n Json" where
  "json_id env i = String (show_resource_id (pe_uuid env) i)"

definition json_u16 :: "('n, 'z) platform_env_scheme \<Rightarrow> u16 \<Rightarrow> 'n Json" where "json_u16 env w = json_number env (ucast w)"
definition json_u32 :: "('n, 'z) platform_env_scheme \<Rightarrow> u32 \<Rightarrow> 'n Json" where "json_u32 env w = json_number env (ucast w)"
definition json_u8 :: "('n, 'z) platform_env_scheme \<Rightarrow> u8 \<Rightarrow> 'n Json" where "json_u8 env w = json_number env (ucast w)"

definition json_option :: "('a \<Rightarrow> 'n Json) \<Rightarrow> 'a option \<Rightarrow> 'n Json" where
  "json_option f v = (case v of None \<Rightarrow> Null | Some x \<Rightarrow> f x)"

section \<open>Permissions\<close>

datatype SecurityContractError =
    InvalidTenantConfig
  | InvalidPrincipalSnapshot
  | DuplicatePermission Permission
  | InvalidPrincipalContext
  | InvalidPrincipalScope
  | InvalidInstallationBinding
  | DuplicateInstallationBinding PrincipalKind
  | InvalidSecretPurpose
  | InvalidSecretProvider
  | InvalidRotationPolicy
  | InvalidExactSecretBinding

text \<open>The private vector of a \<open>PermissionSet\<close>, sorted and without duplicates.\<close>

datatype PermissionSet = PermissionSet (permissions: "Permission list")

fun first_duplicate :: "'a set \<Rightarrow> 'a list \<Rightarrow> 'a option" where
  "first_duplicate seen [] = None"
| "first_duplicate seen (x # xs) =
     (if x \<in> seen then Some x else first_duplicate (insert x seen) xs)"

text \<open>\<open>unique.into_iter().collect()\<close> lists the set in declaration order.\<close>

definition permission_set_new :: "Permission list \<Rightarrow> SecurityContractError + PermissionSet" where
  "permission_set_new values =
     (case first_duplicate {} values of
        Some v \<Rightarrow> Inl (DuplicatePermission v)
      | None \<Rightarrow> Inr (PermissionSet (filter (\<lambda>p. p \<in> set values) all_permission)))"

text \<open>\<open>binary_search\<close> on the sorted vector.\<close>

definition permission_set_contains :: "PermissionSet \<Rightarrow> Permission \<Rightarrow> bool" where
  "permission_set_contains s p \<longleftrightarrow> p \<in> set (permissions s)"

lemma first_duplicate_None: "first_duplicate seen xs = None \<longleftrightarrow> distinct xs \<and> set xs \<inter> seen = {}"
  by (induction xs arbitrary: seen) auto

lemma permission_set_new_contains:
  "permission_set_new values = Inr s \<Longrightarrow> permission_set_contains s p \<longleftrightarrow> p \<in> set values"
  using permission_r.complete
  by (auto simp: permission_set_new_def permission_set_contains_def split: option.splits)

section \<open>Principal snapshots\<close>

record PrincipalSnapshot =
  ps_schema_version :: u32
  ps_tenant_id :: ResourceId
  ps_principal_id :: ResourceId
  ps_principal_kind :: PrincipalKind
  ps_permissions :: PermissionSet
  ps_principal_version :: u64
  ps_binding_generation :: u64
  ps_binding_version :: u64
  ps_permissions_digest :: Sha256Digest
  ps_canonical_digest :: Sha256Digest

definition validate_principal_snapshot_authority ::
  "ResourceId \<Rightarrow> ResourceId \<Rightarrow> PrincipalKind \<Rightarrow> u64 \<Rightarrow> u64 \<Rightarrow> u64 \<Rightarrow> SecurityContractError + unit" where
  "validate_principal_snapshot_authority tenant_id principal_id principal_kind principal_version
     binding_generation binding_version =
     fail_if
       (rid_kind tenant_id \<noteq> ResourceKind.Tenant
        \<or> rid_kind principal_id \<noteq> ResourceKind.Principal
        \<or> principal_kind = PrincipalKind.InstallationOperator
        \<or> principal_version = 0 \<or> binding_generation = 0 \<or> binding_version = 0)
       InvalidPrincipalSnapshot"

definition permissions_json :: "PermissionSet \<Rightarrow> 'n Json" where
  "permissions_json s = Array (map (\<lambda>p. String (permission_str p)) (permissions s))"

definition principal_permissions_digest ::
  "('n, 'z) platform_env_scheme \<Rightarrow> PermissionSet \<Rightarrow> SecurityContractError + Sha256Digest" where
  "principal_permissions_digest env s =
     document_digest env InvalidPrincipalSnapshot
       (json_object [(''schema_version'', json_number env 1), (''permissions'', permissions_json s)])"

definition unsigned_snapshot_json ::
  "('n, 'z) platform_env_scheme \<Rightarrow> PrincipalSnapshot \<Rightarrow> 'n Json" where
  "unsigned_snapshot_json env s = json_object
     [(''schema_version'', json_number env (ucast (ps_schema_version s))),
      (''tenant_id'', json_id env (ps_tenant_id s)),
      (''principal_id'', json_id env (ps_principal_id s)),
      (''principal_kind'', String (principal_kind_str (ps_principal_kind s))),
      (''permissions'', permissions_json (ps_permissions s)),
      (''principal_version'', json_number env (ps_principal_version s)),
      (''binding_generation'', json_number env (ps_binding_generation s)),
      (''binding_version'', json_number env (ps_binding_version s)),
      (''permissions_digest'', String (ps_permissions_digest s))]"

definition snapshot_digest ::
  "('n, 'z) platform_env_scheme \<Rightarrow> PrincipalSnapshot \<Rightarrow> SecurityContractError + Sha256Digest" where
  "snapshot_digest env s = document_digest env InvalidPrincipalSnapshot (unsigned_snapshot_json env s)"

definition principal_snapshot_build ::
  "('n, 'z) platform_env_scheme \<Rightarrow> ResourceId \<Rightarrow> ResourceId \<Rightarrow> PrincipalKind \<Rightarrow> PermissionSet \<Rightarrow>
   u64 \<Rightarrow> u64 \<Rightarrow> u64 \<Rightarrow> SecurityContractError + PrincipalSnapshot" where
  "principal_snapshot_build env tenant_id principal_id principal_kind perms principal_version
     binding_generation binding_version =
     rbind (validate_principal_snapshot_authority tenant_id principal_id principal_kind
       principal_version binding_generation binding_version) (\<lambda>_.
     rbind (principal_permissions_digest env perms) (\<lambda>permissions_digest.
     let unsigned = \<lparr>ps_schema_version = 1, ps_tenant_id = tenant_id, ps_principal_id = principal_id,
           ps_principal_kind = principal_kind, ps_permissions = perms,
           ps_principal_version = principal_version, ps_binding_generation = binding_generation,
           ps_binding_version = binding_version, ps_permissions_digest = permissions_digest,
           ps_canonical_digest = []\<rparr>
     in rbind (snapshot_digest env unsigned) (\<lambda>digest.
        Inr (unsigned\<lparr>ps_canonical_digest := digest\<rparr>))))"

definition principal_snapshot_validate ::
  "('n, 'z) platform_env_scheme \<Rightarrow> PrincipalSnapshot \<Rightarrow> SecurityContractError + unit" where
  "principal_snapshot_validate env s =
     (if ps_schema_version s \<noteq> 1 then Inl InvalidPrincipalSnapshot
      else
        rbind (validate_principal_snapshot_authority (ps_tenant_id s) (ps_principal_id s)
          (ps_principal_kind s) (ps_principal_version s) (ps_binding_generation s)
          (ps_binding_version s)) (\<lambda>_.
        rbind (principal_permissions_digest env (ps_permissions s)) (\<lambda>p.
        if p \<noteq> ps_permissions_digest s then Inl InvalidPrincipalSnapshot
        else
          rbind (snapshot_digest env s) (\<lambda>d.
          if d \<noteq> ps_canonical_digest s then Inl InvalidPrincipalSnapshot else Inr ()))))"

text \<open>What \<open>build\<close> returns, \<open>validate\<close> accepts.\<close>

lemma built_snapshot_validates:
  "principal_snapshot_build env t p k perms pv bg bv = Inr s \<Longrightarrow> principal_snapshot_validate env s = Inr ()"
  by (auto simp: principal_snapshot_build_def principal_snapshot_validate_def snapshot_digest_def
      unsigned_snapshot_json_def Let_def result_simps)

section \<open>Task eligibility\<close>

datatype TaskEligibilityRule =
    AnyAuthorized
  | Creator
  | ExactPrincipal (exact_principal_id: ResourceId)

definition eligibility_validate :: "TaskEligibilityRule \<Rightarrow> SecurityContractError + unit" where
  "eligibility_validate r =
     (case r of
        ExactPrincipal principal_id \<Rightarrow>
          if rid_kind principal_id \<noteq> ResourceKind.Principal then Inl InvalidPrincipalScope else Inr ()
      | _ \<Rightarrow> Inr ())"

definition eligibility_json :: "('n, 'z) platform_env_scheme \<Rightarrow> TaskEligibilityRule \<Rightarrow> 'n Json" where
  "eligibility_json env r =
     (case r of
        AnyAuthorized \<Rightarrow> json_object [(''kind'', String ''any_authorized'')]
      | Creator \<Rightarrow> json_object [(''kind'', String ''creator'')]
      | ExactPrincipal p \<Rightarrow> json_object [(''kind'', String ''exact_principal''), (''principal_id'', json_id env p)])"

definition eligibility_digest ::
  "('n, 'z) platform_env_scheme \<Rightarrow> TaskEligibilityRule \<Rightarrow> SecurityContractError + Sha256Digest" where
  "eligibility_digest env r =
     rbind (eligibility_validate r) (\<lambda>_.
     document_digest env InvalidPrincipalScope
       (json_object [(''schema_version'', json_number env 1), (''rule'', eligibility_json env r)]))"

definition eligibility_permits :: "TaskEligibilityRule \<Rightarrow> ResourceId \<Rightarrow> ResourceId \<Rightarrow> bool" where
  "eligibility_permits r admitted_creator current_principal \<longleftrightarrow>
     is_ok (eligibility_validate r)
     \<and> (case r of
          AnyAuthorized \<Rightarrow> True
        | Creator \<Rightarrow> admitted_creator = current_principal
        | ExactPrincipal principal_id \<Rightarrow> principal_id = current_principal)"

section \<open>Exact references and failures\<close>

record ExactDeploymentRef =
  xd_deployment_id :: ResourceId
  xd_resource_kind :: ResourceKind
  xd_deployment_digest :: Sha256Digest

datatype ResourceContractError = WrongResourceIdKind | InvalidPolicyDocument

definition exact_deployment_new :: "ResourceId \<Rightarrow> Sha256Digest \<Rightarrow> ResourceContractError + ExactDeploymentRef" where
  "exact_deployment_new deployment_id deployment_digest =
     (if \<not> is_deployment (rid_kind deployment_id) then Inl WrongResourceIdKind
      else Inr \<lparr>xd_deployment_id = deployment_id, xd_resource_kind = rid_kind deployment_id,
        xd_deployment_digest = deployment_digest\<rparr>)"

definition exact_deployment_validate :: "ExactDeploymentRef \<Rightarrow> ResourceContractError + unit" where
  "exact_deployment_validate r =
     fail_if (\<not> is_deployment (rid_kind (xd_deployment_id r))
       \<or> rid_kind (xd_deployment_id r) \<noteq> xd_resource_kind r) WrongResourceIdKind"

record ExactVersionRef =
  xv_revision_id :: ResourceId
  xv_resource_kind :: ResourceKind
  xv_semantic_digest :: Sha256Digest

definition version_ref_new :: "ResourceId \<Rightarrow> Sha256Digest \<Rightarrow> ResourceContractError + ExactVersionRef" where
  "version_ref_new revision_id semantic_digest =
     (if \<not> is_revision (rid_kind revision_id) then Inl WrongResourceIdKind
      else Inr \<lparr>xv_revision_id = revision_id, xv_resource_kind = rid_kind revision_id,
        xv_semantic_digest = semantic_digest\<rparr>)"

definition version_ref_validate :: "ExactVersionRef \<Rightarrow> ResourceContractError + unit" where
  "version_ref_validate r =
     fail_if (\<not> is_revision (rid_kind (xv_revision_id r)) \<or> rid_kind (xv_revision_id r) \<noteq> xv_resource_kind r)
       WrongResourceIdKind"

datatype NominalTypeError = WrongResourceKind | UnsafeMessage | InvalidArtifactRef

text \<open>Strings are their UTF-8 bytes: \<open>char::is_control\<close> holds of U+0000 to U+001F, of U+007F and of
  U+0080 to U+009F, whose encoding is C2 80 to C2 9F; a character is a byte that is not a
  continuation byte.\<close>

fun has_control :: "string \<Rightarrow> bool" where
  "has_control [] = False"
| "has_control (a # rest) =
     (byte_of a < 32 \<or> byte_of a = 127
      \<or> (byte_of a = 194 \<and> (case rest of [] \<Rightarrow> False | b # _ \<Rightarrow> 128 \<le> byte_of b \<and> byte_of b \<le> 159))
      \<or> has_control rest)"

definition char_count :: "string \<Rightarrow> nat" where
  "char_count s = length (filter (\<lambda>c. byte_of c < 128 \<or> 192 \<le> byte_of c) s)"

record ArtifactRef =
  ar_artifact_id :: ResourceId
  ar_content_digest :: Sha256Digest
  ar_byte_length :: u64
  ar_media_type :: string
  ar_classification :: DataClassification
  ar_display_name :: "string option"

definition MAX_ARTIFACT_BYTES :: u64 where
  "MAX_ARTIFACT_BYTES = 1073741824"

definition artifact_ref_validate :: "ArtifactRef \<Rightarrow> NominalTypeError + unit" where
  "artifact_ref_validate r =
     (if rid_kind (ar_artifact_id r) \<noteq> ResourceKind.Artifact then Inl WrongResourceKind
      else if MAX_ARTIFACT_BYTES < ar_byte_length r
        \<or> ar_media_type r = []
        \<or> 255 < length (ar_media_type r)
        \<or> \<not> list_all (\<lambda>c. byte_of c < 128) (ar_media_type r)
        \<or> list_ex (\<lambda>c. byte_of c < 32 \<or> byte_of c = 127) (ar_media_type r)
      then Inl InvalidArtifactRef
      else if some_and (ar_display_name r) (\<lambda>name.
          name = [] \<or> 255 < char_count name \<or> 1020 < length name \<or> has_control name
          \<or> CHR ''/'' \<in> set name \<or> CHR 0x5C \<in> set name)
      then Inl InvalidArtifactRef
      else Inr ())"

datatype FailureCode =
    Platform PlatformFailureCode
  | Declared (interface_revision_id: ResourceId) (declared_code: string)

record Failure =
  fl_code :: FailureCode
  fl_class :: FailureClass
  fl_retryability :: Retryability
  fl_safe_message :: "string option"
  fl_details_ref :: "ArtifactRef option"
  fl_source :: FailureSource

definition failure_validate :: "Failure \<Rightarrow> nat \<Rightarrow> NominalTypeError + unit" where
  "failure_validate f max_safe_message_bytes =
     rbind (case fl_code f of
         Declared i _ \<Rightarrow>
           fail_if (rid_kind i \<notin> {ResourceKind.AgentInterfaceRevision, ResourceKind.CapabilityInterfaceRevision})
             WrongResourceKind
       | Platform _ \<Rightarrow> Inr ()) (\<lambda>_.
     if some_and (fl_safe_message f) (\<lambda>m. max_safe_message_bytes < length m \<or> has_control m)
     then Inl UnsafeMessage
     else (case fl_details_ref f of None \<Rightarrow> Inr () | Some r \<Rightarrow> artifact_ref_validate r))"

end
