(* ===== verification/Contracts.thy ===== *)
theory Contracts
  imports States Trace Authority
begin

text \<open>
  What the contract crates promise their callers: ids and trace contexts read back exactly, every
  execution can still end, and classifications join upwards.
\<close>

section \<open>Texts read back\<close>

lemma parse_show_resource_id:
  assumes "uuid_codec_ok uc" and "uuid_is_v7 uc (rid_uuid i)"
  shows "parse_resource_id uc (show_resource_id uc i) = Inr i"
proof -
  have u: "uuid_show uc (rid_uuid i) \<noteq> []" "CHR ''_'' \<notin> set (uuid_show uc (rid_uuid i))"
    "uuid_parse uc (uuid_show uc (rid_uuid i)) = Some (rid_uuid i)"
    using assms(1) by (simp_all add: uuid_codec_ok_def)
  show ?thesis
    using prefix_shape [of "rid_kind i"] u assms(2)
    by (cases i) (simp add: parse_resource_id_def show_resource_id_def split_once_append)
qed

text \<open>A codec that meets its contract: the text of a value is as many letters as the value.\<close>

definition ex_codec :: uuid_codec where
  "ex_codec = \<lparr>uuid_parse = (\<lambda>s. Some (word_of_nat (length s - 1))),
     uuid_show = (\<lambda>u. replicate (unat u + 1) (CHR ''a'')), uuid_is_v7 = (\<lambda>_. True)\<rparr>"

lemma ex_codec_ok: "uuid_codec_ok ex_codec"
  by (simp add: uuid_codec_ok_def ex_codec_def)

text \<open>C40: Given a UUID library whose text parses back, a text parses as a resource id exactly when it
  is the canonical text of that id and the id's UUID is a version 7 one; so ids round trip, no id has
  two texts, and ids of different kinds never share one.\<close>

theorem resource_ids_are_canonical:
  assumes "uuid_codec_ok uc"
  shows "parse_resource_id uc s = Inr i \<longleftrightarrow> uuid_is_v7 uc (rid_uuid i) \<and> s = show_resource_id uc i"
  using parse_resource_id_Inr parse_show_resource_id [OF assms] by blast

lemma resource_ids_are_canonical_witness:
  "parse_resource_id ex_codec ''run_aa'' = Inr (ResourceId ResourceKind.Run 1)"
  unfolding resource_ids_are_canonical [OF ex_codec_ok]
  by (simp add: show_resource_id_def ex_codec_def kind_descriptor_def numeral_2_eq_2)

text \<open>A text parses as a W3C trace parent exactly when it is the canonical text of a trace parent
  whose trace and span ids are not all zero: parsing and printing are mutual inverses.\<close>

theorem traceparent_round_trip:
  "traceparent_from_str v = Inr p \<longleftrightarrow> traceparent_ok p \<and> v = show_traceparent p"
  using traceparent_from_str_show traceparent_from_str_Inr by blast

section \<open>Every execution can end\<close>

context closed_machine
begin

lemma every_state_can_finish:
  assumes "list_all (can_finish all can n) all"
  shows "\<exists>t. can\<^sup>*\<^sup>* s t \<and> (\<forall>u. \<not> can t u)"
  using assms complete by (intro can_finish_reaches [of n]) (simp add: list_all_iff)

end

lemma run_state_can_finish: "list_all (can_finish all_run_state run_state_can_transition_to 8) all_run_state"
  by code_simp

lemma scope_state_can_finish: "list_all (can_finish all_scope_state scope_state_can_transition_to 8) all_scope_state"
  by code_simp

lemma node_execution_state_can_finish: "list_all (can_finish all_node_execution_state node_execution_state_can_transition_to 8) all_node_execution_state"
  by code_simp

lemma attempt_observation_state_can_finish: "list_all (can_finish all_attempt_observation_state attempt_observation_state_can_transition_to 8) all_attempt_observation_state"
  by code_simp

lemma job_state_can_finish: "list_all (can_finish all_job_state job_state_can_transition_to 8) all_job_state"
  by code_simp

lemma wake_contract_state_can_finish: "list_all (can_finish all_wake_contract_state wake_contract_state_can_transition_to 8) all_wake_contract_state"
  by code_simp

lemma interaction_state_can_finish: "list_all (can_finish all_interaction_state interaction_state_can_transition_to 8) all_interaction_state"
  by code_simp

lemma invocation_state_can_finish: "list_all (can_finish all_invocation_state invocation_state_can_transition_to 8) all_invocation_state"
  by code_simp

lemma context_query_state_can_finish: "list_all (can_finish all_context_query_state context_query_state_can_transition_to 8) all_context_query_state"
  by code_simp

lemma child_link_state_can_finish: "list_all (can_finish all_child_link_state child_link_state_can_transition_to 8) all_child_link_state"
  by code_simp

lemma model_turn_state_can_finish: "list_all (can_finish all_model_turn_state model_turn_state_can_transition_to 8) all_model_turn_state"
  by code_simp

lemma sandbox_job_state_can_finish: "list_all (can_finish all_sandbox_job_state sandbox_job_state_can_transition_to 8) all_sandbox_job_state"
  by code_simp

lemma artifact_state_can_finish: "list_all (can_finish all_artifact_state artifact_state_can_transition_to 8) all_artifact_state"
  by code_simp

text \<open>From every state of a run, scope, node execution, attempt, job, wake contract, interaction,
  capability invocation, context query, child run link, model turn, sandbox job and artifact, the
  state tables lead to a state with no outgoing transition: none of these can be stuck for ever.\<close>

theorem every_execution_can_end:
  "(\<exists>t. run_state_can_transition_to\<^sup>*\<^sup>* s0 t \<and> (\<forall>u. \<not> run_state_can_transition_to t u))
   \<and> (\<exists>t. scope_state_can_transition_to\<^sup>*\<^sup>* s1 t \<and> (\<forall>u. \<not> scope_state_can_transition_to t u))
   \<and> (\<exists>t. node_execution_state_can_transition_to\<^sup>*\<^sup>* s2 t \<and> (\<forall>u. \<not> node_execution_state_can_transition_to t u))
   \<and> (\<exists>t. attempt_observation_state_can_transition_to\<^sup>*\<^sup>* s3 t \<and> (\<forall>u. \<not> attempt_observation_state_can_transition_to t u))
   \<and> (\<exists>t. job_state_can_transition_to\<^sup>*\<^sup>* s4 t \<and> (\<forall>u. \<not> job_state_can_transition_to t u))
   \<and> (\<exists>t. wake_contract_state_can_transition_to\<^sup>*\<^sup>* s5 t \<and> (\<forall>u. \<not> wake_contract_state_can_transition_to t u))
   \<and> (\<exists>t. interaction_state_can_transition_to\<^sup>*\<^sup>* s6 t \<and> (\<forall>u. \<not> interaction_state_can_transition_to t u))
   \<and> (\<exists>t. invocation_state_can_transition_to\<^sup>*\<^sup>* s7 t \<and> (\<forall>u. \<not> invocation_state_can_transition_to t u))
   \<and> (\<exists>t. context_query_state_can_transition_to\<^sup>*\<^sup>* s8 t \<and> (\<forall>u. \<not> context_query_state_can_transition_to t u))
   \<and> (\<exists>t. child_link_state_can_transition_to\<^sup>*\<^sup>* s9 t \<and> (\<forall>u. \<not> child_link_state_can_transition_to t u))
   \<and> (\<exists>t. model_turn_state_can_transition_to\<^sup>*\<^sup>* s10 t \<and> (\<forall>u. \<not> model_turn_state_can_transition_to t u))
   \<and> (\<exists>t. sandbox_job_state_can_transition_to\<^sup>*\<^sup>* s11 t \<and> (\<forall>u. \<not> sandbox_job_state_can_transition_to t u))
   \<and> (\<exists>t. artifact_state_can_transition_to\<^sup>*\<^sup>* s12 t \<and> (\<forall>u. \<not> artifact_state_can_transition_to t u))"
  by (intro conjI run_m.every_state_can_finish [OF run_state_can_finish]
      scope_m.every_state_can_finish [OF scope_state_can_finish]
      node_execution_m.every_state_can_finish [OF node_execution_state_can_finish]
      attempt_observation_m.every_state_can_finish [OF attempt_observation_state_can_finish]
      job_m.every_state_can_finish [OF job_state_can_finish]
      wake_contract_m.every_state_can_finish [OF wake_contract_state_can_finish]
      interaction_m.every_state_can_finish [OF interaction_state_can_finish]
      invocation_m.every_state_can_finish [OF invocation_state_can_finish]
      context_query_m.every_state_can_finish [OF context_query_state_can_finish]
      child_link_m.every_state_can_finish [OF child_link_state_can_finish]
      model_turn_m.every_state_can_finish [OF model_turn_state_can_finish]
      sandbox_job_m.every_state_can_finish [OF sandbox_job_state_can_finish]
      artifact_m.every_state_can_finish [OF artifact_state_can_finish])

section \<open>Classification\<close>

text \<open>The join of two data classifications is their least upper bound by rank, whatever the
  grouping and order of the operands: a value derived from several sources is never classified
  below any of them.\<close>

theorem classification_join_is_least_upper_bound:
  "classification_rank (classification_join a b) \<le> classification_rank c \<longleftrightarrow>
     classification_rank a \<le> classification_rank c \<and> classification_rank b \<le> classification_rank c"
  by (simp add: classification_rank_join)

end
