(* ===== verification/Jobs.thy ===== *)
theory Jobs
  imports States Registry Trace
begin

text \<open>
  The durable Job authority (\<open>execution/platform-jobs/src/lib.rs\<close>): a Job projection, the lease
  and the wake contract it may carry, and one pure decision per command.  A decision reads the
  current projection, the fence of the worker that asks and the database clock, and returns the
  next projection or an error.  Nothing is written in place: the repository stores an accepted
  projection under the version it was decided on.
\<close>

section \<open>Data\<close>

definition MAX_WAKE_SOURCES :: nat where
  "MAX_WAKE_SOURCES = 8"

datatype JobError =
    InvalidOwner
  | InvalidProjection
  | InvalidLease
  | InvalidLeasePolicy
  | InvalidWakeContract
  | InvalidTransition
  | InvalidRetry
  | InvalidRecoveryDecision
  | NotClaimable
  | StaleFence
  | LeaseExpired
  | WakeLostFirstWinner
  | CounterOverflow

record JobOwnerRef =
  jo_owner_id :: ResourceId
  jo_owner_kind :: ResourceKind

datatype (plugins only: code) WakeSource = Callback | Poll | Signal | Timer | ChildRun | Cancel | Timeout

primrec wake_source_str :: "WakeSource \<Rightarrow> string" where
  "wake_source_str WakeSource.Callback = ''callback''"
| "wake_source_str WakeSource.Poll = ''poll''"
| "wake_source_str WakeSource.Signal = ''signal''"
| "wake_source_str WakeSource.Timer = ''timer''"
| "wake_source_str WakeSource.ChildRun = ''child_run''"
| "wake_source_str WakeSource.Cancel = ''cancel''"
| "wake_source_str WakeSource.Timeout = ''timeout''"

primrec wake_source_rank :: "WakeSource \<Rightarrow> nat" where
  "wake_source_rank WakeSource.Callback = 0"
| "wake_source_rank WakeSource.Poll = 1"
| "wake_source_rank WakeSource.Signal = 2"
| "wake_source_rank WakeSource.Timer = 3"
| "wake_source_rank WakeSource.ChildRun = 4"
| "wake_source_rank WakeSource.Cancel = 5"
| "wake_source_rank WakeSource.Timeout = 6"

text \<open>The derived \<open>Ord\<close>: declaration order.\<close>

instantiation WakeSource :: linorder
begin

definition less_eq_WakeSource :: "WakeSource \<Rightarrow> WakeSource \<Rightarrow> bool" where
  "less_eq_WakeSource a b \<longleftrightarrow> wake_source_rank a \<le> wake_source_rank b"

definition less_WakeSource :: "WakeSource \<Rightarrow> WakeSource \<Rightarrow> bool" where
  "less_WakeSource a b \<longleftrightarrow> wake_source_rank a < wake_source_rank b"

instance
proof
  fix a b :: WakeSource
  show "a \<le> b \<Longrightarrow> b \<le> a \<Longrightarrow> a = b"
    by (cases a; cases b) (simp_all add: less_eq_WakeSource_def)
qed (auto simp: less_eq_WakeSource_def less_WakeSource_def)

end

datatype (plugins only: code) WakeKind = Timer | Signal | RemoteInvocation | ChildRun | RetryDeadline

primrec wake_kind_str :: "WakeKind \<Rightarrow> string" where
  "wake_kind_str WakeKind.Timer = ''timer''"
| "wake_kind_str WakeKind.Signal = ''signal''"
| "wake_kind_str WakeKind.RemoteInvocation = ''remote_invocation''"
| "wake_kind_str WakeKind.ChildRun = ''child_run''"
| "wake_kind_str WakeKind.RetryDeadline = ''retry_deadline''"

record WakeContract =
  wk_kind :: WakeKind
  wk_generation :: u64
  wk_accepted_sources :: "WakeSource list"
  wk_expected_response_schema_digest :: "Sha256Digest option"
  wk_opaque_state_digest :: "Sha256Digest option"
  wk_next_poll_at :: "instant option"
  wk_poll_count :: u32
  wk_poll_limit :: u32
  wk_callback_binding_digest :: "Sha256Digest option"
  wk_deadline :: instant

record JobLease =
  jl_worker_process_generation_id :: ResourceId
  jl_lease_generation :: u64
  jl_token_digest :: Sha256Digest
  jl_heartbeat_at :: instant
  jl_expires_at :: instant

record JobProjection =
  jp_trace :: TraceIdentityV1
  jp_tenant_id :: ResourceId
  jp_job_id :: ResourceId
  jp_work_class :: WorkClass
  jp_owner :: JobOwnerRef
  jp_state :: JobState
  jp_version :: u64
  jp_attempt_count :: u32
  jp_attempt_limit :: u32
  jp_lease_generation :: u64
  jp_lease :: "JobLease option"
  jp_scheduled_at :: instant
  jp_retry_at :: "instant option"
  jp_wake :: "WakeContract option"
  jp_deadline :: instant

record JobFence =
  jf_expected_version :: u64
  jf_worker_process_generation_id :: ResourceId
  jf_lease_generation :: u64
  jf_token_digest :: Sha256Digest

record LeasePolicy =
  lp_requested_milliseconds :: u64
  lp_hard_maximum_milliseconds :: u64

text \<open>\<open>DateTime::checked_add_signed\<close> of the chrono crate: the sum, unless it leaves the range
  of \<open>DateTime\<close>.\<close>

type_synonym chrono_add = "instant \<Rightarrow> int \<Rightarrow> instant option"

definition chrono_add_ok :: "chrono_add \<Rightarrow> bool" where
  "chrono_add_ok add \<longleftrightarrow> (\<forall>t d u. add t d = Some u \<longrightarrow> u = t + d)"

section \<open>Well-formedness\<close>

definition owner_validate_for :: "JobOwnerRef \<Rightarrow> WorkClass \<Rightarrow> JobError + unit" where
  "owner_validate_for owner work_class =
     fail_if
       (rid_kind (jo_owner_id owner) \<noteq> jo_owner_kind owner
        \<or> \<not> is_execution_work_owner_pair work_class (jo_owner_kind owner))
       InvalidOwner"

definition wake_validate :: "WakeContract \<Rightarrow> instant \<Rightarrow> JobError + unit" where
  "wake_validate w job_deadline =
     fail_if
       (wk_generation w = 0
        \<or> wk_accepted_sources w = []
        \<or> MAX_WAKE_SOURCES < length (wk_accepted_sources w)
        \<or> card (set (wk_accepted_sources w)) \<noteq> length (wk_accepted_sources w)
        \<or> \<not> windows2_all (<) (wk_accepted_sources w)
        \<or> wk_poll_limit w < wk_poll_count w
        \<or> job_deadline < wk_deadline w
        \<or> some_and (wk_next_poll_at w) (\<lambda>next. wk_deadline w < next)
        \<or> (WakeSource.Poll \<in> set (wk_accepted_sources w) \<and> wk_poll_limit w = 0)
        \<or> (WakeSource.Poll \<notin> set (wk_accepted_sources w)
            \<and> (wk_next_poll_at w \<noteq> None \<or> wk_poll_count w \<noteq> 0 \<or> wk_poll_limit w \<noteq> 0)))
       InvalidWakeContract"

definition lease_validate :: "JobLease \<Rightarrow> instant \<Rightarrow> JobError + unit" where
  "lease_validate l deadline =
     fail_if
       (rid_kind (jl_worker_process_generation_id l) \<noteq> ResourceKind.WorkerProcessGeneration
        \<or> jl_lease_generation l = 0
        \<or> jl_expires_at l \<le> jl_heartbeat_at l
        \<or> deadline < jl_expires_at l)
       InvalidLease"

definition is_terminal :: "JobState \<Rightarrow> bool" where
  "is_terminal s \<longleftrightarrow>
     s \<in> {JobState.Succeeded, JobState.Failed, JobState.Cancelled, JobState.TimedOut}"

definition job_validate :: "JobProjection \<Rightarrow> JobError + unit" where
  "job_validate j =
     rbind (owner_validate_for (jp_owner j) (jp_work_class j)) (\<lambda>_.
     rbind (map_err InvalidProjection (trace_identity_validate (jp_trace j))) (\<lambda>_.
     rbind (fail_if
       (rid_kind (jp_tenant_id j) \<noteq> ResourceKind.Tenant
        \<or> rid_kind (jp_job_id j) \<noteq> ResourceKind.Job
        \<or> jp_version j = 0
        \<or> jp_attempt_limit j = 0
        \<or> jp_attempt_limit j < jp_attempt_count j
        \<or> jp_deadline j < jp_scheduled_at j) InvalidProjection) (\<lambda>_.
     rbind (case jp_lease j of
         Some l \<Rightarrow>
           rbind (lease_validate l (jp_deadline j)) (\<lambda>_.
             fail_if
               (jl_lease_generation l \<noteq> jp_lease_generation j
                \<or> jp_state j \<notin> {JobState.Leased, JobState.Running, JobState.Cancelling})
               InvalidProjection)
       | None \<Rightarrow> fail_if (jp_state j \<in> {JobState.Leased, JobState.Running}) InvalidProjection) (\<lambda>_.
     rbind (if jp_state j = JobState.Waiting then
              rbind (ok_or InvalidProjection (jp_wake j)) (\<lambda>w. wake_validate w (jp_deadline j))
            else fail_if (jp_wake j \<noteq> None) InvalidProjection) (\<lambda>_.
     rbind (if jp_state j = JobState.RetryScheduled then
              rbind (ok_or InvalidProjection (jp_retry_at j)) (\<lambda>retry_at.
                fail_if (jp_deadline j \<le> retry_at) InvalidProjection)
            else fail_if (jp_retry_at j \<noteq> None) InvalidProjection) (\<lambda>_.
     fail_if (is_terminal (jp_state j) \<and> jp_lease j \<noteq> None) InvalidProjection))))))"

definition policy_duration :: "LeasePolicy \<Rightarrow> JobError + int" where
  "policy_duration p =
     (if lp_requested_milliseconds p = 0
         \<or> lp_hard_maximum_milliseconds p = 0
         \<or> lp_hard_maximum_milliseconds p < lp_requested_milliseconds p
         \<or> 9223372036854775807 < lp_requested_milliseconds p
      then Inl InvalidLeasePolicy
      else Inr (uint (lp_requested_milliseconds p) * 1000000))"

definition increment :: "u64 \<Rightarrow> JobError + u64" where
  "increment value = ok_or CounterOverflow (checked_add value 1)"

section \<open>Fences and transitions\<close>

definition fence_matches :: "JobProjection \<Rightarrow> JobLease \<Rightarrow> JobFence \<Rightarrow> bool" where
  "fence_matches current lease fence \<longleftrightarrow>
     \<not> (jp_version current \<noteq> jf_expected_version fence
        \<or> jl_worker_process_generation_id lease \<noteq> jf_worker_process_generation_id fence
        \<or> jl_lease_generation lease \<noteq> jf_lease_generation fence
        \<or> jl_token_digest lease \<noteq> jf_token_digest fence)"

definition validate_fence :: "JobProjection \<Rightarrow> JobFence \<Rightarrow> instant \<Rightarrow> JobError + unit" where
  "validate_fence current fence database_now =
     rbind (job_validate current) (\<lambda>_.
     rbind (ok_or StaleFence (jp_lease current)) (\<lambda>lease.
     if \<not> fence_matches current lease fence then Inl StaleFence
     else if jl_expires_at lease \<le> database_now then Inl LeaseExpired
     else Inr ()))"

definition validate_cleanup_fence ::
  "JobProjection \<Rightarrow> JobFence \<Rightarrow> instant \<Rightarrow> instant \<Rightarrow> JobError + unit" where
  "validate_cleanup_fence current fence database_now cleanup_deadline =
     rbind (job_validate current) (\<lambda>_.
     rbind (ok_or StaleFence (jp_lease current)) (\<lambda>lease.
     if \<not> fence_matches current lease fence then Inl StaleFence
     else if cleanup_deadline < jp_deadline current \<or> cleanup_deadline < database_now
       then Inl LeaseExpired
     else Inr ()))"

definition validated :: "JobProjection \<Rightarrow> JobError + JobProjection" where
  "validated next = rbind (job_validate next) (\<lambda>_. Inr next)"

definition transition :: "JobProjection \<Rightarrow> JobState \<Rightarrow> bool \<Rightarrow> JobError + JobProjection" where
  "transition current target retain_lease =
     (if \<not> job_state_can_transition_to (jp_state current) target then Inl InvalidTransition
      else
        rbind (increment (jp_version current)) (\<lambda>version.
        validated (current
          \<lparr>jp_state := target,
           jp_version := version,
           jp_lease := (if \<not> retain_lease then None else jp_lease current),
           jp_retry_at := None,
           jp_wake := None\<rparr>)))"

section \<open>Claiming, starting and keeping a lease\<close>

text \<open>\<open>database_now.checked_add_signed(policy.duration()?)?.min(current.deadline)\<close>\<close>

definition lease_expiry :: "chrono_add \<Rightarrow> JobProjection \<Rightarrow> instant \<Rightarrow> LeasePolicy \<Rightarrow> JobError + instant" where
  "lease_expiry add current database_now policy =
     rbind (policy_duration policy) (\<lambda>d.
     rbind (ok_or CounterOverflow (add database_now d)) (\<lambda>t.
     Inr (min t (jp_deadline current))))"

definition decide_claim ::
  "chrono_add \<Rightarrow> JobProjection \<Rightarrow> instant \<Rightarrow> ResourceId \<Rightarrow> Sha256Digest \<Rightarrow> LeasePolicy \<Rightarrow>
   JobError + JobProjection" where
  "decide_claim add current database_now worker token_digest policy =
     rbind (job_validate current) (\<lambda>_.
     if rid_kind worker \<noteq> ResourceKind.WorkerProcessGeneration
        \<or> jp_state current \<notin> {JobState.Ready, JobState.RetryScheduled}
        \<or> jp_attempt_limit current \<le> jp_attempt_count current
        \<or> database_now < jp_scheduled_at current
        \<or> some_and (jp_retry_at current) (\<lambda>retry_at. database_now < retry_at)
        \<or> jp_deadline current \<le> database_now
     then Inl NotClaimable
     else
       rbind (lease_expiry add current database_now policy) (\<lambda>expires_at.
       if expires_at \<le> database_now then Inl NotClaimable
       else
         rbind (increment (jp_version current)) (\<lambda>version.
         rbind (ok_or CounterOverflow (checked_add (jp_lease_generation current) 1)) (\<lambda>generation.
         validated (current
           \<lparr>jp_state := JobState.Leased,
            jp_version := version,
            jp_lease_generation := generation,
            jp_retry_at := None,
            jp_lease := Some \<lparr>jl_worker_process_generation_id = worker,
              jl_lease_generation = generation, jl_token_digest = token_digest,
              jl_heartbeat_at = database_now, jl_expires_at = expires_at\<rparr>\<rparr>)))))"

definition decide_claim_continuation ::
  "chrono_add \<Rightarrow> JobProjection \<Rightarrow> instant \<Rightarrow> ResourceId \<Rightarrow> Sha256Digest \<Rightarrow> LeasePolicy \<Rightarrow>
   JobError + JobProjection" where
  "decide_claim_continuation add current database_now worker token_digest policy =
     rbind (job_validate current) (\<lambda>_.
     if rid_kind worker \<noteq> ResourceKind.WorkerProcessGeneration
        \<or> jp_state current \<noteq> JobState.Ready
        \<or> jp_attempt_count current = 0
        \<or> jp_attempt_limit current < jp_attempt_count current
        \<or> database_now < jp_scheduled_at current
        \<or> jp_retry_at current \<noteq> None
        \<or> jp_deadline current \<le> database_now
     then Inl NotClaimable
     else
       rbind (lease_expiry add current database_now policy) (\<lambda>expires_at.
       if expires_at \<le> database_now then Inl NotClaimable
       else
         rbind (increment (jp_version current)) (\<lambda>version.
         rbind (increment (jp_lease_generation current)) (\<lambda>generation.
         validated (current
           \<lparr>jp_state := JobState.Leased,
            jp_version := version,
            jp_lease_generation := generation,
            jp_lease := Some \<lparr>jl_worker_process_generation_id = worker,
              jl_lease_generation = generation, jl_token_digest = token_digest,
              jl_heartbeat_at = database_now, jl_expires_at = expires_at\<rparr>\<rparr>)))))"

definition decide_start :: "JobProjection \<Rightarrow> JobFence \<Rightarrow> instant \<Rightarrow> JobError + JobProjection" where
  "decide_start current fence database_now =
     rbind (validate_fence current fence database_now) (\<lambda>_.
     if jp_state current \<noteq> JobState.Leased then Inl InvalidTransition
     else if jp_attempt_limit current \<le> jp_attempt_count current then Inl InvalidTransition
     else
       rbind (transition current JobState.Running True) (\<lambda>next.
       rbind (ok_or CounterOverflow (checked_add (jp_attempt_count next) 1)) (\<lambda>attempt_count.
       validated (next\<lparr>jp_attempt_count := attempt_count\<rparr>))))"

definition decide_resume :: "JobProjection \<Rightarrow> JobFence \<Rightarrow> instant \<Rightarrow> JobError + JobProjection" where
  "decide_resume current fence database_now =
     rbind (validate_fence current fence database_now) (\<lambda>_.
     if jp_state current \<noteq> JobState.Leased
        \<or> jp_attempt_count current = 0
        \<or> jp_attempt_limit current < jp_attempt_count current
     then Inl InvalidTransition
     else transition current JobState.Running True)"

definition decide_heartbeat ::
  "chrono_add \<Rightarrow> JobProjection \<Rightarrow> JobFence \<Rightarrow> instant \<Rightarrow> LeasePolicy \<Rightarrow> JobError + JobProjection" where
  "decide_heartbeat add current fence database_now policy =
     rbind (validate_fence current fence database_now) (\<lambda>_.
     if jp_state current \<notin> {JobState.Leased, JobState.Running} then Inl InvalidTransition
     else
       rbind (lease_expiry add current database_now policy) (\<lambda>expires_at.
       if expires_at \<le> database_now then Inl LeaseExpired
       else
         rbind (increment (jp_version current)) (\<lambda>version.
         rbind (ok_or InvalidProjection (jp_lease current)) (\<lambda>lease.
         validated (current
           \<lparr>jp_version := version,
            jp_lease := Some (lease\<lparr>jl_heartbeat_at := database_now, jl_expires_at := expires_at\<rparr>)\<rparr>)))))"

definition decide_observation_update ::
  "JobProjection \<Rightarrow> JobFence \<Rightarrow> instant \<Rightarrow> JobError + JobProjection" where
  "decide_observation_update current fence database_now =
     rbind (validate_fence current fence database_now) (\<lambda>_.
     if jp_state current \<noteq> JobState.Running then Inl InvalidTransition
     else
       rbind (increment (jp_version current)) (\<lambda>version.
       validated (current\<lparr>jp_version := version\<rparr>)))"

section \<open>Results\<close>

definition decide_terminal ::
  "JobProjection \<Rightarrow> JobFence \<Rightarrow> instant \<Rightarrow> JobState \<Rightarrow> JobError + JobProjection" where
  "decide_terminal current fence database_now terminal =
     rbind (validate_fence current fence database_now) (\<lambda>_.
     if \<not> is_terminal terminal \<or> \<not> job_state_can_transition_to (jp_state current) terminal
     then Inl InvalidTransition
     else transition current terminal False)"

definition decide_terminal_physical_update :: "JobProjection \<Rightarrow> u64 \<Rightarrow> JobError + JobProjection" where
  "decide_terminal_physical_update current expected_version =
     rbind (job_validate current) (\<lambda>_.
     if jp_version current \<noteq> expected_version
        \<or> jp_lease current \<noteq> None
        \<or> jp_state current \<notin> {JobState.Succeeded, JobState.Failed, JobState.Cancelled,
             JobState.TimedOut, JobState.ReconciliationRequired}
     then Inl StaleFence
     else
       rbind (increment (jp_version current)) (\<lambda>version.
       validated (current\<lparr>jp_version := version\<rparr>)))"

definition decide_cleanup_terminal ::
  "JobProjection \<Rightarrow> JobFence \<Rightarrow> instant \<Rightarrow> instant \<Rightarrow> JobState \<Rightarrow> JobError + JobProjection" where
  "decide_cleanup_terminal current fence database_now cleanup_deadline terminal =
     rbind (validate_cleanup_fence current fence database_now cleanup_deadline) (\<lambda>_.
     if \<not> is_terminal terminal \<or> \<not> job_state_can_transition_to (jp_state current) terminal
     then Inl InvalidTransition
     else transition current terminal False)"

definition decide_reconciliation ::
  "JobProjection \<Rightarrow> JobFence \<Rightarrow> instant \<Rightarrow> JobError + JobProjection" where
  "decide_reconciliation current fence database_now =
     rbind (validate_fence current fence database_now) (\<lambda>_.
     if jp_state current \<notin> {JobState.Running, JobState.Cancelling}
        \<or> \<not> job_state_can_transition_to (jp_state current) JobState.ReconciliationRequired
     then Inl InvalidTransition
     else transition current JobState.ReconciliationRequired False)"

definition decide_cleanup_reconciliation ::
  "JobProjection \<Rightarrow> JobFence \<Rightarrow> instant \<Rightarrow> instant \<Rightarrow> JobError + JobProjection" where
  "decide_cleanup_reconciliation current fence database_now cleanup_deadline =
     rbind (validate_cleanup_fence current fence database_now cleanup_deadline) (\<lambda>_.
     if jp_state current \<notin> {JobState.Running, JobState.Cancelling}
        \<or> \<not> job_state_can_transition_to (jp_state current) JobState.ReconciliationRequired
     then Inl InvalidTransition
     else transition current JobState.ReconciliationRequired False)"

section \<open>Decisions of the owner\<close>

definition decide_owner_terminal :: "JobProjection \<Rightarrow> JobState \<Rightarrow> JobError + JobProjection" where
  "decide_owner_terminal current terminal =
     rbind (job_validate current) (\<lambda>_.
     if \<not> is_terminal terminal \<or> \<not> job_state_can_transition_to (jp_state current) terminal
     then Inl InvalidRecoveryDecision
     else transition current terminal False)"

definition decide_owner_reconciliation :: "JobProjection \<Rightarrow> JobError + JobProjection" where
  "decide_owner_reconciliation current =
     rbind (job_validate current) (\<lambda>_.
     if \<not> job_state_can_transition_to (jp_state current) JobState.ReconciliationRequired
     then Inl InvalidRecoveryDecision
     else transition current JobState.ReconciliationRequired False)"

definition decide_owner_cancelling :: "JobProjection \<Rightarrow> JobError + JobProjection" where
  "decide_owner_cancelling current =
     rbind (job_validate current) (\<lambda>_.
     if \<not> job_state_can_transition_to (jp_state current) JobState.Cancelling
     then Inl InvalidRecoveryDecision
     else
       let retain_lease = (jp_lease current \<noteq> None)
       in transition current JobState.Cancelling retain_lease)"

section \<open>Waiting and retrying\<close>

definition decide_wait ::
  "JobProjection \<Rightarrow> JobFence \<Rightarrow> instant \<Rightarrow> WakeContract \<Rightarrow> JobError + JobProjection" where
  "decide_wait current fence database_now wake =
     rbind (validate_fence current fence database_now) (\<lambda>_.
     rbind (wake_validate wake (jp_deadline current)) (\<lambda>_.
     if jp_state current \<noteq> JobState.Running \<or> wk_generation wake \<noteq> jp_lease_generation current
     then Inl InvalidTransition
     else if \<not> job_state_can_transition_to (jp_state current) JobState.Waiting
     then Inl InvalidTransition
     else
       rbind (increment (jp_version current)) (\<lambda>version.
       validated (current
         \<lparr>jp_state := JobState.Waiting,
          jp_version := version,
          jp_lease := None,
          jp_retry_at := None,
          jp_wake := Some wake\<rparr>))))"

definition decide_retry ::
  "JobProjection \<Rightarrow> JobFence \<Rightarrow> instant \<Rightarrow> instant \<Rightarrow> JobError + JobProjection" where
  "decide_retry current fence database_now retry_at =
     rbind (validate_fence current fence database_now) (\<lambda>_.
     if jp_state current \<noteq> JobState.Running
        \<or> jp_attempt_limit current \<le> jp_attempt_count current
        \<or> retry_at \<le> database_now
        \<or> jp_deadline current \<le> retry_at
     then Inl InvalidRetry
     else if \<not> job_state_can_transition_to (jp_state current) JobState.RetryScheduled
     then Inl InvalidTransition
     else
       rbind (increment (jp_version current)) (\<lambda>version.
       validated (current
         \<lparr>jp_state := JobState.RetryScheduled,
          jp_version := version,
          jp_lease := None,
          jp_wake := None,
          jp_retry_at := Some retry_at\<rparr>)))"

definition decide_retry_due :: "JobProjection \<Rightarrow> instant \<Rightarrow> JobError + JobProjection" where
  "decide_retry_due current database_now =
     rbind (job_validate current) (\<lambda>_.
     if jp_state current \<noteq> JobState.RetryScheduled
        \<or> none_or (jp_retry_at current) (\<lambda>retry_at. database_now < retry_at)
        \<or> jp_deadline current \<le> database_now
     then Inl InvalidRetry
     else
       rbind (transition current JobState.Ready False) (\<lambda>next.
       validated (next\<lparr>jp_scheduled_at := database_now\<rparr>)))"

definition decide_wake ::
  "JobProjection \<Rightarrow> u64 \<Rightarrow> WakeSource \<Rightarrow> instant \<Rightarrow> JobError + JobProjection" where
  "decide_wake current expected_generation source database_now =
     rbind (job_validate current) (\<lambda>_.
     rbind (ok_or InvalidWakeContract (jp_wake current)) (\<lambda>wake.
     let outside_source_window =
           (if source = WakeSource.Timeout then database_now < wk_deadline wake
            else wk_deadline wake \<le> database_now)
     in if jp_state current \<noteq> JobState.Waiting
           \<or> wk_generation wake \<noteq> expected_generation
           \<or> source \<notin> set (wk_accepted_sources wake)
           \<or> outside_source_window
           \<or> (source = WakeSource.Poll
               \<and> (wk_poll_limit wake \<le> wk_poll_count wake
                   \<or> some_and (wk_next_poll_at wake) (\<lambda>next_poll_at. database_now < next_poll_at)))
        then Inl WakeLostFirstWinner
        else
          rbind (transition current JobState.Ready False) (\<lambda>next.
          validated (next\<lparr>jp_wake := None, jp_scheduled_at := database_now\<rparr>))))"

section \<open>Recovery of an expired lease\<close>

definition decide_expired_lease ::
  "JobProjection \<Rightarrow> u64 \<Rightarrow> u64 \<Rightarrow> instant \<Rightarrow> JobState \<Rightarrow> instant option \<Rightarrow> JobError + JobProjection" where
  "decide_expired_lease current observed_version observed_lease_generation database_now target retry_at =
     rbind (job_validate current) (\<lambda>_.
     rbind (ok_or InvalidLease (jp_lease current)) (\<lambda>lease.
     if jp_version current \<noteq> observed_version
        \<or> jl_lease_generation lease \<noteq> observed_lease_generation
        \<or> database_now < jl_expires_at lease
        \<or> jp_state current \<notin> {JobState.Leased, JobState.Running, JobState.Cancelling}
     then Inl StaleFence
     else if target = JobState.Ready
        \<and> (jp_state current = JobState.Leased \<and> database_now < jp_deadline current)
     then
       rbind (transition current JobState.Ready False) (\<lambda>next.
       validated (next\<lparr>jp_scheduled_at := database_now\<rparr>))
     else if target = JobState.RetryScheduled
        \<and> (jp_state current = JobState.Running
            \<and> jp_attempt_count current < jp_attempt_limit current
            \<and> some_and retry_at (\<lambda>v. database_now < v \<and> v < jp_deadline current))
     then
       rbind (increment (jp_version current)) (\<lambda>version.
       validated (current
         \<lparr>jp_state := JobState.RetryScheduled,
          jp_version := version,
          jp_lease := None,
          jp_wake := None,
          jp_retry_at := retry_at\<rparr>))
     else if target = JobState.Failed
        \<and> (jp_state current = JobState.Running
            \<and> jp_attempt_limit current \<le> jp_attempt_count current
            \<and> database_now < jp_deadline current)
     then transition current JobState.Failed False
     else if target = JobState.ReconciliationRequired
        \<and> job_state_can_transition_to (jp_state current) JobState.ReconciliationRequired
     then transition current JobState.ReconciliationRequired False
     else if target = JobState.TimedOut \<and> jp_deadline current \<le> database_now
     then transition current JobState.TimedOut False
     else Inl InvalidRecoveryDecision))"

definition decide_expired_continuation ::
  "JobProjection \<Rightarrow> u64 \<Rightarrow> u64 \<Rightarrow> instant \<Rightarrow> JobError + JobProjection" where
  "decide_expired_continuation current observed_version observed_lease_generation database_now =
     rbind (job_validate current) (\<lambda>_.
     rbind (ok_or InvalidLease (jp_lease current)) (\<lambda>lease.
     if jp_version current \<noteq> observed_version
        \<or> jl_lease_generation lease \<noteq> observed_lease_generation
        \<or> database_now < jl_expires_at lease
        \<or> jp_state current \<noteq> JobState.Running
        \<or> jp_attempt_count current = 0
        \<or> jp_attempt_limit current < jp_attempt_count current
        \<or> jp_deadline current \<le> database_now
     then Inl StaleFence
     else
       rbind (transition current JobState.Ready False) (\<lambda>next.
       validated (next\<lparr>jp_scheduled_at := database_now\<rparr>))))"

section \<open>Storage fences\<close>

text \<open>The addressed command of \<open>store.rs\<close>: the identities are text, the counters are the signed
  64-bit columns of the database.\<close>

record JobCommandFence =
  jcf_tenant_id :: string
  jcf_job_id :: string
  jcf_worker_id :: ResourceId
  jcf_lease_epoch :: int
  jcf_expected_job_version :: int
  jcf_lease_token_digest :: Sha256Digest

definition command_fence_validate :: "uuid_codec \<Rightarrow> JobCommandFence \<Rightarrow> JobError + unit" where
  "command_fence_validate uc f =
     rbind (map_err InvalidProjection (parse_resource_id uc (jcf_tenant_id f))) (\<lambda>tenant.
     rbind (map_err InvalidProjection (parse_resource_id uc (jcf_job_id f))) (\<lambda>job.
     fail_if
       (rid_kind tenant \<noteq> ResourceKind.Tenant
        \<or> rid_kind job \<noteq> ResourceKind.Job
        \<or> rid_kind (jcf_worker_id f) \<noteq> ResourceKind.WorkerProcessGeneration
        \<or> jcf_lease_epoch f \<le> 0
        \<or> jcf_expected_job_version f \<le> 0)
       InvalidProjection))"

text \<open>\<open>u64::try_from\<close> of a signed integer\<close>

definition u64_try_from :: "int \<Rightarrow> u64 option" where
  "u64_try_from i = (if 0 \<le> i \<and> i < 2 ^ 64 then Some (word_of_int i) else None)"

definition decision_fence :: "uuid_codec \<Rightarrow> JobCommandFence \<Rightarrow> JobError + JobFence" where
  "decision_fence uc f =
     rbind (command_fence_validate uc f) (\<lambda>_.
     rbind (ok_or InvalidProjection (u64_try_from (jcf_expected_job_version f))) (\<lambda>version.
     rbind (ok_or InvalidProjection (u64_try_from (jcf_lease_epoch f))) (\<lambda>epoch.
     Inr \<lparr>jf_expected_version = version,
          jf_worker_process_generation_id = jcf_worker_id f,
          jf_lease_generation = epoch,
          jf_token_digest = jcf_lease_token_digest f\<rparr>)))"

record SafetyScanShard =
  sss_index :: u16
  sss_count :: u16

definition scan_shard_whole :: SafetyScanShard where
  "scan_shard_whole = \<lparr>sss_index = 0, sss_count = 1\<rparr>"

definition scan_shard_validate :: "SafetyScanShard \<Rightarrow> u16 \<Rightarrow> JobError + unit" where
  "scan_shard_validate s maximum_shards =
     fail_if (sss_count s = 0 \<or> maximum_shards < sss_count s \<or> sss_count s \<le> sss_index s)
       InvalidProjection"

end
