(* ===== verification/Versioned.thy ===== *)
theory Versioned
  imports Prelude
begin

text \<open>
  Aggregates under optimistic concurrency: a command names the version it read, an accepted command raises the
  version and leaves the identity of the aggregate alone, and a command that has nothing left to do changes
  nothing.  What every history of such an aggregate satisfies is proved once, for its step relation; an aggregate
  that settles adds that its final states are left by no command.
\<close>

locale versioned_aggregate =
  fixes valid :: "'s \<Rightarrow> bool"
    and version :: "'s \<Rightarrow> u64"
    and same :: "'s \<Rightarrow> 's \<Rightarrow> bool"
    and step :: "'s \<Rightarrow> 's \<Rightarrow> bool"
  assumes step_valid: "step s t \<Longrightarrow> valid t"
    and step_rises: "step s t \<Longrightarrow> t \<noteq> s \<Longrightarrow> version s < version t"
    and step_same: "step s t \<Longrightarrow> same s t"
    and same_refl: "same s s"
    and same_trans: "same s t \<Longrightarrow> same t u \<Longrightarrow> same s u"
begin

lemma history_valid: "step\<^sup>*\<^sup>* s t \<Longrightarrow> valid s \<Longrightarrow> valid t"
  by (induction rule: rtranclp_induct) (auto intro: step_valid)

lemma history_same: "step\<^sup>*\<^sup>* s t \<Longrightarrow> same s t"
  by (induction rule: rtranclp_induct) (auto intro: same_refl same_trans step_same)

lemma history_rises: "step\<^sup>*\<^sup>* s t \<Longrightarrow> t = s \<or> version s < version t"
proof (induction rule: rtranclp_induct)
  case (step t u)
  then show ?case using step_rises [OF step.hyps(2)] by (cases "u = t") auto
qed simp

lemma version_identifies: "step\<^sup>*\<^sup>* s t \<Longrightarrow> version t = version s \<Longrightarrow> t = s"
  using history_rises by fastforce

lemma versions_never_fall: "step\<^sup>*\<^sup>* s t \<Longrightarrow> version s \<le> version t"
  using history_rises by fastforce

text \<open>A version that was left is never seen again, so a command that names it is stale for ever.\<close>

lemma versions_are_spent: "step s t \<Longrightarrow> t \<noteq> s \<Longrightarrow> step\<^sup>*\<^sup>* t u \<Longrightarrow> version s < version u"
  using step_rises versions_never_fall by fastforce

end

locale settling_aggregate = versioned_aggregate valid version same step
  for valid :: "'s \<Rightarrow> bool" and version :: "'s \<Rightarrow> u64" and same :: "'s \<Rightarrow> 's \<Rightarrow> bool" and step :: "'s \<Rightarrow> 's \<Rightarrow> bool" +
  fixes final :: "'s \<Rightarrow> bool"
  assumes final_rests: "step s t \<Longrightarrow> final s \<Longrightarrow> t = s"
begin

lemma final_stays: "step\<^sup>*\<^sup>* s t \<Longrightarrow> final s \<Longrightarrow> t = s"
  by (induction rule: rtranclp_induct) (auto dest: final_rests)

lemma moved_was_open: "step\<^sup>*\<^sup>* s t \<Longrightarrow> t \<noteq> s \<Longrightarrow> \<not> final s"
  using final_stays by blast

end

text \<open>A slot of the state that is written at most once: no step replaces or clears what it holds.\<close>

locale write_once =
  fixes step :: "'s \<Rightarrow> 's \<Rightarrow> bool" and slot :: "'s \<Rightarrow> 'v option"
  assumes step_keeps: "step s t \<Longrightarrow> slot s = Some v \<Longrightarrow> slot t = Some v"
begin

lemma slot_stays: "step\<^sup>*\<^sup>* s t \<Longrightarrow> slot s = Some v \<Longrightarrow> slot t = Some v"
  by (induction rule: rtranclp_induct) (auto intro: step_keeps)

lemma slot_agrees: "step\<^sup>*\<^sup>* s t \<Longrightarrow> slot s = Some v \<Longrightarrow> slot t = Some w \<Longrightarrow> w = v"
  using slot_stays by fastforce

lemma slot_was_empty: "step\<^sup>*\<^sup>* s t \<Longrightarrow> slot t = None \<Longrightarrow> slot s = None"
  using slot_stays by (cases "slot s") fastforce+

end

end
