(* ===== verification/JobSafety.thy ===== *)
theory JobSafety
  imports Jobs Versioned
begin

text \<open>
  What every sequence of accepted Job decisions keeps.  \<open>job_step\<close> is the step relation whose
  rules are the decisions of the theory Jobs, \<open>job_steps\<close> its reflexive and transitive closure
  (any number of workers, recovery scanners and owners, in any order).  The lemmas give the shape
  of an accepted step once (\<open>accepted\<close>), and the properties follow from it.
\<close>

section \<open>The shape of an accepted decision\<close>

definition job_ok :: "JobProjection \<Rightarrow> bool" where
  "job_ok j \<longleftrightarrow> job_validate j = Inr ()"

text \<open>What no decision ever changes.\<close>

definition same_job :: "JobProjection \<Rightarrow> JobProjection \<Rightarrow> bool" where
  "same_job j n \<longleftrightarrow>
     jp_trace n = jp_trace j \<and> jp_tenant_id n = jp_tenant_id j \<and> jp_job_id n = jp_job_id j
     \<and> jp_work_class n = jp_work_class j \<and> jp_owner n = jp_owner j
     \<and> jp_attempt_limit n = jp_attempt_limit j \<and> jp_deadline n = jp_deadline j"

definition accepted :: "JobProjection \<Rightarrow> JobProjection \<Rightarrow> bool" where
  "accepted j n \<longleftrightarrow>
     job_ok j \<and> job_ok n \<and> same_job j n \<and> checked_add (jp_version j) 1 = Some (jp_version n)"

lemma validated_Inr [result_simps]: "validated n = Inr m \<longleftrightarrow> m = n \<and> job_ok n"
  by (auto simp: validated_def job_ok_def result_simps)

lemma increment_Inr [result_simps]: "increment v = Inr w \<longleftrightarrow> checked_add v 1 = Some w"
  by (simp add: increment_def result_simps)

lemma transition_Inr [result_simps]:
  "transition j s retain = Inr n \<longleftrightarrow>
     job_state_can_transition_to (jp_state j) s
     \<and> (\<exists>v. checked_add (jp_version j) 1 = Some v
         \<and> n = j\<lparr>jp_state := s, jp_version := v, jp_lease := (if retain then jp_lease j else None),
                 jp_retry_at := None, jp_wake := None\<rparr>)
     \<and> job_ok n"
  by (auto simp: transition_def result_simps)

lemma validate_fence_Inr [result_simps]:
  "validate_fence j f t = Inr u \<longleftrightarrow>
     job_ok j \<and> (\<exists>l. jp_lease j = Some l \<and> fence_matches j l f \<and> t < jl_expires_at l)"
  by (auto simp: validate_fence_def job_ok_def result_simps)

lemma validate_cleanup_fence_Inr [result_simps]:
  "validate_cleanup_fence j f t c = Inr u \<longleftrightarrow>
     job_ok j \<and> jp_deadline j \<le> c \<and> t \<le> c \<and> (\<exists>l. jp_lease j = Some l \<and> fence_matches j l f)"
  by (auto simp: validate_cleanup_fence_def job_ok_def result_simps)

lemma job_validate_ok [result_simps]: "job_validate j = Inr u \<longleftrightarrow> job_ok j"
  by (simp add: job_ok_def)

section \<open>What validation gives\<close>

lemma job_ok_basic:
  assumes "job_ok j"
  shows "jp_version j \<noteq> 0" and "jp_attempt_count j \<le> jp_attempt_limit j"
    and "jp_scheduled_at j \<le> jp_deadline j"
  using assms by (auto simp: job_ok_def job_validate_def rbind_eq_Inr fail_if_eq_Inr)

lemma job_ok_lease:
  assumes "job_ok j" and "jp_lease j = Some l"
  shows "jl_lease_generation l = jp_lease_generation j"
    and "jp_state j \<in> {JobState.Leased, JobState.Running, JobState.Cancelling}"
    and "jl_heartbeat_at l < jl_expires_at l" and "jl_expires_at l \<le> jp_deadline j"
    and "jp_lease_generation j \<noteq> 0"
    and "rid_kind (jl_worker_process_generation_id l) = ResourceKind.WorkerProcessGeneration"
  using assms
  by (auto simp: job_ok_def job_validate_def rbind_eq_Inr fail_if_eq_Inr lease_validate_def)

lemma job_ok_no_lease:
  "job_ok j \<Longrightarrow> jp_lease j = None \<Longrightarrow> jp_state j \<notin> {JobState.Leased, JobState.Running}"
  by (auto simp: job_ok_def job_validate_def rbind_eq_Inr fail_if_eq_Inr)

lemma job_ok_terminal: "job_ok j \<Longrightarrow> is_terminal (jp_state j) \<Longrightarrow> jp_lease j = None"
  by (auto simp: job_ok_def job_validate_def rbind_eq_Inr fail_if_eq_Inr)

lemma job_ok_wake:
  assumes "job_ok j"
  shows "jp_state j = JobState.Waiting \<Longrightarrow> \<exists>w. jp_wake j = Some w \<and> wake_validate w (jp_deadline j) = Inr ()"
    and "jp_state j \<noteq> JobState.Waiting \<Longrightarrow> jp_wake j = None"
  using assms
  by (auto simp: job_ok_def job_validate_def rbind_eq_Inr fail_if_eq_Inr ok_or_eq_Inr split: if_splits)

lemma job_ok_retry:
  assumes "job_ok j"
  shows "jp_state j = JobState.RetryScheduled \<Longrightarrow> \<exists>t. jp_retry_at j = Some t \<and> t < jp_deadline j"
    and "jp_state j \<noteq> JobState.RetryScheduled \<Longrightarrow> jp_retry_at j = None"
  using assms
  by (auto simp: job_ok_def job_validate_def rbind_eq_Inr fail_if_eq_Inr ok_or_eq_Inr split: if_splits)

section \<open>The step relation\<close>

inductive job_step :: "chrono_add \<Rightarrow> JobProjection \<Rightarrow> JobProjection \<Rightarrow> bool" for add where
  claim: "decide_claim add j t w d p = Inr n \<Longrightarrow> job_step add j n"
| claim_continuation: "decide_claim_continuation add j t w d p = Inr n \<Longrightarrow> job_step add j n"
| start: "decide_start j f t = Inr n \<Longrightarrow> job_step add j n"
| resume: "decide_resume j f t = Inr n \<Longrightarrow> job_step add j n"
| heartbeat: "decide_heartbeat add j f t p = Inr n \<Longrightarrow> job_step add j n"
| observation_update: "decide_observation_update j f t = Inr n \<Longrightarrow> job_step add j n"
| terminal: "decide_terminal j f t s = Inr n \<Longrightarrow> job_step add j n"
| terminal_physical_update: "decide_terminal_physical_update j v = Inr n \<Longrightarrow> job_step add j n"
| cleanup_terminal: "decide_cleanup_terminal j f t c s = Inr n \<Longrightarrow> job_step add j n"
| reconciliation: "decide_reconciliation j f t = Inr n \<Longrightarrow> job_step add j n"
| cleanup_reconciliation: "decide_cleanup_reconciliation j f t c = Inr n \<Longrightarrow> job_step add j n"
| owner_terminal: "decide_owner_terminal j s = Inr n \<Longrightarrow> job_step add j n"
| owner_reconciliation: "decide_owner_reconciliation j = Inr n \<Longrightarrow> job_step add j n"
| owner_cancelling: "decide_owner_cancelling j = Inr n \<Longrightarrow> job_step add j n"
| wait: "decide_wait j f t wk = Inr n \<Longrightarrow> job_step add j n"
| retry: "decide_retry j f t r = Inr n \<Longrightarrow> job_step add j n"
| retry_due: "decide_retry_due j t = Inr n \<Longrightarrow> job_step add j n"
| wake: "decide_wake j g src t = Inr n \<Longrightarrow> job_step add j n"
| expired_lease: "decide_expired_lease j v g t s r = Inr n \<Longrightarrow> job_step add j n"
| expired_continuation: "decide_expired_continuation j v g t = Inr n \<Longrightarrow> job_step add j n"

abbreviation job_steps :: "chrono_add \<Rightarrow> JobProjection \<Rightarrow> JobProjection \<Rightarrow> bool" where
  "job_steps add \<equiv> (job_step add)\<^sup>*\<^sup>*"

lemmas claim_defs = decide_claim_def decide_claim_continuation_def

lemmas worker_defs =
  decide_start_def decide_resume_def decide_heartbeat_def decide_observation_update_def
  decide_terminal_def decide_cleanup_terminal_def decide_reconciliation_def
  decide_cleanup_reconciliation_def decide_wait_def decide_retry_def

lemmas control_defs =
  decide_terminal_physical_update_def decide_owner_terminal_def decide_owner_reconciliation_def
  decide_owner_cancelling_def decide_retry_due_def decide_wake_def
  decide_expired_lease_def decide_expired_continuation_def

lemma step_accepted: "job_step add j n \<Longrightarrow> accepted j n"
  by (induction rule: job_step.induct)
    (auto simp: accepted_def same_job_def claim_defs worker_defs control_defs Let_def
      if_Inl_eq_Inr result_simps split: if_splits)

section \<open>The abstract job\<close>

text \<open>What the Job authority promises, without clocks, versions and digests.  A job is queued,
  held by exactly one worker (started or not), suspended on a wake contract, closing, uncertain
  or settled; it counts how often it was acquired and how often work was begun.\<close>

datatype JobPhase =
    Queued
  | Held "ResourceId \<times> Sha256Digest" bool
  | Suspended
  | Closing "(ResourceId \<times> Sha256Digest) option"
  | Uncertain
  | Settled JobState

datatype AbstractJob = AbstractJob (aj_phase: JobPhase) (aj_generation: nat) (aj_attempts: nat)

fun settled :: "JobPhase \<Rightarrow> bool" where
  "settled (Settled _) = True"
| "settled _ = False"

inductive spec_step :: "nat \<Rightarrow> AbstractJob \<Rightarrow> AbstractJob \<Rightarrow> bool" for limit where
  acquire: "a < limit \<or> 0 < a \<Longrightarrow>
    spec_step limit (AbstractJob Queued g a) (AbstractJob (Held h False) (Suc g) a)"
| begin_work: "a < limit \<Longrightarrow>
    spec_step limit (AbstractJob (Held h False) g a) (AbstractJob (Held h True) g (Suc a))"
| continue_work: "0 < a \<Longrightarrow>
    spec_step limit (AbstractJob (Held h False) g a) (AbstractJob (Held h True) g a)"
| stay: "spec_step limit (AbstractJob p g a) (AbstractJob p g a)"
| requeue: "spec_step limit (AbstractJob (Held h b) g a) (AbstractJob Queued g a)"
| suspend: "spec_step limit (AbstractJob (Held h True) g a) (AbstractJob Suspended g a)"
| awake: "spec_step limit (AbstractJob Suspended g a) (AbstractJob Queued g a)"
| close_held: "spec_step limit (AbstractJob (Held h b) g a) (AbstractJob (Closing (Some h)) g a)"
| close_idle: "p = Queued \<or> p = Suspended \<Longrightarrow>
    spec_step limit (AbstractJob p g a) (AbstractJob (Closing None) g a)"
| doubt: "p = Suspended \<or> p = Held h True \<or> p = Closing c \<Longrightarrow>
    spec_step limit (AbstractJob p g a) (AbstractJob Uncertain g a)"
| settle: "\<not> settled p \<Longrightarrow> spec_step limit (AbstractJob p g a) (AbstractJob (Settled s) g a)"

definition holder :: "JobLease \<Rightarrow> ResourceId \<times> Sha256Digest" where
  "holder l = (jl_worker_process_generation_id l, jl_token_digest l)"

definition abs_phase :: "JobProjection \<Rightarrow> JobPhase" where
  "abs_phase j =
     (case jp_state j of
        JobState.Ready \<Rightarrow> Queued
      | JobState.RetryScheduled \<Rightarrow> Queued
      | JobState.Leased \<Rightarrow> (case jp_lease j of None \<Rightarrow> Queued | Some l \<Rightarrow> Held (holder l) False)
      | JobState.Running \<Rightarrow> (case jp_lease j of None \<Rightarrow> Queued | Some l \<Rightarrow> Held (holder l) True)
      | JobState.Waiting \<Rightarrow> Suspended
      | JobState.Cancelling \<Rightarrow> Closing (map_option holder (jp_lease j))
      | JobState.ReconciliationRequired \<Rightarrow> Uncertain
      | s \<Rightarrow> Settled s)"

definition abs_job :: "JobProjection \<Rightarrow> AbstractJob" where
  "abs_job j = AbstractJob (abs_phase j) (unat (jp_lease_generation j)) (unat (jp_attempt_count j))"

lemma settled_abs_phase: "settled (abs_phase j) \<longleftrightarrow> is_terminal (jp_state j)"
  by (cases "jp_state j") (auto simp: abs_phase_def is_terminal_def split: option.splits)

lemma abs_phase_terminal: "is_terminal (jp_state j) \<Longrightarrow> abs_phase j = Settled (jp_state j)"
  by (cases "jp_state j") (auto simp: abs_phase_def is_terminal_def)

lemma terminal_no_edge: "is_terminal s \<Longrightarrow> \<not> job_state_can_transition_to s t"
  by (cases s) (simp_all add: is_terminal_def job_state_can_transition_to_def)

text \<open>The state changes of \<open>transition\<close>, one lemma for each kind of target.\<close>

lemma sim_settle:
  assumes "transition j s False = Inr n" and "is_terminal s"
  shows "spec_step limit (abs_job j) (abs_job n)"
proof -
  from assms have "\<not> settled (abs_phase j)"
    using terminal_no_edge by (auto simp: settled_abs_phase transition_Inr)
  moreover from assms have "abs_phase n = Settled s"
    by (auto simp: transition_Inr abs_phase_terminal)
  ultimately show ?thesis
    using assms by (auto simp: abs_job_def transition_Inr intro: spec_step.settle)
qed

lemma sim_doubt:
  assumes "transition j JobState.ReconciliationRequired False = Inr n" and "job_ok j"
  shows "spec_step limit (abs_job j) (abs_job n)"
proof -
  from assms(1) have "jp_state j \<in> {JobState.Running, JobState.Waiting, JobState.Cancelling}"
    by (cases "jp_state j") (simp_all add: transition_Inr job_state_can_transition_to_def)
  with job_ok_no_lease [OF assms(2)]
  have "abs_phase j = Suspended \<or> (\<exists>h. abs_phase j = Held h True) \<or> (\<exists>c. abs_phase j = Closing c)"
    by (auto simp: abs_phase_def split: option.splits)
  moreover from assms(1) have "abs_phase n = Uncertain"
    by (auto simp: transition_Inr abs_phase_def)
  ultimately show ?thesis
    using assms(1) by (auto simp: abs_job_def transition_Inr intro: spec_step.doubt)
qed

lemma sim_close:
  assumes "transition j JobState.Cancelling (jp_lease j \<noteq> None) = Inr n" and "job_ok j"
  shows "spec_step limit (abs_job j) (abs_job n)"
proof -
  have s: "jp_state j \<in> {JobState.Ready, JobState.Leased, JobState.Running, JobState.Waiting, JobState.RetryScheduled}"
    using assms(1) by (cases "jp_state j") (simp_all add: transition_Inr job_state_can_transition_to_def)
  show ?thesis
  proof (cases "jp_lease j")
    case None
    with s job_ok_no_lease [OF assms(2)] have "abs_phase j = Queued \<or> abs_phase j = Suspended"
      by (auto simp: abs_phase_def)
    moreover from None assms(1) have "abs_phase n = Closing None"
      by (auto simp: transition_Inr abs_phase_def)
    ultimately show ?thesis
      using assms(1) by (auto simp: abs_job_def transition_Inr intro: spec_step.close_idle)
  next
    case (Some l)
    with s job_ok_lease(2) [OF assms(2)] have "\<exists>b. abs_phase j = Held (holder l) b"
      by (auto simp: abs_phase_def)
    then obtain b where "abs_phase j = Held (holder l) b" ..
    moreover from Some assms(1) have "abs_phase n = Closing (Some (holder l))"
      by (auto simp: transition_Inr abs_phase_def)
    ultimately show ?thesis
      using assms(1) by (auto simp: abs_job_def transition_Inr intro: spec_step.close_held)
  qed
qed

lemma held_phase:
  "job_ok j \<Longrightarrow> jp_state j = JobState.Leased \<Longrightarrow> \<exists>l. jp_lease j = Some l \<and> abs_phase j = Held (holder l) False"
  "job_ok j \<Longrightarrow> jp_state j = JobState.Running \<Longrightarrow> \<exists>l. jp_lease j = Some l \<and> abs_phase j = Held (holder l) True"
  using job_ok_no_lease by (auto simp: abs_phase_def split: option.splits)

lemma sim_requeue:
  assumes "job_ok j" and "jp_state j = JobState.Leased \<or> jp_state j = JobState.Running"
    and "abs_phase n = Queued" and "jp_lease_generation n = jp_lease_generation j"
    and "jp_attempt_count n = jp_attempt_count j"
  shows "spec_step limit (abs_job j) (abs_job n)"
proof -
  obtain h b where "abs_phase j = Held h b" using assms(1,2) held_phase by blast
  with assms show ?thesis by (auto simp: abs_job_def intro: spec_step.requeue)
qed

lemma sim_stay:
  assumes "abs_phase n = abs_phase j" and "jp_lease_generation n = jp_lease_generation j"
    and "jp_attempt_count n = jp_attempt_count j"
  shows "spec_step limit (abs_job j) (abs_job n)"
  using assms by (auto simp: abs_job_def intro: spec_step.stay)

section \<open>The decisions implement the abstract job\<close>

lemma sim_acquire:
  assumes "jp_state j = JobState.Ready \<or> jp_state j = JobState.RetryScheduled"
    and "abs_phase n = Held h False" and "checked_add (jp_lease_generation j) 1 = Some (jp_lease_generation n)"
    and "jp_attempt_count n = jp_attempt_count j"
    and "jp_attempt_count j < limit \<or> jp_attempt_count j \<noteq> 0"
  shows "spec_step (unat limit) (abs_job j) (abs_job n)"
proof -
  have "abs_phase j = Queued" using assms(1) by (auto simp: abs_phase_def)
  moreover have "unat (jp_attempt_count j) < unat limit \<or> 0 < unat (jp_attempt_count j)"
    using assms(5) by (auto simp: word_less_nat_alt unat_gt_0)
  ultimately show ?thesis
    using assms(2-4) checked_add_one(4) [OF assms(3)]
    by (auto simp: abs_job_def intro: spec_step.acquire)
qed

lemma sim_claim:
  "decide_claim add j t w d p = Inr n \<Longrightarrow> spec_step (unat (jp_attempt_limit j)) (abs_job j) (abs_job n)"
  by (rule sim_acquire [where h = "(w, d)"])
    (auto simp: decide_claim_def abs_phase_def holder_def result_simps word_gt_0 split: if_splits)

lemma sim_claim_continuation:
  "decide_claim_continuation add j t w d p = Inr n \<Longrightarrow>
     spec_step (unat (jp_attempt_limit j)) (abs_job j) (abs_job n)"
  by (rule sim_acquire [where h = "(w, d)"])
    (auto simp: decide_claim_continuation_def abs_phase_def holder_def result_simps split: if_splits)

lemma sim_start:
  assumes "decide_start j f t = Inr n"
  shows "spec_step (unat (jp_attempt_limit j)) (abs_job j) (abs_job n)"
proof -
  from assms have j: "job_ok j" "jp_state j = JobState.Leased" "jp_attempt_count j < jp_attempt_limit j"
    and n: "jp_state n = JobState.Running" "jp_lease n = jp_lease j"
      "jp_lease_generation n = jp_lease_generation j"
      "checked_add (jp_attempt_count j) 1 = Some (jp_attempt_count n)"
    by (auto simp: decide_start_def result_simps split: if_splits)
  from held_phase(1) [OF j(1,2)] obtain l where l: "jp_lease j = Some l" "abs_phase j = Held (holder l) False"
    by blast
  with n have "abs_phase n = Held (holder l) True" by (simp add: abs_phase_def)
  with l n j(3) checked_add_one(4) [OF n(4)] show ?thesis
    by (auto simp: abs_job_def word_less_nat_alt intro: spec_step.begin_work)
qed

lemma sim_resume:
  assumes "decide_resume j f t = Inr n"
  shows "spec_step limit (abs_job j) (abs_job n)"
proof -
  from assms have j: "job_ok j" "jp_state j = JobState.Leased" "jp_attempt_count j \<noteq> 0"
    and n: "jp_state n = JobState.Running" "jp_lease n = jp_lease j"
      "jp_lease_generation n = jp_lease_generation j" "jp_attempt_count n = jp_attempt_count j"
    by (auto simp: decide_resume_def result_simps split: if_splits)
  from held_phase(1) [OF j(1,2)] obtain l where l: "jp_lease j = Some l" "abs_phase j = Held (holder l) False"
    by blast
  with n have "abs_phase n = Held (holder l) True" by (simp add: abs_phase_def)
  with l n j(3) show ?thesis
    by (auto simp: abs_job_def unat_gt_0 intro: spec_step.continue_work)
qed

lemma sim_heartbeat: "decide_heartbeat add j f t p = Inr n \<Longrightarrow> spec_step limit (abs_job j) (abs_job n)"
  by (rule sim_stay)
    (auto simp: decide_heartbeat_def abs_phase_def holder_def result_simps split: if_splits)

lemma sim_observation: "decide_observation_update j f t = Inr n \<Longrightarrow> spec_step limit (abs_job j) (abs_job n)"
  by (rule sim_stay) (auto simp: decide_observation_update_def abs_phase_def result_simps split: if_splits)

lemma sim_physical: "decide_terminal_physical_update j v = Inr n \<Longrightarrow> spec_step limit (abs_job j) (abs_job n)"
  by (rule sim_stay)
    (auto simp: decide_terminal_physical_update_def abs_phase_def result_simps split: if_splits)

lemma sim_wait:
  assumes "decide_wait j f t w = Inr n"
  shows "spec_step limit (abs_job j) (abs_job n)"
proof -
  from assms have j: "job_ok j" "jp_state j = JobState.Running" and "abs_phase n = Suspended"
      "jp_lease_generation n = jp_lease_generation j" "jp_attempt_count n = jp_attempt_count j"
    by (auto simp: decide_wait_def abs_phase_def result_simps split: if_splits)
  with held_phase(2) [OF j] show ?thesis by (auto simp: abs_job_def intro: spec_step.suspend)
qed

lemma sim_retry: "decide_retry j f t r = Inr n \<Longrightarrow> spec_step limit (abs_job j) (abs_job n)"
  by (rule sim_requeue) (auto simp: decide_retry_def abs_phase_def result_simps split: if_splits)

lemma sim_retry_due: "decide_retry_due j t = Inr n \<Longrightarrow> spec_step limit (abs_job j) (abs_job n)"
  by (rule sim_stay) (auto simp: decide_retry_due_def abs_phase_def result_simps split: if_splits)

lemma sim_wake: "decide_wake j g src t = Inr n \<Longrightarrow> spec_step limit (abs_job j) (abs_job n)"
  by (auto simp: decide_wake_def abs_job_def abs_phase_def Let_def result_simps
      intro: spec_step.awake split: if_splits)

lemma sim_expired_continuation:
  "decide_expired_continuation j v g t = Inr n \<Longrightarrow> spec_step limit (abs_job j) (abs_job n)"
  by (rule sim_requeue)
    (auto simp: decide_expired_continuation_def abs_phase_def result_simps split: if_splits)

lemma terminal_targets [simp]:
  "is_terminal JobState.Failed" "is_terminal JobState.TimedOut"
  "is_terminal JobState.Succeeded" "is_terminal JobState.Cancelled"
  by (simp_all add: is_terminal_def)

lemma sim_expired_lease:
  assumes "decide_expired_lease j v g t s r = Inr n"
  shows "spec_step limit (abs_job j) (abs_job n)"
proof -
  from assms have ok: "job_ok j" by (auto simp: decide_expired_lease_def result_simps)
  show ?thesis
  proof (cases "s = JobState.Ready \<or> s = JobState.RetryScheduled")
    case True
    with assms have "jp_state j = JobState.Leased \<or> jp_state j = JobState.Running"
      and "abs_phase n = Queued" and "jp_lease_generation n = jp_lease_generation j"
      and "jp_attempt_count n = jp_attempt_count j"
      by (auto simp: decide_expired_lease_def abs_phase_def result_simps split: if_splits)
    with ok show ?thesis by (rule sim_requeue)
  next
    case False
    with assms have "transition j s False = Inr n"
      and "is_terminal s \<or> s = JobState.ReconciliationRequired"
      by (auto simp: decide_expired_lease_def rbind_eq_Inr split: if_splits)
    with ok show ?thesis by (auto intro: sim_settle sim_doubt)
  qed
qed

theorem step_refines:
  "job_step add j n \<Longrightarrow> spec_step (unat (jp_attempt_limit j)) (abs_job j) (abs_job n)"
proof (induction rule: job_step.induct)
  case (terminal j f t s n)
  then show ?case
    by (intro sim_settle [where s = s]) (auto simp: decide_terminal_def rbind_eq_Inr split: if_splits)
next
  case (cleanup_terminal j f t c s n)
  then show ?case
    by (intro sim_settle [where s = s]) (auto simp: decide_cleanup_terminal_def rbind_eq_Inr split: if_splits)
next
  case (owner_terminal j s n)
  then show ?case
    by (intro sim_settle [where s = s]) (auto simp: decide_owner_terminal_def rbind_eq_Inr split: if_splits)
next
  case (reconciliation j f t n)
  then show ?case
    by (intro sim_doubt) (auto simp: decide_reconciliation_def rbind_eq_Inr validate_fence_Inr split: if_splits)
next
  case (cleanup_reconciliation j f t c n)
  then show ?case
    by (intro sim_doubt)
      (auto simp: decide_cleanup_reconciliation_def rbind_eq_Inr validate_cleanup_fence_Inr split: if_splits)
next
  case (owner_reconciliation j n)
  then show ?case
    by (intro sim_doubt) (auto simp: decide_owner_reconciliation_def rbind_eq_Inr job_validate_ok split: if_splits)
next
  case (owner_cancelling j n)
  then show ?case
    by (intro sim_close) (auto simp: decide_owner_cancelling_def rbind_eq_Inr job_validate_ok split: if_splits)
qed (blast intro: sim_claim sim_claim_continuation sim_start sim_resume sim_heartbeat sim_observation
    sim_physical sim_wait sim_retry sim_retry_due sim_wake sim_expired_lease sim_expired_continuation)+

section \<open>What follows for every history\<close>

inductive_cases spec_stepE: "spec_step limit a b"

lemma steps_induct [consumes 1, case_names refl step]:
  assumes "job_steps add j n" and "P j"
    and "\<And>m n. job_steps add j m \<Longrightarrow> job_step add m n \<Longrightarrow> accepted m n \<Longrightarrow> P m \<Longrightarrow> P n"
  shows "P n"
  using assms(1) by (induction rule: rtranclp_induct) (auto intro: assms(2,3) step_accepted)

lemma accepted_simps:
  assumes "accepted j n"
  shows "job_ok j" "job_ok n" "jp_attempt_limit n = jp_attempt_limit j" "jp_deadline n = jp_deadline j"
    "unat (jp_version n) = Suc (unat (jp_version j))" "jp_version n \<noteq> 0"
  using assms checked_add_one(3,4) by (auto simp: accepted_def same_job_def)

lemma same_job_refl: "same_job j j"
  by (simp add: same_job_def)

lemma same_job_trans: "same_job i j \<Longrightarrow> same_job j n \<Longrightarrow> same_job i n"
  by (auto simp: same_job_def)

interpretation job_history: versioned_aggregate job_ok jp_version same_job "job_step add"
proof
  fix j n assume step: "job_step add j n"
  note a = step_accepted [OF step]
  show "job_ok n" using accepted_simps(2) [OF a] .
  show "jp_version j < jp_version n" using accepted_simps(5) [OF a] by (simp add: word_less_nat_alt)
  show "same_job j n" using a by (simp add: accepted_def)
qed (fact same_job_refl, blast intro: same_job_trans)

lemmas steps_same = job_history.history_same
lemmas steps_ok = job_history.history_valid

lemma steps_refine:
  "job_steps add j n \<Longrightarrow> (spec_step (unat (jp_attempt_limit j)))\<^sup>*\<^sup>* (abs_job j) (abs_job n)"
proof (induction rule: steps_induct)
  case (step m n)
  then show ?case
    using steps_same [of add j m] step_refines [of add m n]
    by (auto simp: same_job_def intro: rtranclp.rtrancl_into_rtrancl)
qed simp

subsection \<open>Facts of the abstract job\<close>

lemma spec_monotone:
  assumes "(spec_step limit)\<^sup>*\<^sup>* a b"
  shows "aj_generation a \<le> aj_generation b \<and> aj_attempts a \<le> aj_attempts b"
  using assms by (induction rule: rtranclp_induct) (auto elim!: spec_stepE)

text \<open>Within one lease generation the holder cannot change: once the lease is gone, only an
  acquisition, which raises the generation, brings one back.\<close>

lemma spec_one_holder:
  assumes "(spec_step limit)\<^sup>*\<^sup>* a b"
    and "aj_phase a = Held h s" and "aj_phase b = Held h' s'" and "aj_generation a = aj_generation b"
  shows "h' = h"
proof -
  from assms(1,2) have
    "aj_generation a \<le> aj_generation b
     \<and> (aj_generation b = aj_generation a \<longrightarrow> (\<forall>h' s'. aj_phase b = Held h' s' \<longrightarrow> h' = h))"
  proof (induction rule: rtranclp_induct)
    case (step b c)
    then show ?case by (auto elim!: spec_stepE)
  qed auto
  with assms(3,4) show ?thesis by auto
qed

text \<open>Every attempt is paid for by an acquisition of its own.\<close>

fun unspent :: "JobPhase \<Rightarrow> nat" where
  "unspent (Held h False) = 1"
| "unspent _ = 0"

lemma spec_attempts:
  assumes "(spec_step limit)\<^sup>*\<^sup>* a b"
    and "aj_attempts a + unspent (aj_phase a) \<le> aj_generation a"
  shows "aj_attempts b + unspent (aj_phase b) \<le> aj_generation b"
  using assms(1)
proof (induction rule: rtranclp_induct)
  case base
  show ?case by (rule assms(2))
next
  case (step b c)
  then show ?case by (auto elim!: spec_stepE)
qed

lemma spec_settled:
  "spec_step limit a b \<Longrightarrow> settled (aj_phase a) \<Longrightarrow> b = a"
  by (auto elim!: spec_stepE)

subsection \<open>Fences\<close>

lemma stale_fence:
  assumes "job_ok n" and "jp_version n \<noteq> jf_expected_version f"
  shows "validate_fence n f t = Inl StaleFence"
  using assms by (auto simp: validate_fence_def job_ok_def fence_matches_def ok_or_def split: option.splits)

lemma stale_cleanup_fence:
  assumes "job_ok n" and "jp_version n \<noteq> jf_expected_version f"
  shows "validate_cleanup_fence n f t c = Inl StaleFence"
  using assms
  by (auto simp: validate_cleanup_fence_def job_ok_def fence_matches_def ok_or_def split: option.splits)

subsection \<open>State changes\<close>

lemma step_edge:
  assumes "job_step add j n"
  shows "jp_state n = jp_state j \<or> job_state_can_transition_to (jp_state j) (jp_state n)
    \<or> jp_state j = JobState.RetryScheduled \<and> jp_state n = JobState.Leased"
  using assms
proof (cases rule: job_step.cases)
  case (claim t w d p)
  then show ?thesis
    by (auto simp: decide_claim_def result_simps job_state_can_transition_to_def split: if_splits)
next
  case (claim_continuation t w d p)
  then show ?thesis
    by (auto simp: decide_claim_continuation_def result_simps job_state_can_transition_to_def split: if_splits)
next
  case (expired_lease v g t s r)
  then show ?thesis
    by (auto simp: decide_expired_lease_def result_simps job_state_can_transition_to_def split: if_splits)
qed (auto simp: worker_defs control_defs Let_def result_simps split: if_splits)

subsection \<open>Waiting\<close>

lemma step_into_waiting:
  assumes "job_step add j n" and "jp_state n = JobState.Waiting"
  shows "jp_state j = JobState.Running \<and> (\<exists>w. jp_wake n = Some w \<and> wk_generation w = jp_lease_generation n)"
  using assms
proof (cases rule: job_step.cases)
  case (expired_lease v g t s r)
  with assms(2) show ?thesis
    by (auto simp: decide_expired_lease_def result_simps split: if_splits)
qed (auto simp: worker_defs control_defs claim_defs Let_def result_simps is_terminal_def split: if_splits)

lemma steps_wake_generation:
  assumes "job_steps add j n"
    and "jp_state j = JobState.Waiting \<Longrightarrow> \<exists>w. jp_wake j = Some w \<and> wk_generation w = jp_lease_generation j"
    and "jp_state n = JobState.Waiting"
  shows "\<exists>w. jp_wake n = Some w \<and> wk_generation w = jp_lease_generation n"
  using assms(1,3,2) by (cases rule: rtranclp.cases) (auto dest: step_into_waiting)

text \<open>After a wake the job is queued; it can be suspended again only under a new lease.\<close>

lemma spec_no_return:
  assumes "(spec_step limit)\<^sup>*\<^sup>* a b" and "aj_phase a = Queued" and "aj_phase b = Suspended"
  shows "aj_generation a < aj_generation b"
proof -
  from assms(1,2) have
    "aj_generation a < aj_generation b
     \<or> aj_generation b = aj_generation a \<and> aj_phase b \<noteq> Suspended \<and> (\<forall>h s. aj_phase b \<noteq> Held h s)"
  proof (induction rule: rtranclp_induct)
    case (step b c)
    then show ?case by (auto elim!: spec_stepE)
  qed simp
  with assms(3) show ?thesis by auto
qed

subsection \<open>Who holds the lease\<close>

fun phase_holder :: "JobPhase \<Rightarrow> (ResourceId \<times> Sha256Digest) option" where
  "phase_holder (Held h s) = Some h"
| "phase_holder (Closing c) = c"
| "phase_holder _ = None"

lemma phase_holder_abs: "job_ok j \<Longrightarrow> phase_holder (abs_phase j) = map_option holder (jp_lease j)"
  using job_ok_lease(2) [of j] job_ok_no_lease [of j]
  by (cases "jp_state j"; cases "jp_lease j") (auto simp: abs_phase_def)

lemma spec_one_phase_holder:
  assumes "(spec_step limit)\<^sup>*\<^sup>* a b" and "phase_holder (aj_phase a) = Some h"
    and "phase_holder (aj_phase b) = Some h'" and "aj_generation a = aj_generation b"
  shows "h' = h"
proof -
  from assms(1,2) have
    "aj_generation a \<le> aj_generation b
     \<and> (aj_generation b = aj_generation a \<longrightarrow> (\<forall>h'. phase_holder (aj_phase b) = Some h' \<longrightarrow> h' = h))"
  proof (induction rule: rtranclp_induct)
    case (step b c)
    then show ?case by (auto elim!: spec_stepE)
  qed auto
  with assms(3,4) show ?thesis by auto
qed

subsection \<open>What a decision needs to be accepted\<close>

lemma checked_add_one_Some:
  "unat (a :: 'a::len word) + 1 < 2 ^ LENGTH('a) \<Longrightarrow> checked_add a 1 = Some (a + 1)"
  by (cases "checked_add a 1") (auto simp: checked_add_None dest: checked_add_one(1))

lemma terminal_states:
  "is_terminal s \<Longrightarrow> s \<noteq> JobState.Ready \<and> s \<noteq> JobState.Leased \<and> s \<noteq> JobState.Running \<and>
     s \<noteq> JobState.Waiting \<and> s \<noteq> JobState.RetryScheduled \<and> s \<noteq> JobState.Cancelling"
  by (auto simp: is_terminal_def)

lemma terminal_step_id:
  assumes "job_step add j n" and t: "is_terminal (jp_state j)"
  shows "\<exists>v. n = j\<lparr>jp_version := v\<rparr>"
proof -
  have l: "jp_lease j = None"
    using step_accepted [OF assms(1)] t by (auto simp: accepted_def intro: job_ok_terminal)
  note facts = l terminal_states [OF t] terminal_no_edge [OF t]
  from assms(1) show ?thesis
  proof (cases rule: job_step.cases)
    case (terminal_physical_update v)
    then show ?thesis by (auto simp: decide_terminal_physical_update_def result_simps split: if_splits)
  qed (simp_all add: worker_defs claim_defs control_defs Let_def rbind_eq_Inr validate_fence_Inr
      validate_cleanup_fence_Inr ok_or_eq_Inr facts split: if_splits)
qed

lemma terminal_steps_id:
  assumes "job_steps add j n" and "is_terminal (jp_state j)"
  shows "\<exists>v. n = j\<lparr>jp_version := v\<rparr>"
  using assms
proof (induction rule: steps_induct)
  case refl
  have "j = j\<lparr>jp_version := jp_version j\<rparr>" by simp
  then show ?case by blast
next
  case (step m n)
  then obtain v where m: "m = j\<lparr>jp_version := v\<rparr>" by blast
  with step.prems have "is_terminal (jp_state m)" by simp
  with step.hyps(2) obtain w where "n = m\<lparr>jp_version := w\<rparr>" using terminal_step_id by blast
  with m have "n = j\<lparr>jp_version := w\<rparr>" by simp
  then show ?case by blast
qed

lemma lease_expiry_bounds:
  assumes "lease_expiry add j t p = Inr x" and "chrono_add_ok add"
  shows "x \<le> jp_deadline j" and "x \<le> t + uint (lp_hard_maximum_milliseconds p) * 1000000"
proof -
  from assms(1) obtain d u where d: "policy_duration p = Inr d" and "add t d = Some u" and x: "x = min u (jp_deadline j)"
    by (auto simp: lease_expiry_def result_simps)
  with assms(2) have "u = t + d" by (auto simp: chrono_add_ok_def)
  moreover from d have "d \<le> uint (lp_hard_maximum_milliseconds p) * 1000000"
    by (auto simp: policy_duration_def word_le_def word_less_def split: if_splits)
  ultimately show "x \<le> t + uint (lp_hard_maximum_milliseconds p) * 1000000" "x \<le> jp_deadline j"
    using x by auto
qed

text \<open>A lease that has expired is never stuck: some target is accepted, whatever the state of the
  work.\<close>

lemma transition_accepted:
  assumes "job_ok j" and "job_state_can_transition_to (jp_state j) s" and "unat (jp_version j) + 1 < 2 ^ 64"
    and "s \<in> {JobState.Ready, JobState.Succeeded, JobState.Failed, JobState.Cancelled, JobState.TimedOut,
             JobState.ReconciliationRequired}"
  shows "\<exists>n. transition j s False = Inr n \<and> jp_state n = s \<and> jp_lease n = None \<and> job_ok n"
proof -
  let ?n = "j\<lparr>jp_state := s, jp_version := jp_version j + 1, jp_lease := None, jp_retry_at := None, jp_wake := None\<rparr>"
  have v: "checked_add (jp_version j) 1 = Some (jp_version j + 1)"
    using assms(3) by (intro checked_add_one_Some) simp
  with checked_add_one(3) have "jp_version j + 1 \<noteq> 0" by blast
  with assms(1,4) have "job_ok ?n"
    by (auto simp: job_ok_def job_validate_def rbind_eq_Inr fail_if_eq_Inr map_err_eq_Inr)
  with assms(2) v show ?thesis by (simp add: transition_Inr)
qed

lemma reschedule_accepted:
  assumes "transition j JobState.Ready False = Inr n" and "t \<le> jp_deadline j"
  shows "validated (n\<lparr>jp_scheduled_at := t\<rparr>) = Inr (n\<lparr>jp_scheduled_at := t\<rparr>)"
proof -
  have "job_ok n" "jp_state n = JobState.Ready" "jp_deadline n = jp_deadline j"
    using assms(1) by (auto simp: transition_Inr)
  then have "job_ok (n\<lparr>jp_scheduled_at := t\<rparr>)"
    using assms(2)
    by (auto simp: job_ok_def job_validate_def rbind_eq_Inr fail_if_eq_Inr map_err_eq_Inr is_terminal_def
        split: option.splits)
  then show ?thesis by (simp add: validated_Inr)
qed

lemma expired_lease_recovers:
  assumes j: "job_ok j" and l: "jp_lease j = Some l" and t: "jl_expires_at l \<le> t"
    and v: "unat (jp_version j) + 1 < 2 ^ 64"
  shows "\<exists>s n. decide_expired_lease j (jp_version j) (jp_lease_generation j) t s None = Inr n
    \<and> jp_lease n = None"
proof -
  note l' = job_ok_lease [OF j l]
  have can: "job_state_can_transition_to (jp_state j) s"
    if "s = (if jp_state j = JobState.Leased then JobState.Ready else JobState.ReconciliationRequired)" for s
    using l'(2) that by (auto simp: job_state_can_transition_to_def)
  show ?thesis
  proof (cases "jp_state j = JobState.Leased")
    case False
    with can have c: "job_state_can_transition_to (jp_state j) JobState.ReconciliationRequired" by simp
    from transition_accepted [OF j c v] obtain n where
      "transition j JobState.ReconciliationRequired False = Inr n" "jp_lease n = None" by auto
    with c l l' t j show ?thesis
      by (intro exI [of _ JobState.ReconciliationRequired] exI [of _ n])
        (auto simp: decide_expired_lease_def job_ok_def)
  next
    case leased: True
    show ?thesis
    proof (cases "t < jp_deadline j")
      case True
      from leased can have c: "job_state_can_transition_to (jp_state j) JobState.Ready" by simp
      from transition_accepted [OF j c v] obtain n where
        n: "transition j JobState.Ready False = Inr n" "jp_lease n = None" by auto
      with reschedule_accepted [OF n(1), of t] leased l l' t j True show ?thesis
        by (intro exI [of _ JobState.Ready] exI [of _ "n\<lparr>jp_scheduled_at := t\<rparr>"])
          (auto simp: decide_expired_lease_def job_ok_def)
    next
      case False
      from leased have c: "job_state_can_transition_to (jp_state j) JobState.TimedOut"
        by (simp add: job_state_can_transition_to_def)
      from transition_accepted [OF j c v] obtain n where
        "transition j JobState.TimedOut False = Inr n" "jp_lease n = None" by auto
      with leased l l' t j False show ?thesis
        by (intro exI [of _ JobState.TimedOut] exI [of _ n])
          (auto simp: decide_expired_lease_def job_ok_def)
    qed
  qed
qed

subsection \<open>A job that may be claimed can be completed\<close>

definition fence_of :: "JobProjection \<Rightarrow> JobFence" where
  "fence_of j =
     (case jp_lease j of
        Some l \<Rightarrow> \<lparr>jf_expected_version = jp_version j,
          jf_worker_process_generation_id = jl_worker_process_generation_id l,
          jf_lease_generation = jl_lease_generation l, jf_token_digest = jl_token_digest l\<rparr>
      | None \<Rightarrow> \<lparr>jf_expected_version = jp_version j, jf_worker_process_generation_id = jp_job_id j,
          jf_lease_generation = 0, jf_token_digest = []\<rparr>)"

lemma fence_of_matches: "jp_lease j = Some l \<Longrightarrow> fence_matches j l (fence_of j)"
  by (simp add: fence_of_def fence_matches_def)

lemma start_accepted:
  assumes j: "job_ok j" "jp_state j = JobState.Leased" "jp_lease j = Some l" and t: "t < jl_expires_at l"
    and a: "jp_attempt_count j < jp_attempt_limit j" and v: "unat (jp_version j) + 1 < 2 ^ 64"
  shows "\<exists>n. decide_start j (fence_of j) t = Inr n \<and> job_ok n \<and> jp_state n = JobState.Running
      \<and> jp_lease n = Some l \<and> unat (jp_version n) = unat (jp_version j) + 1"
proof -
  let ?m = "j\<lparr>jp_state := JobState.Running, jp_version := jp_version j + 1, jp_retry_at := None, jp_wake := None\<rparr>"
  let ?n = "?m\<lparr>jp_attempt_count := jp_attempt_count j + 1\<rparr>"
  have v1: "checked_add (jp_version j) 1 = Some (jp_version j + 1)"
    using v by (intro checked_add_one_Some) simp
  have "unat (jp_attempt_count j) + 1 < 2 ^ 32"
    using a unsigned_less [of "jp_attempt_limit j", where 'a = nat] by (simp add: word_less_nat_alt)
  then have a1: "checked_add (jp_attempt_count j) 1 = Some (jp_attempt_count j + 1)"
    by (intro checked_add_one_Some) simp
  from a checked_add_one(4) [OF a1] have a2: "jp_attempt_count j + 1 \<le> jp_attempt_limit j"
    by (simp add: word_less_nat_alt word_le_nat_alt)
  from checked_add_one(3) [OF v1] j have m: "job_ok ?m"
    by (auto simp: job_ok_def job_validate_def rbind_eq_Inr fail_if_eq_Inr map_err_eq_Inr is_terminal_def)
  with a2 have n: "job_ok ?n"
    by (auto simp: job_ok_def job_validate_def rbind_eq_Inr fail_if_eq_Inr map_err_eq_Inr is_terminal_def
        split: option.splits)
  have "transition j JobState.Running True = Inr ?m"
    using j v1 m by (simp add: transition_Inr job_state_can_transition_to_def)
  moreover have "validate_fence j (fence_of j) t = Inr ()"
    using j t by (simp add: validate_fence_Inr fence_of_matches)
  ultimately have "decide_start j (fence_of j) t = Inr ?n"
    using j a a1 n by (simp add: decide_start_def validated_def job_ok_def linorder_not_le)
  with n j checked_add_one(4) [OF v1] show ?thesis by simp
qed

lemma claim_lease:
  assumes "decide_claim add j t w d p = Inr n"
  shows "job_ok n \<and> jp_state n = JobState.Leased \<and> jp_attempt_count n < jp_attempt_limit n
    \<and> unat (jp_version n) = unat (jp_version j) + 1
    \<and> (\<exists>l. jp_lease n = Some l \<and> jl_heartbeat_at l = t \<and> t < jl_expires_at l
        \<and> lease_expiry add j t p = Inr (jl_expires_at l) \<and> holder l = (w, d))"
  using assms by (auto simp: decide_claim_def holder_def result_simps dest: checked_add_one(4) split: if_splits)

lemma terminal_accepted:
  assumes j: "job_ok j" "jp_state j = JobState.Running" "jp_lease j = Some l" and t: "t < jl_expires_at l"
    and s: "s = JobState.Succeeded \<or> s = JobState.Failed" and v: "unat (jp_version j) + 1 < 2 ^ 64"
  shows "\<exists>n. decide_terminal j (fence_of j) t s = Inr n \<and> jp_state n = s"
proof -
  have c: "job_state_can_transition_to (jp_state j) s" "is_terminal s"
    using j(2) s by (auto simp: job_state_can_transition_to_def)
  obtain n where "transition j s False = Inr n" "jp_state n = s"
    using transition_accepted [OF j(1) c(1) v] s by auto
  moreover have "validate_fence j (fence_of j) t = Inr ()"
    using j t by (simp add: validate_fence_Inr fence_of_matches)
  ultimately show ?thesis using c by (simp add: decide_terminal_def)
qed

end
