(* ===== verification/JobHistory.thy ===== *)
theory JobHistory
  imports JobSafety
begin

text \<open>
  One concrete history of a Job, computed by the decisions of the theory Jobs, and the properties
  of every history: what the Job authority of \<open>platform-jobs\<close> guarantees whatever workers, owners and
  recovery scanners do.
\<close>

section \<open>A concrete history\<close>

definition ex_add :: chrono_add where
  "ex_add t d = (if t + d < 10 ^ 18 then Some (t + d) else None)"

definition ex_worker :: ResourceId where
  "ex_worker = ResourceId ResourceKind.WorkerProcessGeneration 7"

definition ex_ready :: JobProjection where
  "ex_ready =
     \<lparr>jp_trace = trace_identity_new (TraceId [1]),
      jp_tenant_id = ResourceId ResourceKind.Tenant 1,
      jp_job_id = ResourceId ResourceKind.Job 2,
      jp_work_class = WorkClass.Orchestration,
      jp_owner = \<lparr>jo_owner_id = ResourceId ResourceKind.NodeExecution 3,
        jo_owner_kind = ResourceKind.NodeExecution\<rparr>,
      jp_state = JobState.Ready, jp_version = 1, jp_attempt_count = 0, jp_attempt_limit = 3,
      jp_lease_generation = 0, jp_lease = None, jp_scheduled_at = 0, jp_retry_at = None,
      jp_wake = None, jp_deadline = 300000000000\<rparr>"

definition ex_policy :: LeasePolicy where
  "ex_policy = \<lparr>lp_requested_milliseconds = 1000, lp_hard_maximum_milliseconds = 2000\<rparr>"

definition ex_wake :: WakeContract where
  "ex_wake =
     \<lparr>wk_kind = WakeKind.RemoteInvocation, wk_generation = 1,
      wk_accepted_sources = [WakeSource.Callback, WakeSource.Timeout],
      wk_expected_response_schema_digest = None, wk_opaque_state_digest = None,
      wk_next_poll_at = None, wk_poll_count = 0, wk_poll_limit = 0,
      wk_callback_binding_digest = None, wk_deadline = 200000000000\<rparr>"

definition ex_lease :: "instant \<Rightarrow> JobLease" where
  "ex_lease t =
     \<lparr>jl_worker_process_generation_id = ex_worker, jl_lease_generation = 1,
      jl_token_digest = ''token'', jl_heartbeat_at = t, jl_expires_at = t + 1000000000\<rparr>"

definition ex_leased :: JobProjection where
  "ex_leased = ex_ready\<lparr>jp_state := JobState.Leased, jp_version := 2, jp_lease_generation := 1,
     jp_lease := Some (ex_lease 10)\<rparr>"

definition ex_running :: JobProjection where
  "ex_running = ex_leased\<lparr>jp_state := JobState.Running, jp_version := 3, jp_attempt_count := 1\<rparr>"

definition ex_waiting :: JobProjection where
  "ex_waiting = ex_running\<lparr>jp_state := JobState.Waiting, jp_version := 4, jp_lease := None,
     jp_wake := Some ex_wake\<rparr>"

definition ex_woken :: JobProjection where
  "ex_woken = ex_waiting\<lparr>jp_state := JobState.Ready, jp_version := 5, jp_wake := None,
     jp_scheduled_at := 40\<rparr>"

definition ex_retrying :: JobProjection where
  "ex_retrying = ex_running\<lparr>jp_state := JobState.RetryScheduled, jp_version := 4, jp_lease := None,
     jp_retry_at := Some 50\<rparr>"

definition ex_reclaimed :: JobProjection where
  "ex_reclaimed = ex_running\<lparr>jp_state := JobState.Leased, jp_version := 5, jp_lease_generation := 2,
     jp_lease := Some ((ex_lease 60)\<lparr>jl_lease_generation := 2\<rparr>)\<rparr>"

definition ex_done :: JobProjection where
  "ex_done = ex_running\<lparr>jp_state := JobState.Succeeded, jp_version := 4, jp_lease := None\<rparr>"

lemmas ex_defs =
  ex_add_def ex_worker_def ex_ready_def ex_policy_def ex_wake_def ex_lease_def ex_leased_def
  ex_running_def ex_waiting_def ex_woken_def ex_retrying_def ex_reclaimed_def ex_done_def

lemmas job_eval =
  job_validate_def owner_validate_for_def is_execution_work_owner_pair_def
  execution_work_owner_pairs_def trace_identity_validate_def trace_identity_new_def
  lease_validate_def is_terminal_def wake_validate_def MAX_WAKE_SOURCES_def
  less_WakeSource_def validated_def transition_def increment_def checked_add_def
  job_state_can_transition_to_def validate_fence_def fence_matches_def fence_of_def
  lease_expiry_def policy_duration_def

lemma ex_history:
  "decide_claim ex_add ex_ready 10 ex_worker ''token'' ex_policy = Inr ex_leased"
  "decide_start ex_leased (fence_of ex_leased) 20 = Inr ex_running"
  "decide_wait ex_running (fence_of ex_running) 30 ex_wake = Inr ex_waiting"
  "decide_wake ex_waiting 1 WakeSource.Callback 40 = Inr ex_woken"
  "decide_retry ex_running (fence_of ex_running) 30 50 = Inr ex_retrying"
  "decide_claim ex_add ex_retrying 60 ex_worker ''token'' ex_policy = Inr ex_reclaimed"
  "decide_terminal ex_running (fence_of ex_running) 30 JobState.Succeeded = Inr ex_done"
  by (simp_all add: ex_defs job_eval decide_claim_def decide_start_def decide_wait_def decide_wake_def
      decide_retry_def decide_terminal_def word_le_nat_alt word_less_nat_alt)

lemma ex_steps:
  "job_step ex_add ex_ready ex_leased" "job_step ex_add ex_leased ex_running"
  "job_step ex_add ex_running ex_waiting" "job_step ex_add ex_waiting ex_woken"
  "job_step ex_add ex_running ex_done" "job_step ex_add ex_running ex_retrying"
  using ex_history by (blast intro: job_step.intros)+

lemma ex_ok: "job_ok ex_ready" "job_ok ex_running" "job_ok ex_leased" "job_ok ex_done"
  using ex_steps(1,2,5) [THEN step_accepted] by (simp_all add: accepted_def)

section \<open>Properties of every history of decisions\<close>

text \<open>C1: every history of accepted Job decisions, by any workers, owners and recovery scanners in
  any order, is a history of the abstract job: held by at most one worker, acquired only while
  queued, begun only by its holder within the attempt limit, settled once.\<close>

theorem job_history_refines_abstract_job:
  assumes "job_steps add j n"
  shows "(spec_step (unat (jp_attempt_limit j)))\<^sup>*\<^sup>* (abs_job j) (abs_job n)"
  using assms by (rule steps_refine)

theorem job_history_refines_abstract_job_witness:
  "(spec_step 3)\<^sup>*\<^sup>* (abs_job ex_ready) (abs_job ex_running)"
proof -
  have "job_steps ex_add ex_ready ex_running" using ex_steps(1,2) by simp
  from job_history_refines_abstract_job [OF this] show ?thesis by (simp add: ex_ready_def)
qed

text \<open>C2: fencing.  Once any decision has been accepted on the projection a worker's fence was
  taken from, that fence is refused as stale at every later point of the history, at any clock
  reading, by the ordinary and by the cleanup check.\<close>

theorem accepted_decision_stales_every_earlier_fence:
  assumes "validate_fence j f t = Inr () \<or> validate_cleanup_fence j f t c = Inr ()"
    and "job_step add j m" and "job_steps add m n"
  shows "validate_fence n f t' = Inl StaleFence \<and> validate_cleanup_fence n f t' c' = Inl StaleFence"
proof -
  from assms(1) have "jf_expected_version f = jp_version j"
    by (auto simp: validate_fence_Inr validate_cleanup_fence_Inr fence_matches_def)
  moreover have "m \<noteq> j" using accepted_simps(5) [OF step_accepted [OF assms(2)]] by auto
  ultimately have v: "jp_version n \<noteq> jf_expected_version f"
    using job_history.versions_are_spent [OF assms(2) _ assms(3)] by auto
  have "job_ok n" using assms(2,3) by (auto intro: steps_ok dest: step_accepted accepted_simps(2))
  with v show ?thesis by (simp add: stale_fence stale_cleanup_fence)
qed

theorem accepted_decision_stales_every_earlier_fence_witness:
  "validate_fence ex_waiting (fence_of ex_running) 30 = Inl StaleFence"
proof -
  have f: "validate_fence ex_running (fence_of ex_running) 30 = Inr () \<or>
      validate_cleanup_fence ex_running (fence_of ex_running) 30 0 = Inr ()"
    using ex_history(3) by (auto simp: decide_wait_def rbind_eq_Inr)
  show ?thesis
    using accepted_decision_stales_every_earlier_fence [OF f ex_steps(3) rtranclp.rtrancl_refl] by blast
qed

text \<open>C25: one lease generation has one holder.  Two leases of one job with the same generation,
  at any two points of a history, belong to the same worker and carry the same token.\<close>

theorem lease_generation_has_one_holder:
  assumes "job_ok j" and "job_steps add j n"
    and "jp_lease j = Some l" and "jp_lease n = Some l'"
    and "jl_lease_generation l' = jl_lease_generation l"
  shows "jl_worker_process_generation_id l' = jl_worker_process_generation_id l
    \<and> jl_token_digest l' = jl_token_digest l"
proof -
  have n: "job_ok n" using assms(1,2) by (blast intro: steps_ok)
  have "jp_lease_generation n = jp_lease_generation j"
    using job_ok_lease(1) [OF assms(1,3)] job_ok_lease(1) [OF n assms(4)] assms(5) by simp
  then have "holder l' = holder l"
    using spec_one_phase_holder [OF steps_refine [OF assms(2)]] phase_holder_abs [OF assms(1)]
      phase_holder_abs [OF n] assms(3,4)
    by (simp add: abs_job_def)
  then show ?thesis by (simp add: holder_def)
qed

theorem lease_generation_has_one_holder_witness:
  "jl_worker_process_generation_id (ex_lease 10) = ex_worker"
proof -
  have "job_steps ex_add ex_leased ex_running" using ex_steps(2) by simp
  from lease_generation_has_one_holder [OF ex_ok(3) this, of "ex_lease 10" "ex_lease 10"]
  show ?thesis by (simp add: ex_defs)
qed

text \<open>a terminal result is final.  Whatever decision is accepted on a terminal Job, only the
  optimistic version moves: the state, the counters, the times and the absence of a lease stay.\<close>

theorem terminal_job_is_final:
  assumes "job_steps add j n" and "is_terminal (jp_state j)"
  shows "\<exists>v. n = j\<lparr>jp_version := v\<rparr>"
  using assms by (rule terminal_steps_id)

theorem terminal_job_is_final_witness:
  "job_step ex_add ex_done (ex_done\<lparr>jp_version := 5\<rparr>) \<and> (\<exists>v. ex_done\<lparr>jp_version := 5\<rparr> = ex_done\<lparr>jp_version := v\<rparr>)"
proof -
  have "decide_terminal_physical_update ex_done 4 = Inr (ex_done\<lparr>jp_version := 5\<rparr>)"
    by (simp add: ex_defs job_eval decide_terminal_physical_update_def)
  then have s: "job_step ex_add ex_done (ex_done\<lparr>jp_version := 5\<rparr>)" by (rule terminal_physical_update)
  have "is_terminal (jp_state ex_done)" by (simp add: ex_defs)
  with s terminal_job_is_final [of ex_add ex_done "ex_done\<lparr>jp_version := 5\<rparr>"] show ?thesis by blast
qed

text \<open>a decision keeps the projection well formed, never touches what identifies and bounds the
  Job (identities, owner, trace, attempt limit, deadline), raises the version by exactly one, and
  never lowers the attempt counter or the lease generation.\<close>

theorem accepted_decision_preserves_the_job:
  assumes "job_step add j n"
  shows "job_validate j = Inr () \<and> job_validate n = Inr () \<and> same_job j n
    \<and> unat (jp_version n) = unat (jp_version j) + 1
    \<and> jp_attempt_count j \<le> jp_attempt_count n \<and> jp_lease_generation j \<le> jp_lease_generation n"
proof -
  have "(spec_step (unat (jp_attempt_limit j)))\<^sup>*\<^sup>* (abs_job j) (abs_job n)"
    by (rule steps_refine [OF r_into_rtranclp [of "job_step add", OF assms]])
  from spec_monotone [OF this] show ?thesis
    using step_accepted [OF assms] accepted_simps(5) [OF step_accepted [OF assms]]
    by (simp add: accepted_def job_ok_def abs_job_def word_le_nat_alt)
qed

theorem accepted_decision_preserves_the_job_witness:
  "job_validate ex_running = Inr () \<and> same_job ex_leased ex_running"
  using accepted_decision_preserves_the_job [OF ex_steps(2)] by simp

text \<open>C28: attempts are bounded and paid for.  From a fresh Job, at every point of every history, the
  attempt counter is within the limit and at most the number of leases granted, and a lease that has
  been granted but not started is not yet counted.\<close>

theorem attempts_are_bounded_by_leases:
  assumes "job_ok j" and "jp_state j = JobState.Ready" and "jp_attempt_count j = 0" and "job_steps add j n"
  shows "unat (jp_attempt_count n) \<le> unat (jp_attempt_limit j)
    \<and> unat (jp_attempt_count n) + (if jp_state n = JobState.Leased then 1 else 0)
        \<le> unat (jp_lease_generation n)"
proof -
  have n: "job_ok n" using assms(1,4) by (blast intro: steps_ok)
  have "abs_phase j = Queued" using assms(2) by (simp add: abs_phase_def)
  then have "aj_attempts (abs_job j) + unspent (aj_phase (abs_job j)) \<le> aj_generation (abs_job j)"
    using assms(3) by (simp add: abs_job_def)
  from spec_attempts [OF steps_refine [OF assms(4)] this]
  have "aj_attempts (abs_job n) + unspent (aj_phase (abs_job n)) \<le> aj_generation (abs_job n)" .
  moreover have "jp_state n = JobState.Leased \<longrightarrow> unspent (abs_phase n) = 1"
    using held_phase(1) [OF n] by auto
  ultimately show ?thesis
    using job_ok_basic(2) [OF n] steps_same [OF assms(4)]
    by (auto simp: abs_job_def same_job_def word_le_nat_alt)
qed

theorem attempts_are_bounded_by_leases_witness:
  "unat (jp_attempt_count ex_running) \<le> 3 \<and> unat (jp_attempt_count ex_running) \<le> 1"
proof -
  have "job_steps ex_add ex_ready ex_running" using ex_steps(1,2) by simp
  from attempts_are_bounded_by_leases [OF ex_ok(1) _ _ this] show ?thesis by (simp add: ex_defs)
qed

text \<open>C26: first winner.  After one wake of a generation has been accepted, no wake of that
  generation, from any source at any time, is accepted again, however the Job goes on.\<close>

theorem wake_generation_is_consumed_once:
  assumes "jp_state j0 = JobState.Ready" and "job_steps add j0 j"
    and "decide_wake j g src t = Inr m" and "job_steps add m n"
  shows "\<exists>e. decide_wake n g src' t' = Inl e"
proof (rule ccontr)
  assume "\<not> ?thesis"
  then obtain k where k: "decide_wake n g src' t' = Inr k" by (cases "decide_wake n g src' t'") auto
  have wake: "jp_state i = JobState.Waiting \<and> (\<exists>w. jp_wake i = Some w \<and> wk_generation w = g)"
    if "decide_wake i g s u = Inr v" for i s u v
    using that by (auto simp: decide_wake_def Let_def result_simps split: if_splits)
  have m: "jp_state m = JobState.Ready" "jp_lease_generation m = jp_lease_generation j"
    using assms(3) by (auto simp: decide_wake_def Let_def result_simps split: if_splits)
  have "g = jp_lease_generation j"
    using steps_wake_generation [OF assms(2)] assms(1) wake [OF assms(3)] by auto
  moreover have "g = jp_lease_generation n"
    using steps_wake_generation [OF assms(4)] m wake [OF k] by auto
  moreover have "jp_lease_generation m < jp_lease_generation n"
  proof -
    have q: "aj_phase (abs_job m) = Queued" using m by (simp add: abs_job_def abs_phase_def)
    have w: "aj_phase (abs_job n) = Suspended" using wake [OF k] by (simp add: abs_job_def abs_phase_def)
    from spec_no_return [OF steps_refine [OF assms(4)] q w] show ?thesis
      unfolding abs_job_def word_less_nat_alt by (simp only: AbstractJob.sel)
  qed
  ultimately show False using m by simp
qed

theorem wake_generation_is_consumed_once_witness:
  "\<exists>e. decide_wake ex_woken 1 WakeSource.Timeout 200000000000 = Inl e"
proof -
  have s: "job_steps ex_add ex_ready ex_waiting"
    using ex_steps(1-3) by (meson r_into_rtranclp rtranclp_trans)
  have "jp_state ex_ready = JobState.Ready" by (simp add: ex_ready_def)
  from wake_generation_is_consumed_once [OF this s ex_history(4) rtranclp.rtrancl_refl] show ?thesis .
qed

text \<open>a granted or renewed lease is live and bounded: it starts now, ends strictly later, and ends
  by the Job's deadline and within the policy's hard maximum.\<close>

theorem granted_lease_is_bounded:
  assumes "chrono_add_ok add"
    and "decide_claim add j t w d p = Inr n \<or> decide_claim_continuation add j t w d p = Inr n
      \<or> decide_heartbeat add j f t p = Inr n"
  shows "\<exists>l. jp_lease n = Some l \<and> jl_heartbeat_at l = t \<and> t < jl_expires_at l
    \<and> jl_expires_at l \<le> jp_deadline j
    \<and> jl_expires_at l \<le> t + uint (lp_hard_maximum_milliseconds p) * 1000000"
proof -
  have "\<exists>l. jp_lease n = Some l \<and> jl_heartbeat_at l = t \<and> t < jl_expires_at l
      \<and> lease_expiry add j t p = Inr (jl_expires_at l)"
    using assms(2)
    by (auto simp: decide_claim_def decide_claim_continuation_def decide_heartbeat_def result_simps
        split: if_splits)
  with lease_expiry_bounds [OF _ assms(1)] show ?thesis by blast
qed

theorem granted_lease_is_bounded_witness:
  "\<exists>l. jp_lease ex_leased = Some l \<and> jl_expires_at l \<le> 300000000000"
proof -
  have "chrono_add_ok ex_add" by (simp add: chrono_add_ok_def ex_add_def)
  from granted_lease_is_bounded [OF this disjI1 [OF ex_history(1)]] show ?thesis
    by (auto simp: ex_ready_def)
qed

text \<open>C29: a Job changes state along the published table of \<open>JobState\<close>, with one exception that
  does occur: a claim takes a scheduled retry straight to \<open>Leased\<close>, an edge the table lacks.\<close>

theorem state_changes_follow_the_table_except_claimed_retries:
  "(\<forall>add j n. job_step add j n \<longrightarrow>
      jp_state n = jp_state j \<or> job_state_can_transition_to (jp_state j) (jp_state n)
      \<or> jp_state j = JobState.RetryScheduled \<and> jp_state n = JobState.Leased)
   \<and> (\<exists>add j n t w d p. decide_claim add j t w d p = Inr n \<and> jp_state j = JobState.RetryScheduled
      \<and> jp_state n = JobState.Leased)
   \<and> \<not> job_state_can_transition_to JobState.RetryScheduled JobState.Leased"
proof (intro conjI)
  have "jp_state ex_retrying = JobState.RetryScheduled" "jp_state ex_reclaimed = JobState.Leased"
    by (simp_all add: ex_defs)
  with ex_history(6) show "\<exists>add j n t w d p. decide_claim add j t w d p = Inr n
      \<and> jp_state j = JobState.RetryScheduled \<and> jp_state n = JobState.Leased" by blast
qed (use step_edge in \<open>blast, simp add: job_state_can_transition_to_def\<close>)

theorem state_changes_follow_the_table_except_claimed_retries_witness:
  "jp_state ex_done = jp_state ex_running \<or> job_state_can_transition_to (jp_state ex_running) (jp_state ex_done)
    \<or> jp_state ex_running = JobState.RetryScheduled \<and> jp_state ex_done = JobState.Leased"
  using state_changes_follow_the_table_except_claimed_retries ex_steps(5) by blast

text \<open>progress.  A Job that can be claimed can be completed: after an accepted claim with the
  next two versions in range, the holder's start is accepted within the lease, and then its result.\<close>

theorem claimed_job_can_complete:
  assumes "decide_claim add j t w d p = Inr n" and "unat (jp_version j) + 3 < 2 ^ 64"
    and "s = JobState.Succeeded \<or> s = JobState.Failed"
  shows "\<exists>r k. decide_start n (fence_of n) t = Inr r \<and> decide_terminal r (fence_of r) t s = Inr k
    \<and> jp_state k = s"
proof -
  from claim_lease [OF assms(1)] obtain l where n: "job_ok n" "jp_state n = JobState.Leased" "jp_lease n = Some l"
    and t: "t < jl_expires_at l" and a: "jp_attempt_count n < jp_attempt_limit n"
    and v: "unat (jp_version n) = unat (jp_version j) + 1" by blast
  obtain r where r: "decide_start n (fence_of n) t = Inr r" "job_ok r" "jp_state r = JobState.Running"
    "jp_lease r = Some l" "unat (jp_version r) = unat (jp_version n) + 1"
    using start_accepted [OF n t a] v assms(2) by auto
  from terminal_accepted [OF r(2-4) t assms(3)] r v assms(2) show ?thesis by auto
qed

theorem claimed_job_can_complete_witness:
  "\<exists>r k. decide_start ex_leased (fence_of ex_leased) 10 = Inr r
    \<and> decide_terminal r (fence_of r) 10 JobState.Succeeded = Inr k \<and> jp_state k = JobState.Succeeded"
  by (rule claimed_job_can_complete [OF ex_history(1)]) (simp_all add: ex_ready_def)

text \<open>C27: no lease is stuck, and recovery cannot race its holder.  Once a lease has expired, the
  holder's fence is refused and some recovery target is accepted and frees the Job; before it
  expires, every recovery decision is refused.\<close>

theorem expired_lease_is_recoverable:
  assumes "job_ok j" and "jp_lease j = Some l" and "unat (jp_version j) + 1 < 2 ^ 64"
  shows "(jl_expires_at l \<le> t \<longrightarrow>
      (\<forall>f. validate_fence j f t \<noteq> Inr ())
      \<and> (\<exists>s n. decide_expired_lease j (jp_version j) (jp_lease_generation j) t s None = Inr n
          \<and> jp_lease n = None))
    \<and> (t < jl_expires_at l \<longrightarrow> (\<forall>v g s r n. decide_expired_lease j v g t s r \<noteq> Inr n))"
  using expired_lease_recovers [OF assms(1,2) _ assms(3)] assms(1,2)
  by (auto simp: validate_fence_Inr decide_expired_lease_def job_ok_def rbind_eq_Inr)

theorem expired_lease_is_recoverable_witness:
  "\<exists>s n. decide_expired_lease ex_running 3 1 2000000000 s None = Inr n \<and> jp_lease n = None"
proof -
  have "jp_lease ex_running = Some (ex_lease 10)" "jp_version ex_running = 3"
    "jp_lease_generation ex_running = 1" "jl_expires_at (ex_lease 10) \<le> 2000000000"
    by (simp_all add: ex_defs)
  with expired_lease_is_recoverable [OF ex_ok(2), of "ex_lease 10" 2000000000] show ?thesis by simp
qed

end
