(* ===== verification/Scheduling.thy ===== *)
theory Scheduling
  imports Digests Registry
begin

text \<open>
  The scheduler: the persistent contracts of \<open>platform-contracts/src/scheduling.rs\<close> and the
  admission decision of \<open>platform-scheduler\<close>.  A partition visit walks the locked tenants in
  identity order, gives each at most one credit per round, and admits or skips every candidate
  against the tenant's deficit, its burst and the quota that remains.
\<close>

section \<open>Persistent contracts\<close>

definition SCHEDULER_STATE_VERSION :: u32 where
  "SCHEDULER_STATE_VERSION = 1"

definition SCHEDULER_PARTITION_DOMAIN :: "u8 list" where
  "SCHEDULER_PARTITION_DOMAIN = map of_char ''insight.scheduler.partition.v1'' @ [0]"

definition I64_MAX :: u64 where
  "I64_MAX = 9223372036854775807"

datatype SchedulingContractError = WrongIdentity | InvalidCursor | InvalidState

datatype SchedulerPartitionId = SchedulerPartitionId u8

text \<open>\<open>Uuid::as_bytes\<close>: big endian.\<close>

definition uuid_bytes :: "u128 \<Rightarrow> u8 list" where
  "uuid_bytes u = map (\<lambda>i. ucast (drop_bit (8 * (15 - i)) u)) [0..<16]"

definition for_tenant ::
  "('n, 'z) digest_env_scheme \<Rightarrow> ResourceId \<Rightarrow> SchedulingContractError + SchedulerPartitionId" where
  "for_tenant env tenant =
     (if rid_kind tenant \<noteq> ResourceKind.Tenant then Inl WrongIdentity
      else Inr (SchedulerPartitionId
        (de_sha256 env (SCHEDULER_PARTITION_DOMAIN @ uuid_bytes (rid_uuid tenant)) ! 0)))"

datatype SchedulingLane = Business | RestrictedControl

datatype ClaimMode = NewAttempt | Continuation

primrec admitted_attempt_cost :: "ClaimMode \<Rightarrow> u64" where
  "admitted_attempt_cost NewAttempt = 1"
| "admitted_attempt_cost Continuation = 0"

datatype SchedulingPolicyBinding =
    Unbound
  | Bound (policy_version_id: ResourceId) (policy_version_digest: Sha256Digest) (rules_digest: Sha256Digest)

definition policy_binding_validate :: "SchedulingPolicyBinding \<Rightarrow> SchedulingContractError + unit" where
  "policy_binding_validate b =
     (case b of
        Bound v _ _ \<Rightarrow> if rid_kind v \<noteq> ResourceKind.PolicyRevision then Inl WrongIdentity else Inr ()
      | Unbound \<Rightarrow> Inr ())"

record JobCreationKey =
  jk_created_at :: instant
  jk_job_id :: ResourceId

text \<open>The derived \<open>Ord\<close>: creation instant, then identity.\<close>

definition creation_key_less :: "JobCreationKey \<Rightarrow> JobCreationKey \<Rightarrow> bool" where
  "creation_key_less a b \<longleftrightarrow>
     jk_created_at a < jk_created_at b \<or> jk_created_at a = jk_created_at b \<and> jk_job_id a < jk_job_id b"

record JobSweepContinuation =
  sw_creation_cutoff :: instant
  sw_upper_bound :: JobCreationKey
  sw_after :: "JobCreationKey option"

definition sweep_validate :: "JobSweepContinuation \<Rightarrow> SchedulingContractError + unit" where
  "sweep_validate s =
     fail_if
       (rid_kind (jk_job_id (sw_upper_bound s)) \<noteq> ResourceKind.Job
        \<or> sw_creation_cutoff s \<le> jk_created_at (sw_upper_bound s)
        \<or> some_and (sw_after s) (\<lambda>after.
             rid_kind (jk_job_id after) \<noteq> ResourceKind.Job
             \<or> creation_key_less (sw_upper_bound s) after))
       InvalidCursor"

record SchedulerPartitionState =
  sp_schema_version :: u32
  sp_work_class :: WorkClass
  sp_partition_id :: SchedulerPartitionId
  sp_current_round :: u64
  sp_tenant_upper_bound :: "ResourceId option"
  sp_cursor_tenant_id :: "ResourceId option"

definition option_list :: "'a option \<Rightarrow> 'a list" where
  "option_list m = (case m of None \<Rightarrow> [] | Some x \<Rightarrow> [x])"

definition partition_validate ::
  "('n, 'z) digest_env_scheme \<Rightarrow> SchedulerPartitionState \<Rightarrow> SchedulingContractError + unit" where
  "partition_validate env p =
     rbind (fail_if (sp_schema_version p \<noteq> SCHEDULER_STATE_VERSION \<or> I64_MAX < sp_current_round p)
       InvalidState) (\<lambda>_.
     rbind (check_all
       (\<lambda>tenant.
         if rid_kind tenant \<noteq> ResourceKind.Tenant then Inl WrongIdentity
         else rbind (for_tenant env tenant) (\<lambda>i. fail_if (i \<noteq> sp_partition_id p) WrongIdentity))
       (option_list (sp_tenant_upper_bound p) @ option_list (sp_cursor_tenant_id p))) (\<lambda>_.
     fail_if
       (some_and (sp_cursor_tenant_id p) (\<lambda>cursor.
          none_or (sp_tenant_upper_bound p) (\<lambda>upper. upper < cursor)))
       InvalidCursor))"

record TenantSchedulerState =
  ts_schema_version :: u32
  ts_tenant_id :: ResourceId
  ts_work_class :: WorkClass
  ts_partition_id :: SchedulerPartitionId
  ts_policy :: SchedulingPolicyBinding
  ts_deficit :: u64
  ts_earliest_eligible_round :: u64
  ts_credited_round :: "u64 option"
  ts_last_served_round :: "u64 option"
  ts_successful_claims :: u64
  ts_job_sweep :: "JobSweepContinuation option"

definition tenant_validate ::
  "('n, 'z) digest_env_scheme \<Rightarrow> TenantSchedulerState \<Rightarrow> u64 \<Rightarrow> SchedulingContractError + unit" where
  "tenant_validate env t maximum_deficit =
     rbind (policy_binding_validate (ts_policy t)) (\<lambda>_.
     if ts_schema_version t \<noteq> SCHEDULER_STATE_VERSION then Inl InvalidState
     else
       rbind (for_tenant env (ts_tenant_id t)) (\<lambda>part.
       rbind (fail_if
         (part \<noteq> ts_partition_id t
          \<or> maximum_deficit < ts_deficit t
          \<or> I64_MAX < ts_deficit t
          \<or> I64_MAX < ts_earliest_eligible_round t
          \<or> some_and (ts_credited_round t) (\<lambda>round. I64_MAX < round)
          \<or> some_and (ts_last_served_round t) (\<lambda>round. I64_MAX < round)
          \<or> I64_MAX < ts_successful_claims t
          \<or> ts_policy t = Unbound \<and> ts_deficit t \<noteq> 0)
         InvalidState) (\<lambda>_.
       case ts_job_sweep t of None \<Rightarrow> Inr () | Some sweep \<Rightarrow> sweep_validate sweep)))"

section \<open>Scheduling policy\<close>

datatype ScheduleError = InvalidPolicy | PolicyDigestMismatch | Canonicalization

record SchedulerHardLimits =
  sh_maximum_deficit :: u64
  sh_maximum_tenants :: u16
  sh_maximum_window_per_tenant :: u16
  sh_maximum_batch :: u16

definition hard_limits_validate :: "SchedulerHardLimits \<Rightarrow> ScheduleError + unit" where
  "hard_limits_validate l =
     fail_if
       (sh_maximum_deficit l = 0 \<or> sh_maximum_tenants l = 0
        \<or> sh_maximum_window_per_tenant l = 0 \<or> sh_maximum_batch l = 0)
       InvalidPolicy"

record TenantSchedulingPolicyBinding =
  tb_tenant_id :: ResourceId
  tb_policy_version_id :: ResourceId
  tb_policy_version_digest :: Sha256Digest
  tb_rules_digest :: Sha256Digest
  tb_weight :: u16
  tb_burst :: u16
  tb_aging_rounds :: u16

definition tenant_policy_validate ::
  "('n, 'z) digest_env_scheme \<Rightarrow> TenantSchedulingPolicyBinding \<Rightarrow> ScheduleError + unit" where
  "tenant_policy_validate env b =
     (if rid_kind (tb_tenant_id b) \<noteq> ResourceKind.Tenant
         \<or> rid_kind (tb_policy_version_id b) \<noteq> ResourceKind.PolicyRevision
         \<or> tb_weight b = 0 \<or> tb_burst b = 0 \<or> tb_aging_rounds b = 0
      then Inl InvalidPolicy
      else
        let number = (\<lambda>w. Number (de_number env w));
            document = json_object
              [(''version'', number 1), (''weight'', number (ucast (tb_weight b))),
               (''burst'', number (ucast (tb_burst b))),
               (''aging_rounds'', number (ucast (tb_aging_rounds b)))]
        in rbind (map_err ScheduleError.Canonicalization (canonical_digest env document)) (\<lambda>text.
           rbind (ok_or ScheduleError.Canonicalization (parse_digest text)) (\<lambda>digest.
           if digest \<noteq> tb_rules_digest b then Inl PolicyDigestMismatch else Inr ())))"

section \<open>A partition visit\<close>

record PartitionSchedulerLimits =
  pl_maximum_deficit :: u64
  pl_maximum_tenant_window :: nat
  pl_maximum_candidates_per_tenant :: nat
  pl_maximum_claims :: nat
  pl_maximum_control_claims_per_tenant :: nat
  pl_maximum_quota_lines_per_candidate :: nat

record QuotaCost =
  qc_account_id :: ResourceId
  qc_amount :: u64

record AdmissionCandidate =
  ac_job_id :: ResourceId
  ac_mode :: ClaimMode
  ac_lane :: SchedulingLane
  ac_currently_eligible :: bool
  ac_quota_costs :: "QuotaCost list"

record LockedTenantVisit =
  lv_state :: TenantSchedulerState
  lv_business_policy :: "TenantSchedulingPolicyBinding option"
  lv_candidates :: "AdmissionCandidate list"
  lv_next_job_sweep :: "JobSweepContinuation option"

datatype AdmissionSkipReason = Ineligible | PolicyUnbound | Deficit | Burst | QuotaSaturated

record SkippedAdmission =
  sk_job_id :: ResourceId
  sk_reason :: AdmissionSkipReason

type_synonym quota = "ResourceId \<rightharpoonup> u64"

record PartitionAdmissionDecision =
  pd_admitted_job_ids :: "ResourceId list"
  pd_skipped :: "SkippedAdmission list"
  pd_next_partition :: SchedulerPartitionState
  pd_next_tenants :: "TenantSchedulerState list"
  pd_quota_reservations :: quota

datatype PartitionScheduleError = InvalidInput | PolicyMismatch | MissingQuotaAccount | CounterOverflow

text \<open>The loop variables that outlive a tenant, and those of one tenant.\<close>

record visit_loop =
  vl_remaining :: quota
  vl_reservations :: quota
  vl_admitted :: "ResourceId list"
  vl_skipped :: "SkippedAdmission list"
  vl_next_tenants :: "TenantSchedulerState list"
  vl_previous_tenant :: "ResourceId option"
  vl_seen_jobs :: "ResourceId set"

record tenant_loop =
  tl_loop :: visit_loop
  tl_state :: TenantSchedulerState
  tl_business_claims :: nat
  tl_control_claims :: nat

text \<open>The quota lines of a candidate: well formed, without a repeated account, every account known.\<close>

fun check_costs :: "quota \<Rightarrow> ResourceId set \<Rightarrow> QuotaCost list \<Rightarrow> PartitionScheduleError + unit" where
  "check_costs remaining accounts [] = Inr ()"
| "check_costs remaining accounts (cost # costs) =
     (if rid_kind (qc_account_id cost) \<noteq> ResourceKind.QuotaAccount
         \<or> qc_amount cost = 0
         \<or> qc_account_id cost \<in> accounts
      then Inl InvalidInput
      else if remaining (qc_account_id cost) = None then Inl MissingQuotaAccount
      else check_costs remaining (insert (qc_account_id cost) accounts) costs)"

definition skip_reason ::
  "PartitionSchedulerLimits \<Rightarrow> nat \<Rightarrow> LockedTenantVisit \<Rightarrow> tenant_loop \<Rightarrow> AdmissionCandidate \<Rightarrow>
   AdmissionSkipReason option" where
  "skip_reason limits requested_claims visit tv c =
     (if \<not> ac_currently_eligible c then Some Ineligible
      else if ac_lane c = Business \<and> lv_business_policy visit = None then Some PolicyUnbound
      else if requested_claims \<le> length (vl_admitted (tl_loop tv))
         \<or> (case ac_lane c of
              Business \<Rightarrow>
                (case lv_business_policy visit of None \<Rightarrow> 0 | Some policy \<Rightarrow> unat (tb_burst policy))
                  \<le> tl_business_claims tv
            | RestrictedControl \<Rightarrow>
                pl_maximum_control_claims_per_tenant limits \<le> tl_control_claims tv)
      then Some Burst
      else if ac_lane c = Business \<and> ts_deficit (tl_state tv) < admitted_attempt_cost (ac_mode c)
      then Some Deficit
      else if list_ex (\<lambda>cost.
          case vl_remaining (tl_loop tv) (qc_account_id cost) of
            None \<Rightarrow> True | Some available \<Rightarrow> available < qc_amount cost) (ac_quota_costs c)
      then Some QuotaSaturated
      else None)"

text \<open>One quota line of an admitted candidate.  The index \<open>remaining[&account]\<close> of the test above and
  this \<open>get_mut\<close> cannot miss, \<open>check_costs\<close> has looked the account up.\<close>

definition reserve_cost :: "quota \<times> quota \<Rightarrow> QuotaCost \<Rightarrow> PartitionScheduleError + (quota \<times> quota)" where
  "reserve_cost q cost =
     (let (remaining, reservations) = q in
      rbind (ok_or MissingQuotaAccount (remaining (qc_account_id cost))) (\<lambda>available.
      let reserved = (case reservations (qc_account_id cost) of None \<Rightarrow> 0 | Some r \<Rightarrow> r)
      in rbind (ok_or CounterOverflow (checked_add reserved (qc_amount cost))) (\<lambda>total.
         Inr (remaining(qc_account_id cost \<mapsto> available - qc_amount cost),
              reservations(qc_account_id cost \<mapsto> total)))))"

definition bounded_successor :: "u64 \<Rightarrow> PartitionScheduleError + u64" where
  "bounded_successor n =
     ok_or CounterOverflow
       (case checked_add n 1 of None \<Rightarrow> None | Some v \<Rightarrow> if v \<le> I64_MAX then Some v else None)"

definition visit_candidate ::
  "SchedulerPartitionState \<Rightarrow> PartitionSchedulerLimits \<Rightarrow> nat \<Rightarrow> LockedTenantVisit \<Rightarrow>
   tenant_loop \<Rightarrow> AdmissionCandidate \<Rightarrow> PartitionScheduleError + tenant_loop" where
  "visit_candidate part limits requested_claims visit tv c =
     (let lp = tl_loop tv; state = tl_state tv in
      if rid_kind (ac_job_id c) \<noteq> ResourceKind.Job
         \<or> ac_job_id c \<in> vl_seen_jobs lp
         \<or> pl_maximum_quota_lines_per_candidate limits < length (ac_quota_costs c)
      then Inl InvalidInput
      else
        rbind (check_costs (vl_remaining lp) {} (ac_quota_costs c)) (\<lambda>_.
        let lp = lp\<lparr>vl_seen_jobs := insert (ac_job_id c) (vl_seen_jobs lp)\<rparr> in
        case skip_reason limits requested_claims visit tv c of
          Some reason \<Rightarrow>
            Inr (tv\<lparr>tl_loop := lp\<lparr>vl_skipped :=
              vl_skipped lp @ [\<lparr>sk_job_id = ac_job_id c, sk_reason = reason\<rparr>]\<rparr>\<rparr>)
        | None \<Rightarrow>
            rbind (fold_result reserve_cost (vl_remaining lp, vl_reservations lp) (ac_quota_costs c)) (\<lambda>q.
            let deficit = (case ac_lane c of
                  Business \<Rightarrow> ts_deficit state - admitted_attempt_cost (ac_mode c)
                | RestrictedControl \<Rightarrow> ts_deficit state);
                business = (case ac_lane c of
                  Business \<Rightarrow> tl_business_claims tv + 1 | RestrictedControl \<Rightarrow> tl_business_claims tv);
                control = (case ac_lane c of
                  Business \<Rightarrow> tl_control_claims tv | RestrictedControl \<Rightarrow> tl_control_claims tv + 1)
            in rbind (bounded_successor (ts_successful_claims state)) (\<lambda>successful.
               Inr \<lparr>tl_loop = lp\<lparr>vl_remaining := fst q, vl_reservations := snd q,
                      vl_admitted := vl_admitted lp @ [ac_job_id c]\<rparr>,
                    tl_state = state\<lparr>ts_deficit := deficit, ts_successful_claims := successful,
                      ts_last_served_round := Some (sp_current_round part)\<rparr>,
                    tl_business_claims = business, tl_control_claims = control\<rparr>))))"

text \<open>The credit of one round: at most once, and only for a tenant with an eligible new attempt.\<close>

definition credit ::
  "SchedulerPartitionState \<Rightarrow> PartitionSchedulerLimits \<Rightarrow> TenantSchedulingPolicyBinding \<Rightarrow>
   AdmissionCandidate list \<Rightarrow> TenantSchedulerState \<Rightarrow> TenantSchedulerState" where
  "credit part limits policy candidates state =
     (if ts_credited_round state \<noteq> Some (sp_current_round part)
         \<and> list_ex (\<lambda>c. ac_currently_eligible c \<and> ac_lane c = Business \<and> ac_mode c = NewAttempt) candidates
      then state\<lparr>
        ts_deficit := min (saturating_add (ts_deficit state) (ucast (tb_weight policy))) (pl_maximum_deficit limits),
        ts_credited_round := Some (sp_current_round part)\<rparr>
      else state)"

definition admit_policy ::
  "('n, 'z) digest_env_scheme \<Rightarrow> SchedulerPartitionState \<Rightarrow> PartitionSchedulerLimits \<Rightarrow>
   LockedTenantVisit \<Rightarrow> PartitionScheduleError + TenantSchedulerState" where
  "admit_policy env part limits visit =
     (let state = lv_state visit in
      case lv_business_policy visit of
        None \<Rightarrow> Inr state
      | Some policy \<Rightarrow>
          rbind (map_err PolicyMismatch (tenant_policy_validate env policy)) (\<lambda>_.
          if tb_tenant_id policy \<noteq> ts_tenant_id state
             \<or> ts_policy state \<noteq>
                 Bound (tb_policy_version_id policy) (tb_policy_version_digest policy) (tb_rules_digest policy)
          then Inl PolicyMismatch
          else Inr (credit part limits policy (lv_candidates visit) state)))"

definition visit_tenant ::
  "('n, 'z) digest_env_scheme \<Rightarrow> SchedulerPartitionState \<Rightarrow> PartitionSchedulerLimits \<Rightarrow> nat \<Rightarrow>
   visit_loop \<Rightarrow> LockedTenantVisit \<Rightarrow> PartitionScheduleError + visit_loop" where
  "visit_tenant env part limits requested_claims lp visit =
     (let state = lv_state visit in
      rbind (map_err InvalidInput (tenant_validate env state (pl_maximum_deficit limits))) (\<lambda>_.
      if ts_work_class state \<noteq> sp_work_class part
         \<or> ts_partition_id state \<noteq> sp_partition_id part
         \<or> sp_current_round part < ts_earliest_eligible_round state
         \<or> some_and (vl_previous_tenant lp) (\<lambda>previous. ts_tenant_id state \<le> previous)
         \<or> none_or (sp_tenant_upper_bound part) (\<lambda>upper. upper < ts_tenant_id state)
         \<or> pl_maximum_candidates_per_tenant limits < length (lv_candidates visit)
      then Inl InvalidInput
      else
        rbind (admit_policy env part limits visit) (\<lambda>credited.
        rbind (fold_result (visit_candidate part limits requested_claims visit)
          \<lparr>tl_loop = lp\<lparr>vl_previous_tenant := Some (ts_tenant_id state)\<rparr>, tl_state = credited,
           tl_business_claims = 0, tl_control_claims = 0\<rparr>
          (lv_candidates visit)) (\<lambda>tv.
        let next = (tl_state tv)\<lparr>ts_job_sweep := lv_next_job_sweep visit\<rparr> in
        rbind (map_err InvalidInput (tenant_validate env next (pl_maximum_deficit limits))) (\<lambda>_.
        Inr ((tl_loop tv)\<lparr>vl_next_tenants := vl_next_tenants (tl_loop tv) @ [next]\<rparr>))))))"

definition select_admissible_partition_batch ::
  "('n, 'z) digest_env_scheme \<Rightarrow> SchedulerPartitionState \<Rightarrow> LockedTenantVisit list \<Rightarrow> quota \<Rightarrow>
   PartitionSchedulerLimits \<Rightarrow> nat \<Rightarrow> bool \<Rightarrow> PartitionScheduleError + PartitionAdmissionDecision" where
  "select_admissible_partition_batch env part visits available_quota limits requested_claims
     tenant_range_exhausted =
     rbind (map_err InvalidInput (partition_validate env part)) (\<lambda>_.
     if pl_maximum_deficit limits = 0
        \<or> pl_maximum_tenant_window limits = 0
        \<or> pl_maximum_candidates_per_tenant limits = 0
        \<or> pl_maximum_control_claims_per_tenant limits = 0
        \<or> pl_maximum_quota_lines_per_candidate limits = 0
        \<or> requested_claims = 0
        \<or> pl_maximum_claims limits < requested_claims
        \<or> pl_maximum_tenant_window limits < length visits
     then Inl InvalidInput
     else
       rbind (fold_result (visit_tenant env part limits requested_claims)
         \<lparr>vl_remaining = available_quota, vl_reservations = Map.empty, vl_admitted = [], vl_skipped = [],
          vl_next_tenants = [], vl_previous_tenant = sp_cursor_tenant_id part, vl_seen_jobs = {}\<rparr>
         visits) (\<lambda>lp.
       let advanced = part\<lparr>sp_cursor_tenant_id := vl_previous_tenant lp\<rparr> in
       rbind (if tenant_range_exhausted
         then rbind (bounded_successor (sp_current_round advanced)) (\<lambda>round.
           Inr (advanced\<lparr>sp_current_round := round, sp_cursor_tenant_id := None,
             sp_tenant_upper_bound := None\<rparr>))
         else Inr advanced) (\<lambda>next_partition.
       Inr \<lparr>pd_admitted_job_ids = vl_admitted lp, pd_skipped = vl_skipped lp,
            pd_next_partition = next_partition, pd_next_tenants = vl_next_tenants lp,
            pd_quota_reservations = vl_reservations lp\<rparr>)))"

end
