(* ===== verification/SchedulerSafety.thy ===== *)
theory SchedulerSafety
  imports Scheduling "HOL-Library.Multiset"
begin

text \<open>
  What an accepted partition visit guarantees: quota is conserved to the unit, every candidate is
  admitted or skipped exactly once, a tenant spends no more than its credited deficit and its
  burst, and the persistent state that comes out is valid again.
\<close>

section \<open>Quota accounting\<close>

definition amount :: "quota \<Rightarrow> ResourceId \<Rightarrow> nat" where
  "amount q a = (case q a of None \<Rightarrow> 0 | Some v \<Rightarrow> unat v)"

definition costs_charge :: "QuotaCost list \<Rightarrow> ResourceId \<Rightarrow> nat" where
  "costs_charge costs a =
     sum_list (map (\<lambda>q. if qc_account_id q = a then unat (qc_amount q) else 0) costs)"

text \<open>What the admitted candidates charge to an account.\<close>

definition admitted_charge :: "AdmissionCandidate list \<Rightarrow> ResourceId list \<Rightarrow> ResourceId \<Rightarrow> nat" where
  "admitted_charge cs ids a =
     sum_list (map (\<lambda>c. if ac_job_id c \<in> set ids then costs_charge (ac_quota_costs c) a else 0) cs)"

definition conserved :: "quota \<Rightarrow> quota \<Rightarrow> quota \<Rightarrow> bool" where
  "conserved available remaining reservations \<longleftrightarrow>
     dom remaining = dom available \<and> dom reservations \<subseteq> dom available
     \<and> (\<forall>a. amount remaining a + amount reservations a = amount available a)"

lemma amount_bound: "amount q a < 2 ^ 64"
  using unsigned_less [where 'a = nat and 'b = 64] by (auto simp: amount_def split: option.splits)

lemma amount_update: "amount (q(a \<mapsto> v)) b = (if b = a then unat v else amount q b)"
  by (simp add: amount_def)

lemma costs_charge_simps:
  "costs_charge [] a = 0"
  "costs_charge (c # costs) a = (if a = qc_account_id c then unat (qc_amount c) else 0) + costs_charge costs a"
  by (simp_all add: costs_charge_def)

lemma check_costs_Inr:
  "check_costs remaining accounts costs = Inr u \<Longrightarrow>
     distinct (map qc_account_id costs) \<and> accounts \<inter> qc_account_id ` set costs = {}
     \<and> (\<forall>c \<in> set costs. remaining (qc_account_id c) \<noteq> None)"
  by (induction costs arbitrary: accounts) (auto split: if_splits)

lemma reserve_one:
  assumes "conserved available remaining reservations"
    and "remaining (qc_account_id c) = Some v" and "qc_amount c \<le> v"
  shows "\<exists>r. reserve_cost (remaining, reservations) c =
      Inr (remaining(qc_account_id c \<mapsto> v - qc_amount c), reservations(qc_account_id c \<mapsto> r))
    \<and> unat r = amount reservations (qc_account_id c) + unat (qc_amount c)
    \<and> conserved available (remaining(qc_account_id c \<mapsto> v - qc_amount c))
        (reservations(qc_account_id c \<mapsto> r))"
proof -
  let ?a = "qc_account_id c"
  define old where "old = (case reservations ?a of None \<Rightarrow> 0 | Some r \<Rightarrow> r)"
  have o: "unat old = amount reservations ?a"
    by (simp add: old_def amount_def split: option.splits)
  have sum: "unat v + unat old = amount available ?a"
    using assms(1,2) o by (auto simp: conserved_def amount_def dest: spec [of _ ?a])
  have le: "unat (qc_amount c) \<le> unat v" using assms(3) by (simp add: word_le_nat_alt)
  have "unat old + unat (qc_amount c) < 2 ^ 64"
    using sum le amount_bound [of available ?a] by linarith
  then obtain r where r: "checked_add old (qc_amount c) = Some r"
    by (cases "checked_add old (qc_amount c)") (auto simp: checked_add_None)
  then have ur: "unat r = unat old + unat (qc_amount c)" by (rule checked_add_Some)
  have uv: "unat (v - qc_amount c) = unat v - unat (qc_amount c)"
    using assms(3) by (rule unat_sub)
  have "conserved available (remaining(?a \<mapsto> v - qc_amount c)) (reservations(?a \<mapsto> r))"
    using assms(1,2) ur uv sum le
    by (auto simp: conserved_def amount_def)
  with r ur o assms(2) show ?thesis
    by (intro exI [of _ r]) (simp add: reserve_cost_def old_def)
qed

lemma reserve_all:
  assumes "conserved available remaining reservations" and "distinct (map qc_account_id costs)"
    and "\<forall>c \<in> set costs. \<exists>v. remaining (qc_account_id c) = Some v \<and> qc_amount c \<le> v"
  shows "\<exists>rem res. fold_result reserve_cost (remaining, reservations) costs = Inr (rem, res)
    \<and> conserved available rem res
    \<and> (\<forall>a. amount res a = amount reservations a + costs_charge costs a)"
  using assms
proof (induction costs arbitrary: remaining reservations)
  case (Cons c costs)
  then obtain v where v: "remaining (qc_account_id c) = Some v" "qc_amount c \<le> v" by auto
  obtain r where r: "reserve_cost (remaining, reservations) c =
      Inr (remaining(qc_account_id c \<mapsto> v - qc_amount c), reservations(qc_account_id c \<mapsto> r))"
    and ur: "unat r = amount reservations (qc_account_id c) + unat (qc_amount c)"
    and cons: "conserved available (remaining(qc_account_id c \<mapsto> v - qc_amount c))
        (reservations(qc_account_id c \<mapsto> r))"
    using reserve_one [OF Cons.prems(1) v] by blast
  have "\<forall>d \<in> set costs. \<exists>w. (remaining(qc_account_id c \<mapsto> v - qc_amount c)) (qc_account_id d) = Some w
      \<and> qc_amount d \<le> w"
    using Cons.prems(2,3) by (auto simp: image_iff)
  note fits = this
  have "distinct (map qc_account_id costs)" using Cons.prems(2) by simp
  from Cons.IH [OF cons this fits] obtain rem res where
    "fold_result reserve_cost (remaining(qc_account_id c \<mapsto> v - qc_amount c),
      reservations(qc_account_id c \<mapsto> r)) costs = Inr (rem, res)"
    "conserved available rem res"
    "\<forall>a. amount res a = amount (reservations(qc_account_id c \<mapsto> r)) a + costs_charge costs a"
    by blast
  with r ur show ?case
    by (intro exI [of _ rem] exI [of _ res]) (auto simp: costs_charge_simps amount_update)
qed (simp add: costs_charge_simps)

section \<open>The candidate loop\<close>

text \<open>What holds after the candidates \<open>cs\<close> of all tenants so far.\<close>

definition loop_inv ::
  "quota \<Rightarrow> nat \<Rightarrow> AdmissionCandidate list \<Rightarrow> visit_loop \<Rightarrow> bool" where
  "loop_inv available requested cs lp \<longleftrightarrow>
     conserved available (vl_remaining lp) (vl_reservations lp)
     \<and> vl_seen_jobs lp = ac_job_id ` set cs \<and> distinct (map ac_job_id cs)
     \<and> mset (vl_admitted lp) + mset (map sk_job_id (vl_skipped lp)) = mset (map ac_job_id cs)
     \<and> length (vl_admitted lp) \<le> requested
     \<and> (\<forall>a. amount (vl_reservations lp) a = admitted_charge cs (vl_admitted lp) a)
     \<and> (\<forall>c \<in> set cs. ac_job_id c \<in> set (vl_admitted lp) \<longrightarrow> ac_currently_eligible c)"

lemma admitted_jobs: "loop_inv available requested cs lp \<Longrightarrow> set (vl_admitted lp) \<subseteq> ac_job_id ` set cs"
proof -
  assume "loop_inv available requested cs lp"
  then have "set_mset (mset (vl_admitted lp) + mset (map sk_job_id (vl_skipped lp))) = ac_job_id ` set cs"
    by (simp add: loop_inv_def)
  then show ?thesis by auto
qed

lemma admitted_charge_skip:
  "ac_job_id c \<notin> set ids \<Longrightarrow> admitted_charge (cs @ [c]) ids a = admitted_charge cs ids a"
  by (simp add: admitted_charge_def)

lemma admitted_charge_admit:
  assumes "ac_job_id c \<notin> ac_job_id ` set cs"
  shows "admitted_charge (cs @ [c]) (ids @ [ac_job_id c]) a =
    admitted_charge cs ids a + costs_charge (ac_quota_costs c) a"
proof -
  have eq: "map (\<lambda>x. if ac_job_id x \<in> set (ids @ [ac_job_id c]) then costs_charge (ac_quota_costs x) a else 0) cs
      = map (\<lambda>x. if ac_job_id x \<in> set ids then costs_charge (ac_quota_costs x) a else 0) cs"
    using assms by (auto intro!: map_cong simp: image_iff)
  show ?thesis unfolding admitted_charge_def map_append sum_list_append eq by simp
qed

lemma skip_None:
  assumes "skip_reason limits requested visit tv c = None"
  shows "ac_currently_eligible c" and "length (vl_admitted (tl_loop tv)) < requested"
    and "ac_lane c = Business \<Longrightarrow> \<exists>policy. lv_business_policy visit = Some policy
      \<and> tl_business_claims tv < unat (tb_burst policy)
      \<and> admitted_attempt_cost (ac_mode c) \<le> ts_deficit (tl_state tv)"
    and "ac_lane c = RestrictedControl \<Longrightarrow>
      tl_control_claims tv < pl_maximum_control_claims_per_tenant limits"
    and "\<forall>q \<in> set (ac_quota_costs c). \<exists>v. vl_remaining (tl_loop tv) (qc_account_id q) = Some v \<and> qc_amount q \<le> v"
  using assms
  by (auto simp: skip_reason_def list_ex_iff linorder_not_less linorder_not_le
      split: if_splits option.splits SchedulingLane.splits)

lemma visit_candidate_inv:
  assumes inv: "loop_inv available requested cs (tl_loop tv)"
    and step: "visit_candidate part limits requested visit tv c = Inr tv'"
  shows "loop_inv available requested (cs @ [c]) (tl_loop tv')"
proof -
  let ?lp = "tl_loop tv"
  from step have seen: "ac_job_id c \<notin> ac_job_id ` set cs"
    and costs: "check_costs (vl_remaining ?lp) {} (ac_quota_costs c) = Inr ()"
    using inv by (auto simp: visit_candidate_def loop_inv_def Let_def rbind_eq_Inr split: if_splits)
  have fresh: "ac_job_id c \<notin> set (vl_admitted ?lp)" using admitted_jobs [OF inv] seen by auto
  show ?thesis
  proof (cases "skip_reason limits requested visit tv c")
    case (Some reason)
    with step have "tl_loop tv' = ?lp\<lparr>vl_seen_jobs := insert (ac_job_id c) (vl_seen_jobs ?lp),
        vl_skipped := vl_skipped ?lp @ [\<lparr>sk_job_id = ac_job_id c, sk_reason = reason\<rparr>]\<rparr>"
      by (auto simp: visit_candidate_def Let_def rbind_eq_Inr split: if_splits)
    with inv seen fresh show ?thesis
      by (auto simp: loop_inv_def admitted_charge_skip)
  next
    case None
    note sk = skip_None [OF None]
    have cons: "conserved available (vl_remaining ?lp) (vl_reservations ?lp)"
      using inv by (simp add: loop_inv_def)
    obtain rem res where q: "fold_result reserve_cost (vl_remaining ?lp, vl_reservations ?lp) (ac_quota_costs c) = Inr (rem, res)"
      and cons': "conserved available rem res"
      and amt: "\<forall>a. amount res a = amount (vl_reservations ?lp) a + costs_charge (ac_quota_costs c) a"
      using reserve_all [OF cons conjunct1 [OF check_costs_Inr [OF costs]] sk(5)] by blast
    from None step q have tv': "tl_loop tv' = ?lp\<lparr>vl_seen_jobs := insert (ac_job_id c) (vl_seen_jobs ?lp),
        vl_remaining := rem, vl_reservations := res, vl_admitted := vl_admitted ?lp @ [ac_job_id c]\<rparr>"
      by (auto simp: visit_candidate_def Let_def rbind_eq_Inr split: if_splits)
    have "\<forall>d \<in> set cs. ac_job_id d \<noteq> ac_job_id c" using seen by (metis image_eqI)
    with tv' inv seen cons' amt sk(1,2) show ?thesis
      by (auto simp: loop_inv_def admitted_charge_admit)
  qed
qed

section \<open>The tenant loop\<close>

text \<open>Deficit the admitted business candidates of a tenant cost, and how many were admitted in a
  lane.\<close>

definition spent :: "AdmissionCandidate list \<Rightarrow> ResourceId list \<Rightarrow> nat" where
  "spent cs ids =
     sum_list (map (\<lambda>c. if ac_job_id c \<in> set ids \<and> ac_lane c = Business
       then unat (admitted_attempt_cost (ac_mode c)) else 0) cs)"

definition claims :: "SchedulingLane \<Rightarrow> AdmissionCandidate list \<Rightarrow> ResourceId list \<Rightarrow> nat" where
  "claims lane cs ids = length (filter (\<lambda>c. ac_job_id c \<in> set ids \<and> ac_lane c = lane) cs)"

definition burst :: "LockedTenantVisit \<Rightarrow> nat" where
  "burst visit = (case lv_business_policy visit of None \<Rightarrow> 0 | Some policy \<Rightarrow> unat (tb_burst policy))"

definition tenant_inv ::
  "PartitionSchedulerLimits \<Rightarrow> LockedTenantVisit \<Rightarrow> TenantSchedulerState \<Rightarrow> AdmissionCandidate list \<Rightarrow>
   tenant_loop \<Rightarrow> bool" where
  "tenant_inv limits visit credited cs tv \<longleftrightarrow>
     unat (ts_deficit (tl_state tv)) + spent cs (vl_admitted (tl_loop tv)) = unat (ts_deficit credited)
     \<and> tl_business_claims tv = claims Business cs (vl_admitted (tl_loop tv))
     \<and> tl_control_claims tv = claims RestrictedControl cs (vl_admitted (tl_loop tv))
     \<and> tl_business_claims tv \<le> burst visit
     \<and> tl_control_claims tv \<le> pl_maximum_control_claims_per_tenant limits
     \<and> unat (ts_successful_claims (tl_state tv)) =
         unat (ts_successful_claims credited) + tl_business_claims tv + tl_control_claims tv
     \<and> ts_tenant_id (tl_state tv) = ts_tenant_id credited
     \<and> ts_credited_round (tl_state tv) = ts_credited_round credited"

lemma fresh_append:
  assumes "ac_job_id c \<notin> ac_job_id ` set cs"
  shows "spent cs (ids @ [ac_job_id c]) = spent cs ids" "claims lane cs (ids @ [ac_job_id c]) = claims lane cs ids"
proof -
  have "\<forall>d \<in> set cs. ac_job_id d \<noteq> ac_job_id c" using assms by (metis image_eqI)
  then show "spent cs (ids @ [ac_job_id c]) = spent cs ids"
    and "claims lane cs (ids @ [ac_job_id c]) = claims lane cs ids"
    unfolding spent_def claims_def
    by (auto intro!: arg_cong [where f = sum_list] arg_cong [where f = length] map_cong filter_cong)
qed

lemma bounded_successor_Inr:
  "bounded_successor n = Inr m \<Longrightarrow> unat m = Suc (unat n) \<and> m \<le> I64_MAX"
  by (auto simp: bounded_successor_def ok_or_eq_Inr split: option.splits if_splits
      dest: checked_add_one(4))

lemma lane_cases: "lane = Business \<or> lane = RestrictedControl"
  by (cases lane) simp_all

lemma visit_candidate_tenant:
  assumes inv: "loop_inv available requested (pre @ cs) (tl_loop tv)"
    and ten: "tenant_inv limits visit credited cs tv"
    and step: "visit_candidate part limits requested visit tv c = Inr tv'"
  shows "tenant_inv limits visit credited (cs @ [c]) tv'"
proof -
  let ?lp = "tl_loop tv"
  from step have seen: "ac_job_id c \<notin> ac_job_id ` set (pre @ cs)"
    using inv by (auto simp: visit_candidate_def loop_inv_def Let_def rbind_eq_Inr split: if_splits)
  have fresh: "ac_job_id c \<notin> set (vl_admitted ?lp)" using admitted_jobs [OF inv] seen by auto
  show ?thesis
  proof (cases "skip_reason limits requested visit tv c")
    case (Some reason)
    with step have "vl_admitted (tl_loop tv') = vl_admitted ?lp" "tl_state tv' = tl_state tv"
      "tl_business_claims tv' = tl_business_claims tv" "tl_control_claims tv' = tl_control_claims tv"
      by (auto simp: visit_candidate_def Let_def rbind_eq_Inr split: if_splits)
    with ten fresh show ?thesis by (simp add: tenant_inv_def spent_def claims_def)
  next
    case None
    note sk = skip_None [OF None]
    from None step obtain n where n: "bounded_successor (ts_successful_claims (tl_state tv)) = Inr n"
      and adm: "vl_admitted (tl_loop tv') = vl_admitted ?lp @ [ac_job_id c]"
      and st: "ts_successful_claims (tl_state tv') = n" "ts_tenant_id (tl_state tv') = ts_tenant_id (tl_state tv)"
        "ts_credited_round (tl_state tv') = ts_credited_round (tl_state tv)"
      and def_eq: "ts_deficit (tl_state tv') = (if ac_lane c = Business
          then ts_deficit (tl_state tv) - admitted_attempt_cost (ac_mode c) else ts_deficit (tl_state tv))"
      and b: "tl_business_claims tv' = (if ac_lane c = Business then tl_business_claims tv + 1 else tl_business_claims tv)"
      and k: "tl_control_claims tv' = (if ac_lane c = Business then tl_control_claims tv else tl_control_claims tv + 1)"
      by (auto simp: visit_candidate_def Let_def rbind_eq_Inr split: if_splits SchedulingLane.splits)
    have seen': "ac_job_id c \<notin> ac_job_id ` set cs" using seen by auto
    have sp: "spent (cs @ [c]) (vl_admitted (tl_loop tv')) = spent cs (vl_admitted ?lp)
        + (if ac_lane c = Business then unat (admitted_attempt_cost (ac_mode c)) else 0)"
      using fresh_append(1) [OF seen', of "vl_admitted ?lp"] by (simp add: adm spent_def)
    have cl: "claims lane (cs @ [c]) (vl_admitted (tl_loop tv')) = claims lane cs (vl_admitted ?lp)
        + (if ac_lane c = lane then 1 else 0)" for lane
      using fresh_append(2) [OF seen', of lane "vl_admitted ?lp"] by (simp add: adm claims_def)
    have su: "unat n = Suc (unat (ts_successful_claims (tl_state tv)))"
      using bounded_successor_Inr [OF n] by simp
    show ?thesis
    proof (cases "ac_lane c = Business")
      case True
      with sk(3) obtain policy where p: "lv_business_policy visit = Some policy"
        "tl_business_claims tv < unat (tb_burst policy)"
        "admitted_attempt_cost (ac_mode c) \<le> ts_deficit (tl_state tv)" by blast
      have "unat (ts_deficit (tl_state tv')) =
          unat (ts_deficit (tl_state tv)) - unat (admitted_attempt_cost (ac_mode c))"
        using def_eq True unat_sub [OF p(3)] by simp
      moreover have "unat (admitted_attempt_cost (ac_mode c)) \<le> unat (ts_deficit (tl_state tv))"
        using p(3) by (simp add: word_le_nat_alt)
      ultimately show ?thesis
        using ten True sp cl su st b k p(1,2) by (simp add: tenant_inv_def burst_def)
    next
      case False
      then have "ac_lane c = RestrictedControl" using lane_cases by blast
      with False ten sp cl su st b k sk(4) def_eq show ?thesis by (simp add: tenant_inv_def)
    qed
  qed
qed

lemma visit_candidate_frame:
  assumes "visit_candidate part limits requested visit tv c = Inr tv'"
  shows "vl_next_tenants (tl_loop tv') = vl_next_tenants (tl_loop tv)"
    and "vl_previous_tenant (tl_loop tv') = vl_previous_tenant (tl_loop tv)"
    and "\<exists>new. set new \<subseteq> {ac_job_id c} \<and> vl_admitted (tl_loop tv') = vl_admitted (tl_loop tv) @ new"
proof -
  show "vl_next_tenants (tl_loop tv') = vl_next_tenants (tl_loop tv)"
    and "vl_previous_tenant (tl_loop tv') = vl_previous_tenant (tl_loop tv)"
    using assms by (auto simp: visit_candidate_def Let_def rbind_eq_Inr split: if_splits option.splits)
  have "vl_admitted (tl_loop tv') = vl_admitted (tl_loop tv) @ []
      \<or> vl_admitted (tl_loop tv') = vl_admitted (tl_loop tv) @ [ac_job_id c]"
    using assms by (auto simp: visit_candidate_def Let_def rbind_eq_Inr split: if_splits option.splits)
  then show "\<exists>new. set new \<subseteq> {ac_job_id c} \<and> vl_admitted (tl_loop tv') = vl_admitted (tl_loop tv) @ new"
  proof
    assume "vl_admitted (tl_loop tv') = vl_admitted (tl_loop tv) @ []"
    then show ?thesis by (intro exI [of _ "[]"]) simp
  next
    assume "vl_admitted (tl_loop tv') = vl_admitted (tl_loop tv) @ [ac_job_id c]"
    then show ?thesis by (intro exI [of _ "[ac_job_id c]"]) simp
  qed
qed

section \<open>The visit loop\<close>

definition credited_state ::
  "SchedulerPartitionState \<Rightarrow> PartitionSchedulerLimits \<Rightarrow> LockedTenantVisit \<Rightarrow> TenantSchedulerState" where
  "credited_state part limits v =
     (case lv_business_policy v of None \<Rightarrow> lv_state v
      | Some policy \<Rightarrow> credit part limits policy (lv_candidates v) (lv_state v))"

text \<open>What a visit owes its tenant, given the jobs admitted.\<close>

definition tenant_result ::
  "SchedulerPartitionState \<Rightarrow> PartitionSchedulerLimits \<Rightarrow> ResourceId list \<Rightarrow> LockedTenantVisit \<Rightarrow>
   TenantSchedulerState \<Rightarrow> bool" where
  "tenant_result part limits admitted v n \<longleftrightarrow>
     unat (ts_deficit n) + spent (lv_candidates v) admitted =
       unat (ts_deficit (credited_state part limits v))
     \<and> claims Business (lv_candidates v) admitted \<le> burst v
     \<and> claims RestrictedControl (lv_candidates v) admitted \<le> pl_maximum_control_claims_per_tenant limits
     \<and> unat (ts_successful_claims n) = unat (ts_successful_claims (lv_state v))
         + claims Business (lv_candidates v) admitted + claims RestrictedControl (lv_candidates v) admitted
     \<and> ts_tenant_id n = ts_tenant_id (lv_state v)
     \<and> ts_credited_round n = ts_credited_round (credited_state part limits v)"

lemma credit_frame [simp]:
  "ts_successful_claims (credit part limits policy cs s) = ts_successful_claims s"
  "ts_tenant_id (credit part limits policy cs s) = ts_tenant_id s"
  by (simp_all add: credit_def)

lemma credited_state_frame [simp]:
  "ts_successful_claims (credited_state part limits v) = ts_successful_claims (lv_state v)"
  "ts_tenant_id (credited_state part limits v) = ts_tenant_id (lv_state v)"
  by (simp_all add: credited_state_def split: option.splits)

lemma admit_policy_Inr:
  "admit_policy env part limits v = Inr s \<Longrightarrow> s = credited_state part limits v"
  by (auto simp: admit_policy_def credited_state_def Let_def rbind_eq_Inr split: option.splits if_splits)

text \<open>Jobs admitted for other tenants do not change a tenant's result.\<close>

lemma tenant_result_append:
  assumes "tenant_result part limits adm v n"
    and "\<And>c. c \<in> set (lv_candidates v) \<Longrightarrow> ac_job_id c \<notin> set new"
  shows "tenant_result part limits (adm @ new) v n"
proof -
  have "spent (lv_candidates v) (adm @ new) = spent (lv_candidates v) adm"
    using assms(2) unfolding spent_def by (auto intro!: arg_cong [where f = sum_list] map_cong)
  moreover have "claims lane (lv_candidates v) (adm @ new) = claims lane (lv_candidates v) adm" for lane
    using assms(2) unfolding claims_def by (auto intro!: arg_cong [where f = length] filter_cong)
  ultimately show ?thesis using assms(1) by (simp add: tenant_result_def)
qed

lemma candidate_loop:
  assumes "fold_result (visit_candidate part limits requested v) tv0 cs = Inr tv"
    and "loop_inv available requested pre (tl_loop tv0)"
    and "tenant_inv limits v credited [] tv0"
  shows "loop_inv available requested (pre @ cs) (tl_loop tv)" and "tenant_inv limits v credited cs tv"
    and "vl_next_tenants (tl_loop tv) = vl_next_tenants (tl_loop tv0)"
    and "vl_previous_tenant (tl_loop tv) = vl_previous_tenant (tl_loop tv0)"
    and "\<exists>new. set new \<subseteq> ac_job_id ` set cs \<and> vl_admitted (tl_loop tv) = vl_admitted (tl_loop tv0) @ new"
proof -
  let ?P = "\<lambda>ys t. loop_inv available requested (pre @ ys) (tl_loop t) \<and> tenant_inv limits v credited ys t
    \<and> vl_next_tenants (tl_loop t) = vl_next_tenants (tl_loop tv0)
    \<and> vl_previous_tenant (tl_loop t) = vl_previous_tenant (tl_loop tv0)
    \<and> (\<exists>new. set new \<subseteq> ac_job_id ` set ys \<and> vl_admitted (tl_loop t) = vl_admitted (tl_loop tv0) @ new)"
  have "?P cs tv"
  proof (rule fold_result_invariant [where P = ?P, OF assms(1)])
    show "?P [] tv0" using assms(2,3) by simp
  next
    fix ys y t t'
    assume P: "?P ys t" and s: "visit_candidate part limits requested v t y = Inr t'"
    from P obtain new where new: "set new \<subseteq> ac_job_id ` set ys"
      "vl_admitted (tl_loop t) = vl_admitted (tl_loop tv0) @ new" by blast
    from visit_candidate_frame(3) [OF s] obtain more where
      "set more \<subseteq> {ac_job_id y}" "vl_admitted (tl_loop t') = vl_admitted (tl_loop t) @ more" by blast
    with new have "\<exists>new. set new \<subseteq> ac_job_id ` set (ys @ [y]) \<and> vl_admitted (tl_loop t') = vl_admitted (tl_loop tv0) @ new"
      by (intro exI [of _ "new @ more"]) auto
    with P s show "?P (ys @ [y]) t'"
      using visit_candidate_inv [of available requested "pre @ ys" t] visit_candidate_tenant
        visit_candidate_frame(1,2) by (auto simp del: append_assoc simp: append_assoc [symmetric])
  qed
  then show "loop_inv available requested (pre @ cs) (tl_loop tv)" and "tenant_inv limits v credited cs tv"
    and "vl_next_tenants (tl_loop tv) = vl_next_tenants (tl_loop tv0)"
    and "vl_previous_tenant (tl_loop tv) = vl_previous_tenant (tl_loop tv0)"
    and "\<exists>new. set new \<subseteq> ac_job_id ` set cs \<and> vl_admitted (tl_loop tv) = vl_admitted (tl_loop tv0) @ new"
    by blast+
qed

definition visits_inv ::
  "('n, 'z) digest_env_scheme \<Rightarrow> SchedulerPartitionState \<Rightarrow> PartitionSchedulerLimits \<Rightarrow> quota \<Rightarrow> nat \<Rightarrow>
   LockedTenantVisit list \<Rightarrow> visit_loop \<Rightarrow> bool" where
  "visits_inv env part limits available requested vs lp \<longleftrightarrow>
     loop_inv available requested (concat (map lv_candidates vs)) lp
     \<and> list_all2 (tenant_result part limits (vl_admitted lp)) vs (vl_next_tenants lp)
     \<and> (\<forall>n \<in> set (vl_next_tenants lp). tenant_validate env n (pl_maximum_deficit limits) = Inr ())
     \<and> sorted_wrt (<) (option_list (sp_cursor_tenant_id part) @ map ts_tenant_id (vl_next_tenants lp))
     \<and> vl_previous_tenant lp =
         (if vl_next_tenants lp = [] then sp_cursor_tenant_id part
          else Some (ts_tenant_id (last (vl_next_tenants lp))))
     \<and> (\<forall>v \<in> set vs. ts_partition_id (lv_state v) = sp_partition_id part
          \<and> tenant_validate env (lv_state v) (pl_maximum_deficit limits) = Inr ()
          \<and> (\<exists>upper. sp_tenant_upper_bound part = Some upper \<and> ts_tenant_id (lv_state v) \<le> upper))"

lemma sorted_wrt_snoc_last:
  fixes xs :: "'a::linorder list"
  assumes "sorted_wrt (<) xs" and "xs = [] \<or> last xs < x"
  shows "sorted_wrt (<) (xs @ [x])"
proof -
  have "\<forall>y \<in> set xs. y < x"
  proof
    fix y assume y: "y \<in> set xs"
    then have "xs \<noteq> []" by auto
    then have "xs = butlast xs @ [last xs]" by simp
    with assms(1) y have "y \<le> last xs"
      by (metis (no_types, lifting) Un_iff append_is_Nil_conv empty_iff empty_set less_imp_le
          order_refl set_ConsD set_append sorted_wrt_append list.set_intros(1))
    with assms(2) \<open>xs \<noteq> []\<close> show "y < x" by auto
  qed
  with assms(1) show ?thesis by (simp add: sorted_wrt_append)
qed

lemma visit_tenant_inv:
  assumes inv: "visits_inv env part limits available requested vs lp"
    and step: "visit_tenant env part limits requested lp v = Inr lp'"
  shows "visits_inv env part limits available requested (vs @ [v]) lp'"
proof -
  let ?pre = "concat (map lv_candidates vs)"
  let ?s = "lv_state v"
  let ?c = "credited_state part limits v"
  define tv0 where "tv0 = \<lparr>tl_loop = lp\<lparr>vl_previous_tenant := Some (ts_tenant_id ?s)\<rparr>, tl_state = ?c,
      tl_business_claims = 0, tl_control_claims = 0\<rparr>"
  from step obtain tv where
      vs: "tenant_validate env ?s (pl_maximum_deficit limits) = Inr ()"
    and guard: "ts_partition_id ?s = sp_partition_id part"
      "none_or (vl_previous_tenant lp) (\<lambda>p. p < ts_tenant_id ?s)"
      "\<exists>upper. sp_tenant_upper_bound part = Some upper \<and> ts_tenant_id ?s \<le> upper"
    and loop: "fold_result (visit_candidate part limits requested v) tv0 (lv_candidates v) = Inr tv"
    and vn: "tenant_validate env ((tl_state tv)\<lparr>ts_job_sweep := lv_next_job_sweep v\<rparr>) (pl_maximum_deficit limits) = Inr ()"
    and lp': "lp' = (tl_loop tv)\<lparr>vl_next_tenants := vl_next_tenants (tl_loop tv) @
        [(tl_state tv)\<lparr>ts_job_sweep := lv_next_job_sweep v\<rparr>]\<rparr>"
    unfolding visit_tenant_def Let_def tv0_def
    by (auto simp: rbind_eq_Inr map_err_eq_Inr some_and_iff none_or_iff linorder_not_le linorder_not_less
        dest!: admit_policy_Inr split: if_splits)
  have i0: "loop_inv available requested ?pre (tl_loop tv0)"
    using inv by (simp add: visits_inv_def tv0_def loop_inv_def)
  have t0: "tenant_inv limits v ?c [] tv0"
    by (simp add: tenant_inv_def tv0_def spent_def claims_def)
  note l = candidate_loop [OF loop i0 t0]
  obtain new where new: "set new \<subseteq> ac_job_id ` set (lv_candidates v)"
    and adm: "vl_admitted (tl_loop tv) = vl_admitted lp @ new"
    using l(5) by (auto simp: tv0_def)
  have dis: "distinct (map ac_job_id (?pre @ lv_candidates v))"
    using l(1) by (simp add: loop_inv_def)
  let ?n = "(tl_state tv)\<lparr>ts_job_sweep := lv_next_job_sweep v\<rparr>"
  have nt: "vl_next_tenants lp' = vl_next_tenants lp @ [?n]"
    using lp' l(3) by (simp add: tv0_def)
  have id: "ts_tenant_id ?n = ts_tenant_id ?s" using l(2) by (simp add: tenant_inv_def)
  have res: "tenant_result part limits (vl_admitted lp') v ?n"
    using l(2) lp' by (simp add: tenant_inv_def tenant_result_def)
  have old: "list_all2 (tenant_result part limits (vl_admitted lp')) vs (vl_next_tenants lp)"
  proof (rule list.rel_mono_strong)
    show "list_all2 (tenant_result part limits (vl_admitted lp)) vs (vl_next_tenants lp)"
      using inv by (simp add: visits_inv_def)
  next
    fix w n assume "w \<in> set vs" "n \<in> set (vl_next_tenants lp)" and r: "tenant_result part limits (vl_admitted lp) w n"
    with dis new have "\<And>c. c \<in> set (lv_candidates w) \<Longrightarrow> ac_job_id c \<notin> set new"
      by (auto simp: image_iff)
    with r show "tenant_result part limits (vl_admitted lp') w n"
      using lp' adm by (simp add: tenant_result_append)
  qed
  show ?thesis
    unfolding visits_inv_def
  proof (intro conjI)
    show "loop_inv available requested (concat (map lv_candidates (vs @ [v]))) lp'"
      using l(1) lp' by (simp add: loop_inv_def)
    show "list_all2 (tenant_result part limits (vl_admitted lp')) (vs @ [v]) (vl_next_tenants lp')"
      using old res by (simp add: nt list_all2_appendI)
    show "\<forall>n \<in> set (vl_next_tenants lp'). tenant_validate env n (pl_maximum_deficit limits) = Inr ()"
      using inv vn by (auto simp: nt visits_inv_def)
    show "vl_previous_tenant lp' = (if vl_next_tenants lp' = [] then sp_cursor_tenant_id part
        else Some (ts_tenant_id (last (vl_next_tenants lp'))))"
      using lp' l(4) id nt by (simp add: tv0_def)
    show "\<forall>w \<in> set (vs @ [v]). ts_partition_id (lv_state w) = sp_partition_id part
        \<and> tenant_validate env (lv_state w) (pl_maximum_deficit limits) = Inr ()
        \<and> (\<exists>upper. sp_tenant_upper_bound part = Some upper \<and> ts_tenant_id (lv_state w) \<le> upper)"
      using inv vs guard by (auto simp: visits_inv_def)
    let ?xs = "option_list (sp_cursor_tenant_id part) @ map ts_tenant_id (vl_next_tenants lp)"
    have "?xs = [] \<or> last ?xs < ts_tenant_id ?s"
      using inv guard(2)
      by (auto simp: visits_inv_def option_list_def last_map none_or_iff split: option.splits if_splits)
    with inv have "sorted_wrt (<) (?xs @ [ts_tenant_id ?s])"
      by (intro sorted_wrt_snoc_last) (auto simp: visits_inv_def)
    then show "sorted_wrt (<) (option_list (sp_cursor_tenant_id part) @ map ts_tenant_id (vl_next_tenants lp'))"
      using id by (simp add: nt)
  qed
qed

lemma select_inv:
  assumes "select_admissible_partition_batch env part visits available limits requested exhausted = Inr d"
  obtains lp where "visits_inv env part limits available requested visits lp"
    and "partition_validate env part = Inr ()"
    and "pd_admitted_job_ids d = vl_admitted lp" and "pd_skipped d = vl_skipped lp"
    and "pd_next_tenants d = vl_next_tenants lp" and "pd_quota_reservations d = vl_reservations lp"
    and "if exhausted
      then \<exists>round. bounded_successor (sp_current_round part) = Inr round
        \<and> pd_next_partition d = part\<lparr>sp_current_round := round, sp_cursor_tenant_id := None, sp_tenant_upper_bound := None\<rparr>
      else pd_next_partition d = part\<lparr>sp_cursor_tenant_id := vl_previous_tenant lp\<rparr>"
proof -
  define lp0 where "lp0 = \<lparr>vl_remaining = available, vl_reservations = Map.empty, vl_admitted = [], vl_skipped = [],
      vl_next_tenants = [], vl_previous_tenant = sp_cursor_tenant_id part, vl_seen_jobs = {}\<rparr>"
  from assms obtain lp where pv: "partition_validate env part = Inr ()"
    and loop: "fold_result (visit_tenant env part limits requested) lp0 visits = Inr lp"
    and d: "pd_admitted_job_ids d = vl_admitted lp" "pd_skipped d = vl_skipped lp"
      "pd_next_tenants d = vl_next_tenants lp" "pd_quota_reservations d = vl_reservations lp"
    and nx: "if exhausted
      then \<exists>round. bounded_successor (sp_current_round part) = Inr round
        \<and> pd_next_partition d = part\<lparr>sp_current_round := round, sp_cursor_tenant_id := None, sp_tenant_upper_bound := None\<rparr>
      else pd_next_partition d = part\<lparr>sp_cursor_tenant_id := vl_previous_tenant lp\<rparr>"
    unfolding select_admissible_partition_batch_def Let_def lp0_def
    by (auto simp: rbind_eq_Inr map_err_eq_Inr split: if_splits)
  have i0: "visits_inv env part limits available requested [] lp0"
    by (auto simp: visits_inv_def lp0_def loop_inv_def conserved_def amount_def admitted_charge_def
        option_list_def split: option.splits)
  have "visits_inv env part limits available requested visits lp"
    by (rule fold_result_invariant [where P = "visits_inv env part limits available requested", OF loop i0])
      (rule visit_tenant_inv)
  with pv d nx show thesis by (intro that)
qed

end
