(* ===== verification/SchedulerVisits.thy ===== *)
theory SchedulerVisits
  imports SchedulerSafety
begin

text \<open>
  One concrete partition visit, computed by the model, and the properties of every accepted visit of
  \<open>select_admissible_partition_batch\<close>.
\<close>

section \<open>A concrete visit\<close>

definition ex_env :: "u64 digest_env" where
  "ex_env = \<lparr>de_number = (\<lambda>w. w), de_jcs = (\<lambda>_. Some []), de_sha256 = (\<lambda>_. replicate 32 0)\<rparr>"

definition ex_account :: ResourceId where
  "ex_account = ResourceId ResourceKind.QuotaAccount 9"

definition ex_tenant :: ResourceId where
  "ex_tenant = ResourceId ResourceKind.Tenant 1"

definition ex_digest :: Sha256Digest where
  "ex_digest = ''sha256:'' @ replicate 64 (CHR ''0'')"

definition ex_policy_binding :: TenantSchedulingPolicyBinding where
  "ex_policy_binding =
     \<lparr>tb_tenant_id = ex_tenant, tb_policy_version_id = ResourceId ResourceKind.PolicyRevision 5,
      tb_policy_version_digest = ''d'', tb_rules_digest = ex_digest, tb_weight = 1, tb_burst = 4,
      tb_aging_rounds = 1\<rparr>"

definition ex_tenant_state :: TenantSchedulerState where
  "ex_tenant_state =
     \<lparr>ts_schema_version = 1, ts_tenant_id = ex_tenant, ts_work_class = WorkClass.Model,
      ts_partition_id = SchedulerPartitionId 0,
      ts_policy = Bound (ResourceId ResourceKind.PolicyRevision 5) ''d'' ex_digest,
      ts_deficit = 0, ts_earliest_eligible_round = 0, ts_credited_round = None,
      ts_last_served_round = None, ts_successful_claims = 0, ts_job_sweep = None\<rparr>"

definition ex_candidate :: "u128 \<Rightarrow> ClaimMode \<Rightarrow> AdmissionCandidate" where
  "ex_candidate n mode =
     \<lparr>ac_job_id = ResourceId ResourceKind.Job n, ac_mode = mode, ac_lane = Business,
      ac_currently_eligible = True, ac_quota_costs = [\<lparr>qc_account_id = ex_account, qc_amount = 2\<rparr>]\<rparr>"

definition ex_visit :: LockedTenantVisit where
  "ex_visit =
     \<lparr>lv_state = ex_tenant_state, lv_business_policy = Some ex_policy_binding,
      lv_candidates = [ex_candidate 1 NewAttempt, ex_candidate 2 NewAttempt, ex_candidate 3 Continuation],
      lv_next_job_sweep = None\<rparr>"

definition ex_partition :: SchedulerPartitionState where
  "ex_partition =
     \<lparr>sp_schema_version = 1, sp_work_class = WorkClass.Model, sp_partition_id = SchedulerPartitionId 0,
      sp_current_round = 6, sp_tenant_upper_bound = Some ex_tenant, sp_cursor_tenant_id = None\<rparr>"

definition ex_limits :: PartitionSchedulerLimits where
  "ex_limits =
     \<lparr>pl_maximum_deficit = 10, pl_maximum_tenant_window = 2, pl_maximum_candidates_per_tenant = 3,
      pl_maximum_claims = 3, pl_maximum_control_claims_per_tenant = 1,
      pl_maximum_quota_lines_per_candidate = 1\<rparr>"

definition ex_quota :: quota where
  "ex_quota = [ex_account \<mapsto> 5]"

text \<open>The first new attempt uses the credit of the round, the second finds none left, the
  continuation is free.\<close>

definition ex_next_state :: TenantSchedulerState where
  "ex_next_state = ex_tenant_state\<lparr>ts_credited_round := Some 6, ts_last_served_round := Some 6,
     ts_successful_claims := 2\<rparr>"

definition ex_decision :: PartitionAdmissionDecision where
  "ex_decision =
     \<lparr>pd_admitted_job_ids = [ResourceId ResourceKind.Job 1, ResourceId ResourceKind.Job 3],
      pd_skipped = [\<lparr>sk_job_id = ResourceId ResourceKind.Job 2, sk_reason = Deficit\<rparr>],
      pd_next_partition = ex_partition\<lparr>sp_cursor_tenant_id := Some ex_tenant\<rparr>,
      pd_next_tenants = [ex_next_state], pd_quota_reservations = [ex_account \<mapsto> 4]\<rparr>"

lemmas ex_sched_defs =
  ex_env_def ex_account_def ex_tenant_def ex_policy_binding_def ex_tenant_state_def ex_candidate_def
  ex_visit_def ex_partition_def ex_limits_def ex_quota_def ex_next_state_def

lemma ex_digest_parses: "parse_digest (''sha256:'' @ lowercase_hex (replicate 32 0)) = Some ex_digest"
  by (simp add: parse_digest_def lowercase_hex_def show_hex_byte_def HEX_def is_lower_hex_def
      is_ascii_digit_def byte_of_def ex_digest_def numeral_nat)

lemma ex_policy_ok: "tenant_policy_validate ex_env ex_policy_binding = Inr ()"
  using ex_digest_parses
  by (simp add: tenant_policy_validate_def ex_sched_defs canonical_digest_def canonical_json_def)

lemma ex_tenant_ok:
  "tenant_validate ex_env (ex_tenant_state\<lparr>ts_deficit := 0, ts_credited_round := c, ts_last_served_round := l,
     ts_successful_claims := k, ts_job_sweep := None\<rparr>) 10 = Inr ()"
  if "c = None \<or> c = Some 6" "l = None \<or> l = Some 6" "k \<le> 3"
  using that
  by (auto simp: tenant_validate_def ex_sched_defs policy_binding_validate_def SCHEDULER_STATE_VERSION_def
      for_tenant_def I64_MAX_def word_le_nat_alt word_less_nat_alt)

lemma ex_selects:
  "select_admissible_partition_batch ex_env ex_partition [ex_visit] ex_quota ex_limits 3 False = Inr ex_decision"
proof -
  have t: "tenant_validate ex_env ex_tenant_state 10 = Inr ()"
    using ex_tenant_ok [of None None 0] by (simp add: ex_tenant_state_def)
  have n: "tenant_validate ex_env ex_next_state 10 = Inr ()"
    using ex_tenant_ok [of "Some 6" "Some 6" 2] by (simp add: ex_tenant_state_def ex_next_state_def)
  have v: "visit_tenant ex_env ex_partition ex_limits 3
      \<lparr>vl_remaining = ex_quota, vl_reservations = Map.empty, vl_admitted = [], vl_skipped = [],
       vl_next_tenants = [], vl_previous_tenant = None, vl_seen_jobs = {}\<rparr> ex_visit =
    Inr \<lparr>vl_remaining = [ex_account \<mapsto> 1], vl_reservations = [ex_account \<mapsto> 4],
       vl_admitted = [ResourceId ResourceKind.Job 1, ResourceId ResourceKind.Job 3],
       vl_skipped = [\<lparr>sk_job_id = ResourceId ResourceKind.Job 2, sk_reason = Deficit\<rparr>],
       vl_next_tenants = [ex_next_state], vl_previous_tenant = Some ex_tenant,
       vl_seen_jobs = {ResourceId ResourceKind.Job 1, ResourceId ResourceKind.Job 2, ResourceId ResourceKind.Job 3}\<rparr>"
    using t n ex_policy_ok
    by (simp add: visit_tenant_def admit_policy_def credit_def visit_candidate_def skip_reason_def
        reserve_cost_def bounded_successor_def checked_add_def saturating_add_def ex_sched_defs
        I64_MAX_def word_le_nat_alt word_less_nat_alt Let_def insert_commute min_def fun_upd_def,
      intro conjI ext, simp_all)
  have p: "partition_validate ex_env ex_partition = Inr ()"
    by (simp add: partition_validate_def ex_sched_defs SCHEDULER_STATE_VERSION_def for_tenant_def
        I64_MAX_def option_list_def)
  show ?thesis
    using p v
    by (simp add: select_admissible_partition_batch_def ex_decision_def ex_partition_def ex_limits_def)
qed

section \<open>Properties of an accepted visit\<close>

lemma visited_tenants_in_partition:
  assumes "visits_inv env part limits available requested visits lp" and "n \<in> set (vl_next_tenants lp)"
  shows "for_tenant env (ts_tenant_id n) = Inr (sp_partition_id part)"
    and "\<exists>upper. sp_tenant_upper_bound part = Some upper \<and> ts_tenant_id n \<le> upper"
proof -
  from assms have "list_all2 (tenant_result part limits (vl_admitted lp)) visits (vl_next_tenants lp)"
    by (simp add: visits_inv_def)
  then obtain v where v: "v \<in> set visits" "tenant_result part limits (vl_admitted lp) v n"
    using assms(2) by (metis in_set_conv_nth list_all2_conv_all_nth)
  then have "ts_tenant_id n = ts_tenant_id (lv_state v)" by (simp add: tenant_result_def)
  moreover have "for_tenant env (ts_tenant_id (lv_state v)) = Inr (ts_partition_id (lv_state v))"
    using assms(1) v(1)
    by (auto simp: visits_inv_def tenant_validate_def rbind_eq_Inr fail_if_eq_Inr dest!: bspec split: if_splits)
  ultimately show "for_tenant env (ts_tenant_id n) = Inr (sp_partition_id part)"
    and "\<exists>upper. sp_tenant_upper_bound part = Some upper \<and> ts_tenant_id n \<le> upper"
    using assms(1) v(1) by (auto simp: visits_inv_def)
qed

text \<open>C3: quota is conserved.  An accepted partition visit reserves of every account exactly what the
  admitted jobs charge to it, and never more than was available.\<close>

theorem admission_never_overcommits_quota:
  assumes "select_admissible_partition_batch env part visits available limits requested exhausted = Inr d"
  shows "amount (pd_quota_reservations d) a =
      admitted_charge (concat (map lv_candidates visits)) (pd_admitted_job_ids d) a
    \<and> amount (pd_quota_reservations d) a \<le> amount available a"
proof -
  obtain lp where i: "visits_inv env part limits available requested visits lp"
    and d: "pd_admitted_job_ids d = vl_admitted lp" "pd_quota_reservations d = vl_reservations lp"
    using select_inv [OF assms] by metis
  then have l: "loop_inv available requested (concat (map lv_candidates visits)) lp"
    by (simp add: visits_inv_def)
  then have "conserved available (vl_remaining lp) (vl_reservations lp)"
    unfolding loop_inv_def by blast
  then have "amount (vl_remaining lp) a + amount (vl_reservations lp) a = amount available a"
    by (simp add: conserved_def)
  with l d show ?thesis by (simp add: loop_inv_def)
qed

theorem admission_never_overcommits_quota_witness:
  "amount (pd_quota_reservations ex_decision) ex_account \<le> 5"
  using admission_never_overcommits_quota [OF ex_selects, of ex_account]
  by (simp add: amount_def ex_quota_def)

text \<open>every candidate is decided once.  The admitted and the skipped jobs are together exactly the
  candidates, none twice; at most the requested number is admitted; only candidates the repository
  found eligible are admitted.\<close>

theorem every_candidate_is_admitted_or_skipped_once:
  assumes "select_admissible_partition_batch env part visits available limits requested exhausted = Inr d"
  shows "mset (pd_admitted_job_ids d) + mset (map sk_job_id (pd_skipped d)) =
      mset (map ac_job_id (concat (map lv_candidates visits)))
    \<and> distinct (pd_admitted_job_ids d @ map sk_job_id (pd_skipped d))
    \<and> length (pd_admitted_job_ids d) \<le> requested
    \<and> (\<forall>c \<in> set (concat (map lv_candidates visits)).
        ac_job_id c \<in> set (pd_admitted_job_ids d) \<longrightarrow> ac_currently_eligible c)"
proof -
  obtain lp where i: "visits_inv env part limits available requested visits lp"
    and d: "pd_admitted_job_ids d = vl_admitted lp" "pd_skipped d = vl_skipped lp"
    using select_inv [OF assms] by metis
  then have l: "loop_inv available requested (concat (map lv_candidates visits)) lp"
    by (simp add: visits_inv_def)
  then have "mset (vl_admitted lp @ map sk_job_id (vl_skipped lp)) =
      mset (map ac_job_id (concat (map lv_candidates visits)))"
    by (simp add: loop_inv_def)
  moreover have "distinct (map ac_job_id (concat (map lv_candidates visits)))"
    using l by (simp add: loop_inv_def)
  ultimately have "distinct (vl_admitted lp @ map sk_job_id (vl_skipped lp))"
    using mset_eq_imp_distinct_iff by blast
  with l d show ?thesis by (simp add: loop_inv_def)
qed

theorem every_candidate_is_admitted_or_skipped_once_witness:
  "distinct (pd_admitted_job_ids ex_decision @ map sk_job_id (pd_skipped ex_decision))
   \<and> length (pd_admitted_job_ids ex_decision) \<le> 3"
  using every_candidate_is_admitted_or_skipped_once [OF ex_selects] by blast

text \<open>fairness accounting.  For each visited tenant, the deficit that remains plus one for every new
  business attempt admitted is the credited deficit (continuations and control work are free), the
  business claims are within the burst of its policy (none without a policy), the control claims
  within their cap, and every admitted job is counted as a claim once.\<close>

theorem tenants_pay_for_what_they_are_admitted:
  assumes "select_admissible_partition_batch env part visits available limits requested exhausted = Inr d"
  shows "list_all2 (\<lambda>v n.
      unat (ts_deficit n) + spent (lv_candidates v) (pd_admitted_job_ids d) =
        unat (ts_deficit (credited_state part limits v))
      \<and> claims Business (lv_candidates v) (pd_admitted_job_ids d) \<le> burst v
      \<and> claims RestrictedControl (lv_candidates v) (pd_admitted_job_ids d)
          \<le> pl_maximum_control_claims_per_tenant limits
      \<and> unat (ts_successful_claims n) = unat (ts_successful_claims (lv_state v))
          + claims Business (lv_candidates v) (pd_admitted_job_ids d)
          + claims RestrictedControl (lv_candidates v) (pd_admitted_job_ids d))
    visits (pd_next_tenants d)"
proof -
  obtain lp where i: "visits_inv env part limits available requested visits lp"
    and d: "pd_admitted_job_ids d = vl_admitted lp" "pd_next_tenants d = vl_next_tenants lp"
    using select_inv [OF assms] by metis
  then have "list_all2 (tenant_result part limits (pd_admitted_job_ids d)) visits (pd_next_tenants d)"
    by (simp add: visits_inv_def)
  then show ?thesis by (rule list_all2_mono) (simp add: tenant_result_def)
qed

theorem tenants_pay_for_what_they_are_admitted_witness:
  "claims Business (lv_candidates ex_visit) (pd_admitted_job_ids ex_decision) \<le> 4"
  using tenants_pay_for_what_they_are_admitted [OF ex_selects]
  by (simp add: ex_decision_def ex_visit_def ex_policy_binding_def burst_def)

text \<open>one credit per round.  A tenant visited again in the round it was already visited in gets no
  second credit, and the credited deficit never exceeds the hard maximum.\<close>

theorem a_round_credits_a_tenant_once:
  assumes "select_admissible_partition_batch env part visits available limits requested exhausted = Inr d"
    and "i < length visits"
    and "ts_credited_round (credited_state part limits (visits ! i)) = Some (sp_current_round part)"
    and "lv_state v' = pd_next_tenants d ! i"
  shows "credited_state part limits v' = pd_next_tenants d ! i
    \<and> ts_deficit (credited_state part limits v') \<le> pl_maximum_deficit limits"
proof -
  obtain lp where i: "visits_inv env part limits available requested visits lp"
    and d: "pd_admitted_job_ids d = vl_admitted lp" "pd_next_tenants d = vl_next_tenants lp"
    using select_inv [OF assms(1)] by metis
  then have a: "list_all2 (tenant_result part limits (vl_admitted lp)) visits (vl_next_tenants lp)"
    by (simp add: visits_inv_def)
  then have r: "tenant_result part limits (vl_admitted lp) (visits ! i) (vl_next_tenants lp ! i)"
    using assms(2) by (auto simp: list_all2_conv_all_nth)
  have "vl_next_tenants lp ! i \<in> set (vl_next_tenants lp)"
    using a assms(2) by (auto simp: list_all2_conv_all_nth)
  then have "tenant_validate env (vl_next_tenants lp ! i) (pl_maximum_deficit limits) = Inr ()"
    using i by (simp add: visits_inv_def)
  then have "ts_deficit (vl_next_tenants lp ! i) \<le> pl_maximum_deficit limits"
    by (auto simp: tenant_validate_def rbind_eq_Inr fail_if_eq_Inr split: if_splits)
  with r d assms(3,4) show ?thesis
    by (auto simp: tenant_result_def credited_state_def credit_def split: option.splits)
qed

theorem a_round_credits_a_tenant_once_witness:
  "credited_state ex_partition ex_limits (ex_visit\<lparr>lv_state := ex_next_state\<rparr>) = ex_next_state"
  using a_round_credits_a_tenant_once [OF ex_selects, of 0 "ex_visit\<lparr>lv_state := ex_next_state\<rparr>"]
  by (simp add: ex_decision_def credited_state_def credit_def ex_visit_def ex_tenant_state_def
      ex_partition_def ex_candidate_def)

text \<open>the state that comes out is valid and the visit makes progress.  The next partition and every
  next tenant pass their validation, the tenants are visited in strictly increasing order beyond the
  cursor, the cursor is the last of them, and an exhausted range opens the next round.\<close>

theorem accepted_visit_leaves_valid_state:
  assumes "select_admissible_partition_batch env part visits available limits requested exhausted = Inr d"
  shows "partition_validate env (pd_next_partition d) = Inr ()
    \<and> list_all (\<lambda>n. tenant_validate env n (pl_maximum_deficit limits) = Inr ()) (pd_next_tenants d)
    \<and> sorted_wrt (<) (option_list (sp_cursor_tenant_id part) @ map ts_tenant_id (pd_next_tenants d))
    \<and> (if exhausted
        then unat (sp_current_round (pd_next_partition d)) = unat (sp_current_round part) + 1
          \<and> sp_cursor_tenant_id (pd_next_partition d) = None
        else sp_current_round (pd_next_partition d) = sp_current_round part
          \<and> sp_cursor_tenant_id (pd_next_partition d) =
              (if visits = [] then sp_cursor_tenant_id part
               else Some (ts_tenant_id (last (pd_next_tenants d)))))"
proof -
  obtain lp where i: "visits_inv env part limits available requested visits lp"
    and pv: "partition_validate env part = Inr ()"
    and d: "pd_next_tenants d = vl_next_tenants lp"
    and nx: "if exhausted
      then \<exists>round. bounded_successor (sp_current_round part) = Inr round
        \<and> pd_next_partition d = part\<lparr>sp_current_round := round, sp_cursor_tenant_id := None, sp_tenant_upper_bound := None\<rparr>
      else pd_next_partition d = part\<lparr>sp_cursor_tenant_id := vl_previous_tenant lp\<rparr>"
    using select_inv [OF assms] by metis
  have len: "length (vl_next_tenants lp) = length visits"
    using i by (auto simp: visits_inv_def dest: list_all2_lengthD)
  have "partition_validate env (pd_next_partition d) = Inr ()"
  proof (cases exhausted)
    case True
    with nx pv show ?thesis
      by (auto simp: partition_validate_def rbind_eq_Inr fail_if_eq_Inr option_list_def
          dest!: bounded_successor_Inr)
  next
    case False
    show ?thesis
    proof (cases "vl_next_tenants lp = []")
      case True
      with False nx i have "pd_next_partition d = part" by (simp add: visits_inv_def)
      with pv show ?thesis by simp
    next
      case nonempty: False
      then have l: "last (vl_next_tenants lp) \<in> set (vl_next_tenants lp)" by simp
      note t = visited_tenants_in_partition [OF i l]
      have "rid_kind (ts_tenant_id (last (vl_next_tenants lp))) = ResourceKind.Tenant"
        using t(1) by (auto simp: for_tenant_def split: if_splits)
      moreover have "vl_previous_tenant lp = Some (ts_tenant_id (last (vl_next_tenants lp)))"
        using i nonempty by (simp add: visits_inv_def)
      ultimately show ?thesis
        using False nx pv t
        by (auto simp: partition_validate_def rbind_eq_Inr fail_if_eq_Inr check_all_eq_Inr option_list_def
            some_and_iff none_or_iff)
    qed
  qed
  moreover have "vl_next_tenants lp = [] \<longleftrightarrow> visits = []" using len by auto
  ultimately show ?thesis
    using i d nx by (auto simp: visits_inv_def list_all_iff dest!: bounded_successor_Inr)
qed

theorem accepted_visit_leaves_valid_state_witness:
  "partition_validate ex_env (pd_next_partition ex_decision) = Inr ()"
  using accepted_visit_leaves_valid_state [OF ex_selects] by blast

end
