(* ===== verification/Decimal.thy ===== *)
theory Decimal
  imports Complex_Main Digests
begin

text \<open>
  The exact decimal arithmetic of \<open>platform-plan/src/expression.rs\<close>: a coefficient of 128 bits and a
  decimal scale of at most 28, parsed from and printed to the text of a JSON number.  Every
  operation is exact or an \<open>ArithmeticOverflow\<close>.
\<close>

section \<open>Bounded integers and number texts\<close>

datatype ExpressionError =
    InvalidPort
  | InvalidFieldName
  | UnsupportedVersion
  | LimitExceeded
  | StackUnderflow
  | InvalidResultArity
  | UndeclaredInput
  | InvalidLiteral
  | InvalidObjectFields
  | DigestMismatch
  | Canonicalization
  | MissingInput
  | UnexpectedInput
  | InvalidInput
  | SchemaMismatch
  | TypeMismatch
  | ArithmeticOverflow
  | InvalidIndex
  | MissingField
  | InvalidResult
  | InvalidLimitProfile

text \<open>The result of a checked \<open>i128\<close> (\<open>i32\<close>) operation, computed without bounds.\<close>

definition i128_checked :: "int \<Rightarrow> int option" where
  "i128_checked i = (if - (2 ^ 127) \<le> i \<and> i < 2 ^ 127 then Some i else None)"

definition i32_checked :: "int \<Rightarrow> int option" where
  "i32_checked i = (if - (2 ^ 31) \<le> i \<and> i < 2 ^ 31 then Some i else None)"

definition digit_value :: "char \<Rightarrow> nat" where
  "digit_value c = byte_of c - 48"

definition digits_value :: "string \<Rightarrow> nat" where
  "digits_value s = foldl (\<lambda>n c. n * 10 + digit_value c) 0 s"

text \<open>\<open>str::parse\<close> for a signed type: an optional sign and at least one digit.\<close>

definition parse_signed :: "(int \<Rightarrow> int option) \<Rightarrow> string \<Rightarrow> int option" where
  "parse_signed checked s =
     (let (negative, digits) =
        (case s of
           [] \<Rightarrow> (False, [])
         | c # rest \<Rightarrow>
             if c = CHR ''-'' then (True, rest) else if c = CHR ''+'' then (False, rest) else (False, s))
      in if digits = [] \<or> \<not> list_all is_ascii_digit digits then None
         else checked (if negative then - int (digits_value digits) else int (digits_value digits)))"

text \<open>\<open>u128::to_string\<close>\<close>

definition digit_char :: "nat \<Rightarrow> char" where
  "digit_char d = char_of (d + 48)"

fun show_nat :: "nat \<Rightarrow> string" where
  "show_nat n = (if n < 10 then [digit_char n] else show_nat (n div 10) @ [digit_char (n mod 10)])"

declare show_nat.simps [simp del]

text \<open>\<open>split_once\<close> with a set of separators\<close>

fun split_once_any :: "char list \<Rightarrow> string \<Rightarrow> (string \<times> string) option" where
  "split_once_any cs [] = None"
| "split_once_any cs (x # xs) =
     (if x \<in> set cs then Some ([], xs)
      else case split_once_any cs xs of None \<Rightarrow> None | Some (a, b) \<Rightarrow> Some (x # a, b))"

section \<open>Exact decimals\<close>

record ExactDecimal =
  ed_coefficient :: int
  ed_scale :: nat

definition MAX_SCALE :: nat where
  "MAX_SCALE = 28"

definition checked_power_of_ten :: "nat \<Rightarrow> ExpressionError + int" where
  "checked_power_of_ten p =
     (if MAX_SCALE < p then Inl ArithmeticOverflow
      else ok_or ArithmeticOverflow (i128_checked (10 ^ p)))"

primrec strip_zeros :: "nat \<Rightarrow> int \<Rightarrow> ExactDecimal" where
  "strip_zeros 0 c = \<lparr>ed_coefficient = c, ed_scale = 0\<rparr>"
| "strip_zeros (Suc s) c =
     (if c mod 10 = 0 then strip_zeros s (c div 10) else \<lparr>ed_coefficient = c, ed_scale = Suc s\<rparr>)"

text \<open>\<open>while scale > 0 && coefficient % 10 == 0\<close>\<close>

definition normalized :: "ExactDecimal \<Rightarrow> ExactDecimal" where
  "normalized d = strip_zeros (ed_scale d) (ed_coefficient d)"

definition parse_decimal :: "string \<Rightarrow> ExpressionError + ExactDecimal" where
  "parse_decimal source =
     rbind (case split_once_any [CHR ''e'', CHR ''E''] source of
         Some (mantissa, exponent) \<Rightarrow>
           rbind (ok_or ArithmeticOverflow (parse_signed i32_checked exponent)) (\<lambda>e. Inr (mantissa, e))
       | None \<Rightarrow> Inr (source, 0)) (\<lambda>(mantissa, exponent).
     let negative = (case mantissa of [] \<Rightarrow> False | c # _ \<Rightarrow> c = CHR ''-'');
         unsigned = (if negative then drop 1 mantissa else mantissa);
         (whole, fraction) = (case split_once (CHR ''.'') unsigned of None \<Rightarrow> (unsigned, []) | Some p \<Rightarrow> p);
         digits = whole @ fraction
     in if digits = [] \<or> \<not> list_all is_ascii_digit digits then Inl TypeMismatch
        else
          rbind (ok_or ArithmeticOverflow (i128_checked (int (digits_value digits)))) (\<lambda>magnitude.
          let coefficient = (if negative then - magnitude else magnitude) in
          rbind (ok_or ArithmeticOverflow (i32_checked (int (length fraction)))) (\<lambda>l.
          rbind (ok_or ArithmeticOverflow (i32_checked (l - exponent))) (\<lambda>scale.
          if scale < 0 then
            rbind (checked_power_of_ten (nat (- scale))) (\<lambda>factor.
            rbind (ok_or ArithmeticOverflow (i128_checked (coefficient * factor))) (\<lambda>c.
            Inr \<lparr>ed_coefficient = c, ed_scale = 0\<rparr>))
          else if MAX_SCALE < nat scale then Inl ArithmeticOverflow
          else Inr (normalized \<lparr>ed_coefficient = coefficient, ed_scale = nat scale\<rparr>)))))"

definition aligned :: "ExactDecimal \<Rightarrow> ExactDecimal \<Rightarrow> ExpressionError + (int \<times> int \<times> nat)" where
  "aligned a b =
     (let scale = max (ed_scale a) (ed_scale b) in
      rbind (checked_power_of_ten (scale - ed_scale a)) (\<lambda>f.
      rbind (ok_or ArithmeticOverflow (i128_checked (ed_coefficient a * f))) (\<lambda>left.
      rbind (checked_power_of_ten (scale - ed_scale b)) (\<lambda>g.
      rbind (ok_or ArithmeticOverflow (i128_checked (ed_coefficient b * g))) (\<lambda>right.
      Inr (left, right, scale))))))"

definition decimal_add :: "ExactDecimal \<Rightarrow> ExactDecimal \<Rightarrow> ExpressionError + ExactDecimal" where
  "decimal_add a b =
     rbind (aligned a b) (\<lambda>(left, right, scale).
     rbind (ok_or ArithmeticOverflow (i128_checked (left + right))) (\<lambda>c.
     Inr (normalized \<lparr>ed_coefficient = c, ed_scale = scale\<rparr>)))"

definition decimal_sub :: "ExactDecimal \<Rightarrow> ExactDecimal \<Rightarrow> ExpressionError + ExactDecimal" where
  "decimal_sub a b =
     rbind (aligned a b) (\<lambda>(left, right, scale).
     rbind (ok_or ArithmeticOverflow (i128_checked (left - right))) (\<lambda>c.
     Inr (normalized \<lparr>ed_coefficient = c, ed_scale = scale\<rparr>)))"

datatype Ordering = Less | Equal | Greater

definition int_cmp :: "int \<Rightarrow> int \<Rightarrow> Ordering" where
  "int_cmp a b = (if a < b then Less else if a = b then Equal else Greater)"

definition decimal_compare :: "ExactDecimal \<Rightarrow> ExactDecimal \<Rightarrow> ExpressionError + Ordering" where
  "decimal_compare a b = rbind (aligned a b) (\<lambda>(left, right, _). Inr (int_cmp left right))"

text \<open>The text \<open>into_number\<close> builds before it hands it to \<open>Number::from_str\<close>.\<close>

definition decimal_text :: "ExactDecimal \<Rightarrow> string" where
  "decimal_text d =
     (let negative = ed_coefficient d < 0;
          digits = show_nat (nat \<bar>ed_coefficient d\<bar>);
          sign = (if negative then ''-'' else [])
      in if ed_scale d = 0 then sign @ digits
         else
           let scale = ed_scale d;
               padded = (if length digits \<le> scale
                 then replicate (scale + 1 - length digits) (CHR ''0'') @ digits else digits);
               split = length padded - scale
           in sign @ take split padded @ ''.'' @ drop split padded)"

section \<open>The value of a decimal\<close>

definition decimal_value :: "ExactDecimal \<Rightarrow> rat" where
  "decimal_value d = of_int (ed_coefficient d) / 10 ^ ed_scale d"

definition decimal_ok :: "ExactDecimal \<Rightarrow> bool" where
  "decimal_ok d \<longleftrightarrow>
     i128_checked (ed_coefficient d) = Some (ed_coefficient d) \<and> ed_scale d \<le> MAX_SCALE
     \<and> (ed_scale d = 0 \<or> ed_coefficient d mod 10 \<noteq> 0)"

lemma i128_checked_Some: "i128_checked i = Some j \<longleftrightarrow> j = i \<and> - (2 ^ 127) \<le> i \<and> i < 2 ^ 127"
  by (auto simp: i128_checked_def)

lemma checked_power_Inr: "checked_power_of_ten n = Inr f \<longleftrightarrow> n \<le> MAX_SCALE \<and> f = 10 ^ n"
proof -
  have "(10 :: int) ^ n \<le> 10 ^ 28" if "n \<le> 28" using that by (intro power_increasing) simp_all
  then have "n \<le> 28 \<Longrightarrow> (10 :: int) ^ n < 2 ^ 127" by fastforce
  moreover have "- (2 ^ 127) \<le> (10 :: int) ^ n"
    by (rule order_trans [of _ 0]) simp_all
  ultimately have "n \<le> 28 \<Longrightarrow> i128_checked (10 ^ n) = Some (10 ^ n)"
    by (simp only: i128_checked_def simp_thms if_True)
  then show ?thesis
    by (auto simp: checked_power_of_ten_def MAX_SCALE_def ok_or_eq_Inr i128_checked_Some)
qed

lemma strip_zeros_value:
  "of_int (ed_coefficient (strip_zeros s c)) / 10 ^ ed_scale (strip_zeros s c) = (of_int c / 10 ^ s :: rat)"
proof (induction s arbitrary: c)
  case (Suc s)
  show ?case
  proof (cases "c mod 10 = 0")
    case True
    then have "c = 10 * (c div 10)" by auto
    then have "of_int c = (10 * of_int (c div 10) :: rat)" by (metis of_int_mult of_int_numeral)
    with True Suc.IH [of "c div 10"] show ?thesis by simp
  qed simp
qed simp

lemma normalized_value [simp]: "decimal_value (normalized d) = decimal_value d"
  by (simp add: decimal_value_def normalized_def strip_zeros_value)

lemma strip_zeros_bounds:
  "ed_scale (strip_zeros s c) \<le> s \<and> \<bar>ed_coefficient (strip_zeros s c)\<bar> \<le> \<bar>c\<bar>
   \<and> (ed_scale (strip_zeros s c) = 0 \<or> ed_coefficient (strip_zeros s c) mod 10 \<noteq> 0)
   \<and> (c < 0 \<longrightarrow> ed_coefficient (strip_zeros s c) < 0)"
proof (induction s arbitrary: c)
  case (Suc s)
  have "\<bar>c div 10\<bar> \<le> \<bar>c\<bar>" "c mod 10 = 0 \<Longrightarrow> c < 0 \<Longrightarrow> c div 10 < 0" by linarith+
  with Suc.IH [of "c div 10"] show ?case by (auto intro: order_trans)
qed simp

lemma normalized_ok:
  assumes "i128_checked c = Some c" and "s \<le> MAX_SCALE"
  shows "decimal_ok (normalized \<lparr>ed_coefficient = c, ed_scale = s\<rparr>)"
  using assms strip_zeros_bounds [of s c]
  by (auto simp: decimal_ok_def normalized_def i128_checked_Some)

lemma power_diff_cancel: "b \<le> s \<Longrightarrow> (of_int c * 10 ^ (s - b)) / 10 ^ s = (of_int c / 10 ^ b :: rat)"
  by (simp add: power_diff field_simps)

lemma aligned_Inr:
  assumes "aligned a b = Inr (left, right, scale)"
  shows "scale = max (ed_scale a) (ed_scale b)"
    and "of_int left / 10 ^ scale = decimal_value a" and "of_int right / 10 ^ scale = decimal_value b"
proof -
  from assms have "scale = max (ed_scale a) (ed_scale b)"
    and "left = ed_coefficient a * 10 ^ (scale - ed_scale a)"
    and "right = ed_coefficient b * 10 ^ (scale - ed_scale b)"
    by (auto simp: aligned_def Let_def rbind_eq_Inr ok_or_eq_Inr checked_power_Inr i128_checked_Some)
  then show "scale = max (ed_scale a) (ed_scale b)"
    and "of_int left / 10 ^ scale = decimal_value a" and "of_int right / 10 ^ scale = decimal_value b"
    by (simp_all add: decimal_value_def power_diff_cancel)
qed

lemma decimal_add_exact:
  assumes "decimal_add a b = Inr d"
  shows "decimal_value d = decimal_value a + decimal_value b"
proof -
  from assms obtain left right scale where al: "aligned a b = Inr (left, right, scale)"
    and d: "d = normalized \<lparr>ed_coefficient = left + right, ed_scale = scale\<rparr>"
    by (auto simp: decimal_add_def rbind_eq_Inr ok_or_eq_Inr i128_checked_Some)
  have "decimal_value d = of_int left / 10 ^ scale + of_int right / 10 ^ scale"
    unfolding d normalized_value by (simp add: decimal_value_def add_divide_distrib)
  then show ?thesis by (simp only: aligned_Inr(2,3) [OF al])
qed

lemma decimal_sub_exact:
  assumes "decimal_sub a b = Inr d"
  shows "decimal_value d = decimal_value a - decimal_value b"
proof -
  from assms obtain left right scale where al: "aligned a b = Inr (left, right, scale)"
    and d: "d = normalized \<lparr>ed_coefficient = left - right, ed_scale = scale\<rparr>"
    by (auto simp: decimal_sub_def rbind_eq_Inr ok_or_eq_Inr i128_checked_Some)
  have "decimal_value d = of_int left / 10 ^ scale - of_int right / 10 ^ scale"
    unfolding d normalized_value by (simp add: decimal_value_def diff_divide_distrib)
  then show ?thesis by (simp only: aligned_Inr(2,3) [OF al])
qed

lemma decimal_results_ok:
  "decimal_add a b = Inr d \<Longrightarrow> ed_scale a \<le> MAX_SCALE \<Longrightarrow> ed_scale b \<le> MAX_SCALE \<Longrightarrow> decimal_ok d"
  "decimal_sub a b = Inr d \<Longrightarrow> ed_scale a \<le> MAX_SCALE \<Longrightarrow> ed_scale b \<le> MAX_SCALE \<Longrightarrow> decimal_ok d"
  by (auto simp: decimal_add_def decimal_sub_def rbind_eq_Inr ok_or_eq_Inr i128_checked_Some
      dest!: aligned_Inr(1) intro!: normalized_ok)

lemma decimal_compare_exact:
  assumes "decimal_compare a b = Inr r"
  shows "r = (if decimal_value a < decimal_value b then Less
    else if decimal_value a = decimal_value b then Equal else Greater)"
proof -
  from assms obtain left right scale where al: "aligned a b = Inr (left, right, scale)"
    and r: "r = int_cmp left right" by (auto simp: decimal_compare_def rbind_eq_Inr)
  have p: "(0 :: rat) < 10 ^ scale" by simp
  have "decimal_value a < decimal_value b \<longleftrightarrow> left < right" "decimal_value a = decimal_value b \<longleftrightarrow> left = right"
    using aligned_Inr(2,3) [OF al] p by (auto simp flip: aligned_Inr(2,3) [OF al] simp: divide_less_cancel)
  with r show ?thesis by (simp add: int_cmp_def)
qed

section \<open>Printing and parsing\<close>

lemma of_char_digit_char: "d < 10 \<Longrightarrow> byte_of (digit_char d) = d + 48"
  by (simp add: byte_of_def digit_char_def)

lemma digit_char_simps: "d < 10 \<Longrightarrow> is_ascii_digit (digit_char d)" "d < 10 \<Longrightarrow> digit_value (digit_char d) = d"
  by (simp_all add: is_ascii_digit_def digit_value_def of_char_digit_char)

lemma show_nat_not_Nil [simp]: "show_nat n \<noteq> []"
  by (subst show_nat.simps) simp

lemma show_nat_digits [simp]: "list_all is_ascii_digit (show_nat n)"
  by (induction n rule: show_nat.induct) (subst show_nat.simps, auto simp: digit_char_simps)

lemma foldl_digits:
  "foldl (\<lambda>n c. n * 10 + digit_value c) k s = k * 10 ^ length s + foldl (\<lambda>n c. n * 10 + digit_value c) 0 s"
proof (induction s rule: rev_induct)
  case (snoc c s)
  then show ?case by (simp add: algebra_simps)
qed simp

lemma digits_value_append: "digits_value (a @ b) = digits_value a * 10 ^ length b + digits_value b"
  unfolding digits_value_def foldl_append by (subst foldl_digits) simp

lemma digits_value_show_nat [simp]: "digits_value (show_nat n) = n"
proof (induction n rule: show_nat.induct)
  case (1 n)
  show ?case
  proof (cases "n < 10")
    case True
    then show ?thesis by (subst show_nat.simps) (simp add: digits_value_def digit_char_simps)
  next
    case False
    with 1 have "digits_value (show_nat n) = n div 10 * 10 + digits_value [digit_char (n mod 10)]"
      by (subst show_nat.simps) (simp add: digits_value_append)
    also have "digits_value [digit_char (n mod 10)] = n mod 10"
      by (simp add: digits_value_def digit_char_simps)
    finally show ?thesis by simp
  qed
qed

lemma digits_value_zeros [simp]: "digits_value (replicate k (CHR ''0'')) = 0"
  by (induction k) (simp_all add: replicate_append_same [symmetric] digits_value_append digits_value_def
      digit_value_def byte_of_def)

lemma digit_not_special:
  "is_ascii_digit c \<Longrightarrow> c \<noteq> CHR ''e'' \<and> c \<noteq> CHR ''E'' \<and> c \<noteq> CHR ''-'' \<and> c \<noteq> CHR ''.''"
  by (auto simp: is_ascii_digit_def byte_of_def)

lemma split_once_any_None: "set s \<inter> set cs = {} \<Longrightarrow> split_once_any cs s = None"
  by (induction s) auto

lemma split_once_None: "c \<notin> set s \<Longrightarrow> split_once c s = None"
  by (induction s) auto

lemma split_once_append': "c \<notin> set a \<Longrightarrow> split_once c (a @ c # b) = Some (a, b)"
  by (induction a) auto

text \<open>The digits of a decimal, whole and fraction.\<close>

lemma parse_digits:
  assumes "list_all is_ascii_digit whole" and "list_all is_ascii_digit fraction" and "whole \<noteq> []"
    and "int (digits_value (whole @ fraction)) < 2 ^ 127" and "length fraction \<le> MAX_SCALE"
    and "dot = (if fraction = [] then [] else ''.'' @ fraction)"
  shows "parse_decimal ((if negative then ''-'' else []) @ whole @ dot) =
    Inr (normalized \<lparr>ed_coefficient = (if negative then - int (digits_value (whole @ fraction))
        else int (digits_value (whole @ fraction))), ed_scale = length fraction\<rparr>)"
proof -
  define s where "s = (if negative then ''-'' else []) @ whole @ dot"
  have d: "\<forall>c \<in> set (whole @ fraction). is_ascii_digit c"
    using assms(1,2) by (auto simp: list_all_iff)
  have "set s \<inter> {CHR ''e'', CHR ''E''} = {}"
    using d assms(6) by (auto simp: s_def dest: digit_not_special split: if_splits)
  then have e: "split_once_any [CHR ''e'', CHR ''E''] s = None" by (intro split_once_any_None) simp
  obtain w ws where w: "whole = w # ws" using assms(3) by (cases whole) auto
  with d have "w \<noteq> CHR ''-''" by (auto dest: digit_not_special)
  then have neg: "(case s of [] \<Rightarrow> False | c # _ \<Rightarrow> c = CHR ''-'') = negative"
    and uns: "(if negative then drop 1 s else s) = whole @ dot"
    using w by (cases negative; simp add: s_def)+
  have nodot: "CHR ''.'' \<notin> set whole" using d by (auto dest: digit_not_special)
  have sp: "(case split_once (CHR ''.'') (whole @ dot) of None \<Rightarrow> (whole @ dot, []) | Some p \<Rightarrow> p) = (whole, fraction)"
    using nodot assms(6) by (auto simp: split_once_None split_once_append')
  have bounds: "i128_checked (int (digits_value (whole @ fraction))) = Some (int (digits_value (whole @ fraction)))"
    using assms(4) by (simp add: i128_checked_Some)
  have "int (length fraction) \<le> 28" using assms(5) by (simp add: MAX_SCALE_def)
  then have len: "i32_checked (int (length fraction)) = Some (int (length fraction))"
    by (simp add: i32_checked_def)
  have dl: "list_all is_ascii_digit (whole @ fraction)" using assms(1,2) by simp
  have "parse_decimal s = Inr (normalized \<lparr>ed_coefficient = (if negative then - int (digits_value (whole @ fraction))
      else int (digits_value (whole @ fraction))), ed_scale = length fraction\<rparr>)"
    unfolding parse_decimal_def e Let_def option.case rbind_Inr prod.case neg uns sp
    using bounds len assms(3,5) dl by simp
  then show ?thesis by (simp only: s_def)
qed

lemma normalized_id: "decimal_ok d \<Longrightarrow> normalized d = d"
  by (cases d; cases "ed_scale d") (auto simp: normalized_def decimal_ok_def)

lemma parse_decimal_text:
  assumes ok: "decimal_ok d" and low: "- (2 ^ 127) < ed_coefficient d"
  shows "parse_decimal (decimal_text d) = Inr d"
proof -
  define n where "n = nat \<bar>ed_coefficient d\<bar>"
  define negative where "negative = (ed_coefficient d < 0)"
  have coeff: "ed_coefficient d = (if negative then - int n else int n)"
    by (simp add: n_def negative_def)
  have bound: "int n < 2 ^ 127" using ok low by (auto simp: decimal_ok_def i128_checked_Some n_def)
  have scale: "ed_scale d \<le> MAX_SCALE" using ok by (simp add: decimal_ok_def)
  show ?thesis
  proof (cases "ed_scale d = 0")
    case True
    have "parse_decimal ((if negative then ''-'' else []) @ show_nat n @ []) =
        Inr (normalized \<lparr>ed_coefficient = (if negative then - int (digits_value (show_nat n @ []))
          else int (digits_value (show_nat n @ []))), ed_scale = length ([] :: string)\<rparr>)"
      by (rule parse_digits) (use bound in simp_all)
    moreover have "d = \<lparr>ed_coefficient = (if negative then - int n else int n), ed_scale = 0\<rparr>"
      using coeff True by (cases d) simp
    moreover have "decimal_text d = (if negative then ''-'' else []) @ show_nat n @ []"
      using True by (simp only: decimal_text_def Let_def n_def [symmetric] negative_def [symmetric]
          if_True append_Nil2 refl)
    moreover have "digits_value (show_nat n @ []) = n" by simp
    ultimately show ?thesis using ok by (metis list.size(3) normalized_id)
  next
    case False
    define padded where "padded = (if length (show_nat n) \<le> ed_scale d
      then replicate (ed_scale d + 1 - length (show_nat n)) (CHR ''0'') @ show_nat n else show_nat n)"
    define whole where "whole = take (length padded - ed_scale d) padded"
    define fraction where "fraction = drop (length padded - ed_scale d) padded"
    have len: "ed_scale d < length padded" by (auto simp: padded_def)
    then have lf: "length fraction = ed_scale d" and "whole \<noteq> []"
      by (auto simp: fraction_def whole_def)
    have "is_ascii_digit (CHR ''0'')" by (simp add: is_ascii_digit_def byte_of_def)
    then have "list_all is_ascii_digit padded"
      using show_nat_digits [of n] by (auto simp: padded_def list_all_iff)
    moreover have pw: "whole @ fraction = padded" by (simp add: whole_def fraction_def)
    ultimately have dig: "list_all is_ascii_digit whole" "list_all is_ascii_digit fraction"
      by (metis list_all_append)+
    have val: "digits_value (whole @ fraction) = n"
      unfolding pw padded_def by (simp add: digits_value_append)
    have "fraction \<noteq> []" using False lf by auto
    have "parse_decimal ((if negative then ''-'' else []) @ whole @ (''.'' @ fraction)) =
        Inr (normalized \<lparr>ed_coefficient = (if negative then - int (digits_value (whole @ fraction))
          else int (digits_value (whole @ fraction))), ed_scale = length fraction\<rparr>)"
      by (rule parse_digits) (use bound dig val lf scale \<open>whole \<noteq> []\<close> \<open>fraction \<noteq> []\<close> in simp_all)
    moreover have "d = \<lparr>ed_coefficient = (if negative then - int n else int n), ed_scale = ed_scale d\<rparr>"
      using coeff by (cases d) simp
    moreover have "decimal_text d = (if negative then ''-'' else []) @ whole @ (''.'' @ fraction)"
      using False
      by (simp add: decimal_text_def Let_def n_def [symmetric] negative_def [symmetric] padded_def [symmetric]
          whole_def fraction_def)
    ultimately show ?thesis using val lf ok by (metis normalized_id)
  qed
qed

end
