(* ===== verification/StrictJson.thy ===== *)
theory StrictJson
  imports Complex_Main "HOL-Library.Multiset" Authority
begin

text \<open>
  Strict JSON documents (\<open>platform-contracts/src/json.rs\<close>).  The tokens are serde_json's: an argument reads a
  document into a tree whose objects keep their entries in the order of the text, repeated names included.  The
  visitor that walks the tree, with its limits on depth, items, names and integers, is the code's own.
\<close>

section \<open>Limits and numbers\<close>

record JsonLimits =
  jl_max_bytes :: nat
  jl_max_depth :: nat
  jl_max_properties_per_object :: nat
  jl_max_items_per_array :: nat
  jl_max_string_bytes :: nat

definition CONTRACT_FIXTURE :: JsonLimits where
  "CONTRACT_FIXTURE = \<lparr>jl_max_bytes = 1048576, jl_max_depth = 32, jl_max_properties_per_object = 1024,
     jl_max_items_per_array = 4096, jl_max_string_bytes = 262144\<rparr>"

definition json_limits_validate :: "JsonLimits \<Rightarrow> StrictJsonError + unit" where
  "json_limits_validate l =
     fail_if (jl_max_bytes l = 0 \<or> jl_max_depth l = 0 \<or> jl_max_properties_per_object l = 0
       \<or> jl_max_items_per_array l = 0 \<or> jl_max_string_bytes l = 0) InvalidLimits"

definition MAX_SAFE_JSON_INTEGER :: nat where "MAX_SAFE_JSON_INTEGER = 9007199254740991"

text \<open>\<open>Deserializer::from_slice\<close> followed by \<open>end\<close>, and \<open>as_i64\<close>, \<open>as_u64\<close> and \<open>as_f64\<close> of a number.\<close>

record 'n strict_env = "'n platform_env" +
  sj_read :: "u8 list \<Rightarrow> 'n Json option"
  sj_as_i64 :: "'n \<Rightarrow> int option"
  sj_as_u64 :: "'n \<Rightarrow> u64 option"
  sj_as_f64 :: "'n \<Rightarrow> rat option"

text \<open>\<open>visit_u64\<close>, \<open>visit_i64\<close> and \<open>visit_f64\<close>; a number that is none of them is not finite.\<close>

definition strict_number :: "('n, 'z) strict_env_scheme \<Rightarrow> 'n \<Rightarrow> bool" where
  "strict_number env n \<longleftrightarrow>
     (case sj_as_u64 env n of
        Some w \<Rightarrow> unat w \<le> MAX_SAFE_JSON_INTEGER
      | None \<Rightarrow>
          (case sj_as_i64 env n of
             Some i \<Rightarrow> \<bar>i\<bar> \<le> int MAX_SAFE_JSON_INTEGER
           | None \<Rightarrow>
               (case sj_as_f64 env n of
                  Some r \<Rightarrow> \<not> (r = of_int \<lfloor>r\<rfloor> \<and> of_nat MAX_SAFE_JSON_INTEGER < \<bar>r\<bar>)
                | None \<Rightarrow> False)))"

section \<open>The visitor\<close>

text \<open>The seed of the items of an array is made before the first item is asked for, that of the entries of an
  object only when there is an entry.\<close>

function strict_value :: "('n, 'z) strict_env_scheme \<Rightarrow> JsonLimits \<Rightarrow> nat \<Rightarrow> 'n Json \<Rightarrow> 'n Json option"
  and strict_items :: "('n, 'z) strict_env_scheme \<Rightarrow> JsonLimits \<Rightarrow> nat \<Rightarrow> 'n Json list \<Rightarrow> 'n Json list \<Rightarrow>
    'n Json list option"
  and strict_entries :: "('n, 'z) strict_env_scheme \<Rightarrow> JsonLimits \<Rightarrow> nat \<Rightarrow> (string \<times> 'n Json) list \<Rightarrow>
    (string \<times> 'n Json) list \<Rightarrow> (string \<times> 'n Json) list option"
where
  "strict_value env l depth Null = (if jl_max_depth l < depth then None else Some Null)"
| "strict_value env l depth (Bool b) = (if jl_max_depth l < depth then None else Some (Bool b))"
| "strict_value env l depth (Number n) =
     (if jl_max_depth l < depth then None else if strict_number env n then Some (Number n) else None)"
| "strict_value env l depth (String s) =
     (if jl_max_depth l < depth then None
      else if jl_max_string_bytes l < length s then None else Some (String s))"
| "strict_value env l depth (Array items) =
     (if jl_max_depth l < depth then None
      else if jl_max_depth l < depth + 1 then None
      else map_option Array (strict_items env l (depth + 1) [] items))"
| "strict_value env l depth (Object entries) =
     (if jl_max_depth l < depth then None
      else map_option Object (strict_entries env l depth [] entries))"
| "strict_items env l depth found [] = Some found"
| "strict_items env l depth found (v # rest) =
     Option.bind (strict_value env l depth v) (\<lambda>v.
     if length found = jl_max_items_per_array l then None
     else strict_items env l depth (found @ [v]) rest)"
| "strict_entries env l depth found [] = Some found"
| "strict_entries env l depth found ((k, v) # rest) =
     (if jl_max_string_bytes l < length k then None
      else if map_of found k \<noteq> None then None
      else if length found = jl_max_properties_per_object l then None
      else if jl_max_depth l < depth + 1 then None
      else
        Option.bind (strict_value env l (depth + 1) v) (\<lambda>v.
        strict_entries env l depth (json_insert k v found) rest))"
  by pat_completeness auto

termination
  by (relation "measure (\<lambda>x. case x of
        Inl (_, _, _, v) \<Rightarrow> size v
      | Inr (Inl (_, _, _, _, items)) \<Rightarrow> size_list size items
      | Inr (Inr (_, _, _, _, entries)) \<Rightarrow> size_list (size_prod (\<lambda>_. 0) size) entries)") auto

definition parse_strict_json ::
  "('n, 'z) strict_env_scheme \<Rightarrow> u8 list \<Rightarrow> JsonLimits \<Rightarrow> StrictJsonError + 'n Json" where
  "parse_strict_json env input limits =
     rbind (json_limits_validate limits) (\<lambda>_.
     if jl_max_bytes limits < length input then Inl (DocumentTooLarge (length input) (jl_max_bytes limits))
     else
       rbind (ok_or InvalidJson (sj_read env input)) (\<lambda>raw.
       ok_or InvalidJson (strict_value env limits 1 raw)))"

section \<open>What the visitor accepts\<close>

text \<open>A tree with the entries of its objects in key order, and the trees the visitor accepts, described without
  its accumulators.\<close>

lemma field_size: "(key, v) \<in> set m \<Longrightarrow> size v < size (Object m)"
  by (induction m) auto

lemma item_size: "v \<in> set xs \<Longrightarrow> size v < size (Array xs)"
  by (induction xs) auto

lemma entry_size: "e \<in> set m \<Longrightarrow> size (snd e) < size (Object m)"
  using field_size [of "fst e" "snd e" m] by simp

function ordered :: "'n Json \<Rightarrow> 'n Json" where
  "ordered (Array items) = Array (map ordered items)"
| "ordered (Object entries) = json_object (map (\<lambda>e. (fst e, ordered (snd e))) entries)"
| "ordered Null = Null"
| "ordered (Bool b) = Bool b"
| "ordered (Number n) = Number n"
| "ordered (String s) = String s"
  by pat_completeness auto

termination
  by (relation "measure size") (auto dest: entry_size item_size)

function unique_names :: "'n Json \<Rightarrow> bool" where
  "unique_names (Array items) \<longleftrightarrow> (\<forall>x\<in>set items. unique_names x)"
| "unique_names (Object entries) \<longleftrightarrow>
     distinct (map fst entries) \<and> (\<forall>e\<in>set entries. unique_names (snd e))"
| "unique_names Null \<longleftrightarrow> True"
| "unique_names (Bool b) \<longleftrightarrow> True"
| "unique_names (Number n) \<longleftrightarrow> True"
| "unique_names (String s) \<longleftrightarrow> True"
  by pat_completeness auto

termination
  by (relation "measure size") (auto dest: entry_size item_size)

function within_limits :: "('n, 'z) strict_env_scheme \<Rightarrow> JsonLimits \<Rightarrow> nat \<Rightarrow> 'n Json \<Rightarrow> bool" where
  "within_limits env l depth (Array items) \<longleftrightarrow>
     depth < jl_max_depth l \<and> length items \<le> jl_max_items_per_array l
     \<and> (\<forall>x\<in>set items. within_limits env l (depth + 1) x)"
| "within_limits env l depth (Object entries) \<longleftrightarrow>
     depth \<le> jl_max_depth l \<and> length entries \<le> jl_max_properties_per_object l
     \<and> (\<forall>e\<in>set entries. length (fst e) \<le> jl_max_string_bytes l \<and> within_limits env l (depth + 1) (snd e))"
| "within_limits env l depth Null \<longleftrightarrow> depth \<le> jl_max_depth l"
| "within_limits env l depth (Bool b) \<longleftrightarrow> depth \<le> jl_max_depth l"
| "within_limits env l depth (Number n) \<longleftrightarrow> depth \<le> jl_max_depth l \<and> strict_number env n"
| "within_limits env l depth (String s) \<longleftrightarrow> depth \<le> jl_max_depth l \<and> length s \<le> jl_max_string_bytes l"
  by pat_completeness auto

termination
  by (relation "measure (\<lambda>(_, _, _, v). size v)") (auto dest: entry_size item_size)

lemma within_depth: "within_limits env l depth v \<Longrightarrow> depth \<le> jl_max_depth l"
  by (cases v) simp_all

text \<open>A name that is new is only put in its place.\<close>

lemma new_name_inserted: "k \<notin> fst ` set m \<Longrightarrow> mset (json_insert k v m) = add_mset (k, v) (mset m)"
  by (induction k v m rule: json_insert.induct) auto



lemma strict_items_eq:
  assumes "\<And>v. v \<in> set items \<Longrightarrow>
      strict_value env l depth v = (if within_limits env l depth v \<and> unique_names v then Some (ordered v) else None)"
    and "length found \<le> jl_max_items_per_array l"
  shows "strict_items env l depth found items =
    (if (\<forall>v\<in>set items. within_limits env l depth v \<and> unique_names v)
        \<and> length found + length items \<le> jl_max_items_per_array l
     then Some (found @ map ordered items) else None)"
  using assms
proof (induction items arbitrary: found)
  case (Cons v items)
  show ?case
  proof (cases "within_limits env l depth v \<and> unique_names v \<and> length found \<noteq> jl_max_items_per_array l")
    case True
    with Cons.IH [of "found @ [ordered v]"] Cons.prems show ?thesis by simp
  next
    case False
    with Cons.prems show ?thesis by auto
  qed
qed simp

lemma strict_entries_eq:
  assumes "\<forall>e\<in>set entries. strict_value env l (depth + 1) (snd e) =
      (if within_limits env l (depth + 1) (snd e) \<and> unique_names (snd e) then Some (ordered (snd e)) else None)"
    and "length found \<le> jl_max_properties_per_object l"
  shows "strict_entries env l depth found entries =
    (if distinct (map fst entries) \<and> fst ` set entries \<inter> fst ` set found = {}
        \<and> (\<forall>e\<in>set entries. length (fst e) \<le> jl_max_string_bytes l \<and> within_limits env l (depth + 1) (snd e)
             \<and> unique_names (snd e))
        \<and> length found + length entries \<le> jl_max_properties_per_object l
     then Some (foldl (\<lambda>m (k, v). json_insert k v m) found (map (\<lambda>e. (fst e, ordered (snd e))) entries))
     else None)"
  using assms
proof (induction entries arbitrary: found)
  case (Cons e entries)
  obtain k v where e: "e = (k, v)" by (cases e)
  let ?ok = "length k \<le> jl_max_string_bytes l \<and> k \<notin> fst ` set found \<and> length found \<noteq> jl_max_properties_per_object l
    \<and> within_limits env l (depth + 1) v \<and> unique_names v"
  show ?case
  proof (cases ?ok)
    case True
    then have len: "length (json_insert k (ordered v) found) = Suc (length found)"
      using new_name_inserted [of k found "ordered v"] by (metis size_add_mset size_mset)
    have "depth + 1 \<le> jl_max_depth l" using True within_depth by blast
    moreover have "strict_value env l (depth + 1) v = Some (ordered v)" using Cons.prems(1) True by (simp add: e)
    ultimately have step: "strict_entries env l depth found (e # entries) =
        strict_entries env l depth (json_insert k (ordered v) found) entries"
      using True by (simp add: e map_of_eq_None_iff)
    have "fst ` set entries \<inter> fst ` set (json_insert k (ordered v) found) = {} \<longleftrightarrow>
        k \<notin> fst ` set entries \<and> fst ` set entries \<inter> fst ` set found = {}"
      by (auto simp: json_insert_keys)
    with Cons.IH [of "json_insert k (ordered v) found"] len Cons.prems True show ?thesis
      unfolding step by (simp add: e)
  next
    case False
    with Cons.prems show ?thesis by (auto simp: e map_of_eq_None_iff)
  qed
qed simp

lemma strict_value_eq:
  "strict_value env l depth v = (if within_limits env l depth v \<and> unique_names v then Some (ordered v) else None)"
proof (induction "size v" arbitrary: v depth rule: less_induct)
  case less
  show ?case
  proof (cases v)
    case (Array items)
    have "strict_value env l (depth + 1) x =
        (if within_limits env l (depth + 1) x \<and> unique_names x then Some (ordered x) else None)"
      if "x \<in> set items" for x using less [of x "depth + 1"] item_size [OF that] Array by simp
    note eq = strict_items_eq [where found = "[]", OF this]
    have "strict_items env l (depth + 1) [] items =
      (if (\<forall>v\<in>set items. within_limits env l (depth + 1) v \<and> unique_names v)
          \<and> length items \<le> jl_max_items_per_array l
       then Some (map ordered items) else None)" by (subst eq) simp_all
    then show ?thesis by (auto simp: Array)
  next
    case (Object entries)
    have "\<forall>e\<in>set entries. strict_value env l (depth + 1) (snd e) =
        (if within_limits env l (depth + 1) (snd e) \<and> unique_names (snd e) then Some (ordered (snd e)) else None)"
      using less entry_size Object by fastforce
    from strict_entries_eq [where found = "[]", OF this] show ?thesis by (auto simp: Object json_object_def)
  qed auto
qed


lemma parse_Inr:
  "parse_strict_json env input l = Inr v \<longleftrightarrow>
     json_limits_validate l = Inr () \<and> length input \<le> jl_max_bytes l
     \<and> (\<exists>raw. sj_read env input = Some raw \<and> unique_names raw \<and> within_limits env l 1 raw \<and> v = ordered raw)"
  by (auto simp: parse_strict_json_def rbind_eq_Inr ok_or_eq_Inr strict_value_eq split: if_splits)

section \<open>Properties of strict documents\<close>





text \<open>The strict parser accepts exactly the documents of admissible size in which no object, at any depth,
  repeats a name and every array, object, text, name, integer and level of nesting is within its limit, and it
  returns them with their entries in key order.\<close>

theorem strict_documents_are_the_bounded_ones:
  "parse_strict_json env input l = Inr v \<longleftrightarrow>
     json_limits_validate l = Inr () \<and> length input \<le> jl_max_bytes l
     \<and> (\<exists>raw. sj_read env input = Some raw \<and> unique_names raw \<and> within_limits env l 1 raw \<and> v = ordered raw)"
  by (rule parse_Inr)



text \<open>At the deepest level an empty array is refused and an empty object accepted.\<close>

lemma empty_arrays_need_a_level:
  assumes "jl_max_depth l = depth"
  shows "strict_value env l depth (Array []) = None \<and> strict_value env l depth (Object []) = Some (Object [])"
  using assms by simp

end
