(* ===== verification/Expression.thy ===== *)
theory Expression
  imports Decimal StrictJson
begin

text \<open>
  Typed stack expressions (\<open>platform-plan/src/expression.rs\<close>): ports, instructions, the static
  validation of a program and its evaluation.  JSON values are those of serde_json; its number
  type is an argument with the operations the code calls.
\<close>

section \<open>Closed values and ports\<close>

text \<open>\<open>Number::to_string\<close>, \<open>Number::from(i64)\<close> and \<open>Number::from_str\<close>.  Equality of the number type is
  \<open>PartialEq\<close>.\<close>

record 'n expression_env = "'n strict_env" +
  xe_number_text :: "'n \<Rightarrow> string"
  xe_from_i64 :: "int \<Rightarrow> 'n"
  xe_from_text :: "string \<Rightarrow> 'n option"

definition MODEL_JSON_LIMITS :: JsonLimits where
  "MODEL_JSON_LIMITS = \<lparr>jl_max_bytes = 1048576, jl_max_depth = 32, jl_max_properties_per_object = 1024,
     jl_max_items_per_array = 4096, jl_max_string_bytes = 262144\<rparr>"

record 'n ClosedJsonValue =
  cj_schema_digest :: Sha256Digest
  cj_value :: "'n Json"
  cj_canonical_digest :: Sha256Digest

datatype ModelContractError =
    InvalidProviderConfiguration
  | WrongResourceKind
  | InvalidAdapter
  | InvalidRegion
  | InvalidIdentity
  | InvalidModalities
  | InvalidLimits
  | InvalidToolContract
  | InvalidStructuredOutput
  | InvalidUsageContract
  | InvalidDataHandling
  | InvalidEvidence
  | InvalidJson
  | UnboundedCollection
  | NonCanonicalCollection

definition closed_validate ::
  "('n, 'z) expression_env_scheme \<Rightarrow> 'n ClosedJsonValue \<Rightarrow> ModelContractError + unit" where
  "closed_validate env c =
     rbind (map_err InvalidJson (canonical_json env (cj_value c))) (\<lambda>canonical.
     rbind (map_err InvalidJson (parse_strict_json env canonical MODEL_JSON_LIMITS)) (\<lambda>reparsed.
     rbind (document_digest env InvalidJson reparsed) (\<lambda>digest.
     if reparsed \<noteq> cj_value c \<or> digest \<noteq> cj_canonical_digest c then Inl InvalidJson else Inr ())))"

definition closed_build ::
  "('n, 'z) expression_env_scheme \<Rightarrow> Sha256Digest \<Rightarrow> 'n Json \<Rightarrow> ModelContractError + 'n ClosedJsonValue" where
  "closed_build env schema_digest v =
     rbind (document_digest env InvalidJson v) (\<lambda>digest.
     let document = \<lparr>cj_schema_digest = schema_digest, cj_value = v, cj_canonical_digest = digest\<rparr>
     in rbind (closed_validate env document) (\<lambda>_. Inr document))"

text \<open>The newtypes over \<open>String\<close> are their text, checked when they are built.\<close>

type_synonym PlanNodeKey = string
type_synonym DataPortKey = string
type_synonym ExpressionFieldName = string

definition is_key :: "string \<Rightarrow> bool" where
  "is_key v \<longleftrightarrow>
     v \<noteq> [] \<and> length v \<le> 128 \<and> is_ascii_alphanumeric (hd v)
     \<and> list_all (\<lambda>c. is_ascii_alphanumeric c \<or> c \<in> set ''_-.:'') v"

definition data_port_key_new :: "string \<Rightarrow> ExpressionError + DataPortKey" where
  "data_port_key_new v = (if \<not> is_key v then Inl InvalidPort else Inr v)"

definition MAX_EXPRESSION_INSTRUCTIONS :: nat where
  "MAX_EXPRESSION_INSTRUCTIONS = 4096"

definition MAX_EXPRESSION_INPUT_PORTS :: nat where
  "MAX_EXPRESSION_INPUT_PORTS = 64"

definition MAX_EXPRESSION_STACK_DEPTH :: u16 where
  "MAX_EXPRESSION_STACK_DEPTH = 256"

definition MAX_EXPRESSION_FIELD_BYTES :: nat where
  "MAX_EXPRESSION_FIELD_BYTES = 128"

definition field_name_new :: "string \<Rightarrow> ExpressionError + ExpressionFieldName" where
  "field_name_new v =
     (if v = [] \<or> MAX_EXPRESSION_FIELD_BYTES < length v \<or> has_control v then Inl InvalidFieldName
      else Inr v)"

datatype ExactDataPortRef =
    RunInput (run_input_schema: Sha256Digest)
  | NodeOutput (producer_node: PlanNodeKey) (port_key: DataPortKey) (node_output_schema: Sha256Digest)

definition port_schema_digest :: "ExactDataPortRef \<Rightarrow> Sha256Digest" where
  "port_schema_digest p = (case p of RunInput d \<Rightarrow> d | NodeOutput _ _ d \<Rightarrow> d)"

definition producer_node_id :: "ExactDataPortRef \<Rightarrow> PlanNodeKey option" where
  "producer_node_id p = (case p of RunInput _ \<Rightarrow> None | NodeOutput n _ _ \<Rightarrow> Some n)"

text \<open>The derived \<open>Ord\<close>: the variant, then the fields in order; a list of texts compares alike.\<close>

definition port_sort_key :: "ExactDataPortRef \<Rightarrow> string list" where
  "port_sort_key p = (case p of RunInput d \<Rightarrow> [''0'', d] | NodeOutput n k d \<Rightarrow> [''1'', n, k, d])"

lemma port_sort_key_inj [simp]: "port_sort_key a = port_sort_key b \<longleftrightarrow> a = b"
  by (cases a; cases b) (simp_all add: port_sort_key_def)

instantiation ExactDataPortRef :: linorder
begin

definition less_eq_ExactDataPortRef :: "ExactDataPortRef \<Rightarrow> ExactDataPortRef \<Rightarrow> bool" where
  "less_eq_ExactDataPortRef a b \<longleftrightarrow> port_sort_key a \<le> port_sort_key b"

definition less_ExactDataPortRef :: "ExactDataPortRef \<Rightarrow> ExactDataPortRef \<Rightarrow> bool" where
  "less_ExactDataPortRef a b \<longleftrightarrow> port_sort_key a < port_sort_key b"

instance
  by standard (auto simp: less_eq_ExactDataPortRef_def less_ExactDataPortRef_def
      intro: order_antisym dest: order_antisym)

end

section \<open>Programs\<close>

datatype 'n TypedInstruction =
    LoadPort ExactDataPortRef
  | Literal "'n ClosedJsonValue"
  | GetField ExpressionFieldName
  | GetIndex
  | ArrayLength
  | MakeArray u16
  | MakeObject "ExpressionFieldName list"
  | Equal
  | NotEqual
  | Less
  | LessOrEqual
  | Greater
  | GreaterOrEqual
  | BooleanAnd
  | BooleanOr
  | BooleanNot
  | IntegerAdd
  | IntegerSubtract
  | DecimalAdd
  | DecimalSubtract
  | StringConcat
  | Coalesce
  | Select

record ExpressionLimits =
  el_maximum_instructions :: nat
  el_maximum_input_ports :: nat
  el_maximum_stack_depth :: u16

definition ABSOLUTE :: ExpressionLimits where
  "ABSOLUTE = \<lparr>el_maximum_instructions = MAX_EXPRESSION_INSTRUCTIONS,
     el_maximum_input_ports = MAX_EXPRESSION_INPUT_PORTS,
     el_maximum_stack_depth = MAX_EXPRESSION_STACK_DEPTH\<rparr>"

definition bounded_by_absolute :: "ExpressionLimits \<Rightarrow> bool" where
  "bounded_by_absolute l \<longleftrightarrow>
     0 < el_maximum_instructions l \<and> el_maximum_instructions l \<le> MAX_EXPRESSION_INSTRUCTIONS
     \<and> 0 < el_maximum_input_ports l \<and> el_maximum_input_ports l \<le> MAX_EXPRESSION_INPUT_PORTS
     \<and> 0 < el_maximum_stack_depth l \<and> el_maximum_stack_depth l \<le> MAX_EXPRESSION_STACK_DEPTH"

text \<open>What an instruction takes from the stack and leaves on it.\<close>

definition stack_effect :: "'n TypedInstruction \<Rightarrow> ExpressionError + (nat \<times> nat)" where
  "stack_effect i =
     (case i of
        LoadPort _ \<Rightarrow> Inr (0, 1)
      | Literal _ \<Rightarrow> Inr (0, 1)
      | GetField _ \<Rightarrow> Inr (1, 1)
      | ArrayLength \<Rightarrow> Inr (1, 1)
      | BooleanNot \<Rightarrow> Inr (1, 1)
      | Select \<Rightarrow> Inr (3, 1)
      | MakeArray item_count \<Rightarrow> Inr (unat item_count, 1)
      | MakeObject ordered_fields \<Rightarrow>
          if 65535 < length ordered_fields \<or> \<not> distinct ordered_fields then Inl InvalidObjectFields
          else Inr (length ordered_fields, 1)
      | _ \<Rightarrow> Inr (2, 1))"

text \<open>One round of the validation loop; the state is the depth and the maximum so far.\<close>

definition validate_instruction ::
  "('n, 'z) expression_env_scheme \<Rightarrow> ExactDataPortRef list \<Rightarrow> ExpressionLimits \<Rightarrow> nat \<times> nat \<Rightarrow>
   'n TypedInstruction \<Rightarrow> ExpressionError + (nat \<times> nat)" where
  "validate_instruction env input_ports limits st i =
     (let (depth, maximum_depth) = st in
      rbind (stack_effect i) (\<lambda>(consumed, produced).
      if depth < consumed then Inl StackUnderflow
      else
        rbind (case i of
            LoadPort port \<Rightarrow> fail_if (port \<notin> set input_ports) UndeclaredInput
          | Literal v \<Rightarrow> map_err InvalidLiteral (closed_validate env v)
          | _ \<Rightarrow> Inr ()) (\<lambda>_.
        let depth = depth - consumed + produced;
            maximum_depth = max maximum_depth depth
        in if unat (el_maximum_stack_depth limits) < maximum_depth then Inl LimitExceeded
           else Inr (depth, maximum_depth))))"

definition validate_program ::
  "('n, 'z) expression_env_scheme \<Rightarrow> ExactDataPortRef list \<Rightarrow> 'n TypedInstruction list \<Rightarrow>
   ExpressionLimits \<Rightarrow> ExpressionError + u16" where
  "validate_program env input_ports instructions limits =
     (if \<not> bounded_by_absolute limits
         \<or> el_maximum_input_ports limits < length input_ports
         \<or> instructions = []
         \<or> el_maximum_instructions limits < length instructions
         \<or> \<not> distinct input_ports
      then Inl LimitExceeded
      else
        rbind (fold_result (validate_instruction env input_ports limits) (0, 0) instructions)
          (\<lambda>(depth, maximum_depth).
        if depth \<noteq> 1 then Inl InvalidResultArity
        else if maximum_depth < 65536 then Inr (word_of_nat maximum_depth)
        else Inl LimitExceeded))"

text \<open>The document the semantic digest is computed over.\<close>

definition port_json :: "ExactDataPortRef \<Rightarrow> 'n Json" where
  "port_json p =
     (case p of
        RunInput d \<Rightarrow> json_object [(''source'', String ''run_input''), (''schema_digest'', String d)]
      | NodeOutput n k d \<Rightarrow> json_object
          [(''source'', String ''node_output''), (''producer_node_id'', String n), (''port_id'', String k),
           (''schema_digest'', String d)])"

definition closed_json :: "'n ClosedJsonValue \<Rightarrow> 'n Json" where
  "closed_json c = json_object
     [(''schema_digest'', String (cj_schema_digest c)), (''value'', cj_value c),
      (''canonical_digest'', String (cj_canonical_digest c))]"

definition instruction_json :: "('n, 'z) expression_env_scheme \<Rightarrow> 'n TypedInstruction \<Rightarrow> 'n Json" where
  "instruction_json env i =
     (let op = (\<lambda>name rest. json_object ((''op'', String name) # rest)) in
      case i of
        LoadPort port \<Rightarrow> op ''load_port'' [(''port'', port_json port)]
      | Literal v \<Rightarrow> op ''literal'' [(''value'', closed_json v)]
      | GetField field \<Rightarrow> op ''get_field'' [(''field'', String field)]
      | GetIndex \<Rightarrow> op ''get_index'' []
      | ArrayLength \<Rightarrow> op ''array_length'' []
      | MakeArray item_count \<Rightarrow> op ''make_array'' [(''item_count'', json_number env (ucast item_count))]
      | MakeObject fs \<Rightarrow> op ''make_object'' [(''ordered_fields'', Array (map String fs))]
      | Equal \<Rightarrow> op ''equal'' []
      | NotEqual \<Rightarrow> op ''not_equal'' []
      | Less \<Rightarrow> op ''less'' []
      | LessOrEqual \<Rightarrow> op ''less_or_equal'' []
      | Greater \<Rightarrow> op ''greater'' []
      | GreaterOrEqual \<Rightarrow> op ''greater_or_equal'' []
      | BooleanAnd \<Rightarrow> op ''boolean_and'' []
      | BooleanOr \<Rightarrow> op ''boolean_or'' []
      | BooleanNot \<Rightarrow> op ''boolean_not'' []
      | IntegerAdd \<Rightarrow> op ''integer_add'' []
      | IntegerSubtract \<Rightarrow> op ''integer_subtract'' []
      | DecimalAdd \<Rightarrow> op ''decimal_add'' []
      | DecimalSubtract \<Rightarrow> op ''decimal_subtract'' []
      | StringConcat \<Rightarrow> op ''string_concat'' []
      | Coalesce \<Rightarrow> op ''coalesce'' []
      | Select \<Rightarrow> op ''select'' [])"

definition program_digest ::
  "('n, 'z) expression_env_scheme \<Rightarrow> u32 \<Rightarrow> ExactDataPortRef list \<Rightarrow> 'n TypedInstruction list \<Rightarrow>
   Sha256Digest \<Rightarrow> u16 \<Rightarrow> ExpressionError + Sha256Digest" where
  "program_digest env expression_version input_ports instructions output_schema_digest maximum_stack_depth =
     document_digest env ExpressionError.Canonicalization (json_object
       [(''expression_version'', json_number env (ucast expression_version)),
        (''input_ports'', Array (map port_json input_ports)),
        (''instructions'', Array (map (instruction_json env) instructions)),
        (''output_schema_digest'', String output_schema_digest),
        (''maximum_stack_depth'', json_number env (ucast maximum_stack_depth))])"

record 'n TypedExpressionProgram =
  xp_expression_version :: u32
  xp_input_ports :: "ExactDataPortRef list"
  xp_instructions :: "'n TypedInstruction list"
  xp_output_schema_digest :: Sha256Digest
  xp_maximum_stack_depth :: u16
  xp_semantic_digest :: Sha256Digest

definition program_build ::
  "('n, 'z) expression_env_scheme \<Rightarrow> ExactDataPortRef list \<Rightarrow> 'n TypedInstruction list \<Rightarrow> Sha256Digest \<Rightarrow>
   ExpressionLimits \<Rightarrow> ExpressionError + 'n TypedExpressionProgram" where
  "program_build env input_ports instructions output_schema_digest limits =
     rbind (validate_program env input_ports instructions limits) (\<lambda>maximum_stack_depth.
     rbind (program_digest env 1 input_ports instructions output_schema_digest maximum_stack_depth) (\<lambda>digest.
     Inr \<lparr>xp_expression_version = 1, xp_input_ports = input_ports, xp_instructions = instructions,
          xp_output_schema_digest = output_schema_digest, xp_maximum_stack_depth = maximum_stack_depth,
          xp_semantic_digest = digest\<rparr>))"

definition program_validate ::
  "('n, 'z) expression_env_scheme \<Rightarrow> 'n TypedExpressionProgram \<Rightarrow> ExpressionLimits \<Rightarrow> ExpressionError + unit" where
  "program_validate env p limits =
     (if xp_expression_version p \<noteq> 1 then Inl UnsupportedVersion
      else
        rbind (validate_program env (xp_input_ports p) (xp_instructions p) limits) (\<lambda>maximum_stack_depth.
        if maximum_stack_depth \<noteq> xp_maximum_stack_depth p then Inl DigestMismatch
        else
          rbind (program_digest env (xp_expression_version p) (xp_input_ports p) (xp_instructions p)
            (xp_output_schema_digest p) (xp_maximum_stack_depth p)) (\<lambda>digest.
          if digest \<noteq> xp_semantic_digest p then Inl DigestMismatch else Inr ())))"

section \<open>Evaluation\<close>

text \<open>The stack is a list with its top first.\<close>

definition pop :: "'n Json list \<Rightarrow> ExpressionError + ('n Json \<times> 'n Json list)" where
  "pop stack = (case stack of [] \<Rightarrow> Inl StackUnderflow | v # rest \<Rightarrow> Inr (v, rest))"

definition pop_bool :: "'n Json list \<Rightarrow> ExpressionError + (bool \<times> 'n Json list)" where
  "pop_bool stack =
     rbind (pop stack) (\<lambda>(v, rest). case v of Bool b \<Rightarrow> Inr (b, rest) | _ \<Rightarrow> Inl TypeMismatch)"

definition pop_integer ::
  "('n, 'z) expression_env_scheme \<Rightarrow> 'n Json list \<Rightarrow> ExpressionError + (int \<times> 'n Json list)" where
  "pop_integer env stack =
     rbind (pop stack) (\<lambda>(v, rest).
       case v of
         Number n \<Rightarrow> rbind (ok_or TypeMismatch (sj_as_i64 env n)) (\<lambda>i. Inr (i, rest))
       | _ \<Rightarrow> Inl TypeMismatch)"

definition pop_string :: "'n Json list \<Rightarrow> ExpressionError + (string \<times> 'n Json list)" where
  "pop_string stack =
     rbind (pop stack) (\<lambda>(v, rest). case v of String s \<Rightarrow> Inr (s, rest) | _ \<Rightarrow> Inl TypeMismatch)"

definition json_index :: "('n, 'z) expression_env_scheme \<Rightarrow> 'n Json \<Rightarrow> ExpressionError + nat" where
  "json_index env v =
     (case v of
        Number n \<Rightarrow> rbind (ok_or TypeMismatch (sj_as_u64 env n)) (\<lambda>w. Inr (unat w))
      | _ \<Rightarrow> Inl TypeMismatch)"

definition decimal_from_value :: "('n, 'z) expression_env_scheme \<Rightarrow> 'n Json \<Rightarrow> ExpressionError + ExactDecimal" where
  "decimal_from_value env v =
     (case v of Number n \<Rightarrow> parse_decimal (xe_number_text env n) | _ \<Rightarrow> Inl TypeMismatch)"

definition into_number :: "('n, 'z) expression_env_scheme \<Rightarrow> ExactDecimal \<Rightarrow> ExpressionError + 'n" where
  "into_number env d = ok_or ArithmeticOverflow (xe_from_text env (decimal_text d))"

definition string_cmp :: "string \<Rightarrow> string \<Rightarrow> Ordering" where
  "string_cmp a b = (if a < b then Ordering.Less else if a = b then Ordering.Equal else Ordering.Greater)"

definition compare_values ::
  "('n, 'z) expression_env_scheme \<Rightarrow> 'n Json \<Rightarrow> 'n Json \<Rightarrow> ExpressionError + Ordering" where
  "compare_values env left right =
     (case (left, right) of
        (String l, String r) \<Rightarrow> Inr (string_cmp l r)
      | (Number _, Number _) \<Rightarrow>
          rbind (decimal_from_value env left) (\<lambda>l.
          rbind (decimal_from_value env right) (\<lambda>r. decimal_compare l r))
      | _ \<Rightarrow> Inl TypeMismatch)"

definition is_number :: "'n Json \<Rightarrow> bool" where
  "is_number v = (case v of Number _ \<Rightarrow> True | _ \<Rightarrow> False)"

definition MAX_SAFE_JSON_INTEGER :: int where
  "MAX_SAFE_JSON_INTEGER = 9007199254740991"

definition integer_result ::
  "('n, 'z) expression_env_scheme \<Rightarrow> int \<Rightarrow> ExpressionError + 'n Json" where
  "integer_result env r =
     rbind (ok_or ArithmeticOverflow (i128_checked r)) (\<lambda>v.
     if \<not> \<bar>v\<bar> \<le> MAX_SAFE_JSON_INTEGER then Inl ArithmeticOverflow
     else Inr (Number (xe_from_i64 env v)))"

type_synonym 'n expression_inputs = "(ExactDataPortRef \<times> 'n ClosedJsonValue) list"

definition pop2 :: "'n Json list \<Rightarrow> ExpressionError + ('n Json \<times> 'n Json \<times> 'n Json list)" where
  "pop2 stack =
     rbind (pop stack) (\<lambda>(right, rest). rbind (pop rest) (\<lambda>(left, rest'). Inr (left, right, rest')))"

definition comparison_result :: "'n TypedInstruction \<Rightarrow> Ordering \<Rightarrow> bool" where
  "comparison_result i r =
     (case i of
        Less \<Rightarrow> r = Ordering.Less
      | LessOrEqual \<Rightarrow> r \<noteq> Ordering.Greater
      | Greater \<Rightarrow> r = Ordering.Greater
      | _ \<Rightarrow> r \<noteq> Ordering.Less)"

definition evaluate_comparison ::
  "('n, 'z) expression_env_scheme \<Rightarrow> 'n TypedInstruction \<Rightarrow> 'n Json list \<Rightarrow> ExpressionError + 'n Json list" where
  "evaluate_comparison env i stack =
     rbind (pop2 stack) (\<lambda>(left, right, rest).
     rbind (compare_values env left right) (\<lambda>r.
     Inr (Bool (comparison_result i r) # rest)))"

definition evaluate_equality ::
  "('n, 'z) expression_env_scheme \<Rightarrow> bool \<Rightarrow> 'n Json list \<Rightarrow> ExpressionError + 'n Json list" where
  "evaluate_equality env positive stack =
     rbind (pop2 stack) (\<lambda>(left, right, rest).
     rbind (if is_number left \<and> is_number right
       then rbind (compare_values env left right) (\<lambda>r. Inr (r = Ordering.Equal))
       else Inr (left = right)) (\<lambda>eq.
     Inr (Bool (if positive then eq else \<not> eq) # rest)))"

definition evaluate_instruction ::
  "('n, 'z) expression_env_scheme \<Rightarrow> 'n expression_inputs \<Rightarrow> 'n Json list \<Rightarrow> 'n TypedInstruction \<Rightarrow>
   ExpressionError + 'n Json list" where
  "evaluate_instruction env inputs stack i =
     (case i of
        LoadPort port \<Rightarrow>
          rbind (ok_or MissingInput (map_of inputs port)) (\<lambda>v.
          rbind (map_err InvalidInput (closed_validate env v)) (\<lambda>_.
          if cj_schema_digest v \<noteq> port_schema_digest port then Inl SchemaMismatch
          else Inr (cj_value v # stack)))
      | Literal v \<Rightarrow> Inr (cj_value v # stack)
      | GetField field \<Rightarrow>
          rbind (pop stack) (\<lambda>(v, rest).
          case v of
            Object m \<Rightarrow> rbind (ok_or MissingField (map_of m field)) (\<lambda>x. Inr (x # rest))
          | _ \<Rightarrow> Inl TypeMismatch)
      | GetIndex \<Rightarrow>
          rbind (pop stack) (\<lambda>(iv, rest).
          rbind (json_index env iv) (\<lambda>index.
          rbind (pop rest) (\<lambda>(v, rest').
          case v of
            Array xs \<Rightarrow> if index < length xs then Inr (xs ! index # rest') else Inl InvalidIndex
          | _ \<Rightarrow> Inl TypeMismatch)))
      | ArrayLength \<Rightarrow>
          rbind (pop stack) (\<lambda>(v, rest).
          case v of
            Array xs \<Rightarrow> Inr (json_number env (word_of_nat (length xs)) # rest)
          | _ \<Rightarrow> Inl TypeMismatch)
      | MakeArray item_count \<Rightarrow>
          if length stack < unat item_count then Inl StackUnderflow
          else Inr (Array (rev (take (unat item_count) stack)) # drop (unat item_count) stack)
      | MakeObject ordered_fields \<Rightarrow>
          if length stack < length ordered_fields then Inl StackUnderflow
          else Inr (json_object (zip ordered_fields (rev (take (length ordered_fields) stack)))
            # drop (length ordered_fields) stack)
      | Equal \<Rightarrow> evaluate_equality env True stack
      | NotEqual \<Rightarrow> evaluate_equality env False stack
      | Less \<Rightarrow> evaluate_comparison env i stack
      | LessOrEqual \<Rightarrow> evaluate_comparison env i stack
      | Greater \<Rightarrow> evaluate_comparison env i stack
      | GreaterOrEqual \<Rightarrow> evaluate_comparison env i stack
      | BooleanAnd \<Rightarrow>
          rbind (pop_bool stack) (\<lambda>(right, rest). rbind (pop_bool rest) (\<lambda>(left, rest').
          Inr (Bool (left \<and> right) # rest')))
      | BooleanOr \<Rightarrow>
          rbind (pop_bool stack) (\<lambda>(right, rest). rbind (pop_bool rest) (\<lambda>(left, rest').
          Inr (Bool (left \<or> right) # rest')))
      | BooleanNot \<Rightarrow> rbind (pop_bool stack) (\<lambda>(v, rest). Inr (Bool (\<not> v) # rest))
      | IntegerAdd \<Rightarrow>
          rbind (pop_integer env stack) (\<lambda>(right, rest). rbind (pop_integer env rest) (\<lambda>(left, rest').
          rbind (integer_result env (left + right)) (\<lambda>v. Inr (v # rest'))))
      | IntegerSubtract \<Rightarrow>
          rbind (pop_integer env stack) (\<lambda>(right, rest). rbind (pop_integer env rest) (\<lambda>(left, rest').
          rbind (integer_result env (left - right)) (\<lambda>v. Inr (v # rest'))))
      | DecimalAdd \<Rightarrow>
          rbind (pop stack) (\<lambda>(rv, rest). rbind (decimal_from_value env rv) (\<lambda>right.
          rbind (pop rest) (\<lambda>(lv, rest'). rbind (decimal_from_value env lv) (\<lambda>left.
          rbind (decimal_add left right) (\<lambda>d. rbind (into_number env d) (\<lambda>n.
          Inr (Number n # rest')))))))
      | DecimalSubtract \<Rightarrow>
          rbind (pop stack) (\<lambda>(rv, rest). rbind (decimal_from_value env rv) (\<lambda>right.
          rbind (pop rest) (\<lambda>(lv, rest'). rbind (decimal_from_value env lv) (\<lambda>left.
          rbind (decimal_sub left right) (\<lambda>d. rbind (into_number env d) (\<lambda>n.
          Inr (Number n # rest')))))))
      | StringConcat \<Rightarrow>
          rbind (pop_string stack) (\<lambda>(right, rest). rbind (pop_string rest) (\<lambda>(left, rest').
          Inr (String (left @ right) # rest')))
      | Coalesce \<Rightarrow>
          rbind (pop2 stack) (\<lambda>(left, right, rest). Inr ((if left = Null then right else left) # rest))
      | Select \<Rightarrow>
          rbind (pop stack) (\<lambda>(otherwise, rest). rbind (pop rest) (\<lambda>(selected, rest').
          rbind (pop_bool rest') (\<lambda>(condition, rest'').
          Inr ((if condition then selected else otherwise) # rest'')))))"

definition evaluate ::
  "('n, 'z) expression_env_scheme \<Rightarrow> 'n TypedExpressionProgram \<Rightarrow> 'n expression_inputs \<Rightarrow>
   ExpressionLimits \<Rightarrow> ExpressionError + 'n ClosedJsonValue" where
  "evaluate env p inputs limits =
     rbind (program_validate env p limits) (\<lambda>_.
     if list_ex (\<lambda>(port, _). port \<notin> set (xp_input_ports p)) inputs then Inl UnexpectedInput
     else if length inputs \<noteq> length (remdups (xp_input_ports p)) then Inl MissingInput
     else
       rbind (fold_result (evaluate_instruction env inputs) [] (xp_instructions p)) (\<lambda>stack.
       rbind (map_err InvalidResultArity (pop stack)) (\<lambda>(v, rest).
       if rest \<noteq> [] then Inl InvalidResultArity
       else map_err InvalidResult (closed_build env (xp_output_schema_digest p) v))))"

end
