(* ===== verification/ExpressionSafety.thy ===== *)
theory ExpressionSafety
  imports Expression
begin

text \<open>
  What static validation of a typed expression buys at run time: the evaluator never runs out of
  operands, never leaves a wrong number of results, never misses an input and never grows its
  stack beyond the declared maximum; what remains are errors of the data.
\<close>

section \<open>Errors that depend on the data\<close>

definition data_error :: "ExpressionError \<Rightarrow> bool" where
  "data_error e \<longleftrightarrow>
     e \<in> {InvalidInput, SchemaMismatch, TypeMismatch, MissingField, InvalidIndex, ArithmeticOverflow,
          InvalidResult}"

lemma data_error_simps [simp]:
  "data_error InvalidInput" "data_error SchemaMismatch" "data_error TypeMismatch"
  "data_error MissingField" "data_error InvalidIndex" "data_error ArithmeticOverflow"
  "data_error InvalidResult" "\<not> data_error StackUnderflow" "\<not> data_error MissingInput"
  by (simp_all add: data_error_def)

lemma parse_decimal_error: "parse_decimal s = Inl e \<Longrightarrow> data_error e"
  by (auto simp: parse_decimal_def Let_def data_error_def rbind_eq_Inl rbind_eq_Inr ok_or_eq_Inl checked_power_of_ten_def
      split: option.splits prod.splits if_splits)

lemma aligned_error: "aligned a b = Inl e \<Longrightarrow> data_error e"
  by (auto simp: aligned_def Let_def data_error_def rbind_eq_Inl ok_or_eq_Inl checked_power_of_ten_def split: if_splits)

lemma decimal_errors:
  "decimal_from_value env v = Inl e \<Longrightarrow> data_error e"
  "decimal_add a b = Inl e \<Longrightarrow> data_error e" "decimal_sub a b = Inl e \<Longrightarrow> data_error e"
  "decimal_compare a b = Inl e \<Longrightarrow> data_error e" "into_number env d = Inl e \<Longrightarrow> data_error e"
  by (auto simp: decimal_from_value_def decimal_add_def decimal_sub_def decimal_compare_def into_number_def
      rbind_eq_Inl ok_or_eq_Inl split: Json.splits dest: parse_decimal_error aligned_error)

lemma compare_values_error: "compare_values env l r = Inl e \<Longrightarrow> data_error e"
  by (auto simp: compare_values_def rbind_eq_Inl split: Json.splits dest: decimal_errors)

lemma json_index_error: "json_index env v = Inl e \<Longrightarrow> data_error e"
  by (auto simp: json_index_def rbind_eq_Inl ok_or_eq_Inl data_error_def split: Json.splits)

lemma integer_result_error: "integer_result env r = Inl e \<Longrightarrow> data_error e"
  by (auto simp: integer_result_def rbind_eq_Inl ok_or_eq_Inl data_error_def split: if_splits)

section \<open>One instruction\<close>

lemma pop_eq:
  "pop stack = Inr (v, rest) \<longleftrightarrow> stack = v # rest" "pop stack = Inl e \<longleftrightarrow> stack = [] \<and> e = StackUnderflow"
  by (auto simp: pop_def split: list.splits)

lemma pop2_eq:
  "pop2 stack = Inr (l, r, rest) \<longleftrightarrow> stack = r # l # rest"
  "pop2 stack = Inl e \<longleftrightarrow> length stack < 2 \<and> e = StackUnderflow"
proof -
  show "pop2 stack = Inr (l, r, rest) \<longleftrightarrow> stack = r # l # rest"
    by (auto simp: pop2_def rbind_eq_Inr pop_eq)
  show "pop2 stack = Inl e \<longleftrightarrow> length stack < 2 \<and> e = StackUnderflow"
    by (cases stack; cases "drop 1 stack") (auto simp: pop2_def pop_def)
qed

lemma pop_bool_eq:
  "pop_bool stack = Inr (b, rest) \<longleftrightarrow> stack = Bool b # rest"
  "pop_bool stack = Inl e \<Longrightarrow> stack = [] \<and> e = StackUnderflow \<or> stack \<noteq> [] \<and> data_error e"
  by (cases stack; cases "hd stack"; auto simp: pop_bool_def pop_def rbind_eq_Inr rbind_eq_Inl ok_or_eq_Inl)+

lemma pop_integer_eq:
  "pop_integer env stack = Inr (i, rest) \<Longrightarrow> \<exists>v. stack = v # rest"
  "pop_integer env stack = Inl e \<Longrightarrow> stack = [] \<and> e = StackUnderflow \<or> stack \<noteq> [] \<and> data_error e"
  by (cases stack; cases "hd stack"; auto simp: pop_integer_def pop_def rbind_eq_Inr rbind_eq_Inl ok_or_eq_Inl)+

lemma pop_string_eq:
  "pop_string stack = Inr (s, rest) \<longleftrightarrow> stack = String s # rest"
  "pop_string stack = Inl e \<Longrightarrow> stack = [] \<and> e = StackUnderflow \<or> stack \<noteq> [] \<and> data_error e"
  by (cases stack; cases "hd stack"; auto simp: pop_string_def pop_def rbind_eq_Inr rbind_eq_Inl ok_or_eq_Inl)+

lemmas pop_inversion = pop_eq pop2_eq pop_bool_eq(1) pop_string_eq(1)

text \<open>Popping a value of one kind.\<close>

lemma case_json_eq_Inr:
  "(case v of Object m \<Rightarrow> fo m | _ \<Rightarrow> Inl e) = Inr x \<longleftrightarrow> (\<exists>m. v = Object m \<and> fo m = Inr x)"
  "(case v of Array a \<Rightarrow> fa a | _ \<Rightarrow> Inl e) = Inr x \<longleftrightarrow> (\<exists>a. v = Array a \<and> fa a = Inr x)"
  by (cases v; simp)+

lemma case_json_eq_Inl:
  "(case v of Object m \<Rightarrow> fo m | _ \<Rightarrow> Inl e) = Inl x \<longleftrightarrow>
     (\<exists>m. v = Object m \<and> fo m = Inl x) \<or> (\<forall>m. v \<noteq> Object m) \<and> x = e"
  "(case v of Array a \<Rightarrow> fa a | _ \<Rightarrow> Inl e) = Inl x \<longleftrightarrow>
     (\<exists>a. v = Array a \<and> fa a = Inl x) \<or> (\<forall>a. v \<noteq> Array a) \<and> x = e"
  by (cases v; auto)+

lemmas evaluate_defs = evaluate_instruction_def evaluate_equality_def evaluate_comparison_def

text \<open>The stack moves as \<open>stack_effect\<close> says.\<close>

lemma evaluate_instruction_length:
  assumes "stack_effect i = Inr (c, p)" and "evaluate_instruction env inputs stack i = Inr stack'"
  shows "c \<le> length stack \<and> length stack' = length stack - c + p"
  using assms
  by (cases i)
    (auto simp: stack_effect_def evaluate_defs rbind_eq_Inr pop_inversion case_json_eq_Inr
      dest!: pop_integer_eq(1) split: if_splits)

lemma stack_shapes:
  "Suc 0 \<le> length s \<Longrightarrow> \<exists>a r. s = a # r"
  "2 \<le> length s \<Longrightarrow> \<exists>a b r. s = a # b # r"
  "3 \<le> length s \<Longrightarrow> \<exists>a b d r. s = a # b # d # r"
  by (auto simp: numeral_2_eq_2 numeral_3_eq_3 Suc_le_length_iff)

lemmas evaluate_errors = decimal_errors compare_values_error json_index_error integer_result_error

lemmas evaluate_unfold = evaluate_defs pop_def pop2_def pop_bool_def pop_integer_def pop_string_def
  rbind_eq_Inl ok_or_eq_Inl map_err_eq_Inl

lemma evaluate_instruction_error:
  assumes "stack_effect i = Inr (c, p)" and "c \<le> length stack"
    and "\<And>port. i = LoadPort port \<Longrightarrow> map_of inputs port \<noteq> None"
    and "evaluate_instruction env inputs stack i = Inl e"
  shows "data_error e"
proof -
  show ?thesis
  proof (cases "\<exists>n. i = MakeArray n \<or> (\<exists>fs. i = MakeObject fs)")
    case True
    with assms show ?thesis by (auto simp: stack_effect_def evaluate_instruction_def split: if_splits)
  next
    case plain: False
    then consider "c = 0" | "c = Suc 0" | "c = 2" | "c = 3" and "i = Select"
      using assms(1) by (cases i) (auto simp: stack_effect_def)
    then show ?thesis
    proof cases
      case 1
      with plain assms show ?thesis
        by (cases i) (auto simp: stack_effect_def evaluate_unfold split: if_splits)
    next
      case 2
      with assms(2) obtain a r where "stack = a # r" using stack_shapes(1) [of stack] by blast
      with 2 plain assms show ?thesis
        by (cases i) (auto simp: stack_effect_def evaluate_unfold case_json_eq_Inl split: Json.splits)
    next
      case 3
      with assms(2) obtain a b r where "stack = a # b # r" using stack_shapes(2) [of stack] by blast
      with 3 plain assms show ?thesis
        by (cases i; cases b) (auto simp: stack_effect_def evaluate_unfold rbind_eq_Inr dest: evaluate_errors
            split: Json.splits if_splits)
    next
      case 4
      with assms(2) obtain a b d r where "stack = a # b # d # r" using stack_shapes(3) [of stack] by blast
      with 4 assms show ?thesis by (cases d) (auto simp: evaluate_unfold)
    qed
  qed
qed

end
