(* ===== verification/ExpressionRuns.thy ===== *)
theory ExpressionRuns
  imports ExpressionSafety
begin

text \<open>
  Whole programs: the validated depth is the depth of the evaluator's stack at every instruction,
  so a validated program that gets its declared inputs ends with one closed value or with an error
  of its data.  Decimal instructions are exact, and an instruction stream is canonical text.
\<close>

section \<open>Two runs over one instruction stream\<close>

text \<open>A loop that is watched step by step by a loop that succeeded.\<close>

lemma fold_result_simulation:
  assumes "fold_result f s xs = Inr s'" and "R s t"
    and "\<And>s s1 t x. x \<in> set xs \<Longrightarrow> f s x = Inr s1 \<Longrightarrow> R s t \<Longrightarrow>
          (case g t x of Inl e \<Rightarrow> E e | Inr t1 \<Rightarrow> R s1 t1)"
  shows "case fold_result g t xs of Inl e \<Rightarrow> E e | Inr t' \<Rightarrow> R s' t'"
  using assms
proof (induction xs arbitrary: s t)
  case (Cons x xs)
  from Cons.prems(1) obtain s1 where s1: "f s x = Inr s1" "fold_result f s1 xs = Inr s'"
    by (auto simp: rbind_eq_Inr)
  from Cons.prems(3) [OF _ s1(1) Cons.prems(2)] have step: "case g t x of Inl e \<Rightarrow> E e | Inr t1 \<Rightarrow> R s1 t1"
    by simp
  show ?case
  proof (cases "g t x")
    case (Inr t1)
    with step have "R s1 t1" by simp
    from Cons.IH [OF s1(2) this] Cons.prems(3) Inr show ?thesis by simp
  qed (use step in simp)
qed simp

lemma fold_result_append:
  "fold_result f s (xs @ ys) = rbind (fold_result f s xs) (\<lambda>s'. fold_result f s' ys)"
proof (induction xs arbitrary: s)
  case (Cons x xs)
  then show ?case by (cases "f s x") simp_all
qed simp

lemma validate_instruction_Inr:
  assumes "validate_instruction env ports limits (d, m) i = Inr (d1, m1)"
  obtains c p where "stack_effect i = Inr (c, p)" and "c \<le> d" and "d1 = d - c + p" and "m1 = max m d1"
    and "m1 \<le> unat (el_maximum_stack_depth limits)" and "\<And>port. i = LoadPort port \<Longrightarrow> port \<in> set ports"
proof -
  from assms obtain c p where "stack_effect i = Inr (c, p)" "c \<le> d" "d1 = d - c + p" "m1 = max m d1"
      "m1 \<le> unat (el_maximum_stack_depth limits)"
    by (auto simp: validate_instruction_def Let_def rbind_eq_Inr not_less split: if_splits)
  moreover from assms have "\<And>port. i = LoadPort port \<Longrightarrow> port \<in> set ports"
    by (auto simp: validate_instruction_def Let_def rbind_eq_Inr fail_if_eq_Inr split: if_splits)
  ultimately show ?thesis by (rule that)
qed

lemma validation_maximum_grows:
  assumes "fold_result (validate_instruction env ports limits) (d, m) is = Inr (d1, m1)"
  shows "m \<le> m1"
  using assms
proof (induction "is" arbitrary: d m)
  case (Cons i "is")
  then obtain d2 m2 where "validate_instruction env ports limits (d, m) i = Inr (d2, m2)"
    and "fold_result (validate_instruction env ports limits) (d2, m2) is = Inr (d1, m1)"
    by (auto simp: rbind_eq_Inr)
  with Cons.IH [of d2 m2] show ?case by (auto elim!: validate_instruction_Inr)
qed simp

lemma evaluation_step_follows:
  assumes "validate_instruction env ports limits s i = Inr s1" and "length stack = fst s \<and> fst s \<le> snd s"
    and "set ports \<subseteq> dom (map_of inputs)"
  shows "case evaluate_instruction env' inputs stack i of Inl e \<Rightarrow> data_error e
    | Inr t1 \<Rightarrow> length t1 = fst s1 \<and> fst s1 \<le> snd s1"
proof -
  obtain d0 m0 d1 m1 where s: "s = (d0, m0)" "s1 = (d1, m1)" by (cases s; cases s1)
  from assms(1) [unfolded s] obtain c p where e: "stack_effect i = Inr (c, p)" "c \<le> d0" "d1 = d0 - c + p"
      "m1 = max m0 d1" and l: "\<And>port. i = LoadPort port \<Longrightarrow> port \<in> set ports"
    by (rule validate_instruction_Inr) blast
  have inputs: "map_of inputs port \<noteq> None" if "i = LoadPort port" for port
    using subsetD [OF assms(3) l [OF that]] by auto
  show ?thesis
  proof (cases "evaluate_instruction env' inputs stack i")
    case (Inl err)
    with evaluate_instruction_error [OF e(1) _ inputs Inl] e(2) assms(2) s show ?thesis by simp
  next
    case (Inr stack')
    from evaluate_instruction_length [OF e(1) Inr] e assms(2) s Inr show ?thesis by simp
  qed
qed

lemma evaluation_follows_validation:
  assumes "fold_result (validate_instruction env ports limits) (0, 0) is = Inr (d, m)"
    and "set ports \<subseteq> dom (map_of inputs)"
  shows "case fold_result (evaluate_instruction env' inputs) [] is of
      Inl e \<Rightarrow> data_error e | Inr stack \<Rightarrow> length stack = d \<and> d \<le> m"
  by (rule fold_result_simulation [OF assms(1), where R = "\<lambda>st stack. length stack = fst st \<and> fst st \<le> snd st",
      unfolded fst_conv snd_conv]) (simp_all add: evaluation_step_follows [OF _ _ assms(2)])

section \<open>Validated programs\<close>

lemma validate_program_Inr:
  assumes "validate_program env ports is limits = Inr w"
  obtains m where "fold_result (validate_instruction env ports limits) (0, 0) is = Inr (1, m)"
    and "unat w = m" and "is \<noteq> []" and "distinct ports" and "bounded_by_absolute limits"
    and "length is \<le> el_maximum_instructions limits"
  using assms
  by (auto simp: validate_program_def rbind_eq_Inr unat_of_nat split: if_splits)

lemma validated_maximum_within_limits:
  assumes "fold_result (validate_instruction env ports limits) st is = Inr (d, m)"
    and "snd st \<le> unat (el_maximum_stack_depth limits)"
  shows "m \<le> unat (el_maximum_stack_depth limits)"
proof -
  have "snd (d, m) \<le> unat (el_maximum_stack_depth limits)"
  proof (rule fold_result_invariant [OF assms(1),
        where P = "\<lambda>_ s. snd s \<le> unat (el_maximum_stack_depth limits)"])
    fix y t t'
    assume "validate_instruction env ports limits t y = Inr t'"
    then show "snd t' \<le> unat (el_maximum_stack_depth limits)"
      by (cases t; cases t') (auto elim: validate_instruction_Inr)
  qed (use assms(2) in simp)
  then show ?thesis by simp
qed

lemma program_validate_Inr:
  "program_validate env p limits = Inr u \<longleftrightarrow>
     xp_expression_version p = 1
     \<and> validate_program env (xp_input_ports p) (xp_instructions p) limits = Inr (xp_maximum_stack_depth p)
     \<and> program_digest env 1 (xp_input_ports p) (xp_instructions p) (xp_output_schema_digest p)
         (xp_maximum_stack_depth p) = Inr (xp_semantic_digest p)"
  by (auto simp: program_validate_def rbind_eq_Inr)

lemma closed_build_Inr:
  "closed_build env d v = Inr c \<Longrightarrow> cj_schema_digest c = d \<and> cj_value c = v \<and> closed_validate env c = Inr ()"
  by (auto simp: closed_build_def Let_def rbind_eq_Inr)

lemma keys_cover_ports:
  assumes "distinct (map fst inputs)" and "\<forall>x \<in> set inputs. fst x \<in> set ports"
    and "length inputs = length (remdups ports)"
  shows "dom (map_of inputs) = set ports"
proof -
  have "card (set (map fst inputs)) = card (set ports)"
    using distinct_card [OF assms(1)] assms(3) by (simp only: length_map length_remdups_card_conv)
  moreover have "set (map fst inputs) \<subseteq> set ports" using assms(2) by auto
  ultimately have "set (map fst inputs) = set ports" by (intro card_subset_eq) simp_all
  then show ?thesis by (simp only: dom_map_of_conv_image_fst set_map)
qed

lemma evaluate_validated:
  assumes "program_validate env p limits = Inr ()" and "distinct (map fst inputs)"
    and "set (map fst inputs) = set (xp_input_ports p)"
  obtains (data) e where "evaluate env p inputs limits = Inl e" and "data_error e"
    | (result) v where "evaluate env p inputs limits = map_err InvalidResult
        (closed_build env (xp_output_schema_digest p) v)"
proof -
  from assms(1) obtain m where m: "fold_result (validate_instruction env (xp_input_ports p) limits) (0, 0)
      (xp_instructions p) = Inr (1, m)"
    by (auto simp: program_validate_Inr elim: validate_program_Inr)
  have "dom (map_of inputs) = set (xp_input_ports p)"
    using assms(3) by (simp only: dom_map_of_conv_image_fst set_map)
  with evaluation_follows_validation [OF m] have run: "case fold_result (evaluate_instruction env inputs) []
      (xp_instructions p) of Inl e \<Rightarrow> data_error e | Inr stack \<Rightarrow> length stack = 1 \<and> 1 \<le> m" by blast
  have "length inputs = length (remdups (xp_input_ports p))"
    using distinct_card [OF assms(2)] assms(3) by (simp only: length_map length_remdups_card_conv)
  moreover have "\<not> list_ex (\<lambda>(port, _). port \<notin> set (xp_input_ports p)) inputs"
    using assms(3) by (force simp: list_ex_iff)
  ultimately have ev: "evaluate env p inputs limits =
      rbind (fold_result (evaluate_instruction env inputs) [] (xp_instructions p)) (\<lambda>stack.
       rbind (map_err InvalidResultArity (pop stack)) (\<lambda>(v, rest).
       if rest \<noteq> [] then Inl InvalidResultArity
       else map_err InvalidResult (closed_build env (xp_output_schema_digest p) v)))"
    by (simp add: evaluate_def assms(1))
  show ?thesis
  proof (cases "fold_result (evaluate_instruction env inputs) [] (xp_instructions p)")
    case (Inl e)
    with run ev show ?thesis by (intro data [of e]) simp_all
  next
    case (Inr stack)
    with run obtain v where "stack = [v]" by (auto simp: length_Suc_conv)
    with Inr ev show ?thesis by (intro result [of v]) (simp add: pop_def)
  qed
qed

section \<open>An example program\<close>

text \<open>
  Numbers are their own text; the canonical form of a number is its text, which the strict parser
  reads back.  The program adds its input to itself.
\<close>

definition ex_bytes :: "string \<Rightarrow> u8 list" where
  "ex_bytes s = map (\<lambda>c. word_of_nat (of_char c)) s"

definition ex_xenv :: "string expression_env" where
  "ex_xenv = \<lparr>de_number = (\<lambda>w. show_nat (unat w)),
     de_jcs = (\<lambda>v. Some (case v of Number s \<Rightarrow> ex_bytes s | _ \<Rightarrow> [])), de_sha256 = (\<lambda>b. take 32 (b @ replicate 32 0)),
     pe_uuid = \<lparr>uuid_parse = (\<lambda>_. None), uuid_show = (\<lambda>_. []), uuid_is_v7 = (\<lambda>_. False)\<rparr>,
     sj_read = (\<lambda>b. Some (Number (map (\<lambda>w. char_of (unat w)) b))), sj_as_i64 = (\<lambda>_. None),
     sj_as_u64 = (\<lambda>_. None), sj_as_f64 = (\<lambda>_. Some 0),
     xe_number_text = (\<lambda>s. s), xe_from_i64 = (\<lambda>_. ''0''), xe_from_text = Some\<rparr>"

definition ex_zero :: Sha256Digest where
  "ex_zero = ''sha256:'' @ lowercase_hex (replicate 32 0)"

definition ex_port :: ExactDataPortRef where
  "ex_port = RunInput ex_zero"

definition ex_number :: "string \<Rightarrow> string \<Rightarrow> string ClosedJsonValue" where
  "ex_number schema s = \<lparr>cj_schema_digest = schema, cj_value = Number s,
     cj_canonical_digest = ''sha256:'' @ lowercase_hex (de_sha256 ex_xenv (ex_bytes s))\<rparr>"

definition ex_program :: "string TypedExpressionProgram" where
  "ex_program = \<lparr>xp_expression_version = 1, xp_input_ports = [ex_port],
     xp_instructions = [LoadPort ex_port, LoadPort ex_port, DecimalAdd], xp_output_schema_digest = ex_zero,
     xp_maximum_stack_depth = 2, xp_semantic_digest = ''sha256:'' @ lowercase_hex (replicate 32 0)\<rparr>"

lemma ex_digest: "document_digest ex_xenv e (json_object fs) = Inr (''sha256:'' @ lowercase_hex (replicate 32 0))"
proof -
  have "de_sha256 ex_xenv [] = replicate 32 0" by (simp add: ex_xenv_def)
  moreover have "parse_digest (''sha256:'' @ lowercase_hex (replicate 32 0)) =
      Some (''sha256:'' @ lowercase_hex (replicate 32 0))" by code_simp
  ultimately show ?thesis
    by (simp add: document_digest_def canonical_digest_def canonical_json_def json_object_def ex_xenv_def)
qed

lemma ex_program_is_valid: "validate_program ex_xenv [ex_port] (xp_instructions ex_program) ABSOLUTE = Inr 2"
  by (simp add: validate_program_def bounded_by_absolute_def ABSOLUTE_def MAX_EXPRESSION_INSTRUCTIONS_def
      MAX_EXPRESSION_INPUT_PORTS_def MAX_EXPRESSION_STACK_DEPTH_def ex_program_def validate_instruction_def
      stack_effect_def)

lemma ex_program_validates: "program_validate ex_xenv ex_program ABSOLUTE = Inr ()"
  using ex_program_is_valid by (simp add: program_validate_Inr program_digest_def ex_digest ex_program_def)

lemma ex_reparse:
  assumes "length s \<le> 9"
  shows "parse_strict_json ex_xenv (ex_bytes s) MODEL_JSON_LIMITS = Inr (Number s)"
proof -
  have "of_char c < (256 :: nat)" for c :: char by simp
  then have "map (\<lambda>w. char_of (unat w)) (ex_bytes s) = s"
    by (simp add: ex_bytes_def comp_def unsigned_of_nat take_bit_nat_eq_self)
  with assms show ?thesis
    by (simp add: parse_strict_json_def json_limits_validate_def MODEL_JSON_LIMITS_def strict_number_def ex_xenv_def
        ex_bytes_def MAX_SAFE_JSON_INTEGER_def)
qed

definition ex_digest_of :: "string \<Rightarrow> string" where
  "ex_digest_of s = ''sha256:'' @ lowercase_hex (de_sha256 ex_xenv (ex_bytes s))"

lemma ex_number_closed:
  assumes "length s \<le> 9" and "parse_digest (ex_digest_of s) = Some (ex_digest_of s)"
  shows "closed_validate ex_xenv (ex_number d s) = Inr ()" and "closed_build ex_xenv d (Number s) = Inr (ex_number d s)"
proof -
  have bytes: "canonical_json ex_xenv (Number s) = Inr (ex_bytes s)" by (simp add: canonical_json_def ex_xenv_def)
  with assms(2) have "document_digest ex_xenv e (Number s) = Inr (ex_digest_of s)" for e :: ModelContractError
    by (simp add: document_digest_def canonical_digest_def ex_digest_of_def)
  moreover from this show "closed_validate ex_xenv (ex_number d s) = Inr ()"
    by (simp add: closed_validate_def ex_number_def bytes ex_reparse [OF assms(1)] ex_digest_of_def)
  ultimately show "closed_build ex_xenv d (Number s) = Inr (ex_number d s)"
    by (simp add: closed_build_def ex_number_def ex_digest_of_def)
qed

lemma ex_texts: "parse_digest (ex_digest_of ''1.5'') = Some (ex_digest_of ''1.5'')"
  "parse_digest (ex_digest_of ''3'') = Some (ex_digest_of ''3'')"
  by code_simp+

lemmas ex_closed = ex_number_closed [OF _ ex_texts(1), simplified] ex_number_closed [OF _ ex_texts(2), simplified]

lemma ex_run:
  "fold_result (evaluate_instruction ex_xenv [(ex_port, ex_number ex_zero ''1.5'')]) [] [LoadPort ex_port]
     = Inr [Number ''1.5'']"
  "evaluate_instruction ex_xenv [] [Number ''1.5'', Number ''1.5''] DecimalAdd = Inr [Number ''3'']"
proof -
  show "fold_result (evaluate_instruction ex_xenv [(ex_port, ex_number ex_zero ''1.5'')]) [] [LoadPort ex_port]
     = Inr [Number ''1.5'']"
    using ex_closed(1) [of ex_zero] by (simp add: evaluate_instruction_def) (simp add: ex_number_def ex_port_def port_schema_digest_def)
  show "evaluate_instruction ex_xenv [] [Number ''1.5'', Number ''1.5''] DecimalAdd = Inr [Number ''3'']"
    by code_simp
qed

section \<open>Properties of typed expressions\<close>

text \<open>C4: A program that validates, run on exactly its declared inputs, never underflows its stack,
  never leaves a wrong number of results and never misses an input: the evaluator returns a closed
  value of the declared output schema, or an error that its data causes.\<close>

theorem validated_program_fails_only_on_its_data:
  assumes "program_validate env p limits = Inr ()" and "distinct (map fst inputs)"
    and "set (map fst inputs) = set (xp_input_ports p)"
  shows "case evaluate env p inputs limits of
      Inl e \<Rightarrow> data_error e
    | Inr r \<Rightarrow> cj_schema_digest r = xp_output_schema_digest p \<and> closed_validate env r = Inr ()"
  using assms
proof (cases rule: evaluate_validated)
  case (result v)
  then show ?thesis by (auto simp: map_err_def dest: closed_build_Inr split: sum.split)
qed simp

lemma validated_program_fails_only_on_its_data_witness:
  "case evaluate ex_xenv ex_program [(ex_port, ex_number ex_zero ''1.5'')] ABSOLUTE of
      Inl e \<Rightarrow> data_error e
    | Inr r \<Rightarrow> cj_schema_digest r = xp_output_schema_digest ex_program \<and> closed_validate ex_xenv r = Inr ()"
  by (rule validated_program_fails_only_on_its_data [OF ex_program_validates])
    (simp_all add: ex_program_def)

text \<open>At every instruction of a run of a validated program the stack is no deeper than the
  maximum the program declares, which is itself within the profile's limit and the absolute one.\<close>

theorem stack_stays_within_declared_depth:
  assumes "program_validate env p limits = Inr ()" and "xp_instructions p = done_part @ rest"
    and "set (xp_input_ports p) \<subseteq> dom (map_of inputs)"
    and "fold_result (evaluate_instruction env inputs) [] done_part = Inr stack"
  shows "length stack \<le> unat (xp_maximum_stack_depth p)
    \<and> xp_maximum_stack_depth p \<le> el_maximum_stack_depth limits
    \<and> el_maximum_stack_depth limits \<le> MAX_EXPRESSION_STACK_DEPTH"
proof -
  from assms(1) obtain m where m: "fold_result (validate_instruction env (xp_input_ports p) limits) (0, 0)
      (xp_instructions p) = Inr (1, m)" and w: "unat (xp_maximum_stack_depth p) = m"
    and b: "bounded_by_absolute limits"
    by (auto simp: program_validate_Inr elim: validate_program_Inr)
  from m assms(2) obtain d0 m0 where
      1: "fold_result (validate_instruction env (xp_input_ports p) limits) (0, 0) done_part = Inr (d0, m0)"
    and 2: "fold_result (validate_instruction env (xp_input_ports p) limits) (d0, m0) rest = Inr (1, m)"
    by (auto simp: fold_result_append rbind_eq_Inr)
  from evaluation_follows_validation [OF 1 assms(3), of env] assms(4) have "length stack \<le> m0" by simp
  with validation_maximum_grows [OF 2] have "length stack \<le> m" by simp
  moreover have "m \<le> unat (el_maximum_stack_depth limits)"
    by (rule validated_maximum_within_limits [OF m]) simp
  ultimately show ?thesis using w b by (simp add: word_le_nat_alt bounded_by_absolute_def)
qed

lemma stack_stays_within_declared_depth_witness:
  "\<exists>stack. fold_result (evaluate_instruction ex_xenv [(ex_port, ex_number ex_zero ''1.5'')]) [] [LoadPort ex_port]
     = Inr stack \<and> length stack \<le> 2"
proof -
  from stack_stays_within_declared_depth [OF ex_program_validates _ _ ex_run(1), of "[LoadPort ex_port, DecimalAdd]"]
  have "length [Number ''1.5'' :: string Json] \<le> 2" by (simp add: ex_program_def)
  with ex_run(1) show ?thesis by auto
qed

text \<open>C39: \<open>DecimalAdd\<close> and \<open>DecimalSubtract\<close> are exact: when one of them returns, both operands were
  numbers whose text is a decimal of at most 28 places, and the text handed to \<open>Number::from_str\<close>
  denotes exactly the sum or the difference of the operands, as a rational number.\<close>

theorem decimal_instructions_are_exact:
  assumes "i \<in> {DecimalAdd, DecimalSubtract}" and "evaluate_instruction env inputs stack i = Inr stack'"
  shows "\<exists>r l rest dr dl d n. stack = Number r # Number l # rest \<and> stack' = Number n # rest
    \<and> parse_decimal (xe_number_text env l) = Inr dl \<and> parse_decimal (xe_number_text env r) = Inr dr
    \<and> xe_from_text env (decimal_text d) = Some n
    \<and> decimal_value d = (if i = DecimalAdd then decimal_value dl + decimal_value dr
                          else decimal_value dl - decimal_value dr)"
proof -
  have number: "decimal_from_value env v = Inr d \<longleftrightarrow> (\<exists>n. v = Number n \<and> parse_decimal (xe_number_text env n) = Inr d)"
    for v d by (cases v) (simp_all add: decimal_from_value_def)
  from assms show ?thesis
    by (auto simp: evaluate_instruction_def rbind_eq_Inr pop_eq number into_number_def ok_or_eq_Inr)
      (blast intro: decimal_add_exact decimal_sub_exact)+
qed

lemma decimal_instructions_are_exact_witness:
  "\<exists>dl d. parse_decimal ''1.5'' = Inr dl \<and> decimal_text d = ''3'' \<and> decimal_value d = decimal_value dl + decimal_value dl"
proof -
  have env: "xe_number_text ex_xenv = (\<lambda>s. s)" "xe_from_text ex_xenv = Some" by (simp_all add: ex_xenv_def)
  from decimal_instructions_are_exact [OF _ ex_run(2)] show ?thesis unfolding env by auto
qed

text \<open>What \<open>TypedExpressionProgram::build\<close> returns passes \<open>validate\<close> under the same limits.\<close>

theorem built_program_validates:
  assumes "program_build env ports instructions output limits = Inr p"
  shows "program_validate env p limits = Inr () \<and> xp_input_ports p = ports \<and> xp_instructions p = instructions"
  using assms by (auto simp: program_build_def rbind_eq_Inr program_validate_Inr)

lemma built_program_validates_witness:
  "program_validate ex_xenv ex_program ABSOLUTE = Inr () \<and> xp_input_ports ex_program = [ex_port]"
proof -
  have "program_build ex_xenv [ex_port] (xp_instructions ex_program) ex_zero ABSOLUTE = Inr ex_program"
    by (simp add: program_build_def ex_program_is_valid program_digest_def ex_digest)
      (simp add: ex_program_def)
  from built_program_validates [OF this] show ?thesis by simp
qed

text \<open>The text of a decimal in normal form parses back to the same decimal, for every
  coefficient and scale the type admits apart from the least 128-bit integer.\<close>

theorem decimal_text_round_trip:
  assumes "decimal_ok d" and "- (2 ^ 127) < ed_coefficient d"
  shows "parse_decimal (decimal_text d) = Inr d"
  using assms by (rule parse_decimal_text)

lemma decimal_text_round_trip_witness:
  "parse_decimal (decimal_text \<lparr>ed_coefficient = - 125, ed_scale = 2\<rparr>) = Inr \<lparr>ed_coefficient = - 125, ed_scale = 2\<rparr>"
  by (rule decimal_text_round_trip) (simp_all add: decimal_ok_def i128_checked_def MAX_SCALE_def)

end
