(* ===== verification/Plan.thy ===== *)
theory Plan
  imports Expression
begin

text \<open>
  The runtime plan (\<open>platform-plan/src/lib.rs\<close>): nodes, their references, and the validation a plan
  passes before anything of it runs.  A \<open>BTreeMap\<close> is the list of its entries in key order.  The
  JSON Schema checks of \<open>platform-contracts/src/schema.rs\<close> are arguments of the environment.
\<close>

section \<open>Nodes\<close>

type_synonym ('k, 'v) btree = "('k \<times> 'v) list"

datatype PlanError = InvalidPlanNodeKey | InvalidPlan | UnknownPlanNodeReference | Canonicalization

definition plan_node_key_new :: "string \<Rightarrow> PlanError + PlanNodeKey" where
  "plan_node_key_new v = (if \<not> is_key v then Inl InvalidPlanNodeKey else Inr v)"

datatype JoinPolicy = AllSuccess | AllSettled | Quorum

datatype JoinRemainderPolicy = Cancel | Drain

datatype MapFailurePolicy = FailFast | AllSettled | BoundedErrorCount u32

record 'n PortAssignment =
  pa_output_port :: ExactDataPortRef
  pa_expression :: "'n TypedExpressionProgram"

record 'n BranchArm =
  ba_when :: "'n TypedExpressionProgram"
  ba_target :: PlanNodeKey

record LoopCarriedPort =
  lc_body_output_port :: ExactDataPortRef
  lc_next_iteration_port :: ExactDataPortRef

datatype RuntimeDependencyKind = Model | Capability | Context | ChildAgent | Skill

record RuntimeDependencySlot =
  ds_kind :: RuntimeDependencyKind
  ds_requirement_digest :: Sha256Digest

record ChildBudgetLimit =
  cb_maximum_duration_milliseconds :: u64
  cb_maximum_model_tokens :: u64
  cb_maximum_capability_calls :: u32
  cb_maximum_artifact_bytes :: u64
  cb_maximum_descendant_runs :: u32

datatype ChildCancellationPolicy = CascadeAndWait | CascadeWithDeadline

datatype InteractionKind = Form | UrlConsent | BusinessInput

datatype HumanTaskDefinition =
    Interaction "TaskEligibilityRule option" InteractionKind Sha256Digest string
  | HumanWork "TaskEligibilityRule option" Sha256Digest string

definition eligibility_rule :: "HumanTaskDefinition \<Rightarrow> TaskEligibilityRule option" where
  "eligibility_rule d = (case d of Interaction r _ _ _ \<Rightarrow> r | HumanWork r _ _ \<Rightarrow> r)"

definition eligibility_rule_digest :: "HumanTaskDefinition \<Rightarrow> Sha256Digest" where
  "eligibility_rule_digest d = (case d of Interaction _ _ g _ \<Rightarrow> g | HumanWork _ g _ \<Rightarrow> g)"

record ModelLoopNode =
  ml_model_slot_id :: string
  ml_skill_slot_ids :: "string list"
  ml_capability_slot_ids :: "string list"
  ml_input :: ExactDataPortRef
  ml_model_route :: "ExactDataPortRef option"
  ml_output :: ExactDataPortRef
  ml_maximum_rounds :: u16
  ml_maximum_capability_calls :: u32
  ml_maximum_parallel_calls_per_round :: u16
  ml_token_budget :: u64

record CapabilityCallNode =
  cc_capability_slot_id :: string
  cc_input :: ExactDataPortRef
  cc_candidate_route :: "ExactDataPortRef option"
  cc_output :: ExactDataPortRef
  cc_attempt_limit :: u16
  cc_retry_backoff_milliseconds :: u64

record ChildAgentCallNode =
  ca_child_agent_slot_id :: string
  ca_input :: ExactDataPortRef
  ca_candidate_route :: "ExactDataPortRef option"
  ca_output :: ExactDataPortRef
  ca_budget :: ChildBudgetLimit
  ca_cancellation_policy :: ChildCancellationPolicy
  ca_attempt_limit :: u16
  ca_retry_backoff_milliseconds :: u64

text \<open>The variants with many fields carry a record of them; the last argument is \<open>resume\<close>.\<close>

datatype (plugins only: code) 'n RuntimeNode =
    Start PlanNodeKey
  | Compute "'n PortAssignment list" PlanNodeKey
  | Branch "'n BranchArm list" PlanNodeKey
  | Fork "PlanNodeKey list" PlanNodeKey
  | Join JoinPolicy "u16 option" "JoinRemainderPolicy option" PlanNodeKey
  | Map "'n TypedExpressionProgram" ExactDataPortRef PlanNodeKey PlanNodeKey u32 MapFailurePolicy
  | Loop "'n TypedExpressionProgram" "LoopCarriedPort list" PlanNodeKey PlanNodeKey u32
  | ErrorBoundary PlanNodeKey "(string, PlanNodeKey) btree"
  | ModelLoop ModelLoopNode PlanNodeKey
  | CapabilityCall CapabilityCallNode PlanNodeKey
  | ContextQuery string ExactDataPortRef ExactDataPortRef u32 PlanNodeKey
  | ChildAgentCall ChildAgentCallNode PlanNodeKey
  | HumanTask HumanTaskDefinition ExactDataPortRef u64 PlanNodeKey
  | TimerWait u64 PlanNodeKey
  | SignalWait string "ExactDataPortRef option" u64 PlanNodeKey
  | Return ExactDataPortRef
  | Raise ExactDataPortRef

definition node_kind :: "'n RuntimeNode \<Rightarrow> PlanNodeKind" where
  "node_kind n =
     (case n of
        Start _ \<Rightarrow> PlanNodeKind.Start
      | Compute _ _ \<Rightarrow> PlanNodeKind.Compute
      | Branch _ _ \<Rightarrow> PlanNodeKind.Branch
      | Fork _ _ \<Rightarrow> PlanNodeKind.Fork
      | Join _ _ _ _ \<Rightarrow> PlanNodeKind.Join
      | Map _ _ _ _ _ _ \<Rightarrow> PlanNodeKind.Map
      | Loop _ _ _ _ _ \<Rightarrow> PlanNodeKind.Loop
      | ErrorBoundary _ _ \<Rightarrow> PlanNodeKind.ErrorBoundary
      | ModelLoop _ _ \<Rightarrow> PlanNodeKind.ModelLoop
      | CapabilityCall _ _ \<Rightarrow> PlanNodeKind.CapabilityCall
      | ContextQuery _ _ _ _ _ \<Rightarrow> PlanNodeKind.ContextQuery
      | ChildAgentCall _ _ \<Rightarrow> PlanNodeKind.ChildAgentCall
      | HumanTask _ _ _ _ \<Rightarrow> PlanNodeKind.HumanTask
      | TimerWait _ _ \<Rightarrow> PlanNodeKind.TimerWait
      | SignalWait _ _ _ _ \<Rightarrow> PlanNodeKind.SignalWait
      | Return _ \<Rightarrow> PlanNodeKind.Return
      | Raise _ \<Rightarrow> PlanNodeKind.Raise)"

definition references :: "'n RuntimeNode \<Rightarrow> PlanNodeKey list" where
  "references n =
     (case n of
        Start next_node \<Rightarrow> [next_node]
      | Compute _ next_node \<Rightarrow> [next_node]
      | ModelLoop _ resume \<Rightarrow> [resume]
      | CapabilityCall _ resume \<Rightarrow> [resume]
      | ContextQuery _ _ _ _ resume \<Rightarrow> [resume]
      | ChildAgentCall _ resume \<Rightarrow> [resume]
      | HumanTask _ _ _ resume \<Rightarrow> [resume]
      | TimerWait _ resume \<Rightarrow> [resume]
      | SignalWait _ _ _ resume \<Rightarrow> [resume]
      | Branch ordered_arms otherwise \<Rightarrow> map ba_target ordered_arms @ [otherwise]
      | Fork legs join \<Rightarrow> legs @ [join]
      | Join _ _ _ next_node \<Rightarrow> [next_node]
      | Map _ _ body next_node _ _ \<Rightarrow> [body, next_node]
      | Loop _ _ body exit_node _ \<Rightarrow> [body, exit_node]
      | ErrorBoundary body handlers \<Rightarrow> body # map snd handlers
      | Return _ \<Rightarrow> []
      | Raise _ \<Rightarrow> [])"

section \<open>Validation of one node\<close>

record PlanLimits =
  pl_maximum_nodes :: nat
  pl_maximum_edges :: nat
  pl_maximum_fan_out :: nat
  pl_maximum_map_items :: u32
  pl_maximum_loop_iterations :: u32
  pl_maximum_error_handlers :: nat
  pl_expression :: ExpressionLimits

definition is_stable_code :: "string \<Rightarrow> bool" where
  "is_stable_code v \<longleftrightarrow>
     v \<noteq> [] \<and> length v \<le> 64 \<and> is_ascii_lowercase (hd v)
     \<and> list_all (\<lambda>c. is_ascii_lowercase c \<or> is_ascii_digit c \<or> c = CHR ''_'') v"

fun contains_repeat :: "'a list \<Rightarrow> bool" where
  "contains_repeat [] = False"
| "contains_repeat (x # xs) = (x \<in> set xs \<or> contains_repeat xs)"

definition has_duplicate_keys :: "PlanNodeKey list \<Rightarrow> bool" where
  "has_duplicate_keys vs \<longleftrightarrow> windows2_any (=) vs \<or> contains_repeat vs"

definition validate_leaf_output :: "PlanNodeKey \<Rightarrow> ExactDataPortRef \<Rightarrow> PlanError + unit" where
  "validate_leaf_output node_key output = fail_if (producer_node_id output \<noteq> Some node_key) InvalidPlan"

definition validate_human_task_definition :: "HumanTaskDefinition \<Rightarrow> PlanError + unit" where
  "validate_human_task_definition d =
     (let safe_prompt_key = (case d of Interaction _ _ _ k \<Rightarrow> k | HumanWork _ _ k \<Rightarrow> k)
      in if is_stable_code safe_prompt_key then Inr () else Inl InvalidPlan)"

definition validate_model_loop_tool_budget :: "u32 \<Rightarrow> u16 \<Rightarrow> PlanError + unit" where
  "validate_model_loop_tool_budget total_calls parallel =
     fail_if ((total_calls = 0) \<noteq> (parallel = 0) \<or> total_calls < ucast parallel) InvalidPlan"

definition validate_model_loop_tool_budget_for_slots :: "u32 \<Rightarrow> u16 \<Rightarrow> bool \<Rightarrow> PlanError + unit" where
  "validate_model_loop_tool_budget_for_slots total_calls parallel has_tool_slots =
     rbind (validate_model_loop_tool_budget total_calls parallel) (\<lambda>_.
     fail_if (has_tool_slots \<and> total_calls = 0) InvalidPlan)"

text \<open>The assignments of a \<open>Compute\<close> node run in order; the state is the set of ports computed so
  far.\<close>

definition validate_assignment ::
  "('n, 'z) expression_env_scheme \<Rightarrow> ExpressionLimits \<Rightarrow> ExactDataPortRef set \<Rightarrow>
   ExactDataPortRef set \<Rightarrow> 'n PortAssignment \<Rightarrow> PlanError + ExactDataPortRef set" where
  "validate_assignment env limits outputs available a =
     (if \<not> is_ok (program_validate env (pa_expression a) limits)
         \<or> list_ex (\<lambda>p. p \<in> outputs \<and> p \<notin> available) (xp_input_ports (pa_expression a))
      then Inl InvalidPlan
      else Inr (insert (pa_output_port a) available))"

definition validate_assignments ::
  "('n, 'z) expression_env_scheme \<Rightarrow> PlanNodeKey \<Rightarrow> 'n PortAssignment list \<Rightarrow> ExpressionLimits \<Rightarrow>
   PlanError + unit" where
  "validate_assignments env node_key assignments limits =
     (let outputs = map pa_output_port assignments in
      if \<not> distinct outputs
         \<or> list_ex (\<lambda>a. producer_node_id (pa_output_port a) \<noteq> Some node_key) assignments
      then Inl InvalidPlan
      else
        rbind (fold_result (validate_assignment env limits (set outputs)) {} assignments) (\<lambda>_. Inr ()))"

definition validate_join :: "JoinPolicy \<Rightarrow> u16 option \<Rightarrow> JoinRemainderPolicy option \<Rightarrow> PlanError + unit" where
  "validate_join policy quorum remainder =
     (case (policy, quorum, remainder) of
        (Quorum, Some v, Some _) \<Rightarrow> if 0 < v then Inr () else Inl InvalidPlan
      | (AllSuccess, None, None) \<Rightarrow> Inr ()
      | (JoinPolicy.AllSettled, None, None) \<Rightarrow> Inr ()
      | _ \<Rightarrow> Inl InvalidPlan)"

definition validate_node ::
  "('n, 'z) expression_env_scheme \<Rightarrow> PlanNodeKey \<Rightarrow> 'n RuntimeNode \<Rightarrow> PlanLimits \<Rightarrow> PlanError + unit" where
  "validate_node env node_key node limits =
     (case node of
        Compute assignments _ \<Rightarrow> validate_assignments env node_key assignments (pl_expression limits)
      | Branch ordered_arms otherwise \<Rightarrow>
          fail_if (ordered_arms = []
            \<or> pl_maximum_fan_out limits < length ordered_arms + 1
            \<or> list_ex (\<lambda>arm. ba_target arm = otherwise) ordered_arms
            \<or> has_duplicate_keys (map ba_target ordered_arms)
            \<or> list_ex (\<lambda>arm. \<not> is_ok (program_validate env (ba_when arm) (pl_expression limits))) ordered_arms)
            InvalidPlan
      | Fork legs join \<Rightarrow>
          fail_if (legs = [] \<or> pl_maximum_fan_out limits < length legs
            \<or> list_ex (\<lambda>leg. leg = join) legs \<or> has_duplicate_keys legs) InvalidPlan
      | Join policy quorum remainder _ \<Rightarrow> validate_join policy quorum remainder
      | Map items item_port _ _ maximum_items failure_policy \<Rightarrow>
          if maximum_items = 0
             \<or> pl_maximum_map_items limits < maximum_items
             \<or> \<not> is_ok (program_validate env items (pl_expression limits))
             \<or> producer_node_id item_port \<noteq> Some node_key
          then Inl InvalidPlan
          else (case failure_policy of
              BoundedErrorCount maximum_failures \<Rightarrow>
                fail_if (maximum_failures = 0 \<or> maximum_items < maximum_failures) InvalidPlan
            | _ \<Rightarrow> Inr ())
      | Loop condition carried_ports _ _ maximum_iterations \<Rightarrow>
          fail_if (maximum_iterations = 0
            \<or> pl_maximum_loop_iterations limits < maximum_iterations
            \<or> \<not> is_ok (program_validate env condition (pl_expression limits))
            \<or> \<not> distinct (map lc_next_iteration_port carried_ports)
            \<or> \<not> distinct (map lc_body_output_port carried_ports)
            \<or> list_ex (\<lambda>port.
                producer_node_id (lc_next_iteration_port port) \<noteq> Some node_key
                \<or> producer_node_id (lc_body_output_port port) = None
                \<or> port_schema_digest (lc_body_output_port port) \<noteq> port_schema_digest (lc_next_iteration_port port))
              carried_ports)
            InvalidPlan
      | ErrorBoundary _ handlers \<Rightarrow>
          fail_if (pl_maximum_error_handlers limits < length handlers
            \<or> list_ex (\<lambda>(code, _). \<not> is_stable_code code) handlers) InvalidPlan
      | ModelLoop m _ \<Rightarrow>
          fail_if (ml_maximum_rounds m = 0
            \<or> \<not> is_ok (validate_model_loop_tool_budget_for_slots (ml_maximum_capability_calls m)
                (ml_maximum_parallel_calls_per_round m)
                (ml_skill_slot_ids m \<noteq> [] \<or> ml_capability_slot_ids m \<noteq> []))
            \<or> ml_token_budget m = 0
            \<or> \<not> distinct (ml_skill_slot_ids m)
            \<or> \<not> distinct (ml_capability_slot_ids m)
            \<or> \<not> is_ok (validate_leaf_output node_key (ml_output m))) InvalidPlan
      | CapabilityCall c _ \<Rightarrow>
          fail_if (cc_attempt_limit c = 0 \<or> 32 < cc_attempt_limit c
            \<or> cc_retry_backoff_milliseconds c = 0 \<or> 60000 < cc_retry_backoff_milliseconds c
            \<or> \<not> is_ok (validate_leaf_output node_key (cc_output c))) InvalidPlan
      | ContextQuery _ _ result maximum_items _ \<Rightarrow>
          fail_if (maximum_items = 0 \<or> pl_maximum_map_items limits < maximum_items
            \<or> \<not> is_ok (validate_leaf_output node_key result)) InvalidPlan
      | ChildAgentCall c _ \<Rightarrow>
          fail_if (cb_maximum_duration_milliseconds (ca_budget c) = 0
            \<or> cb_maximum_model_tokens (ca_budget c) = 0
            \<or> cb_maximum_capability_calls (ca_budget c) = 0
            \<or> cb_maximum_artifact_bytes (ca_budget c) = 0
            \<or> cb_maximum_descendant_runs (ca_budget c) = 0
            \<or> ca_attempt_limit c = 0 \<or> 32 < ca_attempt_limit c
            \<or> ca_retry_backoff_milliseconds c = 0 \<or> 60000 < ca_retry_backoff_milliseconds c
            \<or> \<not> is_ok (validate_leaf_output node_key (ca_output c))) InvalidPlan
      | HumanTask d response timeout_milliseconds _ \<Rightarrow>
          fail_if (timeout_milliseconds = 0
            \<or> \<not> is_ok (validate_human_task_definition d)
            \<or> \<not> is_ok (validate_leaf_output node_key response)) InvalidPlan
      | TimerWait delay_milliseconds _ \<Rightarrow> fail_if (delay_milliseconds = 0) InvalidPlan
      | SignalWait signal_key payload timeout_milliseconds _ \<Rightarrow>
          fail_if (timeout_milliseconds = 0
            \<or> \<not> is_stable_code signal_key
            \<or> some_and payload (\<lambda>port. \<not> is_ok (validate_leaf_output node_key port))) InvalidPlan
      | _ \<Rightarrow> Inr ())"

end
