(* ===== verification/Schema.thy ===== *)
theory Schema
  imports Expression
begin

text \<open>
  The closed JSON Schema profile (\<open>platform-contracts/src/schema.rs\<close>): which schema documents the platform
  admits, the graph of their local references, and the shape test of literals.  A document is a JSON value;
  an error carries its path and its code, not the message for humans.
\<close>

section \<open>Parameters\<close>

text \<open>The length of \<open>serde_json::to_vec\<close>, whether \<open>Number::as_f64\<close> has no fraction, and the table of
  \<open>nominal_schemas()\<close> (\<open>nominal.rs\<close>) by name.\<close>

record 'n schema_env = "'n expression_env" +
  sc_encoded_length :: "'n Json \<Rightarrow> nat option"
  sc_integral :: "'n \<Rightarrow> bool"
  sc_nominal_schemas :: "string \<Rightarrow> 'n Json option"

datatype SchemaProfileError = SchemaProfileError (error_path: string) (error_code: string)

type_synonym 'n fields = "(string \<times> 'n Json) list"

section \<open>Reading JSON\<close>

definition as_object :: "'n Json \<Rightarrow> 'n fields option" where
  "as_object v = (case v of Object m \<Rightarrow> Some m | _ \<Rightarrow> None)"

definition as_array :: "'n Json \<Rightarrow> 'n Json list option" where
  "as_array v = (case v of Array xs \<Rightarrow> Some xs | _ \<Rightarrow> None)"

definition as_str :: "'n Json \<Rightarrow> string option" where
  "as_str v = (case v of String s \<Rightarrow> Some s | _ \<Rightarrow> None)"

definition as_u64 :: "('n, 'z) expression_env_scheme \<Rightarrow> 'n Json \<Rightarrow> u64 option" where
  "as_u64 env v = (case v of Number n \<Rightarrow> sj_as_u64 env n | _ \<Rightarrow> None)"

definition is_number :: "'n Json \<Rightarrow> bool" where
  "is_number v = (case v of Number _ \<Rightarrow> True | _ \<Rightarrow> False)"

text \<open>\<open>map.get(key).and_then(f)\<close>, and \<open>Value::get\<close>, which finds nothing outside an object.\<close>

definition get_as :: "('n Json \<Rightarrow> 'a option) \<Rightarrow> 'n fields \<Rightarrow> string \<Rightarrow> 'a option" where
  "get_as f m key = Option.bind (map_of m key) f"

definition value_get :: "'n Json \<Rightarrow> string \<Rightarrow> 'n Json option" where
  "value_get v key = Option.bind (as_object v) (\<lambda>m. map_of m key)"

definition strip_prefix :: "string \<Rightarrow> string \<Rightarrow> string option" where
  "strip_prefix p s = (if take (length p) s = p then Some (drop (length p) s) else None)"

lemma get_as_Some [simp]: "get_as f m key = Some x \<longleftrightarrow> (\<exists>v. map_of m key = Some v \<and> f v = Some x)"
  by (simp add: get_as_def bind_eq_Some_conv)

lemma Some_get_as [simp]: "Some x = get_as f m key \<longleftrightarrow> (\<exists>v. map_of m key = Some v \<and> f v = Some x)"
  using get_as_Some [of f m key x] by argo

lemma as_object_Some [simp]: "as_object v = Some m \<longleftrightarrow> v = Object m"
  by (cases v) (simp_all add: as_object_def)

lemma as_array_Some [simp]: "as_array v = Some xs \<longleftrightarrow> v = Array xs"
  by (cases v) (simp_all add: as_array_def)

lemma as_str_Some [simp]: "as_str v = Some s \<longleftrightarrow> v = String s"
  by (cases v) (simp_all add: as_str_def)

lemma map_of_size: "map_of m key = Some v \<Longrightarrow> size v < size (Object m)"
  by (induction m) (auto split: if_splits)

text \<open>Congruences for the recursion through the result combinators.\<close>

lemma rbind_cong [fundef_cong]:
  "m = m' \<Longrightarrow> (\<And>x. m' = Inr x \<Longrightarrow> f x = f' x) \<Longrightarrow> rbind m f = rbind m' f'"
  by (cases m') simp_all

lemma check_all_cong [fundef_cong]:
  "xs = ys \<Longrightarrow> (\<And>x. x \<in> set ys \<Longrightarrow> f x = g x) \<Longrightarrow> check_all f xs = check_all g ys"
  by (induction ys arbitrary: xs) auto

lemma fold_result_cong [fundef_cong]:
  "s = t \<Longrightarrow> xs = ys \<Longrightarrow> (\<And>u x. x \<in> set ys \<Longrightarrow> f u x = g u x) \<Longrightarrow> fold_result f s xs = fold_result g t ys"
  by (induction ys arbitrary: xs s t) (auto intro!: arg_cong2 [of _ _ _ _ rbind])

section \<open>Profiles and references\<close>

definition ALLOWED_SCHEMA_KEYWORDS :: "string list" where
  "ALLOWED_SCHEMA_KEYWORDS =
     [''$schema'', ''$id'', ''$defs'', ''$ref'', ''type'', ''title'', ''description'', ''properties'', ''required'',
      ''additionalProperties'', ''items'', ''minItems'', ''maxItems'', ''uniqueItems'', ''minLength'',
      ''maxLength'', ''minimum'', ''maximum'', ''exclusiveMinimum'', ''exclusiveMaximum'', ''multipleOf'',
      ''enum'', ''const'', ''oneOf'', ''x-platform-max-bytes'', ''x-platform-classification'']"

definition MAX_CLOSED_SCHEMA_BYTES :: nat where
  "MAX_CLOSED_SCHEMA_BYTES = 262144"

definition NOMINAL_REFERENCE_PREFIX :: string where
  "NOMINAL_REFERENCE_PREFIX = ''urn:insight:platform:v1:nominal:''"

definition rsplit_once :: "char \<Rightarrow> string \<Rightarrow> (string \<times> string) option" where
  "rsplit_once c s = map_option (\<lambda>(after, before). (rev before, rev after)) (split_once c (rev s))"

text \<open>A built-in document always has a canonical form (\<open>expect\<close> in the source).\<close>

definition schema_for_pinned_nominal_reference ::
  "('n, 'z) schema_env_scheme \<Rightarrow> string \<Rightarrow> 'n Json option" where
  "schema_for_pinned_nominal_reference env reference =
     Option.bind (strip_prefix NOMINAL_REFERENCE_PREFIX reference) (\<lambda>rest.
     Option.bind (rsplit_once (CHR ''@'') rest) (\<lambda>(name, supplied_digest).
     Option.bind (sc_nominal_schemas env name) (\<lambda>schema.
     if canonical_digest env schema = Inr supplied_digest then Some schema else None)))"

definition is_known_pinned_nominal_reference :: "('n, 'z) schema_env_scheme \<Rightarrow> string \<Rightarrow> bool" where
  "is_known_pinned_nominal_reference env reference \<longleftrightarrow> schema_for_pinned_nominal_reference env reference \<noteq> None"

definition is_allowed_reference :: "('n, 'z) schema_env_scheme \<Rightarrow> string \<Rightarrow> bool" where
  "is_allowed_reference env reference \<longleftrightarrow>
     strip_prefix ''#/$defs/'' reference \<noteq> None \<or> is_known_pinned_nominal_reference env reference"

section \<open>Nodes\<close>

definition validate_keywords :: "'n fields \<Rightarrow> string \<Rightarrow> SchemaProfileError + unit" where
  "validate_keywords node path =
     check_all (\<lambda>(keyword, _). fail_if (keyword \<notin> set ALLOWED_SCHEMA_KEYWORDS)
       (SchemaProfileError (path @ ''/'' @ keyword) ''schema_unknown_keyword'')) node"

definition validate_field_classification :: "'n fields \<Rightarrow> string \<Rightarrow> SchemaProfileError + unit" where
  "validate_field_classification node path =
     fail_if (some_and (map_of node ''x-platform-classification'')
         (\<lambda>v. as_str v \<notin> Some ` {''public'', ''internal'', ''confidential'', ''restricted''}))
       (SchemaProfileError (path @ ''/x-platform-classification'') ''schema_classification'')"

definition validate_reference_keyword ::
  "('n, 'z) schema_env_scheme \<Rightarrow> 'n fields \<Rightarrow> string \<Rightarrow> SchemaProfileError + unit" where
  "validate_reference_keyword env node path =
     (case map_of node ''$ref'' of
        None \<Rightarrow> Inr ()
      | Some v \<Rightarrow>
          rbind (ok_or (SchemaProfileError (path @ ''/$ref'') ''schema_ref_type'') (as_str v)) (\<lambda>reference.
          fail_if (\<not> is_allowed_reference env reference)
            (SchemaProfileError (path @ ''/$ref'') ''schema_ref_forbidden'')))"

definition require_nonnegative_bound ::
  "('n, 'z) expression_env_scheme \<Rightarrow> 'n fields \<Rightarrow> string \<Rightarrow> string \<Rightarrow> SchemaProfileError + unit" where
  "require_nonnegative_bound env node keyword path =
     fail_if (get_as (as_u64 env) node keyword = None)
       (SchemaProfileError (path @ ''/'' @ keyword) ''schema_bound_required'')"

definition require_positive_bound ::
  "('n, 'z) expression_env_scheme \<Rightarrow> 'n fields \<Rightarrow> string \<Rightarrow> string \<Rightarrow> SchemaProfileError + unit" where
  "require_positive_bound env node keyword path =
     fail_if (none_or (get_as (as_u64 env) node keyword) (\<lambda>v. v = 0))
       (SchemaProfileError (path @ ''/'' @ keyword) ''schema_bound_required'')"

definition validate_array_bounds ::
  "('n, 'z) expression_env_scheme \<Rightarrow> 'n fields \<Rightarrow> string \<Rightarrow> SchemaProfileError + unit" where
  "validate_array_bounds env node path =
     rbind (require_nonnegative_bound env node ''minItems'' path) (\<lambda>_.
     rbind (require_positive_bound env node ''maxItems'' path) (\<lambda>_.
     fail_if (some_and (get_as (as_u64 env) node ''minItems'') (\<lambda>minimum.
         some_and (get_as (as_u64 env) node ''maxItems'') (\<lambda>maximum. maximum < minimum)))
       (SchemaProfileError path ''schema_bounds_order'')))"

definition validate_string_bounds ::
  "('n, 'z) expression_env_scheme \<Rightarrow> 'n fields \<Rightarrow> string \<Rightarrow> SchemaProfileError + unit" where
  "validate_string_bounds env node path =
     rbind (require_nonnegative_bound env node ''minLength'' path) (\<lambda>_.
     rbind (require_positive_bound env node ''maxLength'' path) (\<lambda>_.
     require_positive_bound env node ''x-platform-max-bytes'' path))"

definition validate_numeric_bounds :: "'n fields \<Rightarrow> string \<Rightarrow> SchemaProfileError + unit" where
  "validate_numeric_bounds node path =
     (let has = (\<lambda>key. map_of node key \<noteq> None);
          has_lower = has ''minimum'' \<or> has ''exclusiveMinimum'';
          has_upper = has ''maximum'' \<or> has ''exclusiveMaximum''
      in if \<not> has_lower \<or> \<not> has_upper then Inl (SchemaProfileError path ''schema_numeric_unbounded'')
         else check_all (\<lambda>keyword. fail_if (some_and (map_of node keyword) (\<lambda>v. \<not> is_number v))
             (SchemaProfileError (path @ ''/'' @ keyword) ''schema_numeric_bound_type''))
           [''minimum'', ''maximum'', ''exclusiveMinimum'', ''exclusiveMaximum'', ''multipleOf''])"

text \<open>The state of the loop over \<open>required\<close> is the names so far.\<close>

definition validate_required_name ::
  "'n fields \<Rightarrow> string \<Rightarrow> string list \<Rightarrow> 'n Json \<Rightarrow> SchemaProfileError + string list" where
  "validate_required_name properties path names v =
     rbind (ok_or (SchemaProfileError (path @ ''/required'') ''schema_required_type'') (as_str v)) (\<lambda>name.
     if map_of properties name = None \<or> name \<in> set names
     then Inl (SchemaProfileError (path @ ''/required'') ''schema_required_invalid'')
     else Inr (name # names))"

definition validate_required :: "'n fields \<Rightarrow> 'n fields \<Rightarrow> string \<Rightarrow> SchemaProfileError + unit" where
  "validate_required node properties path =
     rbind (ok_or (SchemaProfileError (path @ ''/required'') ''schema_required_required'')
       (get_as as_array node ''required'')) (\<lambda>required.
     rbind (fold_result (validate_required_name properties path) [] required) (\<lambda>_. Inr ()))"

section \<open>Tagged unions\<close>

text \<open>The required string constants of one branch, by property.\<close>

definition branch_candidates :: "'n fields \<Rightarrow> string \<Rightarrow> SchemaProfileError + (string \<times> string) list" where
  "branch_candidates branch path =
     rbind (ok_or (SchemaProfileError (path @ ''/properties'') ''schema_union_discriminator'')
       (get_as as_object branch ''properties'')) (\<lambda>properties.
     rbind (ok_or (SchemaProfileError (path @ ''/required'') ''schema_union_discriminator'')
       (get_as as_array branch ''required'')) (\<lambda>required.
     let names = List.map_filter as_str required;
         found = List.map_filter (\<lambda>(name, property).
           case Option.bind (value_get property ''const'') as_str of
             None \<Rightarrow> None
           | Some constant \<Rightarrow> if name \<in> set names then Some (name, constant) else None) properties
     in if found = [] then Inl (SchemaProfileError path ''schema_union_discriminator'') else Inr found))"

text \<open>The candidates that remain after one more branch: \<open>insert\<close> refuses a constant seen before.\<close>

definition retain_candidates ::
  "(string \<times> string list) list option \<Rightarrow> (string \<times> string) list \<Rightarrow> (string \<times> string list) list" where
  "retain_candidates candidates found =
     (case candidates of
        None \<Rightarrow> map (\<lambda>(name, v). (name, [v])) found
      | Some existing \<Rightarrow> List.map_filter (\<lambda>(name, values).
          case map_of found name of
            None \<Rightarrow> None
          | Some v \<Rightarrow> if v \<in> set values then None else Some (name, v # values)) existing)"

definition one_discriminator :: "(string \<times> string list) list option \<Rightarrow> nat \<Rightarrow> bool" where
  "one_discriminator candidates branches \<longleftrightarrow>
     some_and candidates (\<lambda>items. length items = 1 \<and> length (snd (hd items)) = branches)"

definition is_null_branch :: "'n Json \<Rightarrow> bool" where
  "is_null_branch branch \<longleftrightarrow> value_get branch ''type'' = Some (String ''null'')"

definition branch_path :: "string \<Rightarrow> nat \<Rightarrow> string" where
  "branch_path path index = path @ ''/oneOf/'' @ show_nat index"

lemma enumerated_item: "(i, x) \<in> set (enumerate n xs) \<Longrightarrow> x \<in> set xs"
  by (auto simp: in_set_enumerate_eq)

section \<open>The recursive check of a document\<close>

function validate_schema_node ::
    "('n, 'z) schema_env_scheme \<Rightarrow> 'n fields \<Rightarrow> string \<Rightarrow> SchemaProfileError + unit"
  and validate_object :: "('n, 'z) schema_env_scheme \<Rightarrow> 'n fields \<Rightarrow> string \<Rightarrow> SchemaProfileError + unit"
  and validate_tagged_union :: "('n, 'z) schema_env_scheme \<Rightarrow> 'n Json \<Rightarrow> string \<Rightarrow> SchemaProfileError + unit"
where
  "validate_schema_node env node path =
     rbind (validate_keywords node path) (\<lambda>_.
     rbind (validate_field_classification node path) (\<lambda>_.
     rbind (validate_reference_keyword env node path) (\<lambda>_.
     if map_of node ''type'' \<noteq> None \<and> get_as as_str node ''type'' = None
     then Inl (SchemaProfileError (path @ ''/type'') ''schema_type_shape'')
     else
       rbind (case get_as as_str node ''type'' of
           None \<Rightarrow> Inr ()
         | Some kind \<Rightarrow>
             if kind = ''object'' then validate_object env node path
             else if kind = ''array'' then
               rbind (validate_array_bounds env node path) (\<lambda>_.
               rbind (ok_or (SchemaProfileError (path @ ''/items'') ''schema_items_required'')
                 (get_as as_object node ''items'')) (\<lambda>items.
               validate_schema_node env items (path @ ''/items'')))
             else if kind = ''string'' then validate_string_bounds env node path
             else if kind = ''integer'' \<or> kind = ''number'' then validate_numeric_bounds node path
             else if kind = ''null'' \<or> kind = ''boolean'' then Inr ()
             else Inl (SchemaProfileError (path @ ''/type'') ''schema_type_forbidden'')) (\<lambda>_.
       rbind (case map_of node ''$defs'' of
           None \<Rightarrow> Inr ()
         | Some v \<Rightarrow>
             rbind (ok_or (SchemaProfileError (path @ ''/$defs'') ''schema_defs_type'') (as_object v)) (\<lambda>definitions.
             check_all (\<lambda>(name, definition).
               rbind (ok_or (SchemaProfileError (path @ ''/$defs/'' @ name) ''schema_definition_type'')
                 (as_object definition)) (\<lambda>definition.
               validate_schema_node env definition (path @ ''/$defs/'' @ name))) definitions)) (\<lambda>_.
       case map_of node ''oneOf'' of
         None \<Rightarrow> Inr ()
       | Some branches \<Rightarrow> validate_tagged_union env branches path)))))"
| "validate_object env node path =
     (if map_of node ''additionalProperties'' \<noteq> Some (Bool False)
      then Inl (SchemaProfileError (path @ ''/additionalProperties'') ''schema_object_open'')
      else
        rbind (ok_or (SchemaProfileError (path @ ''/properties'') ''schema_properties_required'')
          (get_as as_object node ''properties'')) (\<lambda>properties.
        rbind (validate_required node properties path) (\<lambda>_.
        check_all (\<lambda>(name, property).
          rbind (ok_or (SchemaProfileError (path @ ''/properties/'' @ name) ''schema_property_type'')
            (as_object property)) (\<lambda>property.
          validate_schema_node env property (path @ ''/properties/'' @ name))) properties)))"
| "validate_tagged_union env v path =
     rbind (ok_or (SchemaProfileError (path @ ''/oneOf'') ''schema_union_type'') (as_array v)) (\<lambda>branches.
     if length branches < 2 then Inl (SchemaProfileError (path @ ''/oneOf'') ''schema_union_size'')
     else if length (filter is_null_branch branches) = 1 \<and> length branches = 2 then
       check_all (\<lambda>(index, branch).
         rbind (ok_or (SchemaProfileError (branch_path path index) ''schema_union_branch_type'')
           (as_object branch)) (\<lambda>branch.
         validate_schema_node env branch (branch_path path index))) (enumerate 0 branches)
     else
       rbind (fold_result (\<lambda>candidates (index, branch).
           rbind (ok_or (SchemaProfileError (branch_path path index) ''schema_union_branch_type'')
             (as_object branch)) (\<lambda>branch.
           rbind (validate_schema_node env branch (branch_path path index)) (\<lambda>_.
           rbind (branch_candidates branch (branch_path path index)) (\<lambda>found.
           Inr (Some (retain_candidates candidates found)))))) None (enumerate 0 branches)) (\<lambda>candidates.
       fail_if (\<not> one_discriminator candidates (length branches))
         (SchemaProfileError (path @ ''/oneOf'') ''schema_union_discriminator'')))"
  by pat_completeness auto

termination
  by (relation "measure (\<lambda>x. case x of
        Inl (_, node, _) \<Rightarrow> Suc (2 * size (Object node))
      | Inr (Inl (_, node, _)) \<Rightarrow> 2 * size (Object node)
      | Inr (Inr (_, v, _)) \<Rightarrow> 2 * size v)")
    (auto simp: ok_or_eq_Inr dest!: map_of_size field_size item_size enumerated_item simp del: Json.size)

declare validate_schema_node.simps [simp del] validate_object.simps [simp del] validate_tagged_union.simps [simp del]

section \<open>Local references\<close>

definition local_reference :: "'n fields \<Rightarrow> string option" where
  "local_reference m = Option.bind (get_as as_str m ''$ref'') (strip_prefix ''#/$defs/'')"

text \<open>The names that \<open>collect_local_references\<close> inserts; a set in the source.\<close>

function collect_local_references :: "'n Json \<Rightarrow> string list" where
  "collect_local_references v =
     (case as_object v of
        None \<Rightarrow> []
      | Some m \<Rightarrow>
          (case local_reference m of None \<Rightarrow> [] | Some name \<Rightarrow> [name])
          @ concat (map (\<lambda>keyword. case get_as as_object m keyword of
                None \<Rightarrow> []
              | Some children \<Rightarrow> concat (map (\<lambda>(_, child). collect_local_references child) children))
              [''properties'', ''$defs''])
          @ (case map_of m ''items'' of None \<Rightarrow> [] | Some items \<Rightarrow> collect_local_references items)
          @ (case get_as as_array m ''oneOf'' of
                None \<Rightarrow> []
              | Some branches \<Rightarrow> concat (map collect_local_references branches)))"
  by pat_completeness auto

termination
  by (relation "measure size") (auto dest!: map_of_size field_size item_size)

declare collect_local_references.simps [simp del]

text \<open>The iteration order of a \<open>BTreeSet\<close>.\<close>

definition reference_set :: "'n Json \<Rightarrow> string list" where
  "reference_set v = sort (remdups (collect_local_references v))"

type_synonym reference_graph = "(string \<times> string list) list"

text \<open>The depth-first visit. \<open>active\<close> holds the names on the path: the code inserts a name before it visits the
  targets and removes it afterwards, so the targets see it and the caller does not.\<close>

function visit_reference ::
  "reference_graph \<Rightarrow> string set \<Rightarrow> string \<Rightarrow> string set \<Rightarrow> SchemaProfileError + string set" where
  "visit_reference graph active name finished =
     (if name \<in> finished then Inr finished
      else if name \<in> active then Inl (SchemaProfileError (''$/$defs/'' @ name) ''schema_ref_cycle'')
      else
        rbind (case map_of graph name of
            None \<Rightarrow> Inr finished
          | Some targets \<Rightarrow>
              fold_result (\<lambda>finished target. visit_reference graph (insert name active) target finished)
                finished targets) (\<lambda>finished.
        Inr (insert name finished)))"
  by pat_completeness auto

termination
proof (relation "measure (\<lambda>(graph, active, _, _). card (fst ` set graph - active))")
  fix graph :: reference_graph and active :: "string set" and name :: string and finished finished' targets target
  assume "name \<notin> active" and "map_of graph name = Some targets"
  then have "name \<in> fst ` set graph - active" by (force dest: map_of_SomeD)
  then have "fst ` set graph - insert name active \<subset> fst ` set graph - active" by blast
  then show "((graph, insert name active, target, finished'), (graph, active, name, finished))
      \<in> measure (\<lambda>(graph, active, _, _). card (fst ` set graph - active))"
    by (simp add: psubset_card_mono)
qed simp

declare visit_reference.simps [simp del]

definition reference_graph_of :: "'n fields \<Rightarrow> reference_graph" where
  "reference_graph_of definitions = map (\<lambda>(name, definition). (name, reference_set definition)) definitions"

definition validate_local_references :: "'n fields \<Rightarrow> SchemaProfileError + unit" where
  "validate_local_references root_node =
     (let definitions = (case get_as as_object root_node ''$defs'' of None \<Rightarrow> [] | Some m \<Rightarrow> m);
          missing = (\<lambda>path reference. fail_if (map_of definitions reference = None)
            (SchemaProfileError path ''schema_ref_missing''))
      in rbind (check_all (missing ''$'') (reference_set (Object root_node))) (\<lambda>_.
         rbind (check_all (\<lambda>(name, references). check_all (missing (''$/$defs/'' @ name)) references)
           (reference_graph_of definitions)) (\<lambda>_.
         rbind (fold_result (\<lambda>finished (name, _). visit_reference (reference_graph_of definitions) {} name finished)
           {} (reference_graph_of definitions)) (\<lambda>_.
         Inr ()))))"

section \<open>Documents\<close>

definition VALUE_KINDS :: "string list" where
  "VALUE_KINDS = [''object'', ''array'', ''string'', ''integer'', ''number'', ''boolean'', ''null'']"

definition validate_schema_document ::
  "('n, 'z) schema_env_scheme \<Rightarrow> 'n Json \<Rightarrow> bool \<Rightarrow> SchemaProfileError + unit" where
  "validate_schema_document env schema object_input =
     rbind (ok_or (SchemaProfileError ''$'' ''schema_root_not_object'') (as_object schema)) (\<lambda>root_node.
     let object_root = map_of root_node ''type'' = Some (String ''object'');
         nominal_root = some_and (get_as as_str root_node ''$ref'') (is_known_pinned_nominal_reference env);
         typed_value_root = some_and (get_as as_str root_node ''type'') (\<lambda>kind. kind \<in> set VALUE_KINDS)
     in if \<not> (nominal_root \<or> (if object_input then object_root else typed_value_root))
        then Inl (SchemaProfileError ''$'' ''schema_root_type'')
        else if map_of root_node ''$schema'' \<noteq> Some (String ''https://json-schema.org/draft/2020-12/schema'')
        then Inl (SchemaProfileError ''$/$schema'' ''schema_dialect_required'')
        else
          rbind (validate_schema_node env root_node ''$'') (\<lambda>_.
          validate_local_references root_node))"

definition validate_closed_schema :: "('n, 'z) schema_env_scheme \<Rightarrow> 'n Json \<Rightarrow> SchemaProfileError + unit" where
  "validate_closed_schema env schema = validate_schema_document env schema True"

definition schema_digest :: "('n, 'z) schema_env_scheme \<Rightarrow> 'n Json \<Rightarrow> SchemaProfileError + Sha256Digest" where
  "schema_digest env schema =
     rbind (map_err (SchemaProfileError ''$'' ''interaction_schema_canonicalization'') (canonical_digest env schema)) (\<lambda>text.
     ok_or (SchemaProfileError ''$'' ''interaction_schema_digest'') (parse_digest text))"

definition validate_closed_schema_document_size ::
  "('n, 'z) schema_env_scheme \<Rightarrow> 'n Json \<Rightarrow> SchemaProfileError + unit" where
  "validate_closed_schema_document_size env schema =
     rbind (ok_or (SchemaProfileError ''$'' ''closed_schema_serialization'') (sc_encoded_length env schema)) (\<lambda>bytes.
     fail_if (MAX_CLOSED_SCHEMA_BYTES < bytes) (SchemaProfileError ''$'' ''closed_schema_size''))"

section \<open>Closed documents\<close>

definition CLOSED_SCHEMA_PROFILE_ID :: string where
  "CLOSED_SCHEMA_PROFILE_ID = ''insight.closed-json-schema/1''"

definition CLOSED_VALUE_SCHEMA_PROFILE_ID :: string where
  "CLOSED_VALUE_SCHEMA_PROFILE_ID = ''insight.platform/closed-value-schema/v1''"

definition CLOSED_SCHEMA_DOCUMENT_VERSION :: u32 where
  "CLOSED_SCHEMA_DOCUMENT_VERSION = 1"

record 'n ClosedJsonSchema =
  js_schema_version :: u32
  js_profile :: string
  js_schema :: "'n Json"
  js_canonical_digest :: Sha256Digest

record 'n ClosedValueSchema =
  vs_schema_version :: u32
  vs_profile :: string
  vs_schema :: "'n Json"
  vs_canonical_digest :: Sha256Digest

definition json_schema_build ::
  "('n, 'z) schema_env_scheme \<Rightarrow> 'n Json \<Rightarrow> SchemaProfileError + 'n ClosedJsonSchema" where
  "json_schema_build env schema =
     rbind (validate_closed_schema_document_size env schema) (\<lambda>_.
     rbind (validate_closed_schema env schema) (\<lambda>_.
     rbind (schema_digest env schema) (\<lambda>digest.
     Inr \<lparr>js_schema_version = CLOSED_SCHEMA_DOCUMENT_VERSION, js_profile = CLOSED_SCHEMA_PROFILE_ID,
          js_schema = schema, js_canonical_digest = digest\<rparr>)))"

definition json_schema_validate ::
  "('n, 'z) schema_env_scheme \<Rightarrow> 'n ClosedJsonSchema \<Rightarrow> SchemaProfileError + unit" where
  "json_schema_validate env s =
     (if js_schema_version s \<noteq> CLOSED_SCHEMA_DOCUMENT_VERSION \<or> js_profile s \<noteq> CLOSED_SCHEMA_PROFILE_ID
      then Inl (SchemaProfileError ''$'' ''closed_schema_binding'')
      else
        rbind (validate_closed_schema_document_size env (js_schema s)) (\<lambda>_.
        rbind (schema_digest env (js_schema s)) (\<lambda>digest.
        if digest \<noteq> js_canonical_digest s then Inl (SchemaProfileError ''$'' ''closed_schema_digest'')
        else validate_closed_schema env (js_schema s))))"

definition value_schema_build ::
  "('n, 'z) schema_env_scheme \<Rightarrow> 'n Json \<Rightarrow> SchemaProfileError + 'n ClosedValueSchema" where
  "value_schema_build env schema =
     rbind (validate_closed_schema_document_size env schema) (\<lambda>_.
     rbind (validate_schema_document env schema False) (\<lambda>_.
     rbind (schema_digest env schema) (\<lambda>digest.
     Inr \<lparr>vs_schema_version = CLOSED_SCHEMA_DOCUMENT_VERSION, vs_profile = CLOSED_VALUE_SCHEMA_PROFILE_ID,
          vs_schema = schema, vs_canonical_digest = digest\<rparr>)))"

definition value_schema_validate ::
  "('n, 'z) schema_env_scheme \<Rightarrow> 'n ClosedValueSchema \<Rightarrow> SchemaProfileError + unit" where
  "value_schema_validate env s =
     (if vs_schema_version s \<noteq> CLOSED_SCHEMA_DOCUMENT_VERSION \<or> vs_profile s \<noteq> CLOSED_VALUE_SCHEMA_PROFILE_ID
      then Inl (SchemaProfileError ''$'' ''closed_value_schema_binding'')
      else
        rbind (schema_digest env (vs_schema s)) (\<lambda>digest.
        if digest \<noteq> vs_canonical_digest s then Inl (SchemaProfileError ''$'' ''closed_value_schema_binding'')
        else
          rbind (validate_closed_schema_document_size env (vs_schema s)) (\<lambda>_.
          validate_schema_document env (vs_schema s) False)))"

text \<open>\<open>TryFrom\<close> in both directions: validate, then build the other profile over the same document.\<close>

definition value_schema_of ::
  "('n, 'z) schema_env_scheme \<Rightarrow> 'n ClosedJsonSchema \<Rightarrow> SchemaProfileError + 'n ClosedValueSchema" where
  "value_schema_of env s = rbind (json_schema_validate env s) (\<lambda>_. value_schema_build env (js_schema s))"

definition json_schema_of ::
  "('n, 'z) schema_env_scheme \<Rightarrow> 'n ClosedValueSchema \<Rightarrow> SchemaProfileError + 'n ClosedJsonSchema" where
  "json_schema_of env s = rbind (value_schema_validate env s) (\<lambda>_. json_schema_build env (vs_schema s))"

section \<open>Capability interfaces\<close>

definition has_capability_description :: "'n fields \<Rightarrow> bool" where
  "has_capability_description property \<longleftrightarrow>
     some_and (get_as as_str property ''description'') (\<lambda>text. text \<noteq> [] \<and> length text \<le> 4096 \<and> \<not> has_control text)"

definition has_classification :: "'n fields \<Rightarrow> bool" where
  "has_classification property \<longleftrightarrow>
     some_and (get_as as_str property ''x-platform-classification'')
       (\<lambda>c. c \<in> {''public'', ''internal'', ''confidential'', ''restricted''})"

definition property_metadata :: "string \<Rightarrow> string \<Rightarrow> 'n Json \<Rightarrow> SchemaProfileError + 'n fields" where
  "property_metadata path name property =
     rbind (ok_or (SchemaProfileError (path @ ''/properties/'' @ name) ''schema_property_type'')
       (as_object property)) (\<lambda>m.
     if \<not> has_capability_description m
     then Inl (SchemaProfileError (path @ ''/properties/'' @ name @ ''/description'') ''schema_property_description'')
     else if \<not> has_classification m
     then Inl (SchemaProfileError (path @ ''/properties/'' @ name @ ''/x-platform-classification'')
       ''schema_property_classification'')
     else Inr m)"

text \<open>The objects under \<open>$defs\<close>, \<open>items\<close> and \<open>oneOf\<close> with their paths, in the order they are visited; what
  is not an object there is passed over.\<close>

definition capability_children :: "'n fields \<Rightarrow> string \<Rightarrow> ('n fields \<times> string) list" where
  "capability_children node path =
     (case get_as as_object node ''$defs'' of
        None \<Rightarrow> []
      | Some definitions \<Rightarrow> List.map_filter (\<lambda>(name, definition).
          map_option (\<lambda>m. (m, path @ ''/$defs/'' @ name)) (as_object definition)) definitions)
     @ (case get_as as_object node ''items'' of None \<Rightarrow> [] | Some items \<Rightarrow> [(items, path @ ''/items'')])
     @ (case get_as as_array node ''oneOf'' of
          None \<Rightarrow> []
        | Some branches \<Rightarrow> List.map_filter (\<lambda>(index, branch).
            map_option (\<lambda>m. (m, branch_path path index)) (as_object branch)) (enumerate 0 branches))"

lemma set_map_filter: "set (List.map_filter f xs) = {y. \<exists>x \<in> set xs. f x = Some y}"
  by (force simp: List.map_filter_def)

lemma capability_children_size: "(m, p) \<in> set (capability_children node path) \<Longrightarrow> size (Object m) < size (Object node)"
  by (auto simp: capability_children_def set_map_filter simp del: Json.size split: option.splits
      dest!: map_of_size field_size item_size enumerated_item)

lemma property_metadata_Inr: "property_metadata path name v = Inr m \<Longrightarrow> v = Object m"
  by (auto simp: property_metadata_def rbind_eq_Inr ok_or_eq_Inr split: if_splits)

function require_capability_property_metadata :: "'n fields \<Rightarrow> string \<Rightarrow> SchemaProfileError + unit" where
  "require_capability_property_metadata node path =
     rbind (check_all (\<lambda>(name, property).
         rbind (property_metadata path name property) (\<lambda>m.
         require_capability_property_metadata m (path @ ''/properties/'' @ name)))
       (case get_as as_object node ''properties'' of None \<Rightarrow> [] | Some properties \<Rightarrow> properties)) (\<lambda>_.
     check_all (\<lambda>(m, p). require_capability_property_metadata m p) (capability_children node path))"
  by pat_completeness auto

termination
  by (relation "measure (\<lambda>(node, _). size (Object node))")
    (auto simp del: Json.size split: option.splits dest: capability_children_size
      dest!: map_of_size field_size property_metadata_Inr)

declare require_capability_property_metadata.simps [simp del]

definition validate_capability_interface_schema ::
  "('n, 'z) schema_env_scheme \<Rightarrow> 'n ClosedJsonSchema \<Rightarrow> SchemaProfileError + unit" where
  "validate_capability_interface_schema env s =
     rbind (json_schema_validate env s) (\<lambda>_.
     rbind (ok_or (SchemaProfileError ''$'' ''schema_root_not_object'') (as_object (js_schema s))) (\<lambda>root_node.
     require_capability_property_metadata root_node ''$''))"

section \<open>The shape of literals\<close>

definition referenced_schema :: "('n, 'z) schema_env_scheme \<Rightarrow> 'n Json \<Rightarrow> string \<Rightarrow> 'n Json option" where
  "referenced_schema env root_schema reference =
     (case strip_prefix ''#/$defs/'' reference of
        Some name \<Rightarrow> Option.bind (value_get root_schema ''$defs'') (\<lambda>defs. value_get defs name)
      | None \<Rightarrow> schema_for_pinned_nominal_reference env reference)"

definition is_integral :: "('n, 'z) schema_env_scheme \<Rightarrow> 'n Json \<Rightarrow> bool" where
  "is_integral env v =
     (case v of Number n \<Rightarrow> sj_as_i64 env n \<noteq> None \<or> sj_as_u64 env n \<noteq> None \<or> sc_integral env n | _ \<Rightarrow> False)"

text \<open>The names an object literal lacks of \<open>required\<close>, if that is a list.\<close>

definition lacks_required :: "'n Json \<Rightarrow> 'n fields \<Rightarrow> bool" where
  "lacks_required schema m \<longleftrightarrow>
     some_and (Option.bind (value_get schema ''required'') as_array)
       (list_ex (\<lambda>v. none_or (as_str v) (\<lambda>name. map_of m name = None)))"

function literal_matches_shape ::
  "('n, 'z) schema_env_scheme \<Rightarrow> 'n Json \<Rightarrow> 'n Json \<Rightarrow> 'n Json \<Rightarrow> nat \<Rightarrow> bool" where
  "literal_matches_shape env root_schema schema v depth =
     (if 128 < depth then False
      else if (case Option.bind (value_get schema ''$ref'') as_str of
          None \<Rightarrow> False
        | Some reference \<Rightarrow>
            (case referenced_schema env root_schema reference of
               None \<Rightarrow> True
             | Some referenced \<Rightarrow> \<not> literal_matches_shape env root_schema referenced v (Suc depth)))
      then False
      else if (case Option.bind (value_get schema ''oneOf'') as_array of
          None \<Rightarrow> False
        | Some branches \<Rightarrow> \<not> list_ex (\<lambda>branch. literal_matches_shape env root_schema branch v (Suc depth)) branches)
      then False
      else
        case Option.bind (value_get schema ''type'') as_str of
          None \<Rightarrow> True
        | Some kind \<Rightarrow>
            if kind = ''object'' then
              (case as_object v of
                 None \<Rightarrow> False
               | Some m \<Rightarrow>
                   (case Option.bind (value_get schema ''properties'') as_object of
                      None \<Rightarrow> False
                    | Some properties \<Rightarrow>
                        \<not> lacks_required schema m
                        \<and> list_all (\<lambda>(name, field).
                            case map_of properties name of
                              None \<Rightarrow> value_get schema ''additionalProperties'' \<noteq> Some (Bool False)
                            | Some property \<Rightarrow> literal_matches_shape env root_schema property field (Suc depth)) m))
            else if kind = ''array'' then
              (case as_array v of
                 None \<Rightarrow> False
               | Some items \<Rightarrow>
                   (case value_get schema ''items'' of
                      None \<Rightarrow> False
                    | Some item_schema \<Rightarrow>
                        list_all (\<lambda>item. literal_matches_shape env root_schema item_schema item (Suc depth)) items))
            else if kind = ''boolean'' then (case v of Bool _ \<Rightarrow> True | _ \<Rightarrow> False)
            else if kind = ''string'' then as_str v \<noteq> None
            else if kind = ''integer'' then is_integral env v
            else if kind = ''number'' then is_number v
            else if kind = ''null'' then (case v of Null \<Rightarrow> True | _ \<Rightarrow> False)
            else False)"
  by pat_completeness auto

termination
  by (relation "measure (\<lambda>(_, _, _, _, depth). 129 - depth)") auto

declare literal_matches_shape.simps [simp del]

definition validate_literal_shape ::
  "('n, 'z) schema_env_scheme \<Rightarrow> 'n ClosedValueSchema \<Rightarrow> 'n Json \<Rightarrow> SchemaProfileError + unit" where
  "validate_literal_shape env s v =
     rbind (value_schema_validate env s) (\<lambda>_.
     fail_if (\<not> literal_matches_shape env (vs_schema s) (vs_schema s) v 0)
       (SchemaProfileError ''$'' ''closed_value_literal_shape''))"

end
