(* ===== verification/PlanGraph.thy ===== *)
theory PlanGraph
  imports Plan Schema
begin

text \<open>
  A whole runtime plan: its schema documents, its dependency slots, the reachability of ports, and
  \<open>RuntimePlan::validate\<close>.
\<close>

section \<open>Plans\<close>

record 'n RuntimePlan =
  rp_plan_version :: u32
  rp_interface_contract_digest :: Sha256Digest
  rp_entry_node_id :: PlanNodeKey
  rp_dependency_slots :: "(string, RuntimeDependencySlot) btree"
  rp_schema_documents :: "(Sha256Digest, 'n ClosedValueSchema) btree"
  rp_nodes :: "(PlanNodeKey, 'n RuntimeNode) btree"

definition plan_node :: "'n RuntimePlan \<Rightarrow> PlanNodeKey \<Rightarrow> PlanError + 'n RuntimeNode" where
  "plan_node p key = ok_or UnknownPlanNodeReference (map_of (rp_nodes p) key)"

definition model_response_schema ::
  "('n, 'z) schema_env_scheme \<Rightarrow> 'n RuntimePlan \<Rightarrow> PlanNodeKey \<Rightarrow> PlanError + 'n ClosedValueSchema" where
  "model_response_schema env p node_key =
     rbind (plan_node p node_key) (\<lambda>node.
     case node of
       ModelLoop m _ \<Rightarrow>
         rbind (ok_or InvalidPlan (map_of (rp_schema_documents p) (port_schema_digest (ml_output m)))) (\<lambda>schema.
         if vs_canonical_digest schema \<noteq> port_schema_digest (ml_output m) then Inl InvalidPlan
         else if is_ok (json_schema_of env schema) then Inr schema else Inl InvalidPlan)
     | _ \<Rightarrow> Inl InvalidPlan)"

section \<open>What a node reads, writes and needs\<close>

definition node_expressions :: "'n RuntimeNode \<Rightarrow> 'n TypedExpressionProgram list" where
  "node_expressions n =
     (case n of
        Compute assignments _ \<Rightarrow> map pa_expression assignments
      | Branch ordered_arms _ \<Rightarrow> map ba_when ordered_arms
      | Map items _ _ _ _ _ \<Rightarrow> [items]
      | Loop condition _ _ _ _ \<Rightarrow> [condition]
      | _ \<Rightarrow> [])"

definition node_declares_output :: "'n RuntimeNode \<Rightarrow> ExactDataPortRef \<Rightarrow> bool" where
  "node_declares_output n port \<longleftrightarrow>
     (case n of
        Compute assignments _ \<Rightarrow> list_ex (\<lambda>a. pa_output_port a = port) assignments
      | Map _ item_port _ _ _ _ \<Rightarrow> item_port = port
      | Loop _ carried_ports _ _ _ \<Rightarrow> list_ex (\<lambda>c. lc_next_iteration_port c = port) carried_ports
      | ModelLoop m _ \<Rightarrow> ml_output m = port
      | CapabilityCall c _ \<Rightarrow> cc_output c = port
      | ChildAgentCall c _ \<Rightarrow> ca_output c = port
      | ContextQuery _ _ result _ _ \<Rightarrow> result = port
      | HumanTask _ response _ _ \<Rightarrow> response = port
      | SignalWait _ (Some payload) _ _ \<Rightarrow> payload = port
      | _ \<Rightarrow> False)"

definition option_items :: "'a option \<Rightarrow> 'a list" where
  "option_items m = (case m of None \<Rightarrow> [] | Some x \<Rightarrow> [x])"

definition instruction_schemas :: "'n TypedInstruction \<Rightarrow> Sha256Digest list" where
  "instruction_schemas i =
     (case i of
        LoadPort port \<Rightarrow> [port_schema_digest port]
      | Literal v \<Rightarrow> [cj_schema_digest v]
      | _ \<Rightarrow> [])"

definition expression_schemas :: "'n TypedExpressionProgram \<Rightarrow> Sha256Digest list" where
  "expression_schemas e =
     xp_output_schema_digest e # map port_schema_digest (xp_input_ports e)
       @ concat (map instruction_schemas (xp_instructions e))"

text \<open>The digests \<open>collect_node_schemas\<close> puts in its set.\<close>

definition node_schemas :: "'n RuntimeNode \<Rightarrow> Sha256Digest list" where
  "node_schemas n =
     (case n of
        Compute assignments _ \<Rightarrow>
          concat (map (\<lambda>a. port_schema_digest (pa_output_port a) # expression_schemas (pa_expression a)) assignments)
      | Branch ordered_arms _ \<Rightarrow> concat (map (\<lambda>arm. expression_schemas (ba_when arm)) ordered_arms)
      | Map items item_port _ _ _ _ \<Rightarrow> expression_schemas items @ [port_schema_digest item_port]
      | Loop condition carried_ports _ _ _ \<Rightarrow>
          expression_schemas condition
            @ concat (map (\<lambda>c. [port_schema_digest (lc_body_output_port c),
                port_schema_digest (lc_next_iteration_port c)]) carried_ports)
      | ModelLoop m _ \<Rightarrow>
          map port_schema_digest ([ml_input m, ml_output m] @ option_items (ml_model_route m))
      | CapabilityCall c _ \<Rightarrow>
          map port_schema_digest ([cc_input c, cc_output c] @ option_items (cc_candidate_route c))
      | ChildAgentCall c _ \<Rightarrow>
          map port_schema_digest ([ca_input c, ca_output c] @ option_items (ca_candidate_route c))
      | ContextQuery _ request result _ _ \<Rightarrow> map port_schema_digest [request, result]
      | HumanTask _ response _ _ \<Rightarrow> [port_schema_digest response]
      | SignalWait _ payload _ _ \<Rightarrow> map port_schema_digest (option_items payload)
      | Return v \<Rightarrow> [port_schema_digest v]
      | Raise failure \<Rightarrow> [port_schema_digest failure]
      | _ \<Rightarrow> [])"

definition node_dependency_slots :: "'n RuntimeNode \<Rightarrow> (string \<times> RuntimeDependencyKind) list" where
  "node_dependency_slots n =
     (case n of
        ModelLoop m _ \<Rightarrow>
          (ml_model_slot_id m, Model) # map (\<lambda>s. (s, Skill)) (ml_skill_slot_ids m)
            @ map (\<lambda>s. (s, Capability)) (ml_capability_slot_ids m)
      | CapabilityCall c _ \<Rightarrow> [(cc_capability_slot_id c, Capability)]
      | ContextQuery s _ _ _ _ \<Rightarrow> [(s, Context)]
      | ChildAgentCall c _ \<Rightarrow> [(ca_child_agent_slot_id c, ChildAgent)]
      | _ \<Rightarrow> [])"

definition external_leaf_inputs :: "'n RuntimeNode \<Rightarrow> ExactDataPortRef list" where
  "external_leaf_inputs n =
     (case n of
        ModelLoop m _ \<Rightarrow> ml_input m # option_items (ml_model_route m)
      | CapabilityCall c _ \<Rightarrow> cc_input c # option_items (cc_candidate_route c)
      | ChildAgentCall c _ \<Rightarrow> ca_input c # option_items (ca_candidate_route c)
      | ContextQuery _ request _ _ _ \<Rightarrow> [request]
      | _ \<Rightarrow> [])"

section \<open>Schema documents\<close>

definition MAX_PLAN_SCHEMA_DOCUMENTS :: nat where
  "MAX_PLAN_SCHEMA_DOCUMENTS = 256"

definition MAX_PLAN_SCHEMA_DOCUMENT_BYTES :: nat where
  "MAX_PLAN_SCHEMA_DOCUMENT_BYTES = 4194304"

definition schema_json :: "('n, 'z) schema_env_scheme \<Rightarrow> 'n ClosedValueSchema \<Rightarrow> 'n Json" where
  "schema_json env s = json_object
     [(''schema_version'', json_number env (ucast (vs_schema_version s))), (''profile'', String (vs_profile s)),
      (''schema'', vs_schema s), (''canonical_digest'', String (vs_canonical_digest s))]"

text \<open>The state of the first loop is the number of bytes so far.\<close>

definition count_schema_document ::
  "('n, 'z) schema_env_scheme \<Rightarrow> nat \<Rightarrow> Sha256Digest \<times> 'n ClosedValueSchema \<Rightarrow> PlanError + nat" where
  "count_schema_document env bytes entry =
     (let (digest, schema) = entry in
      if \<not> is_ok (value_schema_validate env schema) then Inl InvalidPlan
      else if digest \<noteq> vs_canonical_digest schema then Inl InvalidPlan
      else
        rbind (map_err InvalidPlan (canonical_json env (schema_json env schema))) (\<lambda>canonical.
        let bytes = bytes + length canonical
        in if MAX_PLAN_SCHEMA_DOCUMENT_BYTES < bytes then Inl InvalidPlan else Inr bytes))"

definition validate_literal ::
  "('n, 'z) schema_env_scheme \<Rightarrow> 'n RuntimePlan \<Rightarrow> 'n TypedInstruction \<Rightarrow> PlanError + unit" where
  "validate_literal env p i =
     (case i of
        Literal v \<Rightarrow>
          rbind (ok_or InvalidPlan (map_of (rp_schema_documents p) (cj_schema_digest v))) (\<lambda>schema.
          fail_if (\<not> is_ok (validate_literal_shape env schema (cj_value v))) InvalidPlan)
      | _ \<Rightarrow> Inr ())"

definition validate_node_schemas ::
  "('n, 'z) schema_env_scheme \<Rightarrow> 'n RuntimePlan \<Rightarrow> PlanNodeKey \<times> 'n RuntimeNode \<Rightarrow> PlanError + unit" where
  "validate_node_schemas env p entry =
     (let (node_key, node) = entry in
      rbind (case node of
          ModelLoop _ _ \<Rightarrow> rbind (model_response_schema env p node_key) (\<lambda>_. Inr ())
        | _ \<Rightarrow> Inr ()) (\<lambda>_.
      rbind (check_all (validate_literal env p) (concat (map xp_instructions (node_expressions node)))) (\<lambda>_.
      case node of
        HumanTask d response _ _ \<Rightarrow>
          rbind (ok_or InvalidPlan (map_of (rp_schema_documents p) (port_schema_digest response))) (\<lambda>schema.
          if \<not> is_ok (json_schema_of env schema) then Inl InvalidPlan
          else
            rbind (ok_or InvalidPlan (eligibility_rule d)) (\<lambda>rule.
            fail_if (eligibility_digest env rule \<noteq> Inr (eligibility_rule_digest d)) InvalidPlan))
      | _ \<Rightarrow> Inr ())))"

definition validate_schema_documents :: "('n, 'z) schema_env_scheme \<Rightarrow> 'n RuntimePlan \<Rightarrow> PlanError + unit" where
  "validate_schema_documents env p =
     (if rp_schema_documents p = [] \<or> MAX_PLAN_SCHEMA_DOCUMENTS < length (rp_schema_documents p)
      then Inl InvalidPlan
      else
        rbind (fold_result (count_schema_document env) 0 (rp_schema_documents p)) (\<lambda>_.
        rbind (check_all (validate_node_schemas env p) (rp_nodes p)) (\<lambda>_.
        fail_if (list_ex (\<lambda>digest. map_of (rp_schema_documents p) digest = None)
          (concat (map (\<lambda>(_, node). node_schemas node) (rp_nodes p)))) InvalidPlan)))"

section \<open>Reachability\<close>

text \<open>\<open>pending\<close> is the stack with its top first; every round visits a new node or shortens it.\<close>

function reaches_loop ::
  "(PlanNodeKey, 'n RuntimeNode) btree \<Rightarrow> PlanNodeKey \<Rightarrow> PlanNodeKey set \<Rightarrow> PlanNodeKey list \<Rightarrow>
   PlanError + bool" where
  "reaches_loop nodes target visited pending =
     (case pending of
        [] \<Rightarrow> Inr False
      | candidate # rest \<Rightarrow>
          if candidate = target then Inr True
          else if candidate \<in> visited then reaches_loop nodes target visited rest
          else (case map_of nodes candidate of
              None \<Rightarrow> Inl UnknownPlanNodeReference
            | Some node \<Rightarrow>
                reaches_loop nodes target (insert candidate visited) (rev (references node) @ rest)))"
  by pat_completeness auto

definition unvisited :: "('k, 'v) btree \<Rightarrow> 'k set \<Rightarrow> nat" where
  "unvisited nodes visited = card (set (map fst nodes) - visited)"

lemma unvisited_decreases:
  "map_of nodes c = Some n \<Longrightarrow> c \<notin> visited \<Longrightarrow> unvisited nodes (insert c visited) < unvisited nodes visited"
  unfolding unvisited_def
  by (rule psubset_card_mono) (force dest!: map_of_SomeD)+

termination reaches_loop
  by (relation "(\<lambda>(nodes, _, visited, _). unvisited nodes visited) <*mlex*>
      measure (\<lambda>(_, _, _, pending). length pending)")
    (auto simp: mlex_prod_def unvisited_decreases wf_mlex)

declare reaches_loop.simps [simp del]

definition node_reaches :: "'n RuntimePlan \<Rightarrow> PlanNodeKey \<Rightarrow> PlanNodeKey \<Rightarrow> PlanError + bool" where
  "node_reaches p source target = reaches_loop (rp_nodes p) target {} [source]"

text \<open>The region of a loop body: what is reachable without passing the loop or its exit.\<close>

function region_loop ::
  "(PlanNodeKey, 'n RuntimeNode) btree \<Rightarrow> PlanNodeKey set \<Rightarrow> PlanNodeKey set \<Rightarrow> PlanNodeKey list \<Rightarrow>
   PlanError + PlanNodeKey set" where
  "region_loop nodes borders reachable pending =
     (case pending of
        [] \<Rightarrow> Inr reachable
      | candidate # rest \<Rightarrow>
          if candidate \<in> borders \<or> candidate \<in> reachable then region_loop nodes borders reachable rest
          else (case map_of nodes candidate of
              None \<Rightarrow> Inl UnknownPlanNodeReference
            | Some node \<Rightarrow>
                region_loop nodes borders (insert candidate reachable) (rev (references node) @ rest)))"
  by pat_completeness auto

termination region_loop
  by (relation "(\<lambda>(nodes, _, reachable, _). unvisited nodes reachable) <*mlex*>
      measure (\<lambda>(_, _, _, pending). length pending)")
    (auto simp: mlex_prod_def unvisited_decreases wf_mlex)

declare region_loop.simps [simp del]

section \<open>Validation of the plan\<close>

definition validate_loop_carried_region ::
  "'n RuntimePlan \<Rightarrow> PlanNodeKey \<times> 'n RuntimeNode \<Rightarrow> PlanError + unit" where
  "validate_loop_carried_region p entry =
     (case entry of
        (loop_key, Loop _ carried_ports body exit_node _) \<Rightarrow>
          if carried_ports = [] then Inr ()
          else
            rbind (region_loop (rp_nodes p) {loop_key, exit_node} {} [body]) (\<lambda>reachable.
            fail_if (list_ex (\<lambda>port.
              none_or (producer_node_id (lc_body_output_port port)) (\<lambda>producer. producer \<notin> reachable))
              carried_ports) InvalidPlan)
      | _ \<Rightarrow> Inr ())"

text \<open>A port read at \<open>reader\<close>: the run input, or an output its producer declares and from which the
  reader is reachable.\<close>

definition validate_produced_port ::
  "'n RuntimePlan \<Rightarrow> PlanNodeKey \<Rightarrow> ExactDataPortRef \<Rightarrow> PlanError + unit" where
  "validate_produced_port p reader port =
     (case producer_node_id port of
        None \<Rightarrow> Inr ()
      | Some producer_key \<Rightarrow>
          rbind (ok_or InvalidPlan (map_of (rp_nodes p) producer_key)) (\<lambda>producer.
          if producer_key = reader \<or> \<not> node_declares_output producer port then Inl InvalidPlan
          else
            rbind (node_reaches p producer_key reader) (\<lambda>r. if r then Inr () else Inl InvalidPlan)))"

definition validate_external_leaf ::
  "'n RuntimePlan \<Rightarrow> PlanNodeKey \<times> 'n RuntimeNode \<Rightarrow> PlanError + unit" where
  "validate_external_leaf p entry =
     (let (node_key, node) = entry in
      rbind (check_all (\<lambda>(slot_id, expected_kind).
          fail_if (map_option ds_kind (map_of (rp_dependency_slots p) slot_id) \<noteq> Some expected_kind) InvalidPlan)
        (node_dependency_slots node)) (\<lambda>_.
      check_all (validate_produced_port p node_key) (external_leaf_inputs node)))"

definition validate_terminal_port ::
  "'n RuntimePlan \<Rightarrow> PlanNodeKey \<times> 'n RuntimeNode \<Rightarrow> PlanError + unit" where
  "validate_terminal_port p entry =
     (case entry of
        (terminal_key, Return v) \<Rightarrow> validate_produced_port p terminal_key v
      | (terminal_key, Raise failure) \<Rightarrow> validate_produced_port p terminal_key failure
      | _ \<Rightarrow> Inr ())"

text \<open>The state of the node loop is the number of edges so far.\<close>

definition validate_plan_node ::
  "('n, 'z) schema_env_scheme \<Rightarrow> 'n RuntimePlan \<Rightarrow> PlanLimits \<Rightarrow> nat \<Rightarrow> PlanNodeKey \<times> 'n RuntimeNode \<Rightarrow>
   PlanError + nat" where
  "validate_plan_node env p limits edge_count entry =
     (let (node_key, node) = entry in
      rbind (validate_node env node_key node limits) (\<lambda>_.
      let edge_count = edge_count + length (references node)
      in if pl_maximum_edges limits < edge_count then Inl InvalidPlan
         else if list_ex (\<lambda>reference. map_of (rp_nodes p) reference = None) (references node)
           then Inl UnknownPlanNodeReference
         else Inr edge_count))"

definition plan_validate :: "('n, 'z) schema_env_scheme \<Rightarrow> 'n RuntimePlan \<Rightarrow> PlanLimits \<Rightarrow> PlanError + unit" where
  "plan_validate env p limits =
     (if rp_plan_version p \<noteq> 6
         \<or> pl_maximum_nodes limits = 0
         \<or> pl_maximum_edges limits = 0
         \<or> pl_maximum_fan_out limits = 0
         \<or> pl_maximum_map_items limits = 0
         \<or> pl_maximum_loop_iterations limits = 0
         \<or> pl_maximum_error_handlers limits = 0
         \<or> rp_nodes p = []
         \<or> pl_maximum_nodes limits < length (rp_nodes p)
         \<or> map_of (rp_nodes p) (rp_entry_node_id p) = None
         \<or> list_ex (\<lambda>(slot_id, _). \<not> is_stable_code slot_id) (rp_dependency_slots p)
      then Inl InvalidPlan
      else
        rbind (validate_schema_documents env p) (\<lambda>_.
        rbind (fold_result (validate_plan_node env p limits) 0 (rp_nodes p)) (\<lambda>_.
        rbind (check_all (validate_loop_carried_region p) (rp_nodes p)) (\<lambda>_.
        rbind (check_all (validate_external_leaf p) (rp_nodes p)) (\<lambda>_.
        check_all (validate_terminal_port p) (rp_nodes p))))))"

definition validate_terminal_schema_digests ::
  "'n RuntimePlan \<Rightarrow> Sha256Digest \<Rightarrow> Sha256Digest \<Rightarrow> PlanError + unit" where
  "validate_terminal_schema_digests p output_schema_digest error_schema_digest =
     fail_if (list_ex (\<lambda>(_, node). case node of
         Return v \<Rightarrow> port_schema_digest v \<noteq> output_schema_digest
       | Raise failure \<Rightarrow> port_schema_digest failure \<noteq> error_schema_digest
       | _ \<Rightarrow> False) (rp_nodes p)) InvalidPlan"

end
