(* ===== verification/PlanSafety.thy ===== *)
theory PlanSafety
  imports PlanGraph
begin

text \<open>
  The two graph searches of plan validation compute reachability, and what a validated plan
  promises the interpreter: every node it can reach exists and is valid, every port it reads is
  produced before, and a loop carries only what its own body produces.
\<close>

section \<open>The graph of a plan\<close>

definition edges :: "(PlanNodeKey, 'n RuntimeNode) btree \<Rightarrow> (PlanNodeKey \<times> PlanNodeKey) set" where
  "edges nodes = {(a, b). \<exists>n. map_of nodes a = Some n \<and> b \<in> set (references n)}"

definition closed_nodes :: "(PlanNodeKey, 'n RuntimeNode) btree \<Rightarrow> bool" where
  "closed_nodes nodes \<longleftrightarrow> (\<forall>(a, n) \<in> set nodes. set (references n) \<subseteq> dom (map_of nodes))"

lemma edges_from: "map_of nodes a = Some n \<Longrightarrow> edges nodes `` {a} = set (references n)"
  by (auto simp: edges_def)

lemma edges_closed: "closed_nodes nodes \<Longrightarrow> (a, b) \<in> edges nodes \<Longrightarrow> b \<in> dom (map_of nodes)"
  by (auto simp: edges_def closed_nodes_def dest!: map_of_SomeD)

lemma closed_reachable:
  assumes "closed_nodes nodes" and "(a, b) \<in> (edges nodes)\<^sup>*" and "a \<in> dom (map_of nodes)"
  shows "b \<in> dom (map_of nodes)"
  using assms(2,3) by (induction rule: rtrancl_induct) (auto dest: edges_closed [OF assms(1)])

text \<open>A set that the graph cannot leave contains all it reaches.\<close>

lemma rtrancl_closed_set: "(a, b) \<in> r\<^sup>* \<Longrightarrow> a \<in> S \<Longrightarrow> r `` S \<subseteq> S \<Longrightarrow> b \<in> S"
  by (induction rule: rtrancl_induct) auto

section \<open>Reachability\<close>

lemma reaches_loop_Nil [simp]: "reaches_loop nodes target visited [] = Inr False"
  by (simp add: reaches_loop.simps)

lemma reaches_loop_Cons:
  "reaches_loop nodes target visited (c # rest) =
     (if c = target then Inr True
      else if c \<in> visited then reaches_loop nodes target visited rest
      else (case map_of nodes c of
          None \<Rightarrow> Inl UnknownPlanNodeReference
        | Some node \<Rightarrow> reaches_loop nodes target (insert c visited) (rev (references node) @ rest)))"
  by (simp add: reaches_loop.simps)

lemma reaches_loop_True:
  "reaches_loop nodes target visited pending = Inr True \<Longrightarrow>
     \<exists>x \<in> set pending. (x, target) \<in> (edges nodes)\<^sup>*"
proof (induction nodes target visited pending rule: reaches_loop.induct)
  case (1 nodes target visited pending)
  show ?case
  proof (cases pending)
    case (Cons c rest)
    with 1 consider (found) "c = target" | (old) "c \<in> visited" "c \<noteq> target"
      | (step) n where "c \<noteq> target" "c \<notin> visited" "map_of nodes c = Some n"
      by (auto simp: reaches_loop_Cons split: if_splits option.splits)
    then show ?thesis
    proof cases
      case step
      with 1 Cons obtain x where "x \<in> set (references n) \<union> set rest" "(x, target) \<in> (edges nodes)\<^sup>*"
        by (auto simp: reaches_loop_Cons)
      moreover have "x \<in> set (references n) \<Longrightarrow> (c, x) \<in> edges nodes" using step by (auto simp: edges_def)
      ultimately show ?thesis using Cons by (auto intro: converse_rtrancl_into_rtrancl)
    qed (use 1 Cons in \<open>auto simp: reaches_loop_Cons\<close>)
  qed (use 1 in simp)
qed

lemma reaches_loop_False:
  "reaches_loop nodes target visited pending = Inr False \<Longrightarrow> target \<notin> visited \<Longrightarrow>
   edges nodes `` visited \<subseteq> visited \<union> set pending \<Longrightarrow>
   \<exists>S. visited \<union> set pending \<subseteq> S \<and> edges nodes `` S \<subseteq> S \<and> target \<notin> S"
proof (induction nodes target visited pending rule: reaches_loop.induct)
  case (1 nodes target visited pending)
  show ?case
  proof (cases pending)
    case Nil
    with 1 show ?thesis by (intro exI [of _ visited]) auto
  next
    case (Cons c rest)
    with 1(3) have "c \<noteq> target" by (auto simp: reaches_loop_Cons split: if_splits)
    show ?thesis
    proof (cases "c \<in> visited")
      case True
      have "reaches_loop nodes target visited rest = Inr False"
        using 1(3) Cons \<open>c \<noteq> target\<close> True by (simp add: reaches_loop_Cons)
      moreover have "edges nodes `` visited \<subseteq> visited \<union> set rest" "visited \<union> set pending = visited \<union> set rest"
        using 1(5) Cons True by auto
      ultimately show ?thesis using 1(1) [OF Cons \<open>c \<noteq> target\<close> True] 1(4) by simp
    next
      case False
      with 1(3) Cons \<open>c \<noteq> target\<close> obtain n where n: "map_of nodes c = Some n"
        and r: "reaches_loop nodes target (insert c visited) (rev (references n) @ rest) = Inr False"
        by (auto simp: reaches_loop_Cons split: option.splits)
      have "edges nodes `` insert c visited \<subseteq> insert c visited \<union> set (rev (references n) @ rest)"
        using 1(5) Cons edges_from [OF n] by auto
      with 1(2) [OF Cons \<open>c \<noteq> target\<close> False n r] 1(4) \<open>c \<noteq> target\<close> Cons show ?thesis by auto
    qed
  qed
qed

lemma reaches_loop_total:
  "closed_nodes nodes \<Longrightarrow> set pending \<subseteq> dom (map_of nodes) \<Longrightarrow>
   \<exists>b. reaches_loop nodes target visited pending = Inr b"
proof (induction nodes target visited pending rule: reaches_loop.induct)
  case (1 nodes target visited pending)
  show ?case
  proof (cases pending)
    case (Cons c rest)
    with 1(4) obtain n where n: "map_of nodes c = Some n" by auto
    have "set (references n) \<subseteq> dom (map_of nodes)"
      using edges_closed [OF 1(3)] n by (auto simp: edges_def)
    with 1 Cons n show ?thesis by (auto simp: reaches_loop_Cons)
  qed auto
qed

lemma node_reaches_iff:
  assumes "closed_nodes (rp_nodes p)" and "source \<in> dom (map_of (rp_nodes p))"
  shows "node_reaches p source target = Inr ((source, target) \<in> (edges (rp_nodes p))\<^sup>*)"
proof -
  obtain b where b: "reaches_loop (rp_nodes p) target {} [source] = Inr b"
    using reaches_loop_total [OF assms(1), of "[source]" target "{}"] assms(2) by auto
  show ?thesis
  proof (cases b)
    case True
    with reaches_loop_True [of "rp_nodes p" target "{}" "[source]"] b show ?thesis
      by (simp add: node_reaches_def)
  next
    case False
    with reaches_loop_False [of "rp_nodes p" target "{}" "[source]"] b obtain S
      where "source \<in> S" "edges (rp_nodes p) `` S \<subseteq> S" "target \<notin> S" by auto
    with rtrancl_closed_set [of source target "edges (rp_nodes p)" S] b False show ?thesis
      by (auto simp: node_reaches_def)
  qed
qed

section \<open>The region of a loop\<close>

definition inner_edges ::
  "(PlanNodeKey, 'n RuntimeNode) btree \<Rightarrow> PlanNodeKey set \<Rightarrow> (PlanNodeKey \<times> PlanNodeKey) set" where
  "inner_edges nodes borders = {(a, b) \<in> edges nodes. a \<notin> borders \<and> b \<notin> borders}"

lemma region_loop_Nil [simp]: "region_loop nodes borders reachable [] = Inr reachable"
  by (simp add: region_loop.simps)

lemma region_loop_Cons:
  "region_loop nodes borders reachable (c # rest) =
     (if c \<in> borders \<or> c \<in> reachable then region_loop nodes borders reachable rest
      else (case map_of nodes c of
          None \<Rightarrow> Inl UnknownPlanNodeReference
        | Some node \<Rightarrow> region_loop nodes borders (insert c reachable) (rev (references node) @ rest)))"
  by (simp add: region_loop.simps)

lemma region_loop_sound:
  "region_loop nodes borders reachable pending = Inr R \<Longrightarrow> reachable \<inter> borders = {} \<Longrightarrow>
   x \<in> R \<Longrightarrow> x \<in> reachable \<or> (\<exists>y \<in> set pending - borders. (y, x) \<in> (inner_edges nodes borders)\<^sup>*)"
proof (induction nodes borders reachable pending arbitrary: R rule: region_loop.induct)
  case (1 nodes borders reachable pending)
  show ?case
  proof (cases pending)
    case (Cons c rest)
    show ?thesis
    proof (cases "c \<in> borders \<or> c \<in> reachable")
      case True
      with 1 Cons show ?thesis by (auto simp: region_loop_Cons)
    next
      case False
      with 1(3) Cons obtain n where n: "map_of nodes c = Some n"
        and r: "region_loop nodes borders (insert c reachable) (rev (references n) @ rest) = Inr R"
        by (auto simp: region_loop_Cons split: option.splits)
      have step: "(c, y) \<in> inner_edges nodes borders" if "y \<in> set (references n)" "y \<notin> borders" for y
        using that n False by (auto simp: inner_edges_def edges_def)
      from 1(2) [OF Cons False n r] 1(4,5) False Cons show ?thesis
        by (auto intro: converse_rtrancl_into_rtrancl step)
    qed
  qed (use 1 in simp)
qed

section \<open>What plan validation establishes\<close>

lemma fold_result_each:
  assumes "fold_result f s xs = Inr s'" and "x \<in> set xs"
  shows "\<exists>t t'. f t x = Inr t'"
  using assms by (induction xs arbitrary: s) (auto simp: rbind_eq_Inr)

lemma plan_validate_nodes:
  assumes "plan_validate env p limits = Inr ()"
  shows "closed_nodes (rp_nodes p)" and "rp_entry_node_id p \<in> dom (map_of (rp_nodes p))"
    and "\<And>k n. (k, n) \<in> set (rp_nodes p) \<Longrightarrow> validate_node env k n limits = Inr ()"
proof -
  from assms obtain s where "fold_result (validate_plan_node env p limits) 0 (rp_nodes p) = Inr s"
    and "map_of (rp_nodes p) (rp_entry_node_id p) \<noteq> None"
    by (auto simp: plan_validate_def rbind_eq_Inr split: if_splits)
  note each = fold_result_each [OF this(1)]
  from \<open>map_of (rp_nodes p) (rp_entry_node_id p) \<noteq> None\<close>
  show "rp_entry_node_id p \<in> dom (map_of (rp_nodes p))" by auto
  have "validate_node env k n limits = Inr () \<and> (\<forall>r \<in> set (references n). map_of (rp_nodes p) r \<noteq> None)"
    if "(k, n) \<in> set (rp_nodes p)" for k n
    using each [OF that] by (auto simp: validate_plan_node_def rbind_eq_Inr Let_def list_ex_iff split: if_splits)
  then show "closed_nodes (rp_nodes p)"
    and "\<And>k n. (k, n) \<in> set (rp_nodes p) \<Longrightarrow> validate_node env k n limits = Inr ()"
    by (auto simp: closed_nodes_def domIff)
qed

lemma plan_validate_parts:
  assumes "plan_validate env p limits = Inr ()" and "(k, n) \<in> set (rp_nodes p)"
  shows "validate_loop_carried_region p (k, n) = Inr ()" and "validate_external_leaf p (k, n) = Inr ()"
    and "validate_terminal_port p (k, n) = Inr ()" and "validate_node_schemas env p (k, n) = Inr ()"
  using assms
  by (auto simp: plan_validate_def validate_schema_documents_def rbind_eq_Inr check_all_eq_Inr
      split: if_splits)

lemma validate_produced_port_Inr:
  assumes "validate_produced_port p reader port = Inr ()" and "producer_node_id port = Some k"
    and "closed_nodes (rp_nodes p)"
  shows "\<exists>n. map_of (rp_nodes p) k = Some n \<and> k \<noteq> reader \<and> node_declares_output n port
    \<and> (k, reader) \<in> (edges (rp_nodes p))\<^sup>+"
proof -
  from assms(1,2) obtain n where n: "map_of (rp_nodes p) k = Some n" "k \<noteq> reader" "node_declares_output n port"
    and r: "node_reaches p k reader = Inr True"
    by (auto simp: validate_produced_port_def rbind_eq_Inr ok_or_eq_Inr split: if_splits)
  from n(1) have "k \<in> dom (map_of (rp_nodes p))" by blast
  from node_reaches_iff [OF assms(3) this, of reader] r have "(k, reader) \<in> (edges (rp_nodes p))\<^sup>*" by simp
  with n show ?thesis by (auto simp: rtrancl_eq_or_trancl)
qed

text \<open>The ports a node reads from its scope.\<close>

definition leaf_reads :: "'n RuntimeNode \<Rightarrow> ExactDataPortRef list" where
  "leaf_reads n = (case n of Return v \<Rightarrow> [v] | Raise f \<Rightarrow> [f] | _ \<Rightarrow> external_leaf_inputs n)"

lemma leaf_reads_validated:
  assumes "plan_validate env p limits = Inr ()" and "(k, n) \<in> set (rp_nodes p)" and "port \<in> set (leaf_reads n)"
  shows "validate_produced_port p k port = Inr ()"
  using plan_validate_parts(2,3) [OF assms(1,2)] assms(3)
  by (cases n) (auto simp: leaf_reads_def external_leaf_inputs_def validate_external_leaf_def
      validate_terminal_port_def rbind_eq_Inr check_all_eq_Inr Let_def)

lemma loop_region_validated:
  assumes "validate_loop_carried_region p (k, Loop c carried body exit_node m) = Inr ()" and "q \<in> set carried"
  shows "\<exists>producer. producer_node_id (lc_body_output_port q) = Some producer
    \<and> body \<notin> {k, exit_node} \<and> (body, producer) \<in> (inner_edges (rp_nodes p) {k, exit_node})\<^sup>*"
proof -
  from assms obtain R where r: "region_loop (rp_nodes p) {k, exit_node} {} [body] = Inr R"
    and "\<not> none_or (producer_node_id (lc_body_output_port q)) (\<lambda>producer. producer \<notin> R)"
    by (auto simp: validate_loop_carried_region_def rbind_eq_Inr fail_if_eq_Inr list_ex_iff split: if_splits)
  then obtain producer where "producer_node_id (lc_body_output_port q) = Some producer" "producer \<in> R"
    by (auto simp: none_or_def split: option.splits)
  with region_loop_sound [OF r, of producer] show ?thesis by auto
qed

section \<open>Assignments\<close>

lemma validate_assignments_order:
  assumes "fold_result (validate_assignment env limits outputs) available as = Inr s" and "i < length as"
    and "q \<in> set (xp_input_ports (pa_expression (as ! i)))" and "q \<in> outputs"
  shows "q \<in> available \<or> (\<exists>j < i. pa_output_port (as ! j) = q)"
  using assms
proof (induction as arbitrary: available i)
  case (Cons a as)
  from Cons.prems(1) have ok: "\<not> list_ex (\<lambda>p. p \<in> outputs \<and> p \<notin> available) (xp_input_ports (pa_expression a))"
    and rest: "fold_result (validate_assignment env limits outputs) (insert (pa_output_port a) available) as = Inr s"
    unfolding fold_result.simps rbind_eq_Inr by (auto simp: validate_assignment_def [of _ _ _ _ a] split: if_splits)
  show ?case
  proof (cases i)
    case 0
    with ok Cons.prems show ?thesis by (auto simp: list_ex_iff)
  next
    case (Suc i')
    with Cons.IH [OF rest, of i'] Cons.prems
    have "q \<in> insert (pa_output_port a) available \<or> (\<exists>j < i'. pa_output_port (as ! j) = q)" by simp
    with Suc show ?thesis by (auto intro: exI [of _ "Suc _"])
  qed
qed simp

end
