(* ===== verification/SchemaSafety.thy ===== *)
theory SchemaSafety
  imports Schema
begin

text \<open>
  What the validation of a schema document guarantees: every position of the document is validated, the search
  over local references ranks them, and a tagged union has one discriminator.
\<close>

section \<open>The positions of a document\<close>

text \<open>The nodes that validation descends to, and a node with every check on the node itself.\<close>

inductive subschema :: "'n fields \<Rightarrow> 'n fields \<Rightarrow> bool" where
  property_of: "map_of node ''type'' = Some (String ''object'') \<Longrightarrow> map_of node ''properties'' = Some (Object ps)
    \<Longrightarrow> (name, Object child) \<in> set ps \<Longrightarrow> subschema node child"
| item_of: "map_of node ''type'' = Some (String ''array'') \<Longrightarrow> map_of node ''items'' = Some (Object child)
    \<Longrightarrow> subschema node child"
| definition_of: "map_of node ''$defs'' = Some (Object ds) \<Longrightarrow> (name, Object child) \<in> set ds \<Longrightarrow> subschema node child"
| branch_of: "map_of node ''oneOf'' = Some (Array bs) \<Longrightarrow> Object child \<in> set bs \<Longrightarrow> subschema node child"

lemma set_enumerate_snd: "x \<in> set xs \<Longrightarrow> \<exists>i. (i, x) \<in> set (enumerate n xs)"
  by (metis in_set_conv_nth in_set_enumerate_eq add.commute le_add1 less_diff_conv2 add_diff_cancel_left' fst_conv
      snd_conv nat_add_left_cancel_less)

lemma fold_result_steps:
  "fold_result f s xs = Inr s' \<Longrightarrow> x \<in> set xs \<Longrightarrow> \<exists>t t'. f t x = Inr t'"
  by (induction xs arbitrary: s) (auto simp: rbind_eq_Inr)

abbreviation (input) union_step ::
  "('n, 'z) schema_env_scheme \<Rightarrow> string \<Rightarrow> (string \<times> string list) list option \<Rightarrow> nat \<times> 'n Json
    \<Rightarrow> SchemaProfileError + (string \<times> string list) list option" where
  "union_step env path \<equiv> \<lambda>candidates (index, branch).
     rbind (ok_or (SchemaProfileError (branch_path path index) ''schema_union_branch_type'')
       (as_object branch)) (\<lambda>branch.
     rbind (validate_schema_node env branch (branch_path path index)) (\<lambda>_.
     rbind (branch_candidates branch (branch_path path index)) (\<lambda>found.
     Inr (Some (retain_candidates candidates found)))))"

lemma validate_tagged_union_Inr:
  assumes "validate_tagged_union env v path = Inr ()"
  obtains (nullable) bs where "v = Array bs" "2 \<le> length bs" "length (filter is_null_branch bs) = 1" "length bs = 2"
      "\<And>i b. (i, b) \<in> set (enumerate 0 bs)
        \<Longrightarrow> \<exists>m. b = Object m \<and> validate_schema_node env m (branch_path path i) = Inr ()"
    | (tagged) bs candidates where "v = Array bs" "2 \<le> length bs"
      "length (filter is_null_branch bs) \<noteq> 1 \<or> length bs \<noteq> 2"
      "fold_result (union_step env path) None (enumerate 0 bs) = Inr candidates"
      "one_discriminator candidates (length bs)"
  using assms
  by (subst (asm) validate_tagged_union.simps)
    (fastforce simp: rbind_eq_Inr ok_or_eq_Inr check_all_eq_Inr fail_if_eq_Inr not_less split: if_splits)

lemma union_step_Inr:
  "union_step env path candidates (i, b) = Inr c \<Longrightarrow>
    \<exists>m found. b = Object m \<and> validate_schema_node env m (branch_path path i) = Inr ()
      \<and> branch_candidates m (branch_path path i) = Inr found \<and> c = Some (retain_candidates candidates found)"
  by (auto simp: rbind_eq_Inr ok_or_eq_Inr)

lemma tagged_union_branches:
  assumes "validate_tagged_union env v path = Inr ()" and "v = Array bs" and "b \<in> set bs"
  shows "\<exists>m p. b = Object m \<and> validate_schema_node env m p = Inr ()"
proof -
  from set_enumerate_snd [OF assms(3)] obtain i where i: "(i, b) \<in> set (enumerate 0 bs)" by blast
  from assms(1) show ?thesis
  proof (cases rule: validate_tagged_union_Inr)
    case (nullable cs)
    with i assms(2) show ?thesis by blast
  next
    case (tagged cs candidates)
    from tagged(1) assms(2) have "cs = bs" by simp
    from fold_result_steps [OF tagged(4) i [folded this]] obtain t t' where "union_step env path t (i, b) = Inr t'"
      by blast
    from union_step_Inr [OF this] show ?thesis by blast
  qed
qed

lemma validate_object_Inr:
  assumes "validate_object env node path = Inr ()"
  obtains ps where "map_of node ''additionalProperties'' = Some (Bool False)"
    "map_of node ''properties'' = Some (Object ps)" "validate_required node ps path = Inr ()"
    "\<And>name v. (name, v) \<in> set ps \<Longrightarrow> \<exists>m p. v = Object m \<and> validate_schema_node env m p = Inr ()"
  using assms
  by (subst (asm) validate_object.simps) (fastforce simp: rbind_eq_Inr ok_or_eq_Inr check_all_eq_Inr split: if_splits)

lemma subschema_is_validated:
  assumes "subschema node child" and "validate_schema_node env node path = Inr ()"
  shows "\<exists>p. validate_schema_node env child p = Inr ()"
  using assms
proof cases
  case (property_of ps name)
  from property_of(1) assms(2) have "validate_object env node path = Inr ()"
    by (subst (asm) validate_schema_node.simps) (auto simp: rbind_eq_Inr get_as_def as_str_def)
  then show ?thesis using property_of(2,3) by (cases rule: validate_object_Inr) fastforce
next
  case item_of
  with assms(2) show ?thesis
    by (subst (asm) validate_schema_node.simps) (auto simp: rbind_eq_Inr get_as_def as_str_def ok_or_eq_Inr as_object_def)
next
  case (definition_of ds name)
  with assms(2) show ?thesis
    by (subst (asm) validate_schema_node.simps)
      (fastforce simp: rbind_eq_Inr ok_or_eq_Inr as_object_def check_all_eq_Inr split: if_splits)
next
  case (branch_of bs)
  with assms(2) have "\<exists>p. validate_tagged_union env (Array bs) p = Inr ()"
    by (subst (asm) validate_schema_node.simps) (auto simp: rbind_eq_Inr split: if_splits)
  then show ?thesis using branch_of(2) by (blast dest: tagged_union_branches)
qed

lemma reachable_subschema_is_validated:
  assumes "subschema\<^sup>*\<^sup>* node child" and "validate_schema_node env node path = Inr ()"
  shows "\<exists>p. validate_schema_node env child p = Inr ()"
  using assms by (induction arbitrary: rule: rtranclp_induct) (auto dest: subschema_is_validated)

section \<open>Required names\<close>

lemma validate_required_names:
  assumes "fold_result (validate_required_name ps path) acc required = Inr names"
  shows "\<exists>new. required = map String new \<and> names = rev new @ acc \<and> set new \<subseteq> dom (map_of ps)
    \<and> (distinct acc \<longrightarrow> distinct names)"
  using assms
proof (induction required arbitrary: acc)
  case (Cons v required)
  then obtain name where v: "v = String name" "name \<in> dom (map_of ps)" "name \<notin> set acc"
    and rest: "fold_result (validate_required_name ps path) (name # acc) required = Inr names"
    by (fastforce simp: rbind_eq_Inr validate_required_name_def [of ps path acc] ok_or_eq_Inr split: if_splits)
  from Cons.IH [OF rest] obtain new where "required = map String new" "names = rev new @ name # acc"
    "set new \<subseteq> dom (map_of ps)" "distinct acc \<longrightarrow> distinct names" using v(3) by auto
  with v show ?case by (intro exI [of _ "name # new"]) auto
qed simp

lemma validate_required_Inr:
  assumes "validate_required node ps path = Inr ()"
  shows "\<exists>names. map_of node ''required'' = Some (Array (map String names)) \<and> distinct names
    \<and> set names \<subseteq> dom (map_of ps)"
proof -
  from assms obtain required names where "map_of node ''required'' = Some (Array required)"
    and "fold_result (validate_required_name ps path) [] required = Inr names"
    by (auto simp: validate_required_def rbind_eq_Inr ok_or_eq_Inr)
  with validate_required_names [OF this(2)] show ?thesis by fastforce
qed

lemma validated_object:
  assumes "validate_schema_node env node path = Inr ()" and "map_of node ''type'' = Some (String ''object'')"
  shows "\<exists>ps names. map_of node ''additionalProperties'' = Some (Bool False)
    \<and> map_of node ''properties'' = Some (Object ps) \<and> map_of node ''required'' = Some (Array (map String names))
    \<and> distinct names \<and> set names \<subseteq> dom (map_of ps)"
proof -
  from assms have "validate_object env node path = Inr ()"
    by (subst (asm) validate_schema_node.simps) (auto simp: rbind_eq_Inr get_as_def as_str_def)
  then show ?thesis by (cases rule: validate_object_Inr) (use validate_required_Inr in fastforce)
qed

lemma validated_keywords:
  "validate_schema_node env node path = Inr () \<Longrightarrow> fst ` set node \<subseteq> set ALLOWED_SCHEMA_KEYWORDS"
  by (subst (asm) validate_schema_node.simps)
    (auto simp: rbind_eq_Inr validate_keywords_def check_all_eq_Inr fail_if_eq_Inr)

section \<open>Local references\<close>

text \<open>An edge leads from a name under \<open>$defs\<close> to a name its definition refers to. The search finishes a name
  only after its targets; so the finished names have ranks that fall along the edges.\<close>

definition reference_edges :: "reference_graph \<Rightarrow> (string \<times> string) set" where
  "reference_edges graph = {(a, b). \<exists>targets. map_of graph a = Some targets \<and> b \<in> set targets}"

definition ranked :: "reference_graph \<Rightarrow> string set \<Rightarrow> bool" where
  "ranked graph finished \<longleftrightarrow> (\<exists>rank :: string \<Rightarrow> nat. \<forall>a b.
     (a, b) \<in> reference_edges graph \<longrightarrow> a \<in> finished \<longrightarrow> b \<in> finished \<and> rank b < rank a)"

lemma ranked_insert:
  assumes "ranked graph finished" and "\<And>b. (name, b) \<in> reference_edges graph \<Longrightarrow> b \<in> finished"
    and "name \<notin> finished"
  shows "ranked graph (insert name finished)"
proof -
  from assms(1) obtain rank :: "string \<Rightarrow> nat" where r: "\<And>a b. (a, b) \<in> reference_edges graph \<Longrightarrow> a \<in> finished
      \<Longrightarrow> b \<in> finished \<and> rank b < rank a"
    unfolding ranked_def by blast
  let ?targets = "case map_of graph name of None \<Rightarrow> [] | Some ts \<Rightarrow> ts"
  let ?rank = "rank(name := Suc (sum_list (map rank ?targets)))"
  have "b \<in> insert name finished \<and> ?rank b < ?rank a"
    if "(a, b) \<in> reference_edges graph" "a \<in> insert name finished" for a b
  proof (cases "a = name")
    case True
    with that assms(2,3) have b: "b \<in> finished" "b \<noteq> name" by auto
    from that True have "b \<in> set ?targets" by (auto simp: reference_edges_def)
    then have "rank b \<le> sum_list (map rank ?targets)" by (simp add: member_le_sum_list)
    with b True show ?thesis by simp
  next
    case False
    with that r assms(3) show ?thesis by auto
  qed
  then show ?thesis unfolding ranked_def by (intro exI [of _ ?rank]) blast
qed

text \<open>What one visit establishes, for the names outside the active path.\<close>

definition visit_post :: "reference_graph \<Rightarrow> string set \<Rightarrow> string set \<Rightarrow> string set \<Rightarrow> bool" where
  "visit_post graph active before after \<longleftrightarrow> before \<subseteq> after \<and> after \<inter> active \<subseteq> before \<and> ranked graph after"

lemma visit_targets:
  assumes "fold_result (\<lambda>finished target. visit_reference graph active target finished) finished targets = Inr finished'"
    and "\<And>target f f'. target \<in> set targets \<Longrightarrow> ranked graph f \<Longrightarrow> visit_reference graph active target f = Inr f'
      \<Longrightarrow> target \<in> f' \<and> visit_post graph active f f'"
    and "ranked graph finished"
  shows "set targets \<subseteq> finished' \<and> visit_post graph active finished finished'"
  using assms
proof (induction targets arbitrary: finished)
  case (Cons target targets)
  from Cons.prems(1) obtain f where f: "visit_reference graph active target finished = Inr f"
    and rest: "fold_result (\<lambda>finished target. visit_reference graph active target finished) f targets = Inr finished'"
    by (auto simp: rbind_eq_Inr)
  have first: "target \<in> f \<and> visit_post graph active finished f"
    by (rule Cons.prems(2) [OF _ Cons.prems(3) f]) simp
  then have "ranked graph f" by (simp add: visit_post_def)
  then have "set targets \<subseteq> finished' \<and> visit_post graph active f finished'"
    by (intro Cons.IH [OF rest] Cons.prems(2)) simp_all
  with first show ?case by (auto simp: visit_post_def)
qed (simp add: visit_post_def)

lemma visit_reference_post:
  assumes "visit_reference graph active name finished = Inr finished'" and "ranked graph finished"
  shows "name \<in> finished' \<and> visit_post graph active finished finished'"
  using assms
proof (induction graph active name finished arbitrary: finished' rule: visit_reference.induct)
  case (1 graph active name finished)
  show ?case
  proof (cases "name \<in> finished")
    case True
    with "1.prems"(1) have "finished' = finished" by (subst (asm) visit_reference.simps) simp
    with True "1.prems"(2) show ?thesis by (simp add: visit_post_def)
  next
    case False
    from "1.prems"(1) False have active: "name \<notin> active"
      by (subst (asm) visit_reference.simps) (auto split: if_splits)
    obtain f where f: "finished' = insert name f"
      and post: "visit_post graph (insert name active) finished f"
      and targets: "\<And>b. (name, b) \<in> reference_edges graph \<Longrightarrow> b \<in> f"
    proof (cases "map_of graph name")
      case None
      with "1.prems"(1) False active have "finished' = insert name finished"
        by (subst (asm) visit_reference.simps) simp
      with None "1.prems"(2) show ?thesis
        by (intro that [of finished]) (simp_all add: visit_post_def reference_edges_def)
    next
      case (Some targets)
      with "1.prems" False active obtain f where f: "finished' = insert name f"
        "fold_result (\<lambda>finished target. visit_reference graph (insert name active) target finished) finished targets = Inr f"
        by (subst (asm) visit_reference.simps) (auto simp: rbind_eq_Inr)
      have "set targets \<subseteq> f \<and> visit_post graph (insert name active) finished f"
        by (rule visit_targets [OF f(2) _ "1.prems"(2)]) (rule "1.IH" [OF False active Some])
      with f(1) Some show ?thesis by (intro that [of f]) (auto simp: reference_edges_def)
    qed
    from post False have "name \<notin> f" by (auto simp: visit_post_def)
    with post targets have "ranked graph (insert name f)" by (intro ranked_insert) (auto simp: visit_post_def)
    with f post active show ?thesis by (auto simp: visit_post_def)
  qed
qed

lemma ranked_empty [simp]: "ranked graph {}"
  by (simp add: ranked_def)

lemma visit_all:
  assumes "fold_result (\<lambda>finished (name, _). visit_reference graph {} name finished) finished entries = Inr finished'"
    and "ranked graph finished"
  shows "ranked graph finished' \<and> finished \<subseteq> finished' \<and> fst ` set entries \<subseteq> finished'"
  using assms
proof (induction entries arbitrary: finished)
  case (Cons e entries)
  obtain name ts where e: "e = (name, ts)" by fastforce
  with Cons.prems obtain f where f: "visit_reference graph {} name finished = Inr f"
    and rest: "fold_result (\<lambda>finished (name, _). visit_reference graph {} name finished) f entries = Inr finished'"
    by (auto simp: rbind_eq_Inr)
  from visit_reference_post [OF f Cons.prems(2)] have "name \<in> f" "ranked graph f" "finished \<subseteq> f"
    by (auto simp: visit_post_def)
  with Cons.IH [OF rest] e show ?case by auto
qed simp

lemma ranked_wf:
  assumes "ranked graph finished" and "fst ` set graph \<subseteq> finished"
  shows "wf ((reference_edges graph)\<inverse>)"
proof -
  from assms obtain rank :: "string \<Rightarrow> nat" where r: "\<And>a b. (a, b) \<in> reference_edges graph \<Longrightarrow> a \<in> finished
      \<Longrightarrow> rank b < rank a"
    unfolding ranked_def by blast
  have "(reference_edges graph)\<inverse> \<subseteq> measure rank"
  proof (intro subsetI, clarify)
    fix a b assume e: "(a, b) \<in> reference_edges graph"
    then have "a \<in> fst ` set graph" by (auto simp: reference_edges_def dest!: map_of_SomeD intro: rev_image_eqI)
    with r [OF e] assms(2) show "(b, a) \<in> measure rank" by auto
  qed
  then show ?thesis using wf_measure wf_subset by blast
qed

definition definitions_of :: "'n fields \<Rightarrow> 'n fields" where
  "definitions_of root_node = (case get_as as_object root_node ''$defs'' of None \<Rightarrow> [] | Some m \<Rightarrow> m)"

lemma validate_local_references_Inr:
  assumes "validate_local_references root_node = Inr ()"
  shows "set (reference_set (Object root_node)) \<subseteq> dom (map_of (definitions_of root_node))"
    and "snd ` reference_edges (reference_graph_of (definitions_of root_node)) \<subseteq> dom (map_of (definitions_of root_node))"
    and "wf ((reference_edges (reference_graph_of (definitions_of root_node)))\<inverse>)"
proof -
  let ?graph = "reference_graph_of (definitions_of root_node)"
  obtain finished where roots: "\<forall>r \<in> set (reference_set (Object root_node)). map_of (definitions_of root_node) r \<noteq> None"
    and targets: "\<forall>(name, rs) \<in> set ?graph. \<forall>r \<in> set rs. map_of (definitions_of root_node) r \<noteq> None"
    and visit: "fold_result (\<lambda>finished (name, _). visit_reference ?graph {} name finished) {} ?graph = Inr finished"
    using assms unfolding validate_local_references_def definitions_of_def [symmetric]
    by (fastforce simp: rbind_eq_Inr check_all_eq_Inr fail_if_eq_Inr Let_def)
  from roots show "set (reference_set (Object root_node)) \<subseteq> dom (map_of (definitions_of root_node))" by auto
  from targets show "snd ` reference_edges ?graph \<subseteq> dom (map_of (definitions_of root_node))"
    by (fastforce simp: reference_edges_def dest: map_of_SomeD)
  from visit_all [OF visit] show "wf ((reference_edges ?graph)\<inverse>)" by (auto intro: ranked_wf)
qed

section \<open>Tagged unions\<close>

text \<open>The branch requires the property, and the property is the string constant.\<close>

definition branch_constant :: "'n Json \<Rightarrow> string \<Rightarrow> string \<Rightarrow> bool" where
  "branch_constant branch name c \<longleftrightarrow> (\<exists>m ps required p. branch = Object m
     \<and> map_of m ''properties'' = Some (Object ps) \<and> map_of m ''required'' = Some (Array required)
     \<and> String name \<in> set required \<and> (name, p) \<in> set ps \<and> value_get p ''const'' = Some (String c))"

lemma branch_candidates_constant:
  assumes "branch_candidates m path = Inr found" and "(name, c) \<in> set found"
  shows "branch_constant (Object m) name c"
proof -
  from assms(1) obtain ps required where p: "map_of m ''properties'' = Some (Object ps)"
    and r: "map_of m ''required'' = Some (Array required)"
    and f: "found = List.map_filter (\<lambda>(name, property).
           case Option.bind (value_get property ''const'') as_str of
             None \<Rightarrow> None
           | Some constant \<Rightarrow> if name \<in> set (List.map_filter as_str required) then Some (name, constant) else None) ps"
    by (auto simp: branch_candidates_def rbind_eq_Inr ok_or_eq_Inr Let_def split: if_splits)
  from f assms(2) obtain property where "(name, property) \<in> set ps" "value_get property ''const'' = Some (String c)"
      "String name \<in> set required"
    by (auto simp: set_map_filter bind_eq_Some_conv split: option.splits if_splits)
  with p r show ?thesis unfolding branch_constant_def by blast
qed

definition constants_of :: "'n Json list \<Rightarrow> string \<times> string list \<Rightarrow> bool" where
  "constants_of branches item \<longleftrightarrow>
     distinct (snd item) \<and> list_all2 (\<lambda>b c. branch_constant b (fst item) c) branches (rev (snd item))"

lemma retain_candidates_constants:
  assumes "branch_candidates m path = Inr found" and "item \<in> set (retain_candidates candidates found)"
    and "\<And>items. candidates = Some items \<Longrightarrow> \<forall>i \<in> set items. constants_of branches i"
    and "candidates = None \<Longrightarrow> branches = []"
  shows "constants_of (branches @ [Object m]) item"
  using assms branch_candidates_constant [OF assms(1)]
  by (cases candidates)
    (fastforce simp: retain_candidates_def constants_of_def set_map_filter intro!: list_all2_appendI
      dest: map_of_SomeD split: option.splits if_splits)+

lemma tagged_union_discriminates:
  fixes bs :: "'n Json list"
  assumes "fold_result (union_step env path) None (enumerate 0 bs) = Inr candidates"
    and "one_discriminator candidates (length bs)"
  shows "\<exists>name constants. distinct constants \<and> list_all2 (\<lambda>b c. branch_constant b name c) bs constants"
proof -
  let ?P = "\<lambda>(ys :: (nat \<times> 'n Json) list) candidates. case candidates of None \<Rightarrow> ys = []
    | Some items \<Rightarrow> \<forall>i \<in> set items. constants_of (map snd ys) i"
  have "?P (enumerate 0 bs) candidates"
  proof (rule fold_result_invariant [OF assms(1)])
    fix ys y t t'
    assume inv: "?P ys t" and step: "union_step env path t y = Inr t'"
    obtain i b where y: "y = (i, b)" by fastforce
    from union_step_Inr [OF step [unfolded y]] obtain m found where b: "b = Object m"
      "branch_candidates m (branch_path path i) = Inr found" "t' = Some (retain_candidates t found)" by blast
    have "constants_of (map snd ys @ [Object m]) item" if "item \<in> set (retain_candidates t found)" for item
      by (rule retain_candidates_constants [OF b(2) that]) (use inv in \<open>auto\<close>)
    with b y show "?P (ys @ [y]) t'" by simp
  qed simp
  moreover from assms(2) obtain item where "candidates = Some [item]"
    by (auto simp: one_discriminator_def some_and_iff length_Suc_conv)
  ultimately have "constants_of bs item" by simp
  then show ?thesis unfolding constants_of_def by (intro exI [of _ "fst item"] exI [of _ "rev (snd item)"]) simp
qed

section \<open>Literals\<close>

lemma literal_object:
  assumes "literal_matches_shape env root_schema (Object node) v depth"
    and "map_of node ''type'' = Some (String ''object'')"
    and "map_of node ''additionalProperties'' = Some (Bool False)"
    and "map_of node ''properties'' = Some (Object ps)" and "map_of node ''required'' = Some (Array (map String names))"
  shows "\<exists>m. v = Object m \<and> set names \<subseteq> dom (map_of m)
    \<and> (\<forall>(name, field) \<in> set m. \<exists>p. map_of ps name = Some p
        \<and> literal_matches_shape env root_schema p field (Suc depth))"
proof -
  have get: "value_get (Object node) k = map_of node k" for k by (simp add: value_get_def as_object_def)
  from assms(1) obtain m where v: "v = Object m" and r: "\<not> lacks_required (Object node) m"
    and fs: "list_all (\<lambda>(name, field). case map_of ps name of
        None \<Rightarrow> value_get (Object node) ''additionalProperties'' \<noteq> Some (Bool False)
      | Some property \<Rightarrow> literal_matches_shape env root_schema property field (Suc depth)) m"
    by (subst (asm) literal_matches_shape.simps)
      (auto simp: get assms(2,4) as_str_def as_object_def split: if_splits Json.splits)
  from r assms(5) have "set names \<subseteq> dom (map_of m)"
    by (auto simp: lacks_required_def get as_array_def list_ex_iff as_str_def)
  moreover from fs assms(3) have "\<forall>(name, field) \<in> set m. \<exists>p. map_of ps name = Some p
      \<and> literal_matches_shape env root_schema p field (Suc depth)"
    by (fastforce simp: list_all_iff get split: option.splits)
  ultimately show ?thesis using v by blast
qed

section \<open>Documents\<close>

lemma json_schema_validate_Inr:
  "json_schema_validate env s = Inr () \<longleftrightarrow>
     js_schema_version s = CLOSED_SCHEMA_DOCUMENT_VERSION \<and> js_profile s = CLOSED_SCHEMA_PROFILE_ID
     \<and> validate_closed_schema_document_size env (js_schema s) = Inr ()
     \<and> schema_digest env (js_schema s) = Inr (js_canonical_digest s) \<and> validate_closed_schema env (js_schema s) = Inr ()"
  by (auto simp: json_schema_validate_def rbind_eq_Inr)

lemma value_schema_validate_Inr:
  "value_schema_validate env s = Inr () \<longleftrightarrow>
     vs_schema_version s = CLOSED_SCHEMA_DOCUMENT_VERSION \<and> vs_profile s = CLOSED_VALUE_SCHEMA_PROFILE_ID
     \<and> schema_digest env (vs_schema s) = Inr (vs_canonical_digest s)
     \<and> validate_closed_schema_document_size env (vs_schema s) = Inr ()
     \<and> validate_schema_document env (vs_schema s) False = Inr ()"
  by (auto simp: value_schema_validate_def rbind_eq_Inr)

lemma json_schema_build_Inr:
  "json_schema_build env schema = Inr s \<longleftrightarrow> js_schema s = schema \<and> json_schema_validate env s = Inr ()"
  by (cases s) (auto simp: json_schema_build_def json_schema_validate_Inr rbind_eq_Inr)

lemma value_schema_build_Inr:
  "value_schema_build env schema = Inr s \<longleftrightarrow> vs_schema s = schema \<and> value_schema_validate env s = Inr ()"
  by (cases s) (auto simp: value_schema_build_def value_schema_validate_Inr rbind_eq_Inr)

section \<open>Capability interfaces\<close>

lemma capability_properties:
  assumes "require_capability_property_metadata node path = Inr ()"
    and "map_of node ''properties'' = Some (Object ps)" and "(name, v) \<in> set ps"
  shows "\<exists>m p. v = Object m \<and> has_capability_description m \<and> has_classification m
    \<and> require_capability_property_metadata m p = Inr ()"
proof -
  from assms(2) have "get_as as_object node ''properties'' = Some ps" by (simp add: get_as_def as_object_def)
  with assms(1,3) obtain m where "property_metadata path name v = Inr m"
    and "require_capability_property_metadata m (path @ ''/properties/'' @ name) = Inr ()"
    by (subst (asm) require_capability_property_metadata.simps) (fastforce simp: rbind_eq_Inr check_all_eq_Inr)
  then show ?thesis by (auto simp: property_metadata_def rbind_eq_Inr ok_or_eq_Inr split: if_splits)
qed

lemma capability_child:
  assumes "subschema node child" and "require_capability_property_metadata node path = Inr ()"
  shows "\<exists>p. require_capability_property_metadata child p = Inr ()"
proof -
  have visited: "\<exists>p. require_capability_property_metadata child p = Inr ()"
    if "(child, p) \<in> set (capability_children node path)" for p
    using assms(2) that
    by (subst (asm) require_capability_property_metadata.simps) (fastforce simp: rbind_eq_Inr check_all_eq_Inr)
  from assms(1) show ?thesis
  proof cases
    case (property_of ps name)
    then show ?thesis using capability_properties [OF assms(2)] by fastforce
  next
    case item_of
    then show ?thesis by (intro visited) (auto simp: capability_children_def get_as_def as_object_def)
  next
    case (definition_of ds name)
    then show ?thesis
      by (intro visited [of "path @ ''/$defs/'' @ name"])
        (force simp: capability_children_def get_as_def as_object_def set_map_filter)
  next
    case (branch_of bs)
    from set_enumerate_snd [OF branch_of(2)] obtain i where "(i, Object child) \<in> set (enumerate 0 bs)" by blast
    with branch_of(1) show ?thesis
      by (intro visited [of "branch_path path i"])
        (force simp: capability_children_def get_as_def as_array_def as_object_def set_map_filter)
  qed
qed

lemma reachable_capability_node:
  assumes "subschema\<^sup>*\<^sup>* node child" and "require_capability_property_metadata node path = Inr ()"
  shows "\<exists>p. require_capability_property_metadata child p = Inr ()"
  using assms by (induction rule: rtranclp_induct) (auto dest: capability_child)

end
