(* ===== verification/SchemaRuns.thy ===== *)
theory SchemaRuns
  imports SchemaSafety ExpressionRuns
begin

text \<open>Concrete schema documents and the properties of every validated document.\<close>

section \<open>Example documents\<close>

definition ex_penv :: "string schema_env" where
  "ex_penv = \<lparr>de_number = de_number ex_xenv, de_jcs = de_jcs ex_xenv, de_sha256 = de_sha256 ex_xenv,
     pe_uuid = pe_uuid ex_xenv, sj_read = sj_read ex_xenv, sj_as_i64 = sj_as_i64 ex_xenv,
     sj_as_u64 = sj_as_u64 ex_xenv, sj_as_f64 = sj_as_f64 ex_xenv, xe_number_text = xe_number_text ex_xenv,
     xe_from_i64 = xe_from_i64 ex_xenv, xe_from_text = xe_from_text ex_xenv,
     sc_encoded_length = (\<lambda>_. Some 0), sc_integral = (\<lambda>_. False), sc_nominal_schemas = (\<lambda>_. None)\<rparr>"

lemma ex_penv_digest:
  "document_digest ex_penv e (json_object fs) = Inr (''sha256:'' @ lowercase_hex (replicate 32 0))"
  using ex_digest [of e fs]
  by (simp add: ex_penv_def document_digest_def canonical_digest_def canonical_json_def)

lemma ex_schema_digest: "schema_digest ex_penv (Object fs) = Inr ex_zero"
proof -
  have "parse_digest ex_zero = Some ex_zero" by code_simp
  moreover have "de_sha256 ex_penv [] = replicate 32 0" by (simp add: ex_penv_def ex_xenv_def)
  ultimately show ?thesis
    by (simp add: schema_digest_def canonical_digest_def canonical_json_def ex_zero_def)
      (simp add: ex_penv_def ex_xenv_def)
qed

definition ex_dialect :: "string \<times> string Json" where
  "ex_dialect = (''$schema'', String ''https://json-schema.org/draft/2020-12/schema'')"

text \<open>An arm of a union, tagged with the constant \<open>c\<close>.\<close>

definition ex_arm :: "string \<Rightarrow> string Json" where
  "ex_arm c = Object [(''additionalProperties'', Bool False),
     (''properties'', Object [(''t'', Object [(''const'', String c)])]),
     (''required'', Array [String ''t'']), (''type'', String ''object'')]"

definition ex_union :: "string Json" where
  "ex_union = Array [ex_arm ''a'', ex_arm ''b'', ex_arm ''c'']"

definition ex_defs :: "string fields" where
  "ex_defs = [(''n'', Object [(''maximum'', Number ''9''), (''minimum'', Number ''0''), (''type'', String ''number'')]),
     (''u'', Object [(''$ref'', String ''#/$defs/n'')])]"

definition ex_properties :: "string fields" where
  "ex_properties = [(''k'', Object [(''oneOf'', ex_union)]), (''n'', Object [(''$ref'', String ''#/$defs/u'')])]"

definition ex_form :: "string fields" where
  "ex_form = [(''$defs'', Object ex_defs), ex_dialect, (''additionalProperties'', Bool False),
     (''properties'', Object ex_properties), (''required'', Array [String ''k'']), (''type'', String ''object'')]"

lemmas ex_document_defs = ex_form_def ex_defs_def ex_dialect_def ex_properties_def ex_union_def ex_arm_def

lemma ex_form_valid: "validate_schema_document ex_penv (Object ex_form) True = Inr ()"
  by code_simp

section \<open>Properties of schema documents\<close>

text \<open>C24: In a validated document every local reference, from the document or from a definition, names a
  definition, and following references from definition to definition always ends: the depth-first search
  refuses every cycle, and returns on every graph.\<close>

theorem local_references_end:
  assumes "validate_schema_document env (Object root_node) object_input = Inr ()"
  shows "set (reference_set (Object root_node)) \<union> snd ` reference_edges (reference_graph_of (definitions_of root_node))
      \<subseteq> dom (map_of (definitions_of root_node))
    \<and> wf ((reference_edges (reference_graph_of (definitions_of root_node)))\<inverse>)"
proof -
  from assms have "validate_local_references root_node = Inr ()"
    by (auto simp: validate_schema_document_def rbind_eq_Inr as_object_def split: if_splits)
  from validate_local_references_Inr [OF this] show ?thesis by simp
qed

lemma local_references_end_witness:
  "set (reference_set (Object ex_form)) \<union> snd ` reference_edges (reference_graph_of (definitions_of ex_form))
      \<subseteq> dom (map_of (definitions_of ex_form))
    \<and> wf ((reference_edges (reference_graph_of (definitions_of ex_form)))\<inverse>)"
  by (rule local_references_end [OF ex_form_valid])



text \<open>A validated union that is not the nullable pair has a discriminator: one property that every branch
  requires as a string constant, with a different constant in every branch.\<close>

theorem unions_have_a_discriminator:
  assumes "validate_tagged_union env (Array branches) path = Inr ()"
  shows "(length branches = 2 \<and> length (filter is_null_branch branches) = 1)
    \<or> (\<exists>name constants. distinct constants \<and> list_all2 (\<lambda>b c. branch_constant b name c) branches constants)"
  using assms
proof (cases rule: validate_tagged_union_Inr)
  case (tagged bs candidates)
  with tagged_union_discriminates [OF tagged(4,5)] show ?thesis by simp
qed simp

lemma unions_have_a_discriminator_witness:
  "\<exists>name constants. distinct constants
    \<and> list_all2 (\<lambda>b c. branch_constant b name c) [ex_arm ''a'', ex_arm ''b'', ex_arm ''c''] constants"
proof -
  have "validate_tagged_union ex_penv (Array [ex_arm ''a'', ex_arm ''b'', ex_arm ''c'']) ''$'' = Inr ()"
    by code_simp
  from unions_have_a_discriminator [OF this] show ?thesis by simp
qed


definition ex_form_schema :: "string ClosedValueSchema" where
  "ex_form_schema = \<lparr>vs_schema_version = 1, vs_profile = CLOSED_VALUE_SCHEMA_PROFILE_ID,
     vs_schema = Object ex_form, vs_canonical_digest = ex_zero\<rparr>"


lemma ex_form_schema_builds: "value_schema_build ex_penv (Object ex_form) = Inr ex_form_schema"
proof -
  have "sc_encoded_length ex_penv (Object ex_form) = Some 0" by (simp add: ex_penv_def)
  moreover have "validate_schema_document ex_penv (Object ex_form) False = Inr ()" by code_simp
  ultimately show ?thesis
    by (simp add: value_schema_build_def ex_form_schema_def ex_schema_digest CLOSED_SCHEMA_DOCUMENT_VERSION_def
        validate_closed_schema_document_size_def)
qed



text \<open>The two closed profiles carry one document: a schema converted to the other profile and back is the
  schema it was, with the digest it had, and what the builders return validates.\<close>

theorem schema_profiles_convert_back:
  assumes "value_schema_of env s = Inr v"
  shows "json_schema_of env v = Inr s \<and> value_schema_validate env v = Inr () \<and> vs_canonical_digest v = js_canonical_digest s"
  using assms
  by (auto simp: value_schema_of_def json_schema_of_def value_schema_build_Inr json_schema_build_Inr
      json_schema_validate_Inr value_schema_validate_Inr rbind_eq_Inr)

lemma schema_profiles_convert_back_witness:
  "\<exists>s. json_schema_of ex_penv ex_form_schema = Inr s \<and> vs_schema ex_form_schema = Object ex_form"
proof -
  let ?s = "\<lparr>js_schema_version = 1, js_profile = CLOSED_SCHEMA_PROFILE_ID, js_schema = Object ex_form,
    js_canonical_digest = ex_zero\<rparr>"
  have "json_schema_validate ex_penv ?s = Inr ()"
    using ex_form_valid ex_form_schema_builds
    by (simp add: json_schema_validate_def value_schema_build_def rbind_eq_Inr ex_schema_digest validate_closed_schema_def
        CLOSED_SCHEMA_DOCUMENT_VERSION_def)
  then have "value_schema_of ex_penv ?s = Inr ex_form_schema" by (simp add: value_schema_of_def ex_form_schema_builds)
  from schema_profiles_convert_back [OF this] show ?thesis by (simp add: ex_form_schema_def)
qed

text \<open>In the schema of a published capability every field, at every depth of the document, has a bounded
  description and one of the four data classifications.\<close>

theorem capability_fields_are_classified:
  assumes "validate_capability_interface_schema env s = Inr ()" and "js_schema s = Object root_node"
    and "subschema\<^sup>*\<^sup>* root_node node"
    and "map_of node ''properties'' = Some (Object ps)" and "(name, field) \<in> set ps"
  shows "\<exists>m. field = Object m \<and> has_capability_description m \<and> has_classification m"
proof -
  from assms(1,2) have "require_capability_property_metadata root_node ''$'' = Inr ()"
    by (auto simp: validate_capability_interface_schema_def rbind_eq_Inr ok_or_eq_Inr)
  with assms(3) reachable_capability_node obtain p where "require_capability_property_metadata node p = Inr ()"
    by blast
  from capability_properties [OF this assms(4,5)] show ?thesis by blast
qed

definition ex_field :: "string Json" where
  "ex_field = Object [(''description'', String ''count''), (''type'', String ''null''),
     (''x-platform-classification'', String ''internal'')]"

definition ex_capability :: "string fields" where
  "ex_capability = [ex_dialect, (''additionalProperties'', Bool False), (''properties'', Object [(''n'', ex_field)]),
     (''required'', Array [String ''n'']), (''type'', String ''object'')]"

lemma capability_fields_are_classified_witness:
  "\<exists>m. ex_field = Object m \<and> has_capability_description m \<and> has_classification m"
proof -
  let ?s = "\<lparr>js_schema_version = 1, js_profile = CLOSED_SCHEMA_PROFILE_ID, js_schema = Object ex_capability,
    js_canonical_digest = ex_zero\<rparr>"
  have leaf: "require_capability_property_metadata [(''description'', String ''count''), (''type'', String ''null''),
      (''x-platform-classification'', String ''internal'')] p = Inr ()" for p
    by (subst require_capability_property_metadata.simps) (simp add: get_as_def capability_children_def)
  have "validate_schema_document ex_penv (Object ex_capability) True = Inr ()" by code_simp
  moreover have "require_capability_property_metadata ex_capability ''$'' = Inr ()"
    by (subst require_capability_property_metadata.simps)
      (simp add: ex_capability_def ex_field_def ex_dialect_def get_as_def as_object_def as_array_def property_metadata_def
        has_capability_description_def has_classification_def as_str_def byte_of_def capability_children_def leaf)
  moreover have "sc_encoded_length ex_penv (Object ex_capability) = Some 0" by (simp add: ex_penv_def)
  ultimately have "validate_capability_interface_schema ex_penv ?s = Inr ()"
    by (simp add: validate_capability_interface_schema_def rbind_eq_Inr json_schema_validate_Inr ex_schema_digest
        validate_closed_schema_def CLOSED_SCHEMA_DOCUMENT_VERSION_def validate_closed_schema_document_size_def
        as_object_def)
  from capability_fields_are_classified [OF this, of ex_capability ex_capability "[(''n'', ex_field)]" "''n''" ex_field]
  show ?thesis by (simp add: ex_capability_def ex_dialect_def)
qed

end
