(* ===== verification/PlanRuns.thy ===== *)
theory PlanRuns
  imports PlanSafety SchemaRuns
begin

text \<open>A concrete plan, computed through its validation, and the properties of every validated plan.\<close>

section \<open>An example plan\<close>

text \<open>A loop that feeds the sum computed by its body back into its next iteration, and returns it.\<close>

definition ex_condition :: "string TypedExpressionProgram" where
  "ex_condition = ex_program\<lparr>xp_instructions := [LoadPort ex_port, LoadPort ex_port, Equal]\<rparr>"

definition ex_body_port :: ExactDataPortRef where
  "ex_body_port = NodeOutput ''b'' ''x'' ex_zero"

definition ex_loop_port :: ExactDataPortRef where
  "ex_loop_port = NodeOutput ''l'' ''n'' ex_zero"

definition ex_carried :: LoopCarriedPort where
  "ex_carried = \<lparr>lc_body_output_port = ex_body_port, lc_next_iteration_port = ex_loop_port\<rparr>"

definition ex_document :: "string Json" where
  "ex_document = Object [(''$schema'', String ''https://json-schema.org/draft/2020-12/schema''),
     (''maximum'', Number ''9''), (''minimum'', Number ''0''), (''type'', String ''number'')]"

definition ex_schema :: "string ClosedValueSchema" where
  "ex_schema = \<lparr>vs_schema_version = 1, vs_profile = CLOSED_VALUE_SCHEMA_PROFILE_ID, vs_schema = ex_document,
     vs_canonical_digest = ex_zero\<rparr>"

definition ex_assignment :: "string PortAssignment" where
  "ex_assignment = \<lparr>pa_output_port = ex_body_port, pa_expression = ex_program\<rparr>"

definition ex_second_port :: ExactDataPortRef where
  "ex_second_port = NodeOutput ''b'' ''y'' ex_zero"

definition ex_second_program :: "string TypedExpressionProgram" where
  "ex_second_program = ex_program\<lparr>xp_input_ports := [ex_body_port],
     xp_instructions := [LoadPort ex_body_port, LoadPort ex_body_port, DecimalAdd]\<rparr>"

definition ex_second :: "string PortAssignment" where
  "ex_second = \<lparr>pa_output_port = ex_second_port, pa_expression = ex_second_program\<rparr>"

definition ex_plan :: "string RuntimePlan" where
  "ex_plan = \<lparr>rp_plan_version = 6, rp_interface_contract_digest = ''i'', rp_entry_node_id = ''a'',
     rp_dependency_slots = [], rp_schema_documents = [(ex_zero, ex_schema)],
     rp_nodes =
       [(''a'', Start ''l''),
        (''b'', Compute [ex_assignment, ex_second] ''l''),
        (''l'', Loop ex_condition [ex_carried] ''b'' ''r'' 3),
        (''r'', Return ex_loop_port)]\<rparr>"

definition ex_limits :: PlanLimits where
  "ex_limits = \<lparr>pl_maximum_nodes = 9, pl_maximum_edges = 9, pl_maximum_fan_out = 9, pl_maximum_map_items = 9,
     pl_maximum_loop_iterations = 9, pl_maximum_error_handlers = 9, pl_expression = ABSOLUTE\<rparr>"

lemma ex_programs_validate [simp]:
  "program_validate ex_penv ex_program ABSOLUTE = Inr ()" "program_validate ex_penv ex_condition ABSOLUTE = Inr ()"
  "program_validate ex_penv ex_second_program ABSOLUTE = Inr ()"
  by (simp_all add: program_validate_Inr program_digest_def ex_penv_digest ex_condition_def ex_second_program_def
      ex_program_def
      validate_program_def bounded_by_absolute_def ABSOLUTE_def MAX_EXPRESSION_INSTRUCTIONS_def
      MAX_EXPRESSION_INPUT_PORTS_def MAX_EXPRESSION_STACK_DEPTH_def validate_instruction_def stack_effect_def)

lemma ex_document_valid: "validate_schema_document ex_penv ex_document False = Inr ()"
proof -
  have "validate_schema_node ex_penv [(''$schema'', String ''https://json-schema.org/draft/2020-12/schema''),
     (''maximum'', Number ''9''), (''minimum'', Number ''0''), (''type'', String ''number'')] ''$'' = Inr ()"
    by (subst validate_schema_node.simps)
      (simp add: validate_keywords_def ALLOWED_SCHEMA_KEYWORDS_def validate_field_classification_def
        validate_reference_keyword_def validate_numeric_bounds_def is_number_def get_as_def as_str_def)
  then show ?thesis
    by (simp add: ex_document_def validate_schema_document_def as_object_def as_str_def get_as_def VALUE_KINDS_def
        validate_local_references_def reference_set_def reference_graph_of_def collect_local_references.simps
        local_reference_def as_array_def)
qed

lemma ex_schema_valid: "value_schema_validate ex_penv ex_schema = Inr ()"
proof -
  have "sc_encoded_length ex_penv ex_document = Some 0" by (simp add: ex_penv_def)
  moreover have "schema_digest ex_penv ex_document = Inr ex_zero" by (simp add: ex_document_def ex_schema_digest)
  ultimately show ?thesis
    by (simp add: value_schema_validate_def ex_schema_def ex_document_valid CLOSED_SCHEMA_DOCUMENT_VERSION_def
        validate_closed_schema_document_size_def MAX_CLOSED_SCHEMA_BYTES_def)
qed

lemma ex_plan_documents: "validate_schema_documents ex_penv ex_plan = Inr ()"
proof -
  have "count_schema_document ex_penv 0 (ex_zero, ex_schema) = Inr 0"
    by (simp add: count_schema_document_def ex_schema_valid)
      (simp add: ex_schema_def schema_json_def json_object_def canonical_json_def ex_penv_def ex_xenv_def
        MAX_PLAN_SCHEMA_DOCUMENT_BYTES_def)
  then show ?thesis
    by (simp add: validate_schema_documents_def ex_plan_def MAX_PLAN_SCHEMA_DOCUMENTS_def
      MAX_PLAN_SCHEMA_DOCUMENT_BYTES_def validate_node_schemas_def node_expressions_def ex_assignment_def
      ex_second_def ex_second_port_def ex_second_program_def ex_program_def ex_condition_def validate_literal_def node_schemas_def expression_schemas_def
      instruction_schemas_def ex_port_def ex_body_port_def ex_loop_port_def ex_carried_def port_schema_digest_def)
qed

lemma ex_program_ports: "xp_input_ports ex_program = [ex_port]" "xp_input_ports ex_second_program = [ex_body_port]"
  by (simp_all add: ex_program_def ex_second_program_def)

lemma ex_plan_nodes:
  "fold_result (validate_plan_node ex_penv ex_plan ex_limits) 0 (rp_nodes ex_plan) = Inr 4"
proof -
  have "validate_assignments ex_penv ''b'' [ex_assignment, ex_second] ABSOLUTE = Inr ()"
    by (simp add: validate_assignments_def validate_assignment_def ex_assignment_def ex_second_def ex_body_port_def
        ex_second_port_def producer_node_id_def ex_program_ports ex_port_def)
  then show ?thesis
    by (simp add: ex_plan_def validate_plan_node_def validate_node_def references_def ex_limits_def ex_carried_def
        ex_body_port_def ex_loop_port_def producer_node_id_def port_schema_digest_def)
qed

lemma ex_plan_valid: "plan_validate ex_penv ex_plan ex_limits = Inr ()"
proof -
  have graph: "rp_nodes ex_plan = [(''a'', Start ''l''), (''b'', Compute [ex_assignment, ex_second] ''l''),
      (''l'', Loop ex_condition [ex_carried] ''b'' ''r'' 3), (''r'', Return ex_loop_port)]"
    by (simp add: ex_plan_def)
  have "check_all (validate_loop_carried_region ex_plan) (rp_nodes ex_plan) = Inr ()"
    by (simp add: graph validate_loop_carried_region_def region_loop_Cons references_def ex_carried_def
        ex_body_port_def producer_node_id_def none_or_def)
  moreover have "check_all (validate_external_leaf ex_plan) (rp_nodes ex_plan) = Inr ()"
    by (simp add: graph validate_external_leaf_def node_dependency_slots_def external_leaf_inputs_def)
  moreover have "check_all (validate_terminal_port ex_plan) (rp_nodes ex_plan) = Inr ()"
    by (simp add: graph validate_terminal_port_def validate_produced_port_def ex_loop_port_def producer_node_id_def
        node_declares_output_def ex_carried_def node_reaches_def reaches_loop_Cons references_def)
  ultimately show ?thesis
    by (simp add: plan_validate_def ex_plan_documents ex_plan_nodes)
      (simp add: ex_plan_def ex_limits_def)
qed

section \<open>Properties of validated plans\<close>

text \<open>C39: The depth-first search of plan validation decides reachability in the plan's graph, for
  every pair of nodes, and always returns, whatever cycles the plan has.\<close>

theorem node_reaches_is_reachability:
  assumes "closed_nodes (rp_nodes p)" and "source \<in> dom (map_of (rp_nodes p))"
  shows "node_reaches p source target = Inr ((source, target) \<in> (edges (rp_nodes p))\<^sup>*)"
  using assms by (rule node_reaches_iff)

lemma node_reaches_is_reachability_witness:
  "(''a'', ''r'') \<in> (edges (rp_nodes ex_plan))\<^sup>* \<and> (''r'', ''a'') \<notin> (edges (rp_nodes ex_plan))\<^sup>*"
proof -
  have c: "closed_nodes (rp_nodes ex_plan)" by (rule plan_validate_nodes(1) [OF ex_plan_valid])
  have r: "node_reaches ex_plan ''a'' ''r'' = Inr True" "node_reaches ex_plan ''r'' ''a'' = Inr False"
    by (simp_all add: ex_plan_def node_reaches_def reaches_loop_Cons references_def)
  have d: "''a'' \<in> dom (map_of (rp_nodes ex_plan))" "''r'' \<in> dom (map_of (rp_nodes ex_plan))"
    by (simp_all add: ex_plan_def)
  from node_reaches_is_reachability [OF c d(1), of "''r''"] node_reaches_is_reachability [OF c d(2), of "''a''"] r
  show ?thesis by simp
qed

text \<open>In a validated plan every node that can be reached from the entry exists and is itself
  valid: an interpreter that follows references never meets an unknown or malformed node.\<close>

theorem reachable_nodes_are_valid:
  assumes "plan_validate env p limits = Inr ()" and "(rp_entry_node_id p, k) \<in> (edges (rp_nodes p))\<^sup>*"
  shows "\<exists>n. plan_node p k = Inr n \<and> validate_node env k n limits = Inr ()"
proof -
  note v = plan_validate_nodes [OF assms(1)]
  from closed_reachable [OF v(1) assms(2) v(2)] obtain n where "map_of (rp_nodes p) k = Some n" by blast
  with v(3) show ?thesis by (auto simp: plan_node_def dest: map_of_SomeD)
qed

lemma reachable_nodes_are_valid_witness:
  "\<exists>n. plan_node ex_plan ''l'' = Inr n \<and> validate_node ex_penv ''l'' n ex_limits = Inr ()"
proof (rule reachable_nodes_are_valid [OF ex_plan_valid])
  have "(''a'', ''l'') \<in> edges (rp_nodes ex_plan)" by (simp add: ex_plan_def edges_def references_def)
  then show "(rp_entry_node_id ex_plan, ''l'') \<in> (edges (rp_nodes ex_plan))\<^sup>*" by (simp add: ex_plan_def)
qed

text \<open>C31: Every port that a leaf or a terminal node of a validated plan reads from another node is an
  output that node declares, and there is a path from that node to the reader: nothing is read that
  no node produces, and no node reads its own output.\<close>

theorem ports_are_produced_before_they_are_read:
  assumes "plan_validate env p limits = Inr ()" and "(reader, n) \<in> set (rp_nodes p)"
    and "port \<in> set (leaf_reads n)" and "producer_node_id port = Some k"
  shows "\<exists>producer. map_of (rp_nodes p) k = Some producer \<and> k \<noteq> reader
    \<and> node_declares_output producer port \<and> (k, reader) \<in> (edges (rp_nodes p))\<^sup>+"
  using validate_produced_port_Inr [OF leaf_reads_validated [OF assms(1-3)] assms(4)]
    plan_validate_nodes(1) [OF assms(1)] by blast

lemma ports_are_produced_before_they_are_read_witness:
  "\<exists>producer. map_of (rp_nodes ex_plan) ''l'' = Some producer \<and> node_declares_output producer ex_loop_port
    \<and> (''l'', ''r'') \<in> (edges (rp_nodes ex_plan))\<^sup>+"
  using ports_are_produced_before_they_are_read [OF ex_plan_valid, of "''r''" "Return ex_loop_port" ex_loop_port "''l''"]
  by (auto simp: ex_plan_def leaf_reads_def ex_loop_port_def producer_node_id_def)

text \<open>A loop of a validated plan carries into its next iteration only ports of the same schema that
  it owns, and each comes from a node of the loop's own body: one that the body reaches without
  passing the loop node or its exit.\<close>

theorem loops_carry_what_their_body_produces:
  assumes "plan_validate env p limits = Inr ()"
    and "(k, Loop condition carried body exit_node maximum) \<in> set (rp_nodes p)" and "q \<in> set carried"
  shows "\<exists>producer. producer_node_id (lc_body_output_port q) = Some producer
    \<and> (body, producer) \<in> (inner_edges (rp_nodes p) {k, exit_node})\<^sup>*
    \<and> producer_node_id (lc_next_iteration_port q) = Some k
    \<and> port_schema_digest (lc_body_output_port q) = port_schema_digest (lc_next_iteration_port q)"
  using loop_region_validated [OF plan_validate_parts(1) [OF assms(1,2)] assms(3)]
    plan_validate_nodes(3) [OF assms(1,2)] assms(3)
  by (auto simp: validate_node_def fail_if_eq_Inr list_ex_iff)

lemma loops_carry_what_their_body_produces_witness:
  "(''b'', ''b'') \<in> (inner_edges (rp_nodes ex_plan) {''l'', ''r''})\<^sup>* \<and> producer_node_id ex_loop_port = Some ''l''"
  using loops_carry_what_their_body_produces
    [OF ex_plan_valid, of "''l''" ex_condition "[ex_carried]" "''b''" "''r''" 3 ex_carried]
  by (auto simp: ex_plan_def ex_carried_def ex_body_port_def producer_node_id_def)

text \<open>In a validated plan a \<open>Compute\<close> node never reads one of its own outputs before it computed it,
  and its outputs are distinct.\<close>

theorem compute_nodes_define_before_use:
  assumes "plan_validate env p limits = Inr ()" and "(k, Compute assignments next_node) \<in> set (rp_nodes p)"
    and "i < length assignments" and "q \<in> set (xp_input_ports (pa_expression (assignments ! i)))"
    and "q \<in> set (map pa_output_port assignments)"
  shows "(\<exists>j < i. pa_output_port (assignments ! j) = q) \<and> distinct (map pa_output_port assignments)"
proof -
  from plan_validate_nodes(3) [OF assms(1,2)] obtain s where "distinct (map pa_output_port assignments)"
    and "fold_result (validate_assignment env (pl_expression limits) (set (map pa_output_port assignments))) {}
      assignments = Inr s"
    by (auto simp: validate_node_def validate_assignments_def Let_def rbind_eq_Inr split: if_splits)
  with validate_assignments_order [OF this(2) assms(3,4,5)] show ?thesis by blast
qed

lemma compute_nodes_define_before_use_witness:
  "\<exists>j < Suc 0. pa_output_port ([ex_assignment, ex_second] ! j) = ex_body_port"
  using compute_nodes_define_before_use
    [OF ex_plan_valid, of "''b''" "[ex_assignment, ex_second]" "''l''" "Suc 0" ex_body_port]
  by (simp add: ex_plan_def ex_assignment_def ex_second_def ex_program_ports)

end
