(* ===== verification/ScopeEnvironment.thy ===== *)
theory ScopeEnvironment
  imports PlanGraph
begin

text \<open>
  The data ports bound in a lexical scope (\<open>platform-orchestrator/src/scope_environment.rs\<close>): one
  environment is a sorted list of bindings with a digest, and a port is resolved through the chain
  of scopes, nearest first.  The locale \<open>port_store\<close> is what the orchestrator relies on: a bind adds
  one port and changes no other.
\<close>

section \<open>Errors of the orchestrator\<close>

datatype OrchestratorError =
    InvalidAudit
  | InvalidPlanNodeKey
  | InvalidPlan
  | UnknownPlanNodeReference
  | ObservationMismatch
  | ExpressionEvaluation
  | InvalidControllerEvidence
  | InvalidCandidateSelection
  | InvalidScopeEnvironment
  | ScopePortConflict
  | ScopePortUnbound
  | UnhandledFailure
  | InvalidRunControl
  | InvalidTimeoutObservation
  | StaleGeneration
  | ControlConflict
  | CounterOverflow
  | Canonicalization
  | InvalidRunAdmission
  | InvalidRunInput
  | InvalidChildRun
  | InvalidChildBudget
  | ChildDepthExceeded
  | ChildCycle
  | ChildFirstWinnerLost

section \<open>Environments\<close>

record ScopeEnvironmentLimits =
  el_maximum_bindings_per_scope :: nat
  el_maximum_lexical_depth :: nat

record ExactRunValueRef =
  rv_value_id :: ResourceId
  rv_schema_digest :: Sha256Digest
  rv_content_digest :: Sha256Digest

definition validate_for_port :: "ExactRunValueRef \<Rightarrow> ExactDataPortRef \<Rightarrow> OrchestratorError + unit" where
  "validate_for_port v port =
     fail_if (rid_kind (rv_value_id v) \<noteq> ResourceKind.RunValue \<or> rv_schema_digest v \<noteq> port_schema_digest port)
       InvalidScopeEnvironment"

record ScopeDataBinding =
  sb_port :: ExactDataPortRef
  sb_value :: ExactRunValueRef

record ScopeDataEnvironmentSnapshot =
  se_schema_version :: u32
  se_bindings :: "ScopeDataBinding list"
  se_canonical_digest :: Sha256Digest

definition validate_bindings ::
  "ScopeDataBinding list \<Rightarrow> ScopeEnvironmentLimits \<Rightarrow> OrchestratorError + unit" where
  "validate_bindings bindings limits =
     fail_if
       (el_maximum_bindings_per_scope limits = 0
        \<or> el_maximum_lexical_depth limits = 0
        \<or> el_maximum_bindings_per_scope limits < length bindings
        \<or> windows2_any (\<lambda>a b. sb_port b \<le> sb_port a) bindings
        \<or> list_ex (\<lambda>b. \<not> is_ok (validate_for_port (sb_value b) (sb_port b))) bindings)
       InvalidScopeEnvironment"

definition run_value_json :: "('n, 'z) platform_env_scheme \<Rightarrow> ExactRunValueRef \<Rightarrow> 'n Json" where
  "run_value_json env v = json_object
     [(''value_id'', json_id env (rv_value_id v)), (''schema_digest'', String (rv_schema_digest v)),
      (''content_digest'', String (rv_content_digest v))]"

definition environment_digest ::
  "('n, 'z) platform_env_scheme \<Rightarrow> u32 \<Rightarrow> ScopeDataBinding list \<Rightarrow> OrchestratorError + Sha256Digest" where
  "environment_digest env schema_version bindings =
     document_digest env OrchestratorError.Canonicalization (json_object
       [(''schema_version'', json_number env (ucast schema_version)),
        (''bindings'', Array (map (\<lambda>b. json_object
           [(''port'', port_json (sb_port b)), (''value'', run_value_json env (sb_value b))]) bindings))])"

definition environment_build ::
  "('n, 'z) platform_env_scheme \<Rightarrow> (ExactDataPortRef, ExactRunValueRef) btree \<Rightarrow> ScopeEnvironmentLimits \<Rightarrow>
   OrchestratorError + ScopeDataEnvironmentSnapshot" where
  "environment_build env entries limits =
     (let bindings = map (\<lambda>(port, v). \<lparr>sb_port = port, sb_value = v\<rparr>) entries in
      rbind (validate_bindings bindings limits) (\<lambda>_.
      rbind (environment_digest env 1 bindings) (\<lambda>digest.
      Inr \<lparr>se_schema_version = 1, se_bindings = bindings, se_canonical_digest = digest\<rparr>)))"

definition environment_empty ::
  "('n, 'z) platform_env_scheme \<Rightarrow> ScopeEnvironmentLimits \<Rightarrow> OrchestratorError + ScopeDataEnvironmentSnapshot" where
  "environment_empty env limits = environment_build env [] limits"

definition environment_validate ::
  "('n, 'z) platform_env_scheme \<Rightarrow> ScopeDataEnvironmentSnapshot \<Rightarrow> ScopeEnvironmentLimits \<Rightarrow>
   OrchestratorError + unit" where
  "environment_validate env s limits =
     (if se_schema_version s \<noteq> 1 \<or> \<not> is_ok (validate_bindings (se_bindings s) limits)
      then Inl InvalidScopeEnvironment
      else
        rbind (environment_digest env (se_schema_version s) (se_bindings s)) (\<lambda>digest.
        fail_if (digest \<noteq> se_canonical_digest s) InvalidScopeEnvironment))"

text \<open>\<open>sort_by\<close> on the port is a stable sort.\<close>

definition bind_new ::
  "('n, 'z) platform_env_scheme \<Rightarrow> ScopeEnvironmentLimits \<Rightarrow> ScopeDataEnvironmentSnapshot \<Rightarrow> ExactDataPortRef \<Rightarrow>
   ExactRunValueRef \<Rightarrow> OrchestratorError + ScopeDataEnvironmentSnapshot" where
  "bind_new env limits s port v =
     rbind (validate_for_port v port) (\<lambda>_.
     if list_ex (\<lambda>b. sb_port b = port) (se_bindings s)
        \<or> el_maximum_bindings_per_scope limits \<le> length (se_bindings s)
     then Inl ScopePortConflict
     else
       let bindings = sort_key sb_port (se_bindings s @ [\<lparr>sb_port = port, sb_value = v\<rparr>])
       in rbind (environment_digest env (se_schema_version s) bindings) (\<lambda>digest.
          Inr (s\<lparr>se_bindings := bindings, se_canonical_digest := digest\<rparr>)))"

section \<open>Resolution\<close>

definition lookup_port :: "ScopeDataEnvironmentSnapshot \<Rightarrow> ExactDataPortRef \<Rightarrow> ExactRunValueRef option" where
  "lookup_port s port = map_option sb_value (List.find (\<lambda>b. sb_port b = port) (se_bindings s))"

text \<open>\<open>find_map\<close> over the chain.\<close>

primrec resolve_port :: "ExactDataPortRef \<Rightarrow> ScopeDataEnvironmentSnapshot list \<Rightarrow> ExactRunValueRef option" where
  "resolve_port port [] = None"
| "resolve_port port (s # chain) =
     (case lookup_port s port of Some v \<Rightarrow> Some v | None \<Rightarrow> resolve_port port chain)"

definition resolve_scope_inputs ::
  "('n, 'z) platform_env_scheme \<Rightarrow> ExactDataPortRef list \<Rightarrow> ScopeDataEnvironmentSnapshot list \<Rightarrow>
   ScopeEnvironmentLimits \<Rightarrow> OrchestratorError + ExactRunValueRef list" where
  "resolve_scope_inputs env required_ports chain limits =
     (if chain = []
         \<or> el_maximum_lexical_depth limits < length chain
         \<or> el_maximum_bindings_per_scope limits < length required_ports
         \<or> \<not> distinct required_ports
      then Inl InvalidScopeEnvironment
      else
        rbind (check_all (\<lambda>s. environment_validate env s limits) chain) (\<lambda>_.
        traverse (\<lambda>port. ok_or ScopePortUnbound (resolve_port port chain)) required_ports))"

section \<open>The interface of a port store\<close>

text \<open>A store of bindings that are made once: what a bind promises, for any representation.\<close>

locale port_store =
  fixes inv :: "'e \<Rightarrow> bool" and lookup :: "'e \<Rightarrow> 'k \<Rightarrow> 'v option" and bind :: "'e \<Rightarrow> 'k \<Rightarrow> 'v \<Rightarrow> 'x + 'e"
  assumes bind_keeps_inv: "inv e \<Longrightarrow> bind e k v = Inr e' \<Longrightarrow> inv e'"
    and bind_is_fresh: "inv e \<Longrightarrow> bind e k v = Inr e' \<Longrightarrow> lookup e k = None"
    and lookup_bind: "inv e \<Longrightarrow> bind e k v = Inr e' \<Longrightarrow> lookup e' = (lookup e)(k \<mapsto> v)"
begin

lemma binds_keep_inv:
  "fold_result (\<lambda>e (k, v). bind e k v) e kvs = Inr e' \<Longrightarrow> inv e \<Longrightarrow> inv e'"
  by (induction kvs arbitrary: e) (auto simp: rbind_eq_Inr dest: bind_keeps_inv)

lemma binds_are_permanent:
  "fold_result (\<lambda>e (k, v). bind e k v) e kvs = Inr e' \<Longrightarrow> inv e \<Longrightarrow> lookup e \<subseteq>\<^sub>m lookup e'"
proof (induction kvs arbitrary: e)
  case (Cons kv kvs)
  obtain k v where kv: "kv = (k, v)" by (cases kv)
  with Cons.prems obtain e1 where e1: "bind e k v = Inr e1"
    and rest: "fold_result (\<lambda>e (k, v). bind e k v) e1 kvs = Inr e'" by (auto simp: rbind_eq_Inr)
  have "lookup e \<subseteq>\<^sub>m lookup e1"
    using lookup_bind [OF Cons.prems(2) e1] bind_is_fresh [OF Cons.prems(2) e1] by (auto simp: map_le_def)
  from map_le_trans [OF this Cons.IH [OF rest bind_keeps_inv [OF Cons.prems(2) e1]]] show ?case .
qed simp

lemma binds_take_effect:
  "fold_result (\<lambda>e (k, v). bind e k v) e kvs = Inr e' \<Longrightarrow> inv e \<Longrightarrow> (k, v) \<in> set kvs \<Longrightarrow> lookup e' k = Some v"
proof (induction kvs arbitrary: e)
  case (Cons kv kvs)
  obtain k1 v1 where kv: "kv = (k1, v1)" by (cases kv)
  with Cons.prems obtain e1 where e1: "bind e k1 v1 = Inr e1"
    and rest: "fold_result (\<lambda>e (k, v). bind e k v) e1 kvs = Inr e'" by (auto simp: rbind_eq_Inr)
  note inv1 = bind_keeps_inv [OF Cons.prems(2) e1]
  show ?case
  proof (cases "(k, v) = (k1, v1)")
    case True
    with lookup_bind [OF Cons.prems(2) e1] have "lookup e1 k = Some v" by simp
    with binds_are_permanent [OF rest inv1] show ?thesis by (auto simp: map_le_def dest!: bspec [of _ _ k])
  qed (use Cons kv rest inv1 in auto)
qed simp

lemma bound_keys_are_distinct:
  "fold_result (\<lambda>e (k, v). bind e k v) e kvs = Inr e' \<Longrightarrow> inv e \<Longrightarrow>
   distinct (map fst kvs) \<and> (\<forall>k \<in> fst ` set kvs. lookup e k = None)"
proof (induction kvs arbitrary: e)
  case (Cons kv kvs)
  obtain k v where kv: "kv = (k, v)" by (cases kv)
  with Cons.prems obtain e1 where e1: "bind e k v = Inr e1"
    and rest: "fold_result (\<lambda>e (k, v). bind e k v) e1 kvs = Inr e'" by (auto simp: rbind_eq_Inr)
  from Cons.IH [OF rest bind_keeps_inv [OF Cons.prems(2) e1]] lookup_bind [OF Cons.prems(2) e1]
    bind_is_fresh [OF Cons.prems(2) e1] kv
  show ?case by (force split: if_splits)
qed simp

end

section \<open>Scope environments are a port store\<close>

lemma windows2_all_map: "windows2_all p (map f xs) \<longleftrightarrow> windows2_all (\<lambda>x y. p (f x) (f y)) xs"
  by (induction xs rule: induct_list012) simp_all

lemma validate_bindings_Inr:
  "validate_bindings bindings limits = Inr () \<longleftrightarrow>
     0 < el_maximum_bindings_per_scope limits \<and> 0 < el_maximum_lexical_depth limits
     \<and> length bindings \<le> el_maximum_bindings_per_scope limits
     \<and> sorted_wrt (<) (map sb_port bindings)
     \<and> (\<forall>b \<in> set bindings. validate_for_port (sb_value b) (sb_port b) = Inr ())"
  by (auto simp: validate_bindings_def fail_if_eq_Inr windows2_any_not windows2_all_map list_ex_iff not_le
      is_ok_iff simp flip: windows2_all_sorted)

lemma environment_validate_Inr:
  "environment_validate env s limits = Inr () \<longleftrightarrow>
     se_schema_version s = 1 \<and> validate_bindings (se_bindings s) limits = Inr ()
     \<and> environment_digest env (se_schema_version s) (se_bindings s) = Inr (se_canonical_digest s)"
  by (auto simp: environment_validate_def rbind_eq_Inr fail_if_eq_Inr is_ok_iff)

lemma lookup_port_map_of:
  "lookup_port s = map_of (map (\<lambda>b. (sb_port b, sb_value b)) (se_bindings s))"
proof (rule ext)
  have "map_option sb_value (List.find (\<lambda>b. sb_port b = port) bs) =
      map_of (map (\<lambda>b. (sb_port b, sb_value b)) bs) port" for port bs
    by (induction bs) auto
  then show "lookup_port s port = map_of (map (\<lambda>b. (sb_port b, sb_value b)) (se_bindings s)) port" for port
    by (simp add: lookup_port_def)
qed

lemma lookup_port_iff:
  assumes "sorted_wrt (<) (map sb_port (se_bindings s))"
  shows "lookup_port s port = Some v \<longleftrightarrow> (\<exists>b \<in> set (se_bindings s). sb_port b = port \<and> sb_value b = v)"
proof -
  have "distinct (map fst (map (\<lambda>b. (sb_port b, sb_value b)) (se_bindings s)))"
    using assms by (simp add: strict_sorted_iff comp_def)
  then show ?thesis unfolding lookup_port_map_of by (subst map_of_eq_Some_iff) auto
qed

lemma lookup_port_None: "lookup_port s port = None \<longleftrightarrow> port \<notin> sb_port ` set (se_bindings s)"
  unfolding lookup_port_map_of map_of_eq_None_iff by (simp add: image_image)

lemma bind_new_Inr:
  assumes "bind_new env limits s port v = Inr s'" and "environment_validate env s limits = Inr ()"
  shows "environment_validate env s' limits = Inr ()" and "port \<notin> sb_port ` set (se_bindings s)"
    and "set (se_bindings s') = insert \<lparr>sb_port = port, sb_value = v\<rparr> (set (se_bindings s))"
    and "sorted_wrt (<) (map sb_port (se_bindings s'))"
proof -
  from assms(2) have ok: "se_schema_version s = 1" "validate_bindings (se_bindings s) limits = Inr ()"
    by (simp_all add: environment_validate_Inr)
  from assms(1) have v: "validate_for_port v port = Inr ()" and fresh: "port \<notin> sb_port ` set (se_bindings s)"
    and room: "length (se_bindings s) < el_maximum_bindings_per_scope limits"
    and b: "se_bindings s' = sort_key sb_port (se_bindings s @ [\<lparr>sb_port = port, sb_value = v\<rparr>])"
    and d: "se_schema_version s' = se_schema_version s"
      "environment_digest env (se_schema_version s) (se_bindings s') = Inr (se_canonical_digest s')"
    by (auto simp: bind_new_def rbind_eq_Inr Let_def list_ex_iff split: if_splits)
  have ports: "distinct (map sb_port (se_bindings s @ [\<lparr>sb_port = port, sb_value = v\<rparr>]))"
    using ok(2) fresh by (auto simp: validate_bindings_Inr strict_sorted_iff)
  have "distinct (map sb_port (se_bindings s'))"
    unfolding b using ports unfolding distinct_map distinct_sort set_sort .
  then show sorted: "sorted_wrt (<) (map sb_port (se_bindings s'))"
    unfolding strict_sorted_iff b by simp
  show set: "set (se_bindings s') = insert \<lparr>sb_port = port, sb_value = v\<rparr> (set (se_bindings s))"
    unfolding b by auto
  show "port \<notin> sb_port ` set (se_bindings s)" by (rule fresh)
  have "length (se_bindings s') = length (se_bindings s) + 1" unfolding b by simp
  with ok v room sorted set d show "environment_validate env s' limits = Inr ()"
    by (auto simp: environment_validate_Inr validate_bindings_Inr)
qed

interpretation scope: port_store "\<lambda>s. environment_validate env s limits = Inr ()" lookup_port "bind_new env limits"
  for env limits
proof
  fix s port v s'
  assume ok: "environment_validate env s limits = Inr ()" and b: "bind_new env limits s port v = Inr s'"
  note facts = bind_new_Inr [OF b ok]
  show "environment_validate env s' limits = Inr ()" by (rule facts(1))
  show "lookup_port s port = None" using facts(2) by (simp add: lookup_port_None)
  show "lookup_port s' = (lookup_port s)(port \<mapsto> v)"
  proof (rule ext)
    fix q
    have s: "sorted_wrt (<) (map sb_port (se_bindings s))"
      using ok by (simp add: environment_validate_Inr validate_bindings_Inr)
    have "lookup_port s' q = Some w \<longleftrightarrow> ((lookup_port s)(port \<mapsto> v)) q = Some w" for w
      using facts(2) unfolding lookup_port_iff [OF facts(4)] facts(3) by (auto simp: lookup_port_iff [OF s])
    then show "lookup_port s' q = ((lookup_port s)(port \<mapsto> v)) q" by (metis not_None_eq)
  qed
qed

end
