(* ===== verification/ScopeRuns.thy ===== *)
theory ScopeRuns
  imports ScopeEnvironment ExpressionRuns
begin

text \<open>Properties of lexical scopes, through the interpretation of \<open>port_store\<close>, with a concrete chain.\<close>

section \<open>Resolution\<close>

text \<open>The scope of the chain that answers for a port.\<close>

lemma resolve_port_Some:
  "resolve_port port chain = Some v \<Longrightarrow>
     \<exists>i < length chain. lookup_port (chain ! i) port = Some v \<and> (\<forall>j < i. lookup_port (chain ! j) port = None)"
proof (induction chain)
  case (Cons s chain)
  show ?case
  proof (cases "lookup_port s port")
    case None
    with Cons obtain i where "i < length chain" "lookup_port (chain ! i) port = Some v"
      "\<forall>j < i. lookup_port (chain ! j) port = None" by auto
    with None show ?thesis by (intro exI [of _ "Suc i"]) (auto simp: nth_Cons split: nat.splits)
  qed (use Cons in auto)
qed simp

lemma validated_lookup:
  assumes "environment_validate env s limits = Inr ()" and "lookup_port s port = Some v"
  shows "validate_for_port v port = Inr ()"
proof -
  from assms(1) have "sorted_wrt (<) (map sb_port (se_bindings s))"
    and ok: "\<forall>b \<in> set (se_bindings s). validate_for_port (sb_value b) (sb_port b) = Inr ()"
    by (simp_all add: environment_validate_Inr validate_bindings_Inr)
  from lookup_port_iff [OF this(1)] assms(2) ok show ?thesis by auto
qed

section \<open>A concrete chain\<close>

definition ex_scope_limits :: ScopeEnvironmentLimits where
  "ex_scope_limits = \<lparr>el_maximum_bindings_per_scope = 4, el_maximum_lexical_depth = 3\<rparr>"

definition ex_value :: "u128 \<Rightarrow> ExactRunValueRef" where
  "ex_value n = \<lparr>rv_value_id = ResourceId ResourceKind.RunValue n, rv_schema_digest = ex_zero, rv_content_digest = ''c''\<rparr>"

definition ex_scope :: "(ExactDataPortRef \<times> u128) list \<Rightarrow> ScopeDataEnvironmentSnapshot" where
  "ex_scope bs = \<lparr>se_schema_version = 1, se_bindings = map (\<lambda>(p, n). \<lparr>sb_port = p, sb_value = ex_value n\<rparr>) bs,
     se_canonical_digest = ''sha256:'' @ lowercase_hex (replicate 32 0)\<rparr>"

definition ex_output :: ExactDataPortRef where
  "ex_output = NodeOutput ''n'' ''o'' ex_zero"

lemma ex_port_order: "ex_port < ex_output" "ex_port \<noteq> ex_output"
  by (simp_all add: ex_port_def ex_output_def less_ExactDataPortRef_def port_sort_key_def)

lemma ex_scopes_validate:
  "environment_validate ex_xenv (ex_scope []) ex_scope_limits = Inr ()"
  "environment_validate ex_xenv (ex_scope [(ex_port, 1)]) ex_scope_limits = Inr ()"
  "environment_validate ex_xenv (ex_scope [(ex_port, 1), (ex_output, 2)]) ex_scope_limits = Inr ()"
  using ex_port_order
  by (simp_all add: environment_validate_Inr validate_bindings_Inr environment_digest_def ex_digest ex_scope_def
      ex_scope_limits_def validate_for_port_def ex_value_def port_schema_digest_def ex_output_def ex_port_def)

lemma ex_bind:
  "fold_result (\<lambda>s (port, v). bind_new ex_xenv ex_scope_limits s port v) (ex_scope [])
     [(ex_port, ex_value 1), (ex_output, ex_value 2)] = Inr (ex_scope [(ex_port, 1), (ex_output, 2)])"
  using ex_port_order
  by (simp add: bind_new_def environment_digest_def ex_digest ex_scope_def ex_scope_limits_def validate_for_port_def
      ex_value_def port_schema_digest_def ex_output_def ex_port_def)

section \<open>Properties\<close>

text \<open>C32: Whatever ports are bound one after another in a scope, if all binds are accepted then the
  scope is still valid, no port was bound twice or before, every new port resolves to the value it
  was bound to, and no earlier binding has changed: a bound value is immutable.\<close>

theorem scope_bindings_are_permanent:
  assumes "environment_validate env s limits = Inr ()"
    and "fold_result (\<lambda>s (port, v). bind_new env limits s port v) s bs = Inr s'"
  shows "environment_validate env s' limits = Inr () \<and> distinct (map fst bs)
    \<and> lookup_port s \<subseteq>\<^sub>m lookup_port s' \<and> (\<forall>port v. (port, v) \<in> set bs \<longrightarrow> lookup_port s' port = Some v)"
  using scope.binds_keep_inv [OF assms(2,1)] scope.bound_keys_are_distinct [OF assms(2,1)]
    scope.binds_are_permanent [OF assms(2,1)] scope.binds_take_effect [OF assms(2,1)]
  by blast

lemma scope_bindings_are_permanent_witness:
  "lookup_port (ex_scope [(ex_port, 1), (ex_output, 2)]) ex_output = Some (ex_value 2)"
  using scope_bindings_are_permanent [OF ex_scopes_validate(1) ex_bind] by simp

text \<open>Resolving the inputs of a node takes for every required port, in order, the value of the
  nearest scope that binds it, and that value is a run value of exactly the port's schema.\<close>

theorem inputs_resolve_to_the_nearest_scope:
  assumes "resolve_scope_inputs env required_ports chain limits = Inr vs"
  shows "length vs = length required_ports
    \<and> (\<forall>k < length required_ports. \<exists>i < length chain.
        lookup_port (chain ! i) (required_ports ! k) = Some (vs ! k)
        \<and> (\<forall>j < i. lookup_port (chain ! j) (required_ports ! k) = None)
        \<and> rid_kind (rv_value_id (vs ! k)) = ResourceKind.RunValue
        \<and> rv_schema_digest (vs ! k) = port_schema_digest (required_ports ! k))"
proof -
  from assms have valid: "\<forall>s \<in> set chain. environment_validate env s limits = Inr ()"
    and vs: "length vs = length required_ports"
      "\<forall>k < length required_ports. resolve_port (required_ports ! k) chain = Some (vs ! k)"
    by (auto simp: resolve_scope_inputs_def rbind_eq_Inr check_all_eq_Inr traverse_eq_Inr ok_or_eq_Inr
        split: if_splits)
  have "\<exists>i < length chain. lookup_port (chain ! i) (required_ports ! k) = Some (vs ! k)
      \<and> (\<forall>j < i. lookup_port (chain ! j) (required_ports ! k) = None)
      \<and> validate_for_port (vs ! k) (required_ports ! k) = Inr ()" if "k < length required_ports" for k
    using resolve_port_Some vs(2) that valid validated_lookup nth_mem by metis
  then show ?thesis using vs(1) by (fastforce simp: validate_for_port_def fail_if_eq_Inr)
qed

lemma inputs_resolve_to_the_nearest_scope_witness:
  "\<exists>i < 2. lookup_port ([ex_scope [(ex_port, 1)], ex_scope [(ex_port, 1), (ex_output, 2)]] ! i) ex_output = Some (ex_value 2)"
proof -
  have "resolve_scope_inputs ex_xenv [ex_output] [ex_scope [(ex_port, 1)], ex_scope [(ex_port, 1), (ex_output, 2)]]
      ex_scope_limits = Inr [ex_value 2]"
    using ex_port_order
    by (simp add: resolve_scope_inputs_def ex_scopes_validate)
      (simp add: ex_scope_def ex_scope_limits_def lookup_port_def)
  from inputs_resolve_to_the_nearest_scope [OF this] show ?thesis by (auto simp: numeral_2_eq_2)
qed

end
