(* ===== verification/Controller.thy ===== *)
theory Controller
  imports ScopeEnvironment
begin

text \<open>
  The typed controllers of the orchestrator (\<open>platform-orchestrator/src/lib.rs\<close>): from a plan node
  and a committed observation, what happens next; and the evaluation of a node's expressions over
  committed inputs, with the evidence it leaves.
\<close>

section \<open>Observations and decisions\<close>

datatype ChildOutcome = Active | Succeeded | Failed | Cancelled | TimedOut

definition is_terminal :: "ChildOutcome \<Rightarrow> bool" where
  "is_terminal c \<longleftrightarrow> c \<noteq> Active"

definition is_success :: "ChildOutcome \<Rightarrow> bool" where
  "is_success c \<longleftrightarrow> c = Succeeded"

datatype DurableWaitKind = HumanTask | Timer | Signal

datatype DurableWaitOutcome = Succeeded | Declined | TimedOut | Cancelled

datatype (plugins only: code) ControllerObservation =
    NoObservation
  | ExternalLeafCompleted
  | Branch PlanNodeKey
  | Join "ChildOutcome list"
  | Map u32
  | MapSettlement "ChildOutcome list"
  | Loop u32 bool
  | ErrorBoundary "string option"
  | DurableWait DurableWaitKind DurableWaitOutcome

datatype LeafKind = ModelLoop | Capability | Context

datatype (plugins only: code) ControllerDecision =
    CompleteNode "PlanNodeKey list"
  | FanOut "PlanNodeKey list" "PlanNodeKey list"
  | WaitForChildren
  | OpenMapItems PlanNodeKey PlanNodeKey u32 MapFailurePolicy
  | OpenLoopIteration PlanNodeKey u32
  | EnterErrorHandler PlanNodeKey
  | DispatchLeaf LeafKind PlanNodeKey
  | CreateChildRun PlanNodeKey
  | CreateDurableWait DurableWaitKind PlanNodeKey
  | CompleteRun ExactDataPortRef
  | FailNode string
  | FailRun ExactDataPortRef

section \<open>Settling children\<close>

definition decide_map_settlement ::
  "MapFailurePolicy \<Rightarrow> PlanNodeKey \<Rightarrow> ChildOutcome list \<Rightarrow> OrchestratorError + ControllerDecision" where
  "decide_map_settlement policy next_node children =
     (if children = [] then Inl ObservationMismatch
      else
        let failed = length (filter (\<lambda>c. c \<in> {ChildOutcome.Failed, ChildOutcome.Cancelled, ChildOutcome.TimedOut})
              children)
        in if policy = FailFast \<and> 0 < failed then Inr (FailNode ''map_item_failed'')
           else if (case policy of BoundedErrorCount maximum_failures \<Rightarrow> unat maximum_failures < failed | _ \<Rightarrow> False)
             then Inr (FailNode ''map_error_limit_exceeded'')
           else if list_all is_terminal children then Inr (CompleteNode [next_node])
           else Inr WaitForChildren)"

definition decide_join ::
  "JoinPolicy \<Rightarrow> u16 option \<Rightarrow> PlanNodeKey \<Rightarrow> ChildOutcome list \<Rightarrow> OrchestratorError + ControllerDecision" where
  "decide_join policy quorum next_node children =
     (if children = [] then Inl ObservationMismatch
      else
        let successes = length (filter is_success children);
            active = length (filter (\<lambda>c. \<not> is_terminal c) children)
        in case policy of
             AllSuccess \<Rightarrow>
               if list_ex (\<lambda>c. is_terminal c \<and> \<not> is_success c) children then Inr (FailNode ''child_failed'')
               else if active = 0 then Inr (CompleteNode [next_node])
               else Inr WaitForChildren
           | JoinPolicy.AllSettled \<Rightarrow>
               if active = 0 then Inr (CompleteNode [next_node]) else Inr WaitForChildren
           | Quorum \<Rightarrow>
               rbind (ok_or OrchestratorError.InvalidPlan quorum) (\<lambda>q.
               let required = unat q
               in if required \<le> successes then Inr (CompleteNode [next_node])
                  else if successes + active < required then Inr (FailNode ''quorum_unreachable'')
                  else Inr WaitForChildren))"

section \<open>The controller\<close>

definition decide_wait ::
  "DurableWaitKind \<Rightarrow> PlanNodeKey \<Rightarrow> ControllerObservation \<Rightarrow> OrchestratorError + ControllerDecision" where
  "decide_wait kind resume observation =
     (case observation of
        NoObservation \<Rightarrow> Inr (CreateDurableWait kind resume)
      | DurableWait wait_kind outcome \<Rightarrow>
          if wait_kind \<noteq> kind then Inl ObservationMismatch
          else (case outcome of
              DurableWaitOutcome.Succeeded \<Rightarrow> Inr (CompleteNode [resume])
            | DurableWaitOutcome.TimedOut \<Rightarrow> Inr (FailNode ''timeout'')
            | DurableWaitOutcome.Declined \<Rightarrow>
                if kind = DurableWaitKind.HumanTask then Inr (FailNode ''interaction_declined'')
                else Inl ObservationMismatch
            | DurableWaitOutcome.Cancelled \<Rightarrow> Inr (FailNode ''cancelled''))
      | _ \<Rightarrow> Inl ObservationMismatch)"

definition decide_leaf ::
  "ControllerDecision \<Rightarrow> PlanNodeKey \<Rightarrow> ControllerObservation \<Rightarrow> OrchestratorError + ControllerDecision" where
  "decide_leaf dispatch resume observation =
     (case observation of
        NoObservation \<Rightarrow> Inr dispatch
      | ExternalLeafCompleted \<Rightarrow> Inr (CompleteNode [resume])
      | _ \<Rightarrow> Inl ObservationMismatch)"

text \<open>The arms of the source, by node; an observation that no arm of the node accepts is a mismatch.\<close>

definition decide_controller ::
  "'n RuntimeNode \<Rightarrow> ControllerObservation \<Rightarrow> OrchestratorError + ControllerDecision" where
  "decide_controller node observation =
     (case node of
        RuntimeNode.ChildAgentCall _ resume \<Rightarrow> decide_leaf (CreateChildRun resume) resume observation
      | RuntimeNode.ContextQuery _ _ _ _ resume \<Rightarrow>
          decide_leaf (DispatchLeaf LeafKind.Context resume) resume observation
      | RuntimeNode.ModelLoop _ resume \<Rightarrow>
          decide_leaf (DispatchLeaf LeafKind.ModelLoop resume) resume observation
      | RuntimeNode.CapabilityCall _ resume \<Rightarrow>
          decide_leaf (DispatchLeaf LeafKind.Capability resume) resume observation
      | RuntimeNode.Start next_node \<Rightarrow>
          (case observation of NoObservation \<Rightarrow> Inr (CompleteNode [next_node]) | _ \<Rightarrow> Inl ObservationMismatch)
      | RuntimeNode.Compute _ next_node \<Rightarrow>
          (case observation of NoObservation \<Rightarrow> Inr (CompleteNode [next_node]) | _ \<Rightarrow> Inl ObservationMismatch)
      | RuntimeNode.Branch ordered_arms otherwise \<Rightarrow>
          (case observation of
             Branch selected \<Rightarrow>
               if list_ex (\<lambda>arm. ba_target arm = selected) ordered_arms \<or> otherwise = selected
               then Inr (CompleteNode [selected]) else Inl ObservationMismatch
           | _ \<Rightarrow> Inl ObservationMismatch)
      | RuntimeNode.Fork legs join \<Rightarrow>
          (case observation of NoObservation \<Rightarrow> Inr (FanOut legs [join]) | _ \<Rightarrow> Inl ObservationMismatch)
      | RuntimeNode.Join policy quorum _ next_node \<Rightarrow>
          (case observation of
             Join children \<Rightarrow> decide_join policy quorum next_node children
           | _ \<Rightarrow> Inl ObservationMismatch)
      | RuntimeNode.Map _ _ body next_node maximum_items failure_policy \<Rightarrow>
          (case observation of
             Map item_count \<Rightarrow>
               if item_count \<le> maximum_items then Inr (OpenMapItems body next_node item_count failure_policy)
               else Inl ObservationMismatch
           | MapSettlement children \<Rightarrow> decide_map_settlement failure_policy next_node children
           | _ \<Rightarrow> Inl ObservationMismatch)
      | RuntimeNode.Loop _ _ body exit_node maximum_iterations \<Rightarrow>
          (case observation of
             Loop iteration condition \<Rightarrow>
               if \<not> condition then Inr (CompleteNode [exit_node])
               else if iteration < maximum_iterations then Inr (OpenLoopIteration body iteration)
               else Inr (FailNode ''budget_exhausted'')
           | _ \<Rightarrow> Inl ObservationMismatch)
      | RuntimeNode.ErrorBoundary body handlers \<Rightarrow>
          (case observation of
             ErrorBoundary None \<Rightarrow> Inr (CompleteNode [body])
           | ErrorBoundary (Some code) \<Rightarrow>
               rbind (ok_or UnhandledFailure (map_of handlers code)) (\<lambda>target. Inr (EnterErrorHandler target))
           | _ \<Rightarrow> Inl ObservationMismatch)
      | RuntimeNode.HumanTask _ _ _ resume \<Rightarrow> decide_wait DurableWaitKind.HumanTask resume observation
      | RuntimeNode.TimerWait _ resume \<Rightarrow> decide_wait Timer resume observation
      | RuntimeNode.SignalWait _ _ _ resume \<Rightarrow> decide_wait Signal resume observation
      | RuntimeNode.Return v \<Rightarrow>
          (case observation of NoObservation \<Rightarrow> Inr (CompleteRun v) | _ \<Rightarrow> Inl ObservationMismatch)
      | RuntimeNode.Raise failure \<Rightarrow>
          (case observation of NoObservation \<Rightarrow> Inr (FailRun failure) | _ \<Rightarrow> Inl ObservationMismatch))"

section \<open>Evaluation of a node's expressions\<close>

record 'n CommittedExpressionInput =
  ci_run_value_id :: ResourceId
  ci_port :: ExactDataPortRef
  ci_classification :: DataClassification
  ci_value :: "'n ClosedJsonValue"

record 'n ControllerDerivedOutput =
  co_port :: ExactDataPortRef
  co_value :: "'n ClosedJsonValue"

record ControllerInputEvidence =
  ie_run_value_id :: ResourceId
  ie_port :: ExactDataPortRef
  ie_classification :: DataClassification
  ie_content_digest :: Sha256Digest

record ControllerObservationEvidence =
  oe_schema_version :: u32
  oe_node_execution_id :: ResourceId
  oe_node_execution_version :: int
  oe_expression_digests :: "Sha256Digest list"
  oe_inputs :: "ControllerInputEvidence list"
  oe_result_digest :: Sha256Digest
  oe_canonical_digest :: Sha256Digest

record 'n ControllerEvaluation =
  ce_observation :: ControllerObservation
  ce_outputs :: "'n ControllerDerivedOutput list"
  ce_evaluated_results :: "'n ClosedJsonValue list"
  ce_effective_classification :: DataClassification
  ce_evidence :: ControllerObservationEvidence

definition derive_expression_classification :: "DataClassification list \<Rightarrow> DataClassification" where
  "derive_expression_classification cs =
     (case cs of [] \<Rightarrow> DataClassification.Internal | c # rest \<Rightarrow> foldl classification_join c rest)"

definition controller_programs :: "'n RuntimeNode \<Rightarrow> OrchestratorError + 'n TypedExpressionProgram list" where
  "controller_programs node =
     (case node of
        RuntimeNode.Compute assignments _ \<Rightarrow> Inr (map pa_expression assignments)
      | RuntimeNode.Branch ordered_arms _ \<Rightarrow> Inr (map ba_when ordered_arms)
      | RuntimeNode.Map items _ _ _ _ _ \<Rightarrow> Inr [items]
      | RuntimeNode.Loop condition _ _ _ _ \<Rightarrow> Inr [condition]
      | _ \<Rightarrow> Inl ObservationMismatch)"

definition generated_ports :: "'n RuntimeNode \<Rightarrow> ExactDataPortRef set" where
  "generated_ports node =
     (case node of RuntimeNode.Compute assignments _ \<Rightarrow> set (map pa_output_port assignments) | _ \<Rightarrow> {})"

text \<open>The push of the double loop: the first occurrence of each port that the node does not generate.\<close>

fun first_occurrences :: "'a set \<Rightarrow> 'a list \<Rightarrow> 'a list" where
  "first_occurrences seen [] = []"
| "first_occurrences seen (x # xs) =
     (if x \<in> seen then first_occurrences seen xs else x # first_occurrences (insert x seen) xs)"

definition required_expression_inputs :: "'n RuntimeNode \<Rightarrow> OrchestratorError + ExactDataPortRef list" where
  "required_expression_inputs node =
     rbind (controller_programs node) (\<lambda>programs.
     Inr (first_occurrences (generated_ports node) (concat (map xp_input_ports programs))))"

type_synonym 'n port_values = "ExactDataPortRef \<rightharpoonup> 'n ClosedJsonValue"

text \<open>The selected inputs: one entry for each distinct port of the program, with its value.\<close>

definition evaluate_controller_program ::
  "('n, 'z) expression_env_scheme \<Rightarrow> 'n TypedExpressionProgram \<Rightarrow> 'n port_values \<Rightarrow> ExpressionLimits \<Rightarrow>
   OrchestratorError + 'n ClosedJsonValue" where
  "evaluate_controller_program env program values limits =
     rbind (traverse (\<lambda>port. rbind (ok_or ExpressionEvaluation (values port)) (\<lambda>v. Inr (port, v)))
       (remdups (xp_input_ports program))) (\<lambda>selected.
     map_err ExpressionEvaluation (evaluate env program selected limits))"

text \<open>The serde tag is \<open>kind\<close>; a variant without fields is the tag alone.\<close>

primrec child_outcome_str :: "ChildOutcome \<Rightarrow> string" where
  "child_outcome_str ChildOutcome.Active = ''active''"
| "child_outcome_str ChildOutcome.Succeeded = ''succeeded''"
| "child_outcome_str ChildOutcome.Failed = ''failed''"
| "child_outcome_str ChildOutcome.Cancelled = ''cancelled''"
| "child_outcome_str ChildOutcome.TimedOut = ''timed_out''"

primrec wait_kind_str :: "DurableWaitKind \<Rightarrow> string" where
  "wait_kind_str DurableWaitKind.HumanTask = ''human_task''"
| "wait_kind_str Timer = ''timer''"
| "wait_kind_str Signal = ''signal''"

primrec wait_outcome_str :: "DurableWaitOutcome \<Rightarrow> string" where
  "wait_outcome_str DurableWaitOutcome.Succeeded = ''succeeded''"
| "wait_outcome_str DurableWaitOutcome.Declined = ''declined''"
| "wait_outcome_str DurableWaitOutcome.TimedOut = ''timed_out''"
| "wait_outcome_str DurableWaitOutcome.Cancelled = ''cancelled''"

definition observation_json :: "('n, 'z) platform_env_scheme \<Rightarrow> ControllerObservation \<Rightarrow> 'n Json" where
  "observation_json env ob =
     (let tagged = (\<lambda>kind rest. json_object ((''kind'', String kind) # rest));
          outcomes = (\<lambda>cs. Array (map (\<lambda>c. String (child_outcome_str c)) cs))
      in case ob of
        NoObservation \<Rightarrow> tagged ''none'' []
      | ExternalLeafCompleted \<Rightarrow> tagged ''external_leaf_completed'' []
      | Branch selected \<Rightarrow> tagged ''branch'' [(''selected'', String selected)]
      | Join children \<Rightarrow> tagged ''join'' [(''children'', outcomes children)]
      | Map item_count \<Rightarrow> tagged ''map'' [(''item_count'', json_number env (ucast item_count))]
      | MapSettlement children \<Rightarrow> tagged ''map_settlement'' [(''children'', outcomes children)]
      | Loop iteration condition \<Rightarrow> tagged ''loop''
          [(''iteration'', json_number env (ucast iteration)), (''condition'', Bool condition)]
      | ErrorBoundary failure_code \<Rightarrow> tagged ''error_boundary''
          [(''failure_code'', case failure_code of None \<Rightarrow> Null | Some code \<Rightarrow> String code)]
      | DurableWait wait_kind outcome \<Rightarrow> tagged ''durable_wait''
          [(''wait_kind'', String (wait_kind_str wait_kind)), (''outcome'', String (wait_outcome_str outcome))])"

definition evaluation_result_digest ::
  "('n, 'z) platform_env_scheme \<Rightarrow> ControllerObservation \<Rightarrow> 'n ControllerDerivedOutput list \<Rightarrow>
   'n ClosedJsonValue list \<Rightarrow> DataClassification \<Rightarrow> OrchestratorError + Sha256Digest" where
  "evaluation_result_digest env ob outputs results classification =
     document_digest env OrchestratorError.Canonicalization (Array
       [observation_json env ob,
        Array (map (\<lambda>out. json_object [(''port'', port_json (co_port out)), (''value'', closed_json (co_value out))])
          outputs),
        Array (map closed_json results),
        String (data_classification_str classification)])"

text \<open>A signed version is serialized as a number; the environment prints integers.\<close>

definition controller_evidence_digest ::
  "('n, 'z) expression_env_scheme \<Rightarrow> ResourceId \<Rightarrow> int \<Rightarrow> Sha256Digest list \<Rightarrow> ControllerInputEvidence list \<Rightarrow>
   Sha256Digest \<Rightarrow> OrchestratorError + Sha256Digest" where
  "controller_evidence_digest env node_execution_id node_execution_version expression_digests inputs result_digest =
     document_digest env OrchestratorError.Canonicalization (json_object
       [(''schema_version'', json_number env 1),
        (''node_execution_id'', json_id env node_execution_id),
        (''node_execution_version'', Number (xe_from_i64 env node_execution_version)),
        (''expression_digests'', Array (map String expression_digests)),
        (''inputs'', Array (map (\<lambda>i. json_object
           [(''run_value_id'', json_id env (ie_run_value_id i)), (''port'', port_json (ie_port i)),
            (''classification'', String (data_classification_str (ie_classification i))),
            (''content_digest'', String (ie_content_digest i))]) inputs)),
        (''result_digest'', String result_digest)])"

definition evidence_validate ::
  "('n, 'z) expression_env_scheme \<Rightarrow> ControllerObservationEvidence \<Rightarrow> OrchestratorError + unit" where
  "evidence_validate env e =
     (if oe_schema_version e \<noteq> 1
         \<or> rid_kind (oe_node_execution_id e) \<noteq> ResourceKind.NodeExecution
         \<or> oe_node_execution_version e \<le> 0
         \<or> list_ex (\<lambda>i. rid_kind (ie_run_value_id i) \<noteq> ResourceKind.RunValue \<or> ie_content_digest i = []) (oe_inputs e)
         \<or> \<not> distinct (map ie_port (oe_inputs e))
      then Inl InvalidControllerEvidence
      else
        rbind (controller_evidence_digest env (oe_node_execution_id e) (oe_node_execution_version e)
          (oe_expression_digests e) (oe_inputs e) (oe_result_digest e)) (\<lambda>digest.
        fail_if (digest \<noteq> oe_canonical_digest e) InvalidControllerEvidence))"

definition evaluation_validate ::
  "('n, 'z) expression_env_scheme \<Rightarrow> 'n ControllerEvaluation \<Rightarrow> OrchestratorError + unit" where
  "evaluation_validate env ev =
     rbind (evidence_validate env (ce_evidence ev)) (\<lambda>_.
     if \<not> distinct (map co_port (ce_outputs ev))
        \<or> list_ex (\<lambda>out. cj_schema_digest (co_value out) \<noteq> port_schema_digest (co_port out)
            \<or> \<not> is_ok (closed_validate env (co_value out))) (ce_outputs ev)
        \<or> list_ex (\<lambda>r. \<not> is_ok (closed_validate env r)) (ce_evaluated_results ev)
     then Inl InvalidControllerEvidence
     else
       rbind (evaluation_result_digest env (ce_observation ev) (ce_outputs ev) (ce_evaluated_results ev)
         (ce_effective_classification ev)) (\<lambda>digest.
       fail_if (digest \<noteq> oe_result_digest (ce_evidence ev)) InvalidControllerEvidence))"

section \<open>Deriving an evaluation\<close>

text \<open>The maps the first loop fills: the value of each port, and the committed inputs themselves,
  whose ports are distinct.\<close>

definition commit_input ::
  "('n, 'z) expression_env_scheme \<Rightarrow> 'n port_values \<times> 'n CommittedExpressionInput list \<Rightarrow>
   'n CommittedExpressionInput \<Rightarrow> OrchestratorError + ('n port_values \<times> 'n CommittedExpressionInput list)" where
  "commit_input env st input =
     (let (values, committed) = st in
      if rid_kind (ci_run_value_id input) \<noteq> ResourceKind.RunValue
         \<or> cj_schema_digest (ci_value input) \<noteq> port_schema_digest (ci_port input)
         \<or> \<not> is_ok (closed_validate env (ci_value input))
         \<or> values (ci_port input) \<noteq> None
      then Inl InvalidControllerEvidence
      else Inr (values(ci_port input \<mapsto> ci_value input), committed @ [input]))"

definition input_evidence ::
  "'n CommittedExpressionInput list \<Rightarrow> ExactDataPortRef \<Rightarrow> OrchestratorError + ControllerInputEvidence" where
  "input_evidence committed port =
     rbind (ok_or InvalidControllerEvidence (List.find (\<lambda>i. ci_port i = port) committed)) (\<lambda>i.
     Inr \<lparr>ie_run_value_id = ci_run_value_id i, ie_port = port, ie_classification = ci_classification i,
          ie_content_digest = cj_canonical_digest (ci_value i)\<rparr>)"

text \<open>The assignments of a \<open>Compute\<close> node; the state is the values and the outputs so far.\<close>

definition run_assignment ::
  "('n, 'z) expression_env_scheme \<Rightarrow> ExpressionLimits \<Rightarrow> 'n port_values \<times> 'n ControllerDerivedOutput list \<Rightarrow>
   'n PortAssignment \<Rightarrow> OrchestratorError + ('n port_values \<times> 'n ControllerDerivedOutput list)" where
  "run_assignment env limits st a =
     (let (values, outputs) = st in
      rbind (evaluate_controller_program env (pa_expression a) values limits) (\<lambda>result.
      Inr (values(pa_output_port a \<mapsto> result),
           outputs @ [\<lparr>co_port = pa_output_port a, co_value = result\<rparr>])))"

definition as_bool :: "'n Json \<Rightarrow> bool option" where
  "as_bool v = (case v of Bool b \<Rightarrow> Some b | _ \<Rightarrow> None)"

text \<open>The arms of a \<open>Branch\<close>, up to the first that holds.\<close>

primrec run_arms ::
  "('n, 'z) expression_env_scheme \<Rightarrow> ExpressionLimits \<Rightarrow> 'n port_values \<Rightarrow> PlanNodeKey \<Rightarrow> 'n BranchArm list \<Rightarrow>
   OrchestratorError + (PlanNodeKey \<times> 'n ClosedJsonValue list)" where
  "run_arms env limits values otherwise [] = Inr (otherwise, [])"
| "run_arms env limits values otherwise (arm # arms) =
     rbind (evaluate_controller_program env (ba_when arm) values limits) (\<lambda>result.
     rbind (ok_or ExpressionEvaluation (as_bool (cj_value result))) (\<lambda>condition.
     if condition then Inr (ba_target arm, [result])
     else rbind (run_arms env limits values otherwise arms) (\<lambda>(selected, results).
          Inr (selected, result # results))))"

text \<open>The observation, the outputs and the evaluated results of a node.\<close>

definition run_expressions ::
  "('n, 'z) expression_env_scheme \<Rightarrow> 'n RuntimeNode \<Rightarrow> 'n port_values \<Rightarrow> u32 \<Rightarrow> ExpressionLimits \<Rightarrow>
   OrchestratorError + (ControllerObservation \<times> 'n ControllerDerivedOutput list \<times> 'n ClosedJsonValue list)" where
  "run_expressions env node values loop_iteration limits =
     (case node of
        RuntimeNode.Compute assignments _ \<Rightarrow>
          rbind (fold_result (run_assignment env limits) (values, []) assignments) (\<lambda>(_, outputs).
          Inr (NoObservation, outputs, map co_value outputs))
      | RuntimeNode.Branch ordered_arms otherwise \<Rightarrow>
          rbind (run_arms env limits values otherwise ordered_arms) (\<lambda>(selected, results).
          Inr (Branch selected, [], results))
      | RuntimeNode.Map items _ _ _ maximum_items _ \<Rightarrow>
          rbind (evaluate_controller_program env items values limits) (\<lambda>result.
          case cj_value result of
            Array xs \<Rightarrow>
              if 2 ^ 32 \<le> length xs then Inl ExpressionEvaluation
              else if maximum_items < word_of_nat (length xs) then Inl ExpressionEvaluation
              else Inr (Map (word_of_nat (length xs)), [], [result])
          | _ \<Rightarrow> Inl ExpressionEvaluation)
      | RuntimeNode.Loop condition _ _ _ _ \<Rightarrow>
          rbind (evaluate_controller_program env condition values limits) (\<lambda>result.
          rbind (ok_or ExpressionEvaluation (as_bool (cj_value result))) (\<lambda>c.
          Inr (Loop loop_iteration c, [], [result])))
      | _ \<Rightarrow> Inl ObservationMismatch)"

definition derive_expression_controller ::
  "('n, 'z) expression_env_scheme \<Rightarrow> 'n RuntimeNode \<Rightarrow> 'n CommittedExpressionInput list \<Rightarrow> ResourceId \<Rightarrow> int \<Rightarrow>
   u32 \<Rightarrow> ExpressionLimits \<Rightarrow> OrchestratorError + 'n ControllerEvaluation" where
  "derive_expression_controller env node committed_inputs node_execution_id node_execution_version
     loop_iteration limits =
     (if rid_kind node_execution_id \<noteq> ResourceKind.NodeExecution \<or> node_execution_version \<le> 0
      then Inl InvalidControllerEvidence
      else
        rbind (fold_result (commit_input env) (Map.empty, []) committed_inputs) (\<lambda>(values, committed).
        rbind (required_expression_inputs node) (\<lambda>required_ports.
        rbind (controller_programs node) (\<lambda>programs.
        if length committed \<noteq> length required_ports
           \<or> list_ex (\<lambda>i. ci_port i \<notin> set required_ports) committed
        then Inl InvalidControllerEvidence
        else
          rbind (traverse (input_evidence committed) required_ports) (\<lambda>used_inputs.
          rbind (run_expressions env node values loop_iteration limits) (\<lambda>(observation, outputs, results).
          let effective_classification = derive_expression_classification (map ci_classification committed);
              expression_digests = map xp_semantic_digest programs
          in rbind (evaluation_result_digest env observation outputs results effective_classification) (\<lambda>result_digest.
             rbind (controller_evidence_digest env node_execution_id node_execution_version expression_digests
               used_inputs result_digest) (\<lambda>canonical.
             let evaluation = \<lparr>ce_observation = observation, ce_outputs = outputs, ce_evaluated_results = results,
                   ce_effective_classification = effective_classification,
                   ce_evidence = \<lparr>oe_schema_version = 1, oe_node_execution_id = node_execution_id,
                     oe_node_execution_version = node_execution_version,
                     oe_expression_digests = expression_digests, oe_inputs = used_inputs,
                     oe_result_digest = result_digest, oe_canonical_digest = canonical\<rparr>\<rparr>
             in rbind (evaluation_validate env evaluation) (\<lambda>_. Inr evaluation)))))))))"

end
