(* ===== verification/ControllerSafety.thy ===== *)
theory ControllerSafety
  imports Controller PlanRuns
begin

text \<open>
  What the controllers promise: decisions stay within the plan, settlement is final and as early as
  its policy allows, and what an evaluation observes is always something the controller can decide.
\<close>

section \<open>Targets of a decision\<close>

definition decision_targets :: "ControllerDecision \<Rightarrow> PlanNodeKey list" where
  "decision_targets d =
     (case d of
        CompleteNode activate \<Rightarrow> activate
      | FanOut activate create_pending \<Rightarrow> activate @ create_pending
      | OpenMapItems body next_node _ _ \<Rightarrow> [body, next_node]
      | OpenLoopIteration body _ \<Rightarrow> [body]
      | EnterErrorHandler target \<Rightarrow> [target]
      | DispatchLeaf _ resume \<Rightarrow> [resume]
      | CreateChildRun resume \<Rightarrow> [resume]
      | CreateDurableWait _ resume \<Rightarrow> [resume]
      | _ \<Rightarrow> [])"

lemma decision_targets_simps [simp]:
  "decision_targets (CompleteNode ks) = ks" "decision_targets (FanOut a b) = a @ b"
  "decision_targets WaitForChildren = []" "decision_targets (OpenMapItems body n count_items p) = [body, n]"
  "decision_targets (OpenLoopIteration body i) = [body]" "decision_targets (EnterErrorHandler t) = [t]"
  "decision_targets (DispatchLeaf l r) = [r]" "decision_targets (CreateChildRun r) = [r]"
  "decision_targets (CreateDurableWait w r) = [r]" "decision_targets (CompleteRun v) = []"
  "decision_targets (FailNode code) = []" "decision_targets (FailRun f) = []"
  by (simp_all add: decision_targets_def)

lemma settlement_targets:
  "decide_join policy quorum k children = Inr d \<Longrightarrow> set (decision_targets d) \<subseteq> {k}"
  "decide_map_settlement mp k children = Inr d \<Longrightarrow> set (decision_targets d) \<subseteq> {k}"
  by (auto simp: decide_join_def decide_map_settlement_def Let_def rbind_eq_Inr
      split: if_splits JoinPolicy.splits MapFailurePolicy.splits)

lemma wait_targets: "decide_wait kind resume ob = Inr d \<Longrightarrow> set (decision_targets d) \<subseteq> {resume}"
  by (auto simp: decide_wait_def split: ControllerObservation.splits DurableWaitOutcome.splits if_splits)

lemma leaf_targets:
  "decide_leaf dispatch resume ob = Inr d \<Longrightarrow> set (decision_targets dispatch) \<subseteq> {resume} \<Longrightarrow>
   set (decision_targets d) \<subseteq> {resume}"
  by (auto simp: decide_leaf_def split: ControllerObservation.splits)

lemma controller_targets:
  assumes "decide_controller node ob = Inr d"
  shows "set (decision_targets d) \<subseteq> set (references node)"
proof (cases node)
  case (Join p q r k)
  with assms show ?thesis
    by (auto simp: decide_controller_def references_def dest: settlement_targets
        split: ControllerObservation.splits)
next
  case (Map i p b n m fp)
  with assms show ?thesis
    by (auto simp: decide_controller_def references_def dest: settlement_targets
        split: ControllerObservation.splits if_splits)
next
  case (ErrorBoundary b hs)
  with assms show ?thesis
    by (auto simp: decide_controller_def references_def rbind_eq_Inr ok_or_eq_Inr
        intro: rev_image_eqI dest!: map_of_SomeD split: ControllerObservation.splits option.splits if_splits)
qed (use assms in \<open>force simp: decide_controller_def references_def list_ex_iff
      dest: wait_targets leaf_targets split: ControllerObservation.splits if_splits\<close>)+

section \<open>Settlement\<close>

text \<open>A later observation of the same children: only active ones have changed.\<close>

definition later :: "ChildOutcome list \<Rightarrow> ChildOutcome list \<Rightarrow> bool" where
  "later cs cs' \<longleftrightarrow> list_all2 (\<lambda>c c'. c = Active \<or> c = c') cs cs'"

definition count :: "(ChildOutcome \<Rightarrow> bool) \<Rightarrow> ChildOutcome list \<Rightarrow> nat" where
  "count p cs = length (filter p cs)"

lemma later_counts:
  assumes "later cs cs'"
  shows "count is_success cs \<le> count is_success cs'"
    and "count is_success cs' + count (\<lambda>c. \<not> is_terminal c) cs' \<le> count is_success cs + count (\<lambda>c. \<not> is_terminal c) cs"
    and "(\<And>c. p c \<Longrightarrow> is_terminal c) \<Longrightarrow> count p cs \<le> count p cs'"
proof -
  from assms have l: "list_all2 (\<lambda>c c'. c = Active \<or> c = c') cs cs'" by (simp add: later_def)
  then show "count is_success cs \<le> count is_success cs'"
    by (induction rule: list_all2_induct) (auto simp: count_def is_success_def)
  from l show "count is_success cs' + count (\<lambda>c. \<not> is_terminal c) cs' \<le> count is_success cs + count (\<lambda>c. \<not> is_terminal c) cs"
    by (induction rule: list_all2_induct) (auto simp: count_def is_success_def is_terminal_def)
  from l show "(\<And>c. p c \<Longrightarrow> is_terminal c) \<Longrightarrow> count p cs \<le> count p cs'"
    by (induction rule: list_all2_induct) (auto simp: count_def is_terminal_def)
qed

lemma later_settled: "later cs cs' \<Longrightarrow> list_all is_terminal cs \<Longrightarrow> cs' = cs"
  unfolding later_def by (induction rule: list_all2_induct) (auto simp: is_terminal_def)

lemma later_Nil: "later cs cs' \<Longrightarrow> cs' = [] \<longleftrightarrow> cs = []"
  by (auto simp: later_def)

lemma later_some: "later cs cs' \<Longrightarrow> list_ex (\<lambda>c. is_terminal c \<and> p c) cs \<Longrightarrow> list_ex (\<lambda>c. is_terminal c \<and> p c) cs'"
  unfolding later_def by (induction rule: list_all2_induct) (auto simp: is_terminal_def)

lemma no_active: "length (filter (\<lambda>c. \<not> is_terminal c) cs) = 0 \<longleftrightarrow> list_all is_terminal cs"
  by (simp add: filter_empty_conv list_all_iff)

lemma join_is_final:
  assumes "decide_join policy quorum k cs = Inr d" and "d \<noteq> WaitForChildren" and "later cs cs'"
  shows "decide_join policy quorum k cs' = Inr d"
proof (cases "list_all is_terminal cs")
  case True
  with later_settled [OF assms(3)] assms(1) show ?thesis by simp
next
  case False
  note n = later_Nil [OF assms(3)]
  show ?thesis
  proof (cases policy)
    case AllSuccess
    with assms(1,2) False later_some [OF assms(3), of "\<lambda>c. \<not> is_success c"] n show ?thesis
      by (auto simp: decide_join_def Let_def simp flip: no_active split: if_splits)
  next
    case AllSettled
    with assms(1,2) False show ?thesis
      by (auto simp: decide_join_def Let_def simp flip: no_active split: if_splits)
  next
    case Quorum
    with assms(1,2) later_counts(1,2) [OF assms(3)] n show ?thesis
      by (auto simp: decide_join_def Let_def count_def rbind_eq_Inr split: if_splits)
  qed
qed

lemma map_settlement_is_final:
  assumes "decide_map_settlement policy k cs = Inr d" and "d \<noteq> WaitForChildren" and "later cs cs'"
  shows "decide_map_settlement policy k cs' = Inr d"
proof -
  have "count (\<lambda>c. c \<in> {ChildOutcome.Failed, ChildOutcome.Cancelled, ChildOutcome.TimedOut}) cs
      \<le> count (\<lambda>c. c \<in> {ChildOutcome.Failed, ChildOutcome.Cancelled, ChildOutcome.TimedOut}) cs'"
    by (rule later_counts(3) [OF assms(3)]) (auto simp: is_terminal_def)
  with assms(1,2) later_settled [OF assms(3)] later_Nil [OF assms(3)] show ?thesis
    by (cases "list_all is_terminal cs"; cases policy)
      (auto simp: decide_map_settlement_def Let_def count_def split: if_splits)
qed

text \<open>All active children succeed, or all fail.\<close>

definition settle :: "ChildOutcome \<Rightarrow> ChildOutcome list \<Rightarrow> ChildOutcome list" where
  "settle outcome cs = map (\<lambda>c. if c = Active then outcome else c) cs"

lemma later_settle: "later cs (settle outcome cs)"
  by (auto simp: later_def settle_def list_all2_conv_all_nth)

lemma settle_counts:
  "count is_success (settle ChildOutcome.Succeeded cs) = count is_success cs + count (\<lambda>c. \<not> is_terminal c) cs"
  "count is_success (settle ChildOutcome.Failed cs) = count is_success cs"
  "outcome \<noteq> Active \<Longrightarrow> count (\<lambda>c. \<not> is_terminal c) (settle outcome cs) = 0"
  by (induction cs) (auto simp: count_def settle_def is_success_def is_terminal_def filter_empty_conv)

section \<open>Evaluations\<close>

lemma run_expressions_observation:
  assumes "run_expressions env node values i limits = Inr (ob, outputs, results)"
  shows "\<exists>d. decide_controller node ob = Inr d"
proof -
  have arms: "run_arms env limits values otherwise as = Inr (selected, rs) \<Longrightarrow>
      list_ex (\<lambda>arm. ba_target arm = selected) as \<or> otherwise = selected" for otherwise as selected rs
    by (induction as arbitrary: rs) (auto simp: rbind_eq_Inr split: if_splits)
  from assms show ?thesis
    by (cases node; auto simp: run_expressions_def decide_controller_def rbind_eq_Inr not_less case_json_eq_Inr
        dest: arms split: if_splits)
qed

lemma run_assignments_outputs:
  "fold_result (run_assignment env limits) (values, outs) as = Inr (values', outs') \<Longrightarrow>
   map co_port outs' = map co_port outs @ map pa_output_port as"
  by (induction as arbitrary: "values" outs)
    (force simp: run_assignment_def rbind_eq_Inr)+

lemma derive_Inr:
  assumes "derive_expression_controller env node inputs nid ver i limits = Inr ev"
  obtains "values" committed required where
    "fold_result (commit_input env) (Map.empty, []) inputs = Inr (values, committed)"
    and "required_expression_inputs node = Inr required"
    and "run_expressions env node values i limits = Inr (ce_observation ev, ce_outputs ev, ce_evaluated_results ev)"
    and "ce_effective_classification ev = derive_expression_classification (map ci_classification committed)"
    and "traverse (input_evidence committed) required = Inr (oe_inputs (ce_evidence ev))"
    and "evaluation_validate env ev = Inr ()" and "oe_node_execution_id (ce_evidence ev) = nid"
  using assms
  by (auto simp: derive_expression_controller_def rbind_eq_Inr Let_def split: if_splits)

lemma committed_inputs: "fold_result (commit_input env) (values, acc) inputs = Inr (values', acc') \<Longrightarrow> acc' = acc @ inputs"
  by (induction inputs arbitrary: "values" acc) (fastforce simp: commit_input_def rbind_eq_Inr split: if_splits)+

lemma join_rank_foldl:
  "classification_rank (foldl classification_join c cs) \<le> r \<longleftrightarrow>
     classification_rank c \<le> r \<and> (\<forall>x \<in> set cs. classification_rank x \<le> r)"
  by (induction cs arbitrary: c) (auto simp: classification_rank_join)

lemma classification_bound:
  "cs \<noteq> [] \<Longrightarrow> classification_rank (derive_expression_classification cs) \<le> r \<longleftrightarrow>
     (\<forall>x \<in> set cs. classification_rank x \<le> r)"
  by (cases cs) (simp_all add: derive_expression_classification_def join_rank_foldl)

end
