(* ===== verification/ControllerRuns.thy ===== *)
theory ControllerRuns
  imports ControllerSafety
begin

text \<open>Properties of the controllers, with concrete nodes and children.\<close>

section \<open>Decisions\<close>

text \<open>Whatever a controller observes, the nodes its decision activates, prepares or resumes are
  nodes the plan holds: in a validated plan no decision on one of its nodes leaves the plan.\<close>

theorem decisions_stay_in_the_plan:
  assumes "plan_validate env p limits = Inr ()" and "(k, node) \<in> set (rp_nodes p)"
    and "decide_controller node ob = Inr d" and "t \<in> set (decision_targets d)"
  shows "\<exists>n. plan_node p t = Inr n \<and> validate_node env t n limits = Inr ()"
proof -
  have "set (references node) \<subseteq> dom (map_of (rp_nodes p))"
    using plan_validate_nodes(1) [OF assms(1)] assms(2) by (auto simp: closed_nodes_def)
  with controller_targets [OF assms(3)] assms(4) obtain n where "map_of (rp_nodes p) t = Some n" by blast
  with plan_validate_nodes(3) [OF assms(1)] show ?thesis by (auto simp: plan_node_def dest: map_of_SomeD)
qed

lemma decisions_stay_in_the_plan_witness:
  "\<exists>n. plan_node ex_plan ''b'' = Inr n \<and> validate_node ex_penv ''b'' n ex_limits = Inr ()"
  by (rule decisions_stay_in_the_plan [OF ex_plan_valid, of "''l''" "RuntimeNode.Loop ex_condition [ex_carried] ''b'' ''r'' 3"
        "ControllerObservation.Loop 1 True" "OpenLoopIteration ''b'' 1"])
    (simp_all add: ex_plan_def decide_controller_def word_less_nat_alt)

text \<open>A controller decision on a valid node fails in two ways only: the observation is not one
  the node accepts, or an error boundary has no handler for the failure.\<close>

theorem controllers_fail_in_two_ways:
  assumes "validate_node env k node limits = Inr ()" and "decide_controller node ob = Inl e"
  shows "e = ObservationMismatch
    \<or> (e = UnhandledFailure \<and> (\<exists>body handlers code. node = RuntimeNode.ErrorBoundary body handlers
         \<and> ob = ErrorBoundary (Some code) \<and> map_of handlers code = None))"
proof (cases node)
  case (Join policy quorum remainder next_node)
  with assms show ?thesis
    by (auto simp: decide_controller_def decide_join_def validate_node_def validate_join_def Let_def rbind_eq_Inl
        ok_or_eq_Inl split: ControllerObservation.splits if_splits JoinPolicy.splits option.splits)
next
  case (Map items item_port body next_node maximum policy)
  with assms(2) show ?thesis
    by (auto simp: decide_controller_def decide_map_settlement_def Let_def
        split: ControllerObservation.splits if_splits)
next
  case (ErrorBoundary body handlers)
  with assms(2) show ?thesis
    by (auto simp: decide_controller_def rbind_eq_Inl ok_or_eq_Inl
        split: ControllerObservation.splits option.splits)
qed (use assms(2) in \<open>auto simp: decide_controller_def decide_wait_def decide_leaf_def
      split: ControllerObservation.splits DurableWaitOutcome.splits if_splits\<close>)

lemma controllers_fail_in_two_ways_witness:
  "decide_controller (RuntimeNode.ErrorBoundary ''b'' [(''timeout'', ''h'')] :: string RuntimeNode)
     (ErrorBoundary (Some ''other'')) = Inl UnhandledFailure"
proof -
  define node :: "string RuntimeNode" where "node = RuntimeNode.ErrorBoundary ''b'' [(''timeout'', ''h'')]"
  have v: "validate_node ex_penv ''e'' node ex_limits = Inr ()" by (unfold node_def) code_simp
  obtain e where e: "decide_controller node (ErrorBoundary (Some ''other'')) = Inl e"
    by (simp add: node_def decide_controller_def)
  from controllers_fail_in_two_ways [OF v e] e show ?thesis
    by (auto simp: node_def decide_controller_def)
qed

section \<open>Settlement\<close>

text \<open>A join or a map that has decided has decided for good: however its remaining children end
  afterwards, the same policy takes the same decision.\<close>

theorem settlement_is_final:
  assumes "later children children'" and "d \<noteq> WaitForChildren"
  shows "(decide_join policy quorum k children = Inr d \<longrightarrow> decide_join policy quorum k children' = Inr d)
    \<and> (decide_map_settlement map_policy k children = Inr d \<longrightarrow>
        decide_map_settlement map_policy k children' = Inr d)"
  using join_is_final [OF _ assms(2,1)] map_settlement_is_final [OF _ assms(2,1)] by blast

lemma settlement_is_final_witness:
  "decide_join Quorum (Some 1) ''k'' [ChildOutcome.Succeeded, ChildOutcome.Failed] = Inr (CompleteNode [''k''])"
proof -
  have "decide_join Quorum (Some 1) ''k'' [ChildOutcome.Succeeded, Active] = Inr (CompleteNode [''k''])"
    by (simp add: decide_join_def is_success_def)
  moreover have "later [ChildOutcome.Succeeded, Active] [ChildOutcome.Succeeded, ChildOutcome.Failed]"
    by (simp add: later_def)
  ultimately show ?thesis using settlement_is_final [of _ _ "CompleteNode [''k'']"] by blast
qed

text \<open>A join that needs successes waits only while both endings are open: when it waits, the
  node completes if every active child succeeds and fails if every active child fails.  So it
  neither fails early nor stays blocked on children that no longer matter.\<close>

theorem a_waiting_join_is_undecided:
  assumes "decide_join policy quorum k children = Inr WaitForChildren" and "policy \<noteq> JoinPolicy.AllSettled"
  shows "decide_join policy quorum k (settle ChildOutcome.Succeeded children) = Inr (CompleteNode [k])
    \<and> (\<exists>code. decide_join policy quorum k (settle ChildOutcome.Failed children) = Inr (FailNode code))"
proof (cases policy)
  case AllSuccess
  with assms(1) have wait: "children \<noteq> []" "\<not> list_ex (\<lambda>c. is_terminal c \<and> \<not> is_success c) children"
    "\<not> list_all is_terminal children"
    by (auto simp: decide_join_def Let_def simp flip: no_active split: if_splits)
  from wait(2) have "\<not> list_ex (\<lambda>c. is_terminal c \<and> \<not> is_success c) (settle ChildOutcome.Succeeded children)"
    by (auto simp: list_ex_iff settle_def is_terminal_def is_success_def)
  moreover have "list_ex (\<lambda>c. is_terminal c \<and> \<not> is_success c) (settle ChildOutcome.Failed children)"
    using wait(3) by (force simp: list_ex_iff list_all_iff settle_def is_terminal_def is_success_def)
  moreover have "settle oc children \<noteq> []" for oc using wait(1) by (simp add: settle_def)
  ultimately show ?thesis
    using AllSuccess settle_counts(3) [of ChildOutcome.Succeeded children]
    by (simp add: decide_join_def count_def)
next
  case Quorum
  with assms(1) obtain q where q: "quorum = Some q" "children \<noteq> []"
    and wait: "count is_success children < unat q"
      "unat q \<le> count is_success children + count (\<lambda>c. \<not> is_terminal c) children"
    by (auto simp: decide_join_def Let_def rbind_eq_Inr count_def ok_or_eq_Inr split: if_splits)
  then have "settle oc children \<noteq> []" for oc by (simp add: settle_def)
  with q wait Quorum settle_counts(1,2) [of children] settle_counts(3) [of ChildOutcome.Failed children]
  show ?thesis by (simp add: decide_join_def Let_def flip: count_def)
qed (use assms(2) in simp)

lemma a_waiting_join_is_undecided_witness:
  "decide_join Quorum (Some 2) ''k'' [ChildOutcome.Succeeded, ChildOutcome.Succeeded] = Inr (CompleteNode [''k''])"
proof -
  have "decide_join Quorum (Some 2) ''k'' [ChildOutcome.Succeeded, Active] = Inr WaitForChildren"
    by (simp add: decide_join_def is_success_def is_terminal_def)
  from a_waiting_join_is_undecided [OF this] show ?thesis by (simp add: settle_def)
qed

section \<open>Evaluations\<close>

definition ex_node :: "string RuntimeNode" where
  "ex_node = RuntimeNode.Compute [ex_assignment] ''l''"

definition ex_input :: "string CommittedExpressionInput" where
  "ex_input = \<lparr>ci_run_value_id = ResourceId ResourceKind.RunValue 1, ci_port = ex_port,
     ci_classification = DataClassification.Confidential, ci_value = ex_number ex_zero ''1.5''\<rparr>"

definition ex_nid :: ResourceId where
  "ex_nid = ResourceId ResourceKind.NodeExecution 1"

definition ex_evaluation :: "string ControllerEvaluation" where
  "ex_evaluation = \<lparr>ce_observation = NoObservation,
     ce_outputs = [\<lparr>co_port = ex_body_port, co_value = ex_number ex_zero ''3''\<rparr>],
     ce_evaluated_results = [ex_number ex_zero ''3''], ce_effective_classification = DataClassification.Confidential,
     ce_evidence = \<lparr>oe_schema_version = 1, oe_node_execution_id = ex_nid, oe_node_execution_version = 1,
       oe_expression_digests = [ex_zero],
       oe_inputs = [\<lparr>ie_run_value_id = ResourceId ResourceKind.RunValue 1, ie_port = ex_port,
         ie_classification = DataClassification.Confidential,
         ie_content_digest = cj_canonical_digest (ex_number ex_zero ''1.5'')\<rparr>],
       oe_result_digest = ex_zero, oe_canonical_digest = ex_zero\<rparr>\<rparr>"

lemma ex_digests:
  "evaluation_result_digest ex_xenv ob outs rs c = Inr ex_zero"
  "controller_evidence_digest ex_xenv nid ver ds ins r = Inr ex_zero"
proof -
  have "document_digest ex_xenv e (Array xs) = document_digest ex_xenv e (json_object [])" for e xs
    by (simp add: document_digest_def canonical_digest_def canonical_json_def ex_xenv_def json_object_def)
  then show "evaluation_result_digest ex_xenv ob outs rs c = Inr ex_zero"
    by (simp add: evaluation_result_digest_def ex_digest ex_zero_def)
  show "controller_evidence_digest ex_xenv nid ver ds ins r = Inr ex_zero"
    by (simp add: controller_evidence_digest_def ex_digest ex_zero_def)
qed

lemma ex_values_validate:
  "closed_validate ex_xenv (ex_number ex_zero ''1.5'') = Inr ()" "closed_validate ex_xenv (ex_number ex_zero ''3'') = Inr ()"
  using ex_closed by blast+

lemma ex_program_evaluates:
  "evaluate ex_xenv ex_program [(ex_port, ex_number ex_zero ''1.5'')] ABSOLUTE = Inr (ex_number ex_zero ''3'')"
proof -
  let ?step = "evaluate_instruction ex_xenv [(ex_port, ex_number ex_zero ''1.5'')]"
  have "?step [] (LoadPort ex_port) = Inr [Number ''1.5'']"
    "?step [Number ''1.5''] (LoadPort ex_port) = Inr [Number ''1.5'', Number ''1.5'']"
    using ex_values_validate(1) by (simp_all add: evaluate_instruction_def ex_number_def ex_port_def port_schema_digest_def)
  moreover have "?step [Number ''1.5'', Number ''1.5''] DecimalAdd = Inr [Number ''3'']" by code_simp
  ultimately have "fold_result ?step [] (xp_instructions ex_program) = Inr [Number ''3'']"
    by (simp add: ex_program_def)
  moreover have "closed_build ex_xenv ex_zero (Number ''3'') = Inr (ex_number ex_zero ''3'')" using ex_closed by blast
  ultimately show ?thesis
    by (simp add: evaluate_def ex_program_validates pop_def) (simp add: ex_program_def)
qed

lemma ex_derive:
  "derive_expression_controller ex_xenv ex_node [ex_input] ex_nid 1 0 ABSOLUTE = Inr ex_evaluation"
proof -
  have ports: "xp_input_ports ex_program = [ex_port]" "xp_semantic_digest ex_program = ex_zero"
    by (simp_all add: ex_program_def ex_zero_def)
  have "evaluation_validate ex_xenv ex_evaluation = Inr ()"
    by (simp add: evaluation_validate_def evidence_validate_def ex_digests ex_evaluation_def ex_values_validate
        ex_nid_def)
      (simp add: ex_number_def ex_body_port_def port_schema_digest_def)
  then show ?thesis
    using ex_program_evaluates
    by (simp add: derive_expression_controller_def ex_nid_def ex_node_def ex_input_def commit_input_def
        ex_values_validate required_expression_inputs_def controller_programs_def ex_assignment_def ports
        generated_ports_def input_evidence_def run_expressions_def run_assignment_def
        evaluate_controller_program_def ex_digests derive_expression_classification_def)
      (simp add: ex_number_def ex_port_def ex_body_port_def port_schema_digest_def ex_evaluation_def ex_nid_def)
qed

text \<open>What the evaluation of a node's expressions observes, its controller can decide: the selected
  branch is one of the node's targets, a map has no more items than it may have, and so on.  An
  evaluated node is never left without a decision.\<close>

theorem derived_observations_are_decidable:
  assumes "derive_expression_controller env node inputs nid ver i limits = Inr ev"
  shows "\<exists>d. decide_controller node (ce_observation ev) = Inr d"
  using derive_Inr [OF assms] run_expressions_observation by metis

lemma derived_observations_are_decidable_witness:
  "decide_controller ex_node (ce_observation ex_evaluation) = Inr (CompleteNode [''l''])"
  using derived_observations_are_decidable [OF ex_derive]
  by (auto simp: ex_node_def ex_evaluation_def decide_controller_def)

text \<open>An evaluation is never classified below one of its inputs, and the inputs in its evidence are
  exactly the node's required ports.\<close>

theorem evaluations_never_declassify:
  assumes "derive_expression_controller env node inputs nid ver i limits = Inr ev" and "input \<in> set inputs"
  shows "classification_rank (ci_classification input) \<le> classification_rank (ce_effective_classification ev)
    \<and> required_expression_inputs node = Inr (map ie_port (oe_inputs (ce_evidence ev)))"
proof -
  from assms(1) obtain vs required where c: "fold_result (commit_input env) (Map.empty, []) inputs = Inr (vs, inputs)"
    and r: "required_expression_inputs node = Inr required"
    and e: "ce_effective_classification ev = derive_expression_classification (map ci_classification inputs)"
    and t: "traverse (input_evidence inputs) required = Inr (oe_inputs (ce_evidence ev))"
    by (rule derive_Inr) (auto dest: committed_inputs)
  have "map ie_port (oe_inputs (ce_evidence ev)) = required"
  proof (rule nth_equalityI)
    fix j assume "j < length (map ie_port (oe_inputs (ce_evidence ev)))"
    with t have "input_evidence inputs (required ! j) = Inr (oe_inputs (ce_evidence ev) ! j)"
      "j < length (oe_inputs (ce_evidence ev))" by (simp_all add: traverse_eq_Inr)
    then show "map ie_port (oe_inputs (ce_evidence ev)) ! j = required ! j"
      by (auto simp: input_evidence_def rbind_eq_Inr dest!: sym [of _ "oe_inputs (ce_evidence ev) ! j"])
  qed (use t in \<open>simp add: traverse_eq_Inr\<close>)
  moreover have "classification_rank (ci_classification input) \<le> classification_rank (ce_effective_classification ev)"
    using classification_bound [of "map ci_classification inputs"] assms(2) unfolding e by fastforce
  ultimately show ?thesis using r by simp
qed

lemma evaluations_never_declassify_witness:
  "classification_rank DataClassification.Confidential \<le> classification_rank (ce_effective_classification ex_evaluation)"
  using evaluations_never_declassify [OF ex_derive, of ex_input] by (simp add: ex_input_def)

text \<open>The outputs of an evaluated \<open>Compute\<close> node are exactly its ports, in the order of its
  assignments, each a valid closed value of its port's schema.\<close>

theorem compute_outputs_are_typed:
  assumes "derive_expression_controller env (RuntimeNode.Compute assignments k) inputs nid ver i limits = Inr ev"
  shows "map co_port (ce_outputs ev) = map pa_output_port assignments
    \<and> (\<forall>out. out \<in> set (ce_outputs ev) \<longrightarrow> closed_validate env (co_value out) = Inr ()
        \<and> cj_schema_digest (co_value out) = port_schema_digest (co_port out))"
proof -
  from assms obtain vs where run: "run_expressions env (RuntimeNode.Compute assignments k) vs i limits =
      Inr (ce_observation ev, ce_outputs ev, ce_evaluated_results ev)" and v: "evaluation_validate env ev = Inr ()"
    by (rule derive_Inr)
  from run have "map co_port (ce_outputs ev) = map pa_output_port assignments"
    by (auto simp: run_expressions_def rbind_eq_Inr dest!: run_assignments_outputs)
  with v show ?thesis
    by (auto simp: evaluation_validate_def rbind_eq_Inr list_ex_iff is_ok_iff split: if_splits)
qed

lemma compute_outputs_are_typed_witness: "map co_port (ce_outputs ex_evaluation) = [ex_body_port]"
  using compute_outputs_are_typed [OF ex_derive [unfolded ex_node_def]] by (simp add: ex_assignment_def)

end
