(* ===== verification/RunControl.thy ===== *)
theory RunControl
  imports ScopeEnvironment PlanRuns
begin

text \<open>
  Pausing, cancelling and timing out a run (\<open>platform-orchestrator/src/lib.rs\<close>): the control snapshot,
  its validation, the three decisions on it, and their step relation.
\<close>

section \<open>The control snapshot\<close>

record RunControlSnapshot =
  rc_pause_generation :: u64
  rc_pause_requested :: bool
  rc_cancel_generation :: u64
  rc_cancel_requested_at :: "instant option"
  rc_cancel_reason_code :: "string option"
  rc_cancel_principal :: "PrincipalSnapshot option"
  rc_timeout_generation :: u64
  rc_timeout_requested_at :: "instant option"
  rc_timeout_observed_run_state :: "string option"
  rc_timeout_observed_run_version :: "u64 option"

definition control_validate ::
  "('n, 'z) platform_env_scheme \<Rightarrow> RunControlSnapshot \<Rightarrow> OrchestratorError + unit" where
  "control_validate env c =
     fail_if
       (list_ex (\<lambda>present. present \<noteq> (rc_cancel_requested_at c \<noteq> None))
          [rc_cancel_reason_code c \<noteq> None, rc_cancel_principal c \<noteq> None]
        \<or> some_and (rc_cancel_reason_code c) (\<lambda>code. \<not> is_stable_code code)
        \<or> some_and (rc_cancel_principal c) (\<lambda>snapshot. \<not> is_ok (principal_snapshot_validate env snapshot))
        \<or> (rc_cancel_requested_at c \<noteq> None \<and> rc_cancel_generation c = 0)
        \<or> (rc_timeout_requested_at c \<noteq> None \<and> rc_timeout_generation c = 0)
        \<or> (rc_timeout_requested_at c \<noteq> None)
            \<noteq> (rc_timeout_observed_run_state c \<noteq> None \<and> rc_timeout_observed_run_version c \<noteq> None)
        \<or> some_and (rc_timeout_observed_run_state c) (\<lambda>state. \<not> is_stable_code state)
        \<or> rc_timeout_observed_run_version c = Some 0)
       InvalidRunControl"

datatype ControlDecision =
    Unchanged (decided: RunControlSnapshot)
  | Updated (decided: RunControlSnapshot)

definition decide_pause ::
  "('n, 'z) platform_env_scheme \<Rightarrow> RunControlSnapshot \<Rightarrow> u64 \<Rightarrow> bool \<Rightarrow> OrchestratorError + ControlDecision" where
  "decide_pause env current expected_generation requested =
     rbind (control_validate env current) (\<lambda>_.
     if expected_generation \<noteq> rc_pause_generation current then Inl StaleGeneration
     else if rc_pause_requested current = requested then Inr (Unchanged current)
     else
       rbind (ok_or OrchestratorError.CounterOverflow (checked_add (rc_pause_generation current) 1)) (\<lambda>generation.
       Inr (Updated (current\<lparr>rc_pause_generation := generation, rc_pause_requested := requested\<rparr>))))"

definition decide_cancel ::
  "('n, 'z) platform_env_scheme \<Rightarrow> RunControlSnapshot \<Rightarrow> u64 \<Rightarrow> instant \<Rightarrow> string \<Rightarrow> PrincipalSnapshot \<Rightarrow>
   OrchestratorError + ControlDecision" where
  "decide_cancel env current expected_generation database_observed_at reason_code requester =
     rbind (control_validate env current) (\<lambda>_.
     if expected_generation \<noteq> rc_cancel_generation current then Inl StaleGeneration
     else if rc_cancel_requested_at current \<noteq> None then
       (if rc_cancel_reason_code current = Some reason_code \<and> rc_cancel_principal current = Some requester
        then Inr (Unchanged current) else Inl ControlConflict)
     else if \<not> is_stable_code reason_code \<or> \<not> is_ok (principal_snapshot_validate env requester)
       then Inl InvalidRunControl
     else
       rbind (ok_or OrchestratorError.CounterOverflow (checked_add (rc_cancel_generation current) 1)) (\<lambda>generation.
       Inr (Updated (current\<lparr>rc_cancel_generation := generation,
         rc_cancel_requested_at := Some database_observed_at, rc_cancel_reason_code := Some reason_code,
         rc_cancel_principal := Some requester\<rparr>))))"

definition decide_timeout ::
  "('n, 'z) platform_env_scheme \<Rightarrow> RunControlSnapshot \<Rightarrow> u64 \<Rightarrow> instant \<Rightarrow> instant \<Rightarrow> string \<Rightarrow> u64 \<Rightarrow>
   OrchestratorError + ControlDecision" where
  "decide_timeout env current expected_generation database_observed_at deadline observed_run_state
     observed_run_version =
     rbind (control_validate env current) (\<lambda>_.
     if expected_generation \<noteq> rc_timeout_generation current then Inl StaleGeneration
     else if database_observed_at < deadline \<or> \<not> is_stable_code observed_run_state \<or> observed_run_version = 0
       then Inl InvalidTimeoutObservation
     else if rc_timeout_requested_at current \<noteq> None then
       (if rc_timeout_observed_run_state current = Some observed_run_state
           \<and> rc_timeout_observed_run_version current = Some observed_run_version
        then Inr (Unchanged current) else Inl ControlConflict)
     else
       rbind (ok_or OrchestratorError.CounterOverflow (checked_add (rc_timeout_generation current) 1)) (\<lambda>generation.
       Inr (Updated (current\<lparr>rc_timeout_generation := generation,
         rc_timeout_requested_at := Some database_observed_at,
         rc_timeout_observed_run_state := Some observed_run_state,
         rc_timeout_observed_run_version := Some observed_run_version\<rparr>))))"

section \<open>Histories\<close>

text \<open>An accepted decision by any caller at any time; what is persisted is the decided snapshot.\<close>

inductive control_step ::
  "('n, 'z) platform_env_scheme \<Rightarrow> RunControlSnapshot \<Rightarrow> RunControlSnapshot \<Rightarrow> bool" for env where
  pause: "decide_pause env c g requested = Inr d \<Longrightarrow> control_step env c (decided d)"
| cancel: "decide_cancel env c g now reason requester = Inr d \<Longrightarrow> control_step env c (decided d)"
| timeout: "decide_timeout env c g now deadline state version = Inr d \<Longrightarrow> control_step env c (decided d)"

inductive_cases control_stepE: "control_step env c c'"

abbreviation control_steps where "control_steps env \<equiv> (control_step env)\<^sup>*\<^sup>*"

text \<open>What a request that has been made consists of.\<close>

definition cancel_request :: "RunControlSnapshot \<Rightarrow> (instant option \<times> string option \<times> PrincipalSnapshot option)" where
  "cancel_request c = (rc_cancel_requested_at c, rc_cancel_reason_code c, rc_cancel_principal c)"

definition timeout_request :: "RunControlSnapshot \<Rightarrow> (instant option \<times> string option \<times> u64 option)" where
  "timeout_request c =
     (rc_timeout_requested_at c, rc_timeout_observed_run_state c, rc_timeout_observed_run_version c)"

lemmas decide_defs = decide_pause_def decide_cancel_def decide_timeout_def

lemma control_validate_Inr:
  "control_validate env c = Inr () \<longleftrightarrow>
     (rc_cancel_reason_code c = None \<longleftrightarrow> rc_cancel_requested_at c = None)
     \<and> (rc_cancel_principal c = None \<longleftrightarrow> rc_cancel_requested_at c = None)
     \<and> (\<forall>code. rc_cancel_reason_code c = Some code \<longrightarrow> is_stable_code code)
     \<and> (\<forall>p. rc_cancel_principal c = Some p \<longrightarrow> principal_snapshot_validate env p = Inr ())
     \<and> (rc_cancel_requested_at c \<noteq> None \<longrightarrow> rc_cancel_generation c \<noteq> 0)
     \<and> (rc_timeout_requested_at c \<noteq> None \<longrightarrow> rc_timeout_generation c \<noteq> 0)
     \<and> (rc_timeout_requested_at c \<noteq> None \<longleftrightarrow>
          rc_timeout_observed_run_state c \<noteq> None \<and> rc_timeout_observed_run_version c \<noteq> None)
     \<and> (\<forall>st. rc_timeout_observed_run_state c = Some st \<longrightarrow> is_stable_code st)
     \<and> rc_timeout_observed_run_version c \<noteq> Some 0"
  by (auto simp: control_validate_def fail_if_eq_Inr some_and_def is_ok_iff split: option.splits)

section \<open>One decision\<close>

text \<open>The two ways a decision is accepted: the command changes nothing, or it takes the next generation.\<close>

lemma pause_cases:
  assumes "decide_pause env c g requested = Inr d"
  obtains "control_validate env c = Inr ()" "g = rc_pause_generation c" "d = Unchanged c"
  | n where "control_validate env c = Inr ()" "g = rc_pause_generation c"
      "checked_add (rc_pause_generation c) 1 = Some n"
      "d = Updated (c\<lparr>rc_pause_generation := n, rc_pause_requested := requested\<rparr>)"
  using assms by (auto simp: decide_pause_def rbind_eq_Inr ok_or_eq_Inr split: if_splits)

lemma cancel_cases:
  assumes "decide_cancel env c g now reason requester = Inr d"
  obtains "control_validate env c = Inr ()" "g = rc_cancel_generation c" "d = Unchanged c"
  | n where "control_validate env c = Inr ()" "g = rc_cancel_generation c" "rc_cancel_requested_at c = None"
      "is_stable_code reason" "principal_snapshot_validate env requester = Inr ()"
      "checked_add (rc_cancel_generation c) 1 = Some n"
      "d = Updated (c\<lparr>rc_cancel_generation := n, rc_cancel_requested_at := Some now,
         rc_cancel_reason_code := Some reason, rc_cancel_principal := Some requester\<rparr>)"
  using assms by (auto simp: decide_cancel_def rbind_eq_Inr ok_or_eq_Inr is_ok_iff split: if_splits)

lemma timeout_cases:
  assumes "decide_timeout env c g now deadline state version = Inr d"
  obtains "control_validate env c = Inr ()" "g = rc_timeout_generation c" "d = Unchanged c"
  | n where "control_validate env c = Inr ()" "g = rc_timeout_generation c" "rc_timeout_requested_at c = None"
      "deadline \<le> now" "is_stable_code state" "version \<noteq> 0"
      "checked_add (rc_timeout_generation c) 1 = Some n"
      "d = Updated (c\<lparr>rc_timeout_generation := n, rc_timeout_requested_at := Some now,
         rc_timeout_observed_run_state := Some state, rc_timeout_observed_run_version := Some version\<rparr>)"
  using assms by (auto simp: decide_timeout_def rbind_eq_Inr ok_or_eq_Inr split: if_splits)

lemma generation_advances:
  "checked_add (g :: u64) 1 = Some n \<Longrightarrow> g < n \<and> n \<noteq> 0"
  using checked_add_one by fastforce

lemma pause_spends: "decide_pause env c g requested = Inr (Updated c') \<Longrightarrow> g < rc_pause_generation c'"
  by (erule pause_cases) (auto dest: generation_advances)

lemma cancel_spends:
  "decide_cancel env c g now reason requester = Inr (Updated c') \<Longrightarrow> g < rc_cancel_generation c'"
  by (erule cancel_cases) (auto dest: generation_advances)

lemma timeout_spends:
  "decide_timeout env c g now deadline state version = Inr (Updated c') \<Longrightarrow> g < rc_timeout_generation c'"
  by (erule timeout_cases) (auto dest: generation_advances)

section \<open>Invariants of every history\<close>

definition control_later :: "RunControlSnapshot \<Rightarrow> RunControlSnapshot \<Rightarrow> bool" where
  "control_later c c' \<longleftrightarrow>
     rc_pause_generation c \<le> rc_pause_generation c' \<and> rc_cancel_generation c \<le> rc_cancel_generation c'
     \<and> rc_timeout_generation c \<le> rc_timeout_generation c'
     \<and> (rc_cancel_requested_at c \<noteq> None \<longrightarrow> cancel_request c' = cancel_request c)
     \<and> (rc_timeout_requested_at c \<noteq> None \<longrightarrow> timeout_request c' = timeout_request c)"

lemma control_later_trans: "control_later a b \<Longrightarrow> control_later b c \<Longrightarrow> control_later a c"
  by (auto simp: control_later_def cancel_request_def timeout_request_def)

lemmas request_defs = control_later_def cancel_request_def timeout_request_def

lemma control_step_later:
  assumes "control_step env c c'"
  shows "control_validate env c' = Inr () \<and> control_later c c'"
  using assms
proof (cases rule: control_step.cases)
  case (pause g requested d)
  from pause(2) show ?thesis
    by (cases rule: pause_cases) (use pause(1) in
      \<open>auto simp: request_defs control_validate_Inr dest!: generation_advances intro: less_imp_le\<close>)
next
  case (cancel g now reason requester d)
  from cancel(2) show ?thesis
    by (cases rule: cancel_cases) (use cancel(1) in
      \<open>auto simp: request_defs control_validate_Inr dest!: generation_advances intro: less_imp_le\<close>)
next
  case (timeout g now deadline state version d)
  from timeout(2) show ?thesis
    by (cases rule: timeout_cases) (use timeout(1) in
      \<open>auto simp: request_defs control_validate_Inr dest!: generation_advances intro: less_imp_le\<close>)
qed

lemma control_steps_later:
  assumes "control_steps env c c'" and "control_validate env c = Inr ()"
  shows "control_validate env c' = Inr () \<and> control_later c c'"
  using assms
proof (induction rule: rtranclp_induct)
  case (step c1 c2)
  with control_step_later [OF step(2)] show ?case by (auto intro: control_later_trans)
qed (simp add: control_later_def)

lemma control_after_step:
  assumes "control_step env c c1" and "control_steps env c1 c2"
  shows "control_validate env c2 = Inr ()" and "control_later c1 c2"
  using control_steps_later [OF assms(2)] control_step_later [OF assms(1)] by simp_all

section \<open>A concrete history\<close>

definition ex_control :: RunControlSnapshot where
  "ex_control = \<lparr>rc_pause_generation = 0, rc_pause_requested = False, rc_cancel_generation = 0,
     rc_cancel_requested_at = None, rc_cancel_reason_code = None, rc_cancel_principal = None,
     rc_timeout_generation = 0, rc_timeout_requested_at = None, rc_timeout_observed_run_state = None,
     rc_timeout_observed_run_version = None\<rparr>"

definition ex_timed_out :: RunControlSnapshot where
  "ex_timed_out = ex_control\<lparr>rc_timeout_generation := 1, rc_timeout_requested_at := Some 5,
     rc_timeout_observed_run_state := Some ''running'', rc_timeout_observed_run_version := Some 3\<rparr>"

definition ex_paused :: RunControlSnapshot where
  "ex_paused = ex_timed_out\<lparr>rc_pause_generation := 1, rc_pause_requested := True\<rparr>"

lemma ex_running_stable: "is_stable_code ''running''"
  by (simp add: is_stable_code_def is_ascii_lowercase_def byte_of_def)

lemma ex_control_valid: "control_validate env ex_control = Inr ()" "control_validate env ex_timed_out = Inr ()"
  by (simp_all add: control_validate_Inr ex_control_def ex_timed_out_def ex_running_stable)

lemma ex_timeout: "decide_timeout env ex_control 0 5 4 ''running'' 3 = Inr (Updated ex_timed_out)"
  by (simp add: decide_timeout_def ex_control_valid ex_running_stable)
    (simp add: ex_control_def ex_timed_out_def checked_add_def)

lemma ex_pause: "decide_pause env ex_timed_out 0 True = Inr (Updated ex_paused)"
  by (simp add: decide_pause_def ex_control_valid)
    (simp add: ex_control_def ex_timed_out_def ex_paused_def checked_add_def)

lemma ex_control_history: "control_steps env ex_timed_out ex_paused"
  by (rule r_into_rtranclp) (metis control_step.pause ex_pause ControlDecision.sel(2))

section \<open>Properties\<close>

text \<open>C36: Whatever pauses, cancellations and timeouts are accepted, in any order and from any caller,
  the control snapshot stays valid, its three generations never decrease, and a cancellation or
  timeout that was requested keeps its first time, reason, requester and observation for ever.\<close>

theorem stop_requests_are_permanent:
  assumes "control_validate env c = Inr ()" and "control_steps env c c'"
  shows "control_validate env c' = Inr ()
    \<and> rc_pause_generation c \<le> rc_pause_generation c' \<and> rc_cancel_generation c \<le> rc_cancel_generation c'
    \<and> rc_timeout_generation c \<le> rc_timeout_generation c'
    \<and> (rc_cancel_requested_at c \<noteq> None \<longrightarrow> cancel_request c' = cancel_request c)
    \<and> (rc_timeout_requested_at c \<noteq> None \<longrightarrow> timeout_request c' = timeout_request c)"
  using control_steps_later [OF assms(2,1)] by (simp add: control_later_def)

lemma stop_requests_are_permanent_witness:
  "control_validate ex_penv ex_paused = Inr () \<and> timeout_request ex_paused = (Some 5, Some ''running'', Some 3)"
  using stop_requests_are_permanent [OF ex_control_valid(2) ex_control_history, of ex_penv]
  by (simp add: ex_timed_out_def timeout_request_def)

text \<open>A control generation is spent once. After a pause, a cancellation or a timeout has been
  accepted as an update, the same command, or any other with the same expected generation, is refused
  as stale at every later point of the history.\<close>

theorem control_generations_are_spent_once:
  assumes "control_steps env c1 c2"
  shows "(decide_pause env c g b = Inr (Updated c1) \<longrightarrow> decide_pause env c2 g b' = Inl StaleGeneration)
    \<and> (decide_cancel env c g now reason requester = Inr (Updated c1) \<longrightarrow>
        decide_cancel env c2 g now' reason' requester' = Inl StaleGeneration)
    \<and> (decide_timeout env c g now deadline state version = Inr (Updated c1) \<longrightarrow>
        decide_timeout env c2 g now' deadline' state' version' = Inl StaleGeneration)"
proof (intro conjI impI)
  assume d: "decide_pause env c g b = Inr (Updated c1)"
  note later = control_after_step [OF control_step.pause [OF d], simplified, OF assms]
  from pause_spends [OF d] later(2) have "g < rc_pause_generation c2"
    by (auto simp: control_later_def)
  with later(1) show "decide_pause env c2 g b' = Inl StaleGeneration" by (auto simp: decide_pause_def)
next
  assume d: "decide_cancel env c g now reason requester = Inr (Updated c1)"
  note later = control_after_step [OF control_step.cancel [OF d], simplified, OF assms]
  from cancel_spends [OF d] later(2) have "g < rc_cancel_generation c2"
    by (auto simp: control_later_def)
  with later(1) show "decide_cancel env c2 g now' reason' requester' = Inl StaleGeneration"
    by (auto simp: decide_cancel_def)
next
  assume d: "decide_timeout env c g now deadline state version = Inr (Updated c1)"
  note later = control_after_step [OF control_step.timeout [OF d], simplified, OF assms]
  from timeout_spends [OF d] later(2) have "g < rc_timeout_generation c2"
    by (auto simp: control_later_def)
  with later(1) show "decide_timeout env c2 g now' deadline' state' version' = Inl StaleGeneration"
    by (auto simp: decide_timeout_def)
qed

lemma control_generations_are_spent_once_witness:
  "decide_timeout ex_penv ex_paused 0 9 4 ''running'' 8 = Inl StaleGeneration"
  using control_generations_are_spent_once [OF ex_control_history, of ex_penv] ex_timeout by blast

end
