(* ===== verification/ChildRuns.thy ===== *)
theory ChildRuns
  imports RunControl Jobs
begin

text \<open>
  Delegating work to child runs (\<open>platform-orchestrator/src/lib.rs\<close>, \<open>child_budget.rs\<close>): the
  ancestry of a run, the budget a parent hands down, the preparation of a child and the life of the
  link between parent and child.
\<close>

section \<open>Ancestry\<close>

record RunAncestrySnapshot =
  an_root_run_id :: ResourceId
  an_parent_run_id :: "ResourceId option"
  an_parent_node_execution_id :: "ResourceId option"
  an_parent_child_link_id :: "ResourceId option"
  an_depth :: u16
  an_deployments :: "ResourceId list"

definition ancestry_root :: "ResourceId \<Rightarrow> ResourceId \<Rightarrow> RunAncestrySnapshot" where
  "ancestry_root run_id agent_deployment_id =
     \<lparr>an_root_run_id = run_id, an_parent_run_id = None, an_parent_node_execution_id = None,
      an_parent_child_link_id = None, an_depth = 0, an_deployments = [agent_deployment_id]\<rparr>"

text \<open>Sorting and deduplicating keeps the length exactly when the list has no duplicates.\<close>

definition ancestry_validate :: "RunAncestrySnapshot \<Rightarrow> ResourceId \<Rightarrow> OrchestratorError + unit" where
  "ancestry_validate a run_id =
     (let parent_fields = [an_parent_run_id a \<noteq> None, an_parent_node_execution_id a \<noteq> None,
            an_parent_child_link_id a \<noteq> None]
      in if rid_kind (an_root_run_id a) \<noteq> ResourceKind.Run
           \<or> some_and (an_parent_run_id a) (\<lambda>i. rid_kind i \<noteq> ResourceKind.Run)
           \<or> some_and (an_parent_node_execution_id a) (\<lambda>i. rid_kind i \<noteq> ResourceKind.NodeExecution)
           \<or> some_and (an_parent_child_link_id a) (\<lambda>i. rid_kind i \<noteq> ResourceKind.ChildRunLink)
           \<or> list_ex (\<lambda>present. present \<noteq> (0 < an_depth a)) parent_fields
           \<or> (an_depth a = 0 \<and> an_root_run_id a \<noteq> run_id)
           \<or> an_deployments a = []
           \<or> 32 < length (an_deployments a)
           \<or> list_ex (\<lambda>i. rid_kind i \<noteq> ResourceKind.AgentDeployment) (an_deployments a)
         then Inl InvalidRunAdmission
         else if \<not> distinct (an_deployments a) then Inl InvalidRunAdmission
         else Inr ())"

section \<open>Budgets\<close>

record ChildBudget =
  bu_deadline :: instant
  bu_maximum_model_tokens :: u64
  bu_maximum_capability_calls :: u32
  bu_maximum_artifact_bytes :: u64
  bu_maximum_descendant_runs :: u32

definition child_budget_validate :: "ChildBudget \<Rightarrow> OrchestratorError + unit" where
  "child_budget_validate b =
     fail_if (bu_maximum_model_tokens b = 0 \<or> bu_maximum_capability_calls b = 0
       \<or> bu_maximum_artifact_bytes b = 0) InvalidChildBudget"

text \<open>\<open>Duration::try_milliseconds\<close> of the chrono crate takes every non-negative \<open>i64\<close>; the
  duration is in nanoseconds here.\<close>

definition child_duration :: "ChildBudgetLimit \<Rightarrow> OrchestratorError + int" where
  "child_duration limit =
     (if 2 ^ 63 \<le> unat (cb_maximum_duration_milliseconds limit) then Inl InvalidChildBudget
      else Inr (int (unat (cb_maximum_duration_milliseconds limit)) * 1000000))"

definition validate_child_budget_limit :: "ChildBudgetLimit \<Rightarrow> OrchestratorError + unit" where
  "validate_child_budget_limit limit =
     (if cb_maximum_duration_milliseconds limit = 0 \<or> cb_maximum_model_tokens limit = 0
        \<or> cb_maximum_capability_calls limit = 0 \<or> cb_maximum_artifact_bytes limit = 0
        \<or> cb_maximum_descendant_runs limit = 0
      then Inl InvalidChildBudget
      else rbind (child_duration limit) (\<lambda>_. Inr ()))"

definition derive_child_budget ::
  "chrono_add \<Rightarrow> ChildBudgetLimit \<Rightarrow> instant \<Rightarrow> instant \<Rightarrow> OrchestratorError + ChildBudget" where
  "derive_child_budget add limit admitted_at inherited_deadline =
     rbind (validate_child_budget_limit limit) (\<lambda>_.
     if inherited_deadline \<le> admitted_at then Inl InvalidChildBudget
     else
       rbind (child_duration limit) (\<lambda>duration.
       rbind (ok_or InvalidChildBudget (add admitted_at duration)) (\<lambda>deadline.
       Inr \<lparr>bu_deadline = min deadline inherited_deadline,
            bu_maximum_model_tokens = cb_maximum_model_tokens limit,
            bu_maximum_capability_calls = cb_maximum_capability_calls limit,
            bu_maximum_artifact_bytes = cb_maximum_artifact_bytes limit,
            bu_maximum_descendant_runs = cb_maximum_descendant_runs limit\<rparr>)))"

section \<open>Preparing a child\<close>

record PrepareChildRun =
  pc_parent_run_id :: ResourceId
  pc_parent_node_execution_id :: ResourceId
  pc_child_link_id :: ResourceId
  pc_child_run_id :: ResourceId
  pc_child_agent_deployment :: ExactDeploymentRef
  pc_parent_ancestry :: RunAncestrySnapshot
  pc_parent_deadline :: instant
  pc_parent_delegated_budget :: "ChildBudget option"
  pc_parent_delegated_descendant_count :: u32
  pc_parent_descendant_count :: u32
  pc_maximum_depth :: u16
  pc_maximum_descendants :: u32
  pc_budget :: ChildBudget

text \<open>The check of the child's budget against the one the parent was given itself.\<close>

definition check_delegated_budget :: "PrepareChildRun \<Rightarrow> OrchestratorError + unit" where
  "check_delegated_budget c =
     (case pc_parent_delegated_budget c of
        Some parent_budget \<Rightarrow>
          rbind (child_budget_validate parent_budget) (\<lambda>_.
          fail_if
            (bu_deadline parent_budget < bu_deadline (pc_budget c)
             \<or> bu_maximum_model_tokens parent_budget < bu_maximum_model_tokens (pc_budget c)
             \<or> bu_maximum_capability_calls parent_budget < bu_maximum_capability_calls (pc_budget c)
             \<or> bu_maximum_artifact_bytes parent_budget < bu_maximum_artifact_bytes (pc_budget c)
             \<or> bu_maximum_descendant_runs parent_budget < bu_maximum_descendant_runs (pc_budget c)
             \<or> bu_maximum_descendant_runs parent_budget \<le> pc_parent_delegated_descendant_count c
             \<or> saturating_sub (bu_maximum_descendant_runs parent_budget)
                  (saturating_add (pc_parent_delegated_descendant_count c) 1)
                < bu_maximum_descendant_runs (pc_budget c))
            InvalidChildBudget)
      | None \<Rightarrow> fail_if (pc_parent_delegated_descendant_count c \<noteq> 0) InvalidChildBudget)"

text \<open>The addition of the descendant count comes after the test that it is below a maximum, so it
  does not overflow.\<close>

definition prepare_child_run :: "PrepareChildRun \<Rightarrow> OrchestratorError + RunAncestrySnapshot" where
  "prepare_child_run c =
     rbind (child_budget_validate (pc_budget c)) (\<lambda>_.
     rbind (check_delegated_budget c) (\<lambda>_.
     rbind (ancestry_validate (pc_parent_ancestry c) (pc_parent_run_id c)) (\<lambda>_.
     rbind (map_err InvalidChildRun (exact_deployment_validate (pc_child_agent_deployment c))) (\<lambda>_.
     if rid_kind (pc_parent_node_execution_id c) \<noteq> ResourceKind.NodeExecution
        \<or> rid_kind (pc_child_link_id c) \<noteq> ResourceKind.ChildRunLink
        \<or> rid_kind (pc_child_run_id c) \<noteq> ResourceKind.Run
        \<or> xd_resource_kind (pc_child_agent_deployment c) \<noteq> ResourceKind.AgentDeployment
        \<or> pc_maximum_depth c = 0
        \<or> 32 < pc_maximum_depth c
        \<or> pc_maximum_descendants c = 0
        \<or> pc_parent_deadline c < bu_deadline (pc_budget c)
        \<or> pc_maximum_descendants c \<le> pc_parent_descendant_count c
        \<or> saturating_sub (pc_maximum_descendants c) (pc_parent_descendant_count c + 1)
           < bu_maximum_descendant_runs (pc_budget c)
     then Inl InvalidChildRun
     else
       rbind (ok_or InvalidChildRun (checked_add (an_depth (pc_parent_ancestry c)) 1)) (\<lambda>depth.
       if pc_maximum_depth c < depth then Inl ChildDepthExceeded
       else
         let deployments = an_deployments (pc_parent_ancestry c);
             child_deployment = xd_deployment_id (pc_child_agent_deployment c)
         in if child_deployment \<in> set deployments then Inl ChildCycle
            else
              let ancestry = \<lparr>an_root_run_id = an_root_run_id (pc_parent_ancestry c),
                    an_parent_run_id = Some (pc_parent_run_id c),
                    an_parent_node_execution_id = Some (pc_parent_node_execution_id c),
                    an_parent_child_link_id = Some (pc_child_link_id c),
                    an_depth = depth, an_deployments = deployments @ [child_deployment]\<rparr>
              in rbind (ancestry_validate ancestry (pc_child_run_id c)) (\<lambda>_. Inr ancestry))))))"

section \<open>Child links\<close>

datatype (plugins only: code) ChildLinkState =
  Running | Waiting | Cancelling | Succeeded | Failed | Cancelled | TimedOut

primrec link_state_str :: "ChildLinkState \<Rightarrow> string" where
  "link_state_str ChildLinkState.Running = ''running''"
| "link_state_str ChildLinkState.Waiting = ''waiting''"
| "link_state_str ChildLinkState.Cancelling = ''cancelling''"
| "link_state_str ChildLinkState.Succeeded = ''succeeded''"
| "link_state_str ChildLinkState.Failed = ''failed''"
| "link_state_str ChildLinkState.Cancelled = ''cancelled''"
| "link_state_str ChildLinkState.TimedOut = ''timed_out''"

definition link_state_from_str :: "string \<Rightarrow> OrchestratorError + ChildLinkState" where
  "link_state_from_str v =
     (if v = ''running'' then Inr ChildLinkState.Running
      else if v = ''waiting'' then Inr ChildLinkState.Waiting
      else if v = ''cancelling'' then Inr ChildLinkState.Cancelling
      else if v = ''succeeded'' then Inr ChildLinkState.Succeeded
      else if v = ''failed'' then Inr ChildLinkState.Failed
      else if v = ''cancelled'' then Inr ChildLinkState.Cancelled
      else if v = ''timed_out'' then Inr ChildLinkState.TimedOut
      else Inl InvalidChildRun)"

definition link_is_terminal :: "ChildLinkState \<Rightarrow> bool" where
  "link_is_terminal s \<longleftrightarrow>
     s \<in> {ChildLinkState.Succeeded, ChildLinkState.Failed, ChildLinkState.Cancelled, ChildLinkState.TimedOut}"

definition link_can_transition_to :: "ChildLinkState \<Rightarrow> ChildLinkState \<Rightarrow> bool" where
  "link_can_transition_to s target \<longleftrightarrow>
     (case s of
        ChildLinkState.Running \<Rightarrow> target \<in> {ChildLinkState.Waiting, ChildLinkState.Cancelling,
          ChildLinkState.Succeeded, ChildLinkState.Failed, ChildLinkState.Cancelled, ChildLinkState.TimedOut}
      | ChildLinkState.Waiting \<Rightarrow> target \<in> {ChildLinkState.Running, ChildLinkState.Cancelling,
          ChildLinkState.Succeeded, ChildLinkState.Failed, ChildLinkState.Cancelled, ChildLinkState.TimedOut}
      | ChildLinkState.Cancelling \<Rightarrow> target \<in> {ChildLinkState.Succeeded, ChildLinkState.Failed,
          ChildLinkState.Cancelled, ChildLinkState.TimedOut}
      | _ \<Rightarrow> False)"

record ChildRunLinkPayload =
  lp_parent_attempt_ordinal :: u16
  lp_child_agent_deployment :: ExactDeploymentRef
  lp_input_digest :: Sha256Digest
  lp_cancellation_policy :: ChildCancellationPolicy
  lp_budget :: ChildBudget

definition link_payload_validate :: "ChildRunLinkPayload \<Rightarrow> OrchestratorError + unit" where
  "link_payload_validate p =
     rbind (map_err InvalidChildRun (exact_deployment_validate (lp_child_agent_deployment p))) (\<lambda>_.
     rbind (child_budget_validate (lp_budget p)) (\<lambda>_.
     fail_if (lp_parent_attempt_ordinal p = 0
       \<or> xd_resource_kind (lp_child_agent_deployment p) \<noteq> ResourceKind.AgentDeployment) InvalidChildRun))"

record ChildRunLinkProjection =
  cl_tenant_id :: ResourceId
  cl_child_link_id :: ResourceId
  cl_parent_run_id :: ResourceId
  cl_parent_node_execution_id :: ResourceId
  cl_child_run_id :: ResourceId
  cl_state :: ChildLinkState
  cl_generation :: u64
  cl_version :: u64
  cl_payload :: ChildRunLinkPayload
  cl_deadline :: instant
  cl_terminal_at :: "instant option"

definition link_validate :: "ChildRunLinkProjection \<Rightarrow> OrchestratorError + unit" where
  "link_validate c =
     rbind (link_payload_validate (cl_payload c)) (\<lambda>_.
     fail_if
       (rid_kind (cl_tenant_id c) \<noteq> ResourceKind.Tenant
        \<or> rid_kind (cl_child_link_id c) \<noteq> ResourceKind.ChildRunLink
        \<or> rid_kind (cl_parent_run_id c) \<noteq> ResourceKind.Run
        \<or> rid_kind (cl_parent_node_execution_id c) \<noteq> ResourceKind.NodeExecution
        \<or> rid_kind (cl_child_run_id c) \<noteq> ResourceKind.Run
        \<or> cl_generation c = 0
        \<or> cl_version c = 0
        \<or> cl_deadline c \<noteq> bu_deadline (lp_budget (cl_payload c))
        \<or> link_is_terminal (cl_state c) \<noteq> (cl_terminal_at c \<noteq> None))
       InvalidChildRun)"

definition decide_child_link_cancel ::
  "ChildRunLinkProjection \<Rightarrow> u64 \<Rightarrow> u64 \<Rightarrow> OrchestratorError + ChildRunLinkProjection" where
  "decide_child_link_cancel current expected_generation expected_version =
     rbind (link_validate current) (\<lambda>_.
     if cl_generation current \<noteq> expected_generation \<or> cl_version current \<noteq> expected_version
     then Inl StaleGeneration
     else if cl_state current = ChildLinkState.Cancelling then Inr current
     else if \<not> link_can_transition_to (cl_state current) ChildLinkState.Cancelling
     then Inl ChildFirstWinnerLost
     else
       rbind (ok_or OrchestratorError.CounterOverflow (checked_add (cl_version current) 1)) (\<lambda>version.
       let next = current\<lparr>cl_state := ChildLinkState.Cancelling, cl_version := version\<rparr>
       in rbind (link_validate next) (\<lambda>_. Inr next)))"

definition link_target :: "RunState \<Rightarrow> ChildLinkState option" where
  "link_target s =
     (case s of
        RunState.Succeeded \<Rightarrow> Some ChildLinkState.Succeeded
      | RunState.Failed \<Rightarrow> Some ChildLinkState.Failed
      | RunState.Cancelled \<Rightarrow> Some ChildLinkState.Cancelled
      | RunState.TimedOut \<Rightarrow> Some ChildLinkState.TimedOut
      | _ \<Rightarrow> None)"

definition decide_child_link_terminal ::
  "ChildRunLinkProjection \<Rightarrow> u64 \<Rightarrow> u64 \<Rightarrow> RunState \<Rightarrow> instant \<Rightarrow>
   OrchestratorError + ChildRunLinkProjection" where
  "decide_child_link_terminal current expected_generation expected_version child_run_state database_now =
     rbind (link_validate current) (\<lambda>_.
     if cl_generation current \<noteq> expected_generation \<or> cl_version current \<noteq> expected_version
        \<or> link_is_terminal (cl_state current)
     then Inl ChildFirstWinnerLost
     else
       rbind (ok_or InvalidChildRun (link_target child_run_state)) (\<lambda>target.
       if \<not> link_can_transition_to (cl_state current) target then Inl ChildFirstWinnerLost
       else
         rbind (ok_or OrchestratorError.CounterOverflow (checked_add (cl_version current) 1)) (\<lambda>version.
         let next = current\<lparr>cl_state := target, cl_version := version, cl_terminal_at := Some database_now\<rparr>
         in rbind (link_validate next) (\<lambda>_. Inr next))))"

section \<open>The current snapshot of a run\<close>

record RunCurrentSnapshot =
  cu_schema_version :: u32
  cu_control :: RunControlSnapshot
  cu_ancestry :: RunAncestrySnapshot
  cu_input_value_id :: ResourceId
  cu_output_value_id :: "ResourceId option"
  cu_failure :: "Failure option"
  cu_waiting_reason :: "string option"

definition current_initial :: "ResourceId \<Rightarrow> ResourceId \<Rightarrow> ResourceId \<Rightarrow> RunCurrentSnapshot" where
  "current_initial run_id agent_deployment_id input_value_id =
     \<lparr>cu_schema_version = 1,
      cu_control = \<lparr>rc_pause_generation = 0, rc_pause_requested = False, rc_cancel_generation = 0,
        rc_cancel_requested_at = None, rc_cancel_reason_code = None, rc_cancel_principal = None,
        rc_timeout_generation = 0, rc_timeout_requested_at = None, rc_timeout_observed_run_state = None,
        rc_timeout_observed_run_version = None\<rparr>,
      cu_ancestry = ancestry_root run_id agent_deployment_id,
      cu_input_value_id = input_value_id, cu_output_value_id = None, cu_failure = None,
      cu_waiting_reason = None\<rparr>"

definition current_validate ::
  "('n, 'z) platform_env_scheme \<Rightarrow> RunCurrentSnapshot \<Rightarrow> ResourceId \<Rightarrow> OrchestratorError + unit" where
  "current_validate env c run_id =
     rbind (control_validate env (cu_control c)) (\<lambda>_.
     rbind (ancestry_validate (cu_ancestry c) run_id) (\<lambda>_.
     fail_if
       (cu_schema_version c \<noteq> 1
        \<or> rid_kind (cu_input_value_id c) \<noteq> ResourceKind.RunValue
        \<or> some_and (cu_output_value_id c) (\<lambda>i. rid_kind i \<noteq> ResourceKind.RunValue)
        \<or> some_and (cu_failure c) (\<lambda>failure. \<not> is_ok (failure_validate failure 1024))
        \<or> some_and (cu_waiting_reason c) (\<lambda>reason. \<not> is_stable_code reason))
       InvalidRunAdmission))"

end
