(* ===== verification/ChildLinks.thy ===== *)
theory ChildLinks
  imports ChildRuns Versioned
begin

text \<open>
  What holds of every chain of delegations and of every history of a child link: the lemmas about one
  accepted command, the step relations, and their properties.
\<close>

section \<open>One delegation\<close>

text \<open>A run together with its ancestry and the budget it was given; a delegation is an accepted
  preparation of a child by that run.\<close>

type_synonym delegate = "ResourceId \<times> RunAncestrySnapshot \<times> ChildBudget option"

inductive delegates :: "delegate \<Rightarrow> delegate \<Rightarrow> bool" where
  prepare: "prepare_child_run c = Inr ancestry \<Longrightarrow>
    delegates (pc_parent_run_id c, pc_parent_ancestry c, pc_parent_delegated_budget c)
      (pc_child_run_id c, ancestry, Some (pc_budget c))"

inductive_cases delegatesE: "delegates x y"

lemma ancestry_validate_Inr:
  "ancestry_validate a run_id = Inr () \<longleftrightarrow>
     rid_kind (an_root_run_id a) = ResourceKind.Run
     \<and> (\<forall>i. an_parent_run_id a = Some i \<longrightarrow> rid_kind i = ResourceKind.Run)
     \<and> (\<forall>i. an_parent_node_execution_id a = Some i \<longrightarrow> rid_kind i = ResourceKind.NodeExecution)
     \<and> (\<forall>i. an_parent_child_link_id a = Some i \<longrightarrow> rid_kind i = ResourceKind.ChildRunLink)
     \<and> (an_parent_run_id a = None \<longleftrightarrow> an_depth a = 0)
     \<and> (an_parent_node_execution_id a = None \<longleftrightarrow> an_depth a = 0)
     \<and> (an_parent_child_link_id a = None \<longleftrightarrow> an_depth a = 0)
     \<and> (an_depth a = 0 \<longrightarrow> an_root_run_id a = run_id)
     \<and> an_deployments a \<noteq> [] \<and> length (an_deployments a) \<le> 32
     \<and> (\<forall>i \<in> set (an_deployments a). rid_kind i = ResourceKind.AgentDeployment)
     \<and> distinct (an_deployments a)"
  by (cases "an_depth a = 0"; cases "an_parent_run_id a"; cases "an_parent_node_execution_id a";
      cases "an_parent_child_link_id a"; simp add: ancestry_validate_def list_ex_iff word_neq_0_conv;
      auto simp: not_less word_neq_0_conv)

lemma prepare_Inr:
  assumes "prepare_child_run c = Inr a"
  shows "ancestry_validate (pc_parent_ancestry c) (pc_parent_run_id c) = Inr ()"
    and "ancestry_validate a (pc_child_run_id c) = Inr ()"
    and "unat (an_depth a) = Suc (unat (an_depth (pc_parent_ancestry c)))"
    and "an_depth a \<le> pc_maximum_depth c"
    and "an_deployments a =
      an_deployments (pc_parent_ancestry c) @ [xd_deployment_id (pc_child_agent_deployment c)]"
    and "an_root_run_id a = an_root_run_id (pc_parent_ancestry c)"
    and "bu_deadline (pc_budget c) \<le> pc_parent_deadline c"
    and "check_delegated_budget c = Inr ()"
  using assms
  by (auto simp: prepare_child_run_def rbind_eq_Inr ok_or_eq_Inr map_err_eq_Inr Let_def
      dest: checked_add_one(4) split: if_splits)




text \<open>A chain extends the deployments by as many new ones as it has links.\<close>

lemma delegation_chain:
  assumes "(delegates ^^ n) (run, a, b) (run', a', b')" and "0 < n"
  shows "ancestry_validate a run = Inr () \<and> ancestry_validate a' run' = Inr ()
    \<and> unat (an_depth a') = unat (an_depth a) + n
    \<and> (\<exists>ds. an_deployments a' = an_deployments a @ ds \<and> length ds = n)
    \<and> an_root_run_id a' = an_root_run_id a"
  using assms
proof (induction n arbitrary: run' a' b')
  case (Suc n)
  then obtain r1 a1 b1 where chain: "(delegates ^^ n) (run, a, b) (r1, a1, b1)"
    and step: "delegates (r1, a1, b1) (run', a', b')" by auto
  from step obtain c where c: "prepare_child_run c = Inr a'" "r1 = pc_parent_run_id c"
    "a1 = pc_parent_ancestry c" "run' = pc_child_run_id c" by (auto elim!: delegatesE)
  note p = prepare_Inr [OF c(1), folded c(2-4)]
  show ?case
  proof (cases n)
    case 0
    with chain p show ?thesis by auto
  next
    case (Suc m)
    with Suc.IH [OF chain] p show ?thesis by auto
  qed
qed simp


section \<open>Histories of a link\<close>

inductive link_step :: "ChildRunLinkProjection \<Rightarrow> ChildRunLinkProjection \<Rightarrow> bool" where
  cancel: "decide_child_link_cancel c g v = Inr c' \<Longrightarrow> link_step c c'"
| terminal: "decide_child_link_terminal c g v s now = Inr c' \<Longrightarrow> link_step c c'"

inductive_cases link_stepE: "link_step c c'"

abbreviation link_steps where "link_steps \<equiv> link_step\<^sup>*\<^sup>*"

text \<open>The closed state machine that \<open>platform-contracts/src/state.rs\<close> publishes for links.\<close>

primrec published_link_state :: "ChildLinkState \<Rightarrow> States.ChildLinkState" where
  "published_link_state ChildLinkState.Running = States.ChildLinkState.Running"
| "published_link_state ChildLinkState.Waiting = States.ChildLinkState.Waiting"
| "published_link_state ChildLinkState.Cancelling = States.ChildLinkState.Cancelling"
| "published_link_state ChildLinkState.Succeeded = States.ChildLinkState.Succeeded"
| "published_link_state ChildLinkState.Failed = States.ChildLinkState.Failed"
| "published_link_state ChildLinkState.Cancelled = States.ChildLinkState.Cancelled"
| "published_link_state ChildLinkState.TimedOut = States.ChildLinkState.TimedOut"

lemma link_table_is_published:
  "link_can_transition_to s t \<longleftrightarrow>
     child_link_state_can_transition_to (published_link_state s) (published_link_state t)"
  by (cases s; cases t; simp add: link_can_transition_to_def child_link_state_can_transition_to_def)

lemma link_terminal_final: "link_is_terminal s \<Longrightarrow> \<not> link_can_transition_to s t"
  by (cases s) (simp_all add: link_is_terminal_def link_can_transition_to_def)

lemma link_target_terminal: "link_target s = Some t \<Longrightarrow> link_is_terminal t"
  by (auto simp: link_target_def link_is_terminal_def split: RunState.splits)

text \<open>What identifies a link: everything but its state, its version and the time it ended.\<close>

definition same_link :: "ChildRunLinkProjection \<Rightarrow> ChildRunLinkProjection \<Rightarrow> bool" where
  "same_link c c' \<longleftrightarrow>
     c' = c\<lparr>cl_state := cl_state c', cl_version := cl_version c', cl_terminal_at := cl_terminal_at c'\<rparr>"

lemma same_link_refl: "same_link c c"
  by (simp add: same_link_def)

lemma same_link_trans: "same_link a b \<Longrightarrow> same_link b c \<Longrightarrow> same_link a c"
  by (cases a; cases b; cases c; simp add: same_link_def)

lemma link_step_Inr:
  assumes "link_step c c'"
  shows "link_validate c = Inr ()" and "link_validate c' = Inr ()" and "same_link c c'"
    and "c' \<noteq> c \<Longrightarrow> cl_version c < cl_version c' \<and> link_can_transition_to (cl_state c) (cl_state c')"
  using assms
  by (auto elim!: link_stepE simp: decide_child_link_cancel_def decide_child_link_terminal_def same_link_def
      rbind_eq_Inr ok_or_eq_Inr Let_def dest!: generation_advances split: if_splits)

interpretation link_history: settling_aggregate "\<lambda>c. link_validate c = Inr ()" cl_version same_link link_step
    "\<lambda>c. link_is_terminal (cl_state c)"
proof
  fix c d assume step: "link_step c d"
  show "link_validate d = Inr ()" and "same_link c d" using link_step_Inr [OF step] by simp_all
  show "cl_version c < cl_version d" if "d \<noteq> c" using link_step_Inr(4) [OF step that] ..
  show "d = c" if "link_is_terminal (cl_state c)" using link_step_Inr(4) [OF step] link_terminal_final [OF that] by blast
qed (fact same_link_refl, blast intro: same_link_trans)

section \<open>Concrete runs\<close>

definition ex_rid :: "ResourceKind \<Rightarrow> u128 \<Rightarrow> ResourceId" where
  "ex_rid kind n = ResourceId kind n"

definition ex_deployment :: "u128 \<Rightarrow> ExactDeploymentRef" where
  "ex_deployment n = \<lparr>xd_deployment_id = ex_rid ResourceKind.AgentDeployment n,
     xd_resource_kind = ResourceKind.AgentDeployment, xd_deployment_digest = []\<rparr>"

definition ex_budget :: "instant \<Rightarrow> u32 \<Rightarrow> ChildBudget" where
  "ex_budget deadline descendants = \<lparr>bu_deadline = deadline, bu_maximum_model_tokens = 100,
     bu_maximum_capability_calls = 10, bu_maximum_artifact_bytes = 1000,
     bu_maximum_descendant_runs = descendants\<rparr>"

definition ex_ancestry :: RunAncestrySnapshot where
  "ex_ancestry = \<lparr>an_root_run_id = ex_rid ResourceKind.Run 1, an_parent_run_id = Some (ex_rid ResourceKind.Run 1),
     an_parent_node_execution_id = Some (ex_rid ResourceKind.NodeExecution 2),
     an_parent_child_link_id = Some (ex_rid ResourceKind.ChildRunLink 3), an_depth = 1,
     an_deployments = [ex_rid ResourceKind.AgentDeployment 4, ex_rid ResourceKind.AgentDeployment 5]\<rparr>"

text \<open>The command of the run \<open>run\<close>, deployed as \<open>4\<close> or \<open>5\<close>, that starts the run \<open>child\<close>.\<close>

definition ex_prepare ::
  "u128 \<Rightarrow> RunAncestrySnapshot \<Rightarrow> ChildBudget option \<Rightarrow> u128 \<Rightarrow> u128 \<Rightarrow> ChildBudget \<Rightarrow> PrepareChildRun" where
  "ex_prepare run ancestry delegated child deployment budget =
     \<lparr>pc_parent_run_id = ex_rid ResourceKind.Run run,
      pc_parent_node_execution_id = ex_rid ResourceKind.NodeExecution 2,
      pc_child_link_id = ex_rid ResourceKind.ChildRunLink 3, pc_child_run_id = ex_rid ResourceKind.Run child,
      pc_child_agent_deployment = ex_deployment deployment, pc_parent_ancestry = ancestry,
      pc_parent_deadline = 50, pc_parent_delegated_budget = delegated,
      pc_parent_delegated_descendant_count = 0, pc_parent_descendant_count = 0, pc_maximum_depth = 8,
      pc_maximum_descendants = 64, pc_budget = budget\<rparr>"

definition ex_link :: ChildRunLinkProjection where
  "ex_link = \<lparr>cl_tenant_id = ex_rid ResourceKind.Tenant 9, cl_child_link_id = ex_rid ResourceKind.ChildRunLink 3,
     cl_parent_run_id = ex_rid ResourceKind.Run 1,
     cl_parent_node_execution_id = ex_rid ResourceKind.NodeExecution 2,
     cl_child_run_id = ex_rid ResourceKind.Run 6, cl_state = ChildLinkState.Running, cl_generation = 1,
     cl_version = 1,
     cl_payload = \<lparr>lp_parent_attempt_ordinal = 1, lp_child_agent_deployment = ex_deployment 5,
       lp_input_digest = [], lp_cancellation_policy = CascadeAndWait, lp_budget = ex_budget 40 8\<rparr>,
     cl_deadline = 40, cl_terminal_at = None\<rparr>"

definition ex_cancelling :: ChildRunLinkProjection where
  "ex_cancelling = ex_link\<lparr>cl_state := ChildLinkState.Cancelling, cl_version := 2\<rparr>"

definition ex_settled :: ChildRunLinkProjection where
  "ex_settled = ex_link\<lparr>cl_state := ChildLinkState.Succeeded, cl_version := 3, cl_terminal_at := Some 20\<rparr>"

lemmas ex_evaluate = ex_prepare_def ex_budget_def ex_ancestry_def ex_deployment_def ex_rid_def ancestry_root_def
  prepare_child_run_def check_delegated_budget_def child_budget_validate_def ancestry_validate_def
  exact_deployment_validate_def is_deployment_def saturating_sub_def saturating_add_def checked_add_def
  link_validate_def link_payload_validate_def link_is_terminal_def link_can_transition_to_def link_target_def

lemma ex_delegations:
  "delegates (ex_rid ResourceKind.Run 1, ancestry_root (ex_rid ResourceKind.Run 1) (ex_rid ResourceKind.AgentDeployment 4), None)
     (ex_rid ResourceKind.Run 6, ex_ancestry, Some (ex_budget 40 8))"
  "\<exists>a. delegates (ex_rid ResourceKind.Run 6, ex_ancestry, Some (ex_budget 40 8))
     (ex_rid ResourceKind.Run 7, a, Some (ex_budget 30 7))"
proof -
  have "prepare_child_run (ex_prepare 1 (ancestry_root (ex_rid ResourceKind.Run 1) (ex_rid ResourceKind.AgentDeployment 4))
      None 6 5 (ex_budget 40 8)) = Inr ex_ancestry"
    by (simp add: ex_evaluate)
  from delegates.prepare [OF this]
  show "delegates (ex_rid ResourceKind.Run 1, ancestry_root (ex_rid ResourceKind.Run 1) (ex_rid ResourceKind.AgentDeployment 4), None)
     (ex_rid ResourceKind.Run 6, ex_ancestry, Some (ex_budget 40 8))"
    by (simp add: ex_prepare_def)
  have "is_ok (prepare_child_run (ex_prepare 6 ex_ancestry (Some (ex_budget 40 8)) 7 8 (ex_budget 30 7)))"
    by (simp add: ex_evaluate)
  then obtain a where "prepare_child_run (ex_prepare 6 ex_ancestry (Some (ex_budget 40 8)) 7 8 (ex_budget 30 7)) = Inr a"
    by (auto simp: is_ok_iff)
  from delegates.prepare [OF this]
  show "\<exists>a. delegates (ex_rid ResourceKind.Run 6, ex_ancestry, Some (ex_budget 40 8))
     (ex_rid ResourceKind.Run 7, a, Some (ex_budget 30 7))"
    by (auto simp: ex_prepare_def)
qed

lemma ex_link_history: "link_steps ex_link ex_settled"
proof -
  have a: "decide_child_link_cancel ex_link 1 1 = Inr ex_cancelling"
    by (simp add: decide_child_link_cancel_def ex_link_def ex_cancelling_def ex_evaluate)
  have b: "decide_child_link_terminal ex_cancelling 1 2 RunState.Succeeded 20 = Inr ex_settled"
    by (simp add: decide_child_link_terminal_def ex_link_def ex_cancelling_def ex_settled_def ex_evaluate)
  have "link_steps ex_cancelling ex_settled" using link_step.terminal [OF b] ..
  with link_step.cancel [OF a] show ?thesis by (rule converse_rtranclp_into_rtranclp)
qed

section \<open>Properties\<close>

text \<open>C5: Delegation ends. However a root run and its descendants delegate, a chain of delegations from the
  root has at most 31 links, its last run is as deep as the chain is long, and no two runs on
  the chain execute the same agent deployment.\<close>

theorem delegation_ends:
  assumes "(delegates ^^ n) (root_run, ancestry_root root_run deployment, budget) (run, ancestry, budget')"
  shows "n \<le> 31 \<and> unat (an_depth ancestry) = n \<and> an_root_run_id ancestry = root_run
    \<and> length (an_deployments ancestry) = Suc n \<and> distinct (an_deployments ancestry)
    \<and> hd (an_deployments ancestry) = deployment"
proof (cases n)
  case 0
  with assms show ?thesis by (auto simp: ancestry_root_def)
next
  case (Suc m)
  with delegation_chain [OF assms] obtain ds where ds: "an_deployments ancestry = deployment # ds" "length ds = n"
    and "ancestry_validate ancestry run = Inr ()" "unat (an_depth ancestry) = n" "an_root_run_id ancestry = root_run"
    by (auto simp: ancestry_root_def)
  then show ?thesis by (auto simp: ancestry_validate_Inr)
qed

lemma delegation_ends_witness:
  "\<exists>ancestry :: RunAncestrySnapshot. unat (an_depth ancestry) = 2 \<and> length (an_deployments ancestry) = 3"
proof -
  from ex_delegations(2) obtain a where "delegates (ex_rid ResourceKind.Run 6, ex_ancestry, Some (ex_budget 40 8))
     (ex_rid ResourceKind.Run 7, a, Some (ex_budget 30 7))" by blast
  with ex_delegations(1) have "(delegates ^^ 2)
      (ex_rid ResourceKind.Run 1,
       ancestry_root (ex_rid ResourceKind.Run 1) (ex_rid ResourceKind.AgentDeployment 4), None)
      (ex_rid ResourceKind.Run 7, a, Some (ex_budget 30 7))"
    by (auto simp: numeral_2_eq_2)
  from delegation_ends [OF this] have "unat (an_depth a) = 2 \<and> length (an_deployments a) = 3" by simp
  then show ?thesis by blast
qed



text \<open>A child link settles once. Whatever cancellations and terminal outcomes are accepted, the link stays
  valid, stays the link of the same child and budget, and its version only grows; once it is terminal, nothing
  changes it any more, and every command that still expects an earlier version is refused.\<close>

theorem child_links_settle_once:
  assumes "link_validate c = Inr ()" and "link_steps c c'"
  shows "link_validate c' = Inr () \<and> same_link c c' \<and> cl_version c \<le> cl_version c'
    \<and> (link_is_terminal (cl_state c) \<longrightarrow> c' = c)
    \<and> (c' \<noteq> c \<longrightarrow> decide_child_link_cancel c' g (cl_version c) = Inl StaleGeneration
        \<and> decide_child_link_terminal c' g (cl_version c) s now = Inl ChildFirstWinnerLost)"
proof -
  note steps = link_history.history_valid [OF assms(2,1)] link_history.history_same [OF assms(2)]
    link_history.versions_never_fall [OF assms(2)] link_history.final_stays [OF assms(2)]
  have "decide_child_link_cancel c' g (cl_version c) = Inl StaleGeneration
    \<and> decide_child_link_terminal c' g (cl_version c) s now = Inl ChildFirstWinnerLost" if "c' \<noteq> c"
    using steps(1) link_history.version_identifies [OF assms(2)] that
    by (auto simp: decide_child_link_cancel_def decide_child_link_terminal_def)
  with steps show ?thesis by blast
qed

lemma child_links_settle_once_witness:
  "link_validate ex_settled = Inr () \<and> decide_child_link_terminal ex_settled 1 1 RunState.Failed 30 = Inl ChildFirstWinnerLost"
proof -
  have "link_validate ex_link = Inr ()" by (simp add: ex_link_def ex_evaluate)
  from child_links_settle_once [OF this ex_link_history, of 1 RunState.Failed 30]
  show ?thesis by (simp add: ex_link_def ex_settled_def)
qed

text \<open>A budget derived when a child is admitted expires after the admission, no later than the limit's
  duration and no later than the deadline the child inherits; it is a valid budget.\<close>

theorem derived_budgets_expire_in_time:
  assumes "chrono_add_ok add" and "derive_child_budget add limit admitted_at inherited = Inr b"
  shows "admitted_at < bu_deadline b \<and> bu_deadline b \<le> inherited
    \<and> bu_deadline b \<le> admitted_at + int (unat (cb_maximum_duration_milliseconds limit)) * 1000000
    \<and> child_budget_validate b = Inr () \<and> 0 < bu_maximum_descendant_runs b"
proof -
  let ?ms = "cb_maximum_duration_milliseconds limit"
  from assms(2) have ok: "?ms \<noteq> 0" "cb_maximum_model_tokens limit \<noteq> 0" "cb_maximum_capability_calls limit \<noteq> 0"
    "cb_maximum_artifact_bytes limit \<noteq> 0" "cb_maximum_descendant_runs limit \<noteq> 0" "admitted_at < inherited"
    by (auto simp: derive_child_budget_def validate_child_budget_limit_def rbind_eq_Inr split: if_splits)
  from assms(2) obtain t where t: "add admitted_at (int (unat ?ms) * 1000000) = Some t"
    and b: "b = \<lparr>bu_deadline = min t inherited, bu_maximum_model_tokens = cb_maximum_model_tokens limit,
      bu_maximum_capability_calls = cb_maximum_capability_calls limit,
      bu_maximum_artifact_bytes = cb_maximum_artifact_bytes limit,
      bu_maximum_descendant_runs = cb_maximum_descendant_runs limit\<rparr>"
    by (auto simp: derive_child_budget_def child_duration_def rbind_eq_Inr ok_or_eq_Inr split: if_splits)
  from t assms(1) have "t = admitted_at + int (unat ?ms) * 1000000" by (simp only: chrono_add_ok_def)
  moreover from ok(1) have "0 < int (unat ?ms)" by (metis gr0I of_nat_0_less_iff unat_eq_zero)
  ultimately show ?thesis using b ok by (simp add: child_budget_validate_def word_gt_0)
qed

lemma derived_budgets_expire_in_time_witness:
  "\<exists>b. 5 < bu_deadline b \<and> bu_deadline b \<le> 40 \<and> child_budget_validate b = Inr ()"
proof -
  have "chrono_add_ok (\<lambda>t d. Some (t + d))" by (simp add: chrono_add_ok_def)
  moreover have "is_ok (derive_child_budget (\<lambda>t d. Some (t + d)) \<lparr>cb_maximum_duration_milliseconds = 1,
      cb_maximum_model_tokens = 1, cb_maximum_capability_calls = 1, cb_maximum_artifact_bytes = 1,
      cb_maximum_descendant_runs = 1\<rparr> 5 40)"
    by (simp add: derive_child_budget_def validate_child_budget_limit_def child_duration_def)
  ultimately show ?thesis using derived_budgets_expire_in_time by (fastforce simp: is_ok_iff)
qed

end
