(* ===== verification/Convergence.thy ===== *)
theory Convergence
  imports ChildLinks
begin

text \<open>
  How a run comes to its end (\<open>platform-orchestrator/src/convergence.rs\<close>): the goal that its committed
  facts impose on a run, the states its members are brought to, and what a converging parent imposes on
  a child.
\<close>

section \<open>The goal of a run\<close>

datatype OrchestrationConvergenceReason =
  CancelRequested | TimeoutObserved | DeadlineExceeded | AttemptLimitExhausted | FailureObserved

primrec convergence_reason_str :: "OrchestrationConvergenceReason \<Rightarrow> string" where
  "convergence_reason_str CancelRequested = ''cancel_requested''"
| "convergence_reason_str TimeoutObserved = ''timeout_observed''"
| "convergence_reason_str DeadlineExceeded = ''deadline_exceeded''"
| "convergence_reason_str AttemptLimitExhausted = ''attempt_limit_exhausted''"
| "convergence_reason_str FailureObserved = ''failure_observed''"

record RunConvergenceGoal =
  cg_reason :: OrchestrationConvergenceReason
  cg_terminal_state :: RunState
  cg_control :: RunControlSnapshot
  cg_failure :: "Failure option"

definition run_ended :: "RunState \<Rightarrow> bool" where
  "run_ended s \<longleftrightarrow> s \<in> {RunState.Succeeded, RunState.Failed, RunState.Cancelled, RunState.TimedOut}"

definition exhausted_failure :: Failure where
  "exhausted_failure = \<lparr>fl_code = Platform PlatformFailureCode.DependencyUnavailable,
     fl_class = FailureClass.Platform, fl_retryability = Retryability.Never,
     fl_safe_message = Some ''Orchestration attempt budget exhausted after lease expiry'',
     fl_details_ref = None, fl_source = FailureSource.Platform\<rparr>"

definition decide_run_convergence ::
  "('n, 'z) platform_env_scheme \<Rightarrow> RunState \<Rightarrow> u64 \<Rightarrow> instant \<Rightarrow> RunCurrentSnapshot \<Rightarrow> bool \<Rightarrow> instant \<Rightarrow>
   OrchestratorError + RunConvergenceGoal option" where
  "decide_run_convergence env state version deadline current exhausted_attempt database_now =
     rbind (control_validate env (cu_control current)) (\<lambda>_.
     if version = 0 then Inl InvalidRunControl
     else if run_ended state then Inr None
     else
       let deadline_exceeded = deadline \<le> database_now;
           control = cu_control current
       in if rc_timeout_requested_at control \<noteq> None \<or> deadline_exceeded then
            rbind (if rc_timeout_requested_at control = None
              then rbind (decide_timeout env control (rc_timeout_generation control) database_now deadline
                     (run_state_str state) version) (\<lambda>d. Inr (decided d))
              else Inr control) (\<lambda>control.
            Inr (Some \<lparr>cg_reason = (if deadline_exceeded then DeadlineExceeded else TimeoutObserved),
              cg_terminal_state = RunState.TimedOut, cg_control = control, cg_failure = cu_failure current\<rparr>))
          else if rc_cancel_requested_at control \<noteq> None then
            Inr (Some \<lparr>cg_reason = CancelRequested, cg_terminal_state = RunState.Cancelled,
              cg_control = control, cg_failure = cu_failure current\<rparr>)
          else if cu_failure current \<noteq> None \<or> exhausted_attempt then
            let failure = (case cu_failure current of Some f \<Rightarrow> f | None \<Rightarrow> exhausted_failure)
            in Inr (Some \<lparr>
                 cg_reason = (if cu_failure current \<noteq> None then FailureObserved else AttemptLimitExhausted),
                 cg_terminal_state = RunState.Failed, cg_control = control, cg_failure = Some failure\<rparr>)
          else Inr None)"

definition convergence_member_states ::
  "RunConvergenceGoal \<Rightarrow> bool \<Rightarrow> JobState \<times> NodeExecutionState \<times> ScopeState" where
  "convergence_member_states goal exhausted_attempt =
     (case cg_terminal_state goal of
        RunState.TimedOut \<Rightarrow> (JobState.TimedOut, NodeExecutionState.TimedOut, ScopeState.Failed)
      | RunState.Failed \<Rightarrow>
          if exhausted_attempt then (JobState.Failed, NodeExecutionState.Failed, ScopeState.Failed)
          else (JobState.Cancelled, NodeExecutionState.Cancelled, ScopeState.Failed)
      | _ \<Rightarrow> (JobState.Cancelled, NodeExecutionState.Cancelled, ScopeState.Cancelled))"

section \<open>Propagation to a child\<close>

definition parent_failure :: Failure where
  "parent_failure = \<lparr>fl_code = Platform PlatformFailureCode.DependencyUnavailable,
     fl_class = FailureClass.Dependency, fl_retryability = Retryability.Never,
     fl_safe_message = Some ''Parent Run is converging after a terminal failure'',
     fl_details_ref = None, fl_source = FailureSource.Agent\<rparr>"

definition propagate_parent_convergence ::
  "('n, 'z) platform_env_scheme \<Rightarrow> instant \<Rightarrow> RunCurrentSnapshot \<Rightarrow> RunState \<Rightarrow> u64 \<Rightarrow> instant \<Rightarrow>
   RunCurrentSnapshot \<Rightarrow> instant \<Rightarrow> OrchestratorError + RunCurrentSnapshot option" where
  "propagate_parent_convergence env parent_deadline parent child_state child_version child_deadline child
     database_now =
     (if parent_deadline < child_deadline \<or> child_version = 0 then Inl InvalidChildRun
      else if run_ended child_state then Inr None
      else if rc_cancel_requested_at (cu_control child) \<noteq> None
        \<or> rc_timeout_requested_at (cu_control child) \<noteq> None \<or> cu_failure child \<noteq> None
      then Inr (Some child)
      else if rc_timeout_requested_at (cu_control parent) \<noteq> None \<or> parent_deadline \<le> database_now then
        (if database_now < child_deadline then Inr None
         else
           rbind (decide_timeout env (cu_control child) (rc_timeout_generation (cu_control child)) database_now
             child_deadline (run_state_str child_state) child_version) (\<lambda>d.
           Inr (Some (child\<lparr>cu_control := decided d\<rparr>))))
      else if rc_cancel_requested_at (cu_control parent) \<noteq> None then
        rbind (ok_or InvalidRunControl (rc_cancel_reason_code (cu_control parent))) (\<lambda>reason.
        rbind (ok_or InvalidRunControl (rc_cancel_principal (cu_control parent))) (\<lambda>requester.
        rbind (decide_cancel env (cu_control child) (rc_cancel_generation (cu_control child)) database_now reason
          requester) (\<lambda>d.
        Inr (Some (child\<lparr>cu_control := decided d\<rparr>)))))
      else if cu_failure parent \<noteq> None then Inr (Some (child\<lparr>cu_failure := Some parent_failure\<rparr>))
      else Inr None)"

section \<open>Lemmas\<close>

lemma run_ended_iff: "run_ended s \<longleftrightarrow> run_state_is_terminal s"
  by (cases s) (simp_all add: run_ended_def run_state_is_terminal_def)

lemma run_state_code_stable: "is_stable_code (run_state_str s)"
  by (cases s) (simp_all add: is_stable_code_def is_ascii_lowercase_def byte_of_def)

text \<open>The timeout a converging run records, unless its generation is spent.\<close>

lemma own_timeout:
  assumes "control_validate env c = Inr ()" and "rc_timeout_requested_at c = None" and "deadline \<le> now"
    and "version \<noteq> 0"
  shows "decide_timeout env c (rc_timeout_generation c) now deadline (run_state_str s) version =
    (case checked_add (rc_timeout_generation c) 1 of
       None \<Rightarrow> Inl OrchestratorError.CounterOverflow
     | Some g \<Rightarrow> Inr (Updated (c\<lparr>rc_timeout_generation := g, rc_timeout_requested_at := Some now,
         rc_timeout_observed_run_state := Some (run_state_str s),
         rc_timeout_observed_run_version := Some version\<rparr>)))"
  using assms by (simp add: decide_timeout_def run_state_code_stable split: option.splits)

definition goal_rank :: "RunState \<Rightarrow> nat" where
  "goal_rank s = (case s of RunState.TimedOut \<Rightarrow> 2 | RunState.Cancelled \<Rightarrow> 1 | _ \<Rightarrow> 0)"

lemma convergence_cases:
  assumes "decide_run_convergence env state version deadline current exhausted now = Inr (Some goal)"
  obtains (timeout) d where "rc_timeout_requested_at (cu_control current) = None" "deadline \<le> now"
      "decide_timeout env (cu_control current) (rc_timeout_generation (cu_control current)) now deadline
        (run_state_str state) version = Inr d"
      "goal = \<lparr>cg_reason = DeadlineExceeded, cg_terminal_state = RunState.TimedOut, cg_control = decided d,
        cg_failure = cu_failure current\<rparr>"
  | (timed_out) reason where "rc_timeout_requested_at (cu_control current) \<noteq> None"
      "goal = \<lparr>cg_reason = reason, cg_terminal_state = RunState.TimedOut, cg_control = cu_control current,
        cg_failure = cu_failure current\<rparr>"
  | (cancelled) "rc_timeout_requested_at (cu_control current) = None" "now < deadline"
      "rc_cancel_requested_at (cu_control current) \<noteq> None"
      "goal = \<lparr>cg_reason = CancelRequested, cg_terminal_state = RunState.Cancelled,
        cg_control = cu_control current, cg_failure = cu_failure current\<rparr>"
  | (failed) reason failure where "rc_timeout_requested_at (cu_control current) = None" "now < deadline"
      "rc_cancel_requested_at (cu_control current) = None"
      "cu_failure current = Some failure \<or> cu_failure current = None \<and> exhausted \<and> failure = exhausted_failure"
      "goal = \<lparr>cg_reason = reason, cg_terminal_state = RunState.Failed, cg_control = cu_control current,
        cg_failure = Some failure\<rparr>"
  using assms
  by (cases "rc_timeout_requested_at (cu_control current)"; cases "cu_failure current")
    (auto simp: decide_run_convergence_def rbind_eq_Inr Let_def not_le split: if_splits)

lemma convergence_valid:
  "decide_run_convergence env state version deadline current exhausted now = Inr (Some goal) \<Longrightarrow>
     control_validate env (cu_control current) = Inr () \<and> \<not> run_ended state \<and> version \<noteq> 0"
  by (auto simp: decide_run_convergence_def rbind_eq_Inr Let_def split: if_splits)

lemma convergence_control:
  assumes "decide_run_convergence env state version deadline current exhausted now = Inr (Some goal)"
  shows "control_steps env (cu_control current) (cg_control goal)"
  using assms
proof (cases rule: convergence_cases)
  case (timeout d)
  with control_step.timeout [OF timeout(3)] show ?thesis by simp
qed simp_all

lemma converged_control_valid:
  assumes "decide_run_convergence env state version deadline current exhausted now = Inr (Some goal)"
  shows "control_validate env (cg_control goal) = Inr ()"
  using control_steps_later [OF convergence_control [OF assms]] convergence_valid [OF assms] by blast

text \<open>What a goal leaves behind in the snapshot it is written to.\<close>

definition goal_marks :: "RunState \<Rightarrow> RunControlSnapshot \<Rightarrow> Failure option \<Rightarrow> bool" where
  "goal_marks s c f \<longleftrightarrow>
     (case s of
        RunState.TimedOut \<Rightarrow> rc_timeout_requested_at c \<noteq> None
      | RunState.Cancelled \<Rightarrow> rc_cancel_requested_at c \<noteq> None
      | RunState.Failed \<Rightarrow> f \<noteq> None
      | _ \<Rightarrow> False)"

lemma convergence_marks:
  assumes "decide_run_convergence env state version deadline current exhausted now = Inr (Some goal)"
  shows "goal_marks (cg_terminal_state goal) (cg_control goal) (cg_failure goal)"
  using assms
proof (cases rule: convergence_cases)
  case (timeout d)
  from convergence_valid [OF assms] timeout own_timeout [of env "cu_control current" deadline now version state]
  show ?thesis by (auto simp: goal_marks_def split: option.splits)
qed (auto simp: goal_marks_def)

text \<open>Marks stay, whatever control commands are accepted later.\<close>

lemma goal_marks_later: "goal_marks s c f \<Longrightarrow> control_later c c' \<Longrightarrow> goal_marks s c' f"
  by (auto simp: goal_marks_def control_later_def cancel_request_def timeout_request_def split: RunState.splits)

text \<open>A marked snapshot converges, to an end at least as strong.\<close>

lemma marked_converges:
  assumes "goal_marks s (cu_control current) (cu_failure current)"
    and "control_validate env (cu_control current) = Inr ()" and "\<not> run_ended state" and "version \<noteq> 0"
  shows "(\<exists>goal. decide_run_convergence env state version deadline current exhausted now = Inr (Some goal)
      \<and> goal_rank s \<le> goal_rank (cg_terminal_state goal)
      \<and> (cu_failure current \<noteq> None \<longrightarrow> cg_failure goal = cu_failure current))
    \<or> (decide_run_convergence env state version deadline current exhausted now = Inl OrchestratorError.CounterOverflow
      \<and> rc_timeout_requested_at (cu_control current) = None \<and> deadline \<le> now)"
proof (cases "rc_timeout_requested_at (cu_control current) = None \<and> deadline \<le> now")
  case True
  with assms own_timeout [OF assms(2) _ _ assms(4), of deadline now state] show ?thesis
    by (auto simp: decide_run_convergence_def goal_rank_def split: option.splits RunState.splits)
next
  case False
  with assms show ?thesis
    by (cases s) (auto simp: decide_run_convergence_def goal_marks_def goal_rank_def Let_def)
qed

end
