(* ===== verification/ConvergenceRuns.thy ===== *)
theory ConvergenceRuns
  imports Convergence
begin

text \<open>
  Convergence across time and across runs: once a run has a goal it keeps one, its goals are legal ends,
  and a converging parent brings its children down without touching what they decided themselves.
\<close>

section \<open>Propagation\<close>

definition marked :: "RunCurrentSnapshot \<Rightarrow> bool" where
  "marked c \<longleftrightarrow> rc_cancel_requested_at (cu_control c) \<noteq> None \<or> rc_timeout_requested_at (cu_control c) \<noteq> None
     \<or> cu_failure c \<noteq> None"

text \<open>The cancellation a parent hands to an unmarked child, unless the child's generation is spent.\<close>

lemma own_cancel:
  assumes "control_validate env c = Inr ()" and "rc_cancel_requested_at c = None"
    and "is_stable_code reason" and "principal_snapshot_validate env requester = Inr ()"
  shows "decide_cancel env c (rc_cancel_generation c) now reason requester =
    (case checked_add (rc_cancel_generation c) 1 of
       None \<Rightarrow> Inl OrchestratorError.CounterOverflow
     | Some g \<Rightarrow> Inr (Updated (c\<lparr>rc_cancel_generation := g, rc_cancel_requested_at := Some now,
         rc_cancel_reason_code := Some reason, rc_cancel_principal := Some requester\<rparr>)))"
  using assms by (simp add: decide_cancel_def split: option.splits)

lemma propagate_cases:
  assumes "propagate_parent_convergence env parent_deadline parent state version deadline child now = Inr (Some updated)"
  obtains (own) "marked child" "updated = child"
  | (timeout) d where "\<not> marked child"
      "decide_timeout env (cu_control child) (rc_timeout_generation (cu_control child)) now deadline
        (run_state_str state) version = Inr d"
      "updated = child\<lparr>cu_control := decided d\<rparr>"
  | (cancel) d reason requester where "\<not> marked child"
      "decide_cancel env (cu_control child) (rc_cancel_generation (cu_control child)) now reason requester = Inr d"
      "updated = child\<lparr>cu_control := decided d\<rparr>"
  | (failure) "\<not> marked child" "updated = child\<lparr>cu_failure := Some parent_failure\<rparr>"
proof (cases "marked child")
  case True
  with assms that(1) show ?thesis
    by (auto simp: propagate_parent_convergence_def marked_def split: if_splits)
next
  case False
  then have own: "rc_cancel_requested_at (cu_control child) = None" "rc_timeout_requested_at (cu_control child) = None"
    "cu_failure child = None" by (simp_all add: marked_def)
  show ?thesis
    using assms that(2-4) [OF False]
    by (auto simp: propagate_parent_convergence_def own rbind_eq_Inr ok_or_eq_Inr split: if_splits)
qed

lemma propagate_control:
  assumes "propagate_parent_convergence env parent_deadline parent state version deadline child now = Inr (Some updated)"
  shows "control_steps env (cu_control child) (cu_control updated)"
    and "cu_failure updated = cu_failure child \<or> cu_failure updated = Some parent_failure"
    and "updated = child\<lparr>cu_control := cu_control updated, cu_failure := cu_failure updated\<rparr>"
    and "marked child \<Longrightarrow> updated = child"
proof -
  have "control_steps env (cu_control child) (cu_control updated)
    \<and> (cu_failure updated = cu_failure child \<or> cu_failure updated = Some parent_failure)
    \<and> updated = child\<lparr>cu_control := cu_control updated, cu_failure := cu_failure updated\<rparr>
    \<and> (marked child \<longrightarrow> updated = child)"
    using assms
  proof (cases rule: propagate_cases)
    case (timeout d)
    with r_into_rtranclp [of "control_step env", OF control_step.timeout [OF timeout(2)]] show ?thesis by simp
  next
    case (cancel d)
    with r_into_rtranclp [of "control_step env", OF control_step.cancel [OF cancel(2)]] show ?thesis by simp
  qed simp_all
  then show "control_steps env (cu_control child) (cu_control updated)"
    and "cu_failure updated = cu_failure child \<or> cu_failure updated = Some parent_failure"
    and "updated = child\<lparr>cu_control := cu_control updated, cu_failure := cu_failure updated\<rparr>"
    and "marked child \<Longrightarrow> updated = child" by blast+
qed

lemma marked_goal: "marked c \<Longrightarrow> \<exists>s. goal_marks s (cu_control c) (cu_failure c)"
  by (auto simp: marked_def goal_marks_def intro: exI [of _ RunState.TimedOut] exI [of _ RunState.Cancelled]
      exI [of _ RunState.Failed])

lemma propagate_marks:
  assumes child: "control_validate env (cu_control child) = Inr ()" "\<not> run_ended state" "version \<noteq> 0"
      "deadline \<le> parent_deadline" "\<not> marked child"
    and parent: "control_validate env (cu_control parent) = Inr ()"
      "goal_marks s (cu_control parent) (cu_failure parent)"
      "rc_timeout_requested_at (cu_control parent) \<noteq> None \<longrightarrow> deadline \<le> now"
  shows "(\<exists>updated s'. propagate_parent_convergence env parent_deadline parent state version deadline child now
        = Inr (Some updated)
      \<and> goal_rank s \<le> goal_rank s' \<and> goal_marks s' (cu_control updated) (cu_failure updated))
    \<or> propagate_parent_convergence env parent_deadline parent state version deadline child now
        = Inl OrchestratorError.CounterOverflow"
proof -
  have own: "rc_cancel_requested_at (cu_control child) = None" "rc_timeout_requested_at (cu_control child) = None"
    "cu_failure child = None" using child(5) by (simp_all add: marked_def)
  consider "rc_timeout_requested_at (cu_control parent) \<noteq> None \<or> parent_deadline \<le> now"
    | "rc_timeout_requested_at (cu_control parent) = None" "now < parent_deadline"
      "rc_cancel_requested_at (cu_control parent) \<noteq> None"
    | "rc_timeout_requested_at (cu_control parent) = None" "now < parent_deadline"
      "rc_cancel_requested_at (cu_control parent) = None" by linarith
  then show ?thesis
  proof cases
    case 1
    with parent(3) child(4) have "deadline \<le> now" by auto
    with 1 own child own_timeout [OF child(1) own(2) _ child(3), of deadline now state] show ?thesis
      by (auto simp: propagate_parent_convergence_def goal_marks_def goal_rank_def split: option.splits RunState.splits
          intro!: exI [of _ RunState.TimedOut])
  next
    case 2
    with parent(1) obtain reason requester where r: "rc_cancel_reason_code (cu_control parent) = Some reason"
      "rc_cancel_principal (cu_control parent) = Some requester" "is_stable_code reason"
      "principal_snapshot_validate env requester = Inr ()" by (auto simp: control_validate_Inr)
    with 2 own child parent(2) own_cancel [OF child(1) own(1) r(3,4), of now] show ?thesis
      by (auto simp: propagate_parent_convergence_def goal_marks_def goal_rank_def split: option.splits RunState.splits
          intro!: exI [of _ RunState.Cancelled])
  next
    case 3
    with own child parent(2) have "s = RunState.Failed" "cu_failure parent \<noteq> None"
      by (auto simp: goal_marks_def split: RunState.splits)
    with 3 own child show ?thesis
      by (auto simp: propagate_parent_convergence_def goal_marks_def goal_rank_def
          intro!: exI [of _ RunState.Failed])
  qed
qed

section \<open>A concrete run\<close>

definition ex_current :: RunCurrentSnapshot where
  "ex_current = current_initial (ex_rid ResourceKind.Run 1) (ex_rid ResourceKind.AgentDeployment 4)
     (ex_rid ResourceKind.RunValue 2)"

definition ex_goal :: RunConvergenceGoal where
  "ex_goal = \<lparr>cg_reason = AttemptLimitExhausted, cg_terminal_state = RunState.Failed,
     cg_control = cu_control ex_current, cg_failure = Some exhausted_failure\<rparr>"

lemma ex_current_control: "control_validate env (cu_control ex_current) = Inr ()"
  by (simp add: ex_current_def current_initial_def control_validate_Inr)

lemma ex_current_goal: "decide_run_convergence env RunState.Running 3 10 ex_current True 5 = Inr (Some ex_goal)"
  using ex_current_control [of env]
  by (simp add: decide_run_convergence_def run_ended_def ex_goal_def)
    (simp add: ex_current_def current_initial_def)

lemma ex_current_valid: "current_validate env ex_current (ex_rid ResourceKind.Run 1) = Inr ()"
  using ex_current_control [of env]
  by (simp add: current_validate_def)
    (simp add: ex_current_def current_initial_def ancestry_root_def ancestry_validate_def ex_rid_def)

section \<open>Properties\<close>

text \<open>C6: Convergence never reverses. Once the facts of a run gave it a goal and the goal was recorded, every later
  decision, after any further accepted control commands, gives a goal again, with an end at least
  as strong (a failure can become a cancellation or a timeout, a cancellation a timeout) and with the failure
  first observed; the only other outcome is that the last timeout generation is spent.\<close>

theorem convergence_never_reverses:
  assumes "decide_run_convergence env state version deadline current exhausted now = Inr (Some goal)"
    and "control_steps env (cg_control goal) control'"
    and "\<not> run_ended state'" and "version' \<noteq> 0"
    and "current' = current\<lparr>cu_control := control', cu_failure := cg_failure goal\<rparr>"
  shows "(\<exists>goal'. decide_run_convergence env state' version' deadline current' exhausted' now' = Inr (Some goal')
      \<and> goal_rank (cg_terminal_state goal) \<le> goal_rank (cg_terminal_state goal')
      \<and> (cg_failure goal \<noteq> None \<longrightarrow> cg_failure goal' = cg_failure goal))
    \<or> decide_run_convergence env state' version' deadline current' exhausted' now'
        = Inl OrchestratorError.CounterOverflow"
proof -
  note later = control_steps_later [OF assms(2) converged_control_valid [OF assms(1)]]
  from goal_marks_later [OF convergence_marks [OF assms(1)]] later assms(5)
  have "goal_marks (cg_terminal_state goal) (cu_control current') (cu_failure current')" by simp
  from marked_converges [OF this _ assms(3,4)] later assms(5) show ?thesis by force
qed

lemma convergence_never_reverses_witness:
  "\<exists>goal. decide_run_convergence ex_penv RunState.Cancelling 4 10 (ex_current\<lparr>cu_failure := Some exhausted_failure\<rparr>) False 6
     = Inr (Some goal) \<and> cg_failure goal = Some exhausted_failure"
proof -
  have "decide_run_convergence ex_penv RunState.Cancelling 4 10 (ex_current\<lparr>cu_failure := Some exhausted_failure\<rparr>) False 6
      \<noteq> Inl OrchestratorError.CounterOverflow"
    using ex_current_control [of ex_penv]
    by (simp add: decide_run_convergence_def run_ended_def)
      (simp add: ex_current_def current_initial_def)
  with convergence_never_reverses [OF ex_current_goal, of ex_penv "cu_control ex_current" RunState.Cancelling 4
      "ex_current\<lparr>cu_failure := Some exhausted_failure\<rparr>" False 6]
  show ?thesis by (auto simp: ex_goal_def run_ended_def)
qed

text \<open>A goal is a legal end. The state a run converges to can be reached from its present state along
  the published run states and is terminal there, and so are the states its jobs, node executions and
  scopes are brought to.\<close>

theorem goals_are_legal_ends:
  assumes "decide_run_convergence env state version deadline current exhausted now = Inr (Some goal)"
    and "convergence_member_states goal exhausted' = (job, node, scope)"
  shows "run_state_can_transition_to\<^sup>*\<^sup>* state (cg_terminal_state goal)
    \<and> run_state_is_terminal (cg_terminal_state goal)
    \<and> (\<forall>t. \<not> job_state_can_transition_to job t) \<and> (\<forall>t. \<not> node_execution_state_can_transition_to node t)
    \<and> (\<forall>t. \<not> scope_state_can_transition_to scope t)"
proof -
  have ends: "cg_terminal_state goal \<in> {RunState.TimedOut, RunState.Cancelled, RunState.Failed}"
    using assms(1) by (cases rule: convergence_cases) simp_all
  have to_cancelling: "run_state_can_transition_to\<^sup>*\<^sup>* state RunState.Cancelling"
    using convergence_valid [OF assms(1)]
    by (cases state) (auto simp: run_ended_def run_state_can_transition_to_def)
  have "run_state_can_transition_to RunState.Cancelling (cg_terminal_state goal)"
    using ends by (auto simp: run_state_can_transition_to_def)
  with to_cancelling have "run_state_can_transition_to\<^sup>*\<^sup>* state (cg_terminal_state goal)" by simp
  with ends assms(2) show ?thesis
    by (auto simp: convergence_member_states_def run_state_is_terminal_def job_state_can_transition_to_def
        node_execution_state_can_transition_to_def scope_state_can_transition_to_def split: if_splits)
qed

lemma goals_are_legal_ends_witness: "run_state_can_transition_to\<^sup>*\<^sup>* RunState.Running (cg_terminal_state ex_goal)"
proof -
  have "convergence_member_states ex_goal True = (JobState.Failed, NodeExecutionState.Failed, ScopeState.Failed)"
    by (simp add: convergence_member_states_def ex_goal_def)
  with goals_are_legal_ends [OF ex_current_goal] show ?thesis by blast
qed

text \<open>A parent reaches into its child only as far as the contract says. What is propagated changes nothing of the
  child but its control snapshot, by at most one accepted control command, and its failure, which becomes
  one fixed failure; a child that is already converging is left as it is; and the result does
  not depend on anything of the parent but its control snapshot and whether it has failed.\<close>

theorem parents_do_not_leak_into_children:
  "(\<forall>updated. propagate_parent_convergence env parent_deadline parent state version deadline child now = Inr (Some updated) \<longrightarrow>
      control_steps env (cu_control child) (cu_control updated)
      \<and> (cu_failure updated = cu_failure child \<or> cu_failure updated = Some parent_failure)
      \<and> updated = child\<lparr>cu_control := cu_control updated, cu_failure := cu_failure updated\<rparr>
      \<and> (marked child \<longrightarrow> updated = child))
   \<and> (\<forall>parent' :: RunCurrentSnapshot.
      cu_control parent' = cu_control parent \<and> (cu_failure parent' = None) = (cu_failure parent = None) \<longrightarrow>
      propagate_parent_convergence env parent_deadline parent' state version deadline child now
        = propagate_parent_convergence env parent_deadline parent state version deadline child now)"
proof (intro conjI allI impI)
  fix updated
  assume "propagate_parent_convergence env parent_deadline parent state version deadline child now = Inr (Some updated)"
  note facts = propagate_control [OF this]
  show "control_steps env (cu_control child) (cu_control updated)" by (fact facts(1))
  show "cu_failure updated = cu_failure child \<or> cu_failure updated = Some parent_failure" by (fact facts(2))
  show "updated = child\<lparr>cu_control := cu_control updated, cu_failure := cu_failure updated\<rparr>" by (fact facts(3))
  show "updated = child" if "marked child" using that by (fact facts(4))
next
  fix parent' :: RunCurrentSnapshot
  assume "cu_control parent' = cu_control parent \<and> (cu_failure parent' = None) = (cu_failure parent = None)"
  then have same: "cu_control parent' = cu_control parent" "(cu_failure parent' = None) = (cu_failure parent = None)"
    by blast+
  show "propagate_parent_convergence env parent_deadline parent' state version deadline child now
      = propagate_parent_convergence env parent_deadline parent state version deadline child now"
    unfolding propagate_parent_convergence_def same ..
qed

lemma parents_do_not_leak_into_children_witness:
  "propagate_parent_convergence ex_penv 10 (ex_current\<lparr>cu_failure := Some exhausted_failure\<rparr>) RunState.Running 1 8 ex_current 5
    = propagate_parent_convergence ex_penv 10 (ex_current\<lparr>cu_failure := Some parent_failure\<rparr>) RunState.Running 1 8 ex_current 5"
  by (rule parents_do_not_leak_into_children [THEN conjunct2, rule_format]) simp

text \<open>Convergence reaches the children. When a parent has recorded its goal, propagating it to a child that
  has not ended and is not converging yet gives the child a snapshot with which the child converges
  too, to an end at least as strong as the parent's; only a spent generation can prevent it.\<close>

theorem convergence_reaches_children:
  assumes goal: "decide_run_convergence env parent_state parent_version parent_deadline current exhausted decided_at
        = Inr (Some goal)"
    and parent: "parent = current\<lparr>cu_control := cg_control goal, cu_failure := cg_failure goal\<rparr>"
    and child: "control_validate env (cu_control child) = Inr ()" "\<not> run_ended state" "version \<noteq> 0"
      "deadline \<le> parent_deadline" "\<not> marked child"
    and time: "cg_terminal_state goal = RunState.TimedOut \<longrightarrow> parent_deadline \<le> now"
      "rc_timeout_requested_at (cu_control current) \<noteq> None \<longrightarrow> parent_deadline \<le> now"
  shows "(\<exists>updated goal'.
      propagate_parent_convergence env parent_deadline parent state version deadline child now = Inr (Some updated)
      \<and> decide_run_convergence env state version deadline updated False now = Inr (Some goal')
      \<and> goal_rank (cg_terminal_state goal) \<le> goal_rank (cg_terminal_state goal'))
    \<or> propagate_parent_convergence env parent_deadline parent state version deadline child now
        = Inl OrchestratorError.CounterOverflow
    \<or> (\<exists>updated. propagate_parent_convergence env parent_deadline parent state version deadline child now
          = Inr (Some updated)
        \<and> decide_run_convergence env state version deadline updated False now = Inl OrchestratorError.CounterOverflow)"
proof -
  have timed: "rc_timeout_requested_at (cu_control parent) \<noteq> None \<longrightarrow> deadline \<le> now"
    using goal child(4) time parent by (cases rule: convergence_cases) auto
  have "control_validate env (cu_control parent) = Inr ()"
    "goal_marks (cg_terminal_state goal) (cu_control parent) (cu_failure parent)"
    using converged_control_valid [OF goal] convergence_marks [OF goal] parent by simp_all
  from propagate_marks [OF child this timed] consider updated s' where
      "propagate_parent_convergence env parent_deadline parent state version deadline child now = Inr (Some updated)"
      "goal_rank (cg_terminal_state goal) \<le> goal_rank s'" "goal_marks s' (cu_control updated) (cu_failure updated)"
    | "propagate_parent_convergence env parent_deadline parent state version deadline child now
        = Inl OrchestratorError.CounterOverflow" by blast
  then show ?thesis
  proof cases
    case 1
    from control_steps_later [OF propagate_control(1) [OF 1(1)] child(1)]
    have "control_validate env (cu_control updated) = Inr ()" by blast
    from marked_converges [OF 1(3) this child(2,3), of deadline False now] 1(1,2) show ?thesis
      by (meson order_trans)
  qed blast
qed

lemma convergence_reaches_children_witness:
  "\<exists>updated goal'.
     propagate_parent_convergence ex_penv 10 (ex_current\<lparr>cu_failure := Some exhausted_failure\<rparr>) RunState.Running 1 8 ex_current 5
       = Inr (Some updated)
     \<and> decide_run_convergence ex_penv RunState.Running 1 8 updated False 5 = Inr (Some goal')"
proof -
  have p: "propagate_parent_convergence ex_penv 10 (ex_current\<lparr>cu_failure := Some exhausted_failure\<rparr>) RunState.Running 1 8
      ex_current 5 = Inr (Some (ex_current\<lparr>cu_failure := Some parent_failure\<rparr>))"
    by (simp add: propagate_parent_convergence_def run_ended_def ex_current_def current_initial_def)
  have "decide_run_convergence ex_penv RunState.Running 1 8 (ex_current\<lparr>cu_failure := Some parent_failure\<rparr>) False 5
      \<noteq> Inl OrchestratorError.CounterOverflow"
    using ex_current_control [of ex_penv]
    by (simp add: decide_run_convergence_def run_ended_def) (simp add: ex_current_def current_initial_def)
  with p convergence_reaches_children [OF ex_current_goal [of ex_penv],
      where parent = "ex_current\<lparr>cu_failure := Some exhausted_failure\<rparr>" and child = ex_current
      and state = RunState.Running and version = 1 and deadline = 8 and now = 5]
    ex_current_control [of ex_penv] show ?thesis
    by (auto simp: ex_goal_def run_ended_def marked_def ex_current_def current_initial_def)
qed

end
