(* ===== verification/Candidates.thy ===== *)
theory Candidates
  imports ScopeEnvironment
begin

text \<open>
  Choosing one of several deployments for a dependency slot (\<open>derive_candidate_selection\<close> of
  \<open>platform-orchestrator/src/lib.rs\<close>), with the policy contracts of \<open>platform-contracts/src/resource.rs\<close>
  that it reads.
\<close>

section \<open>Policies\<close>

record ExactPolicyBinding =
  pb_deployment :: ExactDeploymentRef
  pb_revision :: ExactVersionRef

definition require_kind :: "ResourceId \<Rightarrow> ResourceKind \<Rightarrow> ResourceContractError + unit" where
  "require_kind v expected = fail_if (rid_kind v \<noteq> expected) WrongResourceIdKind"

definition require_deployment_kind :: "ExactDeploymentRef \<Rightarrow> ResourceKind \<Rightarrow> ResourceContractError + unit" where
  "require_deployment_kind r expected =
     rbind (exact_deployment_validate r) (\<lambda>_. fail_if (xd_resource_kind r \<noteq> expected) WrongResourceIdKind)"

definition policy_binding_ref_validate :: "ExactPolicyBinding \<Rightarrow> ResourceContractError + unit" where
  "policy_binding_ref_validate b =
     rbind (require_deployment_kind (pb_deployment b) ResourceKind.PolicyDeployment) (\<lambda>_.
     require_kind (xv_revision_id (pb_revision b)) ResourceKind.PolicyRevision)"

datatype CandidateSelectionMode = OnlyCandidate | OrderedFirst | RouteHash

record CandidateSelectionPolicyDocument =
  cp_schema_version :: u32
  cp_mode :: CandidateSelectionMode
  cp_route_schema_digest :: "Sha256Digest option"

definition selection_policy_validate :: "CandidateSelectionPolicyDocument \<Rightarrow> ResourceContractError + unit" where
  "selection_policy_validate d =
     fail_if (cp_schema_version d \<noteq> 1 \<or> (cp_mode d = RouteHash) \<noteq> (cp_route_schema_digest d \<noteq> None))
       InvalidPolicyDocument"

section \<open>The digest of a route\<close>

text \<open>\<open>u8::from_str_radix(_, 16)\<close> on two characters: two hexadecimal digits of either case, or a plus sign
  and one digit.\<close>

definition radix_digit :: "char \<Rightarrow> nat option" where
  "radix_digit c =
     (let n = byte_of c in
      if 48 \<le> n \<and> n \<le> 57 then Some (n - 48)
      else if 97 \<le> n \<and> n \<le> 102 then Some (n - 87)
      else if 65 \<le> n \<and> n \<le> 70 then Some (n - 55)
      else None)"

definition byte_from_radix :: "char \<Rightarrow> char \<Rightarrow> nat option" where
  "byte_from_radix a b =
     (case radix_digit b of
        None \<Rightarrow> None
      | Some low \<Rightarrow>
          (if a = CHR ''+'' then Some low
           else case radix_digit a of None \<Rightarrow> None | Some high \<Rightarrow> Some (16 * high + low)))"

text \<open>A digest has an even number of digits, so every slice of two characters is in range.\<close>

fun modulo_loop :: "nat \<Rightarrow> nat \<Rightarrow> string \<Rightarrow> OrchestratorError + nat" where
  "modulo_loop modulus remainder (a # b # rest) =
     rbind (ok_or InvalidCandidateSelection (byte_from_radix a b)) (\<lambda>byte.
     modulo_loop modulus ((remainder * 256 + byte) mod modulus) rest)"
| "modulo_loop modulus remainder _ = Inr remainder"

definition digest_modulo :: "Sha256Digest \<Rightarrow> nat \<Rightarrow> OrchestratorError + nat" where
  "digest_modulo digest modulus =
     (if take 7 digest \<noteq> ''sha256:'' then Inl InvalidCandidateSelection
      else modulo_loop modulus 0 (drop 7 digest))"

section \<open>The selection\<close>

record CandidateSelectionEvidence =
  ev_schema_version :: u32
  ev_slot_id :: string
  ev_policy_revision_id :: ResourceId
  ev_policy_semantic_digest :: Sha256Digest
  ev_ordered_candidate_deployment_digests :: "Sha256Digest list"
  ev_route_value :: "ExactRunValueRef option"
  ev_selected_deployment :: ExactDeploymentRef
  ev_result_digest :: Sha256Digest
  ev_canonical_digest :: Sha256Digest

definition candidate_ordering_key :: "('n, 'z) platform_env_scheme \<Rightarrow> ExactDeploymentRef \<Rightarrow> string \<times> string" where
  "candidate_ordering_key env c = (show_resource_id (pe_uuid env) (xd_deployment_id c), xd_deployment_digest c)"

text \<open>The order of a pair of strings.\<close>

definition key_less :: "string \<times> string \<Rightarrow> string \<times> string \<Rightarrow> bool" where
  "key_less a b \<longleftrightarrow> fst a < fst b \<or> fst a = fst b \<and> snd a < snd b"

definition deployment_json :: "('n, 'z) platform_env_scheme \<Rightarrow> ExactDeploymentRef \<Rightarrow> 'n Json" where
  "deployment_json env c = json_object
     [(''deployment_id'', json_id env (xd_deployment_id c)),
      (''resource_kind'', String (rkd_name (kind_descriptor (xd_resource_kind c)))),
      (''deployment_digest'', String (xd_deployment_digest c))]"

definition selected_index ::
  "('n, 'z) expression_env_scheme \<Rightarrow> CandidateSelectionPolicyDocument \<Rightarrow> nat \<Rightarrow>
   (ExactRunValueRef \<times> 'n ClosedJsonValue) option \<Rightarrow> OrchestratorError + nat" where
  "selected_index env document candidates route =
     (case (cp_mode document, route) of
        (OnlyCandidate, None) \<Rightarrow> if candidates = 1 then Inr 0 else Inl InvalidCandidateSelection
      | (OrderedFirst, None) \<Rightarrow> Inr 0
      | (RouteHash, Some (reference, v)) \<Rightarrow>
          if rid_kind (rv_value_id reference) = ResourceKind.RunValue
             \<and> rv_schema_digest reference = cj_schema_digest v
             \<and> rv_content_digest reference = cj_canonical_digest v
             \<and> cp_route_schema_digest document = Some (cj_schema_digest v)
             \<and> is_ok (closed_validate env v)
          then digest_modulo (cj_canonical_digest v) candidates
          else Inl InvalidCandidateSelection
      | _ \<Rightarrow> Inl InvalidCandidateSelection)"

text \<open>The evidence of a choice: the digest of the chosen deployment, and the digest of everything the choice
  rests on.\<close>

definition selection_evidence ::
  "('n, 'z) platform_env_scheme \<Rightarrow> string \<Rightarrow> ExactVersionRef \<Rightarrow> Sha256Digest list \<Rightarrow> ExactRunValueRef option \<Rightarrow>
   ExactDeploymentRef \<Rightarrow> OrchestratorError + CandidateSelectionEvidence" where
  "selection_evidence env slot_id revision digests route_value selected =
     rbind (document_digest env OrchestratorError.Canonicalization (deployment_json env selected)) (\<lambda>result_digest.
     rbind (document_digest env OrchestratorError.Canonicalization (Array
       [json_number env 1, String slot_id, json_id env (xv_revision_id revision),
        String (xv_semantic_digest revision), Array (map String digests),
        (case route_value of None \<Rightarrow> Null | Some r \<Rightarrow> run_value_json env r),
        deployment_json env selected, String result_digest])) (\<lambda>evidence_digest.
     Inr \<lparr>ev_schema_version = 1, ev_slot_id = slot_id,
          ev_policy_revision_id = xv_revision_id revision,
          ev_policy_semantic_digest = xv_semantic_digest revision,
          ev_ordered_candidate_deployment_digests = digests, ev_route_value = route_value,
          ev_selected_deployment = selected, ev_result_digest = result_digest,
          ev_canonical_digest = evidence_digest\<rparr>))"

definition derive_candidate_selection ::
  "('n, 'z) expression_env_scheme \<Rightarrow> string \<Rightarrow> ExactPolicyBinding \<Rightarrow> CandidateSelectionPolicyDocument \<Rightarrow>
   ExactDeploymentRef list \<Rightarrow> (ExactRunValueRef \<times> 'n ClosedJsonValue) option \<Rightarrow>
   OrchestratorError + CandidateSelectionEvidence" where
  "derive_candidate_selection env slot_id policy document candidates route =
     rbind (map_err InvalidCandidateSelection (policy_binding_ref_validate policy)) (\<lambda>_.
     rbind (map_err InvalidCandidateSelection (selection_policy_validate document)) (\<lambda>_.
     if \<not> is_stable_code slot_id
        \<or> candidates = []
        \<or> 512 < length candidates
        \<or> list_ex (\<lambda>c. \<not> is_ok (exact_deployment_validate c)
            \<or> xd_resource_kind c \<noteq> xd_resource_kind (hd candidates)) candidates
        \<or> windows2_any (\<lambda>a b. \<not> key_less (candidate_ordering_key env a) (candidate_ordering_key env b)) candidates
     then Inl InvalidCandidateSelection
     else
       rbind (selected_index env document (length candidates) route) (\<lambda>index.
       selection_evidence env slot_id (pb_revision policy) (map xd_deployment_digest candidates)
         (map_option fst route) (candidates ! index))))"

end
