(* ===== verification/CandidateRuns.thy ===== *)
theory CandidateRuns
  imports Candidates PlanRuns
begin

text \<open>What a candidate selection chooses, and that it chooses once.\<close>

section \<open>The value of a digest\<close>

definition hex_value :: "string \<Rightarrow> nat" where
  "hex_value s = foldl (\<lambda>v c. 16 * v + the (radix_digit c)) 0 s"

lemma foldl_hex: "foldl (\<lambda>v c. 16 * v + the (radix_digit c)) k s = 16 ^ length s * k + hex_value s"
proof (induction s arbitrary: k)
  case (Cons c s)
  let ?d = "the (radix_digit c)"
  from Cons.IH [of ?d] have "hex_value (c # s) = 16 ^ length s * ?d + hex_value s"
    by (simp add: hex_value_def)
  with Cons.IH [of "16 * k + ?d"] show ?case by (simp add: distrib_left mult.commute mult.left_commute)
qed (simp add: hex_value_def)

lemma hex_value_Cons: "hex_value (c # s) = the (radix_digit c) * 16 ^ length s + hex_value s"
  using foldl_hex [of "the (radix_digit c)" s] by (simp add: hex_value_def)

lemma radix_lower_hex: "is_lower_hex c \<Longrightarrow> \<exists>n. radix_digit c = Some n \<and> c \<noteq> CHR ''+''"
  by (auto simp: is_lower_hex_def radix_digit_def Let_def is_ascii_digit_def byte_of_def)

lemma modulo_loop_value:
  assumes "even (length s)" and "list_all is_lower_hex s" and "0 < m"
  shows "modulo_loop m (r mod m) s = Inr ((r * 16 ^ length s + hex_value s) mod m)"
  using assms(1,2)
proof (induction s arbitrary: r rule: induct_list012)
  case 1
  then show ?case by (simp add: hex_value_def)
next
  case (2 c)
  then show ?case by simp
next
  case (3 a b s)
  from 3(4) radix_lower_hex obtain x y where x: "radix_digit a = Some x" "a \<noteq> CHR ''+''" and y: "radix_digit b = Some y"
    by force
  have "(r mod m * 256 + (16 * x + y)) mod m = (r * 256 + (16 * x + y)) mod m"
    by (metis mod_add_left_eq mod_mult_left_eq)
  with 3(1) [of "r * 256 + (16 * x + y)"] 3(3,4) x y show ?case
    by (simp add: byte_from_radix_def hex_value_Cons) (simp add: algebra_simps)
qed

lemma parsed_digest_shape:
  "parse_digest d = Some d' \<Longrightarrow> d' = d \<and> take 7 d = ''sha256:'' \<and> length (drop 7 d) = 64 \<and> list_all is_lower_hex (drop 7 d)"
  by (auto simp: parse_digest_def Let_def split: if_splits)

lemma digest_modulo_value:
  assumes "parse_digest d = Some d" and "0 < m"
  shows "digest_modulo d m = Inr (hex_value (drop 7 d) mod m)"
proof -
  note shape = parsed_digest_shape [OF assms(1), THEN conjunct2]
  then have "even (length (drop 7 d))" by (simp only:) simp
  from modulo_loop_value [OF this _ assms(2), of 0] shape show ?thesis by (simp add: digest_modulo_def)
qed

section \<open>One listing of a set\<close>

lemma strict_listing_unique:
  assumes "transp R" and "asymp R" and "sorted_wrt R xs" and "sorted_wrt R ys" and "set xs = set ys"
  shows "xs = ys"
  using assms(3-)
proof (induction xs arbitrary: ys)
  case (Cons x xs)
  then obtain y zs where ys: "ys = y # zs" by (cases ys) auto
  have "x = y"
  proof (rule ccontr)
    assume "x \<noteq> y"
    with Cons.prems ys have "R x y" "R y x" by auto
    with assms(2) show False by (simp add: asympD)
  qed
  moreover have "x \<notin> set xs" "y \<notin> set zs" using Cons.prems ys assms(2) by (auto dest: asympD)
  ultimately have "set xs = set zs" using Cons.prems(3) ys by auto
  with Cons.IH [of zs] Cons.prems ys \<open>x = y\<close> show ?case by simp
qed simp

lemma key_less_order: "transp key_less" "asymp key_less"
  by (auto simp: key_less_def transp_def intro!: asympI intro: less_trans)

lemma windows2_sorted_wrt:
  "transp R \<Longrightarrow> \<not> windows2_any (\<lambda>a b. \<not> R a b) xs \<longleftrightarrow> sorted_wrt R xs"
  by (induction xs rule: induct_list012) (auto dest: transpD)

lemma evidence_selected: "selection_evidence env slot revision digests route selected = Inr e \<Longrightarrow> ev_selected_deployment e = selected"
  by (auto simp: selection_evidence_def rbind_eq_Inr)

lemma selection_parts:
  assumes "derive_candidate_selection env slot policy document candidates route = Inr e"
  obtains i where "candidates \<noteq> []"
    "\<not> list_ex (\<lambda>c. \<not> is_ok (exact_deployment_validate c) \<or> xd_resource_kind c \<noteq> xd_resource_kind (hd candidates)) candidates"
    "\<not> windows2_any (\<lambda>a b. \<not> key_less (candidate_ordering_key env a) (candidate_ordering_key env b)) candidates"
    "selected_index env document (length candidates) route = Inr i" "ev_selected_deployment e = candidates ! i"
    "selection_policy_validate document = Inr ()"
  using assms
  unfolding derive_candidate_selection_def rbind_eq_Inr map_err_eq_Inr if_Inl_eq_Inr de_Morgan_disj
  by (auto dest: evidence_selected)

lemma selection_Inr:
  assumes "derive_candidate_selection env slot policy document candidates route = Inr e"
  shows "candidates \<noteq> []" and "sorted_wrt (\<lambda>a b. key_less (candidate_ordering_key env a) (candidate_ordering_key env b)) candidates"
    and "\<forall>c \<in> set candidates. exact_deployment_validate c = Inr () \<and> xd_resource_kind c = xd_resource_kind (hd candidates)"
    and "\<exists>i. selected_index env document (length candidates) route = Inr i \<and> ev_selected_deployment e = candidates ! i"
    and "selection_policy_validate document = Inr ()"
proof -
  have "transp (\<lambda>a b. key_less (candidate_ordering_key env a) (candidate_ordering_key env b))"
    using key_less_order(1) unfolding transp_def by blast
  note sorted = windows2_sorted_wrt [OF this, of candidates]
  obtain i where parts: "candidates \<noteq> []"
    "\<not> list_ex (\<lambda>c. \<not> is_ok (exact_deployment_validate c) \<or> xd_resource_kind c \<noteq> xd_resource_kind (hd candidates)) candidates"
    "\<not> windows2_any (\<lambda>a b. \<not> key_less (candidate_ordering_key env a) (candidate_ordering_key env b)) candidates"
    "selected_index env document (length candidates) route = Inr i" "ev_selected_deployment e = candidates ! i"
    "selection_policy_validate document = Inr ()" by (rule selection_parts [OF assms])
  show "candidates \<noteq> []" by (fact parts(1))
  show "sorted_wrt (\<lambda>a b. key_less (candidate_ordering_key env a) (candidate_ordering_key env b)) candidates"
    using sorted parts(3) by (rule iffD1)
  show "\<forall>c \<in> set candidates. exact_deployment_validate c = Inr () \<and> xd_resource_kind c = xd_resource_kind (hd candidates)"
    using parts(2) by (simp add: list_ex_iff is_ok_iff)
  show "\<exists>i. selected_index env document (length candidates) route = Inr i \<and> ev_selected_deployment e = candidates ! i"
    using parts(4,5) by blast
  show "selection_policy_validate document = Inr ()" by (fact parts(6))
qed

section \<open>A concrete selection\<close>

definition ex_candidates :: "ExactDeploymentRef list" where
  "ex_candidates = map (\<lambda>n. \<lparr>xd_deployment_id = ResourceId ResourceKind.ModelDeployment n,
     xd_resource_kind = ResourceKind.ModelDeployment, xd_deployment_digest = []\<rparr>) [1]"

definition ex_selection_policy :: ExactPolicyBinding where
  "ex_selection_policy =
     \<lparr>pb_deployment = \<lparr>xd_deployment_id = ResourceId ResourceKind.PolicyDeployment 1,
        xd_resource_kind = ResourceKind.PolicyDeployment, xd_deployment_digest = []\<rparr>,
      pb_revision = \<lparr>xv_revision_id = ResourceId ResourceKind.PolicyRevision 1,
        xv_resource_kind = ResourceKind.PolicyRevision, xv_semantic_digest = []\<rparr>\<rparr>"

definition ex_selection_document :: CandidateSelectionPolicyDocument where
  "ex_selection_document = \<lparr>cp_schema_version = 1, cp_mode = OnlyCandidate, cp_route_schema_digest = None\<rparr>"

lemma closed_value_digest:
  "closed_validate env v = Inr () \<Longrightarrow> parse_digest (cj_canonical_digest v) = Some (cj_canonical_digest v)"
  by (auto simp: closed_validate_def rbind_eq_Inr map_err_eq_Inr ok_or_eq_Inr document_digest_def fail_if_eq_Inr
      dest: parsed_digest_shape split: if_splits)

lemma ex_penv_array_digest: "document_digest ex_penv e (Array xs) = document_digest ex_penv e (json_object [])"
  by (simp add: document_digest_def canonical_digest_def canonical_json_def ex_penv_def ex_xenv_def json_object_def)

lemma ex_selection:
  "\<exists>e. derive_candidate_selection ex_penv ''model'' ex_selection_policy ex_selection_document ex_candidates None = Inr e"
proof -
  have stable: "is_stable_code ''model''" by (simp add: is_stable_code_def is_ascii_lowercase_def byte_of_def)
  have "is_ok (selection_evidence ex_penv ''model'' (pb_revision ex_selection_policy) (map xd_deployment_digest ex_candidates)
      None (ex_candidates ! 0))"
    by (simp add: selection_evidence_def deployment_json_def ex_penv_digest ex_penv_array_digest)
  with stable show ?thesis
    by (simp add: derive_candidate_selection_def selected_index_def is_ok_iff ex_candidates_def ex_selection_document_def
        ex_selection_policy_def policy_binding_ref_validate_def selection_policy_validate_def require_kind_def
        require_deployment_kind_def exact_deployment_validate_def is_deployment_def)
qed

section \<open>Properties\<close>

text \<open>C38: A selection is what its policy says. The chosen deployment is one of the candidates, a valid deployment
  of their common kind: the only one, the first in the order of ids and digests, or the one whose
  position is the route value's digest, read as a number, modulo the number of candidates.\<close>

theorem selections_follow_their_policy:
  assumes "derive_candidate_selection env slot policy document candidates route = Inr e"
  shows "ev_selected_deployment e \<in> set candidates \<and> exact_deployment_validate (ev_selected_deployment e) = Inr ()
    \<and> (case cp_mode document of
        OnlyCandidate \<Rightarrow> route = None \<and> candidates = [ev_selected_deployment e]
      | OrderedFirst \<Rightarrow> route = None \<and> (\<forall>c \<in> set candidates - {ev_selected_deployment e}.
          key_less (candidate_ordering_key env (ev_selected_deployment e)) (candidate_ordering_key env c))
      | RouteHash \<Rightarrow> (\<exists>reference v. route = Some (reference, v)
          \<and> cp_route_schema_digest document = Some (cj_schema_digest v)
          \<and> ev_selected_deployment e
              = candidates ! (hex_value (drop 7 (cj_canonical_digest v)) mod length candidates)))"
proof -
  note facts = selection_Inr [OF assms]
  from facts(4) obtain i where i: "selected_index env document (length candidates) route = Inr i"
    and e: "ev_selected_deployment e = candidates ! i" by blast
  from facts(1) obtain c cs where cs: "candidates = c # cs" by (cases candidates) auto
  have index: "i < length candidates \<and> (case cp_mode document of
        OnlyCandidate \<Rightarrow> route = None \<and> cs = [] \<and> i = 0
      | OrderedFirst \<Rightarrow> route = None \<and> i = 0
      | RouteHash \<Rightarrow> (\<exists>reference v. route = Some (reference, v)
          \<and> cp_route_schema_digest document = Some (cj_schema_digest v)
          \<and> i = hex_value (drop 7 (cj_canonical_digest v)) mod length candidates))"
    using i cs
    by (cases "cp_mode document"; cases route)
      (auto simp: selected_index_def is_ok_iff digest_modulo_value [OF closed_value_digest] split: if_splits)
  with e have "ev_selected_deployment e \<in> set candidates" by simp
  with facts(3) have "ev_selected_deployment e \<in> set candidates
    \<and> exact_deployment_validate (ev_selected_deployment e) = Inr ()" by blast
  with index facts(2) e show ?thesis
    by (cases "cp_mode document") (simp_all add: cs, blast?)
qed

lemma selections_follow_their_policy_witness:
  "\<exists>e. derive_candidate_selection ex_penv ''model'' ex_selection_policy ex_selection_document ex_candidates None = Inr e
    \<and> ex_candidates = [ev_selected_deployment e]"
proof -
  from ex_selection obtain e where e: "derive_candidate_selection ex_penv ''model'' ex_selection_policy
      ex_selection_document ex_candidates None = Inr e" by blast
  with selections_follow_their_policy [OF e] show ?thesis by (auto simp: ex_selection_document_def)
qed

text \<open>A selection depends on the set of candidates, not on how they are listed. Two selections accepted for the
  same slot, policy and route over the same candidates produce the same evidence.\<close>

theorem selections_are_deterministic:
  assumes "derive_candidate_selection env slot policy document candidates route = Inr e"
    and "derive_candidate_selection env slot policy document candidates' route = Inr e'"
    and "set candidates = set candidates'"
  shows "candidates = candidates' \<and> e = e'"
proof -
  let ?R = "\<lambda>a b. key_less (candidate_ordering_key env a) (candidate_ordering_key env b)"
  have "transp ?R" "asymp ?R" using key_less_order unfolding transp_def asymp_on_def by blast+
  from strict_listing_unique [OF this selection_Inr(2) [OF assms(1)] selection_Inr(2) [OF assms(2)] assms(3)]
  show ?thesis using assms(1,2) by simp
qed

lemma selections_are_deterministic_witness:
  "\<exists>!e. derive_candidate_selection ex_penv ''model'' ex_selection_policy ex_selection_document ex_candidates None = Inr e"
  using ex_selection selections_are_deterministic [of ex_penv "''model''" ex_selection_policy ex_selection_document
      ex_candidates None _ ex_candidates] by (metis Inr_inject)

end
