(* ===== verification/McpForms.thy ===== *)
theory McpForms
  imports Schema
begin

text \<open>
  The form profile of the Model Context Protocol (\<open>platform-contracts/src/schema.rs\<close>): the schemas a server
  may ask a person to fill in, the answers that fit them, and the interaction schema document that carries
  either profile.
\<close>

section \<open>Parameters\<close>

text \<open>The finite value of \<open>Number::as_f64\<close>, and whether \<open>NaiveDate::parse_from_str\<close> and
  \<open>DateTime::parse_from_rfc3339\<close> accept a text (the chrono crate).\<close>

record 'n form_env = "'n schema_env" +
  fe_is_date :: "string \<Rightarrow> bool"
  fe_is_date_time :: "string \<Rightarrow> bool"

definition as_f64 :: "('n, 'z) form_env_scheme \<Rightarrow> 'n Json \<Rightarrow> rat option" where
  "as_f64 env v = (case v of Number n \<Rightarrow> sj_as_f64 env n | _ \<Rightarrow> None)"

definition is_i64_or_u64 :: "('n, 'z) expression_env_scheme \<Rightarrow> 'n Json \<Rightarrow> bool" where
  "is_i64_or_u64 env v =
     (case v of Number n \<Rightarrow> sj_as_i64 env n \<noteq> None \<or> sj_as_u64 env n \<noteq> None | _ \<Rightarrow> False)"

definition is_boolean :: "'n Json \<Rightarrow> bool" where
  "is_boolean v = (case v of Bool _ \<Rightarrow> True | _ \<Rightarrow> False)"

lemma as_intros [simp]: "as_str (String s) = Some s" "as_object (Object m) = Some m" "as_array (Array xs) = Some xs"
  by (simp_all add: as_str_def as_object_def as_array_def)

section \<open>Texts\<close>

definition MAX_MCP_FORM_PROPERTIES :: nat where "MAX_MCP_FORM_PROPERTIES = 64"
definition MAX_MCP_FORM_ENUM_VALUES :: nat where "MAX_MCP_FORM_ENUM_VALUES = 128"
definition MAX_MCP_FORM_STRING_BYTES :: nat where "MAX_MCP_FORM_STRING_BYTES = 8192"

definition MCP_FORM_SCHEMA_PROFILE_ID :: string where
  "MCP_FORM_SCHEMA_PROFILE_ID = ''mcp.form-json-schema/2025-11-25''"

definition SENSITIVE_TERMS :: "string list" where
  "SENSITIVE_TERMS =
     [''password'', ''passphrase'', ''api_key'', ''apikey'', ''access_token'', ''refresh_token'', ''secret'',
      ''credential'', ''credit_card'', ''card_number'', ''cvv'', ''bank_account'', ''private_key'',
      ''social_security'']"

definition to_ascii_lowercase :: "char \<Rightarrow> char" where
  "to_ascii_lowercase c = (if is_ascii_uppercase c then char_of (byte_of c + 32) else c)"

fun contains :: "string \<Rightarrow> string \<Rightarrow> bool" where
  "contains term [] = (term = [])"
| "contains term (c # rest) = (take (length term) (c # rest) = term \<or> contains term rest)"

definition normalized_term :: "string \<Rightarrow> string" where
  "normalized_term v = map (\<lambda>c. let l = to_ascii_lowercase c in if l = CHR ''-'' \<or> l = CHR '' '' then CHR ''_'' else l) v"

definition sensitive_form_term :: "string \<Rightarrow> bool" where
  "sensitive_form_term v \<longleftrightarrow> list_ex (\<lambda>term. contains term (normalized_term v)) SENSITIVE_TERMS"

text \<open>\<open>char::is_whitespace\<close> over the UTF-8 bytes: U+0009 to U+000D, the space, U+0085, U+00A0, U+1680,
  U+2000 to U+200A, U+2028, U+2029, U+202F, U+205F and U+3000.\<close>

definition whitespace_at :: "nat list \<Rightarrow> bool" where
  "whitespace_at bytes \<longleftrightarrow>
     (case bytes of
        [] \<Rightarrow> False
      | a # rest \<Rightarrow>
          9 \<le> a \<and> a \<le> 13 \<or> a = 32
          \<or> (case rest of
               [] \<Rightarrow> False
             | b # rest \<Rightarrow>
                 a = 194 \<and> (b = 133 \<or> b = 160)
                 \<or> (case rest of
                      [] \<Rightarrow> False
                    | c # _ \<Rightarrow>
                        a = 225 \<and> b = 154 \<and> c = 128
                        \<or> a = 226 \<and> b = 128 \<and> (128 \<le> c \<and> c \<le> 138 \<or> c = 168 \<or> c = 169 \<or> c = 175)
                        \<or> a = 226 \<and> b = 129 \<and> c = 159
                        \<or> a = 227 \<and> b = 128 \<and> c = 128)))"

fun has_whitespace :: "string \<Rightarrow> bool" where
  "has_whitespace [] = False"
| "has_whitespace (c # rest) = (whitespace_at (map byte_of (c # rest)) \<or> has_whitespace rest)"

definition valid_mcp_string_format :: "('n, 'z) form_env_scheme \<Rightarrow> string option \<Rightarrow> string \<Rightarrow> bool" where
  "valid_mcp_string_format env format v =
     (case format of
        None \<Rightarrow> True
      | Some f \<Rightarrow>
          if f = ''uri'' then CHR '':'' \<in> set v \<and> \<not> has_whitespace v
          else if f = ''email'' then
            some_and (split_once (CHR ''@'') v) (\<lambda>(left, right). left \<noteq> [] \<and> CHR ''.'' \<in> set right)
          else if f = ''date'' then fe_is_date env v
          else if f = ''date-time'' then fe_is_date_time env v
          else False)"

section \<open>Bounds\<close>

definition optional_u64 ::
  "('n, 'z) expression_env_scheme \<Rightarrow> 'n fields \<Rightarrow> string \<Rightarrow> string \<Rightarrow> SchemaProfileError + u64 option" where
  "optional_u64 env node key path =
     (case map_of node key of
        None \<Rightarrow> Inr None
      | Some v \<Rightarrow>
          rbind (ok_or (SchemaProfileError (path @ ''/'' @ key) ''mcp_form_bound'') (as_u64 env v)) (\<lambda>n. Inr (Some n)))"

definition require_only_keys :: "'n fields \<Rightarrow> string list \<Rightarrow> string \<Rightarrow> string \<Rightarrow> SchemaProfileError + unit" where
  "require_only_keys node allowed path code =
     (case List.find (\<lambda>key. key \<notin> set allowed) (map fst node) of
        Some key \<Rightarrow> Inl (SchemaProfileError (path @ ''/'' @ key) code)
      | None \<Rightarrow> Inr ())"

definition u64_or :: "nat \<Rightarrow> u64 option \<Rightarrow> nat" where
  "u64_or d n = (case n of None \<Rightarrow> d | Some w \<Rightarrow> unat w)"

definition string_instance_in_bounds :: "('n, 'z) expression_env_scheme \<Rightarrow> 'n fields \<Rightarrow> string \<Rightarrow> bool" where
  "string_instance_in_bounds env node text \<longleftrightarrow>
     u64_or 0 (get_as (as_u64 env) node ''minLength'') \<le> char_count text
     \<and> char_count text \<le> u64_or MAX_MCP_FORM_STRING_BYTES (get_as (as_u64 env) node ''maxLength'')
     \<and> length text \<le> MAX_MCP_FORM_STRING_BYTES"

definition numeric_instance_in_bounds :: "('n, 'z) form_env_scheme \<Rightarrow> 'n fields \<Rightarrow> 'n Json \<Rightarrow> bool" where
  "numeric_instance_in_bounds env node v \<longleftrightarrow>
     (case as_f64 env v of
        None \<Rightarrow> True
      | Some actual \<Rightarrow>
          none_or (get_as (as_f64 env) node ''minimum'') (\<lambda>minimum. minimum \<le> actual)
          \<and> none_or (get_as (as_f64 env) node ''maximum'') (\<lambda>maximum. actual \<le> maximum))"

section \<open>Choices\<close>

text \<open>One option of \<open>oneOf\<close> or \<open>anyOf\<close>: exactly a constant and its title.\<close>

definition option_constant :: "'n Json \<Rightarrow> string option" where
  "option_constant v =
     Option.bind (as_object v) (\<lambda>option.
     if \<not> list_all (\<lambda>(key, _). key \<in> {''const'', ''title''}) option \<or> length option \<noteq> 2
        \<or> get_as as_str option ''title'' = None
     then None
     else get_as as_str option ''const'')"

definition enum_candidates :: "'n fields \<Rightarrow> string \<Rightarrow> SchemaProfileError + string list option" where
  "enum_candidates node path =
     (case map_of node ''enum'' of
        Some values \<Rightarrow>
          if map_of node ''oneOf'' \<noteq> None then Inl (SchemaProfileError path ''mcp_form_enum_shape'')
          else rbind (ok_or (SchemaProfileError path ''mcp_form_enum_values'') (as_array values)) (\<lambda>values.
            Inr (those (map as_str values)))
      | None \<Rightarrow>
          (case (case map_of node ''oneOf'' of Some v \<Rightarrow> Some v | None \<Rightarrow> map_of node ''anyOf'') of
             Some values \<Rightarrow> Inr (Option.bind (as_array values) (\<lambda>values. those (map option_constant values)))
           | None \<Rightarrow> Inr None))"

definition valid_choice_text :: "string \<Rightarrow> bool" where
  "valid_choice_text v \<longleftrightarrow> v \<noteq> [] \<and> length v \<le> 512 \<and> \<not> has_control v"

text \<open>The set of choices is a list without duplicates.\<close>

definition mcp_enum_values :: "'n fields \<Rightarrow> string \<Rightarrow> SchemaProfileError + string list" where
  "mcp_enum_values node path =
     rbind (enum_candidates node path) (\<lambda>found.
     rbind (ok_or (SchemaProfileError path ''mcp_form_enum_values'') found) (\<lambda>candidates.
     if candidates = [] \<or> MAX_MCP_FORM_ENUM_VALUES < length candidates
        \<or> list_ex (\<lambda>v. \<not> valid_choice_text v) candidates
     then Inl (SchemaProfileError path ''mcp_form_enum_values'')
     else if \<not> distinct candidates then Inl (SchemaProfileError path ''mcp_form_enum_values'')
     else
       rbind (case map_of node ''enumNames'' of
           None \<Rightarrow> Inr ()
         | Some names \<Rightarrow>
             rbind (ok_or (SchemaProfileError path ''mcp_form_enum_names'') (as_array names)) (\<lambda>names.
             fail_if (length names \<noteq> length candidates
                 \<or> list_ex (\<lambda>name. none_or (as_str name) (\<lambda>n. \<not> valid_choice_text n)) names)
               (SchemaProfileError path ''mcp_form_enum_names''))) (\<lambda>_.
       Inr candidates)))"

section \<open>Properties of a form\<close>

definition validate_mcp_boolean_schema :: "'n fields \<Rightarrow> string \<Rightarrow> SchemaProfileError + unit" where
  "validate_mcp_boolean_schema node path =
     rbind (require_only_keys node [''type'', ''title'', ''description'', ''default''] path
       ''mcp_form_boolean_keyword'') (\<lambda>_.
     fail_if (some_and (map_of node ''default'') (\<lambda>v. \<not> is_boolean v)) (SchemaProfileError path ''mcp_form_default''))"

definition validate_mcp_number_schema ::
  "('n, 'z) form_env_scheme \<Rightarrow> 'n fields \<Rightarrow> string \<Rightarrow> SchemaProfileError + unit" where
  "validate_mcp_number_schema env node path =
     rbind (require_only_keys node [''type'', ''title'', ''description'', ''minimum'', ''maximum'', ''default''] path
       ''mcp_form_number_keyword'') (\<lambda>_.
     rbind (check_all (\<lambda>key. fail_if (some_and (map_of node key) (\<lambda>v. \<not> is_number v))
         (SchemaProfileError path ''mcp_form_number'')) [''minimum'', ''maximum'', ''default'']) (\<lambda>_.
     if some_and (get_as (as_f64 env) node ''minimum'') (\<lambda>minimum.
         some_and (get_as (as_f64 env) node ''maximum'') (\<lambda>maximum. maximum < minimum))
     then Inl (SchemaProfileError path ''mcp_form_number_bounds'')
     else fail_if (get_as as_str node ''type'' = Some ''integer''
         \<and> list_ex (\<lambda>v. \<not> is_i64_or_u64 env v)
             (List.map_filter (map_of node) [''minimum'', ''maximum'', ''default'']))
       (SchemaProfileError path ''mcp_form_integer'')))"

definition has_choices :: "'n fields \<Rightarrow> bool" where
  "has_choices node \<longleftrightarrow>
     map_of node ''enum'' \<noteq> None \<or> map_of node ''oneOf'' \<noteq> None \<or> map_of node ''enumNames'' \<noteq> None"

definition validate_mcp_choice_schema :: "'n fields \<Rightarrow> string \<Rightarrow> SchemaProfileError + unit" where
  "validate_mcp_choice_schema node path =
     rbind (require_only_keys node
       [''type'', ''title'', ''description'', ''enum'', ''enumNames'', ''oneOf'', ''default''] path
       ''mcp_form_enum_keyword'') (\<lambda>_.
     rbind (mcp_enum_values node path) (\<lambda>values.
     fail_if (some_and (map_of node ''default'') (\<lambda>v. none_or (as_str v) (\<lambda>text. text \<notin> set values)))
       (SchemaProfileError path ''mcp_form_default'')))"

definition validate_mcp_text_schema ::
  "('n, 'z) form_env_scheme \<Rightarrow> 'n fields \<Rightarrow> string \<Rightarrow> SchemaProfileError + unit" where
  "validate_mcp_text_schema env node path =
     rbind (require_only_keys node
       [''type'', ''title'', ''description'', ''minLength'', ''maxLength'', ''format'', ''default''] path
       ''mcp_form_string_keyword'') (\<lambda>_.
     rbind (optional_u64 env node ''minLength'' path) (\<lambda>minimum.
     rbind (optional_u64 env node ''maxLength'' path) (\<lambda>maximum.
     if some_and maximum (\<lambda>n. MAX_MCP_FORM_STRING_BYTES < unat n)
        \<or> some_and minimum (\<lambda>low. some_and maximum (\<lambda>high. high < low))
     then Inl (SchemaProfileError path ''mcp_form_string_bounds'')
     else if some_and (map_of node ''format'') (\<lambda>v.
         as_str v \<notin> Some ` {''uri'', ''email'', ''date'', ''date-time''})
     then Inl (SchemaProfileError path ''mcp_form_string_format'')
     else fail_if (some_and (map_of node ''default'') (\<lambda>v. none_or (as_str v) (\<lambda>text.
           MAX_MCP_FORM_STRING_BYTES < length text
           \<or> \<not> string_instance_in_bounds env node text
           \<or> \<not> valid_mcp_string_format env (get_as as_str node ''format'') text)))
       (SchemaProfileError path ''mcp_form_default''))))"

definition validate_mcp_string_schema ::
  "('n, 'z) form_env_scheme \<Rightarrow> 'n fields \<Rightarrow> string \<Rightarrow> SchemaProfileError + unit" where
  "validate_mcp_string_schema env node path =
     (if has_choices node then validate_mcp_choice_schema node path
      else validate_mcp_text_schema env node path)"

text \<open>The default of a multiple choice: texts only, each once, each a choice, as many as the bounds allow.\<close>

definition valid_selection :: "nat \<Rightarrow> nat \<Rightarrow> string list \<Rightarrow> 'n Json list \<Rightarrow> bool" where
  "valid_selection minimum maximum values items \<longleftrightarrow>
     minimum \<le> length items \<and> length items \<le> maximum
     \<and> length (remdups (List.map_filter as_str items)) = length items
     \<and> list_all (\<lambda>item. some_and (as_str item) (\<lambda>text. text \<in> set values)) items"

definition validate_mcp_multi_select_schema ::
  "('n, 'z) form_env_scheme \<Rightarrow> 'n fields \<Rightarrow> string \<Rightarrow> SchemaProfileError + unit" where
  "validate_mcp_multi_select_schema env node path =
     rbind (require_only_keys node
       [''type'', ''title'', ''description'', ''minItems'', ''maxItems'', ''items'', ''default''] path
       ''mcp_form_multi_keyword'') (\<lambda>_.
     rbind (ok_or (SchemaProfileError (path @ ''/items'') ''mcp_form_multi_items'')
       (get_as as_object node ''items'')) (\<lambda>items.
     rbind (require_only_keys items [''type'', ''enum'', ''anyOf''] (path @ ''/items'')
       ''mcp_form_multi_items_keyword'') (\<lambda>_.
     if some_and (map_of items ''type'') (\<lambda>v. as_str v \<noteq> Some ''string'')
     then Inl (SchemaProfileError (path @ ''/items/type'') ''mcp_form_multi_items'')
     else
       rbind (mcp_enum_values items (path @ ''/items'')) (\<lambda>values.
       rbind (optional_u64 env node ''minItems'' path) (\<lambda>min_items.
       rbind (optional_u64 env node ''maxItems'' path) (\<lambda>max_items.
       let minimum = u64_or 0 min_items; maximum = u64_or (length values) max_items
       in if maximum < minimum \<or> length values < maximum
          then Inl (SchemaProfileError path ''mcp_form_multi_bounds'')
          else
            case map_of node ''default'' of
              None \<Rightarrow> Inr ()
            | Some v \<Rightarrow>
                rbind (ok_or (SchemaProfileError path ''mcp_form_default'') (as_array v)) (\<lambda>chosen.
                fail_if (\<not> valid_selection minimum maximum values chosen)
                  (SchemaProfileError path ''mcp_form_default''))))))))"

definition validate_presentation :: "'n fields \<Rightarrow> string \<Rightarrow> string \<Rightarrow> SchemaProfileError + unit" where
  "validate_presentation node path key =
     fail_if (some_and (map_of node key) (\<lambda>v. none_or (as_str v) (\<lambda>text.
         MAX_MCP_FORM_STRING_BYTES < length text \<or> has_control text \<or> sensitive_form_term text)))
       (SchemaProfileError (path @ ''/'' @ key) ''mcp_form_presentation'')"

definition validate_mcp_primitive_schema ::
  "('n, 'z) form_env_scheme \<Rightarrow> 'n Json \<Rightarrow> string \<Rightarrow> SchemaProfileError + unit" where
  "validate_mcp_primitive_schema env v path =
     rbind (ok_or (SchemaProfileError path ''mcp_form_property'') (as_object v)) (\<lambda>node.
     rbind (check_all (validate_presentation node path) [''title'', ''description'']) (\<lambda>_.
     case get_as as_str node ''type'' of
       None \<Rightarrow> Inl (SchemaProfileError (path @ ''/type'') ''mcp_form_type'')
     | Some kind \<Rightarrow>
         if kind = ''boolean'' then validate_mcp_boolean_schema node path
         else if kind = ''number'' \<or> kind = ''integer'' then validate_mcp_number_schema env node path
         else if kind = ''string'' then validate_mcp_string_schema env node path
         else if kind = ''array'' then validate_mcp_multi_select_schema env node path
         else Inl (SchemaProfileError (path @ ''/type'') ''mcp_form_type'')))"

definition validate_form_property ::
  "('n, 'z) form_env_scheme \<Rightarrow> string \<times> 'n Json \<Rightarrow> SchemaProfileError + unit" where
  "validate_form_property env entry =
     (let (name, definition) = entry in
      if name = [] \<or> 128 < length name \<or> has_control name \<or> sensitive_form_term name
      then Inl (SchemaProfileError (''$/properties/'' @ name) ''mcp_form_property_name'')
      else validate_mcp_primitive_schema env definition (''$/properties/'' @ name))"

definition validate_form_required_name ::
  "'n fields \<Rightarrow> string list \<Rightarrow> 'n Json \<Rightarrow> SchemaProfileError + string list" where
  "validate_form_required_name properties names v =
     rbind (ok_or (SchemaProfileError ''$/required'' ''mcp_form_required_entry'') (as_str v)) (\<lambda>name.
     if map_of properties name = None \<or> name \<in> set names
     then Inl (SchemaProfileError ''$/required'' ''mcp_form_required_entry'')
     else Inr (name # names))"

definition validate_mcp_form_schema :: "('n, 'z) form_env_scheme \<Rightarrow> 'n Json \<Rightarrow> SchemaProfileError + unit" where
  "validate_mcp_form_schema env schema =
     rbind (ok_or (SchemaProfileError ''$'' ''mcp_form_schema'') (sc_encoded_length env schema)) (\<lambda>bytes.
     if 65536 < bytes then Inl (SchemaProfileError ''$'' ''mcp_form_schema_bound'')
     else
       rbind (ok_or (SchemaProfileError ''$'' ''mcp_form_root'') (as_object schema)) (\<lambda>root_node.
       rbind (require_only_keys root_node [''$schema'', ''type'', ''properties'', ''required''] ''$''
         ''mcp_form_keyword'') (\<lambda>_.
       if get_as as_str root_node ''type'' \<noteq> Some ''object''
       then Inl (SchemaProfileError ''$/type'' ''mcp_form_root_type'')
       else if some_and (map_of root_node ''$schema'') (\<lambda>dialect. as_str dialect \<notin> Some `
           {''https://json-schema.org/draft/2020-12/schema'', ''https://json-schema.org/draft/2020-12/schema#''})
       then Inl (SchemaProfileError ''$/$schema'' ''mcp_form_dialect'')
       else
         rbind (ok_or (SchemaProfileError ''$/properties'' ''mcp_form_properties'')
           (get_as as_object root_node ''properties'')) (\<lambda>properties.
         if MAX_MCP_FORM_PROPERTIES < length properties
         then Inl (SchemaProfileError ''$/properties'' ''mcp_form_properties_bound'')
         else
           rbind (check_all (validate_form_property env) properties) (\<lambda>_.
           rbind (case map_of root_node ''required'' of
               None \<Rightarrow> Inr []
             | Some v \<Rightarrow> ok_or (SchemaProfileError ''$/required'' ''mcp_form_required_type'') (as_array v)) (\<lambda>required.
           rbind (fold_result (validate_form_required_name properties) [] required) (\<lambda>_.
           Inr ())))))))"

section \<open>Answers\<close>

definition valid_mcp_instance ::
  "('n, 'z) form_env_scheme \<Rightarrow> 'n fields \<Rightarrow> 'n Json \<Rightarrow> string \<Rightarrow> bool" where
  "valid_mcp_instance env node v path \<longleftrightarrow>
     (case get_as as_str node ''type'' of
        None \<Rightarrow> False
      | Some kind \<Rightarrow>
          if kind = ''boolean'' then is_boolean v
          else if kind = ''integer'' then is_i64_or_u64 env v
          else if kind = ''number'' then is_number v
          else if kind = ''string'' then
            some_and (as_str v) (\<lambda>text.
              string_instance_in_bounds env node text
              \<and> (map_of node ''enum'' = None \<and> map_of node ''oneOf'' = None
                 \<or> (case mcp_enum_values node path of Inl _ \<Rightarrow> True | Inr values \<Rightarrow> text \<in> set values))
              \<and> valid_mcp_string_format env (get_as as_str node ''format'') text)
          else if kind = ''array'' then
            some_and (as_array v) (\<lambda>items.
              let found = Option.bind (get_as as_object node ''items'') (\<lambda>m.
                    case mcp_enum_values m path of Inl _ \<Rightarrow> None | Inr values \<Rightarrow> Some values);
                  minimum = u64_or 0 (get_as (as_u64 env) node ''minItems'');
                  maximum = u64_or (case found of None \<Rightarrow> 0 | Some values \<Rightarrow> length values)
                    (get_as (as_u64 env) node ''maxItems'')
              in some_and found (\<lambda>values. valid_selection minimum maximum values items))
          else False)"

text \<open>The panic of \<open>expect\<close> and of an index that is not there has a code of its own.\<close>

definition form_panic :: SchemaProfileError where
  "form_panic = SchemaProfileError [] ''panic''"

definition validate_mcp_primitive_instance ::
  "('n, 'z) form_env_scheme \<Rightarrow> 'n Json \<Rightarrow> 'n Json \<Rightarrow> string \<Rightarrow> SchemaProfileError + unit" where
  "validate_mcp_primitive_instance env schema v path =
     (case as_object schema of
        None \<Rightarrow> Inl form_panic
      | Some node \<Rightarrow>
          fail_if (\<not> valid_mcp_instance env node v path \<or> \<not> numeric_instance_in_bounds env node v)
            (SchemaProfileError path ''mcp_form_instance''))"

definition validate_mcp_form_instance ::
  "('n, 'z) form_env_scheme \<Rightarrow> 'n Json \<Rightarrow> 'n Json \<Rightarrow> SchemaProfileError + unit" where
  "validate_mcp_form_instance env schema v =
     (case Option.bind (value_get schema ''properties'') as_object of
        None \<Rightarrow> Inl form_panic
      | Some properties \<Rightarrow>
          rbind (ok_or (SchemaProfileError ''$'' ''mcp_form_instance_type'') (as_object v)) (\<lambda>answers.
          if list_ex (\<lambda>(name, _). map_of properties name = None) answers
          then Inl (SchemaProfileError ''$'' ''mcp_form_instance_property'')
          else
            rbind (check_all (\<lambda>name. fail_if (map_of answers name = None)
                (SchemaProfileError (''$/'' @ name) ''mcp_form_instance_required''))
              (case Option.bind (value_get schema ''required'') as_array of
                 None \<Rightarrow> []
               | Some required \<Rightarrow> List.map_filter as_str required)) (\<lambda>_.
            check_all (\<lambda>(name, answer).
              rbind (ok_or form_panic (map_of properties name)) (\<lambda>property.
              validate_mcp_primitive_instance env property answer (''$/'' @ name))) answers)))"

section \<open>Interaction schemas\<close>

record 'n InteractionSchemaDocument =
  is_schema_version :: u32
  is_profile :: string
  is_schema :: "'n Json"
  is_canonical_digest :: Sha256Digest

definition interaction_schema_build ::
  "('n, 'z) schema_env_scheme \<Rightarrow> 'n Json \<Rightarrow> SchemaProfileError + 'n InteractionSchemaDocument" where
  "interaction_schema_build env schema =
     rbind (validate_closed_schema env schema) (\<lambda>_.
     rbind (schema_digest env schema) (\<lambda>digest.
     Inr \<lparr>is_schema_version = 1, is_profile = CLOSED_SCHEMA_PROFILE_ID, is_schema = schema,
          is_canonical_digest = digest\<rparr>))"

definition interaction_schema_build_mcp_form ::
  "('n, 'z) form_env_scheme \<Rightarrow> 'n Json \<Rightarrow> SchemaProfileError + 'n InteractionSchemaDocument" where
  "interaction_schema_build_mcp_form env schema =
     rbind (validate_mcp_form_schema env schema) (\<lambda>_.
     rbind (schema_digest env schema) (\<lambda>digest.
     Inr \<lparr>is_schema_version = 1, is_profile = MCP_FORM_SCHEMA_PROFILE_ID, is_schema = schema,
          is_canonical_digest = digest\<rparr>))"

definition interaction_schema_validate ::
  "('n, 'z) form_env_scheme \<Rightarrow> 'n InteractionSchemaDocument \<Rightarrow> SchemaProfileError + unit" where
  "interaction_schema_validate env s =
     (if is_schema_version s \<noteq> 1 then Inl (SchemaProfileError ''$'' ''interaction_schema_binding'')
      else
        rbind (schema_digest env (is_schema s)) (\<lambda>digest.
        if digest \<noteq> is_canonical_digest s then Inl (SchemaProfileError ''$'' ''interaction_schema_binding'')
        else if is_profile s = CLOSED_SCHEMA_PROFILE_ID then validate_closed_schema env (is_schema s)
        else if is_profile s = MCP_FORM_SCHEMA_PROFILE_ID then validate_mcp_form_schema env (is_schema s)
        else Inl (SchemaProfileError ''$/profile'' ''interaction_schema_profile'')))"

definition interaction_validate_mcp_form_instance ::
  "('n, 'z) form_env_scheme \<Rightarrow> 'n InteractionSchemaDocument \<Rightarrow> 'n Json \<Rightarrow> SchemaProfileError + unit" where
  "interaction_validate_mcp_form_instance env s v =
     (if is_profile s \<noteq> MCP_FORM_SCHEMA_PROFILE_ID
      then Inl (SchemaProfileError ''$/profile'' ''interaction_schema_profile'')
      else
        rbind (interaction_schema_validate env s) (\<lambda>_.
        validate_mcp_form_instance env (is_schema s) v))"

end
