(* ===== verification/McpFormRuns.thy ===== *)
theory McpFormRuns
  imports McpForms SchemaRuns
begin

text \<open>
  What the validation of a form buys: its answers are never judged by a panic, and what a property
  proposes as its default is an answer to it.
\<close>

section \<open>Lemmas\<close>

lemma require_only_keys_Inr:
  "require_only_keys node allowed path code = Inr () \<longleftrightarrow> fst ` set node \<subseteq> set allowed"
proof (cases "List.find (\<lambda>key. key \<notin> set allowed) (map fst node)")
  case None
  then have "fst ` set node \<subseteq> set allowed" by (auto simp: find_None_iff2)
  with None show ?thesis by (simp add: require_only_keys_def)
next
  case (Some key)
  from find_SomeD [OF this] have "\<not> fst ` set node \<subseteq> set allowed" by auto
  with Some show ?thesis by (simp add: require_only_keys_def)
qed

lemma missing_key: "fst ` set node \<subseteq> set allowed \<Longrightarrow> key \<notin> set allowed \<Longrightarrow> map_of node key = None"
  by (auto simp: map_of_eq_None_iff)

lemma optional_u64_Inr: "optional_u64 env node key path = Inr n \<Longrightarrow> get_as (as_u64 env) node key = n"
  by (auto simp: optional_u64_def get_as_def rbind_eq_Inr ok_or_eq_Inr split: option.splits)

lemma enum_candidates_path: "enum_candidates node p = Inr found \<Longrightarrow> enum_candidates node q = Inr found"
  by (auto simp: enum_candidates_def rbind_eq_Inr ok_or_eq_Inr split: option.splits if_splits)

lemma mcp_enum_values_path:
  assumes "mcp_enum_values node p = Inr vs" shows "mcp_enum_values node q = Inr vs"
proof -
  from assms have e: "enum_candidates node p = Inr (Some vs)"
    by (auto simp: mcp_enum_values_def rbind_eq_Inr ok_or_eq_Inr split: if_splits)
  with assms show ?thesis
    by (auto simp: mcp_enum_values_def [of node q] mcp_enum_values_def [of node p] enum_candidates_path [OF e]
        rbind_eq_Inr ok_or_eq_Inr fail_if_eq_Inr split: if_splits option.splits)
qed

lemma mcp_enum_values_texts:
  assumes "mcp_enum_values node p = Inr vs" and "v \<in> set vs"
  shows "valid_choice_text v"
  using assms by (auto simp: mcp_enum_values_def rbind_eq_Inr list_ex_iff split: if_splits)

lemma char_count_le: "char_count v \<le> length v"
  by (simp add: char_count_def)

section \<open>Defaults\<close>

lemma not_a_number: "(\<And>n. v \<noteq> Number n) \<Longrightarrow> numeric_instance_in_bounds env node v"
  by (cases v) (auto simp: numeric_instance_in_bounds_def as_f64_def)

lemma choice_default:
  assumes "validate_mcp_choice_schema node path = Inr ()" and "map_of node ''default'' = Some v"
  obtains w where "v = String w" "string_instance_in_bounds env node w"
    "get_as as_str node ''format'' = None" "\<And>q. \<exists>vs. mcp_enum_values node q = Inr vs \<and> w \<in> set vs"
proof -
  from assms obtain w vs where v: "v = String w" and e: "mcp_enum_values node path = Inr vs"
    and t: "w \<in> set vs" and keys: "fst ` set node \<subseteq>
      set [''type'', ''title'', ''description'', ''enum'', ''enumNames'', ''oneOf'', ''default'']"
    by (auto simp: validate_mcp_choice_schema_def rbind_eq_Inr require_only_keys_Inr fail_if_eq_Inr some_and_iff
        none_or_iff)
  have none: "map_of node ''minLength'' = None" "map_of node ''maxLength'' = None" "map_of node ''format'' = None"
    by (rule missing_key [OF keys]; simp)+
  from mcp_enum_values_texts [OF e t] char_count_le [of w] none have "string_instance_in_bounds env node w"
    by (simp add: string_instance_in_bounds_def get_as_def u64_or_def valid_choice_text_def MAX_MCP_FORM_STRING_BYTES_def)
  moreover from none have "get_as as_str node ''format'' = None" by (simp add: get_as_def)
  ultimately show thesis using that v t mcp_enum_values_path [OF e] by blast
qed

lemma string_default:
  assumes "validate_mcp_string_schema env node path = Inr ()" and "map_of node ''default'' = Some v"
    and "get_as as_str node ''type'' = Some ''string''"
  shows "valid_mcp_instance env node v q"
proof (cases "has_choices node")
  case True
  with assms(1,2) obtain w where "v = String w" "string_instance_in_bounds env node w"
    "get_as as_str node ''format'' = None" "\<exists>vs. mcp_enum_values node q = Inr vs \<and> w \<in> set vs"
    by (auto simp: validate_mcp_string_schema_def simp del: get_as_Some elim!: choice_default [where env = env])
  with assms(3) show ?thesis by (auto simp: valid_mcp_instance_def valid_mcp_string_format_def simp del: get_as_Some Some_get_as)
next
  case False
  with assms(1,2) obtain w where "v = String w" "string_instance_in_bounds env node w"
    "valid_mcp_string_format env (get_as as_str node ''format'') w"
    by (auto simp: validate_mcp_string_schema_def validate_mcp_text_schema_def rbind_eq_Inr some_and_iff none_or_iff
        fail_if_eq_Inr simp del: get_as_Some Some_get_as split: if_splits)
  with False assms(3) show ?thesis
    by (simp add: valid_mcp_instance_def has_choices_def del: get_as_Some Some_get_as)
qed

lemma selection_default:
  assumes "validate_mcp_multi_select_schema env node path = Inr ()" and "map_of node ''default'' = Some v"
    and "get_as as_str node ''type'' = Some ''array''"
  shows "valid_mcp_instance env node v q"
proof -
  from assms(1,2) obtain items vs low high chosen where i: "get_as as_object node ''items'' = Some items"
    and e: "mcp_enum_values items (path @ ''/items'') = Inr vs"
    and low: "optional_u64 env node ''minItems'' path = Inr low"
    and high: "optional_u64 env node ''maxItems'' path = Inr high" and v: "v = Array chosen"
    and sel: "valid_selection (u64_or 0 low) (u64_or (length vs) high) vs chosen"
    by (auto simp: validate_mcp_multi_select_schema_def rbind_eq_Inr ok_or_eq_Inr fail_if_eq_Inr Let_def
        split: if_splits)
  from mcp_enum_values_path [OF e] have "mcp_enum_values items q = Inr vs" .
  with assms(3) i v sel optional_u64_Inr [OF low] optional_u64_Inr [OF high] show ?thesis
    by (simp add: valid_mcp_instance_def del: get_as_Some Some_get_as)
qed

section \<open>An example form\<close>

definition ex_fenv :: "string form_env" where
  "ex_fenv = \<lparr>de_number = de_number ex_penv, de_jcs = de_jcs ex_penv, de_sha256 = de_sha256 ex_penv,
     pe_uuid = pe_uuid ex_penv, sj_read = sj_read ex_penv, sj_as_i64 = sj_as_i64 ex_penv,
     sj_as_u64 = sj_as_u64 ex_penv, sj_as_f64 = (\<lambda>n. Some (if n = ''1'' then 1 else 5)),
     xe_number_text = xe_number_text ex_penv, xe_from_i64 = xe_from_i64 ex_penv, xe_from_text = xe_from_text ex_penv,
     sc_encoded_length = sc_encoded_length ex_penv, sc_integral = sc_integral ex_penv,
     sc_nominal_schemas = sc_nominal_schemas ex_penv, fe_is_date = (\<lambda>_. False), fe_is_date_time = (\<lambda>_. False)\<rparr>"

definition ex_choice :: "string fields" where
  "ex_choice = [(''default'', String ''b''), (''enum'', Array [String ''a'', String ''b'']), (''type'', String ''string'')]"

definition ex_quantity :: "string fields" where
  "ex_quantity = [(''default'', Number ''1''), (''minimum'', Number ''5''), (''type'', String ''number'')]"

definition ex_mcp_form :: "string Json" where
  "ex_mcp_form = Object [(''properties'', Object [(''kind'', Object ex_choice), (''quantity'', Object ex_quantity)]),
     (''required'', Array [String ''kind'']), (''type'', String ''object'')]"

definition ex_interaction :: "string InteractionSchemaDocument" where
  "ex_interaction = \<lparr>is_schema_version = 1, is_profile = MCP_FORM_SCHEMA_PROFILE_ID, is_schema = ex_mcp_form,
     is_canonical_digest = ex_zero\<rparr>"

lemma ex_fenv_params [simp]: "sc_encoded_length ex_fenv v = Some 0" "sj_as_f64 ex_fenv n = Some (if n = ''1'' then 1 else 5)"
  by (simp_all add: ex_fenv_def ex_penv_def)

lemma ex_choice_enum: "mcp_enum_values ex_choice p = Inr [''a'', ''b'']"
  by (simp add: mcp_enum_values_def enum_candidates_def ex_choice_def valid_choice_text_def byte_of_def
      MAX_MCP_FORM_ENUM_VALUES_def)

lemma ex_choice_valid: "validate_mcp_primitive_schema ex_fenv (Object ex_choice) p = Inr ()"
proof -
  have "validate_mcp_choice_schema ex_choice p = Inr ()"
    by (simp add: validate_mcp_choice_schema_def ex_choice_enum require_only_keys_def)
      (simp add: ex_choice_def)
  moreover have "has_choices ex_choice" by (simp add: has_choices_def ex_choice_def)
  ultimately show ?thesis
    by (simp add: validate_mcp_primitive_schema_def validate_mcp_string_schema_def validate_presentation_def)
      (simp add: ex_choice_def get_as_def validate_mcp_string_schema_def)
qed

lemma ex_quantity_valid: "validate_mcp_primitive_schema ex_fenv (Object ex_quantity) p = Inr ()"
  by (simp add: validate_mcp_primitive_schema_def validate_presentation_def ex_quantity_def
      validate_mcp_number_schema_def require_only_keys_def is_number_def get_as_def as_f64_def)

section \<open>Properties of forms\<close>

text \<open>What a property of a validated form proposes as its default is an answer that the form accepts for
  that property, provided a numeric default lies within the property's own bounds, which validation does
  not ask for.\<close>

theorem form_defaults_are_answers:
  assumes "validate_mcp_primitive_schema env (Object node) path = Inr ()"
    and "map_of node ''default'' = Some v" and "numeric_instance_in_bounds env node v"
  shows "validate_mcp_primitive_instance env (Object node) v q = Inr ()"
proof -
  from assms(1) obtain kind where k: "get_as as_str node ''type'' = Some kind"
    and cases: "kind = ''boolean'' \<and> validate_mcp_boolean_schema node path = Inr ()
      \<or> (kind = ''number'' \<or> kind = ''integer'') \<and> validate_mcp_number_schema env node path = Inr ()
      \<or> kind = ''string'' \<and> validate_mcp_string_schema env node path = Inr ()
      \<or> kind = ''array'' \<and> validate_mcp_multi_select_schema env node path = Inr ()"
    by (auto simp: validate_mcp_primitive_schema_def rbind_eq_Inr simp del: get_as_Some Some_get_as
        split: option.splits if_splits)
  from cases have "valid_mcp_instance env node v q"
  proof (elim disjE conjE)
    assume "kind = ''boolean''" and "validate_mcp_boolean_schema node path = Inr ()"
    with k assms(2) show ?thesis
      by (auto simp: valid_mcp_instance_def validate_mcp_boolean_schema_def rbind_eq_Inr fail_if_eq_Inr
          simp del: get_as_Some Some_get_as)
  next
    assume "validate_mcp_number_schema env node path = Inr ()" and "kind = ''number''"
    with k assms(2) show ?thesis
      by (auto simp: valid_mcp_instance_def validate_mcp_number_schema_def rbind_eq_Inr fail_if_eq_Inr check_all_eq_Inr
          simp del: get_as_Some Some_get_as split: if_splits)
  next
    assume "validate_mcp_number_schema env node path = Inr ()" and "kind = ''integer''"
    with k assms(2) show ?thesis
      by (auto simp: valid_mcp_instance_def validate_mcp_number_schema_def rbind_eq_Inr fail_if_eq_Inr
          list_ex_iff set_map_filter simp del: get_as_Some Some_get_as List.map_filter_simps split: if_splits)
  qed (use k assms(2) string_default selection_default in blast)+
  with assms(3) show ?thesis by (simp add: validate_mcp_primitive_instance_def)
qed

lemma form_defaults_are_answers_witness:
  "validate_mcp_primitive_instance ex_fenv (Object ex_choice) (String ''b'') ''$/kind'' = Inr ()"
  by (rule form_defaults_are_answers [OF ex_choice_valid [of "''$''"]])
    (simp_all add: ex_choice_def not_a_number)

text \<open>A numeric default outside the bounds of its property passes validation, and is no answer.\<close>

lemma numeric_defaults_may_be_out_of_bounds:
  "validate_mcp_primitive_schema ex_fenv (Object ex_quantity) path = Inr ()
    \<and> map_of ex_quantity ''default'' = Some (Number ''1'')
    \<and> validate_mcp_primitive_instance ex_fenv (Object ex_quantity) (Number ''1'') path
      = Inl (SchemaProfileError path ''mcp_form_instance'')"
  by (simp add: ex_quantity_valid validate_mcp_primitive_instance_def)
    (simp add: ex_quantity_def numeric_instance_in_bounds_def as_f64_def get_as_def)

lemma form_property_object: "validate_form_property env (name, p) = Inr () \<Longrightarrow> \<exists>node. p = Object node"
  by (auto simp: validate_form_property_def validate_mcp_primitive_schema_def rbind_eq_Inr ok_or_eq_Inr split: if_splits)

lemma validated_form:
  assumes "validate_mcp_form_schema env schema = Inr ()"
  obtains m ps where "schema = Object m" "map_of m ''properties'' = Some (Object ps)"
    "\<And>name p. (name, p) \<in> set ps \<Longrightarrow> \<exists>node. p = Object node"
proof -
  from assms obtain m ps where "schema = Object m" "map_of m ''properties'' = Some (Object ps)"
    "check_all (validate_form_property env) ps = Inr ()"
    by (auto simp: validate_mcp_form_schema_def rbind_eq_Inr ok_or_eq_Inr simp del: check_all.simps split: if_splits)
  then show thesis by (intro that [of m ps]) (auto simp: check_all_eq_Inr dest: form_property_object)
qed

text \<open>C35: Judging an answer against a form that validated never panics: every property the code indexes is
  there, and is an object.\<close>

theorem form_answers_never_panic:
  assumes "interaction_schema_validate env s = Inr ()" and "is_profile s = MCP_FORM_SCHEMA_PROFILE_ID"
  shows "validate_mcp_form_instance env (is_schema s) v \<noteq> Inl form_panic"
proof
  assume panic: "validate_mcp_form_instance env (is_schema s) v = Inl form_panic"
  from assms have "validate_mcp_form_schema env (is_schema s) = Inr ()"
    by (auto simp: interaction_schema_validate_def rbind_eq_Inr MCP_FORM_SCHEMA_PROFILE_ID_def
        CLOSED_SCHEMA_PROFILE_ID_def split: if_splits)
  from validated_form [OF this] obtain m ps where s: "is_schema s = Object m" "map_of m ''properties'' = Some (Object ps)"
    and ps: "\<And>name p. (name, p) \<in> set ps \<Longrightarrow> \<exists>node. p = Object node"
    by metis
  then have properties: "Option.bind (value_get (is_schema s) ''properties'') as_object = Some ps"
    by (simp add: value_get_def)
  from panic obtain answers name a where v: "v = Object answers" "(name, a) \<in> set answers"
    and known: "\<not> list_ex (\<lambda>(name, _). map_of ps name = None) answers"
    and p: "rbind (ok_or form_panic (map_of ps name)) (\<lambda>property.
        validate_mcp_primitive_instance env property a (''$/'' @ name)) = Inl form_panic"
    by (auto simp: validate_mcp_form_instance_def properties form_panic_def rbind_eq_Inl ok_or_eq_Inl ok_or_eq_Inr
        fail_if_eq_Inl dest!: check_all_eq_Inl split: if_splits)
  from known v(2) obtain q where q: "map_of ps name = Some q" by (auto simp: list_ex_iff)
  with ps obtain node where "q = Object node" by (blast dest: map_of_SomeD)
  with p q show False by (simp add: validate_mcp_primitive_instance_def fail_if_eq_Inl form_panic_def)
qed

lemma ex_interaction_valid: "interaction_schema_validate ex_fenv ex_interaction = Inr ()"
proof -
  have "schema_digest ex_fenv ex_mcp_form = Inr ex_zero"
    using ex_schema_digest by (simp add: ex_mcp_form_def schema_digest_def canonical_digest_def canonical_json_def ex_fenv_def)
  moreover have "\<not> sensitive_form_term ''kind''" "\<not> sensitive_form_term ''quantity''" by code_simp+
  then have "validate_form_property ex_fenv (''kind'', Object ex_choice) = Inr ()"
    "validate_form_property ex_fenv (''quantity'', Object ex_quantity) = Inr ()"
    by (simp_all add: validate_form_property_def ex_choice_valid ex_quantity_valid byte_of_def)
  then have "validate_mcp_form_schema ex_fenv ex_mcp_form = Inr ()"
    by (simp add: validate_mcp_form_schema_def ex_mcp_form_def require_only_keys_def get_as_def
        MAX_MCP_FORM_PROPERTIES_def validate_form_required_name_def)
  ultimately show ?thesis
    by (simp add: interaction_schema_validate_def ex_interaction_def MCP_FORM_SCHEMA_PROFILE_ID_def
        CLOSED_SCHEMA_PROFILE_ID_def)
qed

lemma form_answers_never_panic_witness:
  "validate_mcp_form_instance ex_fenv ex_mcp_form (Object [(''kind'', String ''c'')]) \<noteq> Inl form_panic"
  using form_answers_never_panic [OF ex_interaction_valid] by (simp add: ex_interaction_def)

end
