(* ===== verification/Security.thy ===== *)
theory Security
  imports Authority States
begin

text \<open>
  The rest of \<open>platform-contracts/src/security.rs\<close>: tenant settings, principal contexts and their bindings,
  secret bindings, and the authorization of a request.
\<close>

section \<open>Tenant settings\<close>

record TenantConfig =
  tc_default_model :: "ExactDeploymentRef option"
  tc_scheduling_policy :: "ExactDeploymentRef option"
  tc_artifact_retention_policy :: "ExactDeploymentRef option"
  tc_artifact_io_policy :: "ExactDeploymentRef option"

definition validate_policy_ref :: "ExactDeploymentRef option \<Rightarrow> SecurityContractError + unit" where
  "validate_policy_ref policy =
     (case policy of
        None \<Rightarrow> Inr ()
      | Some r \<Rightarrow>
          rbind (map_err InvalidTenantConfig (exact_deployment_validate r)) (\<lambda>_.
          fail_if (xd_resource_kind r \<noteq> ResourceKind.PolicyDeployment) InvalidTenantConfig))"

definition tenant_config_validate :: "TenantConfig \<Rightarrow> SecurityContractError + unit" where
  "tenant_config_validate c =
     (if some_and (tc_default_model c) (\<lambda>model. xd_resource_kind model \<noteq> ResourceKind.ModelDeployment
          \<or> \<not> is_ok (exact_deployment_validate model))
      then Inl InvalidTenantConfig
      else
        rbind (check_all validate_policy_ref
          [tc_scheduling_policy c, tc_artifact_retention_policy c, tc_artifact_io_policy c]) (\<lambda>_.
        fail_if (tc_artifact_retention_policy c = tc_artifact_io_policy c \<and> tc_artifact_retention_policy c \<noteq> None)
          InvalidTenantConfig))"

section \<open>Principals\<close>

datatype (plugins only: code) AuthnStrength = SingleFactor | MultiFactor | PhishingResistant | WorkloadIdentity

primrec authn_strength_str :: "AuthnStrength \<Rightarrow> string" where
  "authn_strength_str SingleFactor = ''single_factor''"
| "authn_strength_str MultiFactor = ''multi_factor''"
| "authn_strength_str PhishingResistant = ''phishing_resistant''"
| "authn_strength_str WorkloadIdentity = ''workload_identity''"

definition all_authn_strength :: "AuthnStrength list" where
  "all_authn_strength = [SingleFactor, MultiFactor, PhishingResistant, WorkloadIdentity]"

interpretation authn_strength_r: closed_registry all_authn_strength authn_strength_str
proof
  show "x \<in> set all_authn_strength" for x
    by (cases x) (simp_all add: all_authn_strength_def)
  show "distinct (map authn_strength_str all_authn_strength)"
    by code_simp
qed

datatype PrincipalScope = Installation | Tenant (tenant_id: ResourceId)

record PrincipalContext =
  px_principal_id :: ResourceId
  px_scope :: PrincipalScope
  px_principal_kind :: PrincipalKind
  px_permissions :: PermissionSet
  px_authn_strength :: AuthnStrength
  px_binding_generation :: u64
  px_expires_at :: instant
  px_trace :: TraceIdentityV1

definition principal_context_validate :: "PrincipalContext \<Rightarrow> SecurityContractError + unit" where
  "principal_context_validate p =
     (if rid_kind (px_principal_id p) \<noteq> ResourceKind.Principal \<or> px_binding_generation p = 0
         \<or> \<not> is_ok (trace_identity_validate (px_trace p))
      then Inl InvalidPrincipalContext
      else
        case px_scope p of
          Installation \<Rightarrow>
            if px_principal_kind p \<in> {PrincipalKind.InstallationOperator, PrincipalKind.ServiceIdentity} then Inr ()
            else Inl InvalidPrincipalScope
        | Tenant t \<Rightarrow>
            if px_principal_kind p = PrincipalKind.InstallationOperator \<and> rid_kind t = ResourceKind.Tenant
            then Inl InvalidPrincipalScope
            else if rid_kind t = ResourceKind.Tenant then Inr ()
            else Inl InvalidPrincipalScope)"

record InstallationPrincipalBinding =
  ib_principal_kind :: PrincipalKind
  ib_permissions :: PermissionSet
  ib_state :: PrincipalBindingState
  ib_generation :: u64

definition installation_binding_validate :: "InstallationPrincipalBinding \<Rightarrow> SecurityContractError + unit" where
  "installation_binding_validate b =
     fail_if (ib_generation b = 0
       \<or> ib_principal_kind b \<notin> {PrincipalKind.InstallationOperator, PrincipalKind.ServiceIdentity})
       InvalidInstallationBinding"

text \<open>The loop of \<open>PrincipalBindingsPayload::validate\<close>, with the kinds seen so far.\<close>

definition principal_bindings_validate :: "InstallationPrincipalBinding list \<Rightarrow> SecurityContractError + unit" where
  "principal_bindings_validate bindings =
     rbind (fold_result (\<lambda>kinds b.
       rbind (installation_binding_validate b) (\<lambda>_.
       if ib_principal_kind b \<in> kinds then Inl (DuplicateInstallationBinding (ib_principal_kind b))
       else Inr (insert (ib_principal_kind b) kinds))) {} bindings) (\<lambda>_.
     Inr ())"

section \<open>Secret bindings\<close>

type_synonym SecretPurpose = string

definition secret_purpose_from_str :: "string \<Rightarrow> SecurityContractError + SecretPurpose" where
  "secret_purpose_from_str v =
     (case v of
        [] \<Rightarrow> Inl InvalidSecretPurpose
      | first # bytes \<Rightarrow>
          if 128 < length v \<or> \<not> is_ascii_lowercase first
             \<or> \<not> list_all (\<lambda>c. is_ascii_lowercase c \<or> is_ascii_digit c \<or> c \<in> {CHR ''_'', CHR ''.'', CHR '':''}) bytes
          then Inl InvalidSecretPurpose
          else Inr v)"

datatype SecretResolutionPolicy =
    Pinned (opaque_version_identity_digest: Sha256Digest)
  | FollowProviderRotation (rotation_policy_revision_id: ResourceId)

definition resolution_policy_validate :: "SecretResolutionPolicy \<Rightarrow> SecurityContractError + unit" where
  "resolution_policy_validate p =
     (case p of
        FollowProviderRotation r \<Rightarrow> fail_if (rid_kind r \<noteq> ResourceKind.PolicyRevision) InvalidRotationPolicy
      | Pinned _ \<Rightarrow> Inr ())"

definition resolution_policy_json :: "('n, 'z) platform_env_scheme \<Rightarrow> SecretResolutionPolicy \<Rightarrow> 'n Json" where
  "resolution_policy_json env p =
     (case p of
        Pinned d \<Rightarrow> json_object [(''kind'', String ''pinned''), (''opaque_version_identity_digest'', String d)]
      | FollowProviderRotation r \<Rightarrow>
          json_object [(''kind'', String ''follow_provider_rotation''), (''rotation_policy_revision_id'', json_id env r)])"

definition resolution_policy_digest ::
  "('n, 'z) platform_env_scheme \<Rightarrow> SecretResolutionPolicy \<Rightarrow> SecurityContractError + Sha256Digest" where
  "resolution_policy_digest env p =
     rbind (resolution_policy_validate p) (\<lambda>_.
     document_digest env InvalidExactSecretBinding (resolution_policy_json env p))"

record ExactSecretBindingRef =
  sb_secret_binding_id :: ResourceId
  sb_binding_generation :: u64
  sb_provider_id :: ResourceId
  sb_purpose :: SecretPurpose
  sb_resolution_policy :: SecretResolutionPolicy
  sb_resolution_policy_digest :: Sha256Digest

definition secret_binding_ref_validate ::
  "('n, 'z) platform_env_scheme \<Rightarrow> ExactSecretBindingRef \<Rightarrow> SecurityContractError + unit" where
  "secret_binding_ref_validate env r =
     (if rid_kind (sb_secret_binding_id r) \<noteq> ResourceKind.SecretBinding \<or> sb_binding_generation r = 0
         \<or> rid_kind (sb_provider_id r) \<noteq> ResourceKind.SecretProvider
      then Inl InvalidExactSecretBinding
      else
        rbind (resolution_policy_validate (sb_resolution_policy r)) (\<lambda>_.
        rbind (resolution_policy_digest env (sb_resolution_policy r)) (\<lambda>digest.
        fail_if (digest \<noteq> sb_resolution_policy_digest r) InvalidExactSecretBinding)))"

definition secret_binding_ref_build ::
  "('n, 'z) platform_env_scheme \<Rightarrow> ResourceId \<Rightarrow> u64 \<Rightarrow> ResourceId \<Rightarrow> SecretPurpose \<Rightarrow> SecretResolutionPolicy \<Rightarrow>
   SecurityContractError + ExactSecretBindingRef" where
  "secret_binding_ref_build env binding_id generation provider_id purpose policy =
     rbind (resolution_policy_digest env policy) (\<lambda>digest.
     let reference = \<lparr>sb_secret_binding_id = binding_id, sb_binding_generation = generation,
           sb_provider_id = provider_id, sb_purpose = purpose, sb_resolution_policy = policy,
           sb_resolution_policy_digest = digest\<rparr>
     in rbind (secret_binding_ref_validate env reference) (\<lambda>_. Inr reference))"

definition permits_resolved_generation ::
  "('n, 'z) platform_env_scheme \<Rightarrow> ExactSecretBindingRef \<Rightarrow> ResourceId \<Rightarrow> SecretPurpose \<Rightarrow> u64 \<Rightarrow> bool" where
  "permits_resolved_generation env r binding_id purpose generation \<longleftrightarrow>
     is_ok (secret_binding_ref_validate env r) \<and> sb_secret_binding_id r = binding_id \<and> sb_purpose r = purpose
     \<and> (case sb_resolution_policy r of
          Pinned _ \<Rightarrow> generation = sb_binding_generation r
        | FollowProviderRotation _ \<Rightarrow> sb_binding_generation r \<le> generation)"

definition exact_secret_binding_purposes_match :: "ExactSecretBindingRef list \<Rightarrow> SecretPurpose list \<Rightarrow> bool" where
  "exact_secret_binding_purposes_match bindings required_purposes \<longleftrightarrow> map sb_purpose bindings = required_purposes"

record SecretBindingPayload =
  sk_provider_id :: ResourceId
  sk_resolution_policy :: SecretResolutionPolicy

definition secret_binding_payload_validate :: "SecretBindingPayload \<Rightarrow> SecurityContractError + unit" where
  "secret_binding_payload_validate p =
     (if rid_kind (sk_provider_id p) \<noteq> ResourceKind.SecretProvider then Inl InvalidSecretProvider
      else resolution_policy_validate (sk_resolution_policy p))"

section \<open>Authorization\<close>

record AuthorizationRequest =
  aq_now :: instant
  aq_tenant_id :: "ResourceId option"
  aq_resource_tenant_id :: "ResourceId option"
  aq_required_permission :: Permission
  aq_resource_gate :: AdministrativeGate
  aq_policy_allows :: bool

datatype AuthorizationError =
    Unauthenticated | ResourceNotFound | PermissionDenied | ResourceSuspended | PolicyDenied

primrec authorization_error_str :: "AuthorizationError \<Rightarrow> string" where
  "authorization_error_str Unauthenticated = ''unauthenticated''"
| "authorization_error_str ResourceNotFound = ''resource_not_found''"
| "authorization_error_str PermissionDenied = ''permission_denied''"
| "authorization_error_str ResourceSuspended = ''resource_suspended''"
| "authorization_error_str PolicyDenied = ''policy_denied''"

definition scope_covers :: "PrincipalScope \<Rightarrow> ResourceId option \<Rightarrow> bool" where
  "scope_covers scope request_tenant \<longleftrightarrow>
     (case (scope, request_tenant) of
        (Installation, None) \<Rightarrow> True
      | (Tenant t, Some r) \<Rightarrow> t = r
      | _ \<Rightarrow> False)"

definition authorize :: "PrincipalContext \<Rightarrow> AuthorizationRequest \<Rightarrow> AuthorizationError + unit" where
  "authorize p request =
     rbind (map_err Unauthenticated (principal_context_validate p)) (\<lambda>_.
     if px_expires_at p \<le> aq_now request then Inl Unauthenticated
     else if (case (aq_tenant_id request, aq_resource_tenant_id request) of
         (Some t, Some r) \<Rightarrow> t \<noteq> r | _ \<Rightarrow> False)
     then Inl ResourceNotFound
     else if \<not> scope_covers (px_scope p) (aq_tenant_id request) then Inl PermissionDenied
     else if \<not> permission_set_contains (px_permissions p) (aq_required_permission request) then Inl PermissionDenied
     else if aq_resource_gate request = AdministrativeGate.Suspended then Inl ResourceSuspended
     else fail_if (\<not> aq_policy_allows request) PolicyDenied)"

datatype ExecutionAuthorizationPurpose =
    NewBusinessDispatch | ContentDisclosure | RestrictedCompletionReconcileCleanup

definition permits_content_disclosure ::
  "('n, 'z) platform_env_scheme \<Rightarrow> PrincipalSnapshot \<Rightarrow> ExecutionAuthorizationPurpose \<Rightarrow> bool" where
  "permits_content_disclosure env p purpose \<longleftrightarrow>
     purpose = ContentDisclosure \<and> is_ok (principal_snapshot_validate env p)
     \<and> permission_set_contains (ps_permissions p) Permission.ArtifactRead"

end
