(* ===== verification/SecurityRuns.thy ===== *)
theory SecurityRuns
  imports Security McpFormRuns
begin

text \<open>
  What authorization guarantees to tenants, and which generations of a secret a frozen reference resolves.
\<close>

section \<open>Authorization\<close>

definition ex_principal :: PrincipalContext where
  "ex_principal = \<lparr>px_principal_id = ResourceId ResourceKind.Principal 1,
     px_scope = Tenant (ResourceId ResourceKind.Tenant 7), px_principal_kind = PrincipalKind.HumanApprover,
     px_permissions = PermissionSet [Permission.ArtifactRead], px_authn_strength = MultiFactor,
     px_binding_generation = 1, px_expires_at = 9,
     px_trace = trace_identity_new (TraceId (replicate 16 1))\<rparr>"

definition ex_request :: "ResourceId option \<Rightarrow> AuthorizationRequest" where
  "ex_request owner = \<lparr>aq_now = 5, aq_tenant_id = Some (ResourceId ResourceKind.Tenant 7),
     aq_resource_tenant_id = owner, aq_required_permission = Permission.ArtifactRead,
     aq_resource_gate = AdministrativeGate.Enabled, aq_policy_allows = True\<rparr>"

text \<open>C34: What is authorized is authorized for a live principal that has the permission, on a resource that is
  not suspended and that the policy allows. A principal of a tenant acts in its own tenant only, on nothing
  that another tenant owns; an installation principal acts in no tenant.\<close>

theorem authorization_isolates_tenants:
  assumes "authorize p q = Inr ()"
  shows "aq_now q < px_expires_at p \<and> permission_set_contains (px_permissions p) (aq_required_permission q)
    \<and> aq_resource_gate q \<noteq> AdministrativeGate.Suspended \<and> aq_policy_allows q
    \<and> (\<forall>t. px_scope p = Tenant t \<longrightarrow> aq_tenant_id q = Some t
        \<and> (\<forall>r. aq_resource_tenant_id q = Some r \<longrightarrow> r = t))
    \<and> (px_scope p = Installation \<longrightarrow> aq_tenant_id q = None)"
  using assms
  by (auto simp: authorize_def rbind_eq_Inr fail_if_eq_Inr scope_covers_def split: if_splits option.splits
      PrincipalScope.splits)

lemma ex_principal_valid: "principal_context_validate ex_principal = Inr ()"
  by code_simp

lemma authorization_isolates_tenants_witness:
  "permission_set_contains (px_permissions ex_principal) Permission.ArtifactRead
    \<and> aq_tenant_id (ex_request None) = Some (ResourceId ResourceKind.Tenant 7)"
proof -
  have "authorize ex_principal (ex_request None) = Inr ()" by code_simp
  from authorization_isolates_tenants [OF this] show ?thesis by (simp add: ex_request_def ex_principal_def)
qed

text \<open>A live principal that asks, in one tenant, for a resource of another is told that it does not
  exist, and is told the same whatever permissions, gate and policy the resource has.\<close>

theorem foreign_resources_are_not_disclosed:
  assumes "principal_context_validate p = Inr ()" and "aq_now q < px_expires_at p"
    and "aq_tenant_id q = Some t" and "aq_resource_tenant_id q = Some r" and "r \<noteq> t"
  shows "authorize p q = Inl ResourceNotFound
    \<and> authorize p (q\<lparr>aq_required_permission := permission, aq_resource_gate := gate, aq_policy_allows := allows\<rparr>)
        = Inl ResourceNotFound"
  using assms by (simp add: authorize_def)

lemma foreign_resources_are_not_disclosed_witness:
  "authorize ex_principal (ex_request (Some (ResourceId ResourceKind.Tenant 8))) = Inl ResourceNotFound"
  using foreign_resources_are_not_disclosed [OF ex_principal_valid,
      of "ex_request (Some (ResourceId ResourceKind.Tenant 8))"]
  by (simp add: ex_request_def ex_principal_def)

section \<open>Secret bindings\<close>

text \<open>A reference built for a secret binding resolves that binding for that purpose only; if it is pinned,
  in exactly the generation it was built with, and otherwise in no earlier one.\<close>

theorem secret_bindings_do_not_roll_back:
  assumes "secret_binding_ref_build env binding generation provider purpose policy = Inr r"
  shows "secret_binding_ref_validate env r = Inr () \<and> generation \<noteq> 0
    \<and> (permits_resolved_generation env r other other_purpose later \<longleftrightarrow> other = binding \<and> other_purpose = purpose
        \<and> (case policy of Pinned _ \<Rightarrow> later = generation | FollowProviderRotation _ \<Rightarrow> generation \<le> later))"
  using assms
  by (auto simp: secret_binding_ref_build_def rbind_eq_Inr Let_def permits_resolved_generation_def
      secret_binding_ref_validate_def is_ok_iff split: if_splits SecretResolutionPolicy.splits)

lemma ex_secret:
  "\<exists>r. secret_binding_ref_build ex_fenv (ResourceId ResourceKind.SecretBinding 1) 3
     (ResourceId ResourceKind.SecretProvider 2) ''mcp.oauth'' (Pinned ex_zero) = Inr r"
proof -
  have "resolution_policy_digest ex_fenv (Pinned ex_zero) = Inr ex_zero"
    using ex_digest [of InvalidExactSecretBinding]
    by (simp add: resolution_policy_digest_def resolution_policy_validate_def resolution_policy_json_def ex_fenv_def
        ex_penv_def document_digest_def canonical_digest_def canonical_json_def ex_zero_def)
  then show ?thesis
    by (simp add: secret_binding_ref_build_def secret_binding_ref_validate_def resolution_policy_validate_def
        fail_if_def Let_def)
qed

lemma secret_bindings_do_not_roll_back_witness:
  "\<exists>r. permits_resolved_generation ex_fenv r (ResourceId ResourceKind.SecretBinding 1) ''mcp.oauth'' 3
    \<and> \<not> permits_resolved_generation ex_fenv r (ResourceId ResourceKind.SecretBinding 1) ''mcp.oauth'' 2"
proof -
  from ex_secret obtain r where "secret_binding_ref_build ex_fenv (ResourceId ResourceKind.SecretBinding 1) 3
     (ResourceId ResourceKind.SecretProvider 2) ''mcp.oauth'' (Pinned ex_zero) = Inr r" by blast
  from secret_bindings_do_not_roll_back [OF this, of "ResourceId ResourceKind.SecretBinding 1" "''mcp.oauth''"] show ?thesis
    by fastforce
qed

end
