(* ===== verification/Tasks.thy ===== *)
theory Tasks
  imports McpForms Candidates Security
begin

text \<open>
  Human tasks (\<open>domains/platform-tasks/src/lib.rs\<close>): approvals, interactions, external authorizations and human
  work share one projection that is resolved once.  The OAuth binding of an external authorization is that of
  \<open>platform-contracts/src/mcp.rs\<close>.
\<close>

section \<open>Kinds, states and actions\<close>

datatype TaskError =
    InvalidKind | InvalidState | InvalidDefinition | InvalidResolution | InvalidProjection | FirstWinnerLost
  | DeadlineNotReached | DeadlineExceeded | ResponseSchemaMismatch | CounterOverflow

datatype (plugins only: code) TaskKind =
    Approval | InteractionForm | InteractionUrlConsent | InteractionBusinessInput | ExternalAuthorization | HumanWork

primrec task_kind_str :: "TaskKind \<Rightarrow> string" where
  "task_kind_str TaskKind.Approval = ''approval''"
| "task_kind_str TaskKind.InteractionForm = ''interaction_form''"
| "task_kind_str TaskKind.InteractionUrlConsent = ''interaction_url_consent''"
| "task_kind_str TaskKind.InteractionBusinessInput = ''interaction_business_input''"
| "task_kind_str TaskKind.ExternalAuthorization = ''external_authorization''"
| "task_kind_str TaskKind.HumanWork = ''human_work''"

definition all_task_kind :: "TaskKind list" where
  "all_task_kind = [TaskKind.Approval, TaskKind.InteractionForm, TaskKind.InteractionUrlConsent,
     TaskKind.InteractionBusinessInput, TaskKind.ExternalAuthorization, TaskKind.HumanWork]"

interpretation task_kind_r: closed_registry all_task_kind task_kind_str
proof
  show "x \<in> set all_task_kind" for x
    by (cases x) (simp_all add: all_task_kind_def)
  show "distinct (map task_kind_str all_task_kind)"
    by code_simp
qed

definition task_kind_from_str :: "string \<Rightarrow> TaskError + TaskKind" where
  "task_kind_from_str v = ok_or InvalidKind (List.find (\<lambda>k. task_kind_str k = v) all_task_kind)"

definition task_id_kind :: "TaskKind \<Rightarrow> ResourceKind" where
  "task_id_kind k = (if k = TaskKind.Approval then ResourceKind.ApprovalTask else ResourceKind.Interaction)"

primrec responder_permission :: "TaskKind \<Rightarrow> Permission" where
  "responder_permission TaskKind.Approval = Permission.ApprovalRespond"
| "responder_permission TaskKind.InteractionForm = Permission.InteractionRespond"
| "responder_permission TaskKind.InteractionUrlConsent = Permission.InteractionRespond"
| "responder_permission TaskKind.InteractionBusinessInput = Permission.InteractionRespond"
| "responder_permission TaskKind.HumanWork = Permission.InteractionRespond"
| "responder_permission TaskKind.ExternalAuthorization = Permission.McpWrite"

definition read_permission :: "TaskKind \<Rightarrow> Permission" where
  "read_permission k =
     (if k = TaskKind.Approval then Permission.ApprovalRead
      else if k = TaskKind.ExternalAuthorization then Permission.McpRead
      else Permission.InteractionRead)"

datatype (plugins only: code) TaskState = Pending | Responded | Declined | Approved | Rejected | Cancelled | Expired

primrec task_state_str :: "TaskState \<Rightarrow> string" where
  "task_state_str TaskState.Pending = ''pending''"
| "task_state_str TaskState.Responded = ''responded''"
| "task_state_str TaskState.Declined = ''declined''"
| "task_state_str TaskState.Approved = ''approved''"
| "task_state_str TaskState.Rejected = ''rejected''"
| "task_state_str TaskState.Cancelled = ''cancelled''"
| "task_state_str TaskState.Expired = ''expired''"

definition all_task_state :: "TaskState list" where
  "all_task_state = [TaskState.Pending, TaskState.Responded, TaskState.Declined, TaskState.Approved,
     TaskState.Rejected, TaskState.Cancelled, TaskState.Expired]"

interpretation task_state_r: closed_registry all_task_state task_state_str
proof
  show "x \<in> set all_task_state" for x
    by (cases x) (simp_all add: all_task_state_def)
  show "distinct (map task_state_str all_task_state)"
    by code_simp
qed

definition task_state_from_str :: "string \<Rightarrow> TaskError + TaskState" where
  "task_state_from_str v = ok_or InvalidState (List.find (\<lambda>s. task_state_str s = v) all_task_state)"

definition task_is_terminal :: "TaskState \<Rightarrow> bool" where
  "task_is_terminal s \<longleftrightarrow> s \<noteq> TaskState.Pending"

datatype TaskAction = SubmitInput | Approve | Reject | Cancel

definition ALL_TASK_ACTIONS :: "TaskAction list" where
  "ALL_TASK_ACTIONS = [SubmitInput, Approve, Reject, Cancel]"

definition action_target :: "TaskAction \<Rightarrow> TaskKind \<Rightarrow> TaskState option" where
  "action_target action kind =
     (if kind = TaskKind.ExternalAuthorization then None
      else case action of
          SubmitInput \<Rightarrow> if kind = TaskKind.Approval then None else Some TaskState.Responded
        | Approve \<Rightarrow> if kind = TaskKind.Approval then Some TaskState.Approved else None
        | Reject \<Rightarrow> if kind = TaskKind.Approval then Some TaskState.Rejected else Some TaskState.Declined
        | Cancel \<Rightarrow> Some TaskState.Cancelled)"

primrec task_operation :: "TaskAction \<Rightarrow> string" where
  "task_operation SubmitInput = ''task.submit_input''"
| "task_operation Approve = ''task.approve''"
| "task_operation Reject = ''task.reject''"
| "task_operation Cancel = ''task.cancel''"

text \<open>OAuth reaches these states through its own callback.\<close>

definition supports_resolution :: "TaskKind \<Rightarrow> TaskState \<Rightarrow> bool" where
  "supports_resolution kind target \<longleftrightarrow>
     target = TaskState.Expired
     \<or> list_ex (\<lambda>action. action_target action
           (if kind = TaskKind.ExternalAuthorization then TaskKind.InteractionForm else kind) = Some target)
         ALL_TASK_ACTIONS"

datatype TaskQueryPurpose = Respondable | Viewable

definition interaction_task_kind :: "InteractionKind \<Rightarrow> TaskKind" where
  "interaction_task_kind k =
     (case k of
        InteractionKind.Form \<Rightarrow> TaskKind.InteractionForm
      | InteractionKind.UrlConsent \<Rightarrow> TaskKind.InteractionUrlConsent
      | InteractionKind.BusinessInput \<Rightarrow> TaskKind.InteractionBusinessInput)"

section \<open>OAuth bindings\<close>

datatype McpContractError =
    InvalidProtocolProfile
  | InvalidLimits
  | InvalidServer
  | InvalidCredentials
  | InvalidTransport
  | InvalidDiscoverySnapshot
  | Canonicalization

definition MAX_MCP_OAUTH_SCOPES :: nat where "MAX_MCP_OAUTH_SCOPES = 64"

record McpOAuthTaskBinding =
  ob_authorization_binding_id :: ResourceId
  ob_mcp_deployment :: ExactDeploymentRef
  ob_auth_policy :: ExactVersionRef
  ob_principal_binding_generation :: u64
  ob_audience_identity_digest :: Sha256Digest
  ob_requested_scopes :: "string list"
  ob_token_credential_purpose :: SecretPurpose
  ob_state_digest :: Sha256Digest
  ob_nonce_digest :: Sha256Digest
  ob_callback_binding_digest :: Sha256Digest
  ob_pkce_secret_binding :: ExactSecretBindingRef
  ob_expected_authorization_generation :: "u64 option"
  ob_expected_authorization_version :: "u64 option"

definition valid_oauth_scope :: "string \<Rightarrow> bool" where
  "valid_oauth_scope v \<longleftrightarrow>
     v \<noteq> [] \<and> length v \<le> 256
     \<and> list_all (\<lambda>c. 33 \<le> byte_of c \<and> byte_of c \<le> 126 \<and> byte_of c \<noteq> 34 \<and> byte_of c \<noteq> 92) v"

definition reauthorization_fence_is_closed :: "u64 option \<Rightarrow> u64 option \<Rightarrow> bool" where
  "reauthorization_fence_is_closed generation version \<longleftrightarrow>
     (case (generation, version) of
        (None, None) \<Rightarrow> True
      | (Some g, Some v) \<Rightarrow> 1 \<le> g \<and> 1 \<le> v
      | _ \<Rightarrow> False)"

definition oauth_binding_validate ::
  "('n, 'z) platform_env_scheme \<Rightarrow> McpOAuthTaskBinding \<Rightarrow> McpContractError + unit" where
  "oauth_binding_validate env b =
     fail_if
       (rid_kind (ob_authorization_binding_id b) \<noteq> ResourceKind.McpAuthorizationBinding
        \<or> xd_resource_kind (ob_mcp_deployment b) \<noteq> ResourceKind.McpDeployment
        \<or> \<not> is_ok (exact_deployment_validate (ob_mcp_deployment b))
        \<or> xv_resource_kind (ob_auth_policy b) \<noteq> ResourceKind.PolicyRevision
        \<or> \<not> is_ok (version_ref_validate (ob_auth_policy b))
        \<or> ob_principal_binding_generation b = 0
        \<or> ob_requested_scopes b = []
        \<or> MAX_MCP_OAUTH_SCOPES < length (ob_requested_scopes b)
        \<or> \<not> windows2_all (<) (ob_requested_scopes b)
        \<or> list_ex (\<lambda>scope. \<not> valid_oauth_scope scope) (ob_requested_scopes b)
        \<or> ob_token_credential_purpose b = ''mcp.oauth.pkce''
        \<or> \<not> is_ok (secret_binding_ref_validate env (ob_pkce_secret_binding b))
        \<or> sb_purpose (ob_pkce_secret_binding b) \<noteq> ''mcp.oauth.pkce''
        \<or> \<not> (case sb_resolution_policy (ob_pkce_secret_binding b) of Pinned _ \<Rightarrow> True | _ \<Rightarrow> False)
        \<or> \<not> reauthorization_fence_is_closed (ob_expected_authorization_generation b)
              (ob_expected_authorization_version b))
       InvalidCredentials"

section \<open>Definitions, resolutions and projections\<close>

datatype 'n TaskDefinition =
    Approval (ta_owner_version: u64) (ta_owner_snapshot_digest: Sha256Digest) (ta_effect: Effect)
      (ta_input_digest: Sha256Digest) (ta_policy_revision_id: ResourceId) (ta_approver_rule_digest: Sha256Digest)
      (ta_safe_prompt_key: string)
  | Interaction (ti_interaction_kind: InteractionKind) (ti_eligible_principal_rule_digest: Sha256Digest)
      (ti_safe_prompt_key: string)
  | CapabilityInput (tc_owner_version: u64) (tc_owner_snapshot_digest: Sha256Digest) (tc_job_id: ResourceId)
      (tc_wake_generation: u64) (tc_opaque_state_digest: Sha256Digest) (tc_interaction_kind: InteractionKind)
      (tc_response_schema: "'n InteractionSchemaDocument") (tc_eligible_principal_rule_digest: Sha256Digest)
      (tc_exact_eligible_principal_id: "ResourceId option") (tc_safe_prompt_key: string)
  | McpOAuthAuthorization (tm_binding: McpOAuthTaskBinding) (tm_safe_prompt_key: string)
  | HumanWork (th_eligible_principal_rule_digest: Sha256Digest) (th_safe_prompt_key: string)

definition definition_task_kind :: "'n TaskDefinition \<Rightarrow> TaskKind" where
  "definition_task_kind d =
     (case d of
        Approval _ _ _ _ _ _ _ \<Rightarrow> TaskKind.Approval
      | Interaction k _ _ \<Rightarrow> interaction_task_kind k
      | CapabilityInput _ _ _ _ _ k _ _ _ _ \<Rightarrow> interaction_task_kind k
      | McpOAuthAuthorization _ _ \<Rightarrow> TaskKind.ExternalAuthorization
      | HumanWork _ _ \<Rightarrow> TaskKind.HumanWork)"

definition is_stable_key :: "string \<Rightarrow> bool" where
  "is_stable_key v \<longleftrightarrow>
     v \<noteq> [] \<and> length v \<le> 128 \<and> is_ascii_lowercase (hd v)
     \<and> list_all (\<lambda>c. is_ascii_lowercase c \<or> is_ascii_digit c \<or> c = CHR ''_'') v"

text \<open>The four values that \<open>validate\<close> reads off every form of a definition.\<close>

definition safe_prompt_key :: "'n TaskDefinition \<Rightarrow> string" where
  "safe_prompt_key d =
     (case d of
        Approval _ _ _ _ _ _ key \<Rightarrow> key
      | Interaction _ _ key \<Rightarrow> key
      | CapabilityInput _ _ _ _ _ _ _ _ _ key \<Rightarrow> key
      | McpOAuthAuthorization _ key \<Rightarrow> key
      | HumanWork _ key \<Rightarrow> key)"

definition definition_owner_version :: "'n TaskDefinition \<Rightarrow> u64 option" where
  "definition_owner_version d =
     (case d of
        Approval v _ _ _ _ _ _ \<Rightarrow> Some v
      | CapabilityInput v _ _ _ _ _ _ _ _ _ \<Rightarrow> Some v
      | _ \<Rightarrow> None)"

definition definition_policy_revision_id :: "'n TaskDefinition \<Rightarrow> ResourceId option" where
  "definition_policy_revision_id d = (case d of Approval _ _ _ _ i _ _ \<Rightarrow> Some i | _ \<Rightarrow> None)"

definition definition_job_binding :: "'n TaskDefinition \<Rightarrow> (ResourceId \<times> u64) option" where
  "definition_job_binding d = (case d of CapabilityInput _ _ job g _ _ _ _ _ _ \<Rightarrow> Some (job, g) | _ \<Rightarrow> None)"

definition definition_validate :: "('n, 'z) form_env_scheme \<Rightarrow> 'n TaskDefinition \<Rightarrow> TaskError + unit" where
  "definition_validate env d =
     (if \<not> is_stable_key (safe_prompt_key d)
         \<or> definition_owner_version d = Some 0
         \<or> some_and (definition_policy_revision_id d) (\<lambda>i. rid_kind i \<noteq> ResourceKind.PolicyRevision)
         \<or> some_and (definition_job_binding d) (\<lambda>(job_id, generation).
             rid_kind job_id \<noteq> ResourceKind.Job \<or> generation = 0)
      then Inl InvalidDefinition
      else
        case d of
          CapabilityInput _ _ _ _ _ _ response_schema _ responder _ \<Rightarrow>
            rbind (map_err InvalidDefinition (interaction_schema_validate env response_schema)) (\<lambda>_.
            fail_if (some_and responder (\<lambda>i. rid_kind i \<noteq> ResourceKind.Principal)) InvalidDefinition)
        | McpOAuthAuthorization binding _ \<Rightarrow> map_err InvalidDefinition (oauth_binding_validate env binding)
        | _ \<Rightarrow> Inr ())"

record TaskResolution =
  tr_state :: TaskState
  tr_principal :: "PrincipalSnapshot option"
  tr_response_value_id :: "ResourceId option"
  tr_response_schema_digest :: "Sha256Digest option"

definition human_decision :: "TaskState \<Rightarrow> bool" where
  "human_decision s \<longleftrightarrow>
     s \<in> {TaskState.Responded, TaskState.Declined, TaskState.Approved, TaskState.Rejected}"

definition resolution_validate_for ::
  "('n, 'z) platform_env_scheme \<Rightarrow> TaskResolution \<Rightarrow> TaskKind \<Rightarrow> TaskError + unit" where
  "resolution_validate_for env r kind =
     fail_if
       (\<not> task_is_terminal (tr_state r)
        \<or> human_decision (tr_state r) \<noteq> (tr_principal r \<noteq> None)
        \<or> some_and (tr_principal r) (\<lambda>p. \<not> is_ok (principal_snapshot_validate env p))
        \<or> (kind = TaskKind.ExternalAuthorization
           \<and> (tr_response_value_id r \<noteq> None \<or> tr_response_schema_digest r \<noteq> None))
        \<or> (kind \<noteq> TaskKind.ExternalAuthorization
           \<and> (tr_state r = TaskState.Responded)
               \<noteq> (tr_response_value_id r \<noteq> None \<and> tr_response_schema_digest r \<noteq> None))
        \<or> some_and (tr_response_value_id r) (\<lambda>i. rid_kind i \<noteq> ResourceKind.RunValue)
        \<or> \<not> supports_resolution kind (tr_state r))
       InvalidResolution"

record 'n TaskPayload =
  tp_response_schema :: "'n ClosedJsonSchema option"
  tp_eligibility_rule :: "TaskEligibilityRule option"
  tp_definition :: "'n TaskDefinition"
  tp_created_by :: PrincipalSnapshot
  tp_resolution :: "TaskResolution option"

definition payload_validate :: "('n, 'z) form_env_scheme \<Rightarrow> 'n TaskPayload \<Rightarrow> TaskError + unit" where
  "payload_validate env p =
     rbind (definition_validate env (tp_definition p)) (\<lambda>_.
     rbind (case tp_response_schema p of
         None \<Rightarrow> Inr ()
       | Some schema \<Rightarrow> map_err InvalidDefinition (json_schema_validate env schema)) (\<lambda>_.
     rbind (case tp_eligibility_rule p of
         None \<Rightarrow> Inr ()
       | Some rule \<Rightarrow> map_err InvalidDefinition (eligibility_validate rule)) (\<lambda>_.
     rbind (map_err InvalidDefinition (principal_snapshot_validate env (tp_created_by p))) (\<lambda>_.
     case tp_resolution p of
       None \<Rightarrow> Inr ()
     | Some resolution \<Rightarrow> resolution_validate_for env resolution (definition_task_kind (tp_definition p))))))"

definition payload_rule_digest :: "'n TaskDefinition \<Rightarrow> Sha256Digest option" where
  "payload_rule_digest d = (case d of Interaction _ digest _ \<Rightarrow> Some digest | HumanWork digest _ \<Rightarrow> Some digest | _ \<Rightarrow> None)"

text \<open>Version 2 of a payload: an interaction and human work carry the schema of their response and the rule
  with the digest that the definition froze, the other kinds carry neither.\<close>

definition frozen_response_validate ::
  "('n, 'z) form_env_scheme \<Rightarrow> 'n ClosedJsonSchema option \<Rightarrow> TaskEligibilityRule option \<Rightarrow> Sha256Digest option \<Rightarrow>
   TaskError + unit" where
  "frozen_response_validate env response_schema rule rule_digest =
     (case rule_digest of
        Some digest \<Rightarrow>
          rbind (ok_or InvalidDefinition response_schema) (\<lambda>_.
          rbind (ok_or InvalidDefinition rule) (\<lambda>rule.
          fail_if (eligibility_digest env rule \<noteq> Inr digest) InvalidDefinition))
      | None \<Rightarrow> fail_if (\<not> (response_schema = None \<and> rule = None)) InvalidDefinition)"

definition payload_validate_for_version ::
  "('n, 'z) form_env_scheme \<Rightarrow> 'n TaskPayload \<Rightarrow> u32 \<Rightarrow> TaskError + unit" where
  "payload_validate_for_version env p version =
     rbind (payload_validate env p) (\<lambda>_.
     if version = 2 then
       frozen_response_validate env (tp_response_schema p) (tp_eligibility_rule p)
         (payload_rule_digest (tp_definition p))
     else Inl InvalidDefinition)"

record 'n TaskProjection =
  tk_payload_schema_version :: u32
  tk_tenant_id :: ResourceId
  tk_task_id :: ResourceId
  tk_kind :: TaskKind
  tk_state :: TaskState
  tk_generation :: u64
  tk_version :: u64
  tk_response_schema_digest :: "Sha256Digest option"
  tk_payload :: "'n TaskPayload"
  tk_response_value_id :: "ResourceId option"
  tk_deadline :: instant
  tk_resolved_at :: "instant option"

definition task_validate :: "('n, 'z) form_env_scheme \<Rightarrow> 'n TaskProjection \<Rightarrow> TaskError + unit" where
  "task_validate env t =
     rbind (payload_validate_for_version env (tk_payload t) (tk_payload_schema_version t)) (\<lambda>_.
     if some_and (tp_response_schema (tk_payload t)) (\<lambda>schema.
         Some (js_canonical_digest schema) \<noteq> tk_response_schema_digest t)
     then Inl ResponseSchemaMismatch
     else if rid_kind (tk_tenant_id t) \<noteq> ResourceKind.Tenant
        \<or> rid_kind (tk_task_id t) \<noteq> task_id_kind (tk_kind t)
        \<or> tk_kind t \<noteq> definition_task_kind (tp_definition (tk_payload t))
        \<or> tk_generation t = 0
        \<or> tk_version t = 0
        \<or> (tk_state t = TaskState.Pending)
            \<noteq> (tk_resolved_at t = None \<and> tp_resolution (tk_payload t) = None \<and> tk_response_value_id t = None)
        \<or> task_is_terminal (tk_state t) \<noteq> (tk_resolved_at t \<noteq> None \<and> tp_resolution (tk_payload t) \<noteq> None)
        \<or> tk_response_value_id t \<noteq> Option.bind (tp_resolution (tk_payload t)) tr_response_value_id
     then Inl InvalidProjection
     else
       fail_if (some_and (tp_resolution (tk_payload t)) (\<lambda>resolution. tr_state resolution \<noteq> tk_state t))
         InvalidProjection)"

section \<open>Who may see and answer a task\<close>

definition is_eligible_responder ::
  "('n, 'z) form_env_scheme \<Rightarrow> 'n TaskProjection \<Rightarrow> PrincipalSnapshot \<Rightarrow> TaskError + bool" where
  "is_eligible_responder env current p =
     rbind (task_validate env current) (\<lambda>_.
     rbind (map_err InvalidProjection (principal_snapshot_validate env p)) (\<lambda>_.
     if ps_tenant_id p \<noteq> tk_tenant_id current
        \<or> \<not> permission_set_contains (ps_permissions p) (responder_permission (tk_kind current))
     then Inr False
     else if (case tp_definition (tk_payload current) of
         CapabilityInput _ _ _ _ _ _ _ _ (Some expected) _ \<Rightarrow> expected \<noteq> ps_principal_id p
       | _ \<Rightarrow> False)
     then Inr False
     else Inr (none_or (tp_eligibility_rule (tk_payload current)) (\<lambda>rule.
       eligibility_permits rule (ps_principal_id (tp_created_by (tk_payload current))) (ps_principal_id p)))))"

definition can_query ::
  "('n, 'z) form_env_scheme \<Rightarrow> 'n TaskProjection \<Rightarrow> PrincipalSnapshot \<Rightarrow> TaskQueryPurpose \<Rightarrow> TaskError + bool" where
  "can_query env current p purpose =
     (case purpose of
        Respondable \<Rightarrow> is_eligible_responder env current p
      | Viewable \<Rightarrow>
          rbind (task_validate env current) (\<lambda>_.
          rbind (map_err InvalidProjection (principal_snapshot_validate env p)) (\<lambda>_.
          Inr (tk_tenant_id current = ps_tenant_id p
            \<and> permission_set_contains (ps_permissions p) (read_permission (tk_kind current))))))"

section \<open>Resolution\<close>

definition validate_resolution_window ::
  "'n TaskProjection \<Rightarrow> TaskState \<Rightarrow> instant \<Rightarrow> TaskError + unit" where
  "validate_resolution_window current target database_now =
     (if tk_state current \<noteq> TaskState.Pending then Inl FirstWinnerLost
      else if target = TaskState.Expired then fail_if (database_now < tk_deadline current) DeadlineNotReached
      else fail_if (target \<noteq> TaskState.Cancelled \<and> tk_deadline current \<le> database_now) DeadlineExceeded)"

definition allowed_actions ::
  "('n, 'z) form_env_scheme \<Rightarrow> 'n TaskProjection \<Rightarrow> PrincipalSnapshot \<Rightarrow> instant \<Rightarrow> TaskError + TaskAction list" where
  "allowed_actions env current p database_now =
     rbind (is_eligible_responder env current p) (\<lambda>eligible.
     if \<not> eligible then Inr []
     else Inr (filter (\<lambda>action.
         some_and (action_target action (tk_kind current)) (\<lambda>target.
           is_ok (validate_resolution_window current target database_now))
         \<and> (action \<noteq> SubmitInput \<or> permits_content_disclosure env p ContentDisclosure)) ALL_TASK_ACTIONS))"

record ResolveTask =
  rt_expected_generation :: u64
  rt_expected_version :: u64
  rt_target :: TaskState
  rt_principal :: "PrincipalSnapshot option"
  rt_response_value_id :: "ResourceId option"
  rt_response_schema_digest :: "Sha256Digest option"

definition command_resolution :: "ResolveTask \<Rightarrow> TaskResolution" where
  "command_resolution c = \<lparr>tr_state = rt_target c, tr_principal = rt_principal c,
     tr_response_value_id = rt_response_value_id c, tr_response_schema_digest = rt_response_schema_digest c\<rparr>"

definition decide_resolution ::
  "('n, 'z) form_env_scheme \<Rightarrow> 'n TaskProjection \<Rightarrow> ResolveTask \<Rightarrow> instant \<Rightarrow> TaskError + 'n TaskProjection" where
  "decide_resolution env current command database_now =
     rbind (task_validate env current) (\<lambda>_.
     if tk_state current \<noteq> TaskState.Pending
        \<or> tk_generation current \<noteq> rt_expected_generation command
        \<or> tk_version current \<noteq> rt_expected_version command
     then Inl FirstWinnerLost
     else
       rbind (validate_resolution_window current (rt_target command) database_now) (\<lambda>_.
       if rt_target command = TaskState.Responded
          \<and> tk_kind current \<noteq> TaskKind.ExternalAuthorization
          \<and> (tk_response_schema_digest current = None
             \<or> tk_response_schema_digest current \<noteq> rt_response_schema_digest command)
       then Inl ResponseSchemaMismatch
       else
         rbind (resolution_validate_for env (command_resolution command) (tk_kind current)) (\<lambda>_.
         rbind (ok_or CounterOverflow (checked_add (tk_version current) 1)) (\<lambda>version.
         let decided = current\<lparr>tk_state := rt_target command, tk_version := version,
               tk_response_value_id := rt_response_value_id command,
               tk_payload := (tk_payload current)\<lparr>tp_resolution := Some (command_resolution command)\<rparr>,
               tk_resolved_at := Some database_now\<rparr>
         in rbind (task_validate env decided) (\<lambda>_. Inr decided)))))"

end
