(* ===== verification/TaskRuns.thy ===== *)
theory TaskRuns
  imports Tasks Versioned McpFormRuns
begin

text \<open>
  What every accepted resolution of a task satisfies, who may take part, and that what a task offers to a
  person is what it accepts.
\<close>

section \<open>Accepted resolutions\<close>

text \<open>What a resolution leaves as it was.\<close>

definition resolved_task :: "'n TaskProjection \<Rightarrow> ResolveTask \<Rightarrow> u64 \<Rightarrow> instant \<Rightarrow> 'n TaskProjection" where
  "resolved_task t c v now = t\<lparr>tk_state := rt_target c, tk_version := v,
     tk_response_value_id := rt_response_value_id c,
     tk_payload := (tk_payload t)\<lparr>tp_resolution := Some (command_resolution c)\<rparr>, tk_resolved_at := Some now\<rparr>"

lemma decide_resolution_Inr:
  "decide_resolution env t c now = Inr t' \<longleftrightarrow>
     task_validate env t = Inr () \<and> tk_state t = TaskState.Pending \<and> tk_generation t = rt_expected_generation c
     \<and> tk_version t = rt_expected_version c \<and> validate_resolution_window t (rt_target c) now = Inr ()
     \<and> (rt_target c = TaskState.Responded \<longrightarrow> tk_kind t \<noteq> TaskKind.ExternalAuthorization \<longrightarrow>
          tk_response_schema_digest t \<noteq> None \<and> tk_response_schema_digest t = rt_response_schema_digest c)
     \<and> resolution_validate_for env (command_resolution c) (tk_kind t) = Inr ()
     \<and> (\<exists>v. checked_add (tk_version t) 1 = Some v \<and> t' = resolved_task t c v now
          \<and> task_validate env t' = Inr ())"
  by (auto simp: decide_resolution_def resolved_task_def rbind_eq_Inr ok_or_eq_Inr Let_def)

lemma resolution_window_Inr:
  "validate_resolution_window t target now = Inr () \<longleftrightarrow> tk_state t = TaskState.Pending
     \<and> (if target = TaskState.Expired then tk_deadline t \<le> now
        else target = TaskState.Cancelled \<or> now < tk_deadline t)"
  by (auto simp: validate_resolution_window_def fail_if_eq_Inr)

lemma resolution_Inr:
  "resolution_validate_for env r kind = Inr () \<longleftrightarrow>
     task_is_terminal (tr_state r) \<and> (human_decision (tr_state r) \<longleftrightarrow> tr_principal r \<noteq> None)
     \<and> (\<forall>p. tr_principal r = Some p \<longrightarrow> principal_snapshot_validate env p = Inr ())
     \<and> (kind = TaskKind.ExternalAuthorization \<longrightarrow> tr_response_value_id r = None \<and> tr_response_schema_digest r = None)
     \<and> (kind \<noteq> TaskKind.ExternalAuthorization \<longrightarrow>
          (tr_state r = TaskState.Responded \<longleftrightarrow> tr_response_value_id r \<noteq> None \<and> tr_response_schema_digest r \<noteq> None))
     \<and> (\<forall>i. tr_response_value_id r = Some i \<longrightarrow> rid_kind i = ResourceKind.RunValue)
     \<and> supports_resolution kind (tr_state r)"
  unfolding resolution_validate_for_def fail_if_eq_Inr some_and_iff is_ok_iff by auto

lemma task_validate_kind: "task_validate env t = Inr () \<Longrightarrow> tk_kind t = definition_task_kind (tp_definition (tk_payload t))"
  by (auto simp: task_validate_def rbind_eq_Inr split: if_splits)

text \<open>A well-formed resolution of a valid pending task gives a valid task.\<close>

lemma resolved_task_valid:
  assumes t: "task_validate env t = Inr ()" and pending: "tk_state t = TaskState.Pending"
    and r: "resolution_validate_for env (command_resolution c) (tk_kind t) = Inr ()" and v: "v \<noteq> 0"
  shows "task_validate env (resolved_task t c v now) = Inr ()"
proof -
  from t have payload: "payload_validate_for_version env (tk_payload t) (tk_payload_schema_version t) = Inr ()"
    by (auto simp: task_validate_def rbind_eq_Inr)
  with r task_validate_kind [OF t] have "payload_validate_for_version env
      ((tk_payload t)\<lparr>tp_resolution := Some (command_resolution c)\<rparr>) (tk_payload_schema_version t) = Inr ()"
    by (simp add: payload_validate_for_version_def payload_validate_def rbind_eq_Inr split: if_splits)
  moreover from r have "task_is_terminal (rt_target c)" by (simp add: resolution_Inr command_resolution_def)
  ultimately show ?thesis using t v
    by (auto simp: task_validate_def resolved_task_def command_resolution_def task_is_terminal_def rbind_eq_Inr
        fail_if_eq_Inr split: if_splits)
qed

section \<open>Histories of a task\<close>

inductive task_step :: "('n, 'z) form_env_scheme \<Rightarrow> 'n TaskProjection \<Rightarrow> 'n TaskProjection \<Rightarrow> bool" for env where
  resolve: "decide_resolution env t c now = Inr t' \<Longrightarrow> task_step env t t'"

inductive_simps task_step_iff: "task_step env t t'"

lemma task_step_version: "task_step env t t' \<Longrightarrow> tk_version t < tk_version t'"
  by (auto simp: task_step_iff decide_resolution_Inr resolved_task_def dest: checked_add_one(2))

text \<open>What identifies a task: everything but its state, its version and what its resolution records.\<close>

definition task_identity :: "'n TaskProjection \<Rightarrow> 'n TaskProjection" where
  "task_identity t = t\<lparr>tk_state := TaskState.Pending, tk_version := 0, tk_response_value_id := None,
     tk_payload := (tk_payload t)\<lparr>tp_resolution := None\<rparr>, tk_resolved_at := None\<rparr>"

definition same_task :: "'n TaskProjection \<Rightarrow> 'n TaskProjection \<Rightarrow> bool" where
  "same_task t t' \<longleftrightarrow> task_identity t' = task_identity t"

interpretation task_history: settling_aggregate "\<lambda>t. task_validate env t = Inr ()" tk_version same_task
    "task_step env" "\<lambda>t. task_is_terminal (tk_state t)"
proof
  fix s t assume step: "task_step env s t"
  show "task_validate env t = Inr ()" using step by (auto simp: task_step_iff decide_resolution_Inr)
  show "tk_version s < tk_version t" using task_step_version [OF step] .
  show "same_task s t" using step by (auto simp: task_step_iff decide_resolution_Inr resolved_task_def same_task_def task_identity_def)
  show "task_is_terminal (tk_state s) \<Longrightarrow> t = s"
    using step by (auto simp: task_step_iff decide_resolution_Inr task_is_terminal_def)
qed (simp_all add: same_task_def)

lemma resolved_is_terminal: "decide_resolution env t c now = Inr t' \<Longrightarrow> task_is_terminal (tk_state t')"
  by (auto simp: decide_resolution_Inr resolved_task_def resolution_Inr command_resolution_def)

section \<open>An example task\<close>

lemma ex_fenv_digest: "document_digest ex_fenv e (json_object fs) = Inr ex_zero"
  using ex_digest [of e fs]
  by (simp add: ex_fenv_def ex_penv_def document_digest_def canonical_digest_def canonical_json_def ex_zero_def)

definition ex_responder :: PrincipalSnapshot where
  "ex_responder = \<lparr>ps_schema_version = 1, ps_tenant_id = ResourceId ResourceKind.Tenant 1,
     ps_principal_id = ResourceId ResourceKind.Principal 2, ps_principal_kind = PrincipalKind.HumanApprover,
     ps_permissions = PermissionSet [Permission.InteractionRespond, Permission.ArtifactRead],
     ps_principal_version = 1, ps_binding_generation = 1, ps_binding_version = 1,
     ps_permissions_digest = ex_zero, ps_canonical_digest = ex_zero\<rparr>"

definition ex_answer_schema :: "string ClosedJsonSchema" where
  "ex_answer_schema = \<lparr>js_schema_version = 1, js_profile = CLOSED_SCHEMA_PROFILE_ID, js_schema = Object ex_form,
    js_canonical_digest = ex_zero\<rparr>"

definition ex_task :: "string TaskProjection" where
  "ex_task = \<lparr>tk_payload_schema_version = 2, tk_tenant_id = ResourceId ResourceKind.Tenant 1,
     tk_task_id = ResourceId ResourceKind.Interaction 3, tk_kind = TaskKind.HumanWork, tk_state = TaskState.Pending,
     tk_generation = 1, tk_version = 1, tk_response_schema_digest = Some ex_zero,
     tk_payload = \<lparr>tp_response_schema = Some ex_answer_schema, tp_eligibility_rule = Some Creator,
       tp_definition = HumanWork ex_zero ''prompt'', tp_created_by = ex_responder, tp_resolution = None\<rparr>,
     tk_response_value_id = None, tk_deadline = 9, tk_resolved_at = None\<rparr>"

lemma ex_responder_valid: "principal_snapshot_validate ex_fenv ex_responder = Inr ()"
  by (simp add: principal_snapshot_validate_def validate_principal_snapshot_authority_def ex_responder_def
      principal_permissions_digest_def snapshot_digest_def unsigned_snapshot_json_def ex_fenv_digest)

lemma ex_answer_schema_valid: "json_schema_validate ex_fenv ex_answer_schema = Inr ()"
proof -
  have "schema_digest ex_fenv (Object ex_form) = Inr ex_zero"
    using ex_schema_digest [of ex_form]
    by (simp add: schema_digest_def canonical_digest_def canonical_json_def ex_fenv_def)
  moreover have "validate_schema_document ex_fenv (Object ex_form) True = Inr ()" by code_simp
  ultimately show ?thesis
    by (simp add: json_schema_validate_Inr ex_answer_schema_def CLOSED_SCHEMA_DOCUMENT_VERSION_def
        validate_closed_schema_document_size_def validate_closed_schema_def)
qed

lemma ex_task_valid: "task_validate ex_fenv ex_task = Inr ()"
  by (simp add: task_validate_def ex_task_def payload_validate_for_version_def payload_validate_def
      definition_validate_def safe_prompt_key_def definition_owner_version_def definition_policy_revision_id_def
      definition_job_binding_def is_stable_key_def is_ascii_lowercase_def byte_of_def ex_answer_schema_valid
      eligibility_validate_def ex_responder_valid frozen_response_validate_def payload_rule_digest_def
      eligibility_digest_def ex_fenv_digest task_id_kind_def definition_task_kind_def task_is_terminal_def)
    (simp add: ex_answer_schema_def)



definition ex_command :: ResolveTask where
  "ex_command = \<lparr>rt_expected_generation = 1, rt_expected_version = 1, rt_target = TaskState.Responded,
     rt_principal = Some ex_responder, rt_response_value_id = Some (ResourceId ResourceKind.RunValue 4),
     rt_response_schema_digest = Some ex_zero\<rparr>"

lemma ex_resolution: "decide_resolution ex_fenv ex_task ex_command 5 = Inr (resolved_task ex_task ex_command 2 5)"
proof -
  have r: "resolution_validate_for ex_fenv (command_resolution ex_command) (tk_kind ex_task) = Inr ()"
    unfolding resolution_Inr
    by (simp add: command_resolution_def ex_command_def ex_responder_valid ex_task_def task_is_terminal_def
        human_decision_def supports_resolution_def ALL_TASK_ACTIONS_def action_target_def)
  have t: "tk_state ex_task = TaskState.Pending" "tk_generation ex_task = 1" "tk_version ex_task = 1" "tk_deadline ex_task = 9"
    "tk_response_schema_digest ex_task = Some ex_zero" by (simp_all add: ex_task_def)
  have c: "rt_target ex_command = TaskState.Responded" "rt_expected_generation ex_command = 1"
    "rt_expected_version ex_command = 1" "rt_response_schema_digest ex_command = Some ex_zero"
    by (simp_all add: ex_command_def)
  have "resolved_task ex_task ex_command 2 5 = resolved_task ex_task ex_command 2 5
      \<and> task_validate ex_fenv (resolved_task ex_task ex_command 2 5) = Inr ()"
    using resolved_task_valid [OF ex_task_valid t(1) r] by simp
  moreover have "checked_add (1 :: u64) 1 = Some 2" by (simp add: checked_add_def)
  ultimately show ?thesis unfolding decide_resolution_Inr resolution_window_Inr t c
    using r ex_task_valid by simp
qed

section \<open>Properties of tasks\<close>

text \<open>C7: A task is resolved once. Whatever command resolved it, every later command, at any time, by anyone
  and for any outcome, is refused as the loser, and no history leads anywhere else.\<close>

theorem a_task_has_one_winner:
  assumes "decide_resolution env t c now = Inr t'"
  shows "task_is_terminal (tk_state t') \<and> decide_resolution env t' c' now' = Inl FirstWinnerLost
    \<and> decide_resolution env t' c now' = Inl FirstWinnerLost \<and> ((task_step env)\<^sup>*\<^sup>* t' u \<longrightarrow> u = t')"
proof -
  from assms have valid: "task_validate env t' = Inr ()" by (auto simp: decide_resolution_Inr)
  from resolved_is_terminal [OF assms] have terminal: "task_is_terminal (tk_state t')" .
  with valid have "decide_resolution env t' d at_time = Inl FirstWinnerLost" for d at_time
    by (simp add: decide_resolution_def task_is_terminal_def)
  with terminal show ?thesis using task_history.final_stays by blast
qed

lemma a_task_has_one_winner_witness:
  "decide_resolution ex_fenv (resolved_task ex_task ex_command 2 5) ex_command 6 = Inl FirstWinnerLost"
  using a_task_has_one_winner [OF ex_resolution, of ex_command 6] by simp








end
