(* ===== verification/Sandbox.thy ===== *)
theory Sandbox
  imports StrictJson Jobs
begin

text \<open>
  The contracts of sandboxed execution (\<open>platform-sandbox/src/contracts.rs\<close>): the request and the plan of a
  sandbox job, the candidates an external provider reports, the frames of the runner inside a sandbox, and the
  physical evidence of one attempt with every operation on it.
\<close>

section \<open>Parameters and helpers\<close>

text \<open>chrono's serialization of an instant.\<close>

record 'n sandbox_env = "'n strict_env" +
  sx_timestamp :: "instant \<Rightarrow> string"

datatype SandboxContractError =
    Canonical
  | InvalidLimits
  | InvalidRuntime
  | InvalidProfile
  | InvalidRequest
  | InvalidProvisioningToken
  | InvalidCandidate
  | CandidateCreateConflict
  | CandidateLimitOrLateCandidate
  | CandidateSelectionConflict
  | InvalidActivation
  | RunnerBootChanged
  | InvalidRunnerFrame
  | InvalidResult
  | InvalidPhysicalTransition
  | InvalidJob
  | InvalidControl
  | InvalidTerminal
  | InvalidCleanup
  | TerminalConflict

definition SANDBOX_CONTRACT_SCHEMA_VERSION :: u16 where "SANDBOX_CONTRACT_SCHEMA_VERSION = 1"
definition MAX_SANDBOX_CANDIDATES :: u8 where "MAX_SANDBOX_CANDIDATES = 4"
definition MAX_SANDBOX_CANDIDATE_PAGE_ITEMS :: u8 where "MAX_SANDBOX_CANDIDATE_PAGE_ITEMS = 16"
definition MAX_SANDBOX_ORPHAN_PAGE_ITEMS :: u16 where "MAX_SANDBOX_ORPHAN_PAGE_ITEMS = 100"
definition MAX_SANDBOX_RUNNER_HEADER_BYTES :: u32 where "MAX_SANDBOX_RUNNER_HEADER_BYTES = 65536"
definition MAX_SANDBOX_DIAGNOSTIC_BYTES :: u32 where "MAX_SANDBOX_DIAGNOSTIC_BYTES = 65536"
definition MAX_SANDBOX_INPUT_BYTES :: u64 where "MAX_SANDBOX_INPUT_BYTES = 1048576"
definition MAX_SANDBOX_OUTPUT_BYTES :: u64 where "MAX_SANDBOX_OUTPUT_BYTES = 1048576"
definition MAX_SANDBOX_ARGV_ITEMS :: nat where "MAX_SANDBOX_ARGV_ITEMS = 64"
definition MAX_SANDBOX_ARG_BYTES :: nat where "MAX_SANDBOX_ARG_BYTES = 4096"
definition MAX_SANDBOX_ARGV_BYTES :: nat where "MAX_SANDBOX_ARGV_BYTES = 16384"
definition MAX_OPENSANDBOX_ID_BYTES :: nat where "MAX_OPENSANDBOX_ID_BYTES = 128"
definition MAX_RUNNER_BOOT_ID_BYTES :: nat where "MAX_RUNNER_BOOT_ID_BYTES = 128"
definition MAX_SANDBOX_JOB_PAYLOAD_BYTES :: nat where "MAX_SANDBOX_JOB_PAYLOAD_BYTES = 1048576"
definition SANDBOX_RUNNER_FRAME_MAGIC :: string where "SANDBOX_RUNNER_FRAME_MAGIC = ''insight.sandbox.runner/v1''"

text \<open>\<open>digest_json\<close>; a value that is serialized without one of its fields is the object of the others.\<close>

definition digest_json :: "('n, 'z) platform_env_scheme \<Rightarrow> 'n Json \<Rightarrow> SandboxContractError + Sha256Digest" where
  "digest_json env v = document_digest env Canonical v"

definition zero_digest :: Sha256Digest where
  "zero_digest = ''sha256:'' @ replicate 64 CHR ''0''"

definition canonical_value_digest ::
  "('n, 'z) strict_env_scheme \<Rightarrow> 'n Json \<Rightarrow> u64 \<Rightarrow> SandboxContractError + Sha256Digest" where
  "canonical_value_digest env v maximum_bytes =
     rbind (map_err Canonical (canonical_json env v)) (\<lambda>bytes.
     if unat maximum_bytes < length bytes then Inl InvalidLimits
     else
       rbind (map_err Canonical (parse_strict_json env bytes
         \<lparr>jl_max_bytes = max (length bytes) 1, jl_max_depth = 32, jl_max_properties_per_object = 1024,
          jl_max_items_per_array = 100000, jl_max_string_bytes = max (length bytes) 1\<rparr>)) (\<lambda>reparsed.
       if reparsed \<noteq> v then Inl Canonical else digest_json env v))"

text \<open>\<open>signed_duration_since(..).num_milliseconds()\<close> rounds towards zero.\<close>

definition milliseconds_since :: "instant \<Rightarrow> instant \<Rightarrow> int" where
  "milliseconds_since later earlier = sgn (later - earlier) * (\<bar>later - earlier\<bar> div 1000000)"

definition json_instant :: "('n, 'z) sandbox_env_scheme \<Rightarrow> instant \<Rightarrow> 'n Json" where
  "json_instant env t = String (sx_timestamp env t)"

section \<open>Texts\<close>

text \<open>\<open>rsplit_once(''@sha256:'')\<close>: what stands before and after the last occurrence.\<close>

fun rsplit_once :: "string \<Rightarrow> string \<Rightarrow> (string \<times> string) option" where
  "rsplit_once sep [] = None"
| "rsplit_once sep (c # cs) =
     (case rsplit_once sep cs of
        Some (before, after) \<Rightarrow> Some (c # before, after)
      | None \<Rightarrow> if take (length sep) (c # cs) = sep then Some ([], drop (length sep) (c # cs)) else None)"

definition valid_oci_digest_uri :: "string \<Rightarrow> bool" where
  "valid_oci_digest_uri v \<longleftrightarrow>
     (case rsplit_once ''@sha256:'' v of
        None \<Rightarrow> False
      | Some (repository, digest) \<Rightarrow>
          repository \<noteq> [] \<and> length repository \<le> 512 \<and> list_all (\<lambda>c. byte_of c < 128) repository
          \<and> length digest = 64 \<and> list_all is_lower_hex digest)"

definition valid_argv :: "string list \<Rightarrow> bool" where
  "valid_argv argv \<longleftrightarrow>
     argv \<noteq> [] \<and> length argv \<le> MAX_SANDBOX_ARGV_ITEMS
     \<and> list_all (\<lambda>item. item \<noteq> [] \<and> length item \<le> MAX_SANDBOX_ARG_BYTES \<and> char_of (0 :: nat) \<notin> set item) argv
     \<and> sum_list (map length argv) \<le> MAX_SANDBOX_ARGV_BYTES"

definition valid_absolute_argv :: "string list \<Rightarrow> bool" where
  "valid_absolute_argv argv \<longleftrightarrow> valid_argv argv \<and> (case argv of [] \<Rightarrow> False | program # _ \<Rightarrow> take 1 program = ''/'')"

type_synonym OpenSandboxId = string
type_synonym RunnerBootId = string
type_synonym OpaqueActivationToken = string

definition is_token_text :: "string \<Rightarrow> bool" where
  "is_token_text v \<longleftrightarrow> list_all (\<lambda>c. is_ascii_alphanumeric c \<or> c = CHR ''-'' \<or> c = CHR ''_'') v"

definition open_sandbox_id_parse :: "string \<Rightarrow> SandboxContractError + OpenSandboxId" where
  "open_sandbox_id_parse v =
     (if v = [] \<or> MAX_OPENSANDBOX_ID_BYTES < length v \<or> \<not> is_token_text v then Inl InvalidCandidate else Inr v)"

definition runner_boot_id_parse :: "string \<Rightarrow> SandboxContractError + RunnerBootId" where
  "runner_boot_id_parse v =
     (if v = [] \<or> MAX_RUNNER_BOOT_ID_BYTES < length v \<or> \<not> is_token_text v then Inl InvalidRunnerFrame else Inr v)"

definition activation_token_parse :: "string \<Rightarrow> SandboxContractError + OpaqueActivationToken" where
  "activation_token_parse v =
     (if length v \<noteq> 64 \<or> \<not> list_all is_lower_hex v then Inl InvalidActivation else Inr v)"

definition activation_token_digest ::
  "('n, 'z) platform_env_scheme \<Rightarrow> OpaqueActivationToken \<Rightarrow> SandboxContractError + Sha256Digest" where
  "activation_token_digest env t =
     digest_json env (json_object [(''domain'', String ''insight.sandbox.activation-token/v1''), (''token'', String t)])"

section \<open>Limits\<close>

datatype SandboxNetworkMode = Disabled | Direct

primrec network_mode_str :: "SandboxNetworkMode \<Rightarrow> string" where
  "network_mode_str Disabled = ''disabled''"
| "network_mode_str Direct = ''direct''"

datatype SandboxCandidatePurpose = JobCandidate | Readiness

record SandboxProvisioningLimits =
  sl_maximum_candidates :: u8
  sl_candidate_page_items :: u8
  sl_candidate_quiescence_milliseconds :: u32
  sl_provisioning_timeout_milliseconds :: u32
  sl_orphan_page_items :: u16
  sl_runner_header_bytes :: u32
  sl_diagnostic_bytes :: u32

definition provisioning_limits_validate :: "SandboxProvisioningLimits \<Rightarrow> SandboxContractError + unit" where
  "provisioning_limits_validate l =
     fail_if
       (\<not> (1 \<le> sl_maximum_candidates l \<and> sl_maximum_candidates l \<le> MAX_SANDBOX_CANDIDATES)
        \<or> \<not> (1 \<le> sl_candidate_page_items l \<and> sl_candidate_page_items l \<le> MAX_SANDBOX_CANDIDATE_PAGE_ITEMS)
        \<or> \<not> (100 \<le> sl_candidate_quiescence_milliseconds l \<and> sl_candidate_quiescence_milliseconds l \<le> 5000)
        \<or> \<not> (1000 \<le> sl_provisioning_timeout_milliseconds l \<and> sl_provisioning_timeout_milliseconds l \<le> 120000)
        \<or> sl_provisioning_timeout_milliseconds l \<le> sl_candidate_quiescence_milliseconds l
        \<or> \<not> (1 \<le> sl_orphan_page_items l \<and> sl_orphan_page_items l \<le> MAX_SANDBOX_ORPHAN_PAGE_ITEMS)
        \<or> \<not> (1024 \<le> sl_runner_header_bytes l \<and> sl_runner_header_bytes l \<le> MAX_SANDBOX_RUNNER_HEADER_BYTES)
        \<or> \<not> (1024 \<le> sl_diagnostic_bytes l \<and> sl_diagnostic_bytes l \<le> MAX_SANDBOX_DIAGNOSTIC_BYTES))
       InvalidLimits"

record SandboxResourceLimits =
  rl_maximum_input_bytes :: u64
  rl_maximum_output_bytes :: u64
  rl_cpu_millicores :: u32
  rl_memory_mebibytes :: u32
  rl_pids :: u32
  rl_ephemeral_storage_bytes :: u64
  rl_wall_milliseconds :: u64
  rl_cleanup_milliseconds :: u64

definition resource_limits_validate :: "SandboxResourceLimits \<Rightarrow> SandboxContractError + unit" where
  "resource_limits_validate l =
     fail_if
       (rl_maximum_input_bytes l = 0 \<or> MAX_SANDBOX_INPUT_BYTES < rl_maximum_input_bytes l
        \<or> rl_maximum_output_bytes l = 0 \<or> MAX_SANDBOX_OUTPUT_BYTES < rl_maximum_output_bytes l
        \<or> rl_cpu_millicores l = 0 \<or> 8000 < rl_cpu_millicores l
        \<or> rl_memory_mebibytes l = 0 \<or> 16384 < rl_memory_mebibytes l
        \<or> rl_pids l = 0 \<or> 4096 < rl_pids l
        \<or> rl_ephemeral_storage_bytes l = 0 \<or> 4294967296 < rl_ephemeral_storage_bytes l
        \<or> rl_wall_milliseconds l = 0 \<or> 3600000 < rl_wall_milliseconds l
        \<or> rl_cleanup_milliseconds l = 0 \<or> 300000 < rl_cleanup_milliseconds l)
       InvalidLimits"

definition provisioning_limits_json :: "('n, 'z) platform_env_scheme \<Rightarrow> SandboxProvisioningLimits \<Rightarrow> 'n Json" where
  "provisioning_limits_json env l = json_object
     [(''maximum_candidates'', json_u8 env (sl_maximum_candidates l)),
      (''candidate_page_items'', json_u8 env (sl_candidate_page_items l)),
      (''candidate_quiescence_milliseconds'', json_u32 env (sl_candidate_quiescence_milliseconds l)),
      (''provisioning_timeout_milliseconds'', json_u32 env (sl_provisioning_timeout_milliseconds l)),
      (''orphan_page_items'', json_u16 env (sl_orphan_page_items l)),
      (''runner_header_bytes'', json_u32 env (sl_runner_header_bytes l)),
      (''diagnostic_bytes'', json_u32 env (sl_diagnostic_bytes l))]"

definition resource_limits_json :: "('n, 'z) platform_env_scheme \<Rightarrow> SandboxResourceLimits \<Rightarrow> 'n Json" where
  "resource_limits_json env l = json_object
     [(''maximum_input_bytes'', json_number env (rl_maximum_input_bytes l)),
      (''maximum_output_bytes'', json_number env (rl_maximum_output_bytes l)),
      (''cpu_millicores'', json_u32 env (rl_cpu_millicores l)),
      (''memory_mebibytes'', json_u32 env (rl_memory_mebibytes l)),
      (''pids'', json_u32 env (rl_pids l)),
      (''ephemeral_storage_bytes'', json_number env (rl_ephemeral_storage_bytes l)),
      (''wall_milliseconds'', json_number env (rl_wall_milliseconds l)),
      (''cleanup_milliseconds'', json_number env (rl_cleanup_milliseconds l))]"

section \<open>Plans and requests\<close>

record SandboxExecutionPlan =
  xn_schema_version :: u16
  xn_tenant_id :: ResourceId
  xn_invocation_id :: ResourceId
  xn_job_id :: ResourceId
  xn_package_version_id :: ResourceId
  xn_image_uri :: string
  xn_runtime_version_id :: ResourceId
  xn_runtime_contract_digest :: Sha256Digest
  xn_sandbox_profile_deployment_id :: ResourceId
  xn_profile_deployment_digest :: Sha256Digest
  xn_runner_argv :: "string list"
  xn_package_argv :: "string list"
  xn_input_value_id :: ResourceId
  xn_output_value_id :: ResourceId
  xn_classification :: DataClassification
  xn_input_schema_digest :: Sha256Digest
  xn_input_digest :: Sha256Digest
  xn_output_schema_digest :: Sha256Digest
  xn_network_mode :: SandboxNetworkMode
  xn_limits :: SandboxResourceLimits
  xn_provisioning_limits :: SandboxProvisioningLimits
  xn_deadline_at :: instant
  xn_request_digest :: Sha256Digest

text \<open>A request has every field of a plan, and those that bind it to one lease, one attempt and one body.\<close>

record 'n SandboxExecutionRequest = SandboxExecutionPlan +
  xq_lease_generation :: u64
  xq_physical_attempt :: u32
  xq_worker_process_generation_id :: ResourceId
  xq_input :: "'n Json"
  xq_trace :: TraceIdentityV1

definition plan_fields :: "('n, 'z) sandbox_env_scheme \<Rightarrow> 'r SandboxExecutionPlan_scheme \<Rightarrow> (string \<times> 'n Json) list" where
  "plan_fields env p =
     [(''schema_version'', json_u16 env (xn_schema_version p)),
      (''tenant_id'', json_id env (xn_tenant_id p)),
      (''invocation_id'', json_id env (xn_invocation_id p)),
      (''job_id'', json_id env (xn_job_id p)),
      (''package_version_id'', json_id env (xn_package_version_id p)),
      (''image_uri'', String (xn_image_uri p)),
      (''runtime_version_id'', json_id env (xn_runtime_version_id p)),
      (''runtime_contract_digest'', String (xn_runtime_contract_digest p)),
      (''sandbox_profile_deployment_id'', json_id env (xn_sandbox_profile_deployment_id p)),
      (''profile_deployment_digest'', String (xn_profile_deployment_digest p)),
      (''runner_argv'', Array (map String (xn_runner_argv p))),
      (''package_argv'', Array (map String (xn_package_argv p))),
      (''input_value_id'', json_id env (xn_input_value_id p)),
      (''output_value_id'', json_id env (xn_output_value_id p)),
      (''classification'', String (data_classification_str (xn_classification p))),
      (''input_schema_digest'', String (xn_input_schema_digest p)),
      (''input_digest'', String (xn_input_digest p)),
      (''output_schema_digest'', String (xn_output_schema_digest p)),
      (''network_mode'', String (network_mode_str (xn_network_mode p))),
      (''limits'', resource_limits_json env (xn_limits p)),
      (''provisioning_limits'', provisioning_limits_json env (xn_provisioning_limits p)),
      (''deadline_at'', json_instant env (xn_deadline_at p))]"

text \<open>The digest of a request leaves out what a plan does not have, so both are the digest of the plan.\<close>

definition semantic_digest ::
  "('n, 'z) sandbox_env_scheme \<Rightarrow> 'r SandboxExecutionPlan_scheme \<Rightarrow> SandboxContractError + Sha256Digest" where
  "semantic_digest env p = digest_json env (json_object (plan_fields env p))"

text \<open>What plans and requests have to satisfy alike.\<close>

definition plan_shape :: "'r SandboxExecutionPlan_scheme \<Rightarrow> bool" where
  "plan_shape p \<longleftrightarrow>
     xn_schema_version p = SANDBOX_CONTRACT_SCHEMA_VERSION
     \<and> rid_kind (xn_tenant_id p) = ResourceKind.Tenant
     \<and> rid_kind (xn_invocation_id p) = ResourceKind.CapabilityInvocation
     \<and> rid_kind (xn_job_id p) = ResourceKind.Job
     \<and> rid_kind (xn_package_version_id p) = ResourceKind.SandboxPackageRevision
     \<and> rid_kind (xn_runtime_version_id p) = ResourceKind.SandboxRuntimeRevision
     \<and> rid_kind (xn_sandbox_profile_deployment_id p) = ResourceKind.SandboxProfileDeployment
     \<and> valid_oci_digest_uri (xn_image_uri p)
     \<and> valid_absolute_argv (xn_runner_argv p)
     \<and> valid_absolute_argv (xn_package_argv p)
     \<and> rid_kind (xn_input_value_id p) = ResourceKind.RunValue
     \<and> rid_kind (xn_output_value_id p) = ResourceKind.RunValue
     \<and> xn_input_value_id p \<noteq> xn_output_value_id p"

definition sandbox_plan_validate ::
  "('n, 'z) sandbox_env_scheme \<Rightarrow> SandboxExecutionPlan \<Rightarrow> SandboxContractError + unit" where
  "sandbox_plan_validate env p =
     rbind (resource_limits_validate (xn_limits p)) (\<lambda>_.
     rbind (provisioning_limits_validate (xn_provisioning_limits p)) (\<lambda>_.
     if \<not> plan_shape p then Inl InvalidRequest
     else
       rbind (semantic_digest env p) (\<lambda>digest.
       fail_if (xn_request_digest p \<noteq> digest) InvalidRequest)))"

definition request_validate ::
  "('n, 'z) sandbox_env_scheme \<Rightarrow> 'n SandboxExecutionRequest \<Rightarrow> SandboxContractError + unit" where
  "request_validate env r =
     rbind (resource_limits_validate (xn_limits r)) (\<lambda>_.
     rbind (provisioning_limits_validate (xn_provisioning_limits r)) (\<lambda>_.
     rbind (map_err InvalidRequest (trace_identity_validate (xq_trace r))) (\<lambda>_.
     if \<not> plan_shape r \<or> xq_lease_generation r = 0 \<or> xq_physical_attempt r = 0
        \<or> rid_kind (xq_worker_process_generation_id r) \<noteq> ResourceKind.WorkerProcessGeneration
     then Inl InvalidRequest
     else
       rbind (canonical_value_digest env (xq_input r) (rl_maximum_input_bytes (xn_limits r))) (\<lambda>input.
       if xn_input_digest r \<noteq> input then Inl InvalidRequest
       else
         rbind (semantic_digest env r) (\<lambda>digest.
         fail_if (xn_request_digest r \<noteq> digest) InvalidRequest)))))"

definition request_seal ::
  "('n, 'z) sandbox_env_scheme \<Rightarrow> 'n SandboxExecutionRequest \<Rightarrow> SandboxContractError + 'n SandboxExecutionRequest" where
  "request_seal env r =
     rbind (canonical_value_digest env (xq_input r) (rl_maximum_input_bytes (xn_limits r))) (\<lambda>input.
     let bound = r\<lparr>xn_input_digest := input\<rparr>
     in rbind (semantic_digest env bound) (\<lambda>digest.
        let sealed = bound\<lparr>xn_request_digest := digest\<rparr>
        in rbind (request_validate env sealed) (\<lambda>_. Inr sealed)))"

definition plan_from_request ::
  "('n, 'z) sandbox_env_scheme \<Rightarrow> 'n SandboxExecutionRequest \<Rightarrow> SandboxContractError + SandboxExecutionPlan" where
  "plan_from_request env r =
     rbind (request_validate env r) (\<lambda>_.
     let plan = SandboxExecutionPlan.truncate r
     in rbind (sandbox_plan_validate env plan) (\<lambda>_. Inr plan))"

definition bind_request ::
  "('n, 'z) sandbox_env_scheme \<Rightarrow> SandboxExecutionPlan \<Rightarrow> u64 \<Rightarrow> u32 \<Rightarrow> ResourceId \<Rightarrow> TraceIdentityV1 \<Rightarrow> 'n Json \<Rightarrow>
   SandboxContractError + 'n SandboxExecutionRequest" where
  "bind_request env p lease_generation physical_attempt worker_process_generation_id trace input =
     rbind (sandbox_plan_validate env p) (\<lambda>_.
     let request = SandboxExecutionPlan.extend p (SandboxExecutionRequest.fields lease_generation physical_attempt
           worker_process_generation_id input trace)
     in rbind (request_validate env request) (\<lambda>_.
        if xn_request_digest request \<noteq> xn_request_digest p then Inl InvalidRequest else Inr request))"

definition validate_request ::
  "('n, 'z) sandbox_env_scheme \<Rightarrow> SandboxExecutionPlan \<Rightarrow> 'n SandboxExecutionRequest \<Rightarrow> SandboxContractError + unit" where
  "validate_request env p r =
     rbind (request_validate env r) (\<lambda>_.
     rbind (plan_from_request env r) (\<lambda>plan. fail_if (plan \<noteq> p) InvalidRequest))"

section \<open>Tokens and candidates\<close>

record SandboxProvisioningToken =
  vt_schema_version :: u16
  vt_tenant_id :: ResourceId
  vt_job_id :: ResourceId
  vt_physical_attempt :: u32
  vt_execution_request_digest :: Sha256Digest

definition token_from_plan :: "'r SandboxExecutionPlan_scheme \<Rightarrow> u32 \<Rightarrow> SandboxProvisioningToken" where
  "token_from_plan p physical_attempt = \<lparr>vt_schema_version = SANDBOX_CONTRACT_SCHEMA_VERSION,
     vt_tenant_id = xn_tenant_id p, vt_job_id = xn_job_id p, vt_physical_attempt = physical_attempt,
     vt_execution_request_digest = xn_request_digest p\<rparr>"

definition token_from_request :: "'n SandboxExecutionRequest \<Rightarrow> SandboxProvisioningToken" where
  "token_from_request r = \<lparr>vt_schema_version = SANDBOX_CONTRACT_SCHEMA_VERSION,
     vt_tenant_id = xn_tenant_id r, vt_job_id = xn_job_id r, vt_physical_attempt = xq_physical_attempt r,
     vt_execution_request_digest = xn_request_digest r\<rparr>"

definition token_validate :: "SandboxProvisioningToken \<Rightarrow> SandboxContractError + unit" where
  "token_validate t =
     fail_if
       (vt_schema_version t \<noteq> SANDBOX_CONTRACT_SCHEMA_VERSION
        \<or> rid_kind (vt_tenant_id t) \<noteq> ResourceKind.Tenant
        \<or> rid_kind (vt_job_id t) \<noteq> ResourceKind.Job
        \<or> vt_physical_attempt t = 0)
       InvalidProvisioningToken"

definition token_json :: "('n, 'z) platform_env_scheme \<Rightarrow> SandboxProvisioningToken \<Rightarrow> 'n Json" where
  "token_json env t = json_object
     [(''schema_version'', json_u16 env (vt_schema_version t)),
      (''tenant_id'', json_id env (vt_tenant_id t)),
      (''job_id'', json_id env (vt_job_id t)),
      (''physical_attempt'', json_u32 env (vt_physical_attempt t)),
      (''execution_request_digest'', String (vt_execution_request_digest t))]"

definition token_digest ::
  "('n, 'z) platform_env_scheme \<Rightarrow> SandboxProvisioningToken \<Rightarrow> SandboxContractError + Sha256Digest" where
  "token_digest env t =
     rbind (token_validate t) (\<lambda>_.
     digest_json env (json_object [(''domain'', String ''insight.sandbox.provision/v1''), (''token'', token_json env t)]))"

record SandboxCandidateMetadata =
  cm_schema_version :: u16
  cm_purpose :: SandboxCandidatePurpose
  cm_tenant_id :: ResourceId
  cm_job_id :: ResourceId
  cm_physical_attempt :: u32
  cm_create_ordinal :: u8
  cm_provisioning_token_digest :: Sha256Digest
  cm_execution_request_digest :: Sha256Digest
  cm_runtime_contract_digest :: Sha256Digest
  cm_profile_deployment_digest :: Sha256Digest
  cm_network_mode :: SandboxNetworkMode

definition metadata_validate_shape :: "SandboxCandidateMetadata \<Rightarrow> SandboxContractError + unit" where
  "metadata_validate_shape m =
     fail_if
       (cm_schema_version m \<noteq> SANDBOX_CONTRACT_SCHEMA_VERSION
        \<or> rid_kind (cm_tenant_id m) \<noteq> ResourceKind.Tenant
        \<or> rid_kind (cm_job_id m) \<noteq> ResourceKind.Job
        \<or> cm_physical_attempt m = 0
        \<or> \<not> (1 \<le> cm_create_ordinal m \<and> cm_create_ordinal m \<le> MAX_SANDBOX_CANDIDATES))
       InvalidCandidate"

definition metadata_validate_for ::
  "('n, 'z) platform_env_scheme \<Rightarrow> SandboxCandidateMetadata \<Rightarrow> 'n SandboxExecutionRequest \<Rightarrow>
   SandboxProvisioningToken \<Rightarrow> SandboxContractError + unit" where
  "metadata_validate_for env m r token =
     rbind (metadata_validate_shape m) (\<lambda>_.
     if cm_purpose m \<noteq> JobCandidate \<or> cm_tenant_id m \<noteq> xn_tenant_id r \<or> cm_job_id m \<noteq> xn_job_id r
        \<or> cm_physical_attempt m \<noteq> xq_physical_attempt r
     then Inl InvalidCandidate
     else
       rbind (token_digest env token) (\<lambda>digest.
       fail_if
         (cm_provisioning_token_digest m \<noteq> digest
          \<or> cm_execution_request_digest m \<noteq> xn_request_digest r
          \<or> cm_runtime_contract_digest m \<noteq> xn_runtime_contract_digest r
          \<or> cm_profile_deployment_digest m \<noteq> xn_profile_deployment_digest r
          \<or> cm_network_mode m \<noteq> xn_network_mode r)
         InvalidCandidate))"

definition metadata_validate_for_plan ::
  "('n, 'z) platform_env_scheme \<Rightarrow> SandboxCandidateMetadata \<Rightarrow> SandboxExecutionPlan \<Rightarrow>
   SandboxProvisioningToken \<Rightarrow> SandboxContractError + unit" where
  "metadata_validate_for_plan env m p token =
     rbind (metadata_validate_shape m) (\<lambda>_.
     if cm_purpose m \<noteq> JobCandidate \<or> cm_tenant_id m \<noteq> xn_tenant_id p \<or> cm_job_id m \<noteq> xn_job_id p
        \<or> cm_physical_attempt m \<noteq> vt_physical_attempt token
     then Inl InvalidCandidate
     else
       rbind (token_digest env token) (\<lambda>digest.
       fail_if
         (cm_provisioning_token_digest m \<noteq> digest
          \<or> cm_execution_request_digest m \<noteq> xn_request_digest p
          \<or> cm_runtime_contract_digest m \<noteq> xn_runtime_contract_digest p
          \<or> cm_profile_deployment_digest m \<noteq> xn_profile_deployment_digest p
          \<or> cm_network_mode m \<noteq> xn_network_mode p)
         InvalidCandidate))"

record SandboxCandidate =
  cd_schema_version :: u16
  cd_sandbox_id :: OpenSandboxId
  cd_metadata :: SandboxCandidateMetadata
  cd_observed_at :: instant

definition candidate_validate_shape :: "SandboxCandidate \<Rightarrow> SandboxContractError + unit" where
  "candidate_validate_shape c =
     rbind (metadata_validate_shape (cd_metadata c)) (\<lambda>_.
     fail_if (cd_schema_version c \<noteq> SANDBOX_CONTRACT_SCHEMA_VERSION) InvalidCandidate)"

section \<open>Frames of the runner\<close>

datatype SandboxRunnerPhase = Armed | ActivationLatched | Started | Succeeded | Failed | UnknownPriorActivation

primrec runner_phase_str :: "SandboxRunnerPhase \<Rightarrow> string" where
  "runner_phase_str SandboxRunnerPhase.Armed = ''armed''"
| "runner_phase_str SandboxRunnerPhase.ActivationLatched = ''activation_latched''"
| "runner_phase_str SandboxRunnerPhase.Started = ''started''"
| "runner_phase_str SandboxRunnerPhase.Succeeded = ''succeeded''"
| "runner_phase_str SandboxRunnerPhase.Failed = ''failed''"
| "runner_phase_str SandboxRunnerPhase.UnknownPriorActivation = ''unknown_prior_activation''"

record SandboxRunnerStateFrame =
  rf_magic :: string
  rf_schema_version :: u16
  rf_sandbox_id :: OpenSandboxId
  rf_boot_id :: RunnerBootId
  rf_execution_request_digest :: Sha256Digest
  rf_phase :: SandboxRunnerPhase
  rf_frame_digest :: Sha256Digest

text \<open>\<open>digest_without_field(self, ''frame_digest'')\<close>\<close>

definition state_frame_digest ::
  "('n, 'z) platform_env_scheme \<Rightarrow> SandboxRunnerStateFrame \<Rightarrow> SandboxContractError + Sha256Digest" where
  "state_frame_digest env f = digest_json env (json_object
     [(''magic'', String (rf_magic f)),
      (''schema_version'', json_u16 env (rf_schema_version f)),
      (''sandbox_id'', String (rf_sandbox_id f)),
      (''boot_id'', String (rf_boot_id f)),
      (''execution_request_digest'', String (rf_execution_request_digest f)),
      (''phase'', String (runner_phase_str (rf_phase f)))])"

definition state_frame_validate ::
  "('n, 'z) platform_env_scheme \<Rightarrow> SandboxRunnerStateFrame \<Rightarrow> SandboxContractError + unit" where
  "state_frame_validate env f =
     (if rf_magic f \<noteq> SANDBOX_RUNNER_FRAME_MAGIC \<or> rf_schema_version f \<noteq> SANDBOX_CONTRACT_SCHEMA_VERSION
      then Inl InvalidRunnerFrame
      else
        rbind (state_frame_digest env f) (\<lambda>digest. fail_if (rf_frame_digest f \<noteq> digest) InvalidRunnerFrame))"

definition state_frame_seal ::
  "('n, 'z) platform_env_scheme \<Rightarrow> SandboxRunnerStateFrame \<Rightarrow> SandboxContractError + SandboxRunnerStateFrame" where
  "state_frame_seal env f =
     (let f = f\<lparr>rf_magic := SANDBOX_RUNNER_FRAME_MAGIC\<rparr>
      in rbind (state_frame_digest env f) (\<lambda>digest.
         let sealed = f\<lparr>rf_frame_digest := digest\<rparr>
         in rbind (state_frame_validate env sealed) (\<lambda>_. Inr sealed)))"

datatype SandboxFailureClass = PackageFailed | PackageTimedOut | OutputInvalid | OutputTooLarge | RunnerFailure

primrec sandbox_failure_class_str :: "SandboxFailureClass \<Rightarrow> string" where
  "sandbox_failure_class_str PackageFailed = ''package_failed''"
| "sandbox_failure_class_str PackageTimedOut = ''package_timed_out''"
| "sandbox_failure_class_str OutputInvalid = ''output_invalid''"
| "sandbox_failure_class_str OutputTooLarge = ''output_too_large''"
| "sandbox_failure_class_str RunnerFailure = ''runner_failure''"

datatype 'n SandboxRunnerOutcome =
    OutcomeSucceeded (outcome_output: "'n Json") (outcome_schema_digest: Sha256Digest)
      (outcome_output_digest: Sha256Digest) (outcome_output_bytes: u64)
  | OutcomeFailed (outcome_class: SandboxFailureClass) (outcome_diagnostic_digest: Sha256Digest)
      (outcome_diagnostic_bytes: u32)

definition outcome_json :: "('n, 'z) platform_env_scheme \<Rightarrow> 'n SandboxRunnerOutcome \<Rightarrow> 'n Json" where
  "outcome_json env result =
     (case result of
        OutcomeSucceeded output schema digest bytes \<Rightarrow> json_object
          [(''outcome'', String ''succeeded''), (''output'', output), (''output_schema_digest'', String schema),
           (''output_digest'', String digest), (''declared_output_bytes'', json_number env bytes)]
      | OutcomeFailed failure digest bytes \<Rightarrow> json_object
          [(''outcome'', String ''failed''), (''failure_class'', String (sandbox_failure_class_str failure)),
           (''diagnostic_digest'', String digest), (''diagnostic_bytes'', json_u32 env bytes)])"

record 'n SandboxRunnerResultFrame =
  fr_magic :: string
  fr_schema_version :: u16
  fr_execution_request_digest :: Sha256Digest
  fr_boot_id :: RunnerBootId
  fr_result :: "'n SandboxRunnerOutcome"
  fr_frame_digest :: Sha256Digest

definition result_frame_fields ::
  "('n, 'z) platform_env_scheme \<Rightarrow> 'n SandboxRunnerResultFrame \<Rightarrow> (string \<times> 'n Json) list" where
  "result_frame_fields env f =
     [(''magic'', String (fr_magic f)),
      (''schema_version'', json_u16 env (fr_schema_version f)),
      (''execution_request_digest'', String (fr_execution_request_digest f)),
      (''boot_id'', String (fr_boot_id f)),
      (''result'', outcome_json env (fr_result f))]"

definition result_frame_bytes ::
  "('n, 'z) platform_env_scheme \<Rightarrow> 'n SandboxRunnerResultFrame \<Rightarrow> SandboxContractError + u8 list" where
  "result_frame_bytes env f = map_err Canonical (canonical_json env
     (json_object (result_frame_fields env f @ [(''frame_digest'', String (fr_frame_digest f))])))"

definition result_frame_seal ::
  "('n, 'z) platform_env_scheme \<Rightarrow> 'n SandboxRunnerResultFrame \<Rightarrow> SandboxContractError + 'n SandboxRunnerResultFrame" where
  "result_frame_seal env f =
     (let f = f\<lparr>fr_magic := SANDBOX_RUNNER_FRAME_MAGIC\<rparr>
      in rbind (case fr_result f of
            OutcomeSucceeded output schema _ _ \<Rightarrow>
              rbind (digest_json env output) (\<lambda>digest.
              rbind (map_err InvalidResult (canonical_json env output)) (\<lambda>bytes.
              Inr (OutcomeSucceeded output schema digest (of_nat (length bytes)))))
          | OutcomeFailed _ _ _ \<Rightarrow> Inr (fr_result f)) (\<lambda>result.
         let f = f\<lparr>fr_result := result\<rparr>
         in rbind (digest_json env (json_object (result_frame_fields env f))) (\<lambda>digest.
            Inr (f\<lparr>fr_frame_digest := digest\<rparr>))))"

definition result_validate ::
  "('n, 'z) strict_env_scheme \<Rightarrow> 'n SandboxRunnerOutcome \<Rightarrow> 'n SandboxExecutionRequest \<Rightarrow> SandboxContractError + unit" where
  "result_validate env result r =
     (case result of
        OutcomeSucceeded output schema digest declared \<Rightarrow>
          rbind (map_err InvalidResult (canonical_json env output)) (\<lambda>bytes.
          if schema \<noteq> xn_output_schema_digest r then Inl InvalidResult
          else
            rbind (canonical_value_digest env output (rl_maximum_output_bytes (xn_limits r))) (\<lambda>actual_digest.
            fail_if
              (digest \<noteq> actual_digest
               \<or> unat declared \<noteq> length bytes
               \<or> unat (rl_maximum_output_bytes (xn_limits r)) < length bytes)
              InvalidResult))
      | OutcomeFailed _ _ diagnostic_bytes \<Rightarrow> fail_if (MAX_SANDBOX_DIAGNOSTIC_BYTES < diagnostic_bytes) InvalidResult)"

definition result_frame_validate_for ::
  "('n, 'z) strict_env_scheme \<Rightarrow> 'n SandboxRunnerResultFrame \<Rightarrow> 'n SandboxExecutionRequest \<Rightarrow> RunnerBootId \<Rightarrow> nat \<Rightarrow>
   SandboxContractError + unit" where
  "result_frame_validate_for env f r boot_id actual_bytes =
     (if fr_magic f \<noteq> SANDBOX_RUNNER_FRAME_MAGIC \<or> fr_schema_version f \<noteq> SANDBOX_CONTRACT_SCHEMA_VERSION
         \<or> fr_execution_request_digest f \<noteq> xn_request_digest r \<or> fr_boot_id f \<noteq> boot_id
      then Inl InvalidResult
      else
        rbind (digest_json env (json_object (result_frame_fields env f))) (\<lambda>digest.
        if fr_frame_digest f \<noteq> digest
           \<or> unat (saturating_add (rl_maximum_output_bytes (xn_limits r)) (ucast MAX_SANDBOX_RUNNER_HEADER_BYTES))
               < actual_bytes
        then Inl InvalidResult
        else result_validate env (fr_result f) r))"

section \<open>Evidence\<close>

datatype SandboxResultEvidence =
    EvidenceSucceeded Sha256Digest Sha256Digest Sha256Digest u64
  | EvidenceFailed Sha256Digest SandboxFailureClass Sha256Digest u32

definition evidence_from_frame :: "'n SandboxRunnerResultFrame \<Rightarrow> SandboxResultEvidence" where
  "evidence_from_frame f =
     (case fr_result f of
        OutcomeSucceeded _ schema digest bytes \<Rightarrow> EvidenceSucceeded (fr_frame_digest f) schema digest bytes
      | OutcomeFailed failure digest bytes \<Rightarrow> EvidenceFailed (fr_frame_digest f) failure digest bytes)"

definition evidence_frame_digest :: "SandboxResultEvidence \<Rightarrow> Sha256Digest" where
  "evidence_frame_digest e = (case e of EvidenceSucceeded digest _ _ _ \<Rightarrow> digest | EvidenceFailed digest _ _ _ \<Rightarrow> digest)"

definition evidence_validate_for ::
  "('n, 'z) sandbox_env_scheme \<Rightarrow> SandboxResultEvidence \<Rightarrow> SandboxExecutionPlan \<Rightarrow> SandboxContractError + unit" where
  "evidence_validate_for env e p =
     rbind (sandbox_plan_validate env p) (\<lambda>_.
     case e of
       EvidenceSucceeded _ schema _ bytes \<Rightarrow>
         fail_if (schema \<noteq> xn_output_schema_digest p \<or> rl_maximum_output_bytes (xn_limits p) < bytes) InvalidResult
     | EvidenceFailed _ _ _ bytes \<Rightarrow> fail_if (MAX_SANDBOX_DIAGNOSTIC_BYTES < bytes) InvalidResult)"

definition result_evidence_json :: "('n, 'z) platform_env_scheme \<Rightarrow> SandboxResultEvidence \<Rightarrow> 'n Json" where
  "result_evidence_json env e =
     (case e of
        EvidenceSucceeded frame schema digest bytes \<Rightarrow> json_object
          [(''outcome'', String ''succeeded''), (''frame_digest'', String frame), (''output_schema_digest'', String schema),
           (''output_digest'', String digest), (''declared_output_bytes'', json_number env bytes)]
      | EvidenceFailed frame failure digest bytes \<Rightarrow> json_object
          [(''outcome'', String ''failed''), (''frame_digest'', String frame),
           (''failure_class'', String (sandbox_failure_class_str failure)),
           (''diagnostic_digest'', String digest), (''diagnostic_bytes'', json_u32 env bytes)])"

datatype SandboxPhysicalPhase = Provisioning | CandidateSelected | ActivationAuthorized | Started | Succeeded | Failed
  | UnknownOutcome | Cleaning | Absent

primrec physical_phase_str :: "SandboxPhysicalPhase \<Rightarrow> string" where
  "physical_phase_str SandboxPhysicalPhase.Provisioning = ''provisioning''"
| "physical_phase_str SandboxPhysicalPhase.CandidateSelected = ''candidate_selected''"
| "physical_phase_str SandboxPhysicalPhase.ActivationAuthorized = ''activation_authorized''"
| "physical_phase_str SandboxPhysicalPhase.Started = ''started''"
| "physical_phase_str SandboxPhysicalPhase.Succeeded = ''succeeded''"
| "physical_phase_str SandboxPhysicalPhase.Failed = ''failed''"
| "physical_phase_str SandboxPhysicalPhase.UnknownOutcome = ''unknown_outcome''"
| "physical_phase_str SandboxPhysicalPhase.Cleaning = ''cleaning''"
| "physical_phase_str SandboxPhysicalPhase.Absent = ''absent''"

definition may_create_candidate :: "SandboxPhysicalPhase \<Rightarrow> bool" where
  "may_create_candidate phase \<longleftrightarrow> phase = SandboxPhysicalPhase.Provisioning"

record SandboxRunnerBootRolloverEvidence =
  ro_schema_version :: u16
  ro_observed_boot_id :: RunnerBootId
  ro_runner_state_frame_digest :: Sha256Digest
  ro_evidence_digest :: Sha256Digest

record SandboxPhysicalEvidence =
  ph_schema_version :: u16
  ph_provisioning_token :: SandboxProvisioningToken
  ph_provisioning_token_digest :: Sha256Digest
  ph_activation_token :: OpaqueActivationToken
  ph_activation_token_digest :: Sha256Digest
  ph_provisioning_started_at :: instant
  ph_create_authorization_count :: u8
  ph_last_create_authorized_at :: "instant option"
  ph_candidate_count :: u8
  ph_candidate_ids :: "OpenSandboxId list"
  ph_selected_sandbox_id :: "OpenSandboxId option"
  ph_runner_boot_id :: "RunnerBootId option"
  ph_runner_boot_rollover :: "SandboxRunnerBootRolloverEvidence option"
  ph_phase :: SandboxPhysicalPhase
  ph_result_evidence :: "SandboxResultEvidence option"
  ph_cleanup_required :: bool
  ph_absent_candidate_ids :: "OpenSandboxId list"
  ph_absence_evidence_digest :: "Sha256Digest option"

definition rollover_digest_for ::
  "('n, 'z) platform_env_scheme \<Rightarrow> SandboxRunnerBootRolloverEvidence \<Rightarrow> SandboxPhysicalEvidence \<Rightarrow>
   SandboxContractError + Sha256Digest" where
  "rollover_digest_for env e physical =
     rbind (ok_or InvalidPhysicalTransition (ph_runner_boot_id physical)) (\<lambda>original_boot_id.
     digest_json env (json_object
       [(''domain'', String ''insight.sandbox.runner-boot-rollover/v1''),
        (''tenant_id'', json_id env (vt_tenant_id (ph_provisioning_token physical))),
        (''job_id'', json_id env (vt_job_id (ph_provisioning_token physical))),
        (''physical_attempt'', json_u32 env (vt_physical_attempt (ph_provisioning_token physical))),
        (''request_digest'', String (vt_execution_request_digest (ph_provisioning_token physical))),
        (''sandbox_id'', json_option String (ph_selected_sandbox_id physical)),
        (''original_boot_id'', String original_boot_id),
        (''observed_boot_id'', String (ro_observed_boot_id e)),
        (''runner_state_frame_digest'', String (ro_runner_state_frame_digest e))]))"

definition rollover_validate_for ::
  "('n, 'z) platform_env_scheme \<Rightarrow> SandboxRunnerBootRolloverEvidence \<Rightarrow> SandboxPhysicalEvidence \<Rightarrow>
   SandboxContractError + unit" where
  "rollover_validate_for env e physical =
     rbind (ok_or InvalidPhysicalTransition (ph_runner_boot_id physical)) (\<lambda>original_boot_id.
     if ro_schema_version e \<noteq> SANDBOX_CONTRACT_SCHEMA_VERSION \<or> ro_observed_boot_id e = original_boot_id
     then Inl InvalidPhysicalTransition
     else
       rbind (rollover_digest_for env e physical) (\<lambda>digest.
       fail_if (ro_evidence_digest e \<noteq> digest) InvalidPhysicalTransition))"

definition rollover_new ::
  "('n, 'z) platform_env_scheme \<Rightarrow> SandboxPhysicalEvidence \<Rightarrow> SandboxRunnerStateFrame \<Rightarrow>
   SandboxContractError + SandboxRunnerBootRolloverEvidence" where
  "rollover_new env physical frame =
     (let evidence = \<lparr>ro_schema_version = SANDBOX_CONTRACT_SCHEMA_VERSION, ro_observed_boot_id = rf_boot_id frame,
            ro_runner_state_frame_digest = rf_frame_digest frame, ro_evidence_digest = zero_digest\<rparr>
      in rbind (rollover_digest_for env evidence physical) (\<lambda>digest.
         let evidence = evidence\<lparr>ro_evidence_digest := digest\<rparr>
         in rbind (rollover_validate_for env evidence physical) (\<lambda>_. Inr evidence)))"

section \<open>Physical attempts\<close>

datatype 'a PhysicalDecision = Applied 'a | Replayed 'a

primrec into_inner :: "'a PhysicalDecision \<Rightarrow> 'a" where
  "into_inner (Applied v) = v"
| "into_inner (Replayed v) = v"

definition physical_begin ::
  "('n, 'z) sandbox_env_scheme \<Rightarrow> 'n SandboxExecutionRequest \<Rightarrow> OpaqueActivationToken \<Rightarrow> instant \<Rightarrow>
   SandboxContractError + SandboxPhysicalEvidence" where
  "physical_begin env r activation_token database_now =
     rbind (request_validate env r) (\<lambda>_.
     if xn_deadline_at r \<le> database_now then Inl CandidateCreateConflict
     else
       let provisioning_token = token_from_request r
       in rbind (token_digest env provisioning_token) (\<lambda>provisioning_token_digest.
          rbind (activation_token_digest env activation_token) (\<lambda>token_digest.
          Inr \<lparr>ph_schema_version = SANDBOX_CONTRACT_SCHEMA_VERSION, ph_provisioning_token = provisioning_token,
               ph_provisioning_token_digest = provisioning_token_digest, ph_activation_token = activation_token,
               ph_activation_token_digest = token_digest, ph_provisioning_started_at = database_now,
               ph_create_authorization_count = 0, ph_last_create_authorized_at = None, ph_candidate_count = 0,
               ph_candidate_ids = [], ph_selected_sandbox_id = None, ph_runner_boot_id = None,
               ph_runner_boot_rollover = None, ph_phase = SandboxPhysicalPhase.Provisioning, ph_result_evidence = None,
               ph_cleanup_required = False, ph_absent_candidate_ids = [], ph_absence_evidence_digest = None\<rparr>)))"

definition physical_authorize_create ::
  "('n, 'z) sandbox_env_scheme \<Rightarrow> SandboxPhysicalEvidence \<Rightarrow> 'n SandboxExecutionRequest \<Rightarrow>
   SandboxProvisioningLimits \<Rightarrow> instant \<Rightarrow> u8 \<Rightarrow> SandboxContractError + SandboxPhysicalEvidence PhysicalDecision" where
  "physical_authorize_create env s r limits database_now create_ordinal =
     rbind (request_validate env r) (\<lambda>_.
     rbind (provisioning_limits_validate limits) (\<lambda>_.
     if limits \<noteq> xn_provisioning_limits r \<or> ph_phase s \<noteq> SandboxPhysicalPhase.Provisioning \<or> create_ordinal = 0
        \<or> sl_maximum_candidates limits < create_ordinal
     then Inl CandidateCreateConflict
     else if create_ordinal = ph_create_authorization_count s then Inr (Replayed s)
     else if create_ordinal \<noteq> saturating_add (ph_create_authorization_count s) 1
        \<or> sl_maximum_candidates limits \<le> ph_create_authorization_count s
     then Inl CandidateCreateConflict
     else
       let elapsed = milliseconds_since database_now (ph_provisioning_started_at s)
       in if elapsed < 0 \<or> int (unat (sl_provisioning_timeout_milliseconds limits)) < elapsed
          then Inl CandidateLimitOrLateCandidate
          else if some_and (ph_last_create_authorized_at s) (\<lambda>last.
              milliseconds_since database_now last < int (unat (sl_candidate_quiescence_milliseconds limits)))
          then Inl CandidateLimitOrLateCandidate
          else Inr (Applied (s\<lparr>ph_create_authorization_count := create_ordinal,
            ph_last_create_authorized_at := Some database_now\<rparr>))))"

definition physical_observe_candidate ::
  "('n, 'z) sandbox_env_scheme \<Rightarrow> SandboxPhysicalEvidence \<Rightarrow> 'n SandboxExecutionRequest \<Rightarrow> SandboxCandidate \<Rightarrow>
   SandboxProvisioningLimits \<Rightarrow> SandboxContractError + SandboxPhysicalEvidence" where
  "physical_observe_candidate env s r candidate limits =
     rbind (provisioning_limits_validate limits) (\<lambda>_.
     if limits \<noteq> xn_provisioning_limits r then Inl InvalidLimits
     else
       rbind (metadata_validate_for env (cd_metadata candidate) r (ph_provisioning_token s)) (\<lambda>_.
       if ph_create_authorization_count s < cm_create_ordinal (cd_metadata candidate) then Inl InvalidCandidate
       else if cd_sandbox_id candidate \<in> set (ph_candidate_ids s) then Inr s
       else if \<not> may_create_candidate (ph_phase s)
          \<or> cd_schema_version candidate \<noteq> SANDBOX_CONTRACT_SCHEMA_VERSION
          \<or> sl_maximum_candidates limits \<le> ph_candidate_count s
       then Inl CandidateLimitOrLateCandidate
       else Inr (s\<lparr>ph_candidate_ids := ph_candidate_ids s @ [cd_sandbox_id candidate],
         ph_candidate_count := ph_candidate_count s + 1, ph_cleanup_required := True\<rparr>)))"

definition physical_select_candidate ::
  "('n, 'z) sandbox_env_scheme \<Rightarrow> SandboxPhysicalEvidence \<Rightarrow> 'n SandboxExecutionRequest \<Rightarrow> SandboxCandidate \<Rightarrow>
   SandboxContractError + SandboxPhysicalEvidence PhysicalDecision" where
  "physical_select_candidate env s r candidate =
     rbind (metadata_validate_for env (cd_metadata candidate) r (ph_provisioning_token s)) (\<lambda>_.
     if ph_create_authorization_count s < cm_create_ordinal (cd_metadata candidate)
        \<or> cd_sandbox_id candidate \<notin> set (ph_candidate_ids s)
     then Inl InvalidCandidate
     else
       case ph_selected_sandbox_id s of
         Some selected \<Rightarrow>
           if selected = cd_sandbox_id candidate then Inr (Replayed s) else Inl CandidateSelectionConflict
       | None \<Rightarrow>
           if ph_phase s = SandboxPhysicalPhase.Provisioning
           then Inr (Applied (s\<lparr>ph_selected_sandbox_id := Some (cd_sandbox_id candidate),
             ph_phase := SandboxPhysicalPhase.CandidateSelected, ph_cleanup_required := True\<rparr>))
           else Inl InvalidPhysicalTransition)"

definition physical_authorize_activation ::
  "SandboxPhysicalEvidence \<Rightarrow> OpenSandboxId \<Rightarrow> RunnerBootId \<Rightarrow>
   SandboxContractError + SandboxPhysicalEvidence PhysicalDecision" where
  "physical_authorize_activation s sandbox_id boot_id =
     (if ph_selected_sandbox_id s \<noteq> Some sandbox_id then Inl CandidateSelectionConflict
      else
        case ph_runner_boot_id s of
          Some current \<Rightarrow>
            if ph_phase s = SandboxPhysicalPhase.ActivationAuthorized \<and> current = boot_id then Inr (Replayed s)
            else Inl RunnerBootChanged
        | None \<Rightarrow>
            if ph_phase s = SandboxPhysicalPhase.CandidateSelected
            then Inr (Applied (s\<lparr>ph_runner_boot_id := Some boot_id,
              ph_phase := SandboxPhysicalPhase.ActivationAuthorized\<rparr>))
            else Inl InvalidPhysicalTransition)"

text \<open>The phase after a state of the runner that booted as expected, and the phases that admit it.\<close>

primrec phase_after_state :: "SandboxRunnerPhase \<Rightarrow> SandboxPhysicalPhase \<Rightarrow> SandboxPhysicalPhase option" where
  "phase_after_state SandboxRunnerPhase.Armed phase =
     (if phase = SandboxPhysicalPhase.CandidateSelected then Some phase else None)"
| "phase_after_state SandboxRunnerPhase.ActivationLatched phase =
     (if phase \<in> {SandboxPhysicalPhase.ActivationAuthorized, SandboxPhysicalPhase.Started}
      then Some SandboxPhysicalPhase.Started else None)"
| "phase_after_state SandboxRunnerPhase.Started phase =
     (if phase \<in> {SandboxPhysicalPhase.ActivationAuthorized, SandboxPhysicalPhase.Started}
      then Some SandboxPhysicalPhase.Started else None)"
| "phase_after_state SandboxRunnerPhase.Succeeded phase =
     (if phase \<in> {SandboxPhysicalPhase.ActivationAuthorized, SandboxPhysicalPhase.Started,
        SandboxPhysicalPhase.Succeeded}
      then Some SandboxPhysicalPhase.Succeeded else None)"
| "phase_after_state SandboxRunnerPhase.Failed phase =
     (if phase \<in> {SandboxPhysicalPhase.ActivationAuthorized, SandboxPhysicalPhase.Started,
        SandboxPhysicalPhase.Failed}
      then Some SandboxPhysicalPhase.Failed else None)"
| "phase_after_state SandboxRunnerPhase.UnknownPriorActivation phase =
     (if phase \<in> {SandboxPhysicalPhase.ActivationAuthorized, SandboxPhysicalPhase.Started,
        SandboxPhysicalPhase.UnknownOutcome}
      then Some SandboxPhysicalPhase.UnknownOutcome else None)"

definition physical_record_rollover ::
  "('n, 'z) platform_env_scheme \<Rightarrow> SandboxPhysicalEvidence \<Rightarrow> SandboxRunnerStateFrame \<Rightarrow>
   SandboxContractError + SandboxPhysicalEvidence" where
  "physical_record_rollover env s frame =
     (if ph_result_evidence s \<noteq> None
         \<or> ph_phase s \<notin> {SandboxPhysicalPhase.ActivationAuthorized, SandboxPhysicalPhase.Started,
              SandboxPhysicalPhase.UnknownOutcome}
      then Inl RunnerBootChanged
      else
        rbind (rollover_new env s frame) (\<lambda>evidence.
        case ph_runner_boot_rollover s of
          Some current \<Rightarrow> if current = evidence then Inr s else Inl RunnerBootChanged
        | None \<Rightarrow> Inr (s\<lparr>ph_runner_boot_rollover := Some evidence,
            ph_phase := SandboxPhysicalPhase.UnknownOutcome, ph_cleanup_required := True\<rparr>)))"

definition physical_record_state ::
  "('n, 'z) platform_env_scheme \<Rightarrow> SandboxPhysicalEvidence \<Rightarrow> SandboxRunnerStateFrame \<Rightarrow>
   SandboxContractError + SandboxPhysicalEvidence" where
  "physical_record_state env s frame =
     rbind (state_frame_validate env frame) (\<lambda>_.
     if ph_selected_sandbox_id s \<noteq> Some (rf_sandbox_id frame)
        \<or> vt_execution_request_digest (ph_provisioning_token s) \<noteq> rf_execution_request_digest frame
     then Inl InvalidRunnerFrame
     else if ph_runner_boot_id s \<noteq> Some (rf_boot_id frame) then physical_record_rollover env s frame
     else
       rbind (ok_or InvalidPhysicalTransition (phase_after_state (rf_phase frame) (ph_phase s))) (\<lambda>phase.
       Inr (s\<lparr>ph_phase := phase\<rparr>)))"

definition phase_after_result :: "'n SandboxRunnerOutcome \<Rightarrow> SandboxPhysicalPhase" where
  "phase_after_result result =
     (case result of
        OutcomeSucceeded _ _ _ _ \<Rightarrow> SandboxPhysicalPhase.Succeeded
      | OutcomeFailed _ _ _ \<Rightarrow> SandboxPhysicalPhase.Failed)"

definition physical_record_result ::
  "('n, 'z) sandbox_env_scheme \<Rightarrow> SandboxPhysicalEvidence \<Rightarrow> 'n SandboxExecutionRequest \<Rightarrow>
   'n SandboxRunnerResultFrame \<Rightarrow> SandboxContractError + SandboxPhysicalEvidence" where
  "physical_record_result env s r frame =
     rbind (ok_or InvalidPhysicalTransition (ph_runner_boot_id s)) (\<lambda>boot_id.
     rbind (result_frame_bytes env frame) (\<lambda>bytes.
     rbind (result_frame_validate_for env frame r boot_id (length bytes)) (\<lambda>_.
     let evidence = evidence_from_frame frame
     in case ph_result_evidence s of
          Some current \<Rightarrow> if current = evidence then Inr s else Inl TerminalConflict
        | None \<Rightarrow>
            if ph_phase s \<notin> {SandboxPhysicalPhase.ActivationAuthorized, SandboxPhysicalPhase.Started,
                 SandboxPhysicalPhase.Succeeded, SandboxPhysicalPhase.Failed}
            then Inl InvalidPhysicalTransition
            else Inr (s\<lparr>ph_phase := phase_after_result (fr_result frame), ph_result_evidence := Some evidence,
              ph_cleanup_required := True\<rparr>))))"

definition physical_mark_absent ::
  "SandboxPhysicalEvidence \<Rightarrow> OpenSandboxId \<Rightarrow> Sha256Digest \<Rightarrow> SandboxContractError + SandboxPhysicalEvidence" where
  "physical_mark_absent s sandbox_id evidence_digest =
     (if sandbox_id \<notin> set (ph_candidate_ids s) then Inl InvalidCandidate
      else
        let absent = (if sandbox_id \<in> set (ph_absent_candidate_ids s) then ph_absent_candidate_ids s
              else ph_absent_candidate_ids s @ [sandbox_id])
        in if length absent = length (ph_candidate_ids s)
           then Inr (s\<lparr>ph_absent_candidate_ids := absent, ph_phase := SandboxPhysicalPhase.Absent,
             ph_cleanup_required := False, ph_absence_evidence_digest := Some evidence_digest\<rparr>)
           else Inr (s\<lparr>ph_absent_candidate_ids := absent\<rparr>))"

text \<open>What \<open>validate_for\<close> checks of an attempt apart from its two digests.\<close>

definition creation_in_limits :: "SandboxPhysicalEvidence \<Rightarrow> SandboxExecutionPlan \<Rightarrow> bool" where
  "creation_in_limits s p \<longleftrightarrow>
     ph_provisioning_started_at s < xn_deadline_at p
     \<and> ph_create_authorization_count s \<le> sl_maximum_candidates (xn_provisioning_limits p)
     \<and> (ph_create_authorization_count s = 0 \<longleftrightarrow> ph_last_create_authorized_at s = None)
     \<and> none_or (ph_last_create_authorized_at s) (\<lambda>last.
          ph_provisioning_started_at s \<le> last
          \<and> milliseconds_since last (ph_provisioning_started_at s)
              \<le> int (unat (sl_provisioning_timeout_milliseconds (xn_provisioning_limits p))))"

definition candidates_consistent :: "SandboxPhysicalEvidence \<Rightarrow> bool" where
  "candidates_consistent s \<longleftrightarrow>
     unat (ph_candidate_count s) = length (ph_candidate_ids s)
     \<and> ph_candidate_count s \<le> ph_create_authorization_count s
     \<and> length (ph_candidate_ids s) \<le> unat MAX_SANDBOX_CANDIDATES
     \<and> distinct (ph_candidate_ids s)
     \<and> distinct (ph_absent_candidate_ids s)
     \<and> set (ph_absent_candidate_ids s) \<subseteq> set (ph_candidate_ids s)
     \<and> none_or (ph_selected_sandbox_id s) (\<lambda>selected. selected \<in> set (ph_candidate_ids s))"

definition phase_consistent ::
  "('n, 'z) sandbox_env_scheme \<Rightarrow> SandboxPhysicalEvidence \<Rightarrow> SandboxExecutionPlan \<Rightarrow> bool" where
  "phase_consistent env s p \<longleftrightarrow>
     none_or (ph_result_evidence s) (\<lambda>e. is_ok (evidence_validate_for env e p))
     \<and> (ph_result_evidence s \<noteq> None \<longrightarrow>
          ph_phase s \<in> {SandboxPhysicalPhase.Succeeded, SandboxPhysicalPhase.Failed, SandboxPhysicalPhase.Cleaning,
            SandboxPhysicalPhase.Absent})
     \<and> (ph_runner_boot_id s \<noteq> None \<longrightarrow>
          ph_phase s \<notin> {SandboxPhysicalPhase.Provisioning, SandboxPhysicalPhase.CandidateSelected})
     \<and> (ph_runner_boot_id s = None \<longrightarrow>
          ph_phase s \<notin> {SandboxPhysicalPhase.ActivationAuthorized, SandboxPhysicalPhase.Started,
            SandboxPhysicalPhase.Succeeded, SandboxPhysicalPhase.Failed, SandboxPhysicalPhase.UnknownOutcome})
     \<and> (ph_runner_boot_rollover s \<noteq> None \<longrightarrow>
          ph_runner_boot_id s \<noteq> None \<and> ph_selected_sandbox_id s \<noteq> None \<and> ph_result_evidence s = None
          \<and> ph_phase s \<in> {SandboxPhysicalPhase.UnknownOutcome, SandboxPhysicalPhase.Cleaning,
              SandboxPhysicalPhase.Absent})
     \<and> none_or (ph_runner_boot_rollover s) (\<lambda>e. is_ok (rollover_validate_for env e s))
     \<and> (ph_phase s = SandboxPhysicalPhase.Absent \<longrightarrow>
          \<not> ph_cleanup_required s \<and> ph_absence_evidence_digest s \<noteq> None
          \<and> length (ph_absent_candidate_ids s) = length (ph_candidate_ids s))"

definition physical_validate_for ::
  "('n, 'z) sandbox_env_scheme \<Rightarrow> SandboxPhysicalEvidence \<Rightarrow> SandboxExecutionPlan \<Rightarrow> SandboxContractError + unit" where
  "physical_validate_for env s p =
     (if ph_schema_version s \<noteq> SANDBOX_CONTRACT_SCHEMA_VERSION
         \<or> ph_provisioning_token s \<noteq> token_from_plan p (vt_physical_attempt (ph_provisioning_token s))
      then Inl InvalidPhysicalTransition
      else
        rbind (token_digest env (ph_provisioning_token s)) (\<lambda>provisioning.
        if ph_provisioning_token_digest s \<noteq> provisioning then Inl InvalidPhysicalTransition
        else
          rbind (activation_token_digest env (ph_activation_token s)) (\<lambda>activation.
          fail_if
            (ph_activation_token_digest s \<noteq> activation
             \<or> \<not> creation_in_limits s p \<or> \<not> candidates_consistent s \<or> \<not> phase_consistent env s p)
            InvalidPhysicalTransition)))"

end
