(* ===== verification/SandboxJobs.thy ===== *)
theory SandboxJobs
  imports Sandbox
begin

text \<open>
  The payload of a sandbox job (\<open>platform-sandbox/src/contracts.rs\<close>): control intents, terminal records, the
  cleanup lease, and the operations that carry a plan from acceptance to proved absence beside the state of its
  job.
\<close>

section \<open>Control intents\<close>

datatype SandboxControlKind = CancelControl | TimeoutControl

primrec control_kind_str :: "SandboxControlKind \<Rightarrow> string" where
  "control_kind_str CancelControl = ''cancel''"
| "control_kind_str TimeoutControl = ''timeout''"

primrec control_job_state :: "SandboxControlKind \<Rightarrow> JobState" where
  "control_job_state CancelControl = JobState.Cancelled"
| "control_job_state TimeoutControl = JobState.TimedOut"

record SandboxControlIntent =
  ci_schema_version :: u16
  ci_kind :: SandboxControlKind
  ci_requested_at :: instant
  ci_target_invocation_version :: u64
  ci_intent_digest :: Sha256Digest

definition intent_digest_for ::
  "('n, 'z) sandbox_env_scheme \<Rightarrow> SandboxControlIntent \<Rightarrow> SandboxExecutionPlan \<Rightarrow>
   SandboxContractError + Sha256Digest" where
  "intent_digest_for env c p = digest_json env (json_object
     [(''domain'', String ''insight.sandbox.control-intent/v1''),
      (''tenant_id'', json_id env (xn_tenant_id p)),
      (''invocation_id'', json_id env (xn_invocation_id p)),
      (''target_invocation_version'', json_number env (ci_target_invocation_version c)),
      (''job_id'', json_id env (xn_job_id p)),
      (''execution_request_digest'', String (xn_request_digest p)),
      (''kind'', String (control_kind_str (ci_kind c))),
      (''requested_at'', json_instant env (ci_requested_at c))])"

definition intent_validate_for ::
  "('n, 'z) sandbox_env_scheme \<Rightarrow> SandboxControlIntent \<Rightarrow> SandboxExecutionPlan \<Rightarrow> SandboxContractError + unit" where
  "intent_validate_for env c p =
     (if ci_schema_version c \<noteq> SANDBOX_CONTRACT_SCHEMA_VERSION \<or> ci_target_invocation_version c = 0
      then Inl InvalidControl
      else rbind (intent_digest_for env c p) (\<lambda>digest. fail_if (ci_intent_digest c \<noteq> digest) InvalidControl))"

definition intent_new ::
  "('n, 'z) sandbox_env_scheme \<Rightarrow> SandboxExecutionPlan \<Rightarrow> SandboxControlKind \<Rightarrow> instant \<Rightarrow> u64 \<Rightarrow>
   SandboxContractError + SandboxControlIntent" where
  "intent_new env p kind requested_at target_invocation_version =
     (let intent = \<lparr>ci_schema_version = SANDBOX_CONTRACT_SCHEMA_VERSION, ci_kind = kind,
            ci_requested_at = requested_at, ci_target_invocation_version = target_invocation_version,
            ci_intent_digest = zero_digest\<rparr>
      in rbind (intent_digest_for env intent p) (\<lambda>digest.
         let intent = intent\<lparr>ci_intent_digest := digest\<rparr>
         in rbind (intent_validate_for env intent p) (\<lambda>_. Inr intent)))"

section \<open>Terminal outcomes\<close>

datatype 'n SandboxTerminalOutcome =
    TerminalSucceeded "'n SandboxRunnerResultFrame"
  | TerminalFailed SandboxFailureClass "'n SandboxRunnerResultFrame option" Sha256Digest
  | TerminalCancelled Sha256Digest
  | TerminalTimedOut Sha256Digest
  | TerminalUnknownOutcome Sha256Digest

primrec outcome_job_state :: "'n SandboxTerminalOutcome \<Rightarrow> JobState" where
  "outcome_job_state (TerminalSucceeded _) = JobState.Succeeded"
| "outcome_job_state (TerminalFailed _ _ _) = JobState.Failed"
| "outcome_job_state (TerminalCancelled _) = JobState.Cancelled"
| "outcome_job_state (TerminalTimedOut _) = JobState.TimedOut"
| "outcome_job_state (TerminalUnknownOutcome _) = JobState.ReconciliationRequired"

text \<open>The frame of an outcome has to come from the runner that booted.\<close>

definition outcome_frame_validate ::
  "('n, 'z) sandbox_env_scheme \<Rightarrow> 'n SandboxRunnerResultFrame \<Rightarrow> 'n SandboxExecutionRequest \<Rightarrow>
   SandboxPhysicalEvidence \<Rightarrow> SandboxContractError + unit" where
  "outcome_frame_validate env frame r physical =
     rbind (ok_or InvalidTerminal (ph_runner_boot_id physical)) (\<lambda>boot_id.
     rbind (result_frame_bytes env frame) (\<lambda>bytes.
     result_frame_validate_for env frame r boot_id (length bytes)))"

definition outcome_validate_for ::
  "('n, 'z) sandbox_env_scheme \<Rightarrow> 'n SandboxTerminalOutcome \<Rightarrow> 'n SandboxExecutionRequest \<Rightarrow>
   SandboxPhysicalEvidence \<Rightarrow> SandboxContractError + unit" where
  "outcome_validate_for env outcome r physical =
     (case outcome of
        TerminalSucceeded result \<Rightarrow>
          if ph_phase physical \<notin> {SandboxPhysicalPhase.Succeeded, SandboxPhysicalPhase.Cleaning,
               SandboxPhysicalPhase.Absent}
             \<or> ph_result_evidence physical \<noteq> Some (evidence_from_frame result)
          then Inl InvalidTerminal
          else outcome_frame_validate env result r physical
      | TerminalFailed failure result _ \<Rightarrow>
          if ph_phase physical \<notin> {SandboxPhysicalPhase.Failed, SandboxPhysicalPhase.Cleaning,
               SandboxPhysicalPhase.Absent}
             \<or> ph_result_evidence physical \<noteq> map_option evidence_from_frame result
          then Inl InvalidTerminal
          else
            (case result of
               None \<Rightarrow> Inr ()
             | Some result \<Rightarrow>
                 rbind (outcome_frame_validate env result r physical) (\<lambda>_.
                 fail_if (case fr_result result of OutcomeFailed c _ _ \<Rightarrow> c \<noteq> failure | _ \<Rightarrow> True) InvalidTerminal))
      | TerminalCancelled _ \<Rightarrow>
          fail_if (ph_phase physical \<in> {SandboxPhysicalPhase.Succeeded, SandboxPhysicalPhase.Failed,
            SandboxPhysicalPhase.UnknownOutcome}) InvalidTerminal
      | TerminalTimedOut _ \<Rightarrow>
          fail_if (ph_phase physical \<in> {SandboxPhysicalPhase.Succeeded, SandboxPhysicalPhase.Failed,
            SandboxPhysicalPhase.UnknownOutcome}) InvalidTerminal
      | TerminalUnknownOutcome _ \<Rightarrow>
          fail_if
            (ph_phase physical \<notin> {SandboxPhysicalPhase.UnknownOutcome, SandboxPhysicalPhase.Cleaning,
               SandboxPhysicalPhase.Absent}
             \<or> (ph_phase physical \<noteq> SandboxPhysicalPhase.Absent \<and> \<not> ph_cleanup_required physical))
            InvalidTerminal)"

datatype SandboxTerminalSummary =
    SummarySucceeded SandboxResultEvidence
  | SummaryFailed SandboxFailureClass "SandboxResultEvidence option" Sha256Digest
  | SummaryCancelled Sha256Digest
  | SummaryTimedOut Sha256Digest
  | SummaryUnknownOutcome Sha256Digest

primrec summary_job_state :: "SandboxTerminalSummary \<Rightarrow> JobState" where
  "summary_job_state (SummarySucceeded _) = JobState.Succeeded"
| "summary_job_state (SummaryFailed _ _ _) = JobState.Failed"
| "summary_job_state (SummaryCancelled _) = JobState.Cancelled"
| "summary_job_state (SummaryTimedOut _) = JobState.TimedOut"
| "summary_job_state (SummaryUnknownOutcome _) = JobState.ReconciliationRequired"

definition summary_from_outcome ::
  "('n, 'z) sandbox_env_scheme \<Rightarrow> 'n SandboxTerminalOutcome \<Rightarrow> 'n SandboxExecutionRequest \<Rightarrow>
   SandboxPhysicalEvidence \<Rightarrow> SandboxContractError + SandboxTerminalSummary" where
  "summary_from_outcome env outcome r physical =
     rbind (outcome_validate_for env outcome r physical) (\<lambda>_.
     Inr (case outcome of
         TerminalSucceeded result \<Rightarrow> SummarySucceeded (evidence_from_frame result)
       | TerminalFailed failure result digest \<Rightarrow>
           SummaryFailed failure (map_option evidence_from_frame result) digest
       | TerminalCancelled digest \<Rightarrow> SummaryCancelled digest
       | TerminalTimedOut digest \<Rightarrow> SummaryTimedOut digest
       | TerminalUnknownOutcome digest \<Rightarrow> SummaryUnknownOutcome digest))"

definition summary_from_control :: "SandboxControlIntent \<Rightarrow> SandboxTerminalSummary" where
  "summary_from_control c =
     (case ci_kind c of
        CancelControl \<Rightarrow> SummaryCancelled (ci_intent_digest c)
      | TimeoutControl \<Rightarrow> SummaryTimedOut (ci_intent_digest c))"

definition summary_validate_for ::
  "('n, 'z) sandbox_env_scheme \<Rightarrow> SandboxTerminalSummary \<Rightarrow> SandboxExecutionPlan \<Rightarrow>
   SandboxPhysicalEvidence option \<Rightarrow> SandboxControlIntent option \<Rightarrow> SandboxContractError + unit" where
  "summary_validate_for env summary p physical control =
     (case summary of
        SummarySucceeded result \<Rightarrow>
          rbind (ok_or InvalidTerminal physical) (\<lambda>physical.
          rbind (evidence_validate_for env result p) (\<lambda>_.
          fail_if
            (control \<noteq> None
             \<or> ph_phase physical \<notin> {SandboxPhysicalPhase.Succeeded, SandboxPhysicalPhase.Cleaning,
                  SandboxPhysicalPhase.Absent}
             \<or> ph_result_evidence physical \<noteq> Some result)
            InvalidTerminal))
      | SummaryFailed failure result _ \<Rightarrow>
          rbind (ok_or InvalidTerminal physical) (\<lambda>physical.
          rbind (case result of None \<Rightarrow> Inr () | Some e \<Rightarrow> evidence_validate_for env e p) (\<lambda>_.
          fail_if
            (control \<noteq> None
             \<or> ph_phase physical \<notin> {SandboxPhysicalPhase.Failed, SandboxPhysicalPhase.Cleaning,
                  SandboxPhysicalPhase.Absent}
             \<or> ph_result_evidence physical \<noteq> result
             \<or> some_and result (\<lambda>e. case e of EvidenceFailed _ c _ _ \<Rightarrow> c \<noteq> failure | _ \<Rightarrow> True))
            InvalidTerminal))
      | SummaryCancelled digest \<Rightarrow>
          rbind (ok_or InvalidTerminal control) (\<lambda>control.
          fail_if (ci_kind control \<noteq> CancelControl \<or> ci_intent_digest control \<noteq> digest) InvalidTerminal)
      | SummaryTimedOut digest \<Rightarrow>
          rbind (ok_or InvalidTerminal control) (\<lambda>control.
          fail_if (ci_kind control \<noteq> TimeoutControl \<or> ci_intent_digest control \<noteq> digest) InvalidTerminal)
      | SummaryUnknownOutcome _ \<Rightarrow>
          rbind (ok_or InvalidTerminal physical) (\<lambda>physical.
          fail_if
            (control \<noteq> None
             \<or> ph_phase physical \<notin> {SandboxPhysicalPhase.UnknownOutcome, SandboxPhysicalPhase.Cleaning,
                  SandboxPhysicalPhase.Absent})
            InvalidTerminal))"

definition summary_json :: "('n, 'z) platform_env_scheme \<Rightarrow> SandboxTerminalSummary \<Rightarrow> 'n Json" where
  "summary_json env summary =
     (case summary of
        SummarySucceeded result \<Rightarrow>
          json_object [(''outcome'', String ''succeeded''), (''result'', result_evidence_json env result)]
      | SummaryFailed failure result digest \<Rightarrow> json_object
          [(''outcome'', String ''failed''), (''failure_class'', String (sandbox_failure_class_str failure)),
           (''result'', json_option (result_evidence_json env) result), (''evidence_digest'', String digest)]
      | SummaryCancelled digest \<Rightarrow>
          json_object [(''outcome'', String ''cancelled''), (''evidence_digest'', String digest)]
      | SummaryTimedOut digest \<Rightarrow>
          json_object [(''outcome'', String ''timed_out''), (''evidence_digest'', String digest)]
      | SummaryUnknownOutcome digest \<Rightarrow>
          json_object [(''outcome'', String ''unknown_outcome''), (''evidence_digest'', String digest)])"

record SandboxTerminalRecord =
  tc_schema_version :: u16
  tc_summary :: SandboxTerminalSummary
  tc_terminal_digest :: Sha256Digest

text \<open>\<open>digest_without_field(self, ''terminal_digest'')\<close>\<close>

definition terminal_record_digest ::
  "('n, 'z) platform_env_scheme \<Rightarrow> SandboxTerminalRecord \<Rightarrow> SandboxContractError + Sha256Digest" where
  "terminal_record_digest env t = digest_json env (json_object
     [(''schema_version'', json_u16 env (tc_schema_version t)), (''summary'', summary_json env (tc_summary t))])"

definition terminal_record_seal ::
  "('n, 'z) platform_env_scheme \<Rightarrow> SandboxTerminalRecord \<Rightarrow> SandboxContractError + SandboxTerminalRecord" where
  "terminal_record_seal env t =
     rbind (terminal_record_digest env t) (\<lambda>digest. Inr (t\<lparr>tc_terminal_digest := digest\<rparr>))"

definition terminal_record_validate_for ::
  "('n, 'z) sandbox_env_scheme \<Rightarrow> SandboxTerminalRecord \<Rightarrow> SandboxExecutionPlan \<Rightarrow>
   SandboxPhysicalEvidence option \<Rightarrow> SandboxControlIntent option \<Rightarrow> SandboxContractError + unit" where
  "terminal_record_validate_for env t p physical control =
     (if tc_schema_version t \<noteq> SANDBOX_CONTRACT_SCHEMA_VERSION then Inl InvalidTerminal
      else
        rbind (terminal_record_digest env t) (\<lambda>digest.
        if tc_terminal_digest t \<noteq> digest then Inl InvalidTerminal
        else summary_validate_for env (tc_summary t) p physical control))"

section \<open>Cleanup\<close>

record SandboxCleanupState =
  cs_schema_version :: u16
  cs_required :: bool
  cs_generation :: u64
  cs_owner_process_generation_id :: "ResourceId option"
  cs_owner_build_digest :: "Sha256Digest option"
  cs_expires_at :: "instant option"

definition cleanup_initial :: SandboxCleanupState where
  "cleanup_initial = \<lparr>cs_schema_version = SANDBOX_CONTRACT_SCHEMA_VERSION, cs_required = False, cs_generation = 0,
     cs_owner_process_generation_id = None, cs_owner_build_digest = None, cs_expires_at = None\<rparr>"

definition cleanup_for_terminal :: "SandboxPhysicalEvidence \<Rightarrow> SandboxCleanupState" where
  "cleanup_for_terminal physical = cleanup_initial\<lparr>cs_required := ph_cleanup_required physical\<rparr>"

definition cleanup_claim ::
  "chrono_add \<Rightarrow> SandboxCleanupState \<Rightarrow> ResourceId \<Rightarrow> Sha256Digest \<Rightarrow> instant \<Rightarrow> u64 \<Rightarrow>
   SandboxContractError + SandboxCleanupState" where
  "cleanup_claim add c process_generation_id worker_build_digest database_now lease_milliseconds =
     (if \<not> cs_required c \<or> rid_kind process_generation_id \<noteq> ResourceKind.WorkerProcessGeneration
         \<or> lease_milliseconds = 0 \<or> 120000 < lease_milliseconds
         \<or> some_and (cs_expires_at c) (\<lambda>expires_at. database_now < expires_at)
      then Inl InvalidCleanup
      else
        rbind (ok_or InvalidCleanup (add database_now (int (unat lease_milliseconds) * 1000000))) (\<lambda>expires_at.
        rbind (ok_or InvalidCleanup (checked_add (cs_generation c) 1)) (\<lambda>generation.
        Inr \<lparr>cs_schema_version = SANDBOX_CONTRACT_SCHEMA_VERSION, cs_required = True, cs_generation = generation,
             cs_owner_process_generation_id = Some process_generation_id,
             cs_owner_build_digest = Some worker_build_digest, cs_expires_at = Some expires_at\<rparr>)))"

definition cleanup_validate ::
  "SandboxCleanupState \<Rightarrow> bool \<Rightarrow> SandboxPhysicalEvidence option \<Rightarrow> SandboxContractError + unit" where
  "cleanup_validate c terminal physical =
     (let owned = cs_owner_process_generation_id c \<noteq> None
      in fail_if
        (cs_schema_version c \<noteq> SANDBOX_CONTRACT_SCHEMA_VERSION
         \<or> owned \<noteq> (cs_expires_at c \<noteq> None)
         \<or> owned \<noteq> (cs_owner_build_digest c \<noteq> None)
         \<or> some_and (cs_owner_process_generation_id c) (\<lambda>i. rid_kind i \<noteq> ResourceKind.WorkerProcessGeneration)
         \<or> (owned \<and> cs_expires_at c \<noteq> None \<and> cs_generation c = 0)
         \<or> (\<not> terminal \<and> (cs_required c \<or> cs_generation c \<noteq> 0 \<or> owned))
         \<or> (terminal \<and> cs_required c \<noteq> some_and physical ph_cleanup_required)
         \<or> (\<not> cs_required c \<and> owned))
        InvalidCleanup)"

record SandboxCleanupFence =
  cf_schema_version :: u16
  cf_tenant_id :: ResourceId
  cf_job_id :: ResourceId
  cf_expected_job_version :: u64
  cf_physical_attempt :: u32
  cf_cleanup_generation :: u64
  cf_process_generation_id :: ResourceId
  cf_expires_at :: instant

definition cleanup_fence_validate :: "SandboxCleanupFence \<Rightarrow> SandboxContractError + unit" where
  "cleanup_fence_validate f =
     fail_if
       (cf_schema_version f \<noteq> SANDBOX_CONTRACT_SCHEMA_VERSION
        \<or> rid_kind (cf_tenant_id f) \<noteq> ResourceKind.Tenant
        \<or> rid_kind (cf_job_id f) \<noteq> ResourceKind.Job
        \<or> cf_expected_job_version f = 0
        \<or> cf_physical_attempt f = 0
        \<or> cf_cleanup_generation f = 0
        \<or> rid_kind (cf_process_generation_id f) \<noteq> ResourceKind.WorkerProcessGeneration)
       InvalidCleanup"

section \<open>The payload\<close>

record SandboxDispatcherJobPayload =
  sp_schema_version :: u16
  sp_plan :: SandboxExecutionPlan
  sp_submission_digest :: Sha256Digest
  sp_control :: "SandboxControlIntent option"
  sp_physical :: "SandboxPhysicalEvidence option"
  sp_terminal :: "SandboxTerminalRecord option"
  sp_cleanup :: SandboxCleanupState
  sp_payload_digest :: Sha256Digest

definition plan_document :: "('n, 'z) sandbox_env_scheme \<Rightarrow> SandboxExecutionPlan \<Rightarrow> 'n Json" where
  "plan_document env p = json_object (plan_fields env p @ [(''request_digest'', String (xn_request_digest p))])"

definition control_json :: "('n, 'z) sandbox_env_scheme \<Rightarrow> SandboxControlIntent \<Rightarrow> 'n Json" where
  "control_json env c = json_object
     [(''schema_version'', json_u16 env (ci_schema_version c)), (''kind'', String (control_kind_str (ci_kind c))),
      (''requested_at'', json_instant env (ci_requested_at c)),
      (''target_invocation_version'', json_number env (ci_target_invocation_version c)),
      (''intent_digest'', String (ci_intent_digest c))]"

definition rollover_json :: "('n, 'z) platform_env_scheme \<Rightarrow> SandboxRunnerBootRolloverEvidence \<Rightarrow> 'n Json" where
  "rollover_json env e = json_object
     [(''schema_version'', json_u16 env (ro_schema_version e)), (''observed_boot_id'', String (ro_observed_boot_id e)),
      (''runner_state_frame_digest'', String (ro_runner_state_frame_digest e)),
      (''evidence_digest'', String (ro_evidence_digest e))]"

definition physical_json :: "('n, 'z) sandbox_env_scheme \<Rightarrow> SandboxPhysicalEvidence \<Rightarrow> 'n Json" where
  "physical_json env s = json_object
     ([(''schema_version'', json_u16 env (ph_schema_version s)),
       (''provisioning_token'', token_json env (ph_provisioning_token s)),
       (''provisioning_token_digest'', String (ph_provisioning_token_digest s)),
       (''activation_token'', String (ph_activation_token s)),
       (''activation_token_digest'', String (ph_activation_token_digest s)),
       (''provisioning_started_at'', json_instant env (ph_provisioning_started_at s)),
       (''create_authorization_count'', json_u8 env (ph_create_authorization_count s)),
       (''last_create_authorized_at'', json_option (json_instant env) (ph_last_create_authorized_at s)),
       (''candidate_count'', json_u8 env (ph_candidate_count s)),
       (''candidate_ids'', Array (map String (ph_candidate_ids s))),
       (''selected_sandbox_id'', json_option String (ph_selected_sandbox_id s)),
       (''runner_boot_id'', json_option String (ph_runner_boot_id s)),
       (''phase'', String (physical_phase_str (ph_phase s))),
       (''result_evidence'', json_option (result_evidence_json env) (ph_result_evidence s)),
       (''cleanup_required'', Bool (ph_cleanup_required s)),
       (''absent_candidate_ids'', Array (map String (ph_absent_candidate_ids s))),
       (''absence_evidence_digest'', json_option String (ph_absence_evidence_digest s))]
      @ (case ph_runner_boot_rollover s of None \<Rightarrow> [] | Some e \<Rightarrow> [(''runner_boot_rollover'', rollover_json env e)]))"

definition terminal_json :: "('n, 'z) platform_env_scheme \<Rightarrow> SandboxTerminalRecord \<Rightarrow> 'n Json" where
  "terminal_json env t = json_object
     [(''schema_version'', json_u16 env (tc_schema_version t)), (''summary'', summary_json env (tc_summary t)),
      (''terminal_digest'', String (tc_terminal_digest t))]"

definition cleanup_json :: "('n, 'z) sandbox_env_scheme \<Rightarrow> SandboxCleanupState \<Rightarrow> 'n Json" where
  "cleanup_json env c = json_object
     [(''schema_version'', json_u16 env (cs_schema_version c)), (''required'', Bool (cs_required c)),
      (''generation'', json_number env (cs_generation c)),
      (''owner_process_generation_id'', json_option (json_id env) (cs_owner_process_generation_id c)),
      (''owner_build_digest'', json_option String (cs_owner_build_digest c)),
      (''expires_at'', json_option (json_instant env) (cs_expires_at c))]"

definition payload_fields :: "('n, 'z) sandbox_env_scheme \<Rightarrow> SandboxDispatcherJobPayload \<Rightarrow> (string \<times> 'n Json) list" where
  "payload_fields env p =
     [(''schema_version'', json_u16 env (sp_schema_version p)), (''plan'', plan_document env (sp_plan p)),
      (''submission_digest'', String (sp_submission_digest p))]
     @ (case sp_control p of None \<Rightarrow> [] | Some c \<Rightarrow> [(''control'', control_json env c)])
     @ [(''physical'', json_option (physical_json env) (sp_physical p)),
        (''terminal'', json_option (terminal_json env) (sp_terminal p)),
        (''cleanup'', cleanup_json env (sp_cleanup p))]"

text \<open>\<open>digest_without_field(self, ''payload_digest'')\<close>\<close>

definition payload_digest_of ::
  "('n, 'z) sandbox_env_scheme \<Rightarrow> SandboxDispatcherJobPayload \<Rightarrow> SandboxContractError + Sha256Digest" where
  "payload_digest_of env p = digest_json env (json_object (payload_fields env p))"

definition payload_seal ::
  "('n, 'z) sandbox_env_scheme \<Rightarrow> SandboxDispatcherJobPayload \<Rightarrow> SandboxContractError + SandboxDispatcherJobPayload" where
  "payload_seal env p =
     rbind (payload_digest_of env p) (\<lambda>digest.
     let sealed = p\<lparr>sp_payload_digest := digest\<rparr>
     in rbind (map_err Canonical (canonical_json env
          (json_object (payload_fields env sealed @ [(''payload_digest'', String digest)])))) (\<lambda>bytes.
        if MAX_SANDBOX_JOB_PAYLOAD_BYTES < length bytes then Inl InvalidJob else Inr sealed))"

definition payload_accepted ::
  "('n, 'z) sandbox_env_scheme \<Rightarrow> SandboxExecutionPlan \<Rightarrow> SandboxContractError + SandboxDispatcherJobPayload" where
  "payload_accepted env p =
     rbind (sandbox_plan_validate env p) (\<lambda>_.
     payload_seal env \<lparr>sp_schema_version = SANDBOX_CONTRACT_SCHEMA_VERSION, sp_plan = p,
       sp_submission_digest = xn_request_digest p, sp_control = None, sp_physical = None, sp_terminal = None,
       sp_cleanup = cleanup_initial, sp_payload_digest = zero_digest\<rparr>)"

text \<open>What the state of the job allows the payload to hold.\<close>

definition state_matches :: "JobState \<Rightarrow> SandboxDispatcherJobPayload \<Rightarrow> bool" where
  "state_matches state p \<longleftrightarrow>
     (case state of
        JobState.Ready \<Rightarrow> sp_control p = None \<and> sp_terminal p = None
      | JobState.Leased \<Rightarrow> sp_control p = None \<and> sp_terminal p = None
      | JobState.Running \<Rightarrow> sp_control p = None \<and> sp_physical p \<noteq> None \<and> sp_terminal p = None
      | JobState.Cancelling \<Rightarrow> sp_control p \<noteq> None \<and> sp_terminal p = None
      | JobState.Succeeded \<Rightarrow> sp_control p = None \<and> sp_terminal p \<noteq> None
      | JobState.Failed \<Rightarrow> sp_control p = None \<and> sp_terminal p \<noteq> None
      | JobState.ReconciliationRequired \<Rightarrow> sp_control p = None \<and> sp_terminal p \<noteq> None
      | JobState.Cancelled \<Rightarrow> sp_control p \<noteq> None \<and> sp_terminal p \<noteq> None
      | JobState.TimedOut \<Rightarrow> sp_control p \<noteq> None \<and> sp_terminal p \<noteq> None
      | _ \<Rightarrow> False)"

definition binds_job :: "SandboxDispatcherJobPayload \<Rightarrow> JobProjection \<Rightarrow> bool" where
  "binds_job p job \<longleftrightarrow>
     sp_schema_version p = SANDBOX_CONTRACT_SCHEMA_VERSION
     \<and> jp_tenant_id job = xn_tenant_id (sp_plan p)
     \<and> jp_job_id job = xn_job_id (sp_plan p)
     \<and> jp_work_class job = WorkClass.Sandbox
     \<and> jo_owner_kind (jp_owner job) = ResourceKind.Job
     \<and> jo_owner_id (jp_owner job) = xn_job_id (sp_plan p)
     \<and> jp_deadline job = xn_deadline_at (sp_plan p)
     \<and> jp_attempt_limit job = 1
     \<and> sp_submission_digest p = xn_request_digest (sp_plan p)"

definition payload_validate_for ::
  "('n, 'z) sandbox_env_scheme \<Rightarrow> SandboxDispatcherJobPayload \<Rightarrow> JobProjection \<Rightarrow> SandboxContractError + unit" where
  "payload_validate_for env p job =
     rbind (sandbox_plan_validate env (sp_plan p)) (\<lambda>_.
     if \<not> binds_job p job then Inl InvalidJob
     else
       rbind (payload_digest_of env p) (\<lambda>digest.
       if sp_payload_digest p \<noteq> digest then Inl InvalidJob
       else
         rbind (case sp_physical p of None \<Rightarrow> Inr () | Some s \<Rightarrow> physical_validate_for env s (sp_plan p)) (\<lambda>_.
         rbind (case sp_control p of None \<Rightarrow> Inr () | Some c \<Rightarrow> intent_validate_for env c (sp_plan p)) (\<lambda>_.
         rbind (case sp_terminal p of
             None \<Rightarrow> Inr ()
           | Some t \<Rightarrow>
               rbind (terminal_record_validate_for env t (sp_plan p) (sp_physical p) (sp_control p)) (\<lambda>_.
               fail_if (summary_job_state (tc_summary t) \<noteq> jp_state job) InvalidTerminal)) (\<lambda>_.
         rbind (cleanup_validate (sp_cleanup p) (sp_terminal p \<noteq> None) (sp_physical p)) (\<lambda>_.
         fail_if (\<not> state_matches (jp_state job) p \<or> (jp_attempt_count job = 0) \<noteq> (sp_physical p = None)) InvalidJob))))))"

section \<open>Operations on the payload\<close>

definition payload_begin ::
  "('n, 'z) sandbox_env_scheme \<Rightarrow> SandboxDispatcherJobPayload \<Rightarrow> 'n SandboxExecutionRequest \<Rightarrow>
   OpaqueActivationToken \<Rightarrow> instant \<Rightarrow> SandboxContractError + SandboxDispatcherJobPayload" where
  "payload_begin env p r activation_token database_now =
     rbind (validate_request env (sp_plan p) r) (\<lambda>_.
     if sp_physical p \<noteq> None \<or> sp_terminal p \<noteq> None then Inl InvalidPhysicalTransition
     else
       rbind (physical_begin env r activation_token database_now) (\<lambda>s.
       payload_seal env (p\<lparr>sp_physical := Some s\<rparr>)))"

text \<open>A decision of the attempt that applied is sealed into the payload; one that replayed leaves it.\<close>

definition payload_decision ::
  "('n, 'z) sandbox_env_scheme \<Rightarrow> SandboxDispatcherJobPayload \<Rightarrow> SandboxPhysicalEvidence PhysicalDecision \<Rightarrow>
   SandboxContractError + SandboxDispatcherJobPayload PhysicalDecision" where
  "payload_decision env p decision =
     (case decision of
        Applied s \<Rightarrow> rbind (payload_seal env (p\<lparr>sp_physical := Some s\<rparr>)) (\<lambda>next. Inr (Applied next))
      | Replayed _ \<Rightarrow> Inr (Replayed p))"

definition payload_authorize_create ::
  "('n, 'z) sandbox_env_scheme \<Rightarrow> SandboxDispatcherJobPayload \<Rightarrow> 'n SandboxExecutionRequest \<Rightarrow>
   SandboxProvisioningLimits \<Rightarrow> instant \<Rightarrow> u8 \<Rightarrow> SandboxContractError + SandboxDispatcherJobPayload PhysicalDecision" where
  "payload_authorize_create env p r limits database_now create_ordinal =
     rbind (validate_request env (sp_plan p) r) (\<lambda>_.
     rbind (ok_or InvalidPhysicalTransition (sp_physical p)) (\<lambda>s.
     rbind (physical_authorize_create env s r limits database_now create_ordinal) (payload_decision env p)))"

datatype 'n SandboxDurableObservation =
    ObservedCandidate SandboxCandidate SandboxProvisioningLimits
  | ObservedRunnerState SandboxRunnerStateFrame
  | ObservedResult "'n SandboxRunnerResultFrame"

definition physical_observe ::
  "('n, 'z) sandbox_env_scheme \<Rightarrow> SandboxPhysicalEvidence \<Rightarrow> 'n SandboxExecutionRequest \<Rightarrow>
   'n SandboxDurableObservation \<Rightarrow> SandboxContractError + SandboxPhysicalEvidence" where
  "physical_observe env s r observation =
     (case observation of
        ObservedCandidate candidate limits \<Rightarrow> physical_observe_candidate env s r candidate limits
      | ObservedRunnerState frame \<Rightarrow> physical_record_state env s frame
      | ObservedResult frame \<Rightarrow> physical_record_result env s r frame)"

definition payload_record_observation ::
  "('n, 'z) sandbox_env_scheme \<Rightarrow> SandboxDispatcherJobPayload \<Rightarrow> 'n SandboxExecutionRequest \<Rightarrow>
   'n SandboxDurableObservation \<Rightarrow> SandboxContractError + SandboxDispatcherJobPayload" where
  "payload_record_observation env p r observation =
     rbind (validate_request env (sp_plan p) r) (\<lambda>_.
     rbind (ok_or InvalidPhysicalTransition (sp_physical p)) (\<lambda>s.
     rbind (physical_observe env s r observation) (\<lambda>s.
     payload_seal env (p\<lparr>sp_physical := Some s\<rparr>))))"

definition payload_select_candidate ::
  "('n, 'z) sandbox_env_scheme \<Rightarrow> SandboxDispatcherJobPayload \<Rightarrow> 'n SandboxExecutionRequest \<Rightarrow> SandboxCandidate \<Rightarrow>
   SandboxContractError + SandboxDispatcherJobPayload PhysicalDecision" where
  "payload_select_candidate env p r candidate =
     rbind (validate_request env (sp_plan p) r) (\<lambda>_.
     rbind (ok_or InvalidPhysicalTransition (sp_physical p)) (\<lambda>s.
     rbind (physical_select_candidate env s r candidate) (payload_decision env p)))"

definition payload_authorize_activation ::
  "('n, 'z) sandbox_env_scheme \<Rightarrow> SandboxDispatcherJobPayload \<Rightarrow> OpenSandboxId \<Rightarrow> RunnerBootId \<Rightarrow>
   SandboxContractError + SandboxDispatcherJobPayload PhysicalDecision" where
  "payload_authorize_activation env p sandbox_id boot_id =
     rbind (ok_or InvalidPhysicalTransition (sp_physical p)) (\<lambda>s.
     rbind (physical_authorize_activation s sandbox_id boot_id) (payload_decision env p))"

definition payload_request_control ::
  "('n, 'z) sandbox_env_scheme \<Rightarrow> SandboxDispatcherJobPayload \<Rightarrow> SandboxControlKind \<Rightarrow> instant \<Rightarrow> u64 \<Rightarrow>
   SandboxContractError + SandboxDispatcherJobPayload" where
  "payload_request_control env p kind requested_at target_invocation_version =
     (if sp_control p \<noteq> None \<or> sp_terminal p \<noteq> None then Inl InvalidControl
      else
        rbind (intent_new env (sp_plan p) kind requested_at target_invocation_version) (\<lambda>intent.
        payload_seal env (p\<lparr>sp_control := Some intent\<rparr>)))"

definition payload_terminal_control ::
  "('n, 'z) sandbox_env_scheme \<Rightarrow> SandboxDispatcherJobPayload \<Rightarrow> SandboxContractError + SandboxDispatcherJobPayload" where
  "payload_terminal_control env p =
     (if sp_terminal p \<noteq> None then Inl TerminalConflict
      else
        rbind (ok_or InvalidControl (sp_control p)) (\<lambda>control.
        rbind (intent_validate_for env control (sp_plan p)) (\<lambda>_.
        rbind (terminal_record_seal env \<lparr>tc_schema_version = SANDBOX_CONTRACT_SCHEMA_VERSION,
          tc_summary = summary_from_control control, tc_terminal_digest = zero_digest\<rparr>) (\<lambda>terminal.
        rbind (terminal_record_validate_for env terminal (sp_plan p) (sp_physical p) (Some control)) (\<lambda>_.
        payload_seal env (p\<lparr>sp_terminal := Some terminal,
          sp_cleanup := (case sp_physical p of None \<Rightarrow> cleanup_initial | Some s \<Rightarrow> cleanup_for_terminal s)\<rparr>))))))"

definition payload_terminal ::
  "('n, 'z) sandbox_env_scheme \<Rightarrow> SandboxDispatcherJobPayload \<Rightarrow> 'n SandboxExecutionRequest \<Rightarrow>
   'n SandboxTerminalOutcome \<Rightarrow> SandboxContractError + SandboxDispatcherJobPayload" where
  "payload_terminal env p r outcome =
     rbind (validate_request env (sp_plan p) r) (\<lambda>_.
     if sp_terminal p \<noteq> None then Inl TerminalConflict
     else if sp_control p \<noteq> None \<or> outcome_job_state outcome \<in> {JobState.Cancelled, JobState.TimedOut}
     then Inl InvalidControl
     else
       rbind (ok_or InvalidTerminal (sp_physical p)) (\<lambda>s.
       rbind (summary_from_outcome env outcome r s) (\<lambda>summary.
       rbind (terminal_record_seal env \<lparr>tc_schema_version = SANDBOX_CONTRACT_SCHEMA_VERSION,
         tc_summary = summary, tc_terminal_digest = zero_digest\<rparr>) (\<lambda>terminal.
       rbind (terminal_record_validate_for env terminal (sp_plan p) (Some s) None) (\<lambda>_.
       payload_seal env (p\<lparr>sp_terminal := Some terminal, sp_cleanup := cleanup_for_terminal s\<rparr>))))))"

definition terminal_replays ::
  "('n, 'z) sandbox_env_scheme \<Rightarrow> SandboxDispatcherJobPayload \<Rightarrow> 'n SandboxExecutionRequest \<Rightarrow>
   'n SandboxTerminalOutcome \<Rightarrow> SandboxContractError + bool" where
  "terminal_replays env p r outcome =
     rbind (validate_request env (sp_plan p) r) (\<lambda>_.
     rbind (ok_or InvalidTerminal (sp_physical p)) (\<lambda>s.
     rbind (summary_from_outcome env outcome r s) (\<lambda>expected.
     Inr (some_and (sp_terminal p) (\<lambda>t. tc_summary t = expected)))))"

definition payload_claim_cleanup ::
  "('n, 'z) sandbox_env_scheme \<Rightarrow> chrono_add \<Rightarrow> SandboxDispatcherJobPayload \<Rightarrow> JobProjection \<Rightarrow> ResourceId \<Rightarrow>
   Sha256Digest \<Rightarrow> instant \<Rightarrow> u64 \<Rightarrow> u64 \<Rightarrow>
   SandboxContractError + (SandboxDispatcherJobPayload \<times> SandboxCleanupFence)" where
  "payload_claim_cleanup env add p job process_generation_id worker_build_digest database_now lease_milliseconds
     claimed_job_version =
     rbind (payload_validate_for env p job) (\<lambda>_.
     if sp_terminal p = None \<or> claimed_job_version \<noteq> saturating_add (jp_version job) 1 then Inl InvalidCleanup
     else
       rbind (cleanup_claim add (sp_cleanup p) process_generation_id worker_build_digest database_now
         lease_milliseconds) (\<lambda>cleanup.
       rbind (ok_or InvalidCleanup (sp_physical p)) (\<lambda>s.
       rbind (ok_or InvalidCleanup (cs_expires_at cleanup)) (\<lambda>expires_at.
       rbind (payload_seal env (p\<lparr>sp_cleanup := cleanup\<rparr>)) (\<lambda>next.
       let fence = \<lparr>cf_schema_version = SANDBOX_CONTRACT_SCHEMA_VERSION, cf_tenant_id = xn_tenant_id (sp_plan p),
             cf_job_id = xn_job_id (sp_plan p), cf_expected_job_version = claimed_job_version,
             cf_physical_attempt = vt_physical_attempt (ph_provisioning_token s),
             cf_cleanup_generation = cs_generation cleanup, cf_process_generation_id = process_generation_id,
             cf_expires_at = expires_at\<rparr>
       in rbind (cleanup_fence_validate fence) (\<lambda>_. Inr (next, fence)))))))"

datatype SandboxCleanupObservation = ObservedAbsent OpenSandboxId Sha256Digest

definition released_cleanup :: "SandboxCleanupState \<Rightarrow> SandboxCleanupState" where
  "released_cleanup c = c\<lparr>cs_required := False, cs_owner_process_generation_id := None,
     cs_owner_build_digest := None, cs_expires_at := None\<rparr>"

definition holds_cleanup ::
  "SandboxDispatcherJobPayload \<Rightarrow> SandboxPhysicalEvidence \<Rightarrow> JobProjection \<Rightarrow> SandboxCleanupFence \<Rightarrow> instant \<Rightarrow> bool" where
  "holds_cleanup p s job fence database_now \<longleftrightarrow>
     sp_terminal p \<noteq> None
     \<and> cs_required (sp_cleanup p)
     \<and> cf_tenant_id fence = xn_tenant_id (sp_plan p)
     \<and> cf_job_id fence = xn_job_id (sp_plan p)
     \<and> cf_expected_job_version fence = jp_version job
     \<and> cf_physical_attempt fence = vt_physical_attempt (ph_provisioning_token s)
     \<and> cf_cleanup_generation fence = cs_generation (sp_cleanup p)
     \<and> cs_owner_process_generation_id (sp_cleanup p) = Some (cf_process_generation_id fence)
     \<and> cs_expires_at (sp_cleanup p) = Some (cf_expires_at fence)
     \<and> database_now < cf_expires_at fence"

definition payload_record_cleanup ::
  "('n, 'z) sandbox_env_scheme \<Rightarrow> SandboxDispatcherJobPayload \<Rightarrow> JobProjection \<Rightarrow> SandboxCleanupFence \<Rightarrow> instant \<Rightarrow>
   SandboxCleanupObservation \<Rightarrow> u64 \<Rightarrow>
   SandboxContractError + (SandboxDispatcherJobPayload \<times> SandboxCleanupFence option)" where
  "payload_record_cleanup env p job fence database_now observation next_job_version =
     rbind (payload_validate_for env p job) (\<lambda>_.
     rbind (cleanup_fence_validate fence) (\<lambda>_.
     rbind (ok_or InvalidCleanup (sp_physical p)) (\<lambda>s.
     if \<not> holds_cleanup p s job fence database_now \<or> next_job_version \<noteq> saturating_add (jp_version job) 1
     then Inl InvalidCleanup
     else
       rbind (case observation of ObservedAbsent sandbox_id digest \<Rightarrow> physical_mark_absent s sandbox_id digest) (\<lambda>s.
       let completed = \<not> ph_cleanup_required s
       in rbind (payload_seal env (p\<lparr>sp_physical := Some s,
            sp_cleanup := (if completed then released_cleanup (sp_cleanup p) else sp_cleanup p)\<rparr>)) (\<lambda>next.
          Inr (next, if completed then None
            else Some (fence\<lparr>cf_expected_job_version := next_job_version\<rparr>)))))))"

section \<open>Recovery and orphans\<close>

datatype SandboxRecoveryDecision = ProvisionOrDiscover | ObserveSelected | ReplayAuthorizedActivation
  | ObservePotentiallyStarted | CommitTerminalEvidence | Cleanup | Complete

definition decide_recovery :: "SandboxDispatcherJobPayload \<Rightarrow> SandboxRecoveryDecision" where
  "decide_recovery p =
     (if sp_terminal p \<noteq> None then (if cs_required (sp_cleanup p) then Cleanup else Complete)
      else
        case sp_physical p of
          None \<Rightarrow> ProvisionOrDiscover
        | Some s \<Rightarrow>
            (case ph_phase s of
               SandboxPhysicalPhase.Provisioning \<Rightarrow> ProvisionOrDiscover
             | SandboxPhysicalPhase.CandidateSelected \<Rightarrow> ObserveSelected
             | SandboxPhysicalPhase.ActivationAuthorized \<Rightarrow> ReplayAuthorizedActivation
             | SandboxPhysicalPhase.Started \<Rightarrow> ObservePotentiallyStarted
             | SandboxPhysicalPhase.Succeeded \<Rightarrow> CommitTerminalEvidence
             | SandboxPhysicalPhase.Failed \<Rightarrow> CommitTerminalEvidence
             | SandboxPhysicalPhase.UnknownOutcome \<Rightarrow> CommitTerminalEvidence
             | SandboxPhysicalPhase.Cleaning \<Rightarrow> Cleanup
             | SandboxPhysicalPhase.Absent \<Rightarrow> Complete))"

datatype SandboxOrphanDisposition = RetainProvisioning | RetainSelected | DeleteUnselected | DeleteLateCandidate
  | DeleteStaleAttempt | DeleteMissingOwner

definition may_delete :: "SandboxOrphanDisposition \<Rightarrow> bool" where
  "may_delete d \<longleftrightarrow> d \<in> {DeleteUnselected, DeleteLateCandidate, DeleteStaleAttempt, DeleteMissingOwner}"

record SandboxOrphanDecision =
  od_schema_version :: u16
  od_candidate :: SandboxCandidate
  od_disposition :: SandboxOrphanDisposition

definition orphan_decision_new ::
  "SandboxCandidate \<Rightarrow> SandboxOrphanDisposition \<Rightarrow> SandboxContractError + SandboxOrphanDecision" where
  "orphan_decision_new candidate disposition =
     (let decision = \<lparr>od_schema_version = SANDBOX_CONTRACT_SCHEMA_VERSION, od_candidate = candidate,
            od_disposition = disposition\<rparr>
      in rbind (candidate_validate_shape (od_candidate decision)) (\<lambda>_.
         rbind (fail_if (od_schema_version decision \<noteq> SANDBOX_CONTRACT_SCHEMA_VERSION) InvalidCandidate) (\<lambda>_.
         Inr decision)))"

end
