(* ===== verification/SandboxRuns.thy ===== *)
theory SandboxRuns
  imports SandboxJobs Versioned
begin

text \<open>
  Histories of one sandbox attempt: the step relation of the operations on physical evidence, what each step
  changes, and the properties of every evidence that is reached.
\<close>

section \<open>Steps of an attempt\<close>

inductive physical_step ::
  "('n, 'z) sandbox_env_scheme \<Rightarrow> 'n SandboxExecutionRequest \<Rightarrow> SandboxPhysicalEvidence \<Rightarrow>
   SandboxPhysicalEvidence \<Rightarrow> bool"
  for env :: "('n, 'z) sandbox_env_scheme" and r :: "'n SandboxExecutionRequest" where
  authorizes: "physical_authorize_create env s r limits now create_ordinal = Inr decision \<Longrightarrow>
    physical_step env r s (into_inner decision)"
| observes: "physical_observe env s r observation = Inr t \<Longrightarrow> physical_step env r s t"
| selects: "physical_select_candidate env s r candidate = Inr decision \<Longrightarrow>
    physical_step env r s (into_inner decision)"
| activates: "physical_authorize_activation s sandbox_id boot_id = Inr decision \<Longrightarrow>
    physical_step env r s (into_inner decision)"
| clears: "physical_mark_absent s sandbox_id digest = Inr t \<Longrightarrow> physical_step env r s t"

definition admits_result :: "SandboxPhysicalPhase \<Rightarrow> bool" where
  "admits_result phase \<longleftrightarrow> phase \<in> {SandboxPhysicalPhase.ActivationAuthorized, SandboxPhysicalPhase.Started,
     SandboxPhysicalPhase.Succeeded, SandboxPhysicalPhase.Failed}"

text \<open>What an operation that is accepted does to the evidence.\<close>

lemma authorize_create_effect:
  assumes "physical_authorize_create env s r limits now create_ordinal = Inr decision"
  shows "decision = Replayed s \<or>
    decision = Applied (s\<lparr>ph_create_authorization_count := create_ordinal, ph_last_create_authorized_at := Some now\<rparr>)
    \<and> limits = xn_provisioning_limits r
    \<and> ph_phase s = SandboxPhysicalPhase.Provisioning \<and> create_ordinal \<noteq> 0
    \<and> create_ordinal \<le> sl_maximum_candidates limits
    \<and> create_ordinal = saturating_add (ph_create_authorization_count s) 1
    \<and> ph_create_authorization_count s < sl_maximum_candidates limits
    \<and> 0 \<le> milliseconds_since now (ph_provisioning_started_at s)
    \<and> milliseconds_since now (ph_provisioning_started_at s) \<le> int (unat (sl_provisioning_timeout_milliseconds limits))
    \<and> none_or (ph_last_create_authorized_at s) (\<lambda>last.
        int (unat (sl_candidate_quiescence_milliseconds limits)) \<le> milliseconds_since now last)"
  using assms
  by (auto simp: physical_authorize_create_def rbind_eq_Inr Let_def some_and_iff none_or_iff not_le not_less
      split: if_splits)

lemma observe_candidate_effect:
  assumes "physical_observe_candidate env s r candidate limits = Inr t"
  shows "t = s \<or>
    t = s\<lparr>ph_candidate_ids := ph_candidate_ids s @ [cd_sandbox_id candidate],
          ph_candidate_count := ph_candidate_count s + 1, ph_cleanup_required := True\<rparr>
    \<and> cd_sandbox_id candidate \<notin> set (ph_candidate_ids s) \<and> ph_phase s = SandboxPhysicalPhase.Provisioning
    \<and> ph_candidate_count s < sl_maximum_candidates (xn_provisioning_limits r)"
  using assms
  by (auto simp: physical_observe_candidate_def rbind_eq_Inr may_create_candidate_def not_le split: if_splits)

lemma select_effect:
  assumes "physical_select_candidate env s r candidate = Inr decision"
  shows "decision = Replayed s \<or>
    decision = Applied (s\<lparr>ph_selected_sandbox_id := Some (cd_sandbox_id candidate),
      ph_phase := SandboxPhysicalPhase.CandidateSelected, ph_cleanup_required := True\<rparr>)
    \<and> cd_sandbox_id candidate \<in> set (ph_candidate_ids s) \<and> ph_selected_sandbox_id s = None
    \<and> ph_phase s = SandboxPhysicalPhase.Provisioning"
  using assms by (auto simp: physical_select_candidate_def rbind_eq_Inr split: if_splits option.splits)

lemma activation_effect:
  assumes "physical_authorize_activation s sandbox_id boot_id = Inr decision"
  shows "decision = Replayed s \<or>
    decision = Applied (s\<lparr>ph_runner_boot_id := Some boot_id, ph_phase := SandboxPhysicalPhase.ActivationAuthorized\<rparr>)
    \<and> ph_runner_boot_id s = None \<and> ph_selected_sandbox_id s = Some sandbox_id
    \<and> ph_phase s = SandboxPhysicalPhase.CandidateSelected"
  using assms by (auto simp: physical_authorize_activation_def split: if_splits option.splits)

lemma rollover_new_Inr:
  "rollover_new env s frame = Inr e \<Longrightarrow> ph_runner_boot_id s \<noteq> None \<and> rollover_validate_for env e s = Inr ()"
  by (auto simp: rollover_new_def rollover_digest_for_def rbind_eq_Inr ok_or_eq_Inr Let_def)

lemma rollover_effect:
  assumes "physical_record_rollover env s frame = Inr t"
  shows "t = s \<or>
    (\<exists>e. t = s\<lparr>ph_runner_boot_rollover := Some e, ph_phase := SandboxPhysicalPhase.UnknownOutcome,
          ph_cleanup_required := True\<rparr>
      \<and> ph_runner_boot_rollover s = None \<and> ph_result_evidence s = None \<and> ph_runner_boot_id s \<noteq> None
      \<and> ph_phase s \<in> {SandboxPhysicalPhase.ActivationAuthorized, SandboxPhysicalPhase.Started,
          SandboxPhysicalPhase.UnknownOutcome}
      \<and> rollover_validate_for env e s = Inr ())"
proof -
  from assms have ready: "ph_result_evidence s = None"
    "ph_phase s \<in> {SandboxPhysicalPhase.ActivationAuthorized, SandboxPhysicalPhase.Started,
       SandboxPhysicalPhase.UnknownOutcome}"
    by (auto simp: physical_record_rollover_def split: if_splits)
  from assms obtain e where e: "rollover_new env s frame = Inr e"
    by (auto simp: physical_record_rollover_def rbind_eq_Inr split: if_splits)
  show ?thesis
  proof (cases "ph_runner_boot_rollover s")
    case None
    with assms ready e have "t = s\<lparr>ph_runner_boot_rollover := Some e, ph_phase := SandboxPhysicalPhase.UnknownOutcome,
        ph_cleanup_required := True\<rparr>"
      by (simp add: physical_record_rollover_def split: if_splits)
    with None ready rollover_new_Inr [OF e] show ?thesis by blast
  next
    case (Some current)
    with assms ready e show ?thesis by (simp add: physical_record_rollover_def split: if_splits)
  qed
qed

lemma record_state_effect:
  assumes "physical_record_state env s frame = Inr t"
  shows "ph_selected_sandbox_id s = Some (rf_sandbox_id frame) \<and>
    ((\<exists>phase. phase_after_state (rf_phase frame) (ph_phase s) = Some phase \<and> t = s\<lparr>ph_phase := phase\<rparr>
        \<and> ph_runner_boot_id s = Some (rf_boot_id frame))
     \<or> physical_record_rollover env s frame = Inr t)"
  using assms by (auto simp: physical_record_state_def rbind_eq_Inr ok_or_eq_Inr split: if_splits)

lemma record_result_effect:
  assumes "physical_record_result env s r frame = Inr t"
  shows "t = s \<or>
    (\<exists>boot_id wire. ph_runner_boot_id s = Some boot_id \<and> result_frame_validate_for env frame r boot_id wire = Inr ()
      \<and> ph_result_evidence s = None \<and> admits_result (ph_phase s)
      \<and> t = s\<lparr>ph_phase := phase_after_result (fr_result frame),
              ph_result_evidence := Some (evidence_from_frame frame), ph_cleanup_required := True\<rparr>)"
proof (cases "ph_result_evidence s")
  case None
  from assms obtain boot_id and bytes :: "u8 list" where "ph_runner_boot_id s = Some boot_id"
    and "result_frame_validate_for env frame r boot_id (length bytes) = Inr ()"
    by (auto simp: physical_record_result_def rbind_eq_Inr ok_or_eq_Inr)
  with None assms show ?thesis
    by (fastforce simp: physical_record_result_def rbind_eq_Inr ok_or_eq_Inr Let_def admits_result_def split: if_splits)
next
  case (Some current)
  with assms show ?thesis
    by (auto simp: physical_record_result_def rbind_eq_Inr ok_or_eq_Inr Let_def split: if_splits)
qed

text \<open>The identifiers that are marked absent once this one is.\<close>

definition marked :: "SandboxPhysicalEvidence \<Rightarrow> OpenSandboxId \<Rightarrow> OpenSandboxId list" where
  "marked s sandbox_id =
     (if sandbox_id \<in> set (ph_absent_candidate_ids s) then ph_absent_candidate_ids s
      else ph_absent_candidate_ids s @ [sandbox_id])"

lemma mark_absent_marked:
  "physical_mark_absent s sandbox_id digest =
     (if sandbox_id \<notin> set (ph_candidate_ids s) then Inl InvalidCandidate
      else if length (marked s sandbox_id) = length (ph_candidate_ids s)
      then Inr (s\<lparr>ph_absent_candidate_ids := marked s sandbox_id, ph_phase := SandboxPhysicalPhase.Absent,
             ph_cleanup_required := False, ph_absence_evidence_digest := Some digest\<rparr>)
      else Inr (s\<lparr>ph_absent_candidate_ids := marked s sandbox_id\<rparr>))"
  unfolding physical_mark_absent_def Let_def marked_def by (rule refl)

text \<open>Every step is one of ten changes.\<close>

lemma physical_step_effects [consumes 1, case_names stays creates admits selects boots moves rolls results marks ends]:
  assumes "physical_step env r s t"
  obtains "t = s"
  | now create_ordinal where
      "t = s\<lparr>ph_create_authorization_count := create_ordinal, ph_last_create_authorized_at := Some now\<rparr>"
      "ph_phase s = SandboxPhysicalPhase.Provisioning" "create_ordinal \<noteq> 0"
      "create_ordinal \<le> sl_maximum_candidates (xn_provisioning_limits r)"
      "create_ordinal = saturating_add (ph_create_authorization_count s) 1"
      "ph_create_authorization_count s < sl_maximum_candidates (xn_provisioning_limits r)"
      "milliseconds_since now (ph_provisioning_started_at s)
         \<le> int (unat (sl_provisioning_timeout_milliseconds (xn_provisioning_limits r)))"
  | sandbox_id where
      "t = s\<lparr>ph_candidate_ids := ph_candidate_ids s @ [sandbox_id],
             ph_candidate_count := ph_candidate_count s + 1, ph_cleanup_required := True\<rparr>"
      "sandbox_id \<notin> set (ph_candidate_ids s)" "ph_phase s = SandboxPhysicalPhase.Provisioning"
      "ph_candidate_count s < sl_maximum_candidates (xn_provisioning_limits r)"
  | sandbox_id where
      "t = s\<lparr>ph_selected_sandbox_id := Some sandbox_id,
             ph_phase := SandboxPhysicalPhase.CandidateSelected, ph_cleanup_required := True\<rparr>"
      "sandbox_id \<in> set (ph_candidate_ids s)" "ph_selected_sandbox_id s = None"
      "ph_phase s = SandboxPhysicalPhase.Provisioning"
  | sandbox_id boot_id where
      "t = s\<lparr>ph_runner_boot_id := Some boot_id, ph_phase := SandboxPhysicalPhase.ActivationAuthorized\<rparr>"
      "ph_runner_boot_id s = None" "ph_selected_sandbox_id s = Some sandbox_id"
      "ph_phase s = SandboxPhysicalPhase.CandidateSelected"
  | runner_phase phase boot_id where
      "t = s\<lparr>ph_phase := phase\<rparr>" "phase_after_state runner_phase (ph_phase s) = Some phase"
      "ph_runner_boot_id s = Some boot_id"
  | e sandbox_id boot_id where
      "t = s\<lparr>ph_runner_boot_rollover := Some e, ph_phase := SandboxPhysicalPhase.UnknownOutcome,
             ph_cleanup_required := True\<rparr>"
      "ph_runner_boot_rollover s = None" "ph_result_evidence s = None" "ph_runner_boot_id s = Some boot_id"
      "ph_selected_sandbox_id s = Some sandbox_id"
      "ph_phase s \<in> {SandboxPhysicalPhase.ActivationAuthorized, SandboxPhysicalPhase.Started,
         SandboxPhysicalPhase.UnknownOutcome}"
      "rollover_validate_for env e s = Inr ()"
  | frame boot_id wire where
      "t = s\<lparr>ph_phase := phase_after_result (fr_result frame),
             ph_result_evidence := Some (evidence_from_frame frame), ph_cleanup_required := True\<rparr>"
      "ph_runner_boot_id s = Some boot_id" "ph_result_evidence s = None" "admits_result (ph_phase s)"
      "result_frame_validate_for env frame r boot_id wire = Inr ()"
  | sandbox_id where
      "t = s\<lparr>ph_absent_candidate_ids := marked s sandbox_id\<rparr>" "sandbox_id \<in> set (ph_candidate_ids s)"
      "length (marked s sandbox_id) \<noteq> length (ph_candidate_ids s)"
  | sandbox_id digest where
      "t = s\<lparr>ph_absent_candidate_ids := marked s sandbox_id, ph_phase := SandboxPhysicalPhase.Absent,
             ph_cleanup_required := False, ph_absence_evidence_digest := Some digest\<rparr>"
      "sandbox_id \<in> set (ph_candidate_ids s)" "length (marked s sandbox_id) = length (ph_candidate_ids s)"
  using assms
proof cases
  case (authorizes limits now create_ordinal decision)
  from authorize_create_effect [OF authorizes(2)] show ?thesis
  proof (elim disjE conjE)
    assume "decision = Replayed s"
    with authorizes(1) show ?thesis by (intro that(1)) simp
  qed (use authorizes(1) in \<open>intro that(2) [of now create_ordinal], simp_all\<close>)
next
  case (observes observation)
  show ?thesis
  proof (cases observation)
    case (ObservedCandidate candidate limits)
    with observes have "physical_observe_candidate env s r candidate limits = Inr t" by (simp add: physical_observe_def)
    from observe_candidate_effect [OF this] that(1,3) show ?thesis by blast
  next
    case (ObservedRunnerState frame)
    with observes have "physical_record_state env s frame = Inr t" by (simp add: physical_observe_def)
    from record_state_effect [OF this] show ?thesis
    proof (elim conjE disjE exE)
      assume "physical_record_rollover env s frame = Inr t" "ph_selected_sandbox_id s = Some (rf_sandbox_id frame)"
      then show ?thesis using rollover_effect [of env s frame t] that(1,7) by blast
    qed (use that(6) in blast)
  next
    case (ObservedResult frame)
    with observes have "physical_record_result env s r frame = Inr t" by (simp add: physical_observe_def)
    from record_result_effect [OF this] that(1,8) show ?thesis by blast
  qed
next
  case (selects candidate decision)
  from select_effect [OF selects(2)] show ?thesis
  proof (elim disjE conjE)
    assume "decision = Replayed s"
    with selects(1) show ?thesis by (intro that(1)) simp
  qed (use selects(1) in \<open>intro that(4) [of "cd_sandbox_id candidate"], simp_all\<close>)
next
  case (activates sandbox_id boot_id decision)
  from activation_effect [OF activates(2)] show ?thesis
  proof (elim disjE conjE)
    assume "decision = Replayed s"
    with activates(1) show ?thesis by (intro that(1)) simp
  qed (use activates(1) in \<open>intro that(5) [of boot_id sandbox_id], simp_all\<close>)
next
  case (clears sandbox_id digest)
  then show ?thesis
    by (auto simp only: mark_absent_marked sum.inject sum.distinct split: if_splits intro: that(9,10))
qed


section \<open>What no step undoes\<close>

lemma phase_after_state_leaves:
  "phase_after_state runner_phase phase = Some phase' \<Longrightarrow>
     phase \<noteq> SandboxPhysicalPhase.Provisioning \<and> phase' \<noteq> SandboxPhysicalPhase.Provisioning
     \<and> phase \<noteq> SandboxPhysicalPhase.Absent \<and> phase' \<noteq> SandboxPhysicalPhase.Absent
     \<and> phase \<noteq> SandboxPhysicalPhase.Cleaning \<and> phase' \<noteq> SandboxPhysicalPhase.Cleaning"
  by (cases runner_phase) (auto split: if_splits)

lemma phase_after_state_cases:
  "phase_after_state runner_phase phase = Some phase' \<Longrightarrow>
     phase' = phase \<or>
     phase \<in> {SandboxPhysicalPhase.ActivationAuthorized, SandboxPhysicalPhase.Started}
     \<and> phase' \<in> {SandboxPhysicalPhase.Started, SandboxPhysicalPhase.Succeeded, SandboxPhysicalPhase.Failed,
          SandboxPhysicalPhase.UnknownOutcome}"
  by (cases runner_phase) (auto split: if_splits)

lemma phase_after_result_cases:
  "phase_after_result result \<in> {SandboxPhysicalPhase.Succeeded, SandboxPhysicalPhase.Failed}"
  by (simp add: phase_after_result_def split: SandboxRunnerOutcome.split)

interpretation selected: write_once "physical_step env r" ph_selected_sandbox_id for env r
  by unfold_locales (erule physical_step_effects; simp)

interpretation booted: write_once "physical_step env r" ph_runner_boot_id for env r
  by unfold_locales (erule physical_step_effects; simp)

interpretation rolled: write_once "physical_step env r" ph_runner_boot_rollover for env r
  by unfold_locales (erule physical_step_effects; simp)

interpretation resulted: write_once "physical_step env r" ph_result_evidence for env r
  by unfold_locales (erule physical_step_effects; simp)

text \<open>What an attempt is of never changes.\<close>

definition same_attempt :: "SandboxPhysicalEvidence \<Rightarrow> SandboxPhysicalEvidence \<Rightarrow> bool" where
  "same_attempt s t \<longleftrightarrow>
     ph_schema_version t = ph_schema_version s
     \<and> ph_provisioning_token t = ph_provisioning_token s
     \<and> ph_provisioning_token_digest t = ph_provisioning_token_digest s
     \<and> ph_activation_token t = ph_activation_token s
     \<and> ph_activation_token_digest t = ph_activation_token_digest s
     \<and> ph_provisioning_started_at t = ph_provisioning_started_at s"

lemma step_same_attempt: "physical_step env r s t \<Longrightarrow> same_attempt s t"
  by (erule physical_step_effects) (simp_all add: same_attempt_def)

lemma run_same_attempt: "(physical_step env r)\<^sup>*\<^sup>* s t \<Longrightarrow> same_attempt s t"
  by (induction rule: rtranclp_induct) (use step_same_attempt in \<open>fastforce simp: same_attempt_def\<close>)+

text \<open>Once an attempt has left provisioning, no sandbox is created for it and none is added to it.\<close>

lemma step_frozen:
  assumes "physical_step env r s t" and "ph_phase s \<noteq> SandboxPhysicalPhase.Provisioning"
  shows "ph_phase t \<noteq> SandboxPhysicalPhase.Provisioning \<and> ph_candidate_ids t = ph_candidate_ids s
    \<and> ph_create_authorization_count t = ph_create_authorization_count s"
  using assms(1)
proof (cases rule: physical_step_effects)
  case (moves runner_phase phase boot_id)
  with phase_after_state_leaves [OF moves(2)] show ?thesis by simp
next
  case (results frame boot_id wire)
  with phase_after_result_cases [of "fr_result frame"] show ?thesis by auto
qed (use assms(2) in simp_all)

lemma run_frozen:
  assumes "(physical_step env r)\<^sup>*\<^sup>* s t" and "ph_phase s \<noteq> SandboxPhysicalPhase.Provisioning"
  shows "ph_phase t \<noteq> SandboxPhysicalPhase.Provisioning \<and> ph_candidate_ids t = ph_candidate_ids s
    \<and> ph_create_authorization_count t = ph_create_authorization_count s"
  using assms(1)
proof (induction rule: rtranclp_induct)
  case (step t u)
  with step_frozen [OF step.hyps(2)] show ?case by simp
qed (simp add: assms(2))

text \<open>An attempt whose outcome is unknown takes no result any more.\<close>

definition outcome_lost :: "SandboxPhysicalEvidence \<Rightarrow> bool" where
  "outcome_lost s \<longleftrightarrow>
     ph_result_evidence s = None \<and> ph_phase s \<in> {SandboxPhysicalPhase.UnknownOutcome, SandboxPhysicalPhase.Absent}"

lemma step_outcome_lost:
  assumes "physical_step env r s t" and "outcome_lost s" shows "outcome_lost t"
  using assms(1)
proof (cases rule: physical_step_effects)
  case (moves runner_phase phase boot_id)
  then show ?thesis using assms(2) by (cases runner_phase) (auto simp: outcome_lost_def split: if_splits)
qed (use assms(2) in \<open>auto simp: outcome_lost_def admits_result_def\<close>)

lemma run_outcome_lost: "(physical_step env r)\<^sup>*\<^sup>* s t \<Longrightarrow> outcome_lost s \<Longrightarrow> outcome_lost t"
  by (induction rule: rtranclp_induct) (auto intro: step_outcome_lost)


section \<open>The invariant of an attempt\<close>

text \<open>How many sandboxes were authorized, and when the last one was.\<close>

definition creation_sound :: "'r SandboxExecutionPlan_scheme \<Rightarrow> SandboxPhysicalEvidence \<Rightarrow> bool" where
  "creation_sound p s \<longleftrightarrow>
     ph_provisioning_started_at s < xn_deadline_at p
     \<and> ph_create_authorization_count s \<le> sl_maximum_candidates (xn_provisioning_limits p)
     \<and> (ph_create_authorization_count s = 0 \<longleftrightarrow> ph_last_create_authorized_at s = None)
     \<and> none_or (ph_last_create_authorized_at s) (\<lambda>last.
          milliseconds_since last (ph_provisioning_started_at s)
            \<le> int (unat (sl_provisioning_timeout_milliseconds (xn_provisioning_limits p))))"

text \<open>The candidates, the selected one and those that are gone; the attempt is over when all of them are.\<close>

definition candidates_sound :: "'r SandboxExecutionPlan_scheme \<Rightarrow> SandboxPhysicalEvidence \<Rightarrow> bool" where
  "candidates_sound p s \<longleftrightarrow>
     unat (ph_candidate_count s) = length (ph_candidate_ids s)
     \<and> ph_candidate_count s \<le> sl_maximum_candidates (xn_provisioning_limits p)
     \<and> distinct (ph_candidate_ids s) \<and> distinct (ph_absent_candidate_ids s)
     \<and> set (ph_absent_candidate_ids s) \<subseteq> set (ph_candidate_ids s)
     \<and> none_or (ph_selected_sandbox_id s) (\<lambda>selected. selected \<in> set (ph_candidate_ids s))
     \<and> (ph_phase s = SandboxPhysicalPhase.Absent \<longleftrightarrow>
          ph_candidate_ids s \<noteq> [] \<and> length (ph_absent_candidate_ids s) = length (ph_candidate_ids s))"

text \<open>Which evidence a phase can hold.\<close>

definition phase_sound :: "SandboxPhysicalEvidence \<Rightarrow> bool" where
  "phase_sound s \<longleftrightarrow>
     ph_phase s \<noteq> SandboxPhysicalPhase.Cleaning
     \<and> (ph_result_evidence s \<noteq> None \<longrightarrow>
          ph_phase s \<in> {SandboxPhysicalPhase.Succeeded, SandboxPhysicalPhase.Failed, SandboxPhysicalPhase.Absent})
     \<and> (ph_runner_boot_id s \<noteq> None \<longrightarrow>
          ph_phase s \<notin> {SandboxPhysicalPhase.Provisioning, SandboxPhysicalPhase.CandidateSelected}
          \<and> ph_selected_sandbox_id s \<noteq> None)
     \<and> (ph_runner_boot_id s = None \<longrightarrow>
          ph_result_evidence s = None \<and> ph_runner_boot_rollover s = None
          \<and> ph_phase s \<in> {SandboxPhysicalPhase.Provisioning, SandboxPhysicalPhase.CandidateSelected,
              SandboxPhysicalPhase.Absent})
     \<and> (ph_selected_sandbox_id s \<noteq> None \<longrightarrow> ph_phase s \<noteq> SandboxPhysicalPhase.Provisioning)
     \<and> (ph_runner_boot_rollover s \<noteq> None \<longrightarrow>
          ph_result_evidence s = None
          \<and> ph_phase s \<in> {SandboxPhysicalPhase.UnknownOutcome, SandboxPhysicalPhase.Absent})
     \<and> (ph_phase s = SandboxPhysicalPhase.Absent \<longrightarrow>
          \<not> ph_cleanup_required s \<and> ph_absence_evidence_digest s \<noteq> None)"

text \<open>The evidence the attempt holds was validated against the plan and the runner that booted.\<close>

definition evidence_sound ::
  "('n, 'z) sandbox_env_scheme \<Rightarrow> SandboxExecutionPlan \<Rightarrow> SandboxPhysicalEvidence \<Rightarrow> bool" where
  "evidence_sound env p s \<longleftrightarrow>
     none_or (ph_result_evidence s) (\<lambda>e. evidence_validate_for env e p = Inr ())
     \<and> none_or (ph_runner_boot_rollover s) (\<lambda>e. rollover_validate_for env e s = Inr ())"

lemma creation_sound_step:
  assumes "physical_step env r s t" and "creation_sound r s"
  shows "creation_sound r t"
  using assms(1)
proof (cases rule: physical_step_effects)
  case (creates now create_ordinal)
  then show ?thesis using assms(2) by (simp add: creation_sound_def none_or_iff)
qed (use assms(2) in \<open>simp_all add: creation_sound_def\<close>)

lemma marked_facts:
  assumes "sandbox_id \<in> set (ph_candidate_ids s)" and "distinct (ph_absent_candidate_ids s)"
    and "set (ph_absent_candidate_ids s) \<subseteq> set (ph_candidate_ids s)"
  shows "distinct (marked s sandbox_id)" "set (marked s sandbox_id) = insert sandbox_id (set (ph_absent_candidate_ids s))"
    "set (marked s sandbox_id) \<subseteq> set (ph_candidate_ids s)"
  using assms by (auto simp: marked_def)

lemma count_after_admission:
  assumes "unat (n :: u8) = length xs" and "n < m"
  shows "unat (n + 1) = Suc (length xs) \<and> n + 1 \<le> m"
  using assms by unat_arith

lemma distinct_subset_length:
  assumes "distinct xs" and "set xs \<subseteq> set ys" shows "length xs \<le> length ys"
  using assms by (metis card_length card_mono distinct_card finite_set le_trans)

lemma candidates_sound_step:
  assumes step: "physical_step env r s t" and sound: "candidates_sound r s" and phases: "phase_sound s"
  shows "candidates_sound r t"
  using step
proof (cases rule: physical_step_effects)
  case (admits sandbox_id)
  from sound admits count_after_admission [of "ph_candidate_count s" "ph_candidate_ids s"]
  have n: "unat (ph_candidate_count s + 1) = Suc (length (ph_candidate_ids s))"
    "ph_candidate_count s + 1 \<le> sl_maximum_candidates (xn_provisioning_limits r)"
    by (simp_all add: candidates_sound_def)
  from sound have "length (ph_absent_candidate_ids s) \<le> length (ph_candidate_ids s)"
    by (simp add: candidates_sound_def distinct_subset_length)
  with n sound admits show ?thesis by (auto simp: candidates_sound_def none_or_iff)
next
  case (moves runner_phase phase boot_id)
  with sound phase_after_state_leaves [OF moves(2)] show ?thesis by (simp add: candidates_sound_def)
next
  case (results frame boot_id wire)
  with sound phase_after_result_cases [of "fr_result frame"] show ?thesis
    by (auto simp: candidates_sound_def admits_result_def)
next
  case (marks sandbox_id)
  from sound marks(2) marked_facts [of sandbox_id s] have all: "distinct (marked s sandbox_id)"
    "set (marked s sandbox_id) \<subseteq> set (ph_candidate_ids s)" by (simp_all add: candidates_sound_def)
  from distinct_subset_length [OF this] marks(3) have "length (marked s sandbox_id) < length (ph_candidate_ids s)"
    by simp
  moreover have "length (ph_absent_candidate_ids s) \<le> length (marked s sandbox_id)" by (simp add: marked_def)
  ultimately show ?thesis using sound all marks(1) by (simp add: candidates_sound_def)
next
  case (ends sandbox_id digest)
  with sound marked_facts [of sandbox_id s] show ?thesis by (auto simp: candidates_sound_def)
next
  case (rolls e sandbox_id boot_id)
  with sound show ?thesis by (auto simp: candidates_sound_def)
qed (use sound in \<open>simp_all add: candidates_sound_def none_or_iff\<close>)

lemma phase_sound_step:
  assumes step: "physical_step env r s t" and sound: "phase_sound s"
  shows "phase_sound t"
  using step
proof (cases rule: physical_step_effects)
  case (moves runner_phase phase boot_id)
  from phase_after_state_cases [OF moves(2)] show ?thesis
    by (elim disjE) (use moves(1,3) sound in \<open>auto simp: phase_sound_def\<close>)
next
  case (rolls e sandbox_id boot_id)
  then show ?thesis by (simp add: phase_sound_def)
next
  case (results frame boot_id wire)
  from sound results(4) have "ph_runner_boot_rollover s = None" by (auto simp: phase_sound_def admits_result_def)
  with sound results(1-3) phase_after_result_cases [of "fr_result frame"] show ?thesis
    by (simp add: phase_sound_def) auto
next
  case (marks sandbox_id)
  with sound show ?thesis by (simp add: phase_sound_def)
next
  case (ends sandbox_id digest)
  with sound show ?thesis by (simp add: phase_sound_def)
qed (use sound in \<open>simp_all add: phase_sound_def\<close>)


abbreviation plan_of :: "'n SandboxExecutionRequest \<Rightarrow> SandboxExecutionPlan" where
  "plan_of r \<equiv> SandboxExecutionPlan.truncate r"

lemma plan_of_fields [simp]:
  "xn_limits (plan_of r) = xn_limits r" "xn_provisioning_limits (plan_of r) = xn_provisioning_limits r"
  "xn_output_schema_digest (plan_of r) = xn_output_schema_digest r" "xn_deadline_at (plan_of r) = xn_deadline_at r"
  "xn_request_digest (plan_of r) = xn_request_digest r" "xn_tenant_id (plan_of r) = xn_tenant_id r"
  "xn_job_id (plan_of r) = xn_job_id r"
  by (simp_all add: SandboxExecutionPlan.truncate_def)

lemma plan_of_shape [simp]: "plan_shape (plan_of r) = plan_shape r"
  by (simp add: plan_shape_def SandboxExecutionPlan.truncate_def)

lemma plan_of_digest [simp]: "semantic_digest env (plan_of r) = semantic_digest env r"
  by (simp add: semantic_digest_def plan_fields_def SandboxExecutionPlan.truncate_def)

lemma request_plan_valid: "request_validate env r = Inr () \<Longrightarrow> sandbox_plan_validate env (plan_of r) = Inr ()"
  by (auto simp: request_validate_def sandbox_plan_validate_def rbind_eq_Inr split: if_splits)

lemma request_maximum:
  "request_validate env r = Inr () \<Longrightarrow> sl_maximum_candidates (xn_provisioning_limits r) \<le> MAX_SANDBOX_CANDIDATES"
  by (auto simp: request_validate_def provisioning_limits_validate_def rbind_eq_Inr fail_if_eq_Inr)

lemma result_evidence_valid:
  assumes "result_frame_validate_for env frame r boot_id wire = Inr ()" and "request_validate env r = Inr ()"
  shows "evidence_validate_for env (evidence_from_frame frame) (plan_of r) = Inr ()"
proof -
  from assms(1) have "result_validate env (fr_result frame) r = Inr ()"
    by (auto simp: result_frame_validate_for_def rbind_eq_Inr split: if_splits)
  then show ?thesis using request_plan_valid [OF assms(2)]
    by (auto simp: result_validate_def evidence_from_frame_def evidence_validate_for_def rbind_eq_Inr word_le_nat_alt
        fail_if_eq_Inr not_less split: SandboxRunnerOutcome.splits if_splits)
qed

lemma rollover_validate_same:
  assumes "same_attempt s t" and "ph_runner_boot_id t = ph_runner_boot_id s"
    and "ph_selected_sandbox_id t = ph_selected_sandbox_id s"
  shows "rollover_validate_for env e t = rollover_validate_for env e s"
proof -
  from assms have digest: "rollover_digest_for env e t = rollover_digest_for env e s"
    unfolding rollover_digest_for_def by (simp add: same_attempt_def)
  show ?thesis unfolding rollover_validate_for_def assms(2) digest ..
qed

lemma evidence_sound_step:
  assumes step: "physical_step env r s t" and sound: "evidence_sound env (plan_of r) s" and phases: "phase_sound s"
    and request: "request_validate env r = Inr ()"
  shows "evidence_sound env (plan_of r) t"
proof -
  have results: "none_or (ph_result_evidence t) (\<lambda>e. evidence_validate_for env e (plan_of r) = Inr ())"
    using step
  proof (cases rule: physical_step_effects)
    case (results frame boot_id wire)
    from result_evidence_valid [OF results(5) request] results(1) show ?thesis by (simp add: none_or_iff)
  qed (use sound in \<open>simp_all add: evidence_sound_def\<close>)
  have "rollover_validate_for env e t = Inr ()" if e: "ph_runner_boot_rollover t = Some e" for e
  proof -
    have "rollover_validate_for env e s = Inr () \<and> ph_runner_boot_id s \<noteq> None \<and> ph_selected_sandbox_id s \<noteq> None"
      using step
    proof (cases rule: physical_step_effects)
      case (rolls f sandbox_id boot_id)
      with e show ?thesis by simp
    qed (use e sound phases in \<open>auto simp: evidence_sound_def phase_sound_def none_or_iff\<close>)
    then obtain boot_id sandbox_id where s: "ph_runner_boot_id s = Some boot_id" "ph_selected_sandbox_id s = Some sandbox_id"
      "rollover_validate_for env e s = Inr ()" by blast
    have "ph_runner_boot_id t = Some boot_id" and "ph_selected_sandbox_id t = Some sandbox_id"
      using booted.step_keeps [OF step s(1)] selected.step_keeps [OF step s(2)] .
    with s rollover_validate_same [OF step_same_attempt [OF step], of env e] show ?thesis by simp
  qed
  with results show ?thesis by (simp add: evidence_sound_def none_or_iff)
qed

definition attempt_sound ::
  "('n, 'z) sandbox_env_scheme \<Rightarrow> 'n SandboxExecutionRequest \<Rightarrow> SandboxPhysicalEvidence \<Rightarrow> bool" where
  "attempt_sound env r s \<longleftrightarrow> creation_sound r s \<and> candidates_sound r s \<and> phase_sound s \<and> evidence_sound env (plan_of r) s"

lemma attempt_sound_step:
  "physical_step env r s t \<Longrightarrow> request_validate env r = Inr () \<Longrightarrow> attempt_sound env r s \<Longrightarrow> attempt_sound env r t"
  unfolding attempt_sound_def
  by (blast intro: creation_sound_step candidates_sound_step phase_sound_step evidence_sound_step)

lemma begin_Inr:
  assumes "physical_begin env r token now = Inr s"
  shows "request_validate env r = Inr () \<and> now < xn_deadline_at r \<and>
    (\<exists>p a. token_digest env (token_from_request r) = Inr p \<and> activation_token_digest env token = Inr a
      \<and> s = \<lparr>ph_schema_version = SANDBOX_CONTRACT_SCHEMA_VERSION, ph_provisioning_token = token_from_request r,
               ph_provisioning_token_digest = p, ph_activation_token = token,
               ph_activation_token_digest = a, ph_provisioning_started_at = now,
               ph_create_authorization_count = 0, ph_last_create_authorized_at = None, ph_candidate_count = 0,
               ph_candidate_ids = [], ph_selected_sandbox_id = None, ph_runner_boot_id = None,
               ph_runner_boot_rollover = None, ph_phase = SandboxPhysicalPhase.Provisioning, ph_result_evidence = None,
               ph_cleanup_required = False, ph_absent_candidate_ids = [], ph_absence_evidence_digest = None\<rparr>)"
  using assms by (auto simp: physical_begin_def rbind_eq_Inr Let_def not_le split: if_splits)

lemma begin_sound:
  assumes "physical_begin env r token now = Inr s"
  shows "attempt_sound env r s"
  using begin_Inr [OF assms]
  by (auto simp: attempt_sound_def creation_sound_def candidates_sound_def phase_sound_def evidence_sound_def)

lemma run_sound:
  assumes start: "physical_begin env r token now = Inr s" and run: "(physical_step env r)\<^sup>*\<^sup>* s t"
  shows "attempt_sound env r t"
  using run
proof (induction rule: rtranclp_induct)
  case base
  from start show ?case by (rule begin_sound)
next
  case (step t u)
  with attempt_sound_step begin_Inr [OF start] show ?case by blast
qed

lemma sound_phase_consistent:
  assumes "candidates_sound r s" and "phase_sound s" and "evidence_sound env p s"
  shows "phase_consistent env s p"
proof -
  have "ph_phase s = SandboxPhysicalPhase.Absent \<longrightarrow>
      \<not> ph_cleanup_required s \<and> ph_absence_evidence_digest s \<noteq> None
      \<and> length (ph_absent_candidate_ids s) = length (ph_candidate_ids s)"
    using assms(1,2) by (simp add: candidates_sound_def phase_sound_def)
  moreover have "none_or (ph_result_evidence s) (\<lambda>e. is_ok (evidence_validate_for env e p))"
    and "none_or (ph_runner_boot_rollover s) (\<lambda>e. is_ok (rollover_validate_for env e s))"
    using assms(3) by (simp_all add: evidence_sound_def none_or_iff is_ok_iff)
  moreover have "ph_runner_boot_rollover s \<noteq> None \<longrightarrow> ph_runner_boot_id s \<noteq> None \<and> ph_selected_sandbox_id s \<noteq> None"
    using assms(2) by (cases "ph_runner_boot_id s") (simp_all add: phase_sound_def)
  ultimately show ?thesis using assms(2) unfolding phase_consistent_def phase_sound_def
    by (cases "ph_phase s"; cases "ph_runner_boot_id s"; simp)
qed

text \<open>Sound evidence is accepted if no sandbox was counted twice and no clock ran backwards.\<close>

lemma sound_accepted_iff:
  assumes start: "physical_begin env r token now = Inr s" and run: "(physical_step env r)\<^sup>*\<^sup>* s t"
  shows "physical_validate_for env t (plan_of r) = Inr () \<longleftrightarrow>
    ph_candidate_count t \<le> ph_create_authorization_count t
    \<and> none_or (ph_last_create_authorized_at t) (\<lambda>last. now \<le> last)"
proof -
  note b = begin_Inr [OF start] and same = run_same_attempt [OF run]
  from b same have fixed: "ph_schema_version t = SANDBOX_CONTRACT_SCHEMA_VERSION"
    "ph_provisioning_token t = token_from_request r" "ph_provisioning_started_at t = now"
    "token_digest env (token_from_request r) = Inr (ph_provisioning_token_digest t)"
    "activation_token_digest env (ph_activation_token t) = Inr (ph_activation_token_digest t)"
    by (auto simp: same_attempt_def)
  have token: "token_from_plan (plan_of r) (vt_physical_attempt (token_from_request r)) = token_from_request r"
    by (simp add: token_from_plan_def token_from_request_def)
  have "physical_validate_for env t (plan_of r) = Inr () \<longleftrightarrow>
      candidates_consistent t \<and> creation_in_limits t (plan_of r) \<and> phase_consistent env t (plan_of r)"
    unfolding physical_validate_for_def by (simp add: fixed token fail_if_eq_Inr)
  moreover
  from run_sound [OF start run] have sound: "creation_sound r t" "candidates_sound r t" "phase_sound t"
    "evidence_sound env (plan_of r) t" by (simp_all add: attempt_sound_def)
  from sound(1) have "creation_in_limits t (plan_of r) \<longleftrightarrow> none_or (ph_last_create_authorized_at t) (\<lambda>last. now \<le> last)"
    by (auto simp: creation_in_limits_def creation_sound_def none_or_iff fixed(3))
  moreover from sound(2) request_maximum [of env r] b
  have "candidates_consistent t \<longleftrightarrow> ph_candidate_count t \<le> ph_create_authorization_count t"
    by (auto simp: candidates_consistent_def candidates_sound_def word_le_nat_alt)
  moreover from sound(2-4) have "phase_consistent env t (plan_of r)" by (rule sound_phase_consistent)
  ultimately show ?thesis by blast
qed


section \<open>An example attempt\<close>

definition ex_sandbox_env :: "string sandbox_env" where
  "ex_sandbox_env = \<lparr>de_number = (\<lambda>_. []), de_jcs = (\<lambda>_. Some []), de_sha256 = (\<lambda>_. replicate 32 0),
     pe_uuid = \<lparr>uuid_parse = (\<lambda>_. None), uuid_show = (\<lambda>_. []), uuid_is_v7 = (\<lambda>_. False)\<rparr>,
     sj_read = (\<lambda>_. Some Null), sj_as_i64 = (\<lambda>_. None), sj_as_u64 = (\<lambda>_. None), sj_as_f64 = (\<lambda>_. None),
     sx_timestamp = (\<lambda>_. [])\<rparr>"

definition ex_sandbox_limits :: SandboxProvisioningLimits where
  "ex_sandbox_limits = \<lparr>sl_maximum_candidates = 2, sl_candidate_page_items = 1,
     sl_candidate_quiescence_milliseconds = 100, sl_provisioning_timeout_milliseconds = 1000,
     sl_orphan_page_items = 1, sl_runner_header_bytes = 1024, sl_diagnostic_bytes = 1024\<rparr>"

definition ex_sandbox_request :: "string SandboxExecutionRequest" where
  "ex_sandbox_request = \<lparr>xn_schema_version = 1, xn_tenant_id = ResourceId ResourceKind.Tenant 1,
     xn_invocation_id = ResourceId ResourceKind.CapabilityInvocation 2, xn_job_id = ResourceId ResourceKind.Job 3,
     xn_package_version_id = ResourceId ResourceKind.SandboxPackageRevision 4,
     xn_image_uri = ''r@'' @ zero_digest, xn_runtime_version_id = ResourceId ResourceKind.SandboxRuntimeRevision 5,
     xn_runtime_contract_digest = zero_digest,
     xn_sandbox_profile_deployment_id = ResourceId ResourceKind.SandboxProfileDeployment 6,
     xn_profile_deployment_digest = zero_digest, xn_runner_argv = [''/r''], xn_package_argv = [''/p''],
     xn_input_value_id = ResourceId ResourceKind.RunValue 7, xn_output_value_id = ResourceId ResourceKind.RunValue 8,
     xn_classification = DataClassification.Internal, xn_input_schema_digest = zero_digest,
     xn_input_digest = zero_digest, xn_output_schema_digest = zero_digest, xn_network_mode = Disabled,
     xn_limits = \<lparr>rl_maximum_input_bytes = 8, rl_maximum_output_bytes = 8, rl_cpu_millicores = 1,
       rl_memory_mebibytes = 1, rl_pids = 1, rl_ephemeral_storage_bytes = 1, rl_wall_milliseconds = 1,
       rl_cleanup_milliseconds = 1\<rparr>,
     xn_provisioning_limits = ex_sandbox_limits, xn_deadline_at = 10, xn_request_digest = zero_digest,
     xq_lease_generation = 1, xq_physical_attempt = 1,
     xq_worker_process_generation_id = ResourceId ResourceKind.WorkerProcessGeneration 9, xq_input = Null,
     xq_trace = \<lparr>ti_schema_version = 1, ti_trace_id = TraceId []\<rparr>\<rparr>"

lemma ex_sandbox_digest [simp]: "digest_json ex_sandbox_env v = Inr zero_digest"
proof -
  have "parse_digest (''sha256:'' @ lowercase_hex (replicate 32 0)) = Some zero_digest" by code_simp
  then show ?thesis
    by (simp add: digest_json_def document_digest_def canonical_digest_def canonical_json_def ex_sandbox_env_def)
qed

lemma ex_canonical [simp]: "canonical_json ex_sandbox_env v = Inr []"
  by (simp add: canonical_json_def ex_sandbox_env_def)

lemma ex_value_digest: "canonical_value_digest ex_sandbox_env Null m = Inr zero_digest"
proof -
  have "parse_strict_json ex_sandbox_env [] \<lparr>jl_max_bytes = 1, jl_max_depth = 32, jl_max_properties_per_object = 1024,
      jl_max_items_per_array = 100000, jl_max_string_bytes = 1\<rparr> = Inr Null"
    by (simp add: parse_strict_json_def json_limits_validate_def ex_sandbox_env_def)
  then show ?thesis by (simp add: canonical_value_digest_def)
qed

lemma ex_provisioning_valid: "provisioning_limits_validate ex_sandbox_limits = Inr ()" by code_simp

lemma ex_semantic_digest [simp]: "semantic_digest ex_sandbox_env p = Inr zero_digest"
  by (simp add: semantic_digest_def)

lemma rsplit_once_absent: "CHR ''@'' \<notin> set cs \<Longrightarrow> rsplit_once ''@sha256:'' cs = None"
  by (induction cs) auto

lemma ex_image: "valid_oci_digest_uri (''r@'' @ zero_digest)"
proof -
  have "rsplit_once ''@sha256:'' zero_digest = None" by (rule rsplit_once_absent) (simp add: zero_digest_def)
  then have "rsplit_once ''@sha256:'' (''r@'' @ zero_digest) = Some (''r'', replicate 64 CHR ''0'')"
    by (simp add: zero_digest_def)
  moreover have "is_lower_hex CHR ''0''" by code_simp
  ultimately show ?thesis by (simp add: valid_oci_digest_uri_def list_all_iff byte_of_def)
qed

lemma ex_argv: "valid_absolute_argv [''/r'']" "valid_absolute_argv [''/p'']"
  by code_simp+

lemma ex_plan_shape: "plan_shape ex_sandbox_request"
  using ex_image ex_argv by (simp add: plan_shape_def ex_sandbox_request_def SANDBOX_CONTRACT_SCHEMA_VERSION_def)

lemma ex_request_valid: "request_validate ex_sandbox_env ex_sandbox_request = Inr ()"
proof -
  have "resource_limits_validate (xn_limits ex_sandbox_request) = Inr ()" by code_simp
  then show ?thesis
    by (simp add: request_validate_def ex_plan_shape)
      (simp add: ex_sandbox_request_def ex_provisioning_valid ex_value_digest trace_identity_validate_def)
qed

end
