(* ===== verification/SandboxSafety.thy ===== *)
theory SandboxSafety
  imports SandboxRuns
begin

text \<open>
  What holds of every sandbox attempt: its evidence is accepted, one sandbox is activated, an unknown outcome stays
  unknown, the attempt ends exactly when every sandbox is gone, and one worker at a time cleans up.
\<close>

section \<open>An example history\<close>

definition ex_candidate :: SandboxCandidate where
  "ex_candidate = \<lparr>cd_schema_version = 1, cd_sandbox_id = ''s'',
     cd_metadata = \<lparr>cm_schema_version = 1, cm_purpose = JobCandidate, cm_tenant_id = ResourceId ResourceKind.Tenant 1,
       cm_job_id = ResourceId ResourceKind.Job 3, cm_physical_attempt = 1, cm_create_ordinal = 1,
       cm_provisioning_token_digest = zero_digest, cm_execution_request_digest = zero_digest,
       cm_runtime_contract_digest = zero_digest, cm_profile_deployment_digest = zero_digest,
       cm_network_mode = Disabled\<rparr>,
     cd_observed_at = 3\<rparr>"

definition ex_begun :: SandboxPhysicalEvidence where
  "ex_begun = \<lparr>ph_schema_version = 1, ph_provisioning_token = token_from_request ex_sandbox_request,
     ph_provisioning_token_digest = zero_digest, ph_activation_token = ''t'',
     ph_activation_token_digest = zero_digest, ph_provisioning_started_at = 1,
     ph_create_authorization_count = 0, ph_last_create_authorized_at = None, ph_candidate_count = 0,
     ph_candidate_ids = [], ph_selected_sandbox_id = None, ph_runner_boot_id = None,
     ph_runner_boot_rollover = None, ph_phase = SandboxPhysicalPhase.Provisioning, ph_result_evidence = None,
     ph_cleanup_required = False, ph_absent_candidate_ids = [], ph_absence_evidence_digest = None\<rparr>"

definition ex_created :: SandboxPhysicalEvidence where
  "ex_created = ex_begun\<lparr>ph_create_authorization_count := 1, ph_last_create_authorized_at := Some 2\<rparr>"

definition ex_found :: SandboxPhysicalEvidence where
  "ex_found = ex_created\<lparr>ph_candidate_ids := [''s''], ph_candidate_count := 1, ph_cleanup_required := True\<rparr>"

definition ex_selected :: SandboxPhysicalEvidence where
  "ex_selected = ex_found\<lparr>ph_selected_sandbox_id := Some ''s'',
     ph_phase := SandboxPhysicalPhase.CandidateSelected\<rparr>"

definition ex_activated :: SandboxPhysicalEvidence where
  "ex_activated = ex_selected\<lparr>ph_runner_boot_id := Some ''b'',
     ph_phase := SandboxPhysicalPhase.ActivationAuthorized\<rparr>"

definition ex_frame :: SandboxRunnerStateFrame where
  "ex_frame = \<lparr>rf_magic = SANDBOX_RUNNER_FRAME_MAGIC, rf_schema_version = 1, rf_sandbox_id = ''s'', rf_boot_id = ''c'',
     rf_execution_request_digest = zero_digest, rf_phase = SandboxRunnerPhase.Started, rf_frame_digest = zero_digest\<rparr>"

definition ex_rolled :: SandboxPhysicalEvidence where
  "ex_rolled = ex_activated\<lparr>ph_runner_boot_rollover := Some \<lparr>ro_schema_version = 1, ro_observed_boot_id = ''c'',
       ro_runner_state_frame_digest = zero_digest, ro_evidence_digest = zero_digest\<rparr>,
     ph_phase := SandboxPhysicalPhase.UnknownOutcome\<rparr>"

lemmas ex_history_defs = ex_begun_def ex_created_def ex_found_def ex_selected_def ex_activated_def ex_rolled_def
  SANDBOX_CONTRACT_SCHEMA_VERSION_def

lemma ex_begin: "physical_begin ex_sandbox_env ex_sandbox_request ''t'' 1 = Inr ex_begun"
proof -
  have "token_digest ex_sandbox_env (token_from_request ex_sandbox_request) = Inr zero_digest"
    by (simp add: token_digest_def token_validate_def token_from_request_def ex_sandbox_request_def
        SANDBOX_CONTRACT_SCHEMA_VERSION_def)
  moreover have "xn_deadline_at ex_sandbox_request = 10" by (simp add: ex_sandbox_request_def)
  ultimately show ?thesis
    by (simp add: physical_begin_def ex_request_valid activation_token_digest_def Let_def ex_history_defs)
qed

lemma ex_create:
  "physical_authorize_create ex_sandbox_env ex_begun ex_sandbox_request ex_sandbox_limits 2 1 = Inr (Applied ex_created)"
proof -
  have "xn_provisioning_limits ex_sandbox_request = ex_sandbox_limits" by (simp add: ex_sandbox_request_def)
  moreover have "sl_maximum_candidates ex_sandbox_limits = 2"
    "sl_provisioning_timeout_milliseconds ex_sandbox_limits = 1000" by (simp_all add: ex_sandbox_limits_def)
  moreover have "saturating_add (0 :: u8) 1 = 1" by code_simp
  ultimately show ?thesis
    by (simp add: physical_authorize_create_def ex_request_valid ex_provisioning_valid milliseconds_since_def
        ex_history_defs some_and_iff)
qed

lemma ex_metadata:
  "metadata_validate_for ex_sandbox_env (cd_metadata ex_candidate) ex_sandbox_request
     (token_from_request ex_sandbox_request) = Inr ()"
  by (simp add: metadata_validate_for_def metadata_validate_shape_def token_digest_def token_validate_def
      token_from_request_def ex_sandbox_request_def ex_candidate_def SANDBOX_CONTRACT_SCHEMA_VERSION_def
      MAX_SANDBOX_CANDIDATES_def)

lemma ex_observe:
  "physical_observe ex_sandbox_env ex_created ex_sandbox_request (ObservedCandidate ex_candidate ex_sandbox_limits)
     = Inr ex_found"
proof -
  have "xn_provisioning_limits ex_sandbox_request = ex_sandbox_limits" by (simp add: ex_sandbox_request_def)
  moreover have "sl_maximum_candidates ex_sandbox_limits = 2" by (simp add: ex_sandbox_limits_def)
  moreover have "cm_create_ordinal (cd_metadata ex_candidate) = 1" "cd_sandbox_id ex_candidate = ''s''"
    "cd_schema_version ex_candidate = 1" by (simp_all add: ex_candidate_def)
  ultimately show ?thesis using ex_metadata
    by (simp add: physical_observe_def physical_observe_candidate_def ex_provisioning_valid may_create_candidate_def
        ex_history_defs)
qed

lemma ex_select:
  "physical_select_candidate ex_sandbox_env ex_found ex_sandbox_request ex_candidate = Inr (Applied ex_selected)"
proof -
  have "cm_create_ordinal (cd_metadata ex_candidate) = 1" "cd_sandbox_id ex_candidate = ''s''"
    by (simp_all add: ex_candidate_def)
  then show ?thesis using ex_metadata by (simp add: physical_select_candidate_def ex_history_defs)
qed

lemma ex_activate: "physical_authorize_activation ex_selected ''s'' ''b'' = Inr (Applied ex_activated)"
  by (simp add: physical_authorize_activation_def ex_history_defs)

lemma ex_rollover:
  "physical_observe ex_sandbox_env ex_activated ex_sandbox_request (ObservedRunnerState ex_frame) = Inr ex_rolled"
  by (simp add: physical_observe_def physical_record_state_def state_frame_validate_def state_frame_digest_def
      physical_record_rollover_def rollover_new_def rollover_digest_for_def rollover_validate_for_def
      token_from_request_def ex_sandbox_request_def ex_frame_def ex_history_defs)

lemma ex_reaches_activated: "(physical_step ex_sandbox_env ex_sandbox_request)\<^sup>*\<^sup>* ex_begun ex_activated"
proof -
  let ?step = "physical_step ex_sandbox_env ex_sandbox_request"
  have "?step ex_begun ex_created" using authorizes [OF ex_create] by simp
  moreover have "?step ex_created ex_found" using observes [OF ex_observe] .
  moreover have "?step ex_found ex_selected" using selects [OF ex_select] by simp
  moreover have "?step ex_selected ex_activated" using activates [OF ex_activate] by simp
  ultimately show ?thesis by (meson converse_rtranclp_into_rtranclp rtranclp.rtrancl_refl)
qed

lemma ex_reaches_rolled: "(physical_step ex_sandbox_env ex_sandbox_request)\<^sup>*\<^sup>* ex_begun ex_rolled"
  using ex_reaches_activated observes [OF ex_rollover] by (rule rtranclp.rtrancl_into_rtrancl)


section \<open>Properties of an attempt\<close>

text \<open>C12: The evidence every accepted sequence of operations builds from the beginning of an attempt is valid for the
  plan of the request, unless more sandboxes were observed than were authorized or the clock of an authorization
  was behind that of the beginning; in these two cases, and in no other, validation refuses it.\<close>

theorem attempt_evidence_is_valid:
  assumes "physical_begin env r token now = Inr s" and "(physical_step env r)\<^sup>*\<^sup>* s t"
  shows "physical_validate_for env t (plan_of r) = Inr () \<longleftrightarrow>
    ph_candidate_count t \<le> ph_create_authorization_count t
    \<and> none_or (ph_last_create_authorized_at t) (\<lambda>last. now \<le> last)"
  using assms by (rule sound_accepted_iff)

lemma attempt_evidence_is_valid_witness:
  "physical_validate_for ex_sandbox_env ex_rolled (plan_of ex_sandbox_request) = Inr ()"
  using attempt_evidence_is_valid [OF ex_begin ex_reaches_rolled] by (simp add: ex_history_defs)



text \<open>C11: An attempt whose outcome is unknown, because the runner says so or because it booted again, stays without a
  result for good: no operation leads out of that phase but the end of the attempt, every result frame is refused,
  and the job cannot be settled as succeeded.\<close>

theorem unknown_outcomes_stay_unknown:
  assumes "physical_begin env r token now = Inr s" and "(physical_step env r)\<^sup>*\<^sup>* s t"
    and "ph_phase t = SandboxPhysicalPhase.UnknownOutcome" and "(physical_step env r)\<^sup>*\<^sup>* t u"
  shows "ph_result_evidence u = None
    \<and> ph_phase u \<in> {SandboxPhysicalPhase.UnknownOutcome, SandboxPhysicalPhase.Absent}
    \<and> \<not> is_ok (physical_record_result env u r frame)
    \<and> \<not> is_ok (payload_terminal env (payload\<lparr>sp_physical := Some u\<rparr>) r (TerminalSucceeded frame))"
proof -
  from run_sound [OF assms(1,2)] assms(3) have "outcome_lost t"
    by (auto simp: attempt_sound_def phase_sound_def outcome_lost_def)
  then have u: "outcome_lost u" by (rule run_outcome_lost [OF assms(4)])
  then have "physical_record_result env u r frame \<noteq> Inr x" for x
    by (auto simp: physical_record_result_def rbind_eq_Inr Let_def outcome_lost_def)
  moreover have "summary_from_outcome env (TerminalSucceeded frame) r u \<noteq> Inr x" for x
    using u by (auto simp: summary_from_outcome_def outcome_validate_for_def rbind_eq_Inr outcome_lost_def)
  then have "payload_terminal env (payload\<lparr>sp_physical := Some u\<rparr>) r (TerminalSucceeded frame) \<noteq> Inr x" for x
    by (auto simp: payload_terminal_def rbind_eq_Inr ok_or_eq_Inr split: if_splits)
  ultimately show ?thesis using u by (auto simp: outcome_lost_def is_ok_iff)
qed

lemma unknown_outcomes_stay_unknown_witness:
  "\<not> is_ok (physical_record_result ex_sandbox_env ex_rolled ex_sandbox_request
     \<lparr>fr_magic = [], fr_schema_version = 1, fr_execution_request_digest = zero_digest, fr_boot_id = ''b'',
       fr_result = OutcomeFailed RunnerFailure zero_digest 0, fr_frame_digest = zero_digest\<rparr>)"
proof -
  have "ph_phase ex_rolled = SandboxPhysicalPhase.UnknownOutcome" by (simp add: ex_history_defs)
  from unknown_outcomes_stay_unknown [OF ex_begin ex_reaches_rolled this rtranclp.rtrancl_refl] show ?thesis by blast
qed

text \<open>The first result of an attempt stands: whatever happens after it was recorded, a later result frame is
  accepted only when it is the same evidence, and then changes nothing.\<close>

theorem the_first_result_stands:
  assumes "physical_record_result env s r frame = Inr t" and "(physical_step env r)\<^sup>*\<^sup>* t u"
    and "physical_record_result env u r frame' = Inr v"
  shows "evidence_from_frame frame' = evidence_from_frame frame \<and> v = u"
proof -
  have "ph_result_evidence t = Some (evidence_from_frame frame)"
    using assms(1) by (auto simp: physical_record_result_def rbind_eq_Inr Let_def split: if_splits option.splits)
  from resulted.slot_stays [OF assms(2) this] assms(3) show ?thesis
    by (auto simp: physical_record_result_def rbind_eq_Inr Let_def split: if_splits)
qed


definition ex_result_frame :: "string SandboxRunnerResultFrame" where
  "ex_result_frame = \<lparr>fr_magic = SANDBOX_RUNNER_FRAME_MAGIC, fr_schema_version = 1,
     fr_execution_request_digest = zero_digest, fr_boot_id = ''b'',
     fr_result = OutcomeFailed PackageFailed zero_digest 0, fr_frame_digest = zero_digest\<rparr>"

lemma ex_result:
  "physical_record_result ex_sandbox_env ex_activated ex_sandbox_request ex_result_frame =
     Inr (ex_activated\<lparr>ph_phase := SandboxPhysicalPhase.Failed,
       ph_result_evidence := Some (EvidenceFailed zero_digest PackageFailed zero_digest 0)\<rparr>)"
proof -
  have "result_frame_validate_for ex_sandbox_env ex_result_frame ex_sandbox_request ''b'' 0 = Inr ()"
    by (simp add: result_frame_validate_for_def ex_result_frame_def ex_sandbox_request_def result_validate_def
        SANDBOX_CONTRACT_SCHEMA_VERSION_def)
  then show ?thesis
    by (simp add: physical_record_result_def result_frame_bytes_def evidence_from_frame_def phase_after_result_def
        ex_history_defs) (simp add: ex_result_frame_def)
qed

lemma the_first_result_stands_witness:
  "\<exists>v. physical_record_result ex_sandbox_env (ex_activated\<lparr>ph_phase := SandboxPhysicalPhase.Failed,
     ph_result_evidence := Some (EvidenceFailed zero_digest PackageFailed zero_digest 0)\<rparr>)
     ex_sandbox_request ex_result_frame = Inr v
   \<and> v = ex_activated\<lparr>ph_phase := SandboxPhysicalPhase.Failed,
       ph_result_evidence := Some (EvidenceFailed zero_digest PackageFailed zero_digest 0)\<rparr>"
proof -
  let ?t = "ex_activated\<lparr>ph_phase := SandboxPhysicalPhase.Failed,
     ph_result_evidence := Some (EvidenceFailed zero_digest PackageFailed zero_digest 0)\<rparr>"
  have "result_frame_validate_for ex_sandbox_env ex_result_frame ex_sandbox_request ''b'' 0 = Inr ()"
    by (simp add: result_frame_validate_for_def ex_result_frame_def ex_sandbox_request_def result_validate_def
        SANDBOX_CONTRACT_SCHEMA_VERSION_def)
  then have "physical_record_result ex_sandbox_env ?t ex_sandbox_request ex_result_frame = Inr ?t"
    by (simp add: physical_record_result_def result_frame_bytes_def evidence_from_frame_def ex_history_defs)
      (simp add: ex_result_frame_def)
  with the_first_result_stands [OF ex_result rtranclp.rtrancl_refl this] show ?thesis by blast
qed

section \<open>Creation\<close>

text \<open>C15: An attempt authorizes at most as many creations as its request allows, never more than four, and observes
  no more sandboxes than that; each authorization raises the count by exactly one, within the provisioning timeout
  and not before the quiescence period since the one before it.\<close>

theorem creations_are_bounded_and_spaced:
  assumes "physical_begin env r token started = Inr s" and "(physical_step env r)\<^sup>*\<^sup>* s t"
    and "physical_authorize_create env t r limits now create_ordinal = Inr (Applied u)"
  shows "unat (ph_create_authorization_count u) = unat (ph_create_authorization_count t) + 1
    \<and> ph_create_authorization_count u \<le> sl_maximum_candidates (xn_provisioning_limits r)
    \<and> sl_maximum_candidates (xn_provisioning_limits r) \<le> MAX_SANDBOX_CANDIDATES
    \<and> length (ph_candidate_ids u) \<le> unat (sl_maximum_candidates (xn_provisioning_limits r))
    \<and> milliseconds_since now started \<le> int (unat (sl_provisioning_timeout_milliseconds (xn_provisioning_limits r)))
    \<and> none_or (ph_last_create_authorized_at t) (\<lambda>last.
         int (unat (sl_candidate_quiescence_milliseconds (xn_provisioning_limits r))) \<le> milliseconds_since now last)"
proof -
  note e = authorize_create_effect [OF assms(3)] and b = begin_Inr [OF assms(1)]
  have u: "physical_step env r t u" using authorizes [OF assms(3)] by simp
  have "candidates_sound r u"
    using run_sound [OF assms(1) rtranclp.rtrancl_into_rtrancl [OF assms(2) u]] by (simp add: attempt_sound_def)
  then have n: "length (ph_candidate_ids u) \<le> unat (sl_maximum_candidates (xn_provisioning_limits r))"
    unfolding candidates_sound_def word_le_nat_alt by simp
  have started: "ph_provisioning_started_at t = started"
    using run_same_attempt [OF assms(2)] b by (auto simp: same_attempt_def)
  have m: "sl_maximum_candidates (xn_provisioning_limits r) \<le> MAX_SANDBOX_CANDIDATES" using request_maximum b by blast
  with e have "unat (ph_create_authorization_count t) < 4"
    by (auto simp: word_le_nat_alt word_less_nat_alt MAX_SANDBOX_CANDIDATES_def)
  with e m n started show ?thesis by (auto simp: unat_saturating_add)
qed

lemma creations_are_bounded_and_spaced_witness:
  "unat (ph_create_authorization_count ex_created) = unat (ph_create_authorization_count ex_begun) + 1"
  using creations_are_bounded_and_spaced [OF ex_begin rtranclp.rtrancl_refl ex_create] by simp

text \<open>A second sandbox under the ordinal of the first is observed, and the evidence that holds it is refused.\<close>

lemma second_sandbox_of_one_creation:
  "\<exists>t. physical_observe_candidate ex_sandbox_env ex_found ex_sandbox_request
         (ex_candidate\<lparr>cd_sandbox_id := ''u''\<rparr>) ex_sandbox_limits = Inr t
     \<and> \<not> is_ok (physical_validate_for ex_sandbox_env t (plan_of ex_sandbox_request))"
proof -
  have l: "xn_provisioning_limits ex_sandbox_request = ex_sandbox_limits" by (simp add: ex_sandbox_request_def)
  have m: "sl_maximum_candidates ex_sandbox_limits = 2" by (simp add: ex_sandbox_limits_def)
  have c: "cm_create_ordinal (cd_metadata ex_candidate) = 1" "cd_schema_version ex_candidate = 1"
    by (simp_all add: ex_candidate_def)
  have two: "\<not> (2 :: u8) \<le> 1" by (simp add: word_le_nat_alt)
  let ?t = "ex_found\<lparr>ph_candidate_ids := [''s'', ''u''], ph_candidate_count := 2, ph_cleanup_required := True\<rparr>"
  have seen: "physical_observe_candidate ex_sandbox_env ex_found ex_sandbox_request
      (ex_candidate\<lparr>cd_sandbox_id := ''u''\<rparr>) ex_sandbox_limits = Inr ?t"
    using l m c two ex_metadata
    by (simp add: physical_observe_candidate_def ex_provisioning_valid may_create_candidate_def ex_history_defs)
  have "\<not> candidates_consistent ?t" using two by (simp add: candidates_consistent_def ex_history_defs)
  then have "physical_validate_for ex_sandbox_env ?t (plan_of ex_sandbox_request) \<noteq> Inr ()"
    by (auto simp: physical_validate_for_def rbind_eq_Inr fail_if_eq_Inr split: if_splits)
  with seen show ?thesis by (auto simp: is_ok_iff)
qed

text \<open>A creation is authorized by a clock that is less than a millisecond behind, and its evidence is refused.\<close>

lemma authorization_behind_the_beginning:
  "\<exists>t. physical_authorize_create ex_sandbox_env ex_begun ex_sandbox_request ex_sandbox_limits 0 1 = Inr (Applied t)
     \<and> \<not> is_ok (physical_validate_for ex_sandbox_env t (plan_of ex_sandbox_request))"
proof -
  have l: "xn_provisioning_limits ex_sandbox_request = ex_sandbox_limits" by (simp add: ex_sandbox_request_def)
  have m: "sl_maximum_candidates ex_sandbox_limits = 2" "sl_provisioning_timeout_milliseconds ex_sandbox_limits = 1000"
    by (simp_all add: ex_sandbox_limits_def)
  have n: "saturating_add (0 :: u8) 1 = 1" by code_simp
  let ?t = "ex_begun\<lparr>ph_create_authorization_count := 1, ph_last_create_authorized_at := Some 0\<rparr>"
  have a: "physical_authorize_create ex_sandbox_env ex_begun ex_sandbox_request ex_sandbox_limits 0 1 = Inr (Applied ?t)"
    using l m n by (simp add: physical_authorize_create_def ex_request_valid ex_provisioning_valid milliseconds_since_def
        ex_history_defs some_and_iff)
  have "\<not> creation_in_limits ?t (plan_of ex_sandbox_request)"
    by (simp add: creation_in_limits_def ex_history_defs none_or_iff)
  then have "physical_validate_for ex_sandbox_env ?t (plan_of ex_sandbox_request) \<noteq> Inr ()"
    by (auto simp: physical_validate_for_def rbind_eq_Inr fail_if_eq_Inr split: if_splits)
  with a show ?thesis by (auto simp: is_ok_iff)
qed

section \<open>The end of an attempt\<close>

definition mark_all ::
  "SandboxPhysicalEvidence \<Rightarrow> (OpenSandboxId \<times> Sha256Digest) list \<Rightarrow> SandboxContractError + SandboxPhysicalEvidence" where
  "mark_all s marks = fold (\<lambda>(sandbox_id, digest) r. rbind r (\<lambda>s. physical_mark_absent s sandbox_id digest)) marks (Inr s)"

lemma mark_absent_accepted:
  assumes "sandbox_id \<in> set (ph_candidate_ids s)"
  obtains t where "physical_mark_absent s sandbox_id digest = Inr t" "ph_candidate_ids t = ph_candidate_ids s"
    "set (ph_absent_candidate_ids t) = insert sandbox_id (set (ph_absent_candidate_ids s))"
proof -
  have m: "set (marked s sandbox_id) = insert sandbox_id (set (ph_absent_candidate_ids s))" by (auto simp: marked_def)
  show ?thesis
  proof (cases "length (marked s sandbox_id) = length (ph_candidate_ids s)")
    case True
    with assms have p: "physical_mark_absent s sandbox_id digest =
        Inr (s\<lparr>ph_absent_candidate_ids := marked s sandbox_id, ph_phase := SandboxPhysicalPhase.Absent,
          ph_cleanup_required := False, ph_absence_evidence_digest := Some digest\<rparr>)"
      by (simp add: mark_absent_marked)
    show ?thesis by (rule that [OF p]) (use m in simp_all)
  next
    case False
    with assms have p: "physical_mark_absent s sandbox_id digest = Inr (s\<lparr>ph_absent_candidate_ids := marked s sandbox_id\<rparr>)"
      by (simp add: mark_absent_marked)
    show ?thesis by (rule that [OF p]) (use m in simp_all)
  qed
qed

lemma mark_all_runs:
  assumes "fst ` set marks \<subseteq> set (ph_candidate_ids s)"
  shows "\<exists>t. mark_all s marks = Inr t \<and> (physical_step env r)\<^sup>*\<^sup>* s t \<and> ph_candidate_ids t = ph_candidate_ids s
    \<and> set (ph_absent_candidate_ids t) = fst ` set marks \<union> set (ph_absent_candidate_ids s)"
  using assms
proof (induction marks arbitrary: s)
  case (Cons m marks)
  obtain sandbox_id digest where m: "m = (sandbox_id, digest)" by (cases m)
  with Cons.prems have "sandbox_id \<in> set (ph_candidate_ids s)" by simp
  then obtain u where u: "physical_mark_absent s sandbox_id digest = Inr u" "ph_candidate_ids u = ph_candidate_ids s"
    "set (ph_absent_candidate_ids u) = insert sandbox_id (set (ph_absent_candidate_ids s))"
    by (rule mark_absent_accepted)
  from Cons.IH [of u] Cons.prems u(2) obtain t where t: "mark_all u marks = Inr t" "(physical_step env r)\<^sup>*\<^sup>* u t"
    "ph_candidate_ids t = ph_candidate_ids u"
    "set (ph_absent_candidate_ids t) = fst ` set marks \<union> set (ph_absent_candidate_ids u)" by auto
  have "(physical_step env r)\<^sup>*\<^sup>* s t" using clears [OF u(1)] t(2) by (rule converse_rtranclp_into_rtranclp)
  with t u m show ?case by (auto simp: mark_all_def)
qed (simp add: mark_all_def)

text \<open>C14: Proofs of absence for sandboxes of the attempt are always recorded, in any order and with repetitions, and
  the attempt has ended, with nothing left to clean up, exactly when there is a proof for every one of them; one
  that is still unproved keeps it open.\<close>

theorem attempts_end_when_every_sandbox_is_gone:
  assumes "physical_begin env r token now = Inr s" and "(physical_step env r)\<^sup>*\<^sup>* s t"
    and "ph_candidate_ids t \<noteq> []" and "fst ` set marks \<subseteq> set (ph_candidate_ids t)"
  shows "\<exists>u. mark_all t marks = Inr u
    \<and> (ph_phase u = SandboxPhysicalPhase.Absent \<longleftrightarrow>
         set (ph_candidate_ids t) = fst ` set marks \<union> set (ph_absent_candidate_ids t))
    \<and> (ph_phase u = SandboxPhysicalPhase.Absent \<longrightarrow> \<not> ph_cleanup_required u)"
proof -
  from mark_all_runs [OF assms(4), of env r] obtain u where u: "mark_all t marks = Inr u"
    "(physical_step env r)\<^sup>*\<^sup>* t u" "ph_candidate_ids u = ph_candidate_ids t"
    "set (ph_absent_candidate_ids u) = fst ` set marks \<union> set (ph_absent_candidate_ids t)" by blast
  from run_sound [OF assms(1) rtranclp_trans [OF assms(2) u(2)]]
  have sound: "candidates_sound r u" "phase_sound u" by (simp_all add: attempt_sound_def)
  from sound(1) have c: "distinct (ph_absent_candidate_ids u)" "distinct (ph_candidate_ids u)"
    "set (ph_absent_candidate_ids u) \<subseteq> set (ph_candidate_ids u)"
    "ph_phase u = SandboxPhysicalPhase.Absent \<longleftrightarrow>
       ph_candidate_ids u \<noteq> [] \<and> length (ph_absent_candidate_ids u) = length (ph_candidate_ids u)"
    unfolding candidates_sound_def by blast+
  have "length (ph_absent_candidate_ids u) = length (ph_candidate_ids u) \<longleftrightarrow>
      set (ph_absent_candidate_ids u) = set (ph_candidate_ids u)"
    using c(1-3) by (metis card_subset_eq distinct_card finite_set)
  then have "ph_phase u = SandboxPhysicalPhase.Absent \<longleftrightarrow>
      fst ` set marks \<union> set (ph_absent_candidate_ids t) = set (ph_candidate_ids t)"
    unfolding c(4) u(4) unfolding u(3) using assms(3) by simp
  moreover from sound(2) have "ph_phase u = SandboxPhysicalPhase.Absent \<longrightarrow> \<not> ph_cleanup_required u"
    by (simp add: phase_sound_def)
  ultimately show ?thesis using u(1) by (intro exI [of _ u]) (simp add: eq_commute)
qed

lemma attempts_end_when_every_sandbox_is_gone_witness:
  "\<exists>u. mark_all ex_rolled [(''s'', zero_digest), (''s'', zero_digest)] = Inr u \<and> ph_phase u = SandboxPhysicalPhase.Absent"
proof -
  have "ph_candidate_ids ex_rolled = [''s'']" "ph_absent_candidate_ids ex_rolled = []" by (simp_all add: ex_history_defs)
  with attempts_end_when_every_sandbox_is_gone
    [OF ex_begin ex_reaches_rolled, of "[(''s'', zero_digest), (''s'', zero_digest)]"]
  show ?thesis by auto
qed


section \<open>Cleanup\<close>














text \<open>A job that was settled is not begun, controlled or settled again.\<close>

lemma settled_payloads_are_final:
  assumes "sp_terminal p = Some record"
  shows "\<not> is_ok (payload_begin env p r token now)" "\<not> is_ok (payload_request_control env p kind now version)"
    "\<not> is_ok (payload_terminal_control env p)" "\<not> is_ok (payload_terminal env p r outcome)"
proof -
  have "payload_begin env p r token now \<noteq> Inr x" "payload_terminal env p r outcome \<noteq> Inr x" for x
    using assms by (auto simp: payload_begin_def payload_terminal_def rbind_eq_Inr split: if_splits)
  with assms show "\<not> is_ok (payload_begin env p r token now)" "\<not> is_ok (payload_terminal env p r outcome)"
    "\<not> is_ok (payload_request_control env p kind now version)" "\<not> is_ok (payload_terminal_control env p)"
    by (simp_all add: is_ok_iff payload_request_control_def payload_terminal_control_def)
qed

end
