(* ===== verification/ArtifactKinds.thy ===== *)
theory ArtifactKinds
  imports Registry
begin

text \<open>
  The closed enums of stored artifacts (\<open>platform-contracts/src/registry.rs\<close>): what an artifact is for, what
  refers to it, what a grant allows and to whom, and the integrity state of the bytes behind it.
\<close>

subsection \<open>Artifact purpose\<close>

datatype (plugins only: code) ArtifactPurpose =
    AuthoringDocument
  | InterfaceContract
  | TypedPlan
  | Package
  | Sbom
  | BackendBinding
  | ModelGenerationDefaults
  | RunInput
  | RunOutput
  | CapabilityInput
  | CapabilityOutput
  | ContextSource
  | ContextDerived
  | McpResource
  | SandboxInput
  | SandboxOutput
  | Diagnostic
  | Export

primrec artifact_purpose_str :: "ArtifactPurpose \<Rightarrow> string" where
  "artifact_purpose_str ArtifactPurpose.AuthoringDocument = ''authoring_document''"
| "artifact_purpose_str ArtifactPurpose.InterfaceContract = ''interface_contract''"
| "artifact_purpose_str ArtifactPurpose.TypedPlan = ''typed_plan''"
| "artifact_purpose_str ArtifactPurpose.Package = ''package''"
| "artifact_purpose_str ArtifactPurpose.Sbom = ''sbom''"
| "artifact_purpose_str ArtifactPurpose.BackendBinding = ''backend_binding''"
| "artifact_purpose_str ArtifactPurpose.ModelGenerationDefaults = ''model_generation_defaults''"
| "artifact_purpose_str ArtifactPurpose.RunInput = ''run_input''"
| "artifact_purpose_str ArtifactPurpose.RunOutput = ''run_output''"
| "artifact_purpose_str ArtifactPurpose.CapabilityInput = ''capability_input''"
| "artifact_purpose_str ArtifactPurpose.CapabilityOutput = ''capability_output''"
| "artifact_purpose_str ArtifactPurpose.ContextSource = ''context_source''"
| "artifact_purpose_str ArtifactPurpose.ContextDerived = ''context_derived''"
| "artifact_purpose_str ArtifactPurpose.McpResource = ''mcp_resource''"
| "artifact_purpose_str ArtifactPurpose.SandboxInput = ''sandbox_input''"
| "artifact_purpose_str ArtifactPurpose.SandboxOutput = ''sandbox_output''"
| "artifact_purpose_str ArtifactPurpose.Diagnostic = ''diagnostic''"
| "artifact_purpose_str ArtifactPurpose.Export = ''export''"

definition all_artifact_purpose :: "ArtifactPurpose list" where
  "all_artifact_purpose =
    [ArtifactPurpose.AuthoringDocument, ArtifactPurpose.InterfaceContract,
     ArtifactPurpose.TypedPlan, ArtifactPurpose.Package, ArtifactPurpose.Sbom,
     ArtifactPurpose.BackendBinding, ArtifactPurpose.ModelGenerationDefaults,
     ArtifactPurpose.RunInput, ArtifactPurpose.RunOutput, ArtifactPurpose.CapabilityInput,
     ArtifactPurpose.CapabilityOutput, ArtifactPurpose.ContextSource,
     ArtifactPurpose.ContextDerived, ArtifactPurpose.McpResource, ArtifactPurpose.SandboxInput,
     ArtifactPurpose.SandboxOutput, ArtifactPurpose.Diagnostic, ArtifactPurpose.Export]"

interpretation artifact_purpose_r: closed_registry all_artifact_purpose artifact_purpose_str
proof
  show "x \<in> set all_artifact_purpose" for x
    by (cases x) (simp_all add: all_artifact_purpose_def)
  show "distinct (map artifact_purpose_str all_artifact_purpose)"
    by code_simp
qed

subsection \<open>Artifact reference kind\<close>

datatype (plugins only: code) ArtifactReferenceKind =
    Definition
  | Input
  | Output
  | Evidence
  | Package
  | Attachment
  | Result
  | Provenance

primrec artifact_reference_kind_str :: "ArtifactReferenceKind \<Rightarrow> string" where
  "artifact_reference_kind_str ArtifactReferenceKind.Definition = ''definition''"
| "artifact_reference_kind_str ArtifactReferenceKind.Input = ''input''"
| "artifact_reference_kind_str ArtifactReferenceKind.Output = ''output''"
| "artifact_reference_kind_str ArtifactReferenceKind.Evidence = ''evidence''"
| "artifact_reference_kind_str ArtifactReferenceKind.Package = ''package''"
| "artifact_reference_kind_str ArtifactReferenceKind.Attachment = ''attachment''"
| "artifact_reference_kind_str ArtifactReferenceKind.Result = ''result''"
| "artifact_reference_kind_str ArtifactReferenceKind.Provenance = ''provenance''"

definition all_artifact_reference_kind :: "ArtifactReferenceKind list" where
  "all_artifact_reference_kind =
    [ArtifactReferenceKind.Definition, ArtifactReferenceKind.Input, ArtifactReferenceKind.Output,
     ArtifactReferenceKind.Evidence, ArtifactReferenceKind.Package,
     ArtifactReferenceKind.Attachment, ArtifactReferenceKind.Result,
     ArtifactReferenceKind.Provenance]"

interpretation artifact_reference_kind_r: closed_registry all_artifact_reference_kind artifact_reference_kind_str
proof
  show "x \<in> set all_artifact_reference_kind" for x
    by (cases x) (simp_all add: all_artifact_reference_kind_def)
  show "distinct (map artifact_reference_kind_str all_artifact_reference_kind)"
    by code_simp
qed

subsection \<open>Artifact grant operation\<close>

datatype (plugins only: code) ArtifactGrantOperation =
    ReadWhole
  | ReadRange
  | WriteStaging
  | CommitStaging

primrec artifact_grant_operation_str :: "ArtifactGrantOperation \<Rightarrow> string" where
  "artifact_grant_operation_str ArtifactGrantOperation.ReadWhole = ''read_whole''"
| "artifact_grant_operation_str ArtifactGrantOperation.ReadRange = ''read_range''"
| "artifact_grant_operation_str ArtifactGrantOperation.WriteStaging = ''write_staging''"
| "artifact_grant_operation_str ArtifactGrantOperation.CommitStaging = ''commit_staging''"

definition all_artifact_grant_operation :: "ArtifactGrantOperation list" where
  "all_artifact_grant_operation =
    [ArtifactGrantOperation.ReadWhole, ArtifactGrantOperation.ReadRange,
     ArtifactGrantOperation.WriteStaging, ArtifactGrantOperation.CommitStaging]"

interpretation artifact_grant_operation_r: closed_registry all_artifact_grant_operation artifact_grant_operation_str
proof
  show "x \<in> set all_artifact_grant_operation" for x
    by (cases x) (simp_all add: all_artifact_grant_operation_def)
  show "distinct (map artifact_grant_operation_str all_artifact_grant_operation)"
    by code_simp
qed

subsection \<open>Artifact workload audience\<close>

datatype (plugins only: code) ArtifactWorkloadAudience =
    Principal
  | Runtime
  | RegistryWorker
  | CapabilityWorker
  | ContextWorker
  | ModelWorker
  | McpHost
  | SandboxGateway
  | ArtifactWorker

primrec artifact_workload_audience_str :: "ArtifactWorkloadAudience \<Rightarrow> string" where
  "artifact_workload_audience_str ArtifactWorkloadAudience.Principal = ''principal''"
| "artifact_workload_audience_str ArtifactWorkloadAudience.Runtime = ''runtime''"
| "artifact_workload_audience_str ArtifactWorkloadAudience.RegistryWorker = ''registry_worker''"
| "artifact_workload_audience_str ArtifactWorkloadAudience.CapabilityWorker = ''capability_worker''"
| "artifact_workload_audience_str ArtifactWorkloadAudience.ContextWorker = ''context_worker''"
| "artifact_workload_audience_str ArtifactWorkloadAudience.ModelWorker = ''model_worker''"
| "artifact_workload_audience_str ArtifactWorkloadAudience.McpHost = ''mcp_host''"
| "artifact_workload_audience_str ArtifactWorkloadAudience.SandboxGateway = ''sandbox_gateway''"
| "artifact_workload_audience_str ArtifactWorkloadAudience.ArtifactWorker = ''artifact_worker''"

definition all_artifact_workload_audience :: "ArtifactWorkloadAudience list" where
  "all_artifact_workload_audience =
    [ArtifactWorkloadAudience.Principal, ArtifactWorkloadAudience.Runtime,
     ArtifactWorkloadAudience.RegistryWorker, ArtifactWorkloadAudience.CapabilityWorker,
     ArtifactWorkloadAudience.ContextWorker, ArtifactWorkloadAudience.ModelWorker,
     ArtifactWorkloadAudience.McpHost, ArtifactWorkloadAudience.SandboxGateway,
     ArtifactWorkloadAudience.ArtifactWorker]"

interpretation artifact_workload_audience_r: closed_registry all_artifact_workload_audience artifact_workload_audience_str
proof
  show "x \<in> set all_artifact_workload_audience" for x
    by (cases x) (simp_all add: all_artifact_workload_audience_def)
  show "distinct (map artifact_workload_audience_str all_artifact_workload_audience)"
    by code_simp
qed

subsection \<open>Blob integrity state\<close>

datatype (plugins only: code) BlobIntegrityState =
    Staging
  | Verified
  | Corrupt
  | Deleting
  | Deleted

primrec blob_integrity_state_str :: "BlobIntegrityState \<Rightarrow> string" where
  "blob_integrity_state_str BlobIntegrityState.Staging = ''staging''"
| "blob_integrity_state_str BlobIntegrityState.Verified = ''verified''"
| "blob_integrity_state_str BlobIntegrityState.Corrupt = ''corrupt''"
| "blob_integrity_state_str BlobIntegrityState.Deleting = ''deleting''"
| "blob_integrity_state_str BlobIntegrityState.Deleted = ''deleted''"

definition all_blob_integrity_state :: "BlobIntegrityState list" where
  "all_blob_integrity_state =
    [BlobIntegrityState.Staging, BlobIntegrityState.Verified, BlobIntegrityState.Corrupt,
     BlobIntegrityState.Deleting, BlobIntegrityState.Deleted]"

interpretation blob_integrity_state_r: closed_registry all_blob_integrity_state blob_integrity_state_str
proof
  show "x \<in> set all_blob_integrity_state" for x
    by (cases x) (simp_all add: all_blob_integrity_state_def)
  show "distinct (map blob_integrity_state_str all_blob_integrity_state)"
    by code_simp
qed

end
