(* ===== verification/Artifacts.thy ===== *)
theory Artifacts
  imports Jobs Authority ArtifactKinds
begin

text \<open>
  Stored artifacts (\<open>platform-artifacts/src/lib.rs\<close>, with the verification evidence of \<open>work.rs\<close> that the
  metadata carries): the records, the frozen snapshots with their canonical digests, the commands with their
  checks, and the pure decision each repository transaction takes between loading the rows and writing them.
\<close>

section \<open>Parameters and helpers\<close>

text \<open>chrono's serialization of an instant.\<close>

record 'n artifact_env = "'n platform_env" +
  ax_timestamp :: "instant \<Rightarrow> string"

text \<open>\<open>DurationPanic\<close> is not a value of the code: \<open>chrono::Duration::seconds\<close> panics on what does not fit a
  duration, and the panic has a value of its own here.\<close>

datatype ArtifactCommandError =
    InvalidLimits
  | InvalidAudit
  | InvalidIdentity
  | InvalidTimeOrSize
  | InvalidStorageBinding
  | InvalidMetadata
  | InvalidUploadCompletion
  | InvalidPersistedState
  | StaleVersion
  | InvalidTransition
  | GrantRejected
  | UploadEvidenceMismatch
  | InvalidVerification
  | VerificationEvidenceMismatch
  | InvalidReusableBlob
  | InvalidHold
  | InvalidProvenance
  | InvalidReference
  | InvalidDeletion
  | DeletionBlocked
  | DeletionEvidenceMismatch
  | InvalidFinalization
  | VersionOverflow
  | Canonicalization
  | DurationPanic

definition MAX_BACKEND_BYTES :: nat where "MAX_BACKEND_BYTES = 64"
definition MAX_KEY_ID_BYTES :: nat where "MAX_KEY_ID_BYTES = 255"
definition MAX_MEDIA_TYPE_BYTES :: nat where "MAX_MEDIA_TYPE_BYTES = 255"
definition MAX_DISPLAY_NAME_BYTES :: nat where "MAX_DISPLAY_NAME_BYTES = 255"
definition MAX_OBJECT_REFERENCE_BYTES :: nat where "MAX_OBJECT_REFERENCE_BYTES = 16384"
definition MAX_OBJECT_GENERATION_BYTES :: nat where "MAX_OBJECT_GENERATION_BYTES = 255"
definition MAX_ARTIFACT_RETRY_BACKOFF_MILLISECONDS :: u64 where "MAX_ARTIFACT_RETRY_BACKOFF_MILLISECONDS = 60000"
definition MAX_ARTIFACT_REASON_BYTES :: nat where "MAX_ARTIFACT_REASON_BYTES = 64"

text \<open>\<open>chrono::Duration::seconds\<close>, in nanoseconds: more than \<open>i64::MAX / 1000\<close> seconds panic.\<close>

definition duration_seconds :: "int \<Rightarrow> ArtifactCommandError + int" where
  "duration_seconds s = (if 9223372036854775 < \<bar>s\<bar> then Inl DurationPanic else Inr (s * 1000000000))"

definition json_instant :: "('n, 'z) artifact_env_scheme \<Rightarrow> instant \<Rightarrow> 'n Json" where
  "json_instant env t = String (ax_timestamp env t)"

definition artifact_digest :: "('n, 'z) platform_env_scheme \<Rightarrow> 'n Json \<Rightarrow> ArtifactCommandError + Sha256Digest" where
  "artifact_digest env v = document_digest env Canonicalization v"

definition next_version :: "u64 \<Rightarrow> ArtifactCommandError + u64" where
  "next_version version = ok_or VersionOverflow (checked_add version 1)"

definition is_producer_kind :: "ResourceKind \<Rightarrow> bool" where
  "is_producer_kind k \<longleftrightarrow>
     k \<in> {ResourceKind.CapabilityInvocation, ResourceKind.ModelTurn, ResourceKind.ContextQuery, ResourceKind.Job}"

definition is_code :: "string \<Rightarrow> nat \<Rightarrow> bool" where
  "is_code v maximum \<longleftrightarrow>
     v \<noteq> [] \<and> length v \<le> maximum
     \<and> list_all (\<lambda>c. is_ascii_lowercase c \<or> is_ascii_digit c \<or> c \<in> set ''._-'') v"

definition split_once :: "char \<Rightarrow> string \<Rightarrow> (string \<times> string) option" where
  "split_once sep v =
     (if sep \<in> set v then Some (takeWhile (\<lambda>c. c \<noteq> sep) v, tl (dropWhile (\<lambda>c. c \<noteq> sep) v)) else None)"

definition is_media_type :: "string \<Rightarrow> bool" where
  "is_media_type v \<longleftrightarrow>
     \<not> (v = [] \<or> MAX_MEDIA_TYPE_BYTES < length v \<or> \<not> list_all (\<lambda>c. byte_of c < 128) v)
     \<and> (case split_once CHR ''/'' v of
          None \<Rightarrow> False
        | Some (major, minor) \<Rightarrow>
            major \<noteq> [] \<and> minor \<noteq> [] \<and> CHR ''/'' \<notin> set minor
            \<and> list_all (\<lambda>c. is_ascii_lowercase c \<or> is_ascii_digit c \<or> c \<in> set ''!#$&^_.+-'') (major @ minor))"

text \<open>The scanner's evidence is held to its own, wider notion of a media type and of a code (\<open>work.rs\<close>).\<close>

definition valid_media_type :: "string \<Rightarrow> bool" where
  "valid_media_type v \<longleftrightarrow>
     v \<noteq> [] \<and> length v \<le> 255 \<and> list_all (\<lambda>c. byte_of c < 128) v
     \<and> \<not> list_ex (\<lambda>c. byte_of c < 32 \<or> byte_of c = 127 \<or> c = CHR '' '') v
     \<and> (case split_once CHR ''/'' v of
          None \<Rightarrow> False
        | Some (kind, subtype) \<Rightarrow> kind \<noteq> [] \<and> subtype \<noteq> [] \<and> CHR ''/'' \<notin> set subtype)"

definition valid_code :: "string \<Rightarrow> nat \<Rightarrow> bool" where
  "valid_code v maximum \<longleftrightarrow>
     v \<noteq> [] \<and> length v \<le> maximum
     \<and> list_all (\<lambda>c. is_ascii_lowercase c \<or> is_ascii_digit c \<or> c \<in> set ''_.:-'') v"

definition valid_object_generation :: "string \<Rightarrow> bool" where
  "valid_object_generation v \<longleftrightarrow> v \<noteq> [] \<and> length v \<le> 255 \<and> \<not> has_control v"

definition bad_generation :: "string \<Rightarrow> bool" where
  "bad_generation v \<longleftrightarrow> v = [] \<or> MAX_OBJECT_GENERATION_BYTES < length v \<or> has_control v"

section \<open>Audited commands\<close>

datatype CommandContractError = InvalidAudit | InvalidMutationIds

record CommandAudit =
  ca_trace :: TraceIdentityV1
  ca_tenant_id :: ResourceId
  ca_principal_id :: ResourceId
  ca_principal_kind :: PrincipalKind
  ca_receipt_id :: ResourceId
  ca_event_id :: ResourceId
  ca_outbox_id :: ResourceId
  ca_idempotency_key_digest :: Sha256Digest
  ca_request_digest :: Sha256Digest
  ca_receipt_expires_at :: instant

definition audit_validate_shape :: "CommandAudit \<Rightarrow> CommandContractError + unit" where
  "audit_validate_shape a =
     (let kinds = [(ca_tenant_id a, ResourceKind.Tenant), (ca_principal_id a, ResourceKind.Principal),
            (ca_receipt_id a, ResourceKind.Receipt), (ca_event_id a, ResourceKind.Event),
            (ca_outbox_id a, ResourceKind.OutboxEvent)]
      in fail_if
        (\<not> is_ok (trace_identity_validate (ca_trace a))
         \<or> list_ex (\<lambda>(i, expected). rid_kind i \<noteq> expected) kinds
         \<or> ca_principal_kind a = PrincipalKind.InstallationOperator)
        CommandContractError.InvalidAudit)"

definition audit_validate_at :: "CommandAudit \<Rightarrow> instant \<Rightarrow> CommandContractError + unit" where
  "audit_validate_at a now =
     rbind (audit_validate_shape a) (\<lambda>_. fail_if (ca_receipt_expires_at a \<le> now) CommandContractError.InvalidAudit)"

record ArtifactCommandLimits =
  al_maximum_single_bytes :: u64
  al_maximum_staging_seconds :: int
  al_maximum_job_attempts :: u32
  al_maximum_links_per_artifact :: u64
  al_maximum_provenance_depth :: u64

section \<open>Verification evidence and metadata\<close>

datatype (plugins only: code) ArtifactScanKind = Initial | Rescan

datatype (plugins only: code) ArtifactScanDisposition = Verified | Quarantined | Rejected | Corrupt

primrec scan_kind_str :: "ArtifactScanKind \<Rightarrow> string" where
  "scan_kind_str ArtifactScanKind.Initial = ''initial''"
| "scan_kind_str ArtifactScanKind.Rescan = ''rescan''"

primrec scan_disposition_str :: "ArtifactScanDisposition \<Rightarrow> string" where
  "scan_disposition_str ArtifactScanDisposition.Verified = ''verified''"
| "scan_disposition_str ArtifactScanDisposition.Quarantined = ''quarantined''"
| "scan_disposition_str ArtifactScanDisposition.Rejected = ''rejected''"
| "scan_disposition_str ArtifactScanDisposition.Corrupt = ''corrupt''"

record ArtifactCurrentVerification =
  cv_schema_version :: u32
  cv_scan_kind :: ArtifactScanKind
  cv_scan_job_id :: ResourceId
  cv_scan_policy_revision :: ExactVersionRef
  cv_scanner_contract_digest :: Sha256Digest
  cv_ruleset_digest :: Sha256Digest
  cv_object_generation :: string
  cv_content_digest :: Sha256Digest
  cv_size_bytes :: u64
  cv_verified_media_type :: string
  cv_disposition :: ArtifactScanDisposition
  cv_reason_class :: "string option"
  cv_evidence_digest :: Sha256Digest
  cv_observed_at :: instant
  cv_expires_at :: instant

definition current_verification_validate :: "ArtifactCurrentVerification \<Rightarrow> ArtifactCommandError + unit" where
  "current_verification_validate v =
     (let reason_valid =
        (case cv_disposition v of
           ArtifactScanDisposition.Verified \<Rightarrow> cv_reason_class v = None
         | _ \<Rightarrow> some_and (cv_reason_class v) (\<lambda>reason. valid_code reason MAX_ARTIFACT_REASON_BYTES))
      in fail_if
        (cv_schema_version v \<noteq> 1
         \<or> rid_kind (cv_scan_job_id v) \<noteq> ResourceKind.Job
         \<or> xv_resource_kind (cv_scan_policy_revision v) \<noteq> ResourceKind.PolicyRevision
         \<or> \<not> is_ok (version_ref_validate (cv_scan_policy_revision v))
         \<or> \<not> valid_object_generation (cv_object_generation v)
         \<or> \<not> valid_media_type (cv_verified_media_type v)
         \<or> cv_expires_at v \<le> cv_observed_at v
         \<or> \<not> reason_valid)
        InvalidVerification)"

datatype ArtifactOrigin = Upload (origin_operation_id: ResourceId) | Installation (origin_request_id: ResourceId)

record ArtifactMetadataSnapshot =
  md_schema_version :: u32
  md_display_name :: "string option"
  md_origin :: ArtifactOrigin
  md_current_verification :: "ArtifactCurrentVerification option"

definition metadata_validate :: "ArtifactMetadataSnapshot \<Rightarrow> ArtifactCommandError + unit" where
  "metadata_validate m =
     (let identity_valid =
        (case md_origin m of
           Upload operation_id \<Rightarrow> rid_kind operation_id = ResourceKind.Job
         | Installation request_id \<Rightarrow>
             rid_kind request_id = ResourceKind.ServerRequest \<and> md_current_verification m = None)
      in fail_if
        (md_schema_version m \<noteq> 2
         \<or> \<not> identity_valid
         \<or> some_and (md_display_name m) (\<lambda>v.
             v = [] \<or> MAX_DISPLAY_NAME_BYTES < length v \<or> v = ''.'' \<or> v = ''..''
             \<or> has_control v \<or> CHR ''/'' \<in> set v \<or> CHR 0x5C \<in> set v)
         \<or> some_and (md_current_verification m) (\<lambda>evidence. \<not> is_ok (current_verification_validate evidence)))
        InvalidMetadata)"

definition metadata_new :: "string option \<Rightarrow> ArtifactOrigin \<Rightarrow> ArtifactCommandError + ArtifactMetadataSnapshot" where
  "metadata_new display_name origin =
     (let metadata = \<lparr>md_schema_version = 2, md_display_name = display_name, md_origin = origin,
            md_current_verification = None\<rparr>
      in rbind (metadata_validate metadata) (\<lambda>_. Inr metadata))"

definition metadata_new_upload :: "string option \<Rightarrow> ResourceId \<Rightarrow> ArtifactCommandError + ArtifactMetadataSnapshot" where
  "metadata_new_upload display_name operation_id = metadata_new display_name (Upload operation_id)"

definition metadata_new_installation ::
  "string option \<Rightarrow> ResourceId \<Rightarrow> ArtifactCommandError + ArtifactMetadataSnapshot" where
  "metadata_new_installation display_name request_id = metadata_new display_name (Installation request_id)"

definition upload_operation_id :: "ArtifactMetadataSnapshot \<Rightarrow> ArtifactCommandError + ResourceId" where
  "upload_operation_id m =
     rbind (metadata_validate m) (\<lambda>_.
     case md_origin m of
       Upload operation_id \<Rightarrow> Inr operation_id
     | Installation _ \<Rightarrow> Inl InvalidIdentity)"

definition with_current_verification ::
  "ArtifactMetadataSnapshot \<Rightarrow> ArtifactCurrentVerification \<Rightarrow> ArtifactCommandError + ArtifactMetadataSnapshot" where
  "with_current_verification m evidence =
     rbind (upload_operation_id m) (\<lambda>_.
     rbind (current_verification_validate evidence) (\<lambda>_.
     let next = m\<lparr>md_current_verification := Some evidence\<rparr>
     in rbind (metadata_validate next) (\<lambda>_. Inr next)))"

definition version_ref_json :: "('n, 'z) platform_env_scheme \<Rightarrow> ExactVersionRef \<Rightarrow> 'n Json" where
  "version_ref_json env r = json_object
     [(''revision_id'', json_id env (xv_revision_id r)),
      (''resource_kind'', String (rkd_name (kind_descriptor (xv_resource_kind r)))),
      (''semantic_digest'', String (xv_semantic_digest r))]"

definition origin_json :: "('n, 'z) platform_env_scheme \<Rightarrow> ArtifactOrigin \<Rightarrow> 'n Json" where
  "origin_json env v =
     (case v of
        Upload operation_id \<Rightarrow>
          json_object [(''kind'', String ''upload''), (''operation_id'', json_id env operation_id)]
      | Installation request_id \<Rightarrow>
          json_object [(''kind'', String ''installation''), (''request_id'', json_id env request_id)])"

definition current_verification_json ::
  "('n, 'z) artifact_env_scheme \<Rightarrow> ArtifactCurrentVerification \<Rightarrow> 'n Json" where
  "current_verification_json env v = json_object
     [(''schema_version'', json_u32 env (cv_schema_version v)),
      (''scan_kind'', String (scan_kind_str (cv_scan_kind v))),
      (''scan_job_id'', json_id env (cv_scan_job_id v)),
      (''scan_policy_revision'', version_ref_json env (cv_scan_policy_revision v)),
      (''scanner_contract_digest'', String (cv_scanner_contract_digest v)),
      (''ruleset_digest'', String (cv_ruleset_digest v)),
      (''object_generation'', String (cv_object_generation v)),
      (''content_digest'', String (cv_content_digest v)),
      (''size_bytes'', json_number env (cv_size_bytes v)),
      (''verified_media_type'', String (cv_verified_media_type v)),
      (''disposition'', String (scan_disposition_str (cv_disposition v))),
      (''reason_class'', json_option String (cv_reason_class v)),
      (''evidence_digest'', String (cv_evidence_digest v)),
      (''observed_at'', json_instant env (cv_observed_at v)),
      (''expires_at'', json_instant env (cv_expires_at v))]"

definition metadata_digest ::
  "('n, 'z) artifact_env_scheme \<Rightarrow> ArtifactMetadataSnapshot \<Rightarrow> ArtifactCommandError + Sha256Digest" where
  "metadata_digest env m =
     rbind (metadata_validate m) (\<lambda>_.
     artifact_digest env (json_object
       [(''schema_version'', json_u32 env (md_schema_version m)),
        (''display_name'', json_option String (md_display_name m)),
        (''origin'', origin_json env (md_origin m)),
        (''current_verification'', json_option (current_verification_json env) (md_current_verification m))]))"

section \<open>Frozen snapshots\<close>

record ArtifactBlobSecurityDomain =
  sd_schema_version :: u32
  sd_classification :: DataClassification
  sd_retention_policy_revision_id :: ResourceId
  sd_encryption_domain_id :: ResourceId

definition security_domain_digest ::
  "('n, 'z) platform_env_scheme \<Rightarrow> ArtifactBlobSecurityDomain \<Rightarrow> ArtifactCommandError + Sha256Digest" where
  "security_domain_digest env d =
     (if sd_schema_version d \<noteq> 1
         \<or> rid_kind (sd_retention_policy_revision_id d) \<noteq> ResourceKind.PolicyRevision
         \<or> rid_kind (sd_encryption_domain_id d) \<noteq> ResourceKind.EncryptionDomain
      then Inl InvalidStorageBinding
      else artifact_digest env (json_object
        [(''schema_version'', json_u32 env (sd_schema_version d)),
         (''classification'', String (data_classification_str (sd_classification d))),
         (''retention_policy_revision_id'', json_id env (sd_retention_policy_revision_id d)),
         (''encryption_domain_id'', json_id env (sd_encryption_domain_id d))]))"

record ArtifactUploadOperationSnapshot =
  uo_schema_version :: u32
  uo_artifact_id :: ResourceId
  uo_purpose :: ArtifactPurpose
  uo_expected_size_bytes :: u64
  uo_expected_digest :: "Sha256Digest option"
  uo_retention_policy_revision_id :: ResourceId
  uo_scan_policy_revision :: ExactVersionRef
  uo_scanner_contract_digest :: Sha256Digest
  uo_ruleset_digest :: Sha256Digest
  uo_evidence_ttl_milliseconds :: u64
  uo_retry_backoff_milliseconds :: u64

definition upload_operation_digest ::
  "('n, 'z) platform_env_scheme \<Rightarrow> ArtifactUploadOperationSnapshot \<Rightarrow> ArtifactCommandError + Sha256Digest" where
  "upload_operation_digest env s =
     (if uo_schema_version s \<noteq> 1
         \<or> rid_kind (uo_artifact_id s) \<noteq> ResourceKind.Artifact
         \<or> rid_kind (uo_retention_policy_revision_id s) \<noteq> ResourceKind.PolicyRevision
         \<or> xv_resource_kind (uo_scan_policy_revision s) \<noteq> ResourceKind.PolicyRevision
         \<or> \<not> is_ok (version_ref_validate (uo_scan_policy_revision s))
         \<or> uo_expected_size_bytes s = 0
         \<or> uo_evidence_ttl_milliseconds s = 0
         \<or> 86400000 < uo_evidence_ttl_milliseconds s
         \<or> uo_retry_backoff_milliseconds s = 0
         \<or> MAX_ARTIFACT_RETRY_BACKOFF_MILLISECONDS < uo_retry_backoff_milliseconds s
      then Inl InvalidVerification
      else artifact_digest env (json_object
        [(''schema_version'', json_u32 env (uo_schema_version s)),
         (''artifact_id'', json_id env (uo_artifact_id s)),
         (''purpose'', String (artifact_purpose_str (uo_purpose s))),
         (''expected_size_bytes'', json_number env (uo_expected_size_bytes s)),
         (''expected_digest'', json_option String (uo_expected_digest s)),
         (''retention_policy_revision_id'', json_id env (uo_retention_policy_revision_id s)),
         (''scan_policy_revision'', version_ref_json env (uo_scan_policy_revision s)),
         (''scanner_contract_digest'', String (uo_scanner_contract_digest s)),
         (''ruleset_digest'', String (uo_ruleset_digest s)),
         (''evidence_ttl_milliseconds'', json_number env (uo_evidence_ttl_milliseconds s)),
         (''retry_backoff_milliseconds'', json_number env (uo_retry_backoff_milliseconds s))]))"

record UploadGrantSnapshot =
  ug_schema_version :: u32
  ug_artifact_id :: ResourceId
  ug_operation_id :: ResourceId
  ug_subject_principal_id :: ResourceId
  ug_subject_principal_kind :: PrincipalKind
  ug_operations :: "ArtifactGrantOperation list"
  ug_audience :: ArtifactWorkloadAudience
  ug_purpose :: ArtifactPurpose
  ug_max_bytes :: u64
  ug_token_digest :: Sha256Digest
  ug_expires_at :: instant
  ug_generation :: u64

text \<open>The fields that the digest of the snapshot and the digest of the link's key share.\<close>

definition grant_identity :: "('n, 'z) platform_env_scheme \<Rightarrow> UploadGrantSnapshot \<Rightarrow> (string \<times> 'n Json) list" where
  "grant_identity env s =
     [(''artifact_id'', json_id env (ug_artifact_id s)),
      (''operation_id'', json_id env (ug_operation_id s)),
      (''subject_principal_id'', json_id env (ug_subject_principal_id s)),
      (''subject_principal_kind'', String (principal_kind_str (ug_subject_principal_kind s))),
      (''operations'', Array (map (\<lambda>x. String (artifact_grant_operation_str x)) (ug_operations s))),
      (''audience'', String (artifact_workload_audience_str (ug_audience s))),
      (''purpose'', String (artifact_purpose_str (ug_purpose s))),
      (''generation'', json_number env (ug_generation s))]"

definition grant_digest ::
  "('n, 'z) artifact_env_scheme \<Rightarrow> UploadGrantSnapshot \<Rightarrow> ArtifactCommandError + Sha256Digest" where
  "grant_digest env s =
     (if ug_schema_version s \<noteq> 1
         \<or> rid_kind (ug_artifact_id s) \<noteq> ResourceKind.Artifact
         \<or> rid_kind (ug_operation_id s) \<noteq> ResourceKind.Job
         \<or> rid_kind (ug_subject_principal_id s) \<noteq> ResourceKind.Principal
         \<or> ug_subject_principal_kind s = PrincipalKind.InstallationOperator
      then Inl InvalidIdentity
      else artifact_digest env (json_object (grant_identity env s @
        [(''schema_version'', json_u32 env (ug_schema_version s)),
         (''max_bytes'', json_number env (ug_max_bytes s)),
         (''token_digest'', String (ug_token_digest s)),
         (''expires_at'', json_instant env (ug_expires_at s))])))"

definition grant_link_key_digest ::
  "('n, 'z) platform_env_scheme \<Rightarrow> UploadGrantSnapshot \<Rightarrow> ArtifactCommandError + Sha256Digest" where
  "grant_link_key_digest env s =
     artifact_digest env (json_object (grant_identity env s @ [(''schema_version'', json_number env 1)]))"

section \<open>Records\<close>

record ArtifactRecord =
  at_tenant_id :: ResourceId
  at_artifact_id :: ResourceId
  at_blob_id :: "ResourceId option"
  at_purpose :: ArtifactPurpose
  at_classification :: DataClassification
  at_expected_size_bytes :: u64
  at_expected_digest :: "Sha256Digest option"
  at_declared_media_type :: "string option"
  at_verified_media_type :: "string option"
  at_state :: ArtifactState
  at_version :: u64
  at_metadata :: ArtifactMetadataSnapshot
  at_retention_policy_revision_id :: ResourceId
  at_retain_until :: instant
  at_created_by :: ResourceId
  at_created_at :: instant
  at_updated_at :: instant
  at_terminal_at :: "instant option"

record ArtifactBlobRecord =
  ab_tenant_id :: ResourceId
  ab_blob_id :: ResourceId
  ab_backend :: string
  ab_storage_binding_digest :: Sha256Digest
  ab_security_domain_digest :: Sha256Digest
  ab_object_generation :: "string option"
  ab_encryption_domain_id :: ResourceId
  ab_content_digest :: "Sha256Digest option"
  ab_size_bytes :: "u64 option"
  ab_state :: BlobIntegrityState
  ab_version :: u64

datatype (plugins only: code) ArtifactLinkState = Active | Consumed | Released | Revoked | Expired

primrec link_state_str :: "ArtifactLinkState \<Rightarrow> string" where
  "link_state_str ArtifactLinkState.Active = ''active''"
| "link_state_str ArtifactLinkState.Consumed = ''consumed''"
| "link_state_str ArtifactLinkState.Released = ''released''"
| "link_state_str ArtifactLinkState.Revoked = ''revoked''"
| "link_state_str ArtifactLinkState.Expired = ''expired''"

definition all_link_state :: "ArtifactLinkState list" where
  "all_link_state = [ArtifactLinkState.Active, ArtifactLinkState.Consumed, ArtifactLinkState.Released,
     ArtifactLinkState.Revoked, ArtifactLinkState.Expired]"

definition link_state_from_str :: "string \<Rightarrow> ArtifactCommandError + ArtifactLinkState" where
  "link_state_from_str v = ok_or InvalidPersistedState (List.find (\<lambda>s. link_state_str s = v) all_link_state)"

interpretation link_state_r: closed_registry all_link_state link_state_str
proof
  show "x \<in> set all_link_state" for x
    by (cases x) (simp_all add: all_link_state_def)
  show "distinct (map link_state_str all_link_state)"
    by code_simp
qed

record ArtifactGrantRecord =
  ag_tenant_id :: ResourceId
  ag_upload_grant_id :: ResourceId
  ag_artifact_id :: ResourceId
  ag_state :: ArtifactLinkState
  ag_version :: u64
  ag_snapshot :: UploadGrantSnapshot
  ag_link_key_digest :: Sha256Digest
  ag_created_at :: instant

record ArtifactOperationRecord =
  ao_tenant_id :: ResourceId
  ao_operation_id :: ResourceId
  ao_state :: JobState
  ao_version :: u64
  ao_snapshot :: ArtifactUploadOperationSnapshot
  ao_deadline :: instant
  ao_created_at :: instant

section \<open>Preparing an upload\<close>

record PrepareArtifact =
  pa_audit :: CommandAudit
  pa_operation_id :: ResourceId
  pa_artifact_id :: ResourceId
  pa_blob_id :: ResourceId
  pa_upload_grant_id :: ResourceId
  pa_quota_account_id :: ResourceId
  pa_quota_entry_id :: ResourceId
  pa_purpose :: ArtifactPurpose
  pa_classification :: DataClassification
  pa_expected_size_bytes :: u64
  pa_expected_digest :: "Sha256Digest option"
  pa_declared_media_type :: "string option"
  pa_retention_policy_revision_id :: ResourceId
  pa_scan_policy_revision :: ExactVersionRef
  pa_scanner_contract_digest :: Sha256Digest
  pa_ruleset_digest :: Sha256Digest
  pa_evidence_ttl_milliseconds :: u64
  pa_retry_backoff_milliseconds :: u64
  pa_retain_until :: instant
  pa_operation_deadline :: instant
  pa_grant_expires_at :: instant
  pa_grant_token_digest :: Sha256Digest
  pa_storage_backend :: string
  pa_storage_binding_digest :: Sha256Digest
  pa_object_reference_ciphertext :: "u8 list"
  pa_key_id :: string
  pa_encryption_domain_id :: ResourceId
  pa_display_name :: "string option"

definition metadata_snapshot :: "PrepareArtifact \<Rightarrow> ArtifactCommandError + ArtifactMetadataSnapshot" where
  "metadata_snapshot c = metadata_new_upload (pa_display_name c) (pa_operation_id c)"

definition operation_snapshot :: "PrepareArtifact \<Rightarrow> ArtifactUploadOperationSnapshot" where
  "operation_snapshot c =
     \<lparr>uo_schema_version = 1, uo_artifact_id = pa_artifact_id c, uo_purpose = pa_purpose c,
      uo_expected_size_bytes = pa_expected_size_bytes c, uo_expected_digest = pa_expected_digest c,
      uo_retention_policy_revision_id = pa_retention_policy_revision_id c,
      uo_scan_policy_revision = pa_scan_policy_revision c,
      uo_scanner_contract_digest = pa_scanner_contract_digest c, uo_ruleset_digest = pa_ruleset_digest c,
      uo_evidence_ttl_milliseconds = pa_evidence_ttl_milliseconds c,
      uo_retry_backoff_milliseconds = pa_retry_backoff_milliseconds c\<rparr>"

definition upload_grant_snapshot ::
  "('n, 'z) artifact_env_scheme \<Rightarrow> PrepareArtifact \<Rightarrow> ArtifactCommandError + UploadGrantSnapshot" where
  "upload_grant_snapshot env c =
     (let snapshot = \<lparr>ug_schema_version = 1, ug_artifact_id = pa_artifact_id c,
            ug_operation_id = pa_operation_id c, ug_subject_principal_id = ca_principal_id (pa_audit c),
            ug_subject_principal_kind = ca_principal_kind (pa_audit c),
            ug_operations = [ArtifactGrantOperation.WriteStaging, ArtifactGrantOperation.CommitStaging],
            ug_audience = ArtifactWorkloadAudience.Principal, ug_purpose = pa_purpose c,
            ug_max_bytes = pa_expected_size_bytes c, ug_token_digest = pa_grant_token_digest c,
            ug_expires_at = pa_grant_expires_at c, ug_generation = 1\<rparr>
      in rbind (grant_digest env snapshot) (\<lambda>_.
         rbind (grant_link_key_digest env snapshot) (\<lambda>_. Inr snapshot)))"

definition blob_security_domain :: "PrepareArtifact \<Rightarrow> ArtifactBlobSecurityDomain" where
  "blob_security_domain c =
     \<lparr>sd_schema_version = 1, sd_classification = pa_classification c,
      sd_retention_policy_revision_id = pa_retention_policy_revision_id c,
      sd_encryption_domain_id = pa_encryption_domain_id c\<rparr>"

definition prepare_validate_shape ::
  "('n, 'z) artifact_env_scheme \<Rightarrow> PrepareArtifact \<Rightarrow> ArtifactCommandLimits \<Rightarrow> ArtifactCommandError + unit" where
  "prepare_validate_shape env c limits =
     rbind (map_err ArtifactCommandError.InvalidAudit (audit_validate_shape (pa_audit c))) (\<lambda>_.
     let ids = [(pa_operation_id c, ResourceKind.Job), (pa_artifact_id c, ResourceKind.Artifact),
           (pa_blob_id c, ResourceKind.InternalBlob), (pa_upload_grant_id c, ResourceKind.ArtifactGrant),
           (pa_quota_account_id c, ResourceKind.QuotaAccount),
           (pa_quota_entry_id c, ResourceKind.QuotaLedgerEntry),
           (pa_retention_policy_revision_id c, ResourceKind.PolicyRevision),
           (pa_encryption_domain_id c, ResourceKind.EncryptionDomain)]
     in if list_ex (\<lambda>(actual, expected). rid_kind actual \<noteq> expected) ids then Inl InvalidIdentity
        else if al_maximum_single_bytes limits < pa_expected_size_bytes c
          \<or> pa_operation_deadline c < pa_grant_expires_at c
          \<or> pa_retain_until c < pa_operation_deadline c
        then Inl InvalidTimeOrSize
        else if \<not> is_code (pa_storage_backend c) MAX_BACKEND_BYTES
          \<or> pa_key_id c = []
          \<or> MAX_KEY_ID_BYTES < length (pa_key_id c)
          \<or> pa_object_reference_ciphertext c = []
          \<or> MAX_OBJECT_REFERENCE_BYTES < length (pa_object_reference_ciphertext c)
          \<or> some_and (pa_declared_media_type c) (\<lambda>v. \<not> is_media_type v)
        then Inl InvalidStorageBinding
        else
          rbind (metadata_snapshot c) (\<lambda>_.
          rbind (upload_operation_digest env (operation_snapshot c)) (\<lambda>_.
          rbind (upload_grant_snapshot env c) (\<lambda>_.
          rbind (security_domain_digest env (blob_security_domain c)) (\<lambda>_. Inr ())))))"

definition prepare_validate_at ::
  "('n, 'z) artifact_env_scheme \<Rightarrow> PrepareArtifact \<Rightarrow> instant \<Rightarrow> ArtifactCommandLimits \<Rightarrow>
   ArtifactCommandError + unit" where
  "prepare_validate_at env c now limits =
     rbind (prepare_validate_shape env c limits) (\<lambda>_.
     rbind (map_err ArtifactCommandError.InvalidAudit (audit_validate_at (pa_audit c) now)) (\<lambda>_.
     if pa_operation_deadline c \<le> now \<or> pa_grant_expires_at c \<le> now then Inl InvalidTimeOrSize
     else
       rbind (duration_seconds (al_maximum_staging_seconds limits)) (\<lambda>staging.
       fail_if (staging < pa_grant_expires_at c - now) InvalidTimeOrSize)))"

section \<open>Completing an upload\<close>

record CompleteArtifactUpload =
  cu_audit :: CommandAudit
  cu_operation_id :: ResourceId
  cu_artifact_id :: ResourceId
  cu_blob_id :: ResourceId
  cu_upload_grant_id :: ResourceId
  cu_expected_artifact_version :: u64
  cu_expected_blob_version :: u64
  cu_expected_operation_version :: u64
  cu_expected_grant_version :: u64
  cu_grant_generation :: u64
  cu_grant_token_digest :: Sha256Digest
  cu_object_generation :: string
  cu_observed_size_bytes :: u64
  cu_backend_evidence_digest :: Sha256Digest

definition upload_validate_shape ::
  "CompleteArtifactUpload \<Rightarrow> ArtifactCommandLimits \<Rightarrow> ArtifactCommandError + unit" where
  "upload_validate_shape c limits =
     rbind (map_err ArtifactCommandError.InvalidAudit (audit_validate_shape (cu_audit c))) (\<lambda>_.
     let ids = [(cu_operation_id c, ResourceKind.Job), (cu_artifact_id c, ResourceKind.Artifact),
           (cu_blob_id c, ResourceKind.InternalBlob), (cu_upload_grant_id c, ResourceKind.ArtifactGrant)]
     in fail_if
       (list_ex (\<lambda>(actual, expected). rid_kind actual \<noteq> expected) ids
        \<or> cu_expected_artifact_version c = 0
        \<or> cu_expected_blob_version c = 0
        \<or> cu_expected_operation_version c = 0
        \<or> cu_expected_grant_version c = 0
        \<or> cu_grant_generation c = 0
        \<or> al_maximum_single_bytes limits < cu_observed_size_bytes c
        \<or> bad_generation (cu_object_generation c))
       InvalidUploadCompletion)"

definition upload_validate_at ::
  "CompleteArtifactUpload \<Rightarrow> instant \<Rightarrow> ArtifactCommandLimits \<Rightarrow> ArtifactCommandError + unit" where
  "upload_validate_at c now limits =
     rbind (upload_validate_shape c limits) (\<lambda>_.
     map_err ArtifactCommandError.InvalidAudit (audit_validate_at (cu_audit c) now))"

record UploadCompletionDecision =
  ud_artifact_state :: ArtifactState
  ud_artifact_version :: u64
  ud_blob_version :: u64
  ud_grant_state :: ArtifactLinkState
  ud_grant_version :: u64
  ud_operation_state :: JobState
  ud_operation_version :: u64

definition decide_complete_upload ::
  "ArtifactRecord \<Rightarrow> ArtifactBlobRecord \<Rightarrow> ArtifactGrantRecord \<Rightarrow> ArtifactOperationRecord \<Rightarrow>
   CompleteArtifactUpload \<Rightarrow> instant \<Rightarrow> ArtifactCommandError + UploadCompletionDecision" where
  "decide_complete_upload artifact blob grant operation command now =
     rbind (upload_operation_id (at_metadata artifact)) (\<lambda>upload_operation.
     if upload_operation \<noteq> ao_operation_id operation then Inl InvalidIdentity
     else if at_tenant_id artifact \<noteq> ca_tenant_id (cu_audit command)
       \<or> ab_tenant_id blob \<noteq> ca_tenant_id (cu_audit command)
       \<or> ag_tenant_id grant \<noteq> ca_tenant_id (cu_audit command)
       \<or> ao_tenant_id operation \<noteq> ca_tenant_id (cu_audit command)
       \<or> at_artifact_id artifact \<noteq> cu_artifact_id command
       \<or> at_blob_id artifact \<noteq> Some (cu_blob_id command)
       \<or> ab_blob_id blob \<noteq> cu_blob_id command
       \<or> ag_upload_grant_id grant \<noteq> cu_upload_grant_id command
       \<or> ag_artifact_id grant \<noteq> cu_artifact_id command
       \<or> ao_operation_id operation \<noteq> cu_operation_id command
       \<or> uo_artifact_id (ao_snapshot operation) \<noteq> cu_artifact_id command
     then Inl InvalidIdentity
     else if at_version artifact \<noteq> cu_expected_artifact_version command
       \<or> ab_version blob \<noteq> cu_expected_blob_version command
       \<or> ag_version grant \<noteq> cu_expected_grant_version command
       \<or> ao_version operation \<noteq> cu_expected_operation_version command
     then Inl StaleVersion
     else if at_state artifact \<noteq> ArtifactState.Staging
       \<or> ab_state blob \<noteq> BlobIntegrityState.Staging
       \<or> ag_state grant \<noteq> ArtifactLinkState.Active
       \<or> ao_state operation \<noteq> JobState.Waiting
       \<or> \<not> artifact_state_can_transition_to (at_state artifact) ArtifactState.Uploaded
     then Inl ArtifactCommandError.InvalidTransition
     else if ug_artifact_id (ag_snapshot grant) \<noteq> cu_artifact_id command
       \<or> ug_operation_id (ag_snapshot grant) \<noteq> cu_operation_id command
       \<or> ug_subject_principal_id (ag_snapshot grant) \<noteq> ca_principal_id (cu_audit command)
       \<or> ug_generation (ag_snapshot grant) \<noteq> cu_grant_generation command
       \<or> ug_token_digest (ag_snapshot grant) \<noteq> cu_grant_token_digest command
       \<or> ug_expires_at (ag_snapshot grant) \<le> now
       \<or> ArtifactGrantOperation.CommitStaging \<notin> set (ug_operations (ag_snapshot grant))
     then Inl GrantRejected
     else if cu_observed_size_bytes command \<noteq> at_expected_size_bytes artifact
       \<or> ug_max_bytes (ag_snapshot grant) < cu_observed_size_bytes command
     then Inl UploadEvidenceMismatch
     else
       rbind (next_version (at_version artifact)) (\<lambda>artifact_version.
       rbind (next_version (ab_version blob)) (\<lambda>blob_version.
       rbind (next_version (ag_version grant)) (\<lambda>grant_version.
       rbind (next_version (ao_version operation)) (\<lambda>operation_version.
       Inr \<lparr>ud_artifact_state = ArtifactState.Uploaded, ud_artifact_version = artifact_version,
            ud_blob_version = blob_version, ud_grant_state = ArtifactLinkState.Consumed,
            ud_grant_version = grant_version, ud_operation_state = JobState.Waiting,
            ud_operation_version = operation_version\<rparr>)))))"

end
