(* ===== verification/ArtifactLifecycle.thy ===== *)
theory ArtifactLifecycle
  imports Artifacts
begin

text \<open>
  What happens to an artifact once its bytes are verified (\<open>platform-artifacts/src/lib.rs\<close>): it is finalized
  and referred to, held, derived from, and in the end deleted, either alone or with the generation of its blob.
\<close>

section \<open>Discarded blobs\<close>

record ArtifactBlobCleanupSnapshot =
  bc_schema_version :: u32
  bc_artifact_id :: ResourceId
  bc_discarded_blob_id :: ResourceId
  bc_replacement_blob_id :: ResourceId
  bc_object_generation :: string
  bc_verification_evidence_digest :: Sha256Digest
  bc_expected_blob_version :: u64
  bc_retry_backoff_milliseconds :: u64

definition blob_cleanup_digest ::
  "('n, 'z) platform_env_scheme \<Rightarrow> ArtifactBlobCleanupSnapshot \<Rightarrow> ArtifactCommandError + Sha256Digest" where
  "blob_cleanup_digest env s =
     (if bc_schema_version s \<noteq> 1
         \<or> rid_kind (bc_artifact_id s) \<noteq> ResourceKind.Artifact
         \<or> rid_kind (bc_discarded_blob_id s) \<noteq> ResourceKind.InternalBlob
         \<or> rid_kind (bc_replacement_blob_id s) \<noteq> ResourceKind.InternalBlob
         \<or> bc_discarded_blob_id s = bc_replacement_blob_id s
         \<or> bad_generation (bc_object_generation s)
         \<or> bc_expected_blob_version s = 0
         \<or> bc_retry_backoff_milliseconds s = 0
         \<or> MAX_ARTIFACT_RETRY_BACKOFF_MILLISECONDS < bc_retry_backoff_milliseconds s
      then Inl InvalidVerification
      else artifact_digest env (json_object
        [(''schema_version'', json_u32 env (bc_schema_version s)),
         (''artifact_id'', json_id env (bc_artifact_id s)),
         (''discarded_blob_id'', json_id env (bc_discarded_blob_id s)),
         (''replacement_blob_id'', json_id env (bc_replacement_blob_id s)),
         (''object_generation'', String (bc_object_generation s)),
         (''verification_evidence_digest'', String (bc_verification_evidence_digest s)),
         (''expected_blob_version'', json_number env (bc_expected_blob_version s)),
         (''retry_backoff_milliseconds'', json_number env (bc_retry_backoff_milliseconds s))]))"

section \<open>Holds\<close>

datatype (plugins only: code) ArtifactHoldKind = Legal | Incident

primrec hold_kind_str :: "ArtifactHoldKind \<Rightarrow> string" where
  "hold_kind_str ArtifactHoldKind.Legal = ''legal''"
| "hold_kind_str ArtifactHoldKind.Incident = ''incident''"

record ArtifactHoldSnapshot =
  hs_schema_version :: u32
  hs_artifact_id :: ResourceId
  hs_hold_kind :: ArtifactHoldKind
  hs_authority_principal_id :: ResourceId
  hs_reason_class :: string
  hs_evidence_digest :: Sha256Digest
  hs_placed_at :: instant

definition hold_identity :: "('n, 'z) platform_env_scheme \<Rightarrow> ArtifactHoldSnapshot \<Rightarrow> (string \<times> 'n Json) list" where
  "hold_identity env s =
     [(''artifact_id'', json_id env (hs_artifact_id s)),
      (''authority_principal_id'', json_id env (hs_authority_principal_id s)),
      (''hold_kind'', String (hold_kind_str (hs_hold_kind s))),
      (''schema_version'', json_u32 env (hs_schema_version s))]"

definition hold_digest ::
  "('n, 'z) artifact_env_scheme \<Rightarrow> ArtifactHoldSnapshot \<Rightarrow> ArtifactCommandError + Sha256Digest" where
  "hold_digest env s =
     (if hs_schema_version s \<noteq> 1
         \<or> rid_kind (hs_artifact_id s) \<noteq> ResourceKind.Artifact
         \<or> rid_kind (hs_authority_principal_id s) \<noteq> ResourceKind.Principal
         \<or> \<not> is_code (hs_reason_class s) 64
      then Inl InvalidHold
      else artifact_digest env (json_object (hold_identity env s @
        [(''reason_class'', String (hs_reason_class s)),
         (''evidence_digest'', String (hs_evidence_digest s)),
         (''placed_at'', json_instant env (hs_placed_at s))])))"

definition hold_link_key_digest ::
  "('n, 'z) platform_env_scheme \<Rightarrow> ArtifactHoldSnapshot \<Rightarrow> ArtifactCommandError + Sha256Digest" where
  "hold_link_key_digest env s = artifact_digest env (json_object (hold_identity env s))"

record ArtifactHoldRecord =
  ah_tenant_id :: ResourceId
  ah_artifact_hold_id :: ResourceId
  ah_artifact_id :: ResourceId
  ah_state :: ArtifactLinkState
  ah_version :: u64
  ah_snapshot :: ArtifactHoldSnapshot
  ah_link_key_digest :: Sha256Digest
  ah_created_at :: instant
  ah_released_at :: "instant option"

record PlaceArtifactHold =
  ph_audit :: CommandAudit
  ph_artifact_hold_id :: ResourceId
  ph_artifact_id :: ResourceId
  ph_expected_artifact_version :: u64
  ph_hold_kind :: ArtifactHoldKind
  ph_reason_class :: string
  ph_evidence_digest :: Sha256Digest
  ph_expires_at :: "instant option"

definition place_hold_validate_at :: "PlaceArtifactHold \<Rightarrow> instant \<Rightarrow> ArtifactCommandError + unit" where
  "place_hold_validate_at c now =
     rbind (map_err ArtifactCommandError.InvalidAudit (audit_validate_at (ph_audit c) now)) (\<lambda>_.
     fail_if
       (rid_kind (ph_artifact_hold_id c) \<noteq> ResourceKind.ArtifactLink
        \<or> rid_kind (ph_artifact_id c) \<noteq> ResourceKind.Artifact
        \<or> ph_expected_artifact_version c = 0
        \<or> \<not> is_code (ph_reason_class c) 64
        \<or> some_and (ph_expires_at c) (\<lambda>expires_at. expires_at \<le> now))
       InvalidHold)"

definition place_hold_snapshot :: "PlaceArtifactHold \<Rightarrow> instant \<Rightarrow> ArtifactHoldSnapshot" where
  "place_hold_snapshot c placed_at =
     \<lparr>hs_schema_version = 1, hs_artifact_id = ph_artifact_id c, hs_hold_kind = ph_hold_kind c,
      hs_authority_principal_id = ca_principal_id (ph_audit c), hs_reason_class = ph_reason_class c,
      hs_evidence_digest = ph_evidence_digest c, hs_placed_at = placed_at\<rparr>"

definition decide_place_artifact_hold ::
  "('n, 'z) artifact_env_scheme \<Rightarrow> ArtifactRecord \<Rightarrow> PlaceArtifactHold \<Rightarrow> instant \<Rightarrow>
   ArtifactCommandError + ArtifactHoldSnapshot" where
  "decide_place_artifact_hold env artifact command database_now =
     (if at_tenant_id artifact \<noteq> ca_tenant_id (ph_audit command)
         \<or> at_artifact_id artifact \<noteq> ph_artifact_id command
         \<or> at_version artifact \<noteq> ph_expected_artifact_version command
      then Inl StaleVersion
      else if at_state artifact \<in> {ArtifactState.Deleting, ArtifactState.Deleted}
      then Inl ArtifactCommandError.InvalidTransition
      else
        let snapshot = place_hold_snapshot command database_now
        in rbind (hold_digest env snapshot) (\<lambda>_.
           rbind (hold_link_key_digest env snapshot) (\<lambda>_. Inr snapshot)))"

record ReleaseArtifactHold =
  rh_audit :: CommandAudit
  rh_artifact_hold_id :: ResourceId
  rh_artifact_id :: ResourceId
  rh_expected_hold_version :: u64
  rh_reason_class :: string
  rh_evidence_digest :: Sha256Digest

definition release_hold_validate_at :: "ReleaseArtifactHold \<Rightarrow> instant \<Rightarrow> ArtifactCommandError + unit" where
  "release_hold_validate_at c now =
     rbind (map_err ArtifactCommandError.InvalidAudit (audit_validate_at (rh_audit c) now)) (\<lambda>_.
     fail_if
       (rid_kind (rh_artifact_hold_id c) \<noteq> ResourceKind.ArtifactLink
        \<or> rid_kind (rh_artifact_id c) \<noteq> ResourceKind.Artifact
        \<or> rh_expected_hold_version c = 0
        \<or> \<not> is_code (rh_reason_class c) 64)
       InvalidHold)"

definition decide_release_artifact_hold ::
  "ArtifactHoldRecord \<Rightarrow> ReleaseArtifactHold \<Rightarrow> ArtifactCommandError + ArtifactLinkState \<times> u64" where
  "decide_release_artifact_hold hold command =
     (if ah_tenant_id hold \<noteq> ca_tenant_id (rh_audit command)
         \<or> ah_artifact_hold_id hold \<noteq> rh_artifact_hold_id command
         \<or> ah_artifact_id hold \<noteq> rh_artifact_id command
      then Inl InvalidIdentity
      else if ah_version hold \<noteq> rh_expected_hold_version command then Inl StaleVersion
      else if ah_state hold \<noteq> ArtifactLinkState.Active then Inl ArtifactCommandError.InvalidTransition
      else rbind (next_version (ah_version hold)) (\<lambda>version. Inr (ArtifactLinkState.Released, version)))"

section \<open>Provenance\<close>

record ArtifactProvenanceSnapshot =
  vs_schema_version :: u32
  vs_source_artifact_id :: ResourceId
  vs_derived_artifact_id :: ResourceId
  vs_transformation_deployment_id :: ResourceId
  vs_producer_owner_id :: ResourceId
  vs_parameters_digest :: Sha256Digest
  vs_evidence_event_id :: ResourceId

definition provenance_identity ::
  "('n, 'z) platform_env_scheme \<Rightarrow> ArtifactProvenanceSnapshot \<Rightarrow> (string \<times> 'n Json) list" where
  "provenance_identity env s =
     [(''derived_artifact_id'', json_id env (vs_derived_artifact_id s)),
      (''parameters_digest'', String (vs_parameters_digest s)),
      (''producer_owner_id'', json_id env (vs_producer_owner_id s)),
      (''schema_version'', json_u32 env (vs_schema_version s)),
      (''source_artifact_id'', json_id env (vs_source_artifact_id s)),
      (''transformation_deployment_id'', json_id env (vs_transformation_deployment_id s))]"

definition provenance_digest ::
  "('n, 'z) platform_env_scheme \<Rightarrow> ArtifactProvenanceSnapshot \<Rightarrow> ArtifactCommandError + Sha256Digest" where
  "provenance_digest env s =
     (if vs_schema_version s \<noteq> 1
         \<or> rid_kind (vs_source_artifact_id s) \<noteq> ResourceKind.Artifact
         \<or> rid_kind (vs_derived_artifact_id s) \<noteq> ResourceKind.Artifact
         \<or> \<not> is_deployment (rid_kind (vs_transformation_deployment_id s))
         \<or> \<not> is_producer_kind (rid_kind (vs_producer_owner_id s))
         \<or> rid_kind (vs_evidence_event_id s) \<noteq> ResourceKind.Event
      then Inl InvalidProvenance
      else artifact_digest env (json_object (provenance_identity env s @
        [(''evidence_event_id'', json_id env (vs_evidence_event_id s))])))"

definition provenance_link_key_digest ::
  "('n, 'z) platform_env_scheme \<Rightarrow> ArtifactProvenanceSnapshot \<Rightarrow> ArtifactCommandError + Sha256Digest" where
  "provenance_link_key_digest env s = artifact_digest env (json_object (provenance_identity env s))"

record ArtifactProvenanceRecord =
  av_tenant_id :: ResourceId
  av_provenance_link_id :: ResourceId
  av_source_artifact_id :: ResourceId
  av_derived_artifact_id :: ResourceId
  av_state :: ArtifactLinkState
  av_version :: u64
  av_snapshot :: ArtifactProvenanceSnapshot
  av_link_key_digest :: Sha256Digest
  av_created_at :: instant

record CreateArtifactProvenance =
  cp_audit :: CommandAudit
  cp_provenance_link_id :: ResourceId
  cp_source_artifact_id :: ResourceId
  cp_derived_artifact_id :: ResourceId
  cp_transformation_deployment_id :: ResourceId
  cp_producer_owner_id :: ResourceId
  cp_expected_source_version :: u64
  cp_expected_derived_version :: u64
  cp_parameters_digest :: Sha256Digest

definition create_provenance_validate_at :: "CreateArtifactProvenance \<Rightarrow> instant \<Rightarrow> ArtifactCommandError + unit" where
  "create_provenance_validate_at c now =
     rbind (map_err ArtifactCommandError.InvalidAudit (audit_validate_at (cp_audit c) now)) (\<lambda>_.
     fail_if
       (rid_kind (cp_provenance_link_id c) \<noteq> ResourceKind.ArtifactLink
        \<or> rid_kind (cp_source_artifact_id c) \<noteq> ResourceKind.Artifact
        \<or> rid_kind (cp_derived_artifact_id c) \<noteq> ResourceKind.Artifact
        \<or> cp_source_artifact_id c = cp_derived_artifact_id c
        \<or> \<not> is_deployment (rid_kind (cp_transformation_deployment_id c))
        \<or> \<not> is_producer_kind (rid_kind (cp_producer_owner_id c))
        \<or> cp_expected_source_version c = 0
        \<or> cp_expected_derived_version c = 0)
       InvalidProvenance)"

definition create_provenance_snapshot :: "CreateArtifactProvenance \<Rightarrow> ArtifactProvenanceSnapshot" where
  "create_provenance_snapshot c =
     \<lparr>vs_schema_version = 1, vs_source_artifact_id = cp_source_artifact_id c,
      vs_derived_artifact_id = cp_derived_artifact_id c,
      vs_transformation_deployment_id = cp_transformation_deployment_id c,
      vs_producer_owner_id = cp_producer_owner_id c, vs_parameters_digest = cp_parameters_digest c,
      vs_evidence_event_id = ca_event_id (cp_audit c)\<rparr>"

definition decide_create_artifact_provenance ::
  "('n, 'z) platform_env_scheme \<Rightarrow> ArtifactRecord \<Rightarrow> ArtifactRecord \<Rightarrow> CreateArtifactProvenance \<Rightarrow>
   ArtifactCommandError + ArtifactProvenanceSnapshot" where
  "decide_create_artifact_provenance env source derived command =
     (if at_tenant_id source \<noteq> ca_tenant_id (cp_audit command)
         \<or> at_tenant_id derived \<noteq> ca_tenant_id (cp_audit command)
         \<or> at_artifact_id source \<noteq> cp_source_artifact_id command
         \<or> at_artifact_id derived \<noteq> cp_derived_artifact_id command
      then Inl InvalidIdentity
      else if at_version source \<noteq> cp_expected_source_version command
         \<or> at_version derived \<noteq> cp_expected_derived_version command
      then Inl StaleVersion
      else if at_state source \<noteq> ArtifactState.Ready
         \<or> at_state derived \<noteq> ArtifactState.Ready
         \<or> classification_rank (at_classification derived) < classification_rank (at_classification source)
      then Inl InvalidProvenance
      else
        let snapshot = create_provenance_snapshot command
        in rbind (provenance_digest env snapshot) (\<lambda>_.
           rbind (provenance_link_key_digest env snapshot) (\<lambda>_. Inr snapshot)))"

section \<open>References\<close>

record ArtifactReferenceSnapshot =
  rs_schema_version :: u32
  rs_artifact_id :: ResourceId
  rs_owner_id :: ResourceId
  rs_reference_kind :: ArtifactReferenceKind
  rs_purpose :: ArtifactPurpose
  rs_created_by :: ResourceId

definition reference_identity ::
  "('n, 'z) platform_env_scheme \<Rightarrow> ArtifactReferenceSnapshot \<Rightarrow> (string \<times> 'n Json) list" where
  "reference_identity env s =
     [(''artifact_id'', json_id env (rs_artifact_id s)),
      (''owner_id'', json_id env (rs_owner_id s)),
      (''purpose'', String (artifact_purpose_str (rs_purpose s))),
      (''reference_kind'', String (artifact_reference_kind_str (rs_reference_kind s))),
      (''schema_version'', json_u32 env (rs_schema_version s))]"

definition reference_digest ::
  "('n, 'z) platform_env_scheme \<Rightarrow> ArtifactReferenceSnapshot \<Rightarrow> ArtifactCommandError + Sha256Digest" where
  "reference_digest env s =
     artifact_digest env (json_object (reference_identity env s @ [(''created_by'', json_id env (rs_created_by s))]))"

definition reference_link_key_digest ::
  "('n, 'z) platform_env_scheme \<Rightarrow> ArtifactReferenceSnapshot \<Rightarrow> ArtifactCommandError + Sha256Digest" where
  "reference_link_key_digest env s = artifact_digest env (json_object (reference_identity env s))"

record ArtifactReferenceRecord =
  af_tenant_id :: ResourceId
  af_artifact_reference_id :: ResourceId
  af_artifact_id :: ResourceId
  af_state :: ArtifactLinkState
  af_version :: u64
  af_snapshot :: ArtifactReferenceSnapshot
  af_link_key_digest :: Sha256Digest
  af_created_at :: instant
  af_released_at :: "instant option"

record ReleaseArtifactReference =
  rr_audit :: CommandAudit
  rr_artifact_reference_id :: ResourceId
  rr_artifact_id :: ResourceId
  rr_expected_reference_version :: u64
  rr_reason_class :: string

definition release_reference_validate_at :: "ReleaseArtifactReference \<Rightarrow> instant \<Rightarrow> ArtifactCommandError + unit" where
  "release_reference_validate_at c now =
     rbind (map_err ArtifactCommandError.InvalidAudit (audit_validate_at (rr_audit c) now)) (\<lambda>_.
     fail_if
       (rid_kind (rr_artifact_reference_id c) \<noteq> ResourceKind.ArtifactLink
        \<or> rid_kind (rr_artifact_id c) \<noteq> ResourceKind.Artifact
        \<or> rr_expected_reference_version c = 0
        \<or> \<not> is_code (rr_reason_class c) 64)
       InvalidReference)"

definition decide_release_artifact_reference ::
  "ArtifactReferenceRecord \<Rightarrow> ReleaseArtifactReference \<Rightarrow> ArtifactCommandError + ArtifactLinkState \<times> u64" where
  "decide_release_artifact_reference reference command =
     (if af_tenant_id reference \<noteq> ca_tenant_id (rr_audit command)
         \<or> af_artifact_reference_id reference \<noteq> rr_artifact_reference_id command
         \<or> af_artifact_id reference \<noteq> rr_artifact_id command
      then Inl InvalidIdentity
      else if af_version reference \<noteq> rr_expected_reference_version command then Inl StaleVersion
      else if af_state reference \<noteq> ArtifactLinkState.Active then Inl ArtifactCommandError.InvalidTransition
      else rbind (next_version (af_version reference)) (\<lambda>version. Inr (ArtifactLinkState.Released, version)))"

section \<open>Admitting a deletion\<close>

text \<open>\<open>ArtifactRetentionPolicy\<close> of \<open>platform-contracts/src/resource.rs\<close>\<close>

record ArtifactRetentionPolicy =
  rp_version :: u16
  rp_minimum_retention_seconds :: u64
  rp_gc_grace_seconds :: u64
  rp_tombstone_retention_seconds :: u64
  rp_retain_provenance_sources :: bool
  rp_delete_requires_approval :: bool

definition retention_policy_validate :: "ArtifactRetentionPolicy \<Rightarrow> ResourceContractError + unit" where
  "retention_policy_validate p =
     fail_if
       (rp_version p \<noteq> 1
        \<or> 3155760000 < rp_minimum_retention_seconds p
        \<or> \<not> (1 \<le> rp_gc_grace_seconds p \<and> rp_gc_grace_seconds p \<le> 31536000)
        \<or> \<not> (1 \<le> rp_tombstone_retention_seconds p \<and> rp_tombstone_retention_seconds p \<le> 3155760000))
       InvalidPolicyDocument"

datatype ArtifactDeletionMode =
    ArtifactOnly (mode_alias_artifact_id: ResourceId) (mode_alias_artifact_version: u64)
  | BlobGeneration (mode_object_generation: string)

definition validate_deletion_mode :: "ArtifactDeletionMode \<Rightarrow> ArtifactCommandError + unit" where
  "validate_deletion_mode mode =
     (case mode of
        ArtifactOnly alias_artifact_id alias_artifact_version \<Rightarrow>
          fail_if (rid_kind alias_artifact_id \<noteq> ResourceKind.Artifact \<or> alias_artifact_version = 0) InvalidDeletion
      | BlobGeneration object_generation \<Rightarrow> fail_if (bad_generation object_generation) InvalidDeletion)"

definition deletion_mode_json :: "('n, 'z) platform_env_scheme \<Rightarrow> ArtifactDeletionMode \<Rightarrow> 'n Json" where
  "deletion_mode_json env mode =
     (case mode of
        ArtifactOnly alias_artifact_id alias_artifact_version \<Rightarrow> json_object
          [(''kind'', String ''artifact_only''), (''alias_artifact_id'', json_id env alias_artifact_id),
           (''alias_artifact_version'', json_number env alias_artifact_version)]
      | BlobGeneration object_generation \<Rightarrow> json_object
          [(''kind'', String ''blob_generation''), (''object_generation'', String object_generation)])"

record ArtifactDeletionOperationSnapshot =
  do_schema_version :: u32
  do_artifact_id :: ResourceId
  do_blob_id :: ResourceId
  do_retention_policy_revision_id :: ResourceId
  do_approval_task_id :: "ResourceId option"
  do_mode :: ArtifactDeletionMode

definition deletion_operation_digest ::
  "('n, 'z) platform_env_scheme \<Rightarrow> ArtifactDeletionOperationSnapshot \<Rightarrow> ArtifactCommandError + Sha256Digest" where
  "deletion_operation_digest env s =
     (if do_schema_version s \<noteq> 1
         \<or> rid_kind (do_artifact_id s) \<noteq> ResourceKind.Artifact
         \<or> rid_kind (do_blob_id s) \<noteq> ResourceKind.InternalBlob
         \<or> rid_kind (do_retention_policy_revision_id s) \<noteq> ResourceKind.PolicyRevision
         \<or> some_and (do_approval_task_id s) (\<lambda>i. rid_kind i \<noteq> ResourceKind.ApprovalTask)
      then Inl InvalidDeletion
      else
        rbind (validate_deletion_mode (do_mode s)) (\<lambda>_.
        artifact_digest env (json_object
          [(''schema_version'', json_u32 env (do_schema_version s)),
           (''artifact_id'', json_id env (do_artifact_id s)),
           (''blob_id'', json_id env (do_blob_id s)),
           (''retention_policy_revision_id'', json_id env (do_retention_policy_revision_id s)),
           (''approval_task_id'', json_option (json_id env) (do_approval_task_id s)),
           (''mode'', deletion_mode_json env (do_mode s))])))"

record ArtifactDeletionJobSnapshot =
  dj_schema_version :: u32
  dj_operation_id :: ResourceId
  dj_artifact_id :: ResourceId
  dj_blob_id :: ResourceId
  dj_mode :: ArtifactDeletionMode
  dj_expected_artifact_version :: u64
  dj_expected_blob_version :: u64
  dj_expected_operation_version :: u64
  dj_retry_backoff_milliseconds :: u64

definition deletion_job_digest ::
  "('n, 'z) platform_env_scheme \<Rightarrow> ArtifactDeletionJobSnapshot \<Rightarrow> ArtifactCommandError + Sha256Digest" where
  "deletion_job_digest env s =
     (if dj_schema_version s \<noteq> 1
         \<or> rid_kind (dj_operation_id s) \<noteq> ResourceKind.Job
         \<or> rid_kind (dj_artifact_id s) \<noteq> ResourceKind.Artifact
         \<or> rid_kind (dj_blob_id s) \<noteq> ResourceKind.InternalBlob
         \<or> dj_expected_artifact_version s = 0
         \<or> dj_expected_blob_version s = 0
         \<or> dj_expected_operation_version s = 0
         \<or> dj_retry_backoff_milliseconds s = 0
         \<or> MAX_ARTIFACT_RETRY_BACKOFF_MILLISECONDS < dj_retry_backoff_milliseconds s
      then Inl InvalidDeletion
      else
        rbind (validate_deletion_mode (dj_mode s)) (\<lambda>_.
        artifact_digest env (json_object
          [(''schema_version'', json_u32 env (dj_schema_version s)),
           (''operation_id'', json_id env (dj_operation_id s)),
           (''artifact_id'', json_id env (dj_artifact_id s)),
           (''blob_id'', json_id env (dj_blob_id s)),
           (''mode'', deletion_mode_json env (dj_mode s)),
           (''expected_artifact_version'', json_number env (dj_expected_artifact_version s)),
           (''expected_blob_version'', json_number env (dj_expected_blob_version s)),
           (''expected_operation_version'', json_number env (dj_expected_operation_version s)),
           (''retry_backoff_milliseconds'', json_number env (dj_retry_backoff_milliseconds s))])))"

record MarkArtifactDeletion =
  mk_audit :: CommandAudit
  mk_deletion_operation_id :: ResourceId
  mk_deletion_job_id :: ResourceId
  mk_artifact_id :: ResourceId
  mk_blob_id :: ResourceId
  mk_expected_artifact_version :: u64
  mk_expected_blob_version :: u64
  mk_approval_task_id :: "ResourceId option"
  mk_retry_backoff_milliseconds :: u64
  mk_deadline :: instant

definition mark_validate_at :: "MarkArtifactDeletion \<Rightarrow> instant \<Rightarrow> ArtifactCommandError + unit" where
  "mark_validate_at c now =
     rbind (map_err ArtifactCommandError.InvalidAudit (audit_validate_at (mk_audit c) now)) (\<lambda>_.
     fail_if
       (rid_kind (mk_deletion_operation_id c) \<noteq> ResourceKind.Job
        \<or> rid_kind (mk_deletion_job_id c) \<noteq> ResourceKind.Job
        \<or> mk_deletion_job_id c \<noteq> mk_deletion_operation_id c
        \<or> rid_kind (mk_artifact_id c) \<noteq> ResourceKind.Artifact
        \<or> rid_kind (mk_blob_id c) \<noteq> ResourceKind.InternalBlob
        \<or> mk_expected_artifact_version c = 0
        \<or> mk_expected_blob_version c = 0
        \<or> mk_retry_backoff_milliseconds c = 0
        \<or> MAX_ARTIFACT_RETRY_BACKOFF_MILLISECONDS < mk_retry_backoff_milliseconds c
        \<or> some_and (mk_approval_task_id c) (\<lambda>i. rid_kind i \<noteq> ResourceKind.ApprovalTask)
        \<or> mk_deadline c \<le> now)
       InvalidDeletion)"

record ArtifactDeletionAdmissionFacts =
  da_approval_required :: bool
  da_approval_satisfied :: bool
  da_gc_grace_seconds :: u64
  da_live_reference_count :: u64
  da_active_hold_count :: u64
  da_blocking_provenance_count :: u64

record MarkArtifactDeletionDecision =
  mm_artifact_state :: ArtifactState
  mm_artifact_version :: u64
  mm_blob_state :: BlobIntegrityState
  mm_blob_version :: u64
  mm_mode :: ArtifactDeletionMode
  mm_operation :: ArtifactDeletionOperationSnapshot
  mm_job :: ArtifactDeletionJobSnapshot

text \<open>The authority facts that stand against a deletion.\<close>

definition deletion_blocked ::
  "ArtifactRecord \<Rightarrow> ArtifactBlobRecord \<Rightarrow> ArtifactDeletionAdmissionFacts \<Rightarrow> MarkArtifactDeletion \<Rightarrow> bool" where
  "deletion_blocked artifact blob facts command \<longleftrightarrow>
     \<not> artifact_state_can_transition_to (at_state artifact) ArtifactState.Deleting
     \<or> at_state artifact \<notin> {ArtifactState.Ready, ArtifactState.Rejected, ArtifactState.Quarantined,
          ArtifactState.Corrupt}
     \<or> ab_state blob \<notin> {BlobIntegrityState.Verified, BlobIntegrityState.Corrupt}
     \<or> da_live_reference_count facts \<noteq> 0
     \<or> da_active_hold_count facts \<noteq> 0
     \<or> da_blocking_provenance_count facts \<noteq> 0
     \<or> (da_approval_required facts \<and> \<not> da_approval_satisfied facts)
     \<or> (\<not> da_approval_required facts \<and> mk_approval_task_id command \<noteq> None)"

definition deletion_mode ::
  "ArtifactRecord \<Rightarrow> ArtifactBlobRecord \<Rightarrow> ArtifactRecord option \<Rightarrow> ArtifactCommandError + ArtifactDeletionMode" where
  "deletion_mode artifact blob live_alias =
     (case live_alias of
        Some other \<Rightarrow>
          if at_tenant_id other \<noteq> at_tenant_id artifact
            \<or> at_artifact_id other = at_artifact_id artifact
            \<or> at_blob_id other \<noteq> Some (ab_blob_id blob)
            \<or> at_state other = ArtifactState.Deleted
          then Inl InvalidDeletion
          else Inr (ArtifactOnly (at_artifact_id other) (at_version other))
      | None \<Rightarrow> rbind (ok_or InvalidDeletion (ab_object_generation blob)) (\<lambda>generation. Inr (BlobGeneration generation)))"

definition marked_blob ::
  "ArtifactBlobRecord \<Rightarrow> ArtifactDeletionMode \<Rightarrow> ArtifactCommandError + BlobIntegrityState \<times> u64" where
  "marked_blob blob mode =
     (case mode of
        ArtifactOnly _ _ \<Rightarrow> Inr (ab_state blob, ab_version blob)
      | BlobGeneration _ \<Rightarrow>
          rbind (next_version (ab_version blob)) (\<lambda>version. Inr (BlobIntegrityState.Deleting, version)))"

definition decide_mark_artifact_deletion ::
  "('n, 'z) platform_env_scheme \<Rightarrow> chrono_add \<Rightarrow> ArtifactRecord \<Rightarrow> ArtifactBlobRecord \<Rightarrow>
   ArtifactRecord option \<Rightarrow> ArtifactDeletionAdmissionFacts \<Rightarrow> MarkArtifactDeletion \<Rightarrow> instant \<Rightarrow>
   ArtifactCommandError + MarkArtifactDeletionDecision" where
  "decide_mark_artifact_deletion env add artifact blob live_alias facts command database_now =
     (if at_tenant_id artifact \<noteq> ca_tenant_id (mk_audit command)
         \<or> ab_tenant_id blob \<noteq> ca_tenant_id (mk_audit command)
         \<or> at_artifact_id artifact \<noteq> mk_artifact_id command
         \<or> at_blob_id artifact \<noteq> Some (mk_blob_id command)
         \<or> ab_blob_id blob \<noteq> mk_blob_id command
      then Inl InvalidIdentity
      else if at_version artifact \<noteq> mk_expected_artifact_version command
         \<or> ab_version blob \<noteq> mk_expected_blob_version command
      then Inl StaleVersion
      else if 9223372036854775807 < da_gc_grace_seconds facts then Inl InvalidDeletion
      else
        rbind (duration_seconds (uint (da_gc_grace_seconds facts))) (\<lambda>grace.
        rbind (ok_or InvalidDeletion (add (at_retain_until artifact) grace)) (\<lambda>gc_eligible_at.
        if da_gc_grace_seconds facts = 0 \<or> database_now < gc_eligible_at
          \<or> deletion_blocked artifact blob facts command
        then Inl DeletionBlocked
        else
          rbind (deletion_mode artifact blob live_alias) (\<lambda>mode.
          rbind (marked_blob blob mode) (\<lambda>(blob_state, blob_version).
          rbind (next_version (at_version artifact)) (\<lambda>artifact_version.
          let operation = \<lparr>do_schema_version = 1, do_artifact_id = at_artifact_id artifact,
                do_blob_id = ab_blob_id blob,
                do_retention_policy_revision_id = at_retention_policy_revision_id artifact,
                do_approval_task_id = mk_approval_task_id command, do_mode = mode\<rparr>;
              job = \<lparr>dj_schema_version = 1, dj_operation_id = mk_deletion_operation_id command,
                dj_artifact_id = at_artifact_id artifact, dj_blob_id = ab_blob_id blob, dj_mode = mode,
                dj_expected_artifact_version = artifact_version, dj_expected_blob_version = blob_version,
                dj_expected_operation_version = 1,
                dj_retry_backoff_milliseconds = mk_retry_backoff_milliseconds command\<rparr>
          in rbind (deletion_operation_digest env operation) (\<lambda>_.
             rbind (deletion_job_digest env job) (\<lambda>_.
             Inr \<lparr>mm_artifact_state = ArtifactState.Deleting, mm_artifact_version = artifact_version,
                  mm_blob_state = blob_state, mm_blob_version = blob_version, mm_mode = mode,
                  mm_operation = operation, mm_job = job\<rparr>))))))))"

section \<open>Completing a deletion\<close>

datatype ArtifactDeletionEvidence =
    OnlyEvidence (evidence_alias_artifact_id: ResourceId) (evidence_alias_artifact_version: u64)
  | GenerationEvidence (evidence_object_generation: string) (evidence_backend_receipt_digest: Sha256Digest)
      (evidence_absence_evidence_digest: Sha256Digest)

text \<open>\<open>ArtifactWorkerAudit\<close> and its check (\<open>work.rs\<close>)\<close>

datatype ArtifactWorkError =
    InvalidAudit
  | InvalidJobPayload
  | InvalidCommand
  | InvalidEvidence
  | EvidenceMismatch
  | InvalidTransition
  | InvalidBackendFailure
  | CounterOverflow
  | Canonicalization

record ArtifactWorkerAudit =
  wa_trace :: TraceIdentityV1
  wa_tenant_id :: ResourceId
  wa_worker_process_generation_id :: ResourceId
  wa_receipt_id :: ResourceId
  wa_event_id :: ResourceId
  wa_outbox_id :: ResourceId
  wa_idempotency_key_digest :: Sha256Digest
  wa_request_digest :: Sha256Digest
  wa_receipt_expires_at :: instant

definition worker_audit_validate_at :: "ArtifactWorkerAudit \<Rightarrow> instant \<Rightarrow> ArtifactWorkError + unit" where
  "worker_audit_validate_at a now =
     fail_if
       (\<not> is_ok (trace_identity_validate (wa_trace a))
        \<or> rid_kind (wa_tenant_id a) \<noteq> ResourceKind.Tenant
        \<or> rid_kind (wa_worker_process_generation_id a) \<noteq> ResourceKind.WorkerProcessGeneration
        \<or> rid_kind (wa_receipt_id a) \<noteq> ResourceKind.Receipt
        \<or> rid_kind (wa_event_id a) \<noteq> ResourceKind.Event
        \<or> rid_kind (wa_outbox_id a) \<noteq> ResourceKind.OutboxEvent
        \<or> wa_receipt_expires_at a \<le> now)
       ArtifactWorkError.InvalidAudit"

record CompleteArtifactDeletion =
  cd_audit :: ArtifactWorkerAudit
  cd_deletion_operation_id :: ResourceId
  cd_deletion_job_id :: ResourceId
  cd_artifact_id :: ResourceId
  cd_blob_id :: ResourceId
  cd_expected_artifact_version :: u64
  cd_expected_blob_version :: u64
  cd_expected_operation_version :: u64
  cd_fence :: JobFence
  cd_evidence :: ArtifactDeletionEvidence

definition complete_deletion_validate_at ::
  "CompleteArtifactDeletion \<Rightarrow> instant \<Rightarrow> ArtifactCommandError + unit" where
  "complete_deletion_validate_at c now =
     rbind (map_err ArtifactCommandError.InvalidAudit (worker_audit_validate_at (cd_audit c) now)) (\<lambda>_.
     rbind (fail_if
       (rid_kind (cd_deletion_operation_id c) \<noteq> ResourceKind.Job
        \<or> rid_kind (cd_deletion_job_id c) \<noteq> ResourceKind.Job
        \<or> cd_deletion_job_id c \<noteq> cd_deletion_operation_id c
        \<or> rid_kind (cd_artifact_id c) \<noteq> ResourceKind.Artifact
        \<or> rid_kind (cd_blob_id c) \<noteq> ResourceKind.InternalBlob
        \<or> cd_expected_artifact_version c = 0
        \<or> cd_expected_blob_version c = 0
        \<or> cd_expected_operation_version c = 0
        \<or> jf_expected_version (cd_fence c) = 0
        \<or> cd_expected_operation_version c \<noteq> jf_expected_version (cd_fence c)
        \<or> jf_lease_generation (cd_fence c) = 0
        \<or> jf_worker_process_generation_id (cd_fence c) \<noteq> wa_worker_process_generation_id (cd_audit c))
       InvalidDeletion) (\<lambda>_.
     case cd_evidence c of
       OnlyEvidence alias_artifact_id alias_artifact_version \<Rightarrow>
         fail_if (rid_kind alias_artifact_id \<noteq> ResourceKind.Artifact
           \<or> alias_artifact_id = cd_artifact_id c \<or> alias_artifact_version = 0) InvalidDeletion
     | GenerationEvidence object_generation _ _ \<Rightarrow> fail_if (bad_generation object_generation) InvalidDeletion))"

record ArtifactDeletionRecord =
  ad_tenant_id :: ResourceId
  ad_operation_id :: ResourceId
  ad_operation_state :: JobState
  ad_operation_version :: u64
  ad_job_id :: ResourceId
  ad_artifact_id :: ResourceId
  ad_blob_id :: ResourceId
  ad_mode :: ArtifactDeletionMode
  ad_deadline :: instant

record CompleteArtifactDeletionDecision =
  dd_artifact_state :: ArtifactState
  dd_artifact_version :: u64
  dd_blob_state :: BlobIntegrityState
  dd_blob_version :: u64
  dd_operation_state :: JobState
  dd_operation_version :: u64

text \<open>What becomes of the blob: the evidence has to be of the admitted mode, and what the mode named has to hold
  now.\<close>

definition deleted_blob ::
  "ArtifactRecord \<Rightarrow> ArtifactBlobRecord \<Rightarrow> ArtifactDeletionMode \<Rightarrow> ArtifactRecord option \<Rightarrow>
   ArtifactDeletionEvidence \<Rightarrow> ArtifactCommandError + BlobIntegrityState \<times> u64" where
  "deleted_blob artifact blob mode alias_witness evidence =
     (case (mode, evidence) of
        (ArtifactOnly alias_artifact_id alias_artifact_version, OnlyEvidence evidence_id evidence_version) \<Rightarrow>
          if alias_artifact_id = evidence_id \<and> alias_artifact_version = evidence_version then
            rbind (ok_or DeletionEvidenceMismatch alias_witness) (\<lambda>other.
            if at_tenant_id other \<noteq> at_tenant_id artifact
              \<or> at_artifact_id other \<noteq> alias_artifact_id
              \<or> at_version other \<noteq> alias_artifact_version
              \<or> at_blob_id other \<noteq> at_blob_id artifact
              \<or> at_state other = ArtifactState.Deleted
            then Inl DeletionEvidenceMismatch
            else Inr (ab_state blob, ab_version blob))
          else Inl DeletionEvidenceMismatch
      | (BlobGeneration object_generation, GenerationEvidence evidence_generation _ _) \<Rightarrow>
          if object_generation = evidence_generation
            \<and> ab_object_generation blob = Some object_generation
            \<and> ab_state blob = BlobIntegrityState.Deleting
            \<and> alias_witness = None
          then rbind (next_version (ab_version blob)) (\<lambda>version. Inr (BlobIntegrityState.Deleted, version))
          else Inl DeletionEvidenceMismatch
      | _ \<Rightarrow> Inl DeletionEvidenceMismatch)"

definition decide_complete_artifact_deletion ::
  "ArtifactRecord \<Rightarrow> ArtifactBlobRecord \<Rightarrow> ArtifactDeletionRecord \<Rightarrow> ArtifactRecord option \<Rightarrow>
   CompleteArtifactDeletion \<Rightarrow> ArtifactCommandError + CompleteArtifactDeletionDecision" where
  "decide_complete_artifact_deletion artifact blob deletion alias_witness command =
     (if at_tenant_id artifact \<noteq> wa_tenant_id (cd_audit command)
         \<or> ab_tenant_id blob \<noteq> wa_tenant_id (cd_audit command)
         \<or> ad_tenant_id deletion \<noteq> wa_tenant_id (cd_audit command)
         \<or> at_artifact_id artifact \<noteq> cd_artifact_id command
         \<or> at_blob_id artifact \<noteq> Some (cd_blob_id command)
         \<or> ab_blob_id blob \<noteq> cd_blob_id command
         \<or> ad_operation_id deletion \<noteq> cd_deletion_operation_id command
         \<or> ad_job_id deletion \<noteq> cd_deletion_job_id command
         \<or> ad_artifact_id deletion \<noteq> cd_artifact_id command
         \<or> ad_blob_id deletion \<noteq> cd_blob_id command
      then Inl InvalidIdentity
      else if at_version artifact \<noteq> cd_expected_artifact_version command
         \<or> ab_version blob \<noteq> cd_expected_blob_version command
         \<or> ad_operation_version deletion \<noteq> cd_expected_operation_version command
      then Inl StaleVersion
      else if at_state artifact \<noteq> ArtifactState.Deleting
         \<or> ad_operation_state deletion \<noteq> JobState.Running
         \<or> \<not> artifact_state_can_transition_to (at_state artifact) ArtifactState.Deleted
         \<or> \<not> job_state_can_transition_to (ad_operation_state deletion) JobState.Succeeded
      then Inl ArtifactCommandError.InvalidTransition
      else
        rbind (deleted_blob artifact blob (ad_mode deletion) alias_witness (cd_evidence command))
          (\<lambda>(blob_state, blob_version).
        rbind (next_version (at_version artifact)) (\<lambda>artifact_version.
        rbind (next_version (ad_operation_version deletion)) (\<lambda>operation_version.
        Inr \<lparr>dd_artifact_state = ArtifactState.Deleted, dd_artifact_version = artifact_version,
             dd_blob_state = blob_state, dd_blob_version = blob_version,
             dd_operation_state = JobState.Succeeded, dd_operation_version = operation_version\<rparr>))))"

section \<open>Finalizing an artifact\<close>

record FinalizeArtifact =
  fz_audit :: CommandAudit
  fz_operation_id :: ResourceId
  fz_artifact_id :: ResourceId
  fz_blob_id :: ResourceId
  fz_upload_grant_id :: ResourceId
  fz_artifact_reference_id :: ResourceId
  fz_quota_account_id :: ResourceId
  fz_quota_settle_entry_id :: ResourceId
  fz_expected_artifact_version :: u64
  fz_expected_blob_version :: u64
  fz_expected_operation_version :: u64
  fz_expected_grant_version :: u64
  fz_expected_quota_account_version :: u64
  fz_grant_generation :: u64
  fz_object_generation :: string
  fz_content_digest :: Sha256Digest
  fz_size_bytes :: u64
  fz_verified_media_type :: string
  fz_reference_kind :: ArtifactReferenceKind

definition finalize_validate_at ::
  "FinalizeArtifact \<Rightarrow> instant \<Rightarrow> ArtifactCommandLimits \<Rightarrow> ArtifactCommandError + unit" where
  "finalize_validate_at c now limits =
     rbind (map_err ArtifactCommandError.InvalidAudit (audit_validate_at (fz_audit c) now)) (\<lambda>_.
     let ids = [(fz_operation_id c, ResourceKind.Job), (fz_artifact_id c, ResourceKind.Artifact),
           (fz_blob_id c, ResourceKind.InternalBlob), (fz_upload_grant_id c, ResourceKind.ArtifactGrant),
           (fz_artifact_reference_id c, ResourceKind.ArtifactLink),
           (fz_quota_account_id c, ResourceKind.QuotaAccount),
           (fz_quota_settle_entry_id c, ResourceKind.QuotaLedgerEntry)]
     in fail_if
       (list_ex (\<lambda>(actual, expected). rid_kind actual \<noteq> expected) ids
        \<or> fz_expected_artifact_version c = 0
        \<or> fz_expected_blob_version c = 0
        \<or> fz_expected_operation_version c = 0
        \<or> fz_expected_grant_version c = 0
        \<or> fz_expected_quota_account_version c = 0
        \<or> fz_grant_generation c = 0
        \<or> bad_generation (fz_object_generation c)
        \<or> al_maximum_single_bytes limits < fz_size_bytes c
        \<or> \<not> is_media_type (fz_verified_media_type c))
       InvalidFinalization)"

definition reference_snapshot :: "FinalizeArtifact \<Rightarrow> ArtifactPurpose \<Rightarrow> ArtifactReferenceSnapshot" where
  "reference_snapshot c purpose =
     \<lparr>rs_schema_version = 1, rs_artifact_id = fz_artifact_id c, rs_owner_id = fz_operation_id c,
      rs_reference_kind = fz_reference_kind c, rs_purpose = purpose,
      rs_created_by = ca_principal_id (fz_audit c)\<rparr>"

record FinalizeArtifactDecision =
  fd_artifact_state :: ArtifactState
  fd_artifact_version :: u64
  fd_operation_state :: JobState
  fd_operation_version :: u64
  fd_reference :: ArtifactReferenceSnapshot
  fd_artifact_ref :: ArtifactRef

definition require_artifact_operation_identity ::
  "ArtifactRecord \<Rightarrow> ArtifactBlobRecord \<Rightarrow> ArtifactOperationRecord \<Rightarrow> CommandAudit \<Rightarrow>
   ResourceId \<Rightarrow> ResourceId \<Rightarrow> ResourceId \<Rightarrow> ArtifactCommandError + unit" where
  "require_artifact_operation_identity artifact blob operation audit artifact_id blob_id operation_id =
     rbind (upload_operation_id (at_metadata artifact)) (\<lambda>upload_operation.
     if upload_operation \<noteq> operation_id then Inl InvalidIdentity
     else fail_if
       (at_tenant_id artifact \<noteq> ca_tenant_id audit
        \<or> ab_tenant_id blob \<noteq> ca_tenant_id audit
        \<or> ao_tenant_id operation \<noteq> ca_tenant_id audit
        \<or> at_artifact_id artifact \<noteq> artifact_id
        \<or> at_blob_id artifact \<noteq> Some blob_id
        \<or> ab_blob_id blob \<noteq> blob_id
        \<or> ao_operation_id operation \<noteq> operation_id
        \<or> uo_artifact_id (ao_snapshot operation) \<noteq> artifact_id)
       InvalidIdentity)"

definition artifact_ref_new ::
  "ResourceId \<Rightarrow> Sha256Digest \<Rightarrow> u64 \<Rightarrow> string \<Rightarrow> DataClassification \<Rightarrow> string option \<Rightarrow>
   NominalTypeError + ArtifactRef" where
  "artifact_ref_new artifact_id content_digest byte_length media_type classification display_name =
     (let reference = \<lparr>ar_artifact_id = artifact_id, ar_content_digest = content_digest,
            ar_byte_length = byte_length, ar_media_type = media_type, ar_classification = classification,
            ar_display_name = display_name\<rparr>
      in rbind (artifact_ref_validate reference) (\<lambda>_. Inr reference))"

text \<open>What was verified is what the command names and what the intent declared.\<close>

definition verified_evidence_matches :: "ArtifactRecord \<Rightarrow> ArtifactBlobRecord \<Rightarrow> FinalizeArtifact \<Rightarrow> bool" where
  "verified_evidence_matches artifact blob command \<longleftrightarrow>
     \<not> (ab_object_generation blob \<noteq> Some (fz_object_generation command)
        \<or> ab_content_digest blob \<noteq> Some (fz_content_digest command)
        \<or> ab_size_bytes blob \<noteq> Some (fz_size_bytes command)
        \<or> at_verified_media_type artifact \<noteq> Some (fz_verified_media_type command)
        \<or> at_expected_size_bytes artifact \<noteq> fz_size_bytes command
        \<or> some_and (at_expected_digest artifact) (\<lambda>expected. expected \<noteq> fz_content_digest command))"

definition decide_finalize_artifact ::
  "('n, 'z) platform_env_scheme \<Rightarrow> ArtifactRecord \<Rightarrow> ArtifactBlobRecord \<Rightarrow> ArtifactGrantRecord \<Rightarrow>
   ArtifactOperationRecord \<Rightarrow> FinalizeArtifact \<Rightarrow> ArtifactCommandError + FinalizeArtifactDecision" where
  "decide_finalize_artifact env artifact blob grant operation command =
     rbind (require_artifact_operation_identity artifact blob operation (fz_audit command)
       (fz_artifact_id command) (fz_blob_id command) (fz_operation_id command)) (\<lambda>_.
     if ag_tenant_id grant \<noteq> ca_tenant_id (fz_audit command)
       \<or> ag_upload_grant_id grant \<noteq> fz_upload_grant_id command
       \<or> ag_artifact_id grant \<noteq> fz_artifact_id command
       \<or> ug_operation_id (ag_snapshot grant) \<noteq> fz_operation_id command
       \<or> ug_generation (ag_snapshot grant) \<noteq> fz_grant_generation command
     then Inl InvalidIdentity
     else if at_version artifact \<noteq> fz_expected_artifact_version command
       \<or> ab_version blob \<noteq> fz_expected_blob_version command
       \<or> ag_version grant \<noteq> fz_expected_grant_version command
       \<or> ao_version operation \<noteq> fz_expected_operation_version command
     then Inl StaleVersion
     else if at_state artifact \<noteq> ArtifactState.Verified
       \<or> ab_state blob \<noteq> BlobIntegrityState.Verified
       \<or> ag_state grant \<noteq> ArtifactLinkState.Consumed
       \<or> ao_state operation \<noteq> JobState.Waiting
       \<or> \<not> artifact_state_can_transition_to (at_state artifact) ArtifactState.Ready
       \<or> \<not> job_state_can_transition_to (ao_state operation) JobState.Succeeded
     then Inl ArtifactCommandError.InvalidTransition
     else if \<not> verified_evidence_matches artifact blob command then Inl VerificationEvidenceMismatch
     else
       let reference = reference_snapshot command (at_purpose artifact)
       in rbind (reference_digest env reference) (\<lambda>_.
          rbind (reference_link_key_digest env reference) (\<lambda>_.
          rbind (map_err InvalidFinalization (artifact_ref_new (at_artifact_id artifact)
            (fz_content_digest command) (fz_size_bytes command) (fz_verified_media_type command)
            (at_classification artifact) (md_display_name (at_metadata artifact)))) (\<lambda>artifact_ref.
          rbind (next_version (at_version artifact)) (\<lambda>artifact_version.
          rbind (next_version (ao_version operation)) (\<lambda>operation_version.
          Inr \<lparr>fd_artifact_state = ArtifactState.Ready, fd_artifact_version = artifact_version,
               fd_operation_state = JobState.Succeeded, fd_operation_version = operation_version,
               fd_reference = reference, fd_artifact_ref = artifact_ref\<rparr>))))))"

end
