(* ===== verification/ArtifactWork.thy ===== *)
theory ArtifactWork
  imports ArtifactLifecycle
begin

text \<open>
  The work of artifact jobs (\<open>platform-artifacts/src/work.rs\<close>): scheduling a first scan or a rescan, committing
  what a scanner found, and settling on a verified blob that already holds the same content.
\<close>

section \<open>Helpers\<close>

definition MAX_ARTIFACT_BACKEND_FAILURE_BYTES :: nat where "MAX_ARTIFACT_BACKEND_FAILURE_BYTES = 1024"

definition MAX_ARTIFACT_EVIDENCE_TTL_MILLISECONDS :: u64 where
  "MAX_ARTIFACT_EVIDENCE_TTL_MILLISECONDS = 604800000"

definition artifact_increment :: "u64 \<Rightarrow> ArtifactWorkError + u64" where
  "artifact_increment v = ok_or ArtifactWorkError.CounterOverflow (checked_add v 1)"

text \<open>\<open>t.checked_add_signed(Duration::milliseconds(i64::try_from(ms)?))\<close>\<close>

definition add_milliseconds ::
  "chrono_add \<Rightarrow> ArtifactWorkError \<Rightarrow> instant \<Rightarrow> u64 \<Rightarrow> ArtifactWorkError + instant" where
  "add_milliseconds add e t ms =
     (if 9223372036854775807 < ms then Inl InvalidJobPayload else ok_or e (add t (uint ms * 1000000)))"

section \<open>Scheduling a scan\<close>

definition validate_scan_schedule ::
  "ResourceId \<Rightarrow> ResourceId \<Rightarrow> ResourceId \<Rightarrow> ResourceId \<Rightarrow> u64 \<Rightarrow> u64 \<Rightarrow> u64 \<Rightarrow> ExactVersionRef \<Rightarrow>
   u64 \<Rightarrow> u64 \<Rightarrow> instant \<Rightarrow> instant \<Rightarrow> ArtifactWorkError + unit" where
  "validate_scan_schedule job_id operation_id artifact_id blob_id expected_artifact_version
     expected_blob_version expected_operation_version scan_policy_revision evidence_ttl retry_backoff
     deadline now =
     fail_if
       (rid_kind job_id \<noteq> ResourceKind.Job
        \<or> rid_kind operation_id \<noteq> ResourceKind.Job
        \<or> job_id \<noteq> operation_id
        \<or> rid_kind artifact_id \<noteq> ResourceKind.Artifact
        \<or> rid_kind blob_id \<noteq> ResourceKind.InternalBlob
        \<or> expected_artifact_version = 0
        \<or> expected_blob_version = 0
        \<or> expected_operation_version = 0
        \<or> xv_resource_kind scan_policy_revision \<noteq> ResourceKind.PolicyRevision
        \<or> \<not> is_ok (version_ref_validate scan_policy_revision)
        \<or> evidence_ttl = 0
        \<or> MAX_ARTIFACT_EVIDENCE_TTL_MILLISECONDS < evidence_ttl
        \<or> retry_backoff = 0
        \<or> MAX_ARTIFACT_RETRY_BACKOFF_MILLISECONDS < retry_backoff
        \<or> deadline \<le> now)
       InvalidCommand"

record ArtifactScanJobSnapshot =
  sj_schema_version :: u32
  sj_scan_kind :: ArtifactScanKind
  sj_operation_id :: ResourceId
  sj_producer_job_id :: "ResourceId option"
  sj_artifact_id :: ResourceId
  sj_blob_id :: ResourceId
  sj_expected_artifact_version :: u64
  sj_expected_blob_version :: u64
  sj_expected_operation_version :: u64
  sj_object_generation :: string
  sj_scan_policy_revision :: ExactVersionRef
  sj_scanner_contract_digest :: Sha256Digest
  sj_ruleset_digest :: Sha256Digest
  sj_evidence_ttl_milliseconds :: u64
  sj_retry_backoff_milliseconds :: u64

definition scan_job_validate :: "ArtifactScanJobSnapshot \<Rightarrow> ArtifactWorkError + unit" where
  "scan_job_validate s =
     fail_if
       (sj_schema_version s \<noteq> 2
        \<or> rid_kind (sj_operation_id s) \<noteq> ResourceKind.Job
        \<or> some_and (sj_producer_job_id s) (\<lambda>producer.
            rid_kind producer \<noteq> ResourceKind.Job \<or> producer = sj_operation_id s)
        \<or> (sj_scan_kind s = ArtifactScanKind.Rescan \<and> sj_producer_job_id s \<noteq> None)
        \<or> rid_kind (sj_artifact_id s) \<noteq> ResourceKind.Artifact
        \<or> rid_kind (sj_blob_id s) \<noteq> ResourceKind.InternalBlob
        \<or> sj_expected_artifact_version s = 0
        \<or> sj_expected_blob_version s = 0
        \<or> sj_expected_operation_version s = 0
        \<or> \<not> valid_object_generation (sj_object_generation s)
        \<or> xv_resource_kind (sj_scan_policy_revision s) \<noteq> ResourceKind.PolicyRevision
        \<or> \<not> is_ok (version_ref_validate (sj_scan_policy_revision s))
        \<or> sj_evidence_ttl_milliseconds s = 0
        \<or> sj_retry_backoff_milliseconds s = 0
        \<or> MAX_ARTIFACT_RETRY_BACKOFF_MILLISECONDS < sj_retry_backoff_milliseconds s)
       InvalidJobPayload"

record ScheduleInitialArtifactScan =
  si_audit :: CommandAudit
  si_scan_job_id :: ResourceId
  si_operation_id :: ResourceId
  si_artifact_id :: ResourceId
  si_blob_id :: ResourceId
  si_expected_artifact_version :: u64
  si_expected_blob_version :: u64
  si_expected_operation_version :: u64
  si_scan_policy_revision :: ExactVersionRef
  si_scanner_contract_digest :: Sha256Digest
  si_ruleset_digest :: Sha256Digest
  si_evidence_ttl_milliseconds :: u64
  si_retry_backoff_milliseconds :: u64
  si_deadline :: instant

definition initial_scan_validate_at :: "ScheduleInitialArtifactScan \<Rightarrow> instant \<Rightarrow> ArtifactWorkError + unit" where
  "initial_scan_validate_at c now =
     rbind (map_err ArtifactWorkError.InvalidAudit (audit_validate_at (si_audit c) now)) (\<lambda>_.
     validate_scan_schedule (si_scan_job_id c) (si_operation_id c) (si_artifact_id c) (si_blob_id c)
       (si_expected_artifact_version c) (si_expected_blob_version c) (si_expected_operation_version c)
       (si_scan_policy_revision c) (si_evidence_ttl_milliseconds c) (si_retry_backoff_milliseconds c)
       (si_deadline c) now)"

record ArtifactScanScheduleDecision =
  ss_artifact_state :: ArtifactState
  ss_artifact_version :: u64
  ss_job :: ArtifactScanJobSnapshot

definition decide_schedule_initial_scan ::
  "ArtifactRecord \<Rightarrow> ArtifactBlobRecord \<Rightarrow> ArtifactOperationRecord \<Rightarrow> ScheduleInitialArtifactScan \<Rightarrow>
   instant \<Rightarrow> ArtifactWorkError + ArtifactScanScheduleDecision" where
  "decide_schedule_initial_scan artifact blob operation command now =
     rbind (map_err InvalidCommand (upload_operation_id (at_metadata artifact))) (\<lambda>_.
     rbind (initial_scan_validate_at command now) (\<lambda>_.
     if at_tenant_id artifact \<noteq> ca_tenant_id (si_audit command)
       \<or> ab_tenant_id blob \<noteq> ca_tenant_id (si_audit command)
       \<or> ao_tenant_id operation \<noteq> ca_tenant_id (si_audit command)
       \<or> at_artifact_id artifact \<noteq> si_artifact_id command
       \<or> at_blob_id artifact \<noteq> Some (si_blob_id command)
       \<or> ab_blob_id blob \<noteq> si_blob_id command
       \<or> ao_operation_id operation \<noteq> si_operation_id command
       \<or> uo_artifact_id (ao_snapshot operation) \<noteq> si_artifact_id command
     then Inl InvalidCommand
     else if at_version artifact \<noteq> si_expected_artifact_version command
       \<or> ab_version blob \<noteq> si_expected_blob_version command
       \<or> ao_version operation \<noteq> si_expected_operation_version command
       \<or> uo_scan_policy_revision (ao_snapshot operation) \<noteq> si_scan_policy_revision command
       \<or> uo_scanner_contract_digest (ao_snapshot operation) \<noteq> si_scanner_contract_digest command
       \<or> uo_ruleset_digest (ao_snapshot operation) \<noteq> si_ruleset_digest command
       \<or> uo_evidence_ttl_milliseconds (ao_snapshot operation) \<noteq> si_evidence_ttl_milliseconds command
       \<or> uo_retry_backoff_milliseconds (ao_snapshot operation) \<noteq> si_retry_backoff_milliseconds command
     then Inl EvidenceMismatch
     else if at_state artifact \<noteq> ArtifactState.Uploaded
       \<or> ab_state blob \<noteq> BlobIntegrityState.Staging
       \<or> ab_object_generation blob = None
       \<or> ao_state operation \<noteq> JobState.Waiting
       \<or> \<not> job_state_can_transition_to (ao_state operation) JobState.Ready
       \<or> \<not> artifact_state_can_transition_to (at_state artifact) ArtifactState.Verifying
     then Inl ArtifactWorkError.InvalidTransition
     else
       rbind (artifact_increment (at_version artifact)) (\<lambda>artifact_version.
       rbind (artifact_increment (ao_version operation)) (\<lambda>operation_version.
       rbind (ok_or ArtifactWorkError.InvalidTransition (ab_object_generation blob)) (\<lambda>generation.
       let job = \<lparr>sj_schema_version = 2, sj_scan_kind = ArtifactScanKind.Initial,
             sj_operation_id = si_operation_id command, sj_producer_job_id = None,
             sj_artifact_id = si_artifact_id command, sj_blob_id = si_blob_id command,
             sj_expected_artifact_version = artifact_version, sj_expected_blob_version = ab_version blob,
             sj_expected_operation_version = operation_version, sj_object_generation = generation,
             sj_scan_policy_revision = si_scan_policy_revision command,
             sj_scanner_contract_digest = si_scanner_contract_digest command,
             sj_ruleset_digest = si_ruleset_digest command,
             sj_evidence_ttl_milliseconds = si_evidence_ttl_milliseconds command,
             sj_retry_backoff_milliseconds = si_retry_backoff_milliseconds command\<rparr>
       in rbind (scan_job_validate job) (\<lambda>_.
          Inr \<lparr>ss_artifact_state = ArtifactState.Verifying, ss_artifact_version = artifact_version,
               ss_job = job\<rparr>))))))"

record ScheduleArtifactRescan =
  sr_audit :: CommandAudit
  sr_rescan_operation_id :: ResourceId
  sr_rescan_job_id :: ResourceId
  sr_artifact_id :: ResourceId
  sr_blob_id :: ResourceId
  sr_expected_artifact_version :: u64
  sr_expected_blob_version :: u64
  sr_scan_policy_revision :: ExactVersionRef
  sr_scanner_contract_digest :: Sha256Digest
  sr_ruleset_digest :: Sha256Digest
  sr_evidence_ttl_milliseconds :: u64
  sr_retry_backoff_milliseconds :: u64
  sr_deadline :: instant

definition rescan_validate_at :: "ScheduleArtifactRescan \<Rightarrow> instant \<Rightarrow> ArtifactWorkError + unit" where
  "rescan_validate_at c now =
     rbind (map_err ArtifactWorkError.InvalidAudit (audit_validate_at (sr_audit c) now)) (\<lambda>_.
     validate_scan_schedule (sr_rescan_job_id c) (sr_rescan_operation_id c) (sr_artifact_id c) (sr_blob_id c)
       (sr_expected_artifact_version c) (sr_expected_blob_version c) 1
       (sr_scan_policy_revision c) (sr_evidence_ttl_milliseconds c) (sr_retry_backoff_milliseconds c)
       (sr_deadline c) now)"

record ArtifactRescanOperationSnapshot =
  ro_schema_version :: u32
  ro_artifact_id :: ResourceId
  ro_blob_id :: ResourceId
  ro_scan_policy_revision :: ExactVersionRef
  ro_scanner_contract_digest :: Sha256Digest
  ro_ruleset_digest :: Sha256Digest

definition rescan_operation_validate :: "ArtifactRescanOperationSnapshot \<Rightarrow> ArtifactWorkError + unit" where
  "rescan_operation_validate s =
     fail_if
       (ro_schema_version s \<noteq> 1
        \<or> rid_kind (ro_artifact_id s) \<noteq> ResourceKind.Artifact
        \<or> rid_kind (ro_blob_id s) \<noteq> ResourceKind.InternalBlob
        \<or> xv_resource_kind (ro_scan_policy_revision s) \<noteq> ResourceKind.PolicyRevision
        \<or> \<not> is_ok (version_ref_validate (ro_scan_policy_revision s)))
       InvalidJobPayload"

record ArtifactRescanScheduleDecision =
  sk_artifact_state :: ArtifactState
  sk_artifact_version :: u64
  sk_operation :: ArtifactRescanOperationSnapshot
  sk_job :: ArtifactScanJobSnapshot

definition decide_schedule_artifact_rescan ::
  "ArtifactRecord \<Rightarrow> ArtifactBlobRecord \<Rightarrow> ScheduleArtifactRescan \<Rightarrow> instant \<Rightarrow>
   ArtifactWorkError + ArtifactRescanScheduleDecision" where
  "decide_schedule_artifact_rescan artifact blob command now =
     rbind (map_err InvalidCommand (upload_operation_id (at_metadata artifact))) (\<lambda>_.
     rbind (rescan_validate_at command now) (\<lambda>_.
     if at_tenant_id artifact \<noteq> ca_tenant_id (sr_audit command)
       \<or> ab_tenant_id blob \<noteq> ca_tenant_id (sr_audit command)
       \<or> at_artifact_id artifact \<noteq> sr_artifact_id command
       \<or> at_blob_id artifact \<noteq> Some (sr_blob_id command)
       \<or> ab_blob_id blob \<noteq> sr_blob_id command
       \<or> at_version artifact \<noteq> sr_expected_artifact_version command
       \<or> ab_version blob \<noteq> sr_expected_blob_version command
     then Inl EvidenceMismatch
     else if at_state artifact \<noteq> ArtifactState.Ready
       \<or> ab_state blob \<noteq> BlobIntegrityState.Verified
       \<or> ab_object_generation blob = None
       \<or> ab_content_digest blob = None
       \<or> ab_size_bytes blob = None
       \<or> at_verified_media_type artifact = None
       \<or> \<not> artifact_state_can_transition_to (at_state artifact) ArtifactState.Quarantined
     then Inl ArtifactWorkError.InvalidTransition
     else
       let operation = \<lparr>ro_schema_version = 1, ro_artifact_id = at_artifact_id artifact,
             ro_blob_id = ab_blob_id blob, ro_scan_policy_revision = sr_scan_policy_revision command,
             ro_scanner_contract_digest = sr_scanner_contract_digest command,
             ro_ruleset_digest = sr_ruleset_digest command\<rparr>
       in rbind (rescan_operation_validate operation) (\<lambda>_.
          rbind (artifact_increment (at_version artifact)) (\<lambda>artifact_version.
          rbind (ok_or ArtifactWorkError.InvalidTransition (ab_object_generation blob)) (\<lambda>generation.
          let job = \<lparr>sj_schema_version = 2, sj_scan_kind = ArtifactScanKind.Rescan,
                sj_operation_id = sr_rescan_operation_id command, sj_producer_job_id = None,
                sj_artifact_id = at_artifact_id artifact, sj_blob_id = ab_blob_id blob,
                sj_expected_artifact_version = artifact_version, sj_expected_blob_version = ab_version blob,
                sj_expected_operation_version = 1, sj_object_generation = generation,
                sj_scan_policy_revision = sr_scan_policy_revision command,
                sj_scanner_contract_digest = sr_scanner_contract_digest command,
                sj_ruleset_digest = sr_ruleset_digest command,
                sj_evidence_ttl_milliseconds = sr_evidence_ttl_milliseconds command,
                sj_retry_backoff_milliseconds = sr_retry_backoff_milliseconds command\<rparr>
          in rbind (scan_job_validate job) (\<lambda>_.
             Inr \<lparr>sk_artifact_state = ArtifactState.Quarantined, sk_artifact_version = artifact_version,
                  sk_operation = operation, sk_job = job\<rparr>))))))"

section \<open>Scan evidence\<close>

record ArtifactScanEvidence =
  se_schema_version :: u32
  se_scan_kind :: ArtifactScanKind
  se_scan_job_id :: ResourceId
  se_scan_policy_revision :: ExactVersionRef
  se_scanner_contract_digest :: Sha256Digest
  se_ruleset_digest :: Sha256Digest
  se_object_generation :: string
  se_content_digest :: Sha256Digest
  se_size_bytes :: u64
  se_verified_media_type :: string
  se_disposition :: ArtifactScanDisposition
  se_reason_class :: "string option"
  se_observed_at :: instant
  se_expires_at :: instant
  se_canonical_digest :: Sha256Digest

text \<open>The digest is taken over the serialized evidence without its own field.\<close>

definition evidence_digest_without_field ::
  "('n, 'z) artifact_env_scheme \<Rightarrow> ArtifactScanEvidence \<Rightarrow> ArtifactWorkError + Sha256Digest" where
  "evidence_digest_without_field env v =
     document_digest env ArtifactWorkError.Canonicalization (json_object
       [(''schema_version'', json_u32 env (se_schema_version v)),
        (''scan_kind'', String (scan_kind_str (se_scan_kind v))),
        (''scan_job_id'', json_id env (se_scan_job_id v)),
        (''scan_policy_revision'', version_ref_json env (se_scan_policy_revision v)),
        (''scanner_contract_digest'', String (se_scanner_contract_digest v)),
        (''ruleset_digest'', String (se_ruleset_digest v)),
        (''object_generation'', String (se_object_generation v)),
        (''content_digest'', String (se_content_digest v)),
        (''size_bytes'', json_number env (se_size_bytes v)),
        (''verified_media_type'', String (se_verified_media_type v)),
        (''disposition'', String (scan_disposition_str (se_disposition v))),
        (''reason_class'', json_option String (se_reason_class v)),
        (''observed_at'', json_instant env (se_observed_at v)),
        (''expires_at'', json_instant env (se_expires_at v))])"

definition evidence_current :: "ArtifactScanEvidence \<Rightarrow> ArtifactCurrentVerification" where
  "evidence_current v =
     \<lparr>cv_schema_version = se_schema_version v, cv_scan_kind = se_scan_kind v,
      cv_scan_job_id = se_scan_job_id v, cv_scan_policy_revision = se_scan_policy_revision v,
      cv_scanner_contract_digest = se_scanner_contract_digest v, cv_ruleset_digest = se_ruleset_digest v,
      cv_object_generation = se_object_generation v, cv_content_digest = se_content_digest v,
      cv_size_bytes = se_size_bytes v, cv_verified_media_type = se_verified_media_type v,
      cv_disposition = se_disposition v, cv_reason_class = se_reason_class v,
      cv_evidence_digest = se_canonical_digest v, cv_observed_at = se_observed_at v,
      cv_expires_at = se_expires_at v\<rparr>"

definition evidence_validate ::
  "('n, 'z) artifact_env_scheme \<Rightarrow> ArtifactScanEvidence \<Rightarrow> ArtifactWorkError + unit" where
  "evidence_validate env v =
     rbind (map_err InvalidEvidence (current_verification_validate (evidence_current v))) (\<lambda>_.
     rbind (evidence_digest_without_field env v) (\<lambda>digest.
     fail_if (digest \<noteq> se_canonical_digest v) InvalidEvidence))"

text \<open>\<open>ArtifactScanEvidenceDraft\<close> is the evidence without its digest; sealing computes it.\<close>

definition evidence_seal ::
  "('n, 'z) artifact_env_scheme \<Rightarrow> ArtifactScanEvidence \<Rightarrow> ArtifactWorkError + ArtifactScanEvidence" where
  "evidence_seal env draft =
     (let evidence = draft\<lparr>se_canonical_digest := ''sha256:'' @ replicate 64 CHR ''0''\<rparr>
      in rbind (evidence_digest_without_field env evidence) (\<lambda>digest.
         let sealed = evidence\<lparr>se_canonical_digest := digest\<rparr>
         in rbind (evidence_validate env sealed) (\<lambda>_. Inr sealed)))"

record CommitArtifactScanOutcome =
  cs_audit :: ArtifactWorkerAudit
  cs_scan_job_id :: ResourceId
  cs_fence :: JobFence
  cs_operation_id :: ResourceId
  cs_artifact_id :: ResourceId
  cs_blob_id :: ResourceId
  cs_expected_artifact_version :: u64
  cs_expected_blob_version :: u64
  cs_expected_operation_version :: u64
  cs_evidence :: ArtifactScanEvidence
  cs_duplicate_blob_cleanup_job_id :: ResourceId

definition scan_outcome_validate_at ::
  "('n, 'z) artifact_env_scheme \<Rightarrow> CommitArtifactScanOutcome \<Rightarrow> instant \<Rightarrow> ArtifactWorkError + unit" where
  "scan_outcome_validate_at env c now =
     rbind (worker_audit_validate_at (cs_audit c) now) (\<lambda>_.
     rbind (evidence_validate env (cs_evidence c)) (\<lambda>_.
     fail_if
       (rid_kind (cs_scan_job_id c) \<noteq> ResourceKind.Job
        \<or> cs_scan_job_id c \<noteq> cs_operation_id c
        \<or> se_scan_job_id (cs_evidence c) \<noteq> cs_scan_job_id c
        \<or> rid_kind (cs_operation_id c) \<noteq> ResourceKind.Job
        \<or> rid_kind (cs_artifact_id c) \<noteq> ResourceKind.Artifact
        \<or> rid_kind (cs_blob_id c) \<noteq> ResourceKind.InternalBlob
        \<or> rid_kind (cs_duplicate_blob_cleanup_job_id c) \<noteq> ResourceKind.Job
        \<or> cs_expected_artifact_version c = 0
        \<or> cs_expected_blob_version c = 0
        \<or> cs_expected_operation_version c = 0
        \<or> jf_expected_version (cs_fence c) = 0
        \<or> cs_expected_operation_version c \<noteq> jf_expected_version (cs_fence c)
        \<or> jf_lease_generation (cs_fence c) = 0
        \<or> jf_worker_process_generation_id (cs_fence c) \<noteq> wa_worker_process_generation_id (cs_audit c))
       InvalidCommand))"

section \<open>Committing a scan\<close>

record ArtifactScanDecision =
  sn_artifact_state :: ArtifactState
  sn_artifact_version :: u64
  sn_blob_state :: BlobIntegrityState
  sn_blob_version :: u64
  sn_operation_state :: JobState
  sn_operation_version :: u64
  sn_metadata :: ArtifactMetadataSnapshot
  sn_artifact_blob_id :: ResourceId
  sn_duplicate_blob_cleanup :: "ArtifactBlobCleanupSnapshot option"

record ArtifactWorkerOperationRecord =
  wo_tenant_id :: ResourceId
  wo_operation_id :: ResourceId
  wo_state :: JobState
  wo_version :: u64
  wo_scan_kind :: ArtifactScanKind

definition validate_reusable_blob ::
  "ArtifactBlobRecord \<Rightarrow> ArtifactBlobRecord \<Rightarrow> ArtifactScanEvidence \<Rightarrow> ArtifactWorkError + unit" where
  "validate_reusable_blob candidate reusable evidence =
     fail_if
       (ab_tenant_id reusable \<noteq> ab_tenant_id candidate
        \<or> ab_blob_id reusable = ab_blob_id candidate
        \<or> ab_backend reusable \<noteq> ab_backend candidate
        \<or> ab_storage_binding_digest reusable \<noteq> ab_storage_binding_digest candidate
        \<or> ab_security_domain_digest reusable \<noteq> ab_security_domain_digest candidate
        \<or> ab_encryption_domain_id reusable \<noteq> ab_encryption_domain_id candidate
        \<or> ab_state reusable \<noteq> BlobIntegrityState.Verified
        \<or> ab_content_digest reusable \<noteq> Some (se_content_digest evidence)
        \<or> ab_size_bytes reusable \<noteq> Some (se_size_bytes evidence)
        \<or> ab_object_generation reusable = None)
       EvidenceMismatch"

text \<open>The evidence answers the job that asked for it, and both name what is stored now.\<close>

definition scan_mismatch ::
  "ArtifactRecord \<Rightarrow> ArtifactBlobRecord \<Rightarrow> ArtifactWorkerOperationRecord \<Rightarrow> ArtifactScanJobSnapshot \<Rightarrow>
   CommitArtifactScanOutcome \<Rightarrow> instant \<Rightarrow> bool" where
  "scan_mismatch artifact blob operation job command database_now \<longleftrightarrow>
     at_tenant_id artifact \<noteq> wa_tenant_id (cs_audit command)
     \<or> ab_tenant_id blob \<noteq> wa_tenant_id (cs_audit command)
     \<or> wo_tenant_id operation \<noteq> wa_tenant_id (cs_audit command)
     \<or> at_artifact_id artifact \<noteq> cs_artifact_id command
     \<or> at_blob_id artifact \<noteq> Some (cs_blob_id command)
     \<or> ab_blob_id blob \<noteq> cs_blob_id command
     \<or> wo_operation_id operation \<noteq> cs_operation_id command
     \<or> wo_scan_kind operation \<noteq> sj_scan_kind job
     \<or> wo_version operation \<noteq> cs_expected_operation_version command
     \<or> wo_state operation \<noteq> JobState.Running
     \<or> sj_operation_id job \<noteq> cs_operation_id command
     \<or> sj_artifact_id job \<noteq> cs_artifact_id command
     \<or> sj_blob_id job \<noteq> cs_blob_id command
     \<or> sj_expected_artifact_version job \<noteq> cs_expected_artifact_version command
     \<or> sj_expected_blob_version job \<noteq> cs_expected_blob_version command
     \<or> at_version artifact \<noteq> cs_expected_artifact_version command
     \<or> ab_version blob \<noteq> cs_expected_blob_version command
     \<or> sj_object_generation job \<noteq> se_object_generation (cs_evidence command)
     \<or> ab_object_generation blob \<noteq> Some (sj_object_generation job)
     \<or> sj_scan_kind job \<noteq> se_scan_kind (cs_evidence command)
     \<or> sj_scan_policy_revision job \<noteq> se_scan_policy_revision (cs_evidence command)
     \<or> sj_scanner_contract_digest job \<noteq> se_scanner_contract_digest (cs_evidence command)
     \<or> sj_ruleset_digest job \<noteq> se_ruleset_digest (cs_evidence command)
     \<or> database_now < se_observed_at (cs_evidence command)
     \<or> se_expires_at (cs_evidence command) \<le> database_now"

definition matches_intent :: "ArtifactRecord \<Rightarrow> ArtifactScanEvidence \<Rightarrow> bool" where
  "matches_intent artifact evidence \<longleftrightarrow>
     at_expected_size_bytes artifact = se_size_bytes evidence
     \<and> none_or (at_expected_digest artifact) (\<lambda>digest. digest = se_content_digest evidence)"

definition matches_current :: "ArtifactRecord \<Rightarrow> ArtifactBlobRecord \<Rightarrow> ArtifactScanEvidence \<Rightarrow> bool" where
  "matches_current artifact blob evidence \<longleftrightarrow>
     ab_content_digest blob = Some (se_content_digest evidence)
     \<and> ab_size_bytes blob = Some (se_size_bytes evidence)
     \<and> at_verified_media_type artifact = Some (se_verified_media_type evidence)"

fun scan_outcome_states :: "ArtifactScanKind \<Rightarrow> ArtifactScanDisposition \<Rightarrow> ArtifactState \<times> JobState" where
  "scan_outcome_states ArtifactScanKind.Initial ArtifactScanDisposition.Verified =
     (ArtifactState.Verified, JobState.Waiting)"
| "scan_outcome_states ArtifactScanKind.Initial ArtifactScanDisposition.Quarantined =
     (ArtifactState.Quarantined, JobState.Waiting)"
| "scan_outcome_states ArtifactScanKind.Initial ArtifactScanDisposition.Corrupt =
     (ArtifactState.Quarantined, JobState.Waiting)"
| "scan_outcome_states ArtifactScanKind.Initial ArtifactScanDisposition.Rejected =
     (ArtifactState.Rejected, JobState.Failed)"
| "scan_outcome_states ArtifactScanKind.Rescan ArtifactScanDisposition.Verified =
     (ArtifactState.Ready, JobState.Succeeded)"
| "scan_outcome_states ArtifactScanKind.Rescan ArtifactScanDisposition.Quarantined =
     (ArtifactState.Quarantined, JobState.Succeeded)"
| "scan_outcome_states ArtifactScanKind.Rescan ArtifactScanDisposition.Rejected =
     (ArtifactState.Rejected, JobState.Succeeded)"
| "scan_outcome_states ArtifactScanKind.Rescan ArtifactScanDisposition.Corrupt =
     (ArtifactState.Corrupt, JobState.Succeeded)"

primrec scanned_blob_state :: "ArtifactScanKind \<Rightarrow> BlobIntegrityState" where
  "scanned_blob_state ArtifactScanKind.Initial = BlobIntegrityState.Staging"
| "scanned_blob_state ArtifactScanKind.Rescan = BlobIntegrityState.Verified"

primrec scanned_artifact_state :: "ArtifactScanKind \<Rightarrow> ArtifactState" where
  "scanned_artifact_state ArtifactScanKind.Initial = ArtifactState.Verifying"
| "scanned_artifact_state ArtifactScanKind.Rescan = ArtifactState.Quarantined"

text \<open>A first scan settles on the blob of the upload, or on a verified duplicate of it and then the uploaded
  blob is discarded; a rescan keeps the blob.\<close>

definition scanned_blob ::
  "('n, 'z) platform_env_scheme \<Rightarrow> ArtifactRecord \<Rightarrow> ArtifactBlobRecord \<Rightarrow> ArtifactBlobRecord option \<Rightarrow>
   ArtifactScanJobSnapshot \<Rightarrow> ArtifactScanEvidence \<Rightarrow>
   ArtifactWorkError + ResourceId \<times> BlobIntegrityState \<times> u64 \<times> ArtifactBlobCleanupSnapshot option" where
  "scanned_blob env artifact blob reusable_blob job evidence =
     (let desired =
        (if sj_scan_kind job = ArtifactScanKind.Rescan \<and> se_disposition evidence = ArtifactScanDisposition.Corrupt
         then BlobIntegrityState.Corrupt else BlobIntegrityState.Verified)
      in if sj_scan_kind job = ArtifactScanKind.Initial then
           (case reusable_blob of
              Some reusable \<Rightarrow>
                rbind (validate_reusable_blob blob reusable evidence) (\<lambda>_.
                rbind (artifact_increment (ab_version blob)) (\<lambda>blob_version.
                let cleanup = \<lparr>bc_schema_version = 1, bc_artifact_id = at_artifact_id artifact,
                      bc_discarded_blob_id = ab_blob_id blob, bc_replacement_blob_id = ab_blob_id reusable,
                      bc_object_generation = sj_object_generation job,
                      bc_verification_evidence_digest = se_canonical_digest evidence,
                      bc_expected_blob_version = blob_version,
                      bc_retry_backoff_milliseconds = sj_retry_backoff_milliseconds job\<rparr>
                in rbind (map_err InvalidEvidence (blob_cleanup_digest env cleanup)) (\<lambda>_.
                   Inr (ab_blob_id reusable, BlobIntegrityState.Deleting, blob_version, Some cleanup))))
            | None \<Rightarrow>
                rbind (artifact_increment (ab_version blob)) (\<lambda>blob_version.
                Inr (ab_blob_id blob, desired, blob_version, None)))
         else
           rbind (if ab_state blob = desired then Inr (ab_version blob)
                  else artifact_increment (ab_version blob)) (\<lambda>blob_version.
           Inr (ab_blob_id blob, desired, blob_version, None)))"

definition decide_commit_artifact_scan ::
  "('n, 'z) artifact_env_scheme \<Rightarrow> chrono_add \<Rightarrow> ArtifactRecord \<Rightarrow> ArtifactBlobRecord \<Rightarrow>
   ArtifactWorkerOperationRecord \<Rightarrow> ArtifactBlobRecord option \<Rightarrow> ArtifactScanJobSnapshot \<Rightarrow>
   CommitArtifactScanOutcome \<Rightarrow> instant \<Rightarrow> ArtifactWorkError + ArtifactScanDecision" where
  "decide_commit_artifact_scan env add artifact blob operation reusable_blob job command database_now =
     rbind (map_err InvalidCommand (upload_operation_id (at_metadata artifact))) (\<lambda>_.
     rbind (scan_outcome_validate_at env command database_now) (\<lambda>_.
     rbind (scan_job_validate job) (\<lambda>_.
     rbind (fail_if (scan_mismatch artifact blob operation job command database_now) EvidenceMismatch) (\<lambda>_.
     rbind (add_milliseconds add InvalidEvidence (se_observed_at (cs_evidence command))
       (sj_evidence_ttl_milliseconds job)) (\<lambda>expected_expiry.
     let evidence = cs_evidence command;
         (artifact_state, operation_state) = scan_outcome_states (sj_scan_kind job) (se_disposition evidence)
     in if se_expires_at evidence \<noteq> expected_expiry then Inl EvidenceMismatch
        else if \<not> matches_intent artifact evidence \<and> se_disposition evidence \<noteq> ArtifactScanDisposition.Rejected
        then Inl EvidenceMismatch
        else if ab_state blob \<noteq> scanned_blob_state (sj_scan_kind job)
        then Inl ArtifactWorkError.InvalidTransition
        else if sj_scan_kind job = ArtifactScanKind.Rescan \<and> \<not> matches_current artifact blob evidence
          \<and> se_disposition evidence \<noteq> ArtifactScanDisposition.Corrupt
        then Inl EvidenceMismatch
        else if at_state artifact \<noteq> scanned_artifact_state (sj_scan_kind job)
        then Inl ArtifactWorkError.InvalidTransition
        else if \<not> artifact_state_can_transition_to (at_state artifact) artifact_state
          \<or> (operation_state \<noteq> wo_state operation
              \<and> \<not> job_state_can_transition_to (wo_state operation) operation_state)
        then Inl ArtifactWorkError.InvalidTransition
        else
          rbind (scanned_blob env artifact blob reusable_blob job evidence)
            (\<lambda>(artifact_blob_id, blob_state, blob_version, cleanup).
          rbind (map_err InvalidEvidence (with_current_verification (at_metadata artifact)
            (evidence_current evidence))) (\<lambda>metadata.
          rbind (artifact_increment (at_version artifact)) (\<lambda>artifact_version.
          rbind (artifact_increment (wo_version operation)) (\<lambda>operation_version.
          Inr \<lparr>sn_artifact_state = artifact_state, sn_artifact_version = artifact_version,
               sn_blob_state = blob_state, sn_blob_version = blob_version,
               sn_operation_state = operation_state, sn_operation_version = operation_version,
               sn_metadata = metadata, sn_artifact_blob_id = artifact_blob_id,
               sn_duplicate_blob_cleanup = cleanup\<rparr>)))))))))"

end
