(* ===== verification/ArtifactJobs.thy ===== *)
theory ArtifactJobs
  imports ArtifactWork
begin

text \<open>
  The jobs behind stored artifacts (\<open>platform-artifacts/src/work.rs\<close>): the payload of an artifact job, the cleanup
  of a discarded blob, what becomes of an attempt whose lease expired or whose backend failed, and what the repository
  then does to the artifact (\<open>platform-postgres/src/artifact_repository.rs\<close>).
\<close>

section \<open>Cleaning up a discarded blob\<close>

record ArtifactBlobDeletionEvidence =
  be_schema_version :: u32
  be_object_generation :: string
  be_backend_receipt_digest :: Sha256Digest
  be_absence_evidence_digest :: Sha256Digest
  be_observed_at :: instant

definition blob_deletion_validate :: "ArtifactBlobDeletionEvidence \<Rightarrow> ArtifactWorkError + unit" where
  "blob_deletion_validate e =
     fail_if (be_schema_version e \<noteq> 1 \<or> \<not> valid_object_generation (be_object_generation e)) InvalidEvidence"

record CommitArtifactBlobCleanup =
  cb_audit :: ArtifactWorkerAudit
  cb_cleanup_job_id :: ResourceId
  cb_fence :: JobFence
  cb_discarded_blob_id :: ResourceId
  cb_expected_blob_version :: u64
  cb_evidence :: ArtifactBlobDeletionEvidence

definition cleanup_validate_at :: "CommitArtifactBlobCleanup \<Rightarrow> instant \<Rightarrow> ArtifactWorkError + unit" where
  "cleanup_validate_at c now =
     rbind (worker_audit_validate_at (cb_audit c) now) (\<lambda>_.
     rbind (blob_deletion_validate (cb_evidence c)) (\<lambda>_.
     fail_if
       (rid_kind (cb_cleanup_job_id c) \<noteq> ResourceKind.Job
        \<or> rid_kind (cb_discarded_blob_id c) \<noteq> ResourceKind.InternalBlob
        \<or> cb_expected_blob_version c = 0
        \<or> jf_expected_version (cb_fence c) = 0
        \<or> jf_lease_generation (cb_fence c) = 0
        \<or> jf_worker_process_generation_id (cb_fence c) \<noteq> wa_worker_process_generation_id (cb_audit c))
       InvalidCommand))"

definition decide_commit_blob_cleanup ::
  "('n, 'z) platform_env_scheme \<Rightarrow> ArtifactBlobRecord \<Rightarrow> ArtifactBlobCleanupSnapshot \<Rightarrow>
   CommitArtifactBlobCleanup \<Rightarrow> instant \<Rightarrow> ArtifactWorkError + BlobIntegrityState \<times> u64" where
  "decide_commit_blob_cleanup env blob cleanup command database_now =
     rbind (cleanup_validate_at command database_now) (\<lambda>_.
     rbind (map_err InvalidJobPayload (blob_cleanup_digest env cleanup)) (\<lambda>_.
     if ab_tenant_id blob \<noteq> wa_tenant_id (cb_audit command)
       \<or> ab_blob_id blob \<noteq> cb_discarded_blob_id command
       \<or> bc_discarded_blob_id cleanup \<noteq> cb_discarded_blob_id command
       \<or> ab_version blob \<noteq> cb_expected_blob_version command
       \<or> bc_expected_blob_version cleanup \<noteq> cb_expected_blob_version command
       \<or> ab_state blob \<noteq> BlobIntegrityState.Deleting
       \<or> ab_object_generation blob \<noteq> Some (be_object_generation (cb_evidence command))
       \<or> bc_object_generation cleanup \<noteq> be_object_generation (cb_evidence command)
     then Inl EvidenceMismatch
     else rbind (artifact_increment (ab_version blob)) (\<lambda>version. Inr (BlobIntegrityState.Deleted, version))))"

section \<open>Payloads\<close>

record ArtifactAwaitingStageSnapshot =
  as_schema_version :: u32
  as_producer_job_id :: ResourceId
  as_artifact_id :: ResourceId
  as_blob_id :: ResourceId
  as_quota_account_id :: ResourceId
  as_quota_entry_id :: ResourceId
  as_purpose :: ArtifactPurpose
  as_classification :: DataClassification
  as_maximum_bytes :: u64
  as_declared_media_type :: string
  as_retention_policy_revision :: ExactVersionRef
  as_artifact_io_policy_revision :: ExactVersionRef
  as_scanner_contract_digest :: Sha256Digest
  as_ruleset_digest :: Sha256Digest
  as_evidence_ttl_milliseconds :: u64
  as_retry_backoff_milliseconds :: u64
  as_write_storage_binding_digest :: Sha256Digest
  as_encryption_domain_id :: ResourceId
  as_retain_until :: instant
  as_deadline :: instant

definition awaiting_stage_validate :: "ArtifactAwaitingStageSnapshot \<Rightarrow> ArtifactWorkError + unit" where
  "awaiting_stage_validate s =
     fail_if
       (as_schema_version s \<noteq> 1
        \<or> rid_kind (as_producer_job_id s) \<noteq> ResourceKind.Job
        \<or> rid_kind (as_artifact_id s) \<noteq> ResourceKind.Artifact
        \<or> rid_kind (as_blob_id s) \<noteq> ResourceKind.InternalBlob
        \<or> rid_kind (as_quota_account_id s) \<noteq> ResourceKind.QuotaAccount
        \<or> rid_kind (as_quota_entry_id s) \<noteq> ResourceKind.QuotaLedgerEntry
        \<or> as_maximum_bytes s = 0
        \<or> as_declared_media_type s = []
        \<or> 255 < length (as_declared_media_type s)
        \<or> xv_resource_kind (as_retention_policy_revision s) \<noteq> ResourceKind.PolicyRevision
        \<or> \<not> is_ok (version_ref_validate (as_retention_policy_revision s))
        \<or> xv_resource_kind (as_artifact_io_policy_revision s) \<noteq> ResourceKind.PolicyRevision
        \<or> \<not> is_ok (version_ref_validate (as_artifact_io_policy_revision s))
        \<or> as_evidence_ttl_milliseconds s = 0
        \<or> 86400000 < as_evidence_ttl_milliseconds s
        \<or> as_retry_backoff_milliseconds s = 0
        \<or> MAX_ARTIFACT_RETRY_BACKOFF_MILLISECONDS < as_retry_backoff_milliseconds s
        \<or> as_evidence_ttl_milliseconds s \<le> as_retry_backoff_milliseconds s
        \<or> rid_kind (as_encryption_domain_id s) \<noteq> ResourceKind.EncryptionDomain
        \<or> as_retain_until s < as_deadline s)
       InvalidJobPayload"

datatype ArtifactJobPayload =
    AwaitingStage ArtifactAwaitingStageSnapshot
  | ScanPayload ArtifactScanJobSnapshot
  | RescanPayload ArtifactScanJobSnapshot
  | DeletePayload ArtifactDeletionJobSnapshot
  | CleanupPayload ArtifactBlobCleanupSnapshot

definition require_owner :: "ResourceId \<Rightarrow> ResourceKind \<Rightarrow> ResourceId \<Rightarrow> ArtifactWorkError + unit" where
  "require_owner owner_id owner_kind expected =
     fail_if (rid_kind owner_id \<noteq> owner_kind \<or> owner_id \<noteq> expected) InvalidJobPayload"

definition payload_validate_for_owner ::
  "('n, 'z) platform_env_scheme \<Rightarrow> ArtifactJobPayload \<Rightarrow> ResourceId \<Rightarrow> ArtifactWorkError + unit" where
  "payload_validate_for_owner env payload owner_id =
     (case payload of
        AwaitingStage stage \<Rightarrow>
          rbind (awaiting_stage_validate stage) (\<lambda>_.
          require_owner owner_id ResourceKind.Artifact (as_artifact_id stage))
      | ScanPayload scan \<Rightarrow>
          if sj_scan_kind scan = ArtifactScanKind.Initial then
            rbind (scan_job_validate scan) (\<lambda>_.
            require_owner owner_id ResourceKind.Artifact (sj_artifact_id scan))
          else Inl InvalidJobPayload
      | RescanPayload scan \<Rightarrow>
          if sj_scan_kind scan = ArtifactScanKind.Rescan then
            rbind (scan_job_validate scan) (\<lambda>_.
            require_owner owner_id ResourceKind.Artifact (sj_artifact_id scan))
          else Inl InvalidJobPayload
      | DeletePayload deletion \<Rightarrow>
          rbind (map_err InvalidJobPayload (deletion_job_digest env deletion)) (\<lambda>_.
          require_owner owner_id ResourceKind.Artifact (dj_artifact_id deletion))
      | CleanupPayload cleanup \<Rightarrow>
          rbind (map_err InvalidJobPayload (blob_cleanup_digest env cleanup)) (\<lambda>_.
          require_owner owner_id ResourceKind.InternalBlob (bc_discarded_blob_id cleanup)))"

primrec payload_retry_backoff :: "ArtifactJobPayload \<Rightarrow> u64" where
  "payload_retry_backoff (AwaitingStage stage) = as_retry_backoff_milliseconds stage"
| "payload_retry_backoff (ScanPayload scan) = sj_retry_backoff_milliseconds scan"
| "payload_retry_backoff (RescanPayload scan) = sj_retry_backoff_milliseconds scan"
| "payload_retry_backoff (DeletePayload deletion) = dj_retry_backoff_milliseconds deletion"
| "payload_retry_backoff (CleanupPayload cleanup) = bc_retry_backoff_milliseconds cleanup"

definition may_have_uncertain_physical_effect :: "ArtifactJobPayload \<Rightarrow> bool" where
  "may_have_uncertain_physical_effect payload \<longleftrightarrow>
     (case payload of
        DeletePayload deletion \<Rightarrow> (case dj_mode deletion of BlobGeneration _ \<Rightarrow> True | _ \<Rightarrow> False)
      | CleanupPayload _ \<Rightarrow> True
      | _ \<Rightarrow> False)"

section \<open>Attempts that did not end\<close>

datatype ArtifactRecoveryParentAction =
    NoParentAction
  | ScanParent (action_artifact_state: ArtifactState) (action_operation_state: JobState)
  | DeletionParent JobState
  | BlobCleanupReconciliation

record ArtifactAttemptRecoveryDecision =
  rd_job :: JobProjection
  rd_parent_action :: ArtifactRecoveryParentAction

definition expired_target ::
  "chrono_add \<Rightarrow> JobProjection \<Rightarrow> ArtifactJobPayload \<Rightarrow> instant \<Rightarrow>
   ArtifactWorkError + JobState \<times> instant option" where
  "expired_target add current payload database_now =
     (if jp_state current = JobState.Leased then
        Inr (if database_now < jp_deadline current then JobState.Ready else JobState.TimedOut, None)
      else if jp_state current = JobState.Running
        \<and> \<not> may_have_uncertain_physical_effect payload
        \<and> jp_attempt_count current < jp_attempt_limit current
      then
        rbind (add_milliseconds add ArtifactWorkError.CounterOverflow database_now
          (payload_retry_backoff payload)) (\<lambda>retry_at.
        Inr (if retry_at < jp_deadline current then (JobState.RetryScheduled, Some retry_at)
             else (JobState.ReconciliationRequired, None)))
      else if jp_state current \<in> {JobState.Running, JobState.Cancelling} then
        Inr (JobState.ReconciliationRequired, None)
      else Inl ArtifactWorkError.InvalidTransition)"

definition ended_parent_action ::
  "ArtifactJobPayload \<Rightarrow> JobState \<Rightarrow> ArtifactWorkError + ArtifactRecoveryParentAction" where
  "ended_parent_action payload operation_state =
     (case payload of
        AwaitingStage _ \<Rightarrow> Inl ArtifactWorkError.InvalidTransition
      | ScanPayload _ \<Rightarrow> Inr (ScanParent ArtifactState.Quarantined operation_state)
      | RescanPayload _ \<Rightarrow> Inr (ScanParent ArtifactState.Quarantined operation_state)
      | DeletePayload _ \<Rightarrow> Inr (DeletionParent operation_state)
      | CleanupPayload _ \<Rightarrow> Inr BlobCleanupReconciliation)"

definition decide_expired_artifact_attempt ::
  "('n, 'z) platform_env_scheme \<Rightarrow> chrono_add \<Rightarrow> JobProjection \<Rightarrow> ArtifactJobPayload \<Rightarrow> u64 \<Rightarrow> u64 \<Rightarrow>
   instant \<Rightarrow> ArtifactWorkError + ArtifactAttemptRecoveryDecision" where
  "decide_expired_artifact_attempt env add current payload observed_version observed_lease_generation
     database_now =
     rbind (payload_validate_for_owner env payload (jo_owner_id (jp_owner current))) (\<lambda>_.
     if jp_work_class current \<noteq> WorkClass.Artifact then Inl InvalidJobPayload
     else
       rbind (expired_target add current payload database_now) (\<lambda>(target, retry_at).
       rbind (map_err ArtifactWorkError.InvalidTransition (decide_expired_lease current observed_version
         observed_lease_generation database_now target retry_at)) (\<lambda>job.
       rbind (if jp_state job \<in> {JobState.Ready, JobState.RetryScheduled} then Inr NoParentAction
              else if jp_state job = JobState.TimedOut then ended_parent_action payload JobState.TimedOut
              else if jp_state job = JobState.ReconciliationRequired
              then ended_parent_action payload JobState.Failed
              else Inl ArtifactWorkError.InvalidTransition) (\<lambda>parent_action.
       Inr \<lparr>rd_job = job, rd_parent_action = parent_action\<rparr>))))"

record ArtifactBackendFailure =
  bf_retryable :: bool
  bf_reason_class :: string

definition backend_failure_validate :: "ArtifactBackendFailure \<Rightarrow> ArtifactWorkError + unit" where
  "backend_failure_validate f =
     fail_if (\<not> valid_code (bf_reason_class f) MAX_ARTIFACT_BACKEND_FAILURE_BYTES) InvalidBackendFailure"

record CommitArtifactAttemptFailure =
  cf_audit :: ArtifactWorkerAudit
  cf_job_id :: ResourceId
  cf_fence :: JobFence
  cf_failure :: ArtifactBackendFailure

definition attempt_failure_validate_at :: "CommitArtifactAttemptFailure \<Rightarrow> instant \<Rightarrow> ArtifactWorkError + unit" where
  "attempt_failure_validate_at c now =
     rbind (worker_audit_validate_at (cf_audit c) now) (\<lambda>_.
     rbind (backend_failure_validate (cf_failure c)) (\<lambda>_.
     fail_if
       (rid_kind (cf_job_id c) \<noteq> ResourceKind.Job
        \<or> jf_expected_version (cf_fence c) = 0
        \<or> jf_lease_generation (cf_fence c) = 0
        \<or> jf_worker_process_generation_id (cf_fence c) \<noteq> wa_worker_process_generation_id (cf_audit c))
       InvalidCommand))"

text \<open>A scan that may be tried again is, and is reconciled when the job refuses the retry.\<close>

definition retried_scan ::
  "chrono_add \<Rightarrow> JobProjection \<Rightarrow> ArtifactJobPayload \<Rightarrow> JobFence \<Rightarrow> instant \<Rightarrow>
   ArtifactWorkError + JobProjection \<times> ArtifactRecoveryParentAction" where
  "retried_scan add current payload fence database_now =
     rbind (add_milliseconds add ArtifactWorkError.CounterOverflow database_now
       (payload_retry_backoff payload)) (\<lambda>retry_at.
     case decide_retry current fence database_now retry_at of
       Inr job \<Rightarrow> Inr (job, NoParentAction)
     | Inl _ \<Rightarrow>
         rbind (map_err ArtifactWorkError.InvalidTransition (decide_reconciliation current fence database_now))
           (\<lambda>job. Inr (job, ScanParent ArtifactState.Quarantined JobState.Failed)))"

definition failed_scan ::
  "chrono_add \<Rightarrow> JobProjection \<Rightarrow> ArtifactJobPayload \<Rightarrow> CommitArtifactAttemptFailure \<Rightarrow> instant \<Rightarrow>
   ArtifactWorkError + JobProjection \<times> ArtifactRecoveryParentAction" where
  "failed_scan add current payload command database_now =
     (if bf_retryable (cf_failure command) then retried_scan add current payload (cf_fence command) database_now
      else
        rbind (map_err ArtifactWorkError.InvalidTransition
          (decide_terminal current (cf_fence command) database_now JobState.Failed)) (\<lambda>job.
        Inr (job, ScanParent ArtifactState.Quarantined JobState.Failed)))"

definition decide_artifact_backend_failure ::
  "('n, 'z) platform_env_scheme \<Rightarrow> chrono_add \<Rightarrow> JobProjection \<Rightarrow> ArtifactJobPayload \<Rightarrow>
   CommitArtifactAttemptFailure \<Rightarrow> instant \<Rightarrow> ArtifactWorkError + ArtifactAttemptRecoveryDecision" where
  "decide_artifact_backend_failure env add current payload command database_now =
     rbind (attempt_failure_validate_at command database_now) (\<lambda>_.
     rbind (payload_validate_for_owner env payload (jo_owner_id (jp_owner current))) (\<lambda>_.
     if jp_work_class current \<noteq> WorkClass.Artifact \<or> jp_job_id current \<noteq> cf_job_id command
     then Inl InvalidJobPayload
     else
       rbind (case payload of
           AwaitingStage _ \<Rightarrow> Inl InvalidBackendFailure
         | ScanPayload _ \<Rightarrow> failed_scan add current payload command database_now
         | RescanPayload _ \<Rightarrow> failed_scan add current payload command database_now
         | DeletePayload deletion \<Rightarrow>
             (case dj_mode deletion of
                BlobGeneration _ \<Rightarrow>
                  rbind (map_err ArtifactWorkError.InvalidTransition
                    (decide_reconciliation current (cf_fence command) database_now)) (\<lambda>job.
                  Inr (job, DeletionParent JobState.Failed))
              | ArtifactOnly _ _ \<Rightarrow> Inl InvalidBackendFailure)
         | CleanupPayload _ \<Rightarrow>
             rbind (map_err ArtifactWorkError.InvalidTransition
               (decide_reconciliation current (cf_fence command) database_now)) (\<lambda>job.
             Inr (job, BlobCleanupReconciliation))) (\<lambda>(job, parent_action).
       Inr \<lparr>rd_job = job, rd_parent_action = parent_action\<rparr>)))"

section \<open>What recovery does to the artifact\<close>

datatype RepositoryError = RepositoryInvalidInput | RepositoryConflict | RepositoryCorruptRow

record LockedArtifactRecoveryParents =
  lr_artifact_state :: "ArtifactState option"
  lr_artifact_version :: "u64 option"
  lr_blob_state :: BlobIntegrityState
  lr_blob_version :: u64
  lr_operation_state :: "JobState option"
  lr_operation_version :: "u64 option"

text \<open>The state and version the artifact is left with; the row is written when they differ from the locked
  ones.\<close>

definition persist_artifact_recovery_parent_action ::
  "ArtifactJobPayload \<Rightarrow> LockedArtifactRecoveryParents \<Rightarrow> ArtifactRecoveryParentAction \<Rightarrow>
   RepositoryError + (ArtifactState option \<times> u64 option)" where
  "persist_artifact_recovery_parent_action payload parents action =
     (case action of
        NoParentAction \<Rightarrow> Inr (lr_artifact_state parents, lr_artifact_version parents)
      | ScanParent artifact_state operation_state \<Rightarrow>
          if \<not> (case payload of ScanPayload _ \<Rightarrow> True | RescanPayload _ \<Rightarrow> True | _ \<Rightarrow> False)
            \<or> artifact_state \<noteq> ArtifactState.Quarantined
            \<or> lr_operation_state parents \<noteq> Some JobState.Running
          then Inl RepositoryInvalidInput
          else
            rbind (ok_or RepositoryCorruptRow (lr_artifact_state parents)) (\<lambda>current_state.
            rbind (ok_or RepositoryCorruptRow (lr_artifact_version parents)) (\<lambda>current_version.
            rbind (if current_state \<noteq> artifact_state then
                     (if \<not> artifact_state_can_transition_to current_state artifact_state
                      then Inl RepositoryConflict
                      else ok_or RepositoryInvalidInput (checked_add current_version 1))
                   else Inr current_version) (\<lambda>version.
            if operation_state \<noteq> JobState.Failed then Inl RepositoryInvalidInput
            else Inr (Some artifact_state, Some version))))
      | DeletionParent operation_state \<Rightarrow>
          if \<not> (case payload of DeletePayload _ \<Rightarrow> True | _ \<Rightarrow> False)
            \<or> lr_artifact_state parents \<noteq> Some ArtifactState.Deleting
            \<or> lr_operation_state parents \<noteq> Some JobState.Running
          then Inl RepositoryInvalidInput
          else if operation_state \<noteq> JobState.Failed then Inl RepositoryInvalidInput
          else Inr (lr_artifact_state parents, lr_artifact_version parents)
      | BlobCleanupReconciliation \<Rightarrow>
          if \<not> (case payload of CleanupPayload _ \<Rightarrow> True | _ \<Rightarrow> False)
            \<or> lr_blob_state parents \<noteq> BlobIntegrityState.Deleting
          then Inl RepositoryInvalidInput
          else Inr (lr_artifact_state parents, lr_artifact_version parents))"

end
