(* ===== verification/Rows.thy ===== *)
theory Rows
  imports Prelude
begin

text \<open>
  Tables as lists of rows: the lookup by key, the update of the row a key names, and what both say of membership,
  of the keys and of one another.
\<close>

definition lookup_row :: "('r \<Rightarrow> 'k) \<Rightarrow> 'k \<Rightarrow> 'r list \<Rightarrow> 'r option" where
  "lookup_row key k rows = List.find (\<lambda>r. key r = k) rows"

definition update_row :: "('r \<Rightarrow> 'k) \<Rightarrow> 'k \<Rightarrow> ('r \<Rightarrow> 'r) \<Rightarrow> 'r list \<Rightarrow> 'r list" where
  "update_row key k f rows = map (\<lambda>r. if key r = k then f r else r) rows"

definition has_row :: "('r \<Rightarrow> 'k) \<Rightarrow> 'k \<Rightarrow> 'r list \<Rightarrow> bool" where
  "has_row key k rows \<longleftrightarrow> list_ex (\<lambda>r. key r = k) rows"

lemma lookup_row_SomeD: "lookup_row key k rows = Some r \<Longrightarrow> r \<in> set rows \<and> key r = k"
  by (auto simp: lookup_row_def dest: find_SomeD)

lemma lookup_row_None: "lookup_row key k rows = None \<longleftrightarrow> (\<forall>r \<in> set rows. key r \<noteq> k)"
  by (simp add: lookup_row_def find_None_iff2)

lemma has_row_iff: "has_row key k rows \<longleftrightarrow> k \<in> key ` set rows"
  by (auto simp: has_row_def list_ex_iff)

lemma lookup_row_of: "distinct (map key rows) \<Longrightarrow> r \<in> set rows \<Longrightarrow> lookup_row key (key r) rows = Some r"
  by (induction rows) (force simp: lookup_row_def)+

lemma row_is_unique: "distinct (map key rows) \<Longrightarrow> r \<in> set rows \<Longrightarrow> q \<in> set rows \<Longrightarrow> key r = key q \<Longrightarrow> r = q"
  by (metis lookup_row_of option.inject)

lemma lookup_row_append [simp]:
  "lookup_row key k (rows @ [r]) =
     (case lookup_row key k rows of Some q \<Rightarrow> Some q | None \<Rightarrow> if key r = k then Some r else None)"
  by (induction rows) (auto simp: lookup_row_def)

lemma update_row_keys: "(\<And>r. key r = k \<Longrightarrow> key (f r) = k) \<Longrightarrow> map key (update_row key k f rows) = map key rows"
  by (simp add: update_row_def comp_def)

lemma in_update_row:
  "q \<in> set (update_row key k f rows) \<longleftrightarrow> (\<exists>r \<in> set rows. q = (if key r = k then f r else r))"
  by (simp only: update_row_def set_map image_iff)

lemma in_update_rowE:
  assumes "q \<in> set (update_row key k f rows)"
  obtains (other) "q \<in> set rows" "key q \<noteq> k" | (updated) r where "r \<in> set rows" "key r = k" "q = f r"
  using assms by (auto simp: in_update_row split: if_splits)

lemma update_row_other: "r \<in> set rows \<Longrightarrow> key r \<noteq> k \<Longrightarrow> r \<in> set (update_row key k f rows)"
  by (force simp: in_update_row)

lemma update_row_this: "r \<in> set rows \<Longrightarrow> key r = k \<Longrightarrow> f r \<in> set (update_row key k f rows)"
  by (force simp: in_update_row)

lemma lookup_update_row:
  assumes "\<And>r. key r = k \<Longrightarrow> key (f r) = k"
  shows "lookup_row key j (update_row key k f rows) =
    (if j = k then map_option f (lookup_row key k rows) else lookup_row key j rows)"
  using assms by (induction rows) (auto simp: lookup_row_def update_row_def)

text \<open>A table in which keys are unique has one row for a key, so an update by key is an update of that row.\<close>

lemma update_row_unique:
  assumes "distinct (map key rows)" and "lookup_row key k rows = Some r"
  shows "q \<in> set (update_row key k f rows) \<longleftrightarrow> q = f r \<or> (q \<in> set rows \<and> key q \<noteq> k)"
proof -
  have r: "r \<in> set rows" "key r = k" using lookup_row_SomeD [OF assms(2)] by simp_all
  show ?thesis
  proof
    assume "q \<in> set (update_row key k f rows)"
    then show "q = f r \<or> (q \<in> set rows \<and> key q \<noteq> k)"
      by (rule in_update_rowE) (use r row_is_unique [OF assms(1)] in auto)
  next
    assume "q = f r \<or> (q \<in> set rows \<and> key q \<noteq> k)"
    then show "q \<in> set (update_row key k f rows)" using r by (auto intro: update_row_other update_row_this)
  qed
qed

lemma update_row_const:
  assumes "distinct (map key rows)" and "lookup_row key k rows = Some r"
  shows "update_row key k f rows = update_row key k (\<lambda>_. f r) rows"
proof -
  have "q = r" if "q \<in> set rows" "key q = k" for q
    using lookup_row_SomeD [OF assms(2)] row_is_unique [OF assms(1)] that by simp
  then show ?thesis by (auto simp: update_row_def)
qed

lemma update_row_id: "distinct (map key rows) \<Longrightarrow> lookup_row key k rows = Some r \<Longrightarrow> update_row key k (\<lambda>_. r) rows = rows"
  using update_row_const [of key rows k r "\<lambda>x. x"] by (simp add: update_row_def)

end
