(* ===== verification/ArtifactStore.thy ===== *)
theory ArtifactStore
  imports ArtifactJobs Rows
begin

text \<open>
  The transactions on stored artifacts (\<open>platform-postgres/src/artifact_repository.rs\<close>): which rows each of them
  loads, the decision of the domain crate it takes, and the rows it writes.  The tables of artifacts, blobs and
  links are the state; the job rows, the receipts, the permission and quota checks and the outbox are those of
  other components, so a transaction takes the job rows it loaded as arguments, whatever they are.
\<close>

section \<open>The tables\<close>

record artifact_store =
  st_now :: instant
  st_artifacts :: "ArtifactRecord list"
  st_blobs :: "ArtifactBlobRecord list"
  st_grants :: "ArtifactGrantRecord list"
  st_holds :: "(ArtifactHoldRecord \<times> instant option) list"
  st_references :: "ArtifactReferenceRecord list"
  st_provenance :: "ArtifactProvenanceRecord list"

datatype TransactionError =
    CommandFailed ArtifactCommandError
  | WorkFailed ArtifactWorkError
  | RepositoryFailed RepositoryError
  | NotFound
  | Conflict
  | QuotaExceeded
  | InvalidInput
  | CorruptRow

text \<open>The rows are addressed by tenant and identity.\<close>

type_synonym row_key = "ResourceId \<times> ResourceId"

definition artifact_key :: "ArtifactRecord \<Rightarrow> row_key" where "artifact_key a = (at_tenant_id a, at_artifact_id a)"
definition blob_key :: "ArtifactBlobRecord \<Rightarrow> row_key" where "blob_key b = (ab_tenant_id b, ab_blob_id b)"
definition grant_key :: "ArtifactGrantRecord \<Rightarrow> row_key" where "grant_key g = (ag_tenant_id g, ag_upload_grant_id g)"
definition hold_key :: "ArtifactHoldRecord \<times> instant option \<Rightarrow> row_key" where
  "hold_key h = (ah_tenant_id (fst h), ah_artifact_hold_id (fst h))"
definition reference_key :: "ArtifactReferenceRecord \<Rightarrow> row_key" where
  "reference_key r = (af_tenant_id r, af_artifact_reference_id r)"
definition provenance_key :: "ArtifactProvenanceRecord \<Rightarrow> row_key" where
  "provenance_key p = (av_tenant_id p, av_provenance_link_id p)"

lemmas key_defs = artifact_key_def blob_key_def grant_key_def hold_key_def reference_key_def provenance_key_def

definition command_failed :: "ArtifactCommandError + 'a \<Rightarrow> TransactionError + 'a" where
  "command_failed m = map_sum CommandFailed id m"

definition work_failed :: "ArtifactWorkError + 'a \<Rightarrow> TransactionError + 'a" where
  "work_failed m = map_sum WorkFailed id m"

definition find_artifact :: "artifact_store \<Rightarrow> ResourceId \<Rightarrow> ResourceId \<Rightarrow> TransactionError + ArtifactRecord" where
  "find_artifact s tenant i = ok_or NotFound (lookup_row artifact_key (tenant, i) (st_artifacts s))"

definition find_blob :: "artifact_store \<Rightarrow> ResourceId \<Rightarrow> ResourceId \<Rightarrow> TransactionError + ArtifactBlobRecord" where
  "find_blob s tenant i = ok_or NotFound (lookup_row blob_key (tenant, i) (st_blobs s))"

definition find_grant :: "artifact_store \<Rightarrow> ResourceId \<Rightarrow> ResourceId \<Rightarrow> TransactionError + ArtifactGrantRecord" where
  "find_grant s tenant i = ok_or NotFound (lookup_row grant_key (tenant, i) (st_grants s))"

text \<open>\<open>artifact_links\<close> is one table: an identity names one link of any kind.\<close>

definition link_exists :: "artifact_store \<Rightarrow> row_key \<Rightarrow> bool" where
  "link_exists s k \<longleftrightarrow>
     has_row grant_key k (st_grants s) \<or> has_row hold_key k (st_holds s)
     \<or> has_row reference_key k (st_references s) \<or> has_row provenance_key k (st_provenance s)"

definition put_artifact ::
  "ArtifactRecord \<Rightarrow> (ArtifactRecord \<Rightarrow> ArtifactRecord) \<Rightarrow> artifact_store \<Rightarrow> artifact_store" where
  "put_artifact a f s = s\<lparr>st_artifacts := update_row artifact_key (artifact_key a) f (st_artifacts s)\<rparr>"

definition put_blob ::
  "ArtifactBlobRecord \<Rightarrow> (ArtifactBlobRecord \<Rightarrow> ArtifactBlobRecord) \<Rightarrow> artifact_store \<Rightarrow> artifact_store" where
  "put_blob b f s = s\<lparr>st_blobs := update_row blob_key (blob_key b) f (st_blobs s)\<rparr>"

definition set_artifact_state ::
  "ArtifactState \<Rightarrow> u64 \<Rightarrow> instant \<Rightarrow> ArtifactRecord \<Rightarrow> ArtifactRecord" where
  "set_artifact_state state version now a = a\<lparr>at_state := state, at_version := version, at_updated_at := now\<rparr>"

definition set_blob_state :: "BlobIntegrityState \<Rightarrow> u64 \<Rightarrow> ArtifactBlobRecord \<Rightarrow> ArtifactBlobRecord" where
  "set_blob_state state version b = b\<lparr>ab_state := state, ab_version := version\<rparr>"

section \<open>Upload\<close>

definition tx_prepare_artifact ::
  "('n, 'z) artifact_env_scheme \<Rightarrow> ArtifactCommandLimits \<Rightarrow> PrepareArtifact \<Rightarrow> artifact_store \<Rightarrow>
   TransactionError + artifact_store" where
  "tx_prepare_artifact env limits c s =
     (let tenant = ca_tenant_id (pa_audit c); now = st_now s
      in rbind (command_failed (prepare_validate_at env c now limits)) (\<lambda>_.
         rbind (command_failed (metadata_snapshot c)) (\<lambda>metadata.
         rbind (command_failed (upload_grant_snapshot env c)) (\<lambda>grant.
         rbind (command_failed (security_domain_digest env (blob_security_domain c))) (\<lambda>domain_digest.
         rbind (command_failed (grant_link_key_digest env grant)) (\<lambda>link_key.
         if has_row blob_key (tenant, pa_blob_id c) (st_blobs s)
           \<or> has_row artifact_key (tenant, pa_artifact_id c) (st_artifacts s)
           \<or> link_exists s (tenant, pa_upload_grant_id c)
         then Inl Conflict
         else Inr (s\<lparr>
           st_blobs := st_blobs s @ [\<lparr>ab_tenant_id = tenant, ab_blob_id = pa_blob_id c,
             ab_backend = pa_storage_backend c, ab_storage_binding_digest = pa_storage_binding_digest c,
             ab_security_domain_digest = domain_digest, ab_object_generation = None,
             ab_encryption_domain_id = pa_encryption_domain_id c, ab_content_digest = None,
             ab_size_bytes = None, ab_state = BlobIntegrityState.Staging, ab_version = 1\<rparr>],
           st_artifacts := st_artifacts s @ [\<lparr>at_tenant_id = tenant, at_artifact_id = pa_artifact_id c,
             at_blob_id = Some (pa_blob_id c), at_purpose = pa_purpose c,
             at_classification = pa_classification c, at_expected_size_bytes = pa_expected_size_bytes c,
             at_expected_digest = pa_expected_digest c, at_declared_media_type = pa_declared_media_type c,
             at_verified_media_type = None, at_state = ArtifactState.Staging, at_version = 1,
             at_metadata = metadata, at_retention_policy_revision_id = pa_retention_policy_revision_id c,
             at_retain_until = pa_retain_until c, at_created_by = ca_principal_id (pa_audit c),
             at_created_at = now, at_updated_at = now, at_terminal_at = None\<rparr>],
           st_grants := st_grants s @ [\<lparr>ag_tenant_id = tenant, ag_upload_grant_id = pa_upload_grant_id c,
             ag_artifact_id = pa_artifact_id c, ag_state = ArtifactLinkState.Active, ag_version = 1,
             ag_snapshot = grant, ag_link_key_digest = link_key, ag_created_at = now\<rparr>]\<rparr>)))))))"

definition tx_complete_upload ::
  "ArtifactCommandLimits \<Rightarrow> ArtifactOperationRecord \<Rightarrow> CompleteArtifactUpload \<Rightarrow> artifact_store \<Rightarrow>
   TransactionError + artifact_store" where
  "tx_complete_upload limits operation c s =
     (let tenant = ca_tenant_id (cu_audit c); now = st_now s
      in rbind (command_failed (upload_validate_at c now limits)) (\<lambda>_.
         rbind (find_artifact s tenant (cu_artifact_id c)) (\<lambda>artifact.
         rbind (find_blob s tenant (cu_blob_id c)) (\<lambda>blob.
         rbind (find_grant s tenant (cu_upload_grant_id c)) (\<lambda>grant.
         rbind (command_failed (decide_complete_upload artifact blob grant operation c now)) (\<lambda>d.
         Inr ((put_artifact artifact (set_artifact_state (ud_artifact_state d) (ud_artifact_version d) now)
              (put_blob blob (\<lambda>b. b\<lparr>ab_object_generation := Some (cu_object_generation c),
                 ab_version := ud_blob_version d\<rparr>) s))
           \<lparr>st_grants := update_row grant_key (grant_key grant)
              (\<lambda>g. g\<lparr>ag_state := ud_grant_state d, ag_version := ud_grant_version d\<rparr>) (st_grants s)\<rparr>)))))))"

section \<open>Scans\<close>

definition tx_schedule_initial_scan ::
  "ArtifactOperationRecord \<Rightarrow> ScheduleInitialArtifactScan \<Rightarrow> artifact_store \<Rightarrow>
   TransactionError + artifact_store" where
  "tx_schedule_initial_scan operation c s =
     (let tenant = ca_tenant_id (si_audit c); now = st_now s
      in rbind (find_artifact s tenant (si_artifact_id c)) (\<lambda>artifact.
         rbind (find_blob s tenant (si_blob_id c)) (\<lambda>blob.
         rbind (work_failed (decide_schedule_initial_scan artifact blob operation c now)) (\<lambda>d.
         Inr (put_artifact artifact (set_artifact_state ArtifactState.Verifying (ss_artifact_version d) now) s)))))"

definition tx_schedule_rescan ::
  "ScheduleArtifactRescan \<Rightarrow> artifact_store \<Rightarrow> TransactionError + artifact_store" where
  "tx_schedule_rescan c s =
     (let tenant = ca_tenant_id (sr_audit c); now = st_now s
      in rbind (find_artifact s tenant (sr_artifact_id c)) (\<lambda>artifact.
         rbind (find_blob s tenant (sr_blob_id c)) (\<lambda>blob.
         rbind (work_failed (decide_schedule_artifact_rescan artifact blob c now)) (\<lambda>d.
         Inr (put_artifact artifact (set_artifact_state ArtifactState.Quarantined (sk_artifact_version d) now) s)))))"

text \<open>\<open>lock_and_load_reusable_blob\<close>: the first verified blob with the same content in the same security domain.\<close>

definition same_content :: "ArtifactBlobRecord \<Rightarrow> Sha256Digest \<Rightarrow> ArtifactBlobRecord \<Rightarrow> bool" where
  "same_content candidate content_digest b \<longleftrightarrow>
     ab_tenant_id b = ab_tenant_id candidate \<and> ab_backend b = ab_backend candidate
     \<and> ab_storage_binding_digest b = ab_storage_binding_digest candidate
     \<and> ab_encryption_domain_id b = ab_encryption_domain_id candidate
     \<and> ab_security_domain_digest b = ab_security_domain_digest candidate
     \<and> ab_content_digest b = Some content_digest
     \<and> ab_state b = BlobIntegrityState.Verified
     \<and> ab_blob_id b \<noteq> ab_blob_id candidate"

definition load_reusable_blob ::
  "uuid_codec \<Rightarrow> artifact_store \<Rightarrow> ArtifactBlobRecord \<Rightarrow> Sha256Digest \<Rightarrow> u64 \<Rightarrow>
   TransactionError + ArtifactBlobRecord option" where
  "load_reusable_blob uc s candidate content_digest size_bytes =
     (case sort_key (\<lambda>b. show_resource_id uc (ab_blob_id b))
         (filter (same_content candidate content_digest) (st_blobs s)) of
        [] \<Rightarrow> Inr None
      | reusable # _ \<Rightarrow>
          if ab_size_bytes reusable \<noteq> Some size_bytes then Inl CorruptRow else Inr (Some reusable))"

definition persist_scan ::
  "CommitArtifactScanOutcome \<Rightarrow> ArtifactScanDecision \<Rightarrow> ArtifactScanKind \<Rightarrow> ArtifactRecord \<Rightarrow>
   ArtifactBlobRecord \<Rightarrow> artifact_store \<Rightarrow> artifact_store" where
  "persist_scan c d kind artifact blob s =
     put_artifact artifact (\<lambda>a. a\<lparr>at_blob_id := Some (sn_artifact_blob_id d),
         at_verified_media_type := Some (se_verified_media_type (cs_evidence c)),
         at_state := sn_artifact_state d, at_version := sn_artifact_version d, at_metadata := sn_metadata d,
         at_updated_at := st_now s,
         at_terminal_at := (if sn_artifact_state d = ArtifactState.Rejected then Some (st_now s)
                            else at_terminal_at a)\<rparr>)
       (if kind = ArtifactScanKind.Initial then
          put_blob blob (\<lambda>b. b\<lparr>ab_content_digest := Some (se_content_digest (cs_evidence c)),
            ab_size_bytes := Some (se_size_bytes (cs_evidence c)), ab_state := sn_blob_state d,
            ab_version := sn_blob_version d\<rparr>) s
        else if sn_blob_version d \<noteq> ab_version blob then
          put_blob blob (set_blob_state (sn_blob_state d) (sn_blob_version d)) s
        else s)"

definition tx_commit_scan_outcome ::
  "('n, 'z) artifact_env_scheme \<Rightarrow> chrono_add \<Rightarrow> ArtifactWorkerOperationRecord \<Rightarrow> ArtifactScanJobSnapshot \<Rightarrow>
   CommitArtifactScanOutcome \<Rightarrow> artifact_store \<Rightarrow> TransactionError + artifact_store" where
  "tx_commit_scan_outcome env add operation job c s =
     (let tenant = wa_tenant_id (cs_audit c)
      in rbind (find_artifact s tenant (cs_artifact_id c)) (\<lambda>artifact.
         rbind (find_blob s tenant (cs_blob_id c)) (\<lambda>blob.
         rbind (if sj_scan_kind job = ArtifactScanKind.Initial
                then load_reusable_blob (pe_uuid env) s blob (se_content_digest (cs_evidence c))
                  (se_size_bytes (cs_evidence c))
                else Inr None) (\<lambda>reusable.
         rbind (work_failed (decide_commit_artifact_scan env add artifact blob operation reusable job c (st_now s)))
           (\<lambda>d. Inr (persist_scan c d (sj_scan_kind job) artifact blob s))))))"

definition tx_commit_blob_cleanup ::
  "('n, 'z) platform_env_scheme \<Rightarrow> ArtifactBlobCleanupSnapshot \<Rightarrow> CommitArtifactBlobCleanup \<Rightarrow>
   artifact_store \<Rightarrow> TransactionError + artifact_store" where
  "tx_commit_blob_cleanup env cleanup c s =
     rbind (find_blob s (wa_tenant_id (cb_audit c)) (cb_discarded_blob_id c)) (\<lambda>blob.
     rbind (work_failed (decide_commit_blob_cleanup env blob cleanup c (st_now s))) (\<lambda>(state, version).
     Inr (put_blob blob (set_blob_state state version) s)))"

section \<open>Links\<close>

text \<open>\<open>require_artifact_link_capacity\<close>: the links of an artifact that are not released, of every kind.\<close>

definition link_count :: "artifact_store \<Rightarrow> ResourceId \<Rightarrow> ResourceId \<Rightarrow> nat" where
  "link_count s tenant i =
     length (filter (\<lambda>g. ag_tenant_id g = tenant \<and> ag_artifact_id g = i \<and> ag_state g = ArtifactLinkState.Active)
       (st_grants s))
     + length (filter (\<lambda>(h, _). ah_tenant_id h = tenant \<and> ah_artifact_id h = i \<and> ah_released_at h = None)
       (st_holds s))
     + length (filter (\<lambda>r. af_tenant_id r = tenant \<and> af_artifact_id r = i \<and> af_released_at r = None)
       (st_references s))
     + length (filter (\<lambda>p. av_tenant_id p = tenant \<and> (av_source_artifact_id p = i \<or> av_derived_artifact_id p = i))
       (st_provenance s))"

definition require_artifact_link_capacity ::
  "ArtifactCommandLimits \<Rightarrow> artifact_store \<Rightarrow> ResourceId \<Rightarrow> ResourceId \<Rightarrow> TransactionError + unit" where
  "require_artifact_link_capacity limits s tenant i =
     (if 9223372036854775807 < al_maximum_links_per_artifact limits then Inl InvalidInput
      else fail_if (unat (al_maximum_links_per_artifact limits) \<le> link_count s tenant i) QuotaExceeded)"

definition tx_place_hold ::
  "('n, 'z) artifact_env_scheme \<Rightarrow> ArtifactCommandLimits \<Rightarrow> PlaceArtifactHold \<Rightarrow> artifact_store \<Rightarrow>
   TransactionError + artifact_store" where
  "tx_place_hold env limits c s =
     (let tenant = ca_tenant_id (ph_audit c); now = st_now s
      in rbind (command_failed (place_hold_validate_at c now)) (\<lambda>_.
         rbind (find_artifact s tenant (ph_artifact_id c)) (\<lambda>artifact.
         rbind (require_artifact_link_capacity limits s tenant (ph_artifact_id c)) (\<lambda>_.
         rbind (command_failed (decide_place_artifact_hold env artifact c now)) (\<lambda>snapshot.
         rbind (command_failed (hold_link_key_digest env snapshot)) (\<lambda>link_key.
         if link_exists s (tenant, ph_artifact_hold_id c)
           \<or> list_ex (\<lambda>(h, _). ah_tenant_id h = tenant \<and> ah_link_key_digest h = link_key
               \<and> hs_authority_principal_id (ah_snapshot h) = ca_principal_id (ph_audit c)) (st_holds s)
         then Inl Conflict
         else Inr (s\<lparr>st_holds := st_holds s @ [(\<lparr>ah_tenant_id = tenant,
           ah_artifact_hold_id = ph_artifact_hold_id c, ah_artifact_id = ph_artifact_id c,
           ah_state = ArtifactLinkState.Active, ah_version = 1, ah_snapshot = snapshot,
           ah_link_key_digest = link_key, ah_created_at = now, ah_released_at = None\<rparr>, ph_expires_at c)]\<rparr>)))))))"

definition tx_release_hold :: "ReleaseArtifactHold \<Rightarrow> artifact_store \<Rightarrow> TransactionError + artifact_store" where
  "tx_release_hold c s =
     (let tenant = ca_tenant_id (rh_audit c); now = st_now s
      in rbind (command_failed (release_hold_validate_at c now)) (\<lambda>_.
         rbind (ok_or NotFound (lookup_row hold_key (tenant, rh_artifact_hold_id c) (st_holds s))) (\<lambda>row.
         rbind (command_failed (decide_release_artifact_hold (fst row) c)) (\<lambda>(state, version).
         Inr (s\<lparr>st_holds := update_row hold_key (hold_key row)
           (\<lambda>(h, e). (h\<lparr>ah_state := state, ah_version := version, ah_released_at := Some now\<rparr>, e)) (st_holds s)\<rparr>)))))"

definition tx_release_reference ::
  "ReleaseArtifactReference \<Rightarrow> artifact_store \<Rightarrow> TransactionError + artifact_store" where
  "tx_release_reference c s =
     (let tenant = ca_tenant_id (rr_audit c); now = st_now s
      in rbind (command_failed (release_reference_validate_at c now)) (\<lambda>_.
         rbind (ok_or NotFound (lookup_row reference_key (tenant, rr_artifact_reference_id c) (st_references s)))
           (\<lambda>row.
         rbind (command_failed (decide_release_artifact_reference row c)) (\<lambda>(state, version).
         Inr (s\<lparr>st_references := update_row reference_key (reference_key row)
           (\<lambda>r. r\<lparr>af_state := state, af_version := version, af_released_at := Some now\<rparr>) (st_references s)\<rparr>)))))"

text \<open>\<open>require_acyclic_provenance\<close>: the recursive query walks the active links from the derived artifact, never
  twice through the same artifact and at most \<open>maximum_depth\<close> links far.  A path is listed backwards.\<close>

definition provenance_edges :: "artifact_store \<Rightarrow> ResourceId \<Rightarrow> (ResourceId \<times> ResourceId) list" where
  "provenance_edges s tenant =
     map (\<lambda>p. (av_source_artifact_id p, av_derived_artifact_id p))
       (filter (\<lambda>p. av_tenant_id p = tenant \<and> av_state p = ArtifactLinkState.Active) (st_provenance s))"

fun provenance_walk :: "(ResourceId \<times> ResourceId) list \<Rightarrow> nat \<Rightarrow> ResourceId list \<Rightarrow> ResourceId list list" where
  "provenance_walk edges 0 path = [path]"
| "provenance_walk edges (Suc n) path =
     path # concat (map (\<lambda>(_, t). provenance_walk edges n (t # path))
       (filter (\<lambda>(u, t). u = hd path \<and> t \<notin> set path) edges))"

definition require_acyclic_provenance ::
  "artifact_store \<Rightarrow> ResourceId \<Rightarrow> ResourceId \<Rightarrow> ResourceId \<Rightarrow> u64 \<Rightarrow> TransactionError + unit" where
  "require_acyclic_provenance s tenant source derived maximum_depth =
     (if 9223372036854775807 < maximum_depth then Inl InvalidInput
      else
        let edges = provenance_edges s tenant;
            walk = provenance_walk edges (unat maximum_depth) [derived];
            cycle = list_ex (\<lambda>path. hd path = source \<and> 1 < length path) walk;
            truncated = list_ex (\<lambda>path. length path = unat maximum_depth + 1
              \<and> list_ex (\<lambda>(u, _). u = hd path) edges) walk
        in fail_if (cycle \<or> truncated) InvalidInput)"

definition tx_create_provenance ::
  "('n, 'z) platform_env_scheme \<Rightarrow> ArtifactCommandLimits \<Rightarrow> CreateArtifactProvenance \<Rightarrow> artifact_store \<Rightarrow>
   TransactionError + artifact_store" where
  "tx_create_provenance env limits c s =
     (let tenant = ca_tenant_id (cp_audit c); now = st_now s;
          source_id = cp_source_artifact_id c; derived_id = cp_derived_artifact_id c
      in rbind (command_failed (create_provenance_validate_at c now)) (\<lambda>_.
         rbind (find_artifact s tenant source_id) (\<lambda>source.
         rbind (find_artifact s tenant derived_id) (\<lambda>derived.
         rbind (check_all (require_artifact_link_capacity limits s tenant) [source_id, derived_id]) (\<lambda>_.
         rbind (require_acyclic_provenance s tenant source_id derived_id
           (al_maximum_provenance_depth limits)) (\<lambda>_.
         rbind (command_failed (decide_create_artifact_provenance env source derived c)) (\<lambda>snapshot.
         rbind (command_failed (provenance_link_key_digest env snapshot)) (\<lambda>link_key.
         if link_exists s (tenant, cp_provenance_link_id c)
           \<or> list_ex (\<lambda>p. av_tenant_id p = tenant \<and> av_link_key_digest p = link_key
               \<and> vs_producer_owner_id (av_snapshot p) = cp_producer_owner_id c) (st_provenance s)
         then Inl Conflict
         else Inr (s\<lparr>st_provenance := st_provenance s @ [\<lparr>av_tenant_id = tenant,
           av_provenance_link_id = cp_provenance_link_id c, av_source_artifact_id = source_id,
           av_derived_artifact_id = derived_id, av_state = ArtifactLinkState.Active, av_version = 1,
           av_snapshot = snapshot, av_link_key_digest = link_key, av_created_at = now\<rparr>]\<rparr>)))))))))"

section \<open>Deletion\<close>

definition blob_aliases :: "uuid_codec \<Rightarrow> artifact_store \<Rightarrow> ResourceId \<Rightarrow> ResourceId \<Rightarrow> ArtifactRecord list" where
  "blob_aliases uc s tenant blob_id =
     sort_key (\<lambda>a. show_resource_id uc (at_artifact_id a))
       (filter (\<lambda>a. at_tenant_id a = tenant \<and> at_blob_id a = Some blob_id) (st_artifacts s))"

text \<open>\<open>artifact_deletion_link_facts\<close>: the active links that have not expired; a grant counts as a reference.  A
  count of rows is a \<open>bigint\<close>.\<close>

definition row_count :: "nat \<Rightarrow> u64" where
  "row_count n = of_nat (min n 9223372036854775807)"

lemma row_count_eq_0 [simp]: "row_count n = 0 \<longleftrightarrow> n = 0"
proof -
  have "min n 9223372036854775807 < 2 ^ 64" by (simp add: min_def)
  then have "unat (row_count n) = min n 9223372036854775807"
    by (simp add: row_count_def unat_of_nat)
  then show ?thesis by (auto simp: unat_eq_zero [symmetric] min_def split: if_splits)
qed

definition live_references :: "artifact_store \<Rightarrow> ResourceId \<Rightarrow> ResourceId \<Rightarrow> nat" where
  "live_references s tenant i =
     length (filter (\<lambda>g. ag_tenant_id g = tenant \<and> ag_artifact_id g = i \<and> ag_state g = ArtifactLinkState.Active
         \<and> st_now s < ug_expires_at (ag_snapshot g)) (st_grants s))
     + length (filter (\<lambda>r. af_tenant_id r = tenant \<and> af_artifact_id r = i \<and> af_state r = ArtifactLinkState.Active
         \<and> af_released_at r = None) (st_references s))"

definition active_hold :: "artifact_store \<Rightarrow> ResourceId \<Rightarrow> ResourceId \<Rightarrow> ArtifactHoldRecord \<times> instant option \<Rightarrow> bool" where
  "active_hold s tenant i = (\<lambda>(h, expires_at). ah_tenant_id h = tenant \<and> ah_artifact_id h = i
     \<and> ah_state h = ArtifactLinkState.Active \<and> ah_released_at h = None
     \<and> none_or expires_at (\<lambda>t. st_now s < t))"

definition provenance_links :: "artifact_store \<Rightarrow> ResourceId \<Rightarrow> ResourceId \<Rightarrow> nat" where
  "provenance_links s tenant i =
     length (filter (\<lambda>p. av_tenant_id p = tenant \<and> av_state p = ArtifactLinkState.Active
         \<and> (av_source_artifact_id p = i \<or> av_derived_artifact_id p = i)) (st_provenance s))"

definition deletion_facts ::
  "artifact_store \<Rightarrow> ArtifactRetentionPolicy \<Rightarrow> bool \<Rightarrow> bool \<Rightarrow> ResourceId \<Rightarrow> ResourceId \<Rightarrow>
   ArtifactDeletionAdmissionFacts" where
  "deletion_facts s policy required satisfied tenant i =
     \<lparr>da_approval_required = required, da_approval_satisfied = satisfied,
      da_gc_grace_seconds = rp_gc_grace_seconds policy,
      da_live_reference_count = row_count (live_references s tenant i),
      da_active_hold_count = row_count (length (filter (active_hold s tenant i) (st_holds s))),
      da_blocking_provenance_count =
        (if rp_retain_provenance_sources policy then row_count (provenance_links s tenant i) else 0)\<rparr>"

definition live_alias :: "ArtifactRecord list \<Rightarrow> ResourceId \<Rightarrow> ArtifactRecord option" where
  "live_alias aliases i = List.find (\<lambda>a. at_artifact_id a \<noteq> i \<and> at_state a \<noteq> ArtifactState.Deleted) aliases"

definition persist_mark ::
  "MarkArtifactDeletionDecision \<Rightarrow> ArtifactRecord \<Rightarrow> ArtifactBlobRecord \<Rightarrow> artifact_store \<Rightarrow> artifact_store" where
  "persist_mark d artifact blob s =
     put_artifact artifact (set_artifact_state (mm_artifact_state d) (mm_artifact_version d) (st_now s))
       (if mm_blob_version d \<noteq> ab_version blob then
          put_blob blob (set_blob_state (mm_blob_state d) (mm_blob_version d)) s
        else s)"

text \<open>\<open>approval\<close> is what \<open>require_deletion_approval\<close> found for the named task: no such task, or whether it
  approves.  A deletion that first needs an approval asks for it and leaves the artifact alone.\<close>

definition tx_mark_deletion ::
  "('n, 'z) platform_env_scheme \<Rightarrow> chrono_add \<Rightarrow> ArtifactRetentionPolicy \<Rightarrow> bool option \<Rightarrow>
   MarkArtifactDeletion \<Rightarrow> artifact_store \<Rightarrow> TransactionError + artifact_store" where
  "tx_mark_deletion env add policy approval c s =
     (let tenant = ca_tenant_id (mk_audit c); now = st_now s
      in rbind (command_failed (mark_validate_at c now)) (\<lambda>_.
         rbind (find_blob s tenant (mk_blob_id c)) (\<lambda>blob.
         let aliases = blob_aliases (pe_uuid env) s tenant (mk_blob_id c)
         in rbind (ok_or NotFound (List.find (\<lambda>a. at_artifact_id a = mk_artifact_id c) aliases)) (\<lambda>artifact.
         if list_ex (\<lambda>a. at_artifact_id a \<noteq> mk_artifact_id c \<and> at_state a = ArtifactState.Deleting) aliases
         then Inl Conflict
         else
           let satisfied = (if rp_delete_requires_approval policy \<and> approval \<noteq> None then approval = Some True
                            else \<not> rp_delete_requires_approval policy);
               create_approval = (rp_delete_requires_approval policy \<and> approval = None)
           in if create_approval \<and> mk_approval_task_id c = None then Inl InvalidInput
              else
                rbind (command_failed (decide_mark_artifact_deletion env add artifact blob
                  (live_alias aliases (mk_artifact_id c))
                  (deletion_facts s policy (rp_delete_requires_approval policy) (satisfied \<or> create_approval)
                    tenant (mk_artifact_id c)) c now)) (\<lambda>d.
                Inr (if create_approval then s else persist_mark d artifact blob s))))))"

text \<open>\<open>resolve_artifact_deletion_approval\<close> with an approval: the deletion is decided again, and has to be in the
  mode that was asked for.\<close>

definition tx_approve_deletion ::
  "('n, 'z) platform_env_scheme \<Rightarrow> chrono_add \<Rightarrow> ArtifactRetentionPolicy \<Rightarrow> ArtifactDeletionMode \<Rightarrow>
   MarkArtifactDeletion \<Rightarrow> artifact_store \<Rightarrow> TransactionError + artifact_store" where
  "tx_approve_deletion env add policy mode c s =
     (let tenant = ca_tenant_id (mk_audit c)
      in rbind (find_blob s tenant (mk_blob_id c)) (\<lambda>blob.
         let aliases = blob_aliases (pe_uuid env) s tenant (mk_blob_id c)
         in rbind (ok_or NotFound (List.find (\<lambda>a. at_artifact_id a = mk_artifact_id c) aliases)) (\<lambda>artifact.
         if at_version artifact \<noteq> mk_expected_artifact_version c then Inl Conflict
         else
           rbind (command_failed (decide_mark_artifact_deletion env add artifact blob
             (live_alias aliases (mk_artifact_id c))
             (deletion_facts s policy True True tenant (mk_artifact_id c))
             (c\<lparr>mk_expected_blob_version := ab_version blob\<rparr>) (st_now s))) (\<lambda>d.
           if mm_mode d \<noteq> mode then Inl Conflict else Inr (persist_mark d artifact blob s)))))"

definition tx_complete_deletion ::
  "uuid_codec \<Rightarrow> ArtifactDeletionRecord \<Rightarrow> CompleteArtifactDeletion \<Rightarrow> artifact_store \<Rightarrow>
   TransactionError + artifact_store" where
  "tx_complete_deletion uc deletion c s =
     (let tenant = wa_tenant_id (cd_audit c); now = st_now s
      in rbind (command_failed (complete_deletion_validate_at c now)) (\<lambda>_.
         rbind (find_blob s tenant (cd_blob_id c)) (\<lambda>blob.
         rbind (find_artifact s tenant (cd_artifact_id c)) (\<lambda>artifact.
         let aliases = blob_aliases uc s tenant (cd_blob_id c);
             alias_witness =
               (case cd_evidence c of
                  OnlyEvidence i _ \<Rightarrow> List.find (\<lambda>a. at_artifact_id a = i) aliases
                | GenerationEvidence _ _ _ \<Rightarrow> live_alias aliases (cd_artifact_id c))
         in rbind (command_failed (decide_complete_artifact_deletion artifact blob deletion alias_witness c)) (\<lambda>d.
            Inr (put_artifact artifact (\<lambda>a. (set_artifact_state (dd_artifact_state d) (dd_artifact_version d) now a)
                \<lparr>at_terminal_at := Some now\<rparr>)
              (if dd_blob_version d \<noteq> ab_version blob then
                 put_blob blob (set_blob_state (dd_blob_state d) (dd_blob_version d)) s
               else s)))))))"

section \<open>Finalizing and recovering\<close>

definition tx_finalize_artifact ::
  "('n, 'z) platform_env_scheme \<Rightarrow> ArtifactCommandLimits \<Rightarrow> ArtifactOperationRecord \<Rightarrow> FinalizeArtifact \<Rightarrow>
   artifact_store \<Rightarrow> TransactionError + artifact_store" where
  "tx_finalize_artifact env limits operation c s =
     (let tenant = ca_tenant_id (fz_audit c); now = st_now s
      in rbind (command_failed (finalize_validate_at c now limits)) (\<lambda>_.
         rbind (find_artifact s tenant (fz_artifact_id c)) (\<lambda>artifact.
         rbind (find_blob s tenant (fz_blob_id c)) (\<lambda>blob.
         rbind (find_grant s tenant (fz_upload_grant_id c)) (\<lambda>grant.
         rbind (command_failed (decide_finalize_artifact env artifact blob grant operation c)) (\<lambda>d.
         rbind (command_failed (reference_link_key_digest env (fd_reference d))) (\<lambda>link_key.
         if link_exists s (tenant, fz_artifact_reference_id c)
           \<or> list_ex (\<lambda>r. af_tenant_id r = tenant \<and> af_link_key_digest r = link_key
               \<and> rs_owner_id (af_snapshot r) = fz_operation_id c) (st_references s)
         then Inl Conflict
         else Inr ((put_artifact artifact (set_artifact_state (fd_artifact_state d) (fd_artifact_version d) now) s)
           \<lparr>st_references := st_references s @ [\<lparr>af_tenant_id = tenant,
             af_artifact_reference_id = fz_artifact_reference_id c, af_artifact_id = fz_artifact_id c,
             af_state = ArtifactLinkState.Active, af_version = 1, af_snapshot = fd_reference d,
             af_link_key_digest = link_key, af_created_at = now, af_released_at = None\<rparr>]\<rparr>))))))))"

text \<open>The recovery of a scan attempt: the guards of \<open>lock_artifact_recovery_parents\<close>, then
  \<open>persist_artifact_recovery_parent_action\<close>.\<close>

definition lock_scan_parents ::
  "artifact_store \<Rightarrow> ResourceId \<Rightarrow> JobState \<Rightarrow> u64 \<Rightarrow> ArtifactScanJobSnapshot \<Rightarrow>
   TransactionError + (ArtifactRecord \<times> LockedArtifactRecoveryParents)" where
  "lock_scan_parents s tenant operation_state operation_version scan =
     rbind (find_artifact s tenant (sj_artifact_id scan)) (\<lambda>artifact.
     rbind (ok_or CorruptRow (at_blob_id artifact)) (\<lambda>active_blob_id.
     rbind (find_blob s tenant active_blob_id) (\<lambda>blob.
     if operation_state \<in> {JobState.Ready, JobState.Leased, JobState.Running, JobState.RetryScheduled}
       \<and> (at_version artifact \<noteq> sj_expected_artifact_version scan
            \<or> ab_version blob \<noteq> sj_expected_blob_version scan)
     then Inl CorruptRow
     else if active_blob_id \<noteq> sj_blob_id scan then Inl Conflict
     else if operation_state \<noteq> JobState.Running
       \<or> at_state artifact \<noteq> scanned_artifact_state (sj_scan_kind scan)
       \<or> ab_object_generation blob \<noteq> Some (sj_object_generation scan)
       \<or> ab_state blob \<noteq> scanned_blob_state (sj_scan_kind scan)
     then Inl Conflict
     else Inr (artifact, \<lparr>lr_artifact_state = Some (at_state artifact),
       lr_artifact_version = Some (at_version artifact), lr_blob_state = ab_state blob,
       lr_blob_version = ab_version blob, lr_operation_state = Some operation_state,
       lr_operation_version = Some operation_version\<rparr>))))"

definition tx_recover_scan ::
  "ResourceId \<Rightarrow> JobState \<Rightarrow> u64 \<Rightarrow> ArtifactJobPayload \<Rightarrow> ArtifactScanJobSnapshot \<Rightarrow>
   ArtifactRecoveryParentAction \<Rightarrow> artifact_store \<Rightarrow> TransactionError + artifact_store" where
  "tx_recover_scan tenant operation_state operation_version payload scan action s =
     rbind (lock_scan_parents s tenant operation_state operation_version scan) (\<lambda>(artifact, parents).
     rbind (map_sum RepositoryFailed id (persist_artifact_recovery_parent_action payload parents action))
       (\<lambda>(state, version).
     Inr (case (state, version) of
         (Some state, Some version) \<Rightarrow>
           (if state \<noteq> at_state artifact
            then put_artifact artifact (set_artifact_state state version (st_now s)) s else s)
       | _ \<Rightarrow> s)))"

end
