(* ===== verification/ArtifactEffects.thy ===== *)
theory ArtifactEffects
  imports ArtifactStore
begin

text \<open>
  What an accepted decision on an artifact says of the rows it was taken on, and what the transaction around it
  does to the tables: every one of them appends rows, adds or releases links, or moves one artifact and the blob it
  names through one of ten changes.
\<close>

section \<open>Accepted decisions\<close>

lemmas accepted_simps = result_simps next_version_def artifact_increment_def

lemma upload_accepted:
  assumes "decide_complete_upload artifact blob grant operation c now = Inr d"
  shows "at_state artifact = ArtifactState.Staging" "ab_state blob = BlobIntegrityState.Staging"
    "at_blob_id artifact = Some (ab_blob_id blob)" "at_tenant_id artifact = ab_tenant_id blob"
    "ag_state grant = ArtifactLinkState.Active" "now < ug_expires_at (ag_snapshot grant)"
    "ud_artifact_state d = ArtifactState.Uploaded" "at_version artifact < ud_artifact_version d"
    "ab_version blob < ud_blob_version d" "ud_grant_state d = ArtifactLinkState.Consumed"
  using assms
  by (auto simp: decide_complete_upload_def accepted_simps dest: checked_add_one)

lemma initial_scan_accepted:
  assumes "decide_schedule_initial_scan artifact blob operation c now = Inr d"
  shows "at_state artifact = ArtifactState.Uploaded" "ab_state blob = BlobIntegrityState.Staging"
    "at_blob_id artifact = Some (ab_blob_id blob)" "at_tenant_id artifact = ab_tenant_id blob"
    "at_version artifact < ss_artifact_version d"
  using assms
  by (auto simp: decide_schedule_initial_scan_def accepted_simps Let_def dest: checked_add_one)

lemma rescan_accepted:
  assumes "decide_schedule_artifact_rescan artifact blob c now = Inr d"
  shows "at_state artifact = ArtifactState.Ready" "ab_state blob = BlobIntegrityState.Verified"
    "at_blob_id artifact = Some (ab_blob_id blob)" "at_tenant_id artifact = ab_tenant_id blob"
    "at_version artifact < sk_artifact_version d"
  using assms
  by (auto simp: decide_schedule_artifact_rescan_def accepted_simps Let_def dest: checked_add_one)

lemma hold_accepted:
  assumes "decide_place_artifact_hold env artifact c now = Inr h"
  shows "at_state artifact \<notin> {ArtifactState.Deleting, ArtifactState.Deleted}"
    "at_artifact_id artifact = ph_artifact_id c" "at_tenant_id artifact = ca_tenant_id (ph_audit c)"
    "hs_artifact_id h = ph_artifact_id c"
  using assms
  by (auto simp: decide_place_artifact_hold_def accepted_simps Let_def place_hold_snapshot_def)

lemma provenance_accepted:
  assumes "decide_create_artifact_provenance env source derived c = Inr p"
  shows "at_state source = ArtifactState.Ready" "at_state derived = ArtifactState.Ready"
    "classification_rank (at_classification source) \<le> classification_rank (at_classification derived)"
  using assms
  by (auto simp: decide_create_artifact_provenance_def accepted_simps Let_def not_less)

lemma marked_blob_accepted:
  assumes "marked_blob blob mode = Inr (state, version)"
  shows "(\<exists>i v. mode = ArtifactOnly i v) \<and> state = ab_state blob \<and> version = ab_version blob
     \<or> (\<exists>g. mode = BlobGeneration g) \<and> state = BlobIntegrityState.Deleting \<and> ab_version blob < version"
  using assms
  by (cases mode) (auto simp: marked_blob_def accepted_simps dest: checked_add_one)

lemma mark_accepted:
  assumes "decide_mark_artifact_deletion env add artifact blob live facts c now = Inr d"
  shows "\<not> deletion_blocked artifact blob facts c" "deletion_mode artifact blob live = Inr (mm_mode d)"
    "at_blob_id artifact = Some (ab_blob_id blob)" "at_tenant_id artifact = ab_tenant_id blob"
    "mm_artifact_state d = ArtifactState.Deleting" "at_version artifact < mm_artifact_version d"
    "marked_blob blob (mm_mode d) = Inr (mm_blob_state d, mm_blob_version d)"
    "\<exists>eligible. add (at_retain_until artifact) (uint (da_gc_grace_seconds facts) * 1000000000) = Some eligible
       \<and> eligible \<le> now"
    "da_gc_grace_seconds facts \<noteq> 0"
  using assms
  by (auto simp: decide_mark_artifact_deletion_def accepted_simps Let_def not_less duration_seconds_def
      dest: checked_add_one)

lemma complete_deletion_accepted:
  assumes "decide_complete_artifact_deletion artifact blob deletion witness c = Inr d"
  shows "at_state artifact = ArtifactState.Deleting" "at_blob_id artifact = Some (ab_blob_id blob)"
    "at_tenant_id artifact = ab_tenant_id blob"
    "dd_artifact_state d = ArtifactState.Deleted" "at_version artifact < dd_artifact_version d"
    "deleted_blob artifact blob (ad_mode deletion) witness (cd_evidence c) = Inr (dd_blob_state d, dd_blob_version d)"
  using assms
  by (auto simp: decide_complete_artifact_deletion_def accepted_simps dest: checked_add_one)

lemma deleted_blob_accepted:
  assumes "deleted_blob artifact blob mode witness evidence = Inr (state, version)"
  shows "state = ab_state blob \<and> version = ab_version blob
     \<or> ab_state blob = BlobIntegrityState.Deleting \<and> state = BlobIntegrityState.Deleted \<and> ab_version blob < version"
  using assms
  by (auto simp: deleted_blob_def accepted_simps
      split: ArtifactDeletionMode.splits ArtifactDeletionEvidence.splits if_splits dest: checked_add_one)

lemma finalize_accepted:
  assumes "decide_finalize_artifact env artifact blob grant operation c = Inr d"
  shows "at_state artifact = ArtifactState.Verified" "ab_state blob = BlobIntegrityState.Verified"
    "at_blob_id artifact = Some (ab_blob_id blob)" "at_tenant_id artifact = ab_tenant_id blob"
    "fd_artifact_state d = ArtifactState.Ready" "at_version artifact < fd_artifact_version d"
    "verified_evidence_matches artifact blob c" "rs_artifact_id (fd_reference d) = at_artifact_id artifact"
  using assms
  by (auto simp: decide_finalize_artifact_def accepted_simps Let_def reference_snapshot_def
      require_artifact_operation_identity_def dest: checked_add_one)

lemma cleanup_accepted:
  assumes "decide_commit_blob_cleanup env blob cleanup c now = Inr (state, version)"
  shows "ab_state blob = BlobIntegrityState.Deleting" "state = BlobIntegrityState.Deleted" "ab_version blob < version"
  using assms
  by (auto simp: decide_commit_blob_cleanup_def accepted_simps dest: checked_add_one)

lemma metadata_with_verification:
  "with_current_verification m v = Inr m' \<Longrightarrow> md_current_verification m' = Some v"
  by (auto simp: with_current_verification_def result_simps Let_def)

lemma scan_accepted:
  assumes "decide_commit_artifact_scan env add artifact blob operation reusable job c now = Inr d"
  defines "evidence \<equiv> cs_evidence c" and "kind \<equiv> sj_scan_kind job"
  shows "at_blob_id artifact = Some (ab_blob_id blob)" "at_tenant_id artifact = ab_tenant_id blob"
    "at_state artifact = scanned_artifact_state kind" "ab_state blob = scanned_blob_state kind"
    "sn_artifact_state d = fst (scan_outcome_states kind (se_disposition evidence))"
    "artifact_state_can_transition_to (at_state artifact) (sn_artifact_state d)"
    "scanned_blob env artifact blob reusable job evidence =
       Inr (sn_artifact_blob_id d, sn_blob_state d, sn_blob_version d, sn_duplicate_blob_cleanup d)"
    "md_current_verification (sn_metadata d) = Some (evidence_current evidence)"
    "at_version artifact < sn_artifact_version d"
    "se_disposition evidence \<noteq> ArtifactScanDisposition.Rejected \<Longrightarrow> matches_intent artifact evidence"
    "kind = ArtifactScanKind.Rescan \<Longrightarrow> se_disposition evidence \<noteq> ArtifactScanDisposition.Corrupt \<Longrightarrow>
       matches_current artifact blob evidence"
  using assms
  by (auto simp: decide_commit_artifact_scan_def accepted_simps Let_def scan_mismatch_def case_prod_beta
      dest: checked_add_one metadata_with_verification)

lemma scanned_blob_accepted:
  assumes "scanned_blob env artifact blob reusable job evidence = Inr (i, state, version, cleanup)"
    and "ab_state blob = scanned_blob_state (sj_scan_kind job)"
  obtains (kept) "sj_scan_kind job = ArtifactScanKind.Initial" "reusable = None" "i = ab_blob_id blob"
      "state = BlobIntegrityState.Verified" "ab_version blob < version"
    | (reused) r where "sj_scan_kind job = ArtifactScanKind.Initial" "reusable = Some r" "i = ab_blob_id r"
      "state = BlobIntegrityState.Deleting" "ab_version blob < version"
      "ab_size_bytes r = Some (se_size_bytes evidence)"
    | (same) "sj_scan_kind job = ArtifactScanKind.Rescan" "i = ab_blob_id blob"
      "se_disposition evidence \<noteq> ArtifactScanDisposition.Corrupt"
      "state = ab_state blob" "version = ab_version blob"
    | (corrupt) "sj_scan_kind job = ArtifactScanKind.Rescan" "i = ab_blob_id blob"
      "se_disposition evidence = ArtifactScanDisposition.Corrupt"
      "state = BlobIntegrityState.Corrupt" "ab_version blob < version"
proof (cases "sj_scan_kind job")
  case Initial
  then show ?thesis using assms(1) kept reused
    by (auto simp: scanned_blob_def accepted_simps Let_def validate_reusable_blob_def split: option.splits
        dest: checked_add_one)
next
  case Rescan
  then show ?thesis using assms same corrupt
    by (auto simp: scanned_blob_def accepted_simps Let_def split: if_splits dest: checked_add_one)
qed

section \<open>Changes of an artifact and its blob\<close>

definition owns :: "ArtifactRecord \<Rightarrow> ArtifactBlobRecord \<Rightarrow> bool" where
  "owns a b \<longleftrightarrow> at_tenant_id a = ab_tenant_id b \<and> at_blob_id a = Some (ab_blob_id b)"

text \<open>What was verified of an artifact is what its blob holds and what its upload declared.\<close>

definition content_verified :: "ArtifactRecord \<Rightarrow> ArtifactBlobRecord \<Rightarrow> bool" where
  "content_verified a b \<longleftrightarrow>
     (case md_current_verification (at_metadata a) of
        None \<Rightarrow> False
      | Some v \<Rightarrow>
          cv_disposition v = ArtifactScanDisposition.Verified
          \<and> ab_content_digest b = Some (cv_content_digest v) \<and> ab_size_bytes b = Some (cv_size_bytes v)
          \<and> cv_size_bytes v = at_expected_size_bytes a
          \<and> none_or (at_expected_digest a) (\<lambda>d. d = cv_content_digest v))"

definition same_artifact :: "ArtifactRecord \<Rightarrow> ArtifactRecord \<Rightarrow> bool" where
  "same_artifact a a' \<longleftrightarrow>
     artifact_key a' = artifact_key a \<and> at_classification a' = at_classification a
     \<and> at_expected_size_bytes a' = at_expected_size_bytes a \<and> at_expected_digest a' = at_expected_digest a
     \<and> at_retain_until a' = at_retain_until a \<and> at_created_by a' = at_created_by a"

definition same_blob :: "ArtifactBlobRecord \<Rightarrow> ArtifactBlobRecord \<Rightarrow> bool" where
  "same_blob b b' \<longleftrightarrow>
     blob_key b' = blob_key b \<and> ab_backend b' = ab_backend b
     \<and> ab_storage_binding_digest b' = ab_storage_binding_digest b
     \<and> ab_security_domain_digest b' = ab_security_domain_digest b
     \<and> ab_encryption_domain_id b' = ab_encryption_domain_id b"

text \<open>No link that has not expired protects the artifact.\<close>

definition unprotected :: "artifact_store \<Rightarrow> ArtifactRecord \<Rightarrow> bool" where
  "unprotected s a \<longleftrightarrow>
     live_references s (at_tenant_id a) (at_artifact_id a) = 0
     \<and> filter (active_hold s (at_tenant_id a) (at_artifact_id a)) (st_holds s) = []"

definition scanned_content :: "Sha256Digest \<Rightarrow> u64 \<Rightarrow> BlobIntegrityState \<Rightarrow> u64 \<Rightarrow> ArtifactBlobRecord \<Rightarrow> ArtifactBlobRecord" where
  "scanned_content digest bytes state version b =
     b\<lparr>ab_content_digest := Some digest, ab_size_bytes := Some bytes, ab_state := state, ab_version := version\<rparr>"

inductive artifact_change ::
  "artifact_store \<Rightarrow> ArtifactRecord \<Rightarrow> ArtifactBlobRecord \<Rightarrow> ArtifactRecord \<Rightarrow> ArtifactBlobRecord \<Rightarrow> bool"
  for s where
  ch_uploaded:
    "at_state a = ArtifactState.Staging \<Longrightarrow> ab_state b = BlobIntegrityState.Staging \<Longrightarrow>
     ab_version b < w \<Longrightarrow>
     artifact_change s a b (set_artifact_state ArtifactState.Uploaded v now a)
       (b\<lparr>ab_object_generation := Some g, ab_version := w\<rparr>)"
| ch_verifying:
    "at_state a = ArtifactState.Uploaded \<Longrightarrow> ab_state b = BlobIntegrityState.Staging \<Longrightarrow>
     artifact_change s a b (set_artifact_state ArtifactState.Verifying v now a) b"
| ch_scanned:
    "at_state a = ArtifactState.Verifying \<Longrightarrow> ab_state b = BlobIntegrityState.Staging \<Longrightarrow> ab_version b < w \<Longrightarrow>
     same_artifact a a' \<Longrightarrow> at_blob_id a' = at_blob_id a \<Longrightarrow>
     at_state a' \<in> {ArtifactState.Verified, ArtifactState.Quarantined, ArtifactState.Rejected} \<Longrightarrow>
     filter (same_content b digest) (st_blobs s) = [] \<Longrightarrow>
     (at_state a' = ArtifactState.Verified \<Longrightarrow>
       content_verified a' (scanned_content digest bytes BlobIntegrityState.Verified w b)) \<Longrightarrow>
     artifact_change s a b a' (scanned_content digest bytes BlobIntegrityState.Verified w b)"
| ch_reused:
    "at_state a = ArtifactState.Verifying \<Longrightarrow> ab_state b = BlobIntegrityState.Staging \<Longrightarrow> ab_version b < w \<Longrightarrow>
     same_artifact a a' \<Longrightarrow> r \<in> set (st_blobs s) \<Longrightarrow> same_content b digest r \<Longrightarrow>
     at_blob_id a' = Some (ab_blob_id r) \<Longrightarrow>
     at_state a' \<in> {ArtifactState.Verified, ArtifactState.Quarantined, ArtifactState.Rejected} \<Longrightarrow>
     (at_state a' = ArtifactState.Verified \<Longrightarrow> content_verified a' r) \<Longrightarrow>
     artifact_change s a b a' (scanned_content digest bytes BlobIntegrityState.Deleting w b)"
| ch_rescan:
    "at_state a = ArtifactState.Ready \<Longrightarrow> ab_state b = BlobIntegrityState.Verified \<Longrightarrow>
     artifact_change s a b (set_artifact_state ArtifactState.Quarantined v now a) b"
| ch_rescanned:
    "at_state a = ArtifactState.Quarantined \<Longrightarrow> ab_state b = BlobIntegrityState.Verified \<Longrightarrow>
     same_artifact a a' \<Longrightarrow> at_blob_id a' = at_blob_id a \<Longrightarrow>
     at_state a' \<in> {ArtifactState.Ready, ArtifactState.Rejected, ArtifactState.Corrupt} \<Longrightarrow>
     (at_state a' = ArtifactState.Ready \<Longrightarrow> content_verified a' b) \<Longrightarrow>
     b' = b \<or> (ab_version b < w \<and> b' = set_blob_state BlobIntegrityState.Corrupt w b) \<Longrightarrow>
     artifact_change s a b a' b'"
| ch_deleting:
    "at_state a \<in> {ArtifactState.Ready, ArtifactState.Rejected, ArtifactState.Quarantined, ArtifactState.Corrupt} \<Longrightarrow>
     ab_state b \<in> {BlobIntegrityState.Verified, BlobIntegrityState.Corrupt} \<Longrightarrow> unprotected s a \<Longrightarrow>
     b' = b \<or> (ab_version b < w \<and> b' = set_blob_state BlobIntegrityState.Deleting w b
        \<and> (\<forall>x \<in> set (st_artifacts s). owns x b \<longrightarrow> artifact_key x \<noteq> artifact_key a \<longrightarrow>
              at_state x = ArtifactState.Deleted)) \<Longrightarrow>
     artifact_change s a b (set_artifact_state ArtifactState.Deleting v now a) b'"
| ch_deleted:
    "at_state a = ArtifactState.Deleting \<Longrightarrow>
     b' = b \<or> (ab_state b = BlobIntegrityState.Deleting \<and> ab_version b < w
        \<and> b' = set_blob_state BlobIntegrityState.Deleted w b) \<Longrightarrow>
     artifact_change s a b ((set_artifact_state ArtifactState.Deleted v now a)\<lparr>at_terminal_at := Some now\<rparr>) b'"
| ch_ready:
    "at_state a = ArtifactState.Verified \<Longrightarrow> ab_state b = BlobIntegrityState.Verified \<Longrightarrow>
     artifact_change s a b (set_artifact_state ArtifactState.Ready v now a) b"
| ch_recovered:
    "at_state a = ArtifactState.Verifying \<Longrightarrow> ab_state b = BlobIntegrityState.Staging \<Longrightarrow>
     artifact_change s a b (set_artifact_state ArtifactState.Quarantined v now a) b"

text \<open>The tables after a change of the artifact \<open>a\<close> and its blob \<open>b\<close>.\<close>

definition changed_rows ::
  "artifact_store \<Rightarrow> artifact_store \<Rightarrow> ArtifactRecord \<Rightarrow> ArtifactBlobRecord \<Rightarrow> ArtifactRecord \<Rightarrow>
   ArtifactBlobRecord \<Rightarrow> bool" where
  "changed_rows s t a b a' b' \<longleftrightarrow>
     a \<in> set (st_artifacts s) \<and> b \<in> set (st_blobs s) \<and> owns a b \<and> at_version a < at_version a'
     \<and> st_artifacts t = update_row artifact_key (artifact_key a) (\<lambda>_. a') (st_artifacts s)
     \<and> st_blobs t = update_row blob_key (blob_key b) (\<lambda>_. b') (st_blobs s)
     \<and> st_now t = st_now s \<and> st_holds t = st_holds s \<and> st_provenance t = st_provenance s"

definition keys_sound :: "artifact_store \<Rightarrow> bool" where
  "keys_sound s \<longleftrightarrow> distinct (map artifact_key (st_artifacts s)) \<and> distinct (map blob_key (st_blobs s))"

lemma same_artifact_set_state [simp]:
  "same_artifact a (set_artifact_state state v now a)" "same_artifact a (a\<lparr>at_terminal_at := u\<rparr>)"
  by (simp_all add: same_artifact_def set_artifact_state_def artifact_key_def)

lemma same_blob_simps [simp]:
  "same_blob b b" "same_blob b (set_blob_state state w b)" "same_blob b (scanned_content digest bytes state w b)"
  "same_blob b (b\<lparr>ab_object_generation := g, ab_version := w\<rparr>)"
  by (simp_all add: same_blob_def set_blob_state_def scanned_content_def blob_key_def)

lemma change_keeps_artifact: "artifact_change s a b a' b' \<Longrightarrow> same_artifact a a'"
  by (induction rule: artifact_change.induct)
    (simp_all add: same_artifact_def set_artifact_state_def artifact_key_def)

lemma change_keeps_blob: "artifact_change s a b a' b' \<Longrightarrow> same_blob b b'"
  by (induction rule: artifact_change.induct) auto

end
