(* ===== verification/ArtifactSteps.thy ===== *)
theory ArtifactSteps
  imports ArtifactEffects
begin

text \<open>
  Histories of stored artifacts: a step is a transaction on the tables, or the database clock moving on.  The job
  rows a transaction loaded are arbitrary, so what is proved of a history holds whatever the job authority did.
\<close>

section \<open>Steps\<close>

inductive artifact_step ::
  "('n, 'z) artifact_env_scheme \<Rightarrow> chrono_add \<Rightarrow> ArtifactCommandLimits \<Rightarrow> artifact_store \<Rightarrow> artifact_store \<Rightarrow> bool"
  for env add limits where
  step_clock: "st_now s \<le> now \<Longrightarrow> artifact_step env add limits s (s\<lparr>st_now := now\<rparr>)"
| step_prepare: "tx_prepare_artifact env limits c s = Inr t \<Longrightarrow> artifact_step env add limits s t"
| step_upload: "tx_complete_upload limits operation c s = Inr t \<Longrightarrow> artifact_step env add limits s t"
| step_initial_scan: "tx_schedule_initial_scan operation c s = Inr t \<Longrightarrow> artifact_step env add limits s t"
| step_rescan: "tx_schedule_rescan c s = Inr t \<Longrightarrow> artifact_step env add limits s t"
| step_commit_scan: "tx_commit_scan_outcome env add operation job c s = Inr t \<Longrightarrow> artifact_step env add limits s t"
| step_cleanup: "tx_commit_blob_cleanup env cleanup c s = Inr t \<Longrightarrow> artifact_step env add limits s t"
| step_place_hold: "tx_place_hold env limits c s = Inr t \<Longrightarrow> artifact_step env add limits s t"
| step_release_hold: "tx_release_hold c s = Inr t \<Longrightarrow> artifact_step env add limits s t"
| step_release_reference: "tx_release_reference c s = Inr t \<Longrightarrow> artifact_step env add limits s t"
| step_provenance: "tx_create_provenance env limits c s = Inr t \<Longrightarrow> artifact_step env add limits s t"
| step_mark: "tx_mark_deletion env add policy approval c s = Inr t \<Longrightarrow> artifact_step env add limits s t"
| step_approve: "tx_approve_deletion env add policy mode c s = Inr t \<Longrightarrow> artifact_step env add limits s t"
| step_complete_deletion: "tx_complete_deletion (pe_uuid env) deletion c s = Inr t \<Longrightarrow> artifact_step env add limits s t"
| step_finalize: "tx_finalize_artifact env limits operation c s = Inr t \<Longrightarrow> artifact_step env add limits s t"
| step_recover: "tx_recover_scan tenant state version payload scan action s = Inr t \<Longrightarrow> artifact_step env add limits s t"

definition empty_store :: "instant \<Rightarrow> artifact_store" where
  "empty_store now = \<lparr>st_now = now, st_artifacts = [], st_blobs = [], st_grants = [], st_holds = [],
     st_references = [], st_provenance = []\<rparr>"

section \<open>Rows that were found\<close>

lemma command_failed_eq_Inr [result_simps]: "command_failed m = Inr x \<longleftrightarrow> m = Inr x"
  by (cases m) (simp_all add: command_failed_def)

lemma work_failed_eq_Inr [result_simps]: "work_failed m = Inr x \<longleftrightarrow> m = Inr x"
  by (cases m) (simp_all add: work_failed_def)

lemma repository_failed_eq_Inr [result_simps]: "map_sum RepositoryFailed id m = Inr x \<longleftrightarrow> m = Inr x"
  by (cases m) simp_all

lemma find_artifact_Inr:
  assumes "find_artifact s tenant i = Inr a"
  shows "lookup_row artifact_key (artifact_key a) (st_artifacts s) = Some a" "a \<in> set (st_artifacts s)"
    "at_tenant_id a = tenant" "at_artifact_id a = i"
  using assms lookup_row_SomeD [of artifact_key "(tenant, i)" "st_artifacts s" a]
  by (auto simp: find_artifact_def result_simps artifact_key_def)

lemma find_blob_Inr:
  assumes "find_blob s tenant i = Inr b"
  shows "lookup_row blob_key (blob_key b) (st_blobs s) = Some b" "b \<in> set (st_blobs s)"
    "ab_tenant_id b = tenant" "ab_blob_id b = i"
  using assms lookup_row_SomeD [of blob_key "(tenant, i)" "st_blobs s" b]
  by (auto simp: find_blob_def result_simps blob_key_def)

lemma find_alias:
  assumes "keys_sound s" and "List.find (\<lambda>a. at_artifact_id a = i) (blob_aliases uc s tenant j) = Some a"
  shows "lookup_row artifact_key (artifact_key a) (st_artifacts s) = Some a" "a \<in> set (st_artifacts s)"
    "at_tenant_id a = tenant" "at_artifact_id a = i" "at_blob_id a = Some j"
proof -
  from find_SomeD [OF assms(2)] show "a \<in> set (st_artifacts s)" "at_tenant_id a = tenant" "at_artifact_id a = i"
    "at_blob_id a = Some j" by (auto simp: blob_aliases_def)
  with assms(1) show "lookup_row artifact_key (artifact_key a) (st_artifacts s) = Some a"
    by (simp add: keys_sound_def lookup_row_of)
qed

text \<open>How a transaction shows that it is a change: the artifact and the blob it found, and the two updates.\<close>

lemma changedI:
  assumes "keys_sound s"
    and "lookup_row artifact_key (artifact_key a) (st_artifacts s) = Some a"
    and "lookup_row blob_key (blob_key b) (st_blobs s) = Some b"
    and "at_tenant_id a = ab_tenant_id b" "at_blob_id a = Some (ab_blob_id b)" "at_version a < at_version (f a)"
    and "st_artifacts t = update_row artifact_key (artifact_key a) f (st_artifacts s)"
    and "st_blobs t = update_row blob_key (blob_key b) g (st_blobs s)"
    and "st_now t = st_now s" "st_holds t = st_holds s" "st_provenance t = st_provenance s"
  shows "changed_rows s t a b (f a) (g b)"
  using assms lookup_row_SomeD [OF assms(2)] lookup_row_SomeD [OF assms(3)]
    update_row_const [of artifact_key "st_artifacts s" "artifact_key a" a f]
    update_row_const [of blob_key "st_blobs s" "blob_key b" b g]
  by (simp add: changed_rows_def owns_def keys_sound_def)

lemma update_row_nothing [simp]: "update_row key k (\<lambda>r. r) rows = rows"
  by (simp add: update_row_def)

lemma put_simps [simp]:
  "st_artifacts (put_artifact a f s) = update_row artifact_key (artifact_key a) f (st_artifacts s)"
  "st_blobs (put_artifact a f s) = st_blobs s" "st_grants (put_artifact a f s) = st_grants s"
  "st_holds (put_artifact a f s) = st_holds s" "st_references (put_artifact a f s) = st_references s"
  "st_provenance (put_artifact a f s) = st_provenance s" "st_now (put_artifact a f s) = st_now s"
  "st_blobs (put_blob b g s) = update_row blob_key (blob_key b) g (st_blobs s)"
  "st_artifacts (put_blob b g s) = st_artifacts s" "st_grants (put_blob b g s) = st_grants s"
  "st_holds (put_blob b g s) = st_holds s" "st_references (put_blob b g s) = st_references s"
  "st_provenance (put_blob b g s) = st_provenance s" "st_now (put_blob b g s) = st_now s"
  by (simp_all add: put_artifact_def put_blob_def)

lemma set_artifact_state_version [simp]: "at_version (set_artifact_state state v now a) = v"
  by (simp add: set_artifact_state_def)

section \<open>The effect of each transaction\<close>

text \<open>A change of an artifact leaves the grants alone or consumes one, and adds at most a reference to an artifact
  that it made ready.\<close>

definition changed_links ::
  "artifact_store \<Rightarrow> artifact_store \<Rightarrow> ArtifactRecord \<Rightarrow> bool" where
  "changed_links s t a' \<longleftrightarrow>
     (st_grants t = st_grants s
      \<or> (\<exists>k v. st_grants t = update_row grant_key k
            (\<lambda>g. g\<lparr>ag_state := ArtifactLinkState.Consumed, ag_version := v\<rparr>) (st_grants s)))
     \<and> (st_references t = st_references s
        \<or> (at_state a' = ArtifactState.Ready
            \<and> (\<exists>r. st_references t = st_references s @ [r]
                \<and> af_tenant_id r = at_tenant_id a' \<and> af_artifact_id r = at_artifact_id a')))"

definition artifact_changed :: "artifact_store \<Rightarrow> artifact_store \<Rightarrow> bool" where
  "artifact_changed s t \<longleftrightarrow>
     (\<exists>a b a' b'. artifact_change s a b a' b' \<and> changed_rows s t a b a' b' \<and> changed_links s t a')"

lemma artifact_changedI:
  "artifact_change s a b a' b' \<Longrightarrow> changed_rows s t a b a' b' \<Longrightarrow> changed_links s t a' \<Longrightarrow> artifact_changed s t"
  unfolding artifact_changed_def by blast

lemma same_linksI: "st_grants t = st_grants s \<Longrightarrow> st_references t = st_references s \<Longrightarrow> changed_links s t a'"
  by (simp add: changed_links_def)

lemma consumed_linksI:
  assumes "st_grants t = update_row grant_key k
      (\<lambda>g. g\<lparr>ag_state := ArtifactLinkState.Consumed, ag_version := v\<rparr>) (st_grants s)"
    and "st_references t = st_references s"
  shows "changed_links s t a'"
  unfolding changed_links_def using assms by blast

lemma upload_effect:
  assumes "keys_sound s" and "tx_complete_upload limits operation c s = Inr t"
  shows "artifact_changed s t"
proof -
  from assms(2) obtain a b grant d where
    a: "find_artifact s (ca_tenant_id (cu_audit c)) (cu_artifact_id c) = Inr a"
    and b: "find_blob s (ca_tenant_id (cu_audit c)) (cu_blob_id c) = Inr b"
    and d: "decide_complete_upload a b grant operation c (st_now s) = Inr d"
    and t: "t = (put_artifact a (set_artifact_state (ud_artifact_state d) (ud_artifact_version d) (st_now s))
              (put_blob b (\<lambda>b. b\<lparr>ab_object_generation := Some (cu_object_generation c),
                 ab_version := ud_blob_version d\<rparr>) s))
           \<lparr>st_grants := update_row grant_key (grant_key grant)
              (\<lambda>g. g\<lparr>ag_state := ud_grant_state d, ag_version := ud_grant_version d\<rparr>) (st_grants s)\<rparr>"
    by (auto simp: tx_complete_upload_def Let_def result_simps)
  note d = upload_accepted [OF d]
  show ?thesis
  proof (rule artifact_changedI)
    show "artifact_change s a b (set_artifact_state ArtifactState.Uploaded (ud_artifact_version d) (st_now s) a)
       (b\<lparr>ab_object_generation := Some (cu_object_generation c), ab_version := ud_blob_version d\<rparr>)"
      using d by (intro ch_uploaded)
    show "changed_rows s t a b (set_artifact_state ArtifactState.Uploaded (ud_artifact_version d) (st_now s) a)
       (b\<lparr>ab_object_generation := Some (cu_object_generation c), ab_version := ud_blob_version d\<rparr>)"
      by (rule changedI) (use assms(1) find_artifact_Inr [OF a] find_blob_Inr [OF b] d in \<open>simp_all add: t\<close>)
    show "changed_links s t (set_artifact_state ArtifactState.Uploaded (ud_artifact_version d) (st_now s) a)"
      using d by (intro consumed_linksI [where k = "grant_key grant" and v = "ud_grant_version d"]) (simp_all add: t)
  qed
qed

lemma initial_scan_effect:
  assumes "keys_sound s" and "tx_schedule_initial_scan operation c s = Inr t"
  shows "artifact_changed s t"
proof -
  from assms(2) obtain a b d where
    a: "find_artifact s (ca_tenant_id (si_audit c)) (si_artifact_id c) = Inr a"
    and b: "find_blob s (ca_tenant_id (si_audit c)) (si_blob_id c) = Inr b"
    and d: "decide_schedule_initial_scan a b operation c (st_now s) = Inr d"
    and t: "t = put_artifact a (set_artifact_state ArtifactState.Verifying (ss_artifact_version d) (st_now s)) s"
    by (auto simp: tx_schedule_initial_scan_def Let_def result_simps)
  note d = initial_scan_accepted [OF d]
  show ?thesis
  proof (rule artifact_changedI)
    show "artifact_change s a b (set_artifact_state ArtifactState.Verifying (ss_artifact_version d) (st_now s) a) b"
      using d by (intro ch_verifying)
    show "changed_rows s t a b (set_artifact_state ArtifactState.Verifying (ss_artifact_version d) (st_now s) a) b"
      by (rule changedI [where g = "\<lambda>b. b"])
        (use assms(1) find_artifact_Inr [OF a] find_blob_Inr [OF b] d in \<open>simp_all add: t\<close>)
  qed (simp add: same_linksI t)
qed

lemma rescan_effect:
  assumes "keys_sound s" and "tx_schedule_rescan c s = Inr t"
  shows "artifact_changed s t"
proof -
  from assms(2) obtain a b d where
    a: "find_artifact s (ca_tenant_id (sr_audit c)) (sr_artifact_id c) = Inr a"
    and b: "find_blob s (ca_tenant_id (sr_audit c)) (sr_blob_id c) = Inr b"
    and d: "decide_schedule_artifact_rescan a b c (st_now s) = Inr d"
    and t: "t = put_artifact a (set_artifact_state ArtifactState.Quarantined (sk_artifact_version d) (st_now s)) s"
    by (auto simp: tx_schedule_rescan_def Let_def result_simps)
  note d = rescan_accepted [OF d]
  show ?thesis
  proof (rule artifact_changedI)
    show "artifact_change s a b (set_artifact_state ArtifactState.Quarantined (sk_artifact_version d) (st_now s) a) b"
      using d by (intro ch_rescan)
    show "changed_rows s t a b (set_artifact_state ArtifactState.Quarantined (sk_artifact_version d) (st_now s) a) b"
      by (rule changedI [where g = "\<lambda>b. b"])
        (use assms(1) find_artifact_Inr [OF a] find_blob_Inr [OF b] d in \<open>simp_all add: t\<close>)
  qed (simp add: same_linksI t)
qed

lemma finalize_effect:
  assumes "keys_sound s" and "tx_finalize_artifact env limits operation c s = Inr t"
  shows "artifact_changed s t"
proof -
  from assms(2) obtain a b g d key where
    a: "find_artifact s (ca_tenant_id (fz_audit c)) (fz_artifact_id c) = Inr a"
    and b: "find_blob s (ca_tenant_id (fz_audit c)) (fz_blob_id c) = Inr b"
    and d: "decide_finalize_artifact env a b g operation c = Inr d"
    and t: "t = (put_artifact a (set_artifact_state (fd_artifact_state d) (fd_artifact_version d) (st_now s)) s)
           \<lparr>st_references := st_references s @ [\<lparr>af_tenant_id = ca_tenant_id (fz_audit c),
             af_artifact_reference_id = fz_artifact_reference_id c, af_artifact_id = fz_artifact_id c,
             af_state = ArtifactLinkState.Active, af_version = 1, af_snapshot = fd_reference d,
             af_link_key_digest = key, af_created_at = st_now s, af_released_at = None\<rparr>]\<rparr>"
    by (auto simp: tx_finalize_artifact_def Let_def result_simps split: if_splits)
  note d = finalize_accepted [OF d] and a = find_artifact_Inr [OF a]
  show ?thesis
  proof (rule artifact_changedI)
    show "artifact_change s a b (set_artifact_state ArtifactState.Ready (fd_artifact_version d) (st_now s) a) b"
      using d by (intro ch_ready)
    show "changed_rows s t a b (set_artifact_state ArtifactState.Ready (fd_artifact_version d) (st_now s) a) b"
      by (rule changedI [where g = "\<lambda>b. b"]) (use assms(1) a find_blob_Inr [OF b] d in \<open>simp_all add: t\<close>)
    show "changed_links s t (set_artifact_state ArtifactState.Ready (fd_artifact_version d) (st_now s) a)"
      using a by (simp add: changed_links_def t set_artifact_state_def)
  qed
qed

text \<open>The links \<open>artifact_deletion_link_facts\<close> counted are those that protect the artifact.\<close>

lemma not_deletion_blocked:
  assumes "\<not> deletion_blocked a b (deletion_facts s policy required satisfied (at_tenant_id a) (at_artifact_id a)) c"
  shows "at_state a \<in> {ArtifactState.Ready, ArtifactState.Rejected, ArtifactState.Quarantined, ArtifactState.Corrupt}"
    "ab_state b \<in> {BlobIntegrityState.Verified, BlobIntegrityState.Corrupt}" "unprotected s a"
    "required \<Longrightarrow> satisfied"
    "rp_retain_provenance_sources policy \<Longrightarrow> provenance_links s (at_tenant_id a) (at_artifact_id a) = 0"
  using assms by (auto simp: deletion_blocked_def deletion_facts_def unprotected_def)

lemma no_live_alias:
  assumes "live_alias (blob_aliases uc s (ab_tenant_id b) (ab_blob_id b)) i = None"
    and "x \<in> set (st_artifacts s)" and "owns x b" and "at_artifact_id x \<noteq> i"
  shows "at_state x = ArtifactState.Deleted"
  using assms by (auto simp: live_alias_def find_None_iff2 blob_aliases_def owns_def)

text \<open>The marking of an artifact for deletion, whether it is asked for or approved.\<close>

lemma mark_effect_rows:
  assumes keys: "keys_sound s" and b: "find_blob s tenant j = Inr b"
    and a: "List.find (\<lambda>a. at_artifact_id a = i) (blob_aliases uc s tenant j) = Some a"
    and d: "decide_mark_artifact_deletion env add a b (live_alias (blob_aliases uc s tenant j) i)
      (deletion_facts s policy required satisfied tenant i) c (st_now s) = Inr d"
  shows "artifact_changed s (persist_mark d a b s)"
proof -
  note a = find_alias [OF keys a] and b = find_blob_Inr [OF b]
  note d = mark_accepted [OF d]
  have facts: "at_state a \<in> {ArtifactState.Ready, ArtifactState.Rejected, ArtifactState.Quarantined, ArtifactState.Corrupt}"
    "ab_state b \<in> {BlobIntegrityState.Verified, BlobIntegrityState.Corrupt}" "unprotected s a"
    using not_deletion_blocked [of a b s policy required satisfied c] d(1) a by simp_all
  define b' where "b' = (if mm_blob_version d \<noteq> ab_version b
    then set_blob_state (mm_blob_state d) (mm_blob_version d) b else b)"
  have others: "at_state x = ArtifactState.Deleted"
    if "mm_mode d = BlobGeneration g" "x \<in> set (st_artifacts s)" "owns x b" "artifact_key x \<noteq> artifact_key a" for g x
  proof (rule no_live_alias [of uc s b i])
    show "live_alias (blob_aliases uc s (ab_tenant_id b) (ab_blob_id b)) i = None"
      using d(2) that(1) b by (auto simp: deletion_mode_def result_simps split: option.splits if_splits)
    show "at_artifact_id x \<noteq> i" using that a b by (auto simp: owns_def artifact_key_def)
  qed (use that in simp_all)
  from marked_blob_accepted [OF d(7)] have blob:
    "b' = b \<or> (ab_version b < mm_blob_version d \<and> b' = set_blob_state BlobIntegrityState.Deleting (mm_blob_version d) b
        \<and> (\<forall>x \<in> set (st_artifacts s). owns x b \<longrightarrow> artifact_key x \<noteq> artifact_key a \<longrightarrow>
              at_state x = ArtifactState.Deleted))"
    unfolding b'_def by (elim disjE) (auto dest: others)
  show ?thesis
  proof (rule artifact_changedI)
    show "artifact_change s a b (set_artifact_state ArtifactState.Deleting (mm_artifact_version d) (st_now s) a) b'"
      by (rule ch_deleting [OF facts blob])
    show "changed_rows s (persist_mark d a b s) a b
      (set_artifact_state ArtifactState.Deleting (mm_artifact_version d) (st_now s) a) b'"
      unfolding b'_def
      by (rule changedI [where g = "\<lambda>b'. if mm_blob_version d \<noteq> ab_version b
            then set_blob_state (mm_blob_state d) (mm_blob_version d) b' else b'"])
        (use keys a b d in \<open>simp_all add: persist_mark_def\<close>)
  qed (simp add: same_linksI persist_mark_def)
qed

lemma mark_effect:
  assumes "keys_sound s" and "tx_mark_deletion env add policy approval c s = Inr t"
  shows "t = s \<or> artifact_changed s t"
  using assms by (auto simp: tx_mark_deletion_def Let_def result_simps split: if_splits intro: mark_effect_rows)

lemma approve_effect:
  assumes "keys_sound s" and "tx_approve_deletion env add policy mode c s = Inr t"
  shows "artifact_changed s t"
  using assms by (auto simp: tx_approve_deletion_def Let_def result_simps split: if_splits intro: mark_effect_rows)

lemma complete_deletion_effect:
  assumes "keys_sound s" and "tx_complete_deletion uc deletion c s = Inr t"
  shows "artifact_changed s t"
proof -
  from assms(2) obtain a b w d where
    a: "find_artifact s (wa_tenant_id (cd_audit c)) (cd_artifact_id c) = Inr a"
    and b: "find_blob s (wa_tenant_id (cd_audit c)) (cd_blob_id c) = Inr b"
    and d: "decide_complete_artifact_deletion a b deletion w c = Inr d"
    and t: "t = put_artifact a (\<lambda>a. (set_artifact_state (dd_artifact_state d) (dd_artifact_version d) (st_now s) a)
                \<lparr>at_terminal_at := Some (st_now s)\<rparr>)
              (if dd_blob_version d \<noteq> ab_version b then
                 put_blob b (set_blob_state (dd_blob_state d) (dd_blob_version d)) s
               else s)"
    unfolding tx_complete_deletion_def Let_def result_simps by blast
  note d = complete_deletion_accepted [OF d]
  define b' where "b' = (if dd_blob_version d \<noteq> ab_version b
    then set_blob_state (dd_blob_state d) (dd_blob_version d) b else b)"
  show ?thesis
  proof (rule artifact_changedI)
    show "artifact_change s a b ((set_artifact_state ArtifactState.Deleted (dd_artifact_version d) (st_now s) a)
      \<lparr>at_terminal_at := Some (st_now s)\<rparr>) b'"
      by (rule ch_deleted [of _ _ _ "dd_blob_version d"])
        (use d(1) deleted_blob_accepted [OF d(6)] in \<open>auto simp: b'_def\<close>)
    show "changed_rows s t a b ((set_artifact_state ArtifactState.Deleted (dd_artifact_version d) (st_now s) a)
      \<lparr>at_terminal_at := Some (st_now s)\<rparr>) b'"
      unfolding b'_def
      by (rule changedI [where g = "\<lambda>b'. if dd_blob_version d \<noteq> ab_version b
            then set_blob_state (dd_blob_state d) (dd_blob_version d) b' else b'"])
        (use assms(1) find_artifact_Inr [OF a] find_blob_Inr [OF b] d in \<open>simp_all add: t\<close>)
  qed (simp add: same_linksI t)
qed

text \<open>A first scan settles the artifact on what it found, and a rescan settles a quarantined artifact again.\<close>

lemma initial_outcome:
  "fst (scan_outcome_states ArtifactScanKind.Initial disposition) \<in>
     {ArtifactState.Verified, ArtifactState.Quarantined, ArtifactState.Rejected}"
  by (cases disposition) simp_all

lemma initial_outcome_verified:
  "fst (scan_outcome_states ArtifactScanKind.Initial disposition) = ArtifactState.Verified \<longleftrightarrow>
     disposition = ArtifactScanDisposition.Verified"
  by (cases disposition) simp_all

lemma rescan_outcome:
  "artifact_state_can_transition_to ArtifactState.Quarantined
     (fst (scan_outcome_states ArtifactScanKind.Rescan disposition)) \<Longrightarrow>
   fst (scan_outcome_states ArtifactScanKind.Rescan disposition) \<in>
     {ArtifactState.Ready, ArtifactState.Rejected, ArtifactState.Corrupt}"
  by (cases disposition) (simp_all add: artifact_state_can_transition_to_def)

lemma rescan_outcome_ready:
  "fst (scan_outcome_states ArtifactScanKind.Rescan disposition) = ArtifactState.Ready \<longleftrightarrow>
     disposition = ArtifactScanDisposition.Verified"
  by (cases disposition) simp_all

lemma content_verified_scan:
  assumes "md_current_verification (at_metadata a') = Some (evidence_current evidence)"
    and "se_disposition evidence = ArtifactScanDisposition.Verified"
    and "matches_intent a evidence" and "same_artifact a a'"
    and "ab_content_digest b' = Some (se_content_digest evidence)" "ab_size_bytes b' = Some (se_size_bytes evidence)"
  shows "content_verified a' b'"
  using assms by (simp add: content_verified_def evidence_current_def matches_intent_def same_artifact_def)

definition scanned_artifact ::
  "CommitArtifactScanOutcome \<Rightarrow> ArtifactScanDecision \<Rightarrow> instant \<Rightarrow> ArtifactRecord \<Rightarrow> ArtifactRecord" where
  "scanned_artifact c d now a = a\<lparr>at_blob_id := Some (sn_artifact_blob_id d),
     at_verified_media_type := Some (se_verified_media_type (cs_evidence c)),
     at_state := sn_artifact_state d, at_version := sn_artifact_version d, at_metadata := sn_metadata d,
     at_updated_at := now,
     at_terminal_at := (if sn_artifact_state d = ArtifactState.Rejected then Some now else at_terminal_at a)\<rparr>"

lemma scanned_artifact_simps [simp]:
  "same_artifact a (scanned_artifact c d now a)" "at_version (scanned_artifact c d now a) = sn_artifact_version d"
  "at_state (scanned_artifact c d now a) = sn_artifact_state d"
  "at_blob_id (scanned_artifact c d now a) = Some (sn_artifact_blob_id d)"
  "at_metadata (scanned_artifact c d now a) = sn_metadata d"
  by (simp_all add: scanned_artifact_def same_artifact_def artifact_key_def)

lemma load_reusable_blob_Inr:
  assumes "load_reusable_blob uc s b digest bytes = Inr r"
  shows "r = None \<Longrightarrow> filter (same_content b digest) (st_blobs s) = []"
    "r = Some q \<Longrightarrow> q \<in> set (st_blobs s) \<and> same_content b digest q \<and> ab_size_bytes q = Some bytes"
proof -
  let ?rows = "sort_key (\<lambda>b. show_resource_id uc (ab_blob_id b)) (filter (same_content b digest) (st_blobs s))"
  have rows: "set ?rows = {q \<in> set (st_blobs s). same_content b digest q}" by simp
  show "filter (same_content b digest) (st_blobs s) = []" if "r = None"
  proof -
    from assms that have "?rows = []" by (auto simp: load_reusable_blob_def split: list.splits if_splits)
    with rows show ?thesis by (simp add: filter_empty_conv)
  qed
  show "q \<in> set (st_blobs s) \<and> same_content b digest q \<and> ab_size_bytes q = Some bytes" if "r = Some q"
    using assms that rows by (cases ?rows) (auto simp: load_reusable_blob_def split: if_splits)
qed

text \<open>The blob row \<open>persist_scan\<close> writes.\<close>

definition scanned_blob_row ::
  "CommitArtifactScanOutcome \<Rightarrow> ArtifactScanDecision \<Rightarrow> ArtifactScanKind \<Rightarrow> u64 \<Rightarrow> ArtifactBlobRecord \<Rightarrow> ArtifactBlobRecord" where
  "scanned_blob_row c d kind version b =
     (if kind = ArtifactScanKind.Initial then
        scanned_content (se_content_digest (cs_evidence c)) (se_size_bytes (cs_evidence c)) (sn_blob_state d)
          (sn_blob_version d) b
      else if sn_blob_version d \<noteq> version then set_blob_state (sn_blob_state d) (sn_blob_version d) b
      else b)"

lemma persist_scan_rows:
  assumes "keys_sound s" and "find_artifact s tenant i = Inr a" and "find_blob s tenant j = Inr b"
    and "at_tenant_id a = ab_tenant_id b" "at_blob_id a = Some (ab_blob_id b)" "at_version a < sn_artifact_version d"
  shows "changed_rows s (persist_scan c d kind a b s) a b (scanned_artifact c d (st_now s) a)
    (scanned_blob_row c d kind (ab_version b) b)"
  by (rule changedI [where g = "scanned_blob_row c d kind (ab_version b)"])
    (use assms(1,4-) find_artifact_Inr [OF assms(2)] find_blob_Inr [OF assms(3)] in
      \<open>simp_all add: persist_scan_def scanned_artifact_def [abs_def] scanned_blob_row_def [abs_def]
        scanned_content_def [abs_def]\<close>)

lemma scan_change:
  assumes d: "decide_commit_artifact_scan env add a b operation r job c now = Inr d"
    and r: "if sj_scan_kind job = ArtifactScanKind.Initial
            then load_reusable_blob uc s b (se_content_digest (cs_evidence c)) (se_size_bytes (cs_evidence c)) = Inr r
            else r = None"
  shows "artifact_change s a b (scanned_artifact c d (st_now s) a)
    (scanned_blob_row c d (sj_scan_kind job) (ab_version b) b)"
proof -
  note d = scan_accepted [OF d]
  have verified: "content_verified (scanned_artifact c d (st_now s) a) b'"
    if "se_disposition (cs_evidence c) = ArtifactScanDisposition.Verified"
      "ab_content_digest b' = Some (se_content_digest (cs_evidence c))"
      "ab_size_bytes b' = Some (se_size_bytes (cs_evidence c))" for b'
    by (rule content_verified_scan [of _ "cs_evidence c" a]) (use that d(8,10) in simp_all)
  show ?thesis
  proof (cases rule: scanned_blob_accepted [OF d(7,4), consumes 0, case_names kept reused same corrupt])
    case kept
    with d r have "artifact_change s a b (scanned_artifact c d (st_now s) a)
        (scanned_content (se_content_digest (cs_evidence c)) (se_size_bytes (cs_evidence c))
          BlobIntegrityState.Verified (sn_blob_version d) b)"
      using initial_outcome [of "se_disposition (cs_evidence c)"]
      by (intro ch_scanned verified) (simp_all add: load_reusable_blob_Inr initial_outcome_verified scanned_content_def)
    with kept show ?thesis by (simp add: scanned_blob_row_def)
  next
    case (reused q)
    with r have q: "q \<in> set (st_blobs s)" "same_content b (se_content_digest (cs_evidence c)) q"
      "ab_size_bytes q = Some (se_size_bytes (cs_evidence c))"
      using load_reusable_blob_Inr(2) [of uc s b _ _ r q] by auto
    with reused d have "artifact_change s a b (scanned_artifact c d (st_now s) a)
        (scanned_content (se_content_digest (cs_evidence c)) (se_size_bytes (cs_evidence c))
          BlobIntegrityState.Deleting (sn_blob_version d) b)"
      using initial_outcome [of "se_disposition (cs_evidence c)"]
      by (intro ch_reused [of _ _ _ _ q] verified) (simp_all add: initial_outcome_verified same_content_def)
    with reused show ?thesis by (simp add: scanned_blob_row_def)
  next
    case same
    with d have q: "matches_current a b (cs_evidence c)" by simp
    from same d q show ?thesis
      using rescan_outcome [of "se_disposition (cs_evidence c)"]
      by (intro ch_rescanned verified) (simp_all add: rescan_outcome_ready scanned_blob_row_def matches_current_def)
  next
    case corrupt
    have "sn_blob_version d \<noteq> ab_version b" using corrupt by auto
    with corrupt have row: "scanned_blob_row c d (sj_scan_kind job) (ab_version b) b =
        set_blob_state BlobIntegrityState.Corrupt (sn_blob_version d) b"
      by (simp add: scanned_blob_row_def)
    from corrupt d show ?thesis
      unfolding row using rescan_outcome [of "se_disposition (cs_evidence c)"]
      by (intro ch_rescanned [where w = "sn_blob_version d"]) (simp_all add: rescan_outcome_ready)
  qed
qed

lemma scan_effect:
  assumes "keys_sound s" and "tx_commit_scan_outcome env add operation job c s = Inr t"
  shows "artifact_changed s t"
proof -
  from assms(2) obtain a b r d where
    a: "find_artifact s (wa_tenant_id (cs_audit c)) (cs_artifact_id c) = Inr a"
    and b: "find_blob s (wa_tenant_id (cs_audit c)) (cs_blob_id c) = Inr b"
    and r: "(if sj_scan_kind job = ArtifactScanKind.Initial
             then load_reusable_blob (pe_uuid env) s b (se_content_digest (cs_evidence c)) (se_size_bytes (cs_evidence c))
             else Inr None) = Inr r"
    and d: "decide_commit_artifact_scan env add a b operation r job c (st_now s) = Inr d"
    and t: "t = persist_scan c d (sj_scan_kind job) a b s"
    unfolding tx_commit_scan_outcome_def Let_def result_simps by blast
  from r have r: "if sj_scan_kind job = ArtifactScanKind.Initial
      then load_reusable_blob (pe_uuid env) s b (se_content_digest (cs_evidence c)) (se_size_bytes (cs_evidence c)) = Inr r
      else r = None" by (auto split: if_splits)
  note rows = scan_accepted [OF d]
  show ?thesis
  proof (rule artifact_changedI)
    show "artifact_change s a b (scanned_artifact c d (st_now s) a)
        (scanned_blob_row c d (sj_scan_kind job) (ab_version b) b)"
      by (rule scan_change [OF d r])
    show "changed_rows s t a b (scanned_artifact c d (st_now s) a)
        (scanned_blob_row c d (sj_scan_kind job) (ab_version b) b)"
      unfolding t by (rule persist_scan_rows [OF assms(1) a b]) (use rows in simp_all)
  qed (simp add: same_linksI t persist_scan_def)
qed

text \<open>The recovery of an attempt changes nothing, or quarantines an artifact whose scan had not ended.\<close>

lemma scan_parents_locked:
  assumes "lock_scan_parents s tenant operation_state operation_version scan = Inr (a, parents)"
  obtains b where "find_artifact s tenant (sj_artifact_id scan) = Inr a" "find_blob s tenant (ab_blob_id b) = Inr b"
    "at_blob_id a = Some (ab_blob_id b)" "ab_state b = scanned_blob_state (sj_scan_kind scan)"
    "at_state a = scanned_artifact_state (sj_scan_kind scan)"
    "lr_artifact_state parents = Some (at_state a)" "lr_artifact_version parents = Some (at_version a)"
proof -
  from assms obtain i b where rows: "find_artifact s tenant (sj_artifact_id scan) = Inr a" "at_blob_id a = Some i"
      "find_blob s tenant i = Inr b" "ab_state b = scanned_blob_state (sj_scan_kind scan)"
      "at_state a = scanned_artifact_state (sj_scan_kind scan)"
      "lr_artifact_state parents = Some (at_state a)" "lr_artifact_version parents = Some (at_version a)"
    unfolding lock_scan_parents_def result_simps by (auto split: if_splits)
  from rows(3) have "ab_blob_id b = i" by (rule find_blob_Inr)
  with rows show ?thesis using that [of b] by simp
qed

lemma recovered_artifact:
  assumes "persist_artifact_recovery_parent_action payload parents action = Inr (Some state, Some version)"
    and "lr_artifact_state parents = Some current" "lr_artifact_version parents = Some v"
  shows "state = current \<or>
    (state = ArtifactState.Quarantined \<and> artifact_state_can_transition_to current state \<and> v < version)"
  using assms
  by (auto simp: persist_artifact_recovery_parent_action_def result_simps split: ArtifactRecoveryParentAction.splits
      if_splits dest: checked_add_one)

lemma recover_effect:
  assumes "keys_sound s" and "tx_recover_scan tenant operation_state operation_version payload scan action s = Inr t"
  shows "t = s \<or> artifact_changed s t"
proof -
  from assms(2) obtain a parents where
    lock: "lock_scan_parents s tenant operation_state operation_version scan = Inr (a, parents)"
    and rest: "rbind (map_sum RepositoryFailed id (persist_artifact_recovery_parent_action payload parents action))
       (\<lambda>(state, version). Inr (case (state, version) of (Some state, Some version) \<Rightarrow>
           (if state \<noteq> at_state a then put_artifact a (set_artifact_state state version (st_now s)) s else s)
         | _ \<Rightarrow> s)) = Inr t"
    by (auto simp: tx_recover_scan_def rbind_eq_Inr)
  from rest obtain state version where
    persist: "persist_artifact_recovery_parent_action payload parents action = Inr (state, version)"
    and t: "t = (case (state, version) of (Some state, Some version) \<Rightarrow>
           (if state \<noteq> at_state a then put_artifact a (set_artifact_state state version (st_now s)) s else s)
       | _ \<Rightarrow> s)"
    by (auto simp: result_simps)
  obtain b where rows: "find_artifact s tenant (sj_artifact_id scan) = Inr a" "find_blob s tenant (ab_blob_id b) = Inr b"
    "at_blob_id a = Some (ab_blob_id b)" "ab_state b = scanned_blob_state (sj_scan_kind scan)"
    "at_state a = scanned_artifact_state (sj_scan_kind scan)"
    "lr_artifact_state parents = Some (at_state a)" "lr_artifact_version parents = Some (at_version a)"
    using scan_parents_locked [OF lock] by blast
  show ?thesis
  proof (cases "\<exists>state' v. state = Some state' \<and> version = Some v \<and> state' \<noteq> at_state a")
    case False
    then show ?thesis by (auto simp: t split: option.splits)
  next
    case True
    then obtain state' v where some: "state = Some state'" "version = Some v" "state' \<noteq> at_state a" by blast
    with persist recovered_artifact [of payload parents action state' v] rows
    have q: "state' = ArtifactState.Quarantined" "at_version a < v" by auto
    with some rows have kind: "sj_scan_kind scan = ArtifactScanKind.Initial" by (cases "sj_scan_kind scan") simp_all
    have "artifact_changed s t"
    proof (rule artifact_changedI)
      show "artifact_change s a b (set_artifact_state ArtifactState.Quarantined v (st_now s) a) b"
        using rows kind by (intro ch_recovered) simp_all
      show "changed_rows s t a b (set_artifact_state ArtifactState.Quarantined v (st_now s) a) b"
        by (rule changedI [where g = "\<lambda>b. b"])
          (use assms(1) find_artifact_Inr [OF rows(1)] find_blob_Inr [OF rows(2)] rows q some in \<open>simp_all add: t\<close>)
    qed (use some in \<open>simp add: same_linksI t\<close>)
    then show ?thesis ..
  qed
qed

text \<open>The transactions that do not change an artifact: a new upload, a cleaned up blob, and the links.\<close>

definition artifact_prepared :: "artifact_store \<Rightarrow> artifact_store \<Rightarrow> bool" where
  "artifact_prepared s t \<longleftrightarrow>
     (\<exists>a b g. \<not> has_row artifact_key (artifact_key a) (st_artifacts s) \<and> \<not> has_row blob_key (blob_key b) (st_blobs s)
        \<and> owns a b \<and> at_state a = ArtifactState.Staging \<and> ab_state b = BlobIntegrityState.Staging
        \<and> ab_object_generation b = None \<and> ab_content_digest b = None
        \<and> ag_tenant_id g = at_tenant_id a \<and> ag_artifact_id g = at_artifact_id a
        \<and> t = s\<lparr>st_artifacts := st_artifacts s @ [a], st_blobs := st_blobs s @ [b], st_grants := st_grants s @ [g]\<rparr>)"

definition blob_cleaned :: "artifact_store \<Rightarrow> artifact_store \<Rightarrow> bool" where
  "blob_cleaned s t \<longleftrightarrow>
     (\<exists>b v. b \<in> set (st_blobs s) \<and> ab_state b = BlobIntegrityState.Deleting \<and> ab_version b < v
        \<and> t = s\<lparr>st_blobs := update_row blob_key (blob_key b)
                 (\<lambda>_. set_blob_state BlobIntegrityState.Deleted v b) (st_blobs s)\<rparr>)"

definition artifact_held :: "artifact_store \<Rightarrow> artifact_store \<Rightarrow> bool" where
  "artifact_held s t \<longleftrightarrow>
     (\<exists>h e a. a \<in> set (st_artifacts s) \<and> at_state a \<notin> {ArtifactState.Deleting, ArtifactState.Deleted}
        \<and> ah_tenant_id h = at_tenant_id a \<and> ah_artifact_id h = at_artifact_id a
        \<and> t = s\<lparr>st_holds := st_holds s @ [(h, e)]\<rparr>)"

definition released_hold :: "u64 \<Rightarrow> instant \<Rightarrow> ArtifactHoldRecord \<times> instant option \<Rightarrow> ArtifactHoldRecord \<times> instant option" where
  "released_hold v now = (\<lambda>(h, e). (h\<lparr>ah_state := ArtifactLinkState.Released, ah_version := v, ah_released_at := Some now\<rparr>, e))"

definition released_reference :: "u64 \<Rightarrow> instant \<Rightarrow> ArtifactReferenceRecord \<Rightarrow> ArtifactReferenceRecord" where
  "released_reference v now r = r\<lparr>af_state := ArtifactLinkState.Released, af_version := v, af_released_at := Some now\<rparr>"

definition link_released :: "artifact_store \<Rightarrow> artifact_store \<Rightarrow> bool" where
  "link_released s t \<longleftrightarrow>
     (\<exists>k v. t = s\<lparr>st_holds := update_row hold_key k (released_hold v (st_now s)) (st_holds s)\<rparr>
          \<or> t = s\<lparr>st_references := update_row reference_key k (released_reference v (st_now s)) (st_references s)\<rparr>)"

definition artifact_derived :: "u64 \<Rightarrow> artifact_store \<Rightarrow> artifact_store \<Rightarrow> bool" where
  "artifact_derived depth s t \<longleftrightarrow>
     (\<exists>p x y. av_state p = ArtifactLinkState.Active \<and> x \<in> set (st_artifacts s) \<and> y \<in> set (st_artifacts s)
        \<and> at_tenant_id x = av_tenant_id p \<and> at_artifact_id x = av_source_artifact_id p
        \<and> at_tenant_id y = av_tenant_id p \<and> at_artifact_id y = av_derived_artifact_id p
        \<and> at_state x = ArtifactState.Ready \<and> at_state y = ArtifactState.Ready
        \<and> classification_rank (at_classification x) \<le> classification_rank (at_classification y)
        \<and> is_ok (require_acyclic_provenance s (av_tenant_id p) (av_source_artifact_id p) (av_derived_artifact_id p) depth)
        \<and> av_source_artifact_id p \<noteq> av_derived_artifact_id p
        \<and> t = s\<lparr>st_provenance := st_provenance s @ [p]\<rparr>)"

lemma artifact_preparedI:
  assumes "\<not> has_row artifact_key (artifact_key a) (st_artifacts s)" "\<not> has_row blob_key (blob_key b) (st_blobs s)"
    and "owns a b" "at_state a = ArtifactState.Staging" "ab_state b = BlobIntegrityState.Staging"
    and "ab_object_generation b = None" "ab_content_digest b = None"
    and "ag_tenant_id g = at_tenant_id a" "ag_artifact_id g = at_artifact_id a"
  shows "artifact_prepared s
    (s\<lparr>st_blobs := st_blobs s @ [b], st_artifacts := st_artifacts s @ [a], st_grants := st_grants s @ [g]\<rparr>)"
  unfolding artifact_prepared_def
  by (rule exI [of _ a], rule exI [of _ b], rule exI [of _ g]) (use assms in simp)

lemma prepare_effect:
  assumes "tx_prepare_artifact env limits c s = Inr t"
  shows "artifact_prepared s t"
  using assms unfolding tx_prepare_artifact_def Let_def result_simps
  by (auto simp: owns_def artifact_key_def blob_key_def split: if_splits intro!: artifact_preparedI)

lemma cleanup_effect:
  assumes "keys_sound s" and "tx_commit_blob_cleanup env cleanup c s = Inr t"
  shows "blob_cleaned s t"
proof -
  from assms(2) obtain b state v where b: "find_blob s (wa_tenant_id (cb_audit c)) (cb_discarded_blob_id c) = Inr b"
    and d: "decide_commit_blob_cleanup env b cleanup c (st_now s) = Inr (state, v)"
    and t: "t = put_blob b (set_blob_state state v) s"
    by (auto simp: tx_commit_blob_cleanup_def result_simps)
  have "t = s\<lparr>st_blobs := update_row blob_key (blob_key b)
      (\<lambda>_. set_blob_state BlobIntegrityState.Deleted v b) (st_blobs s)\<rparr>"
    using update_row_const [of blob_key "st_blobs s" "blob_key b" b] find_blob_Inr [OF b] assms(1) cleanup_accepted [OF d]
    by (simp add: t put_blob_def keys_sound_def)
  with find_blob_Inr [OF b] cleanup_accepted [OF d] show ?thesis unfolding blob_cleaned_def by blast
qed

lemma place_hold_effect:
  assumes "tx_place_hold env limits c s = Inr t"
  shows "artifact_held s t"
proof -
  from assms obtain a h key snapshot where
    a: "find_artifact s (ca_tenant_id (ph_audit c)) (ph_artifact_id c) = Inr a"
    and d: "decide_place_artifact_hold env a c (st_now s) = Inr snapshot"
    and t: "t = s\<lparr>st_holds := st_holds s @ [(h, ph_expires_at c)]\<rparr>"
      "ah_tenant_id h = ca_tenant_id (ph_audit c)" "ah_artifact_id h = ph_artifact_id c"
    unfolding tx_place_hold_def Let_def result_simps by (auto split: if_splits)
  then show ?thesis
    using find_artifact_Inr [OF a] hold_accepted [OF d] unfolding artifact_held_def by (intro exI conjI) auto
qed

lemma link_releasedI:
  "link_released s (s\<lparr>st_holds := update_row hold_key k (released_hold v (st_now s)) (st_holds s)\<rparr>)"
  "link_released s (s\<lparr>st_references := update_row reference_key j (released_reference w (st_now s)) (st_references s)\<rparr>)"
  unfolding link_released_def by blast+

lemma release_hold_effect:
  assumes "tx_release_hold c s = Inr t"
  shows "link_released s t"
  using assms unfolding tx_release_hold_def Let_def result_simps
  by (auto simp: decide_release_artifact_hold_def result_simps split: if_splits
      intro!: link_releasedI(1) [unfolded released_hold_def])

lemma release_reference_effect:
  assumes "tx_release_reference c s = Inr t"
  shows "link_released s t"
  using assms unfolding tx_release_reference_def Let_def result_simps
  by (auto simp: decide_release_artifact_reference_def result_simps split: if_splits
      intro!: link_releasedI(2) [unfolded released_reference_def [abs_def]])

lemma provenance_effect:
  assumes "tx_create_provenance env limits c s = Inr t"
  shows "artifact_derived (al_maximum_provenance_depth limits) s t"
proof -
  from assms obtain x y p key snapshot where
    x: "find_artifact s (ca_tenant_id (cp_audit c)) (cp_source_artifact_id c) = Inr x"
    and y: "find_artifact s (ca_tenant_id (cp_audit c)) (cp_derived_artifact_id c) = Inr y"
    and acyclic: "require_acyclic_provenance s (ca_tenant_id (cp_audit c)) (cp_source_artifact_id c)
      (cp_derived_artifact_id c) (al_maximum_provenance_depth limits) = Inr ()"
    and valid: "create_provenance_validate_at c (st_now s) = Inr ()"
    and d: "decide_create_artifact_provenance env x y c = Inr snapshot"
    and t: "t = s\<lparr>st_provenance := st_provenance s @ [p]\<rparr>"
      "av_tenant_id p = ca_tenant_id (cp_audit c)" "av_source_artifact_id p = cp_source_artifact_id c"
      "av_derived_artifact_id p = cp_derived_artifact_id c" "av_state p = ArtifactLinkState.Active"
    unfolding tx_create_provenance_def Let_def result_simps by (auto split: if_splits)
  from valid have "cp_source_artifact_id c \<noteq> cp_derived_artifact_id c"
    by (auto simp: create_provenance_validate_at_def result_simps)
  with find_artifact_Inr [OF x] find_artifact_Inr [OF y] provenance_accepted [OF d] t acyclic
  show ?thesis unfolding artifact_derived_def
    by (intro exI [of _ p] exI [of _ x] exI [of _ y]) (simp add: is_ok_iff)
qed

section \<open>Every step\<close>

text \<open>A step is one of these: the clock moves, an upload is prepared, an artifact changes, a discarded blob is
  cleaned up, or a link is added or released.\<close>

lemma artifact_step_cases:
  assumes "artifact_step env add limits s t" and "keys_sound s"
  obtains (clock) now where "st_now s \<le> now" "t = s\<lparr>st_now := now\<rparr>"
    | (idle) "t = s"
    | (prepared) "artifact_prepared s t"
    | (changed) "artifact_changed s t"
    | (cleaned) "blob_cleaned s t"
    | (held) "artifact_held s t"
    | (released) "link_released s t"
    | (derived) "artifact_derived (al_maximum_provenance_depth limits) s t"
  using assms(1)
proof cases
  case step_mark
  with assms(2) show ?thesis using mark_effect idle changed by blast
next
  case step_recover
  with assms(2) show ?thesis using recover_effect idle changed by blast
qed (use assms(2) clock prepared changed cleaned held released derived in
  \<open>blast intro: prepare_effect upload_effect initial_scan_effect rescan_effect scan_effect cleanup_effect
    place_hold_effect release_hold_effect release_reference_effect provenance_effect approve_effect
    complete_deletion_effect finalize_effect\<close>)+

end
