(* ===== verification/ArtifactRuns.thy ===== *)
theory ArtifactRuns
  imports ArtifactSteps
begin

text \<open>
  The invariant of the artifact tables, and that every transaction keeps it: who owns a blob, what an artifact's
  state says of its blob, what was verified of the content, and that nothing protects what is being deleted.
\<close>

section \<open>The invariant\<close>

text \<open>What the state of an artifact and that of the blob it owns say of each other.\<close>

primrec owner_states :: "BlobIntegrityState \<Rightarrow> ArtifactState set" where
  "owner_states BlobIntegrityState.Staging =
     {ArtifactState.Staging, ArtifactState.Uploaded, ArtifactState.Verifying, ArtifactState.Quarantined}"
| "owner_states BlobIntegrityState.Verified =
     {ArtifactState.Verified, ArtifactState.Ready, ArtifactState.Quarantined, ArtifactState.Rejected,
      ArtifactState.Corrupt, ArtifactState.Deleting, ArtifactState.Deleted}"
| "owner_states BlobIntegrityState.Corrupt =
     {ArtifactState.Verified, ArtifactState.Ready, ArtifactState.Quarantined, ArtifactState.Rejected,
      ArtifactState.Corrupt, ArtifactState.Deleting, ArtifactState.Deleted}"
| "owner_states BlobIntegrityState.Deleting = {ArtifactState.Deleting, ArtifactState.Deleted}"
| "owner_states BlobIntegrityState.Deleted = {ArtifactState.Deleting, ArtifactState.Deleted}"

definition verified_state :: "ArtifactState \<Rightarrow> bool" where
  "verified_state state \<longleftrightarrow> state = ArtifactState.Verified \<or> state = ArtifactState.Ready"

definition pair_sound :: "ArtifactRecord \<Rightarrow> ArtifactBlobRecord \<Rightarrow> bool" where
  "pair_sound a b \<longleftrightarrow>
     at_state a \<in> owner_states (ab_state b)
     \<and> (at_state a = ArtifactState.Staging \<longrightarrow> ab_object_generation b = None)
     \<and> (ab_state b = BlobIntegrityState.Staging \<longrightarrow> ab_content_digest b = None)
     \<and> (verified_state (at_state a) \<longrightarrow> content_verified a b)"

definition content_once :: "artifact_store \<Rightarrow> bool" where
  "content_once s \<longleftrightarrow>
     (\<forall>b \<in> set (st_blobs s). \<forall>r \<in> set (st_blobs s). \<forall>digest.
        ab_state b = BlobIntegrityState.Verified \<longrightarrow> ab_content_digest b = Some digest \<longrightarrow> \<not> same_content b digest r)"

definition store_sound :: "artifact_store \<Rightarrow> bool" where
  "store_sound s \<longleftrightarrow>
     keys_sound s
     \<and> (\<forall>a \<in> set (st_artifacts s). \<exists>b \<in> set (st_blobs s). owns a b)
     \<and> (\<forall>a \<in> set (st_artifacts s). \<forall>b \<in> set (st_blobs s). owns a b \<longrightarrow> pair_sound a b)
     \<and> (\<forall>a \<in> set (st_artifacts s). \<forall>x \<in> set (st_artifacts s). \<forall>b \<in> set (st_blobs s).
          owns a b \<longrightarrow> owns x b \<longrightarrow> ab_state b = BlobIntegrityState.Staging \<longrightarrow> x = a)
     \<and> (\<forall>a \<in> set (st_artifacts s).
          at_state a \<in> {ArtifactState.Deleting, ArtifactState.Deleted} \<longrightarrow> unprotected s a)
     \<and> content_once s"

lemma store_soundD:
  assumes "store_sound s"
  shows "keys_sound s" "a \<in> set (st_artifacts s) \<Longrightarrow> \<exists>b \<in> set (st_blobs s). owns a b"
    "a \<in> set (st_artifacts s) \<Longrightarrow> b \<in> set (st_blobs s) \<Longrightarrow> owns a b \<Longrightarrow> pair_sound a b"
    "a \<in> set (st_artifacts s) \<Longrightarrow> x \<in> set (st_artifacts s) \<Longrightarrow> b \<in> set (st_blobs s) \<Longrightarrow> owns a b \<Longrightarrow> owns x b \<Longrightarrow>
       ab_state b = BlobIntegrityState.Staging \<Longrightarrow> x = a"
    "a \<in> set (st_artifacts s) \<Longrightarrow> at_state a \<in> {ArtifactState.Deleting, ArtifactState.Deleted} \<Longrightarrow> unprotected s a"
    "content_once s"
  using assms unfolding store_sound_def by blast+

lemma store_soundI:
  assumes "keys_sound s" "\<And>a. a \<in> set (st_artifacts s) \<Longrightarrow> \<exists>b \<in> set (st_blobs s). owns a b"
    and "\<And>a b. a \<in> set (st_artifacts s) \<Longrightarrow> b \<in> set (st_blobs s) \<Longrightarrow> owns a b \<Longrightarrow> pair_sound a b"
    and "\<And>a x b. a \<in> set (st_artifacts s) \<Longrightarrow> x \<in> set (st_artifacts s) \<Longrightarrow> b \<in> set (st_blobs s) \<Longrightarrow> owns a b \<Longrightarrow>
       owns x b \<Longrightarrow> ab_state b = BlobIntegrityState.Staging \<Longrightarrow> x = a"
    and "\<And>a. a \<in> set (st_artifacts s) \<Longrightarrow> at_state a \<in> {ArtifactState.Deleting, ArtifactState.Deleted} \<Longrightarrow>
       unprotected s a"
    and "content_once s"
  shows "store_sound s"
  using assms unfolding store_sound_def by blast

lemma empty_store_sound [simp]: "store_sound (empty_store now)"
  by (simp add: store_sound_def empty_store_def keys_sound_def content_once_def)

section \<open>Links that protect an artifact\<close>

lemma unprotected_iff:
  "unprotected s a \<longleftrightarrow>
     (\<forall>g \<in> set (st_grants s). ag_tenant_id g = at_tenant_id a \<longrightarrow> ag_artifact_id g = at_artifact_id a \<longrightarrow>
        ag_state g = ArtifactLinkState.Active \<longrightarrow> ug_expires_at (ag_snapshot g) \<le> st_now s)
     \<and> (\<forall>r \<in> set (st_references s). af_tenant_id r = at_tenant_id a \<longrightarrow> af_artifact_id r = at_artifact_id a \<longrightarrow>
          af_state r = ArtifactLinkState.Active \<longrightarrow> af_released_at r \<noteq> None)
     \<and> (\<forall>h \<in> set (st_holds s). \<not> active_hold s (at_tenant_id a) (at_artifact_id a) h)"
  by (auto simp: unprotected_def live_references_def filter_empty_conv not_less)

lemma unprotected_same: "same_artifact a a' \<Longrightarrow> unprotected s a' = unprotected s a"
  by (simp add: unprotected_def same_artifact_def artifact_key_def)

lemma active_hold_clock:
  "active_hold (s\<lparr>st_now := now\<rparr>) tenant i h \<Longrightarrow> st_now s \<le> now \<Longrightarrow> active_hold s tenant i h"
  by (cases h) (auto simp: active_hold_def none_or_iff)

lemma unprotected_clock: "unprotected s a \<Longrightarrow> st_now s \<le> now \<Longrightarrow> unprotected (s\<lparr>st_now := now\<rparr>) a"
  unfolding unprotected_iff by (auto dest: active_hold_clock order_trans)

lemma active_hold_now: "st_now t = st_now s \<Longrightarrow> active_hold t = active_hold s"
  by (intro ext) (simp add: active_hold_def)

lemma unprotected_rows:
  assumes "st_grants t = st_grants s" "st_references t = st_references s" "st_holds t = st_holds s" "st_now t = st_now s"
  shows "unprotected t a = unprotected s a"
  by (simp add: unprotected_iff active_hold_def assms)

lemma unprotected_changed_links:
  assumes "unprotected s x" and "changed_links s t a'" and "st_holds t = st_holds s" "st_now t = st_now s"
    and "at_state a' = ArtifactState.Ready \<Longrightarrow> artifact_key x \<noteq> artifact_key a'"
  shows "unprotected t x"
proof -
  from assms(1,2,4) have "\<forall>g \<in> set (st_grants t). ag_tenant_id g = at_tenant_id x \<longrightarrow>
      ag_artifact_id g = at_artifact_id x \<longrightarrow> ag_state g = ArtifactLinkState.Active \<longrightarrow>
      ug_expires_at (ag_snapshot g) \<le> st_now t"
    unfolding unprotected_iff changed_links_def by (auto elim!: in_update_rowE)
  moreover from assms(1,2,5) have "\<forall>r \<in> set (st_references t). af_tenant_id r = at_tenant_id x \<longrightarrow>
      af_artifact_id r = at_artifact_id x \<longrightarrow> af_state r = ArtifactLinkState.Active \<longrightarrow> af_released_at r \<noteq> None"
    unfolding unprotected_iff changed_links_def by (auto simp: artifact_key_def)
  moreover from assms(1,3,4) have "\<forall>h \<in> set (st_holds t). \<not> active_hold t (at_tenant_id x) (at_artifact_id x) h"
    unfolding unprotected_iff by (simp add: active_hold_def)
  ultimately show ?thesis unfolding unprotected_iff by blast
qed

lemma unprotected_released:
  assumes "unprotected s x" and "link_released s t"
  shows "unprotected t x"
  using assms unfolding link_released_def unprotected_iff
  by (elim exE disjE) (auto elim!: in_update_rowE simp: released_hold_def released_reference_def active_hold_def)

section \<open>A change keeps the invariant\<close>

lemmas change_simps = set_artifact_state_def set_blob_state_def scanned_content_def

lemma same_artifact_owns: "at_blob_id a' = at_blob_id a \<Longrightarrow> same_artifact a a' \<Longrightarrow> same_blob b b' \<Longrightarrow> owns a' b' = owns a b"
  by (simp add: owns_def same_artifact_def same_blob_def artifact_key_def blob_key_def)

lemma same_blob_owns: "same_blob b b' \<Longrightarrow> owns x b' = owns x b"
  by (simp add: owns_def same_blob_def blob_key_def)

lemma same_content_same_blob: "same_blob b b' \<Longrightarrow> same_content b' digest r = same_content b digest r"
  by (simp add: same_content_def same_blob_def blob_key_def)

lemma content_verified_content:
  "ab_content_digest b' = ab_content_digest b \<Longrightarrow> ab_size_bytes b' = ab_size_bytes b \<Longrightarrow>
   at_metadata a' = at_metadata a \<Longrightarrow> same_artifact a a' \<Longrightarrow> content_verified a' b' = content_verified a b"
  by (simp add: content_verified_def same_artifact_def split: option.splits)

lemma verified_state_simps [simp]:
  "verified_state ArtifactState.Verified" "verified_state ArtifactState.Ready"
  "\<not> verified_state ArtifactState.Staging" "\<not> verified_state ArtifactState.Uploaded"
  "\<not> verified_state ArtifactState.Verifying" "\<not> verified_state ArtifactState.Quarantined"
  "\<not> verified_state ArtifactState.Rejected" "\<not> verified_state ArtifactState.Corrupt"
  "\<not> verified_state ArtifactState.Deleting" "\<not> verified_state ArtifactState.Deleted"
  by (simp_all add: verified_state_def)

lemma content_verified_set_state [simp]:
  "content_verified (set_artifact_state state v now a) b = content_verified a b"
  "content_verified a (set_blob_state blob_state w b) = content_verified a b"
  by (rule content_verified_content; simp add: change_simps same_artifact_def artifact_key_def)+

lemma deleted_owner:
  "ArtifactState.Deleting \<in> owner_states state \<Longrightarrow> ArtifactState.Deleted \<in> owner_states state"
  by (cases state) simp_all

lemma change_fields [simp]:
  "at_state (set_artifact_state state v now a) = state" "at_blob_id (set_artifact_state state v now a) = at_blob_id a"
  "ab_state (set_blob_state blob_state w b) = blob_state"
  "ab_object_generation (set_blob_state blob_state w b) = ab_object_generation b"
  "ab_content_digest (set_blob_state blob_state w b) = ab_content_digest b"
  "ab_state (scanned_content digest bytes blob_state w b) = blob_state"
  by (simp_all add: change_simps)

text \<open>The changed artifact and the blob it owns afterwards: the one it had, or the verified duplicate.\<close>

lemma change_pair:
  assumes "artifact_change s a b a' b'" and "pair_sound a b"
  shows "(at_blob_id a' = at_blob_id a \<and> pair_sound a' b')
    \<or> (ab_state b = BlobIntegrityState.Staging \<and> ab_state b' = BlobIntegrityState.Deleting
        \<and> (\<exists>r \<in> set (st_blobs s). ab_state r = BlobIntegrityState.Verified \<and> at_blob_id a' = Some (ab_blob_id r)
              \<and> ab_tenant_id r = ab_tenant_id b \<and> ab_blob_id r \<noteq> ab_blob_id b \<and> pair_sound a' r))"
  using assms
proof (cases rule: artifact_change.cases)
  case (ch_reused w r digest bytes)
  then have "pair_sound a' r" by (auto simp: pair_sound_def same_content_def verified_state_def)
  moreover from ch_reused have "ab_state r = BlobIntegrityState.Verified" "ab_tenant_id r = ab_tenant_id b"
    "ab_blob_id r \<noteq> ab_blob_id b" by (simp_all add: same_content_def)
  ultimately show ?thesis using ch_reused by (intro disjI2 conjI bexI [of _ r]) simp_all
next
  case (ch_scanned w digest bytes)
  then show ?thesis by (intro disjI1) (auto simp: pair_sound_def)
next
  case (ch_rescanned w)
  then show ?thesis by (intro disjI1) (auto simp: pair_sound_def)
next
  case (ch_deleting w v now)
  then show ?thesis by (intro disjI1) (auto simp: pair_sound_def)
next
  case (ch_deleted w v now)
  with assms(2) show ?thesis by (intro disjI1) (auto simp: pair_sound_def dest: deleted_owner)
qed (use assms(2) in \<open>intro disjI1, simp add: pair_sound_def\<close>)+

text \<open>Another artifact that owns the same blob.\<close>

lemma change_other:
  assumes "artifact_change s a b a' b'" and "pair_sound a b" and "pair_sound x b" and "ab_state b \<noteq> BlobIntegrityState.Staging"
    and "x \<in> set (st_artifacts s)" "owns x b" "artifact_key x \<noteq> artifact_key a"
  shows "pair_sound x b'"
proof -
  consider "b' = b" | w where "ab_state b = BlobIntegrityState.Verified" "b' = set_blob_state BlobIntegrityState.Corrupt w b"
    | w where "at_state x = ArtifactState.Deleted" "b' = set_blob_state BlobIntegrityState.Deleting w b"
    | w where "ab_state b = BlobIntegrityState.Deleting" "b' = set_blob_state BlobIntegrityState.Deleted w b"
    using assms(1) by (cases rule: artifact_change.cases) (use assms(4-) in auto)
  then show ?thesis using assms(3) by cases (simp_all add: pair_sound_def)
qed

lemma change_staging: "artifact_change s a b a' b' \<Longrightarrow> ab_state b' = BlobIntegrityState.Staging \<Longrightarrow>
    ab_state b = BlobIntegrityState.Staging \<and> at_blob_id a' = at_blob_id a"
  by (cases rule: artifact_change.cases) (auto simp: change_simps)

text \<open>The rows of a changed table.\<close>

lemma changed_rows_artifact:
  assumes "changed_rows s t a b a' b'" "keys_sound s" "artifact_key a' = artifact_key a"
  shows "x \<in> set (st_artifacts t) \<longleftrightarrow> x = a' \<or> (x \<in> set (st_artifacts s) \<and> artifact_key x \<noteq> artifact_key a)"
  using assms update_row_unique [of artifact_key "st_artifacts s" "artifact_key a" a x "\<lambda>_. a'"]
  by (auto simp: changed_rows_def keys_sound_def lookup_row_of)

lemma changed_rows_blob:
  assumes "changed_rows s t a b a' b'" "keys_sound s" "blob_key b' = blob_key b"
  shows "y \<in> set (st_blobs t) \<longleftrightarrow> y = b' \<or> (y \<in> set (st_blobs s) \<and> blob_key y \<noteq> blob_key b)"
  using assms update_row_unique [of blob_key "st_blobs s" "blob_key b" b y "\<lambda>_. b'"]
  by (auto simp: changed_rows_def keys_sound_def lookup_row_of)

lemma changed_keys:
  assumes "changed_rows s t a b a' b'" "keys_sound s" "artifact_key a' = artifact_key a" "blob_key b' = blob_key b"
  shows "keys_sound t"
  using assms by (simp add: changed_rows_def keys_sound_def update_row_keys)

lemma owns_key: "owns a b \<Longrightarrow> owns a y \<Longrightarrow> blob_key y = blob_key b"
  by (simp add: owns_def blob_key_def)

text \<open>The content of the blobs after a change: only the end of a first scan adds a verified content, and then no
  verified blob of the domain had it.\<close>

lemma change_content:
  assumes change: "artifact_change s a b a' b'" and rows: "changed_rows s t a b a' b'" and keys: "keys_sound s"
    and once: "content_once s"
  shows "content_once t"
proof -
  note b' = change_keeps_blob [OF change]
  note blobs = changed_rows_blob [OF rows keys b' [unfolded same_blob_def, THEN conjunct1]]
  have b: "b \<in> set (st_blobs s)" using rows by (simp add: changed_rows_def)
  from change have cases: "ab_state b' \<noteq> BlobIntegrityState.Verified
      \<or> (b' = b) \<or> (\<forall>digest. ab_content_digest b' = Some digest \<longrightarrow> filter (same_content b digest) (st_blobs s) = [])"
    by (cases rule: artifact_change.cases) (auto simp: scanned_content_def)
  have this_one: "\<not> same_content b' digest r \<and> \<not> same_content r digest b'"
    if "ab_state b' = BlobIntegrityState.Verified" "ab_content_digest b' = Some digest" "r \<in> set (st_blobs s)"
      "ab_state r = BlobIntegrityState.Verified" "ab_content_digest r = Some digest" for r digest
  proof -
    have "\<not> same_content b digest r"
      using cases that once b unfolding content_once_def filter_empty_conv by blast
    then show ?thesis using that b' same_content_same_blob [OF b']
      by (auto simp: same_content_def same_blob_def blob_key_def)
  qed
  show ?thesis
    unfolding content_once_def
  proof (intro ballI allI impI notI)
    fix y r digest
    assume y: "y \<in> set (st_blobs t)" and r: "r \<in> set (st_blobs t)" and verified: "ab_state y = BlobIntegrityState.Verified"
      "ab_content_digest y = Some digest" and same: "same_content y digest r"
    from same have "ab_state r = BlobIntegrityState.Verified" "ab_content_digest r = Some digest" "r \<noteq> y"
      by (auto simp: same_content_def)
    with y r verified same show False
      unfolding blobs using this_one once unfolding content_once_def by blast
  qed
qed

lemma change_deleting:
  "artifact_change s a b a' b' \<Longrightarrow> at_state a' \<in> {ArtifactState.Deleting, ArtifactState.Deleted} \<Longrightarrow>
   unprotected s a \<or> at_state a = ArtifactState.Deleting"
  by (cases rule: artifact_change.cases) auto

text \<open>A change of a sound table.\<close>

definition sound_change ::
  "artifact_store \<Rightarrow> artifact_store \<Rightarrow> ArtifactRecord \<Rightarrow> ArtifactBlobRecord \<Rightarrow> ArtifactRecord \<Rightarrow>
   ArtifactBlobRecord \<Rightarrow> bool" where
  "sound_change s t a b a' b' \<longleftrightarrow> store_sound s \<and> artifact_change s a b a' b' \<and> changed_rows s t a b a' b'"

lemma sound_changeD:
  assumes "sound_change s t a b a' b'"
  shows "store_sound s" "artifact_change s a b a' b'" "changed_rows s t a b a' b'"
  using assms by (simp_all add: sound_change_def)

lemma changed_a: "sound_change s t a b a' b' \<Longrightarrow> artifact_key a' = artifact_key a"
  using change_keeps_artifact [OF sound_changeD(2)] by (simp add: same_artifact_def)

lemma changed_b: "sound_change s t a b a' b' \<Longrightarrow> blob_key b' = blob_key b"
  using change_keeps_blob [OF sound_changeD(2)] by (simp add: same_blob_def)

lemma in_artifacts:
  assumes C: "sound_change s t a b a' b'"
  shows "x \<in> set (st_artifacts t) \<longleftrightarrow> x = a' \<or> (x \<in> set (st_artifacts s) \<and> artifact_key x \<noteq> artifact_key a)"
  by (rule changed_rows_artifact [OF sound_changeD(3) [OF C] store_soundD(1) [OF sound_changeD(1) [OF C]] changed_a [OF C]])

lemma in_blobs:
  assumes C: "sound_change s t a b a' b'"
  shows "y \<in> set (st_blobs t) \<longleftrightarrow> y = b' \<or> (y \<in> set (st_blobs s) \<and> blob_key y \<noteq> blob_key b)"
  by (rule changed_rows_blob [OF sound_changeD(3) [OF C] store_soundD(1) [OF sound_changeD(1) [OF C]] changed_b [OF C]])

lemma before:
  assumes "sound_change s t a b a' b'"
  shows "a \<in> set (st_artifacts s)" "b \<in> set (st_blobs s)" "owns a b" "pair_sound a b"
  using sound_changeD(3) [OF assms] store_soundD(3) [OF sound_changeD(1) [OF assms], of a b]
  by (simp_all add: changed_rows_def)

text \<open>The blob the changed artifact owns afterwards.\<close>

lemma changed_owner:
  assumes C: "sound_change s t a b a' b'" and "y \<in> set (st_blobs t)" "owns a' y"
  shows "pair_sound a' y" "ab_state y = BlobIntegrityState.Staging \<Longrightarrow> y = b' \<and> ab_state b = BlobIntegrityState.Staging"
proof -
  note sound = sound_changeD(1) [OF C] and change = sound_changeD(2) [OF C] and rows = sound_changeD(3) [OF C]
  from change_pair [OF change before(4) [OF C]]
  consider (same) "at_blob_id a' = at_blob_id a" "pair_sound a' b'"
    | (other) r where "r \<in> set (st_blobs s)" "ab_state r = BlobIntegrityState.Verified" "at_blob_id a' = Some (ab_blob_id r)"
      "ab_tenant_id r = ab_tenant_id b" "ab_blob_id r \<noteq> ab_blob_id b" "pair_sound a' r"
    by blast
  then have "pair_sound a' y \<and> (ab_state y = BlobIntegrityState.Staging \<longrightarrow> y = b' \<and> ab_state b = BlobIntegrityState.Staging)"
  proof cases
    case same
    then have "owns a y" using assms(3) change_keeps_artifact [OF change]
      by (simp add: owns_def same_artifact_def artifact_key_def)
    then have "y = b'" using assms(2) owns_key [OF before(3) [OF C]] by (auto simp: in_blobs [OF C])
    with same change_staging [OF change] show ?thesis by auto
  next
    case other
    have keys: "blob_key y = blob_key r" "blob_key r \<noteq> blob_key b"
      using other assms(3) before(3) [OF C] changed_a [OF C] by (auto simp: owns_def blob_key_def artifact_key_def)
    then have "y \<in> set (st_blobs s)" using assms(2) changed_b [OF C] by (auto simp: in_blobs [OF C])
    then have "y = r" using other(1) keys store_soundD(1) [OF sound] by (metis keys_sound_def row_is_unique)
    with other show ?thesis by simp
  qed
  then show "pair_sound a' y" "ab_state y = BlobIntegrityState.Staging \<Longrightarrow> y = b' \<and> ab_state b = BlobIntegrityState.Staging"
    by simp_all
qed

lemma has_changed_owner:
  assumes C: "sound_change s t a b a' b'"
  shows "\<exists>y \<in> set (st_blobs t). owns a' y"
proof -
  note sound = sound_changeD(1) [OF C] and change = sound_changeD(2) [OF C] and rows = sound_changeD(3) [OF C]
  from change_pair [OF change before(4) [OF C]]
  consider (same) "at_blob_id a' = at_blob_id a"
    | (other) r where "r \<in> set (st_blobs s)" "at_blob_id a' = Some (ab_blob_id r)"
      "ab_tenant_id r = ab_tenant_id b" "ab_blob_id r \<noteq> ab_blob_id b"
    by blast
  then show ?thesis
  proof cases
    case same
    then have "owns a' b'" using before(3) [OF C] same_artifact_owns change_keeps_artifact [OF change]
        change_keeps_blob [OF change] by blast
    then show ?thesis by (auto simp: in_blobs [OF C])
  next
    case other
    then have "owns a' r" "r \<in> set (st_blobs t)"
      using before(3) [OF C] changed_a [OF C] by (auto simp: owns_def artifact_key_def blob_key_def in_blobs [OF C])
    then show ?thesis ..
  qed
qed

text \<open>The other artifacts and the blobs they own.\<close>

lemma unchanged_owner:
  assumes C: "sound_change s t a b a' b'"
    and "x \<in> set (st_artifacts s)" "artifact_key x \<noteq> artifact_key a" "y \<in> set (st_blobs t)" "owns x y"
  obtains (this_blob) "y = b'" "owns x b" "ab_state b \<noteq> BlobIntegrityState.Staging"
    | (other_blob) "y \<in> set (st_blobs s)" "y \<noteq> b'"
proof (cases "y = b'")
  case True
  then have own: "owns x b" using assms(5) same_blob_owns [OF change_keeps_blob [OF sound_changeD(2) [OF C]]] by simp
  have "ab_state b \<noteq> BlobIntegrityState.Staging"
    using store_soundD(4) [OF sound_changeD(1) [OF C] before(1) [OF C] assms(2) before(2) [OF C] before(3) [OF C] own] assms(3) by blast
  with True own this_blob show ?thesis by blast
next
  case False
  with assms(4) other_blob show ?thesis by (auto simp: in_blobs [OF C])
qed

lemma has_unchanged_owner:
  assumes C: "sound_change s t a b a' b'" and "x \<in> set (st_artifacts s)"
  shows "\<exists>y \<in> set (st_blobs t). owns x y"
proof -
  note sound = sound_changeD(1) [OF C] and change = sound_changeD(2) [OF C] and rows = sound_changeD(3) [OF C]
  obtain y where y: "y \<in> set (st_blobs s)" "owns x y" using store_soundD(2) [OF sound assms(2)] by blast
  show ?thesis
  proof (cases "blob_key y = blob_key b")
    case True
    then have "owns x b'" using y(2) changed_b [OF C] by (simp add: owns_def blob_key_def)
    then show ?thesis by (auto simp: in_blobs [OF C])
  qed (use y in \<open>auto simp: in_blobs [OF C]\<close>)
qed

lemma change_keeps_sound:
  assumes C: "sound_change s t a b a' b'" and links: "changed_links s t a'"
  shows "store_sound t"
proof -
  note sound = sound_changeD(1) [OF C] and change = sound_changeD(2) [OF C] and rows = sound_changeD(3) [OF C]
  show ?thesis
  proof (rule store_soundI)
    show "keys_sound t" by (rule changed_keys [OF rows store_soundD(1) [OF sound] changed_a [OF C] changed_b [OF C]])
    show "content_once t" by (rule change_content [OF change rows store_soundD(1,6) [OF sound]])
    show "\<exists>y \<in> set (st_blobs t). owns x y" if "x \<in> set (st_artifacts t)" for x
      using that has_changed_owner [OF C] has_unchanged_owner [OF C] unfolding in_artifacts [OF C] by blast
    show "pair_sound x y" if "x \<in> set (st_artifacts t)" "y \<in> set (st_blobs t)" "owns x y" for x y
    proof (cases "x = a'")
      case True
      with that changed_owner [OF C] show ?thesis by blast
    next
      case False
      with that(1) have x: "x \<in> set (st_artifacts s)" "artifact_key x \<noteq> artifact_key a" unfolding in_artifacts [OF C] by auto
      from unchanged_owner [OF C x that(2,3)] show ?thesis
        using that(3) x(1) store_soundD(3) [OF sound x(1)] before(2) [OF C]
          change_other [OF change before(4) [OF C] _ _ x(1) _ x(2)] by metis
    qed
    show "x = z" if z: "z \<in> set (st_artifacts t)" "owns z y" and x: "x \<in> set (st_artifacts t)" "owns x y"
      and y: "y \<in> set (st_blobs t)" "ab_state y = BlobIntegrityState.Staging" for x y z
    proof -
      have this_one: "y = b'" if "w = a'" "owns w y" for w using changed_owner (2) [OF C y(1)] y(2) that by blast
      have other: "w \<in> set (st_artifacts s) \<and> y \<in> set (st_blobs s) \<and> y \<noteq> b'"
        if "w \<in> set (st_artifacts t)" "w \<noteq> a'" "owns w y" for w
      proof -
        from that(1,2) have w: "w \<in> set (st_artifacts s)" "artifact_key w \<noteq> artifact_key a" unfolding in_artifacts [OF C] by auto
        from unchanged_owner [OF C w y(1) that(3)] change_staging [OF change] y(2) w show ?thesis by blast
      qed
      show ?thesis
        using this_one [of x] this_one [of z] other [of x] other [of z] x z y(2) store_soundD(4) [OF sound, of z x y] by metis
    qed
    show "unprotected t x" if "x \<in> set (st_artifacts t)" "at_state x \<in> {ArtifactState.Deleting, ArtifactState.Deleted}" for x
    proof (rule unprotected_changed_links [OF _ links])
      show "st_holds t = st_holds s" "st_now t = st_now s" using rows by (simp_all add: changed_rows_def)
      show "artifact_key x \<noteq> artifact_key a'" if "at_state a' = ArtifactState.Ready"
        using \<open>x \<in> set (st_artifacts t)\<close> \<open>at_state x \<in> _\<close> that changed_a [OF C] unfolding in_artifacts [OF C] by auto
      show "unprotected s x"
      proof (cases "x = a'")
        case True
        then have "unprotected s a" using change_deleting [OF change] that(2) store_soundD(5) [OF sound] before(1) [OF C] by blast
        with True unprotected_same [OF change_keeps_artifact [OF change]] show ?thesis by simp
      next
        case False
        with that show ?thesis unfolding in_artifacts [OF C] using store_soundD(5) [OF sound] by blast
      qed
    qed
  qed
qed

lemma content_once_mono:
  assumes "content_once s" and "\<And>y. y \<in> set (st_blobs t) \<Longrightarrow> ab_state y = BlobIntegrityState.Verified \<Longrightarrow> y \<in> set (st_blobs s)"
  shows "content_once t"
proof -
  have "same_content b digest r \<Longrightarrow> ab_state r = BlobIntegrityState.Verified" for b digest r
    by (simp add: same_content_def)
  with assms show ?thesis unfolding content_once_def by blast
qed

section \<open>The other steps keep the invariant\<close>

text \<open>A step that leaves the artifacts and the blobs alone has to keep what is being deleted unprotected.\<close>

lemma links_keep_sound:
  assumes "store_sound s" and "st_artifacts t = st_artifacts s" "st_blobs t = st_blobs s"
    and "\<And>a. a \<in> set (st_artifacts s) \<Longrightarrow> at_state a \<in> {ArtifactState.Deleting, ArtifactState.Deleted} \<Longrightarrow>
      unprotected s a \<Longrightarrow> unprotected t a"
  shows "store_sound t"
  using assms unfolding store_sound_def by (simp add: keys_sound_def content_once_def)

lemma held_keeps_sound:
  assumes "store_sound s" and "artifact_held s t"
  shows "store_sound t"
proof -
  from assms(2) obtain h e a where a: "a \<in> set (st_artifacts s)"
      "at_state a \<notin> {ArtifactState.Deleting, ArtifactState.Deleted}" "ah_tenant_id h = at_tenant_id a"
      "ah_artifact_id h = at_artifact_id a" and t: "t = s\<lparr>st_holds := st_holds s @ [(h, e)]\<rparr>"
    unfolding artifact_held_def by blast
  show ?thesis
  proof (rule links_keep_sound [OF assms(1)])
    fix x
    assume x: "x \<in> set (st_artifacts s)" "at_state x \<in> {ArtifactState.Deleting, ArtifactState.Deleted}" "unprotected s x"
    have "artifact_key x \<noteq> artifact_key a"
      using x(1,2) a(1,2) store_soundD(1) [OF assms(1)] by (metis keys_sound_def row_is_unique)
    with x(3) a show "unprotected t x"
      unfolding unprotected_iff t by (auto simp: active_hold_def artifact_key_def)
  qed (simp_all add: t)
qed

lemma cleaned_keeps_sound:
  assumes "store_sound s" and "blob_cleaned s t"
  shows "store_sound t"
proof -
  from assms(2) obtain b v where b: "b \<in> set (st_blobs s)" "ab_state b = BlobIntegrityState.Deleting"
      and t: "t = s\<lparr>st_blobs := update_row blob_key (blob_key b)
                 (\<lambda>_. set_blob_state BlobIntegrityState.Deleted v b) (st_blobs s)\<rparr>"
    unfolding blob_cleaned_def by blast
  let ?b = "set_blob_state BlobIntegrityState.Deleted v b"
  have same: "same_blob b ?b" by simp
  then have key: "blob_key ?b = blob_key b" by (simp add: same_blob_def)
  have "distinct (map blob_key (st_blobs s))" using store_soundD(1) [OF assms(1)] by (simp add: keys_sound_def)
  then have blobs: "y \<in> set (st_blobs t) \<longleftrightarrow> y = ?b \<or> (y \<in> set (st_blobs s) \<and> blob_key y \<noteq> blob_key b)" for y
    using update_row_unique [of blob_key "st_blobs s" "blob_key b" b y "\<lambda>_. ?b"] b by (simp add: t lookup_row_of)
  have arts: "st_artifacts t = st_artifacts s" by (simp add: t)
  show ?thesis
  proof (rule store_soundI)
    show "keys_sound t" using store_soundD(1) [OF assms(1)] key by (simp add: keys_sound_def t update_row_keys)
    show "\<exists>y \<in> set (st_blobs t). owns x y" if "x \<in> set (st_artifacts t)" for x
    proof -
      from that have "x \<in> set (st_artifacts s)" by (simp add: arts)
      then obtain y where y: "y \<in> set (st_blobs s)" "owns x y" using store_soundD(2) [OF assms(1)] by blast
      then have "blob_key y = blob_key b \<Longrightarrow> owns x ?b" using key by (simp add: owns_def blob_key_def)
      with y blobs show ?thesis by blast
    qed
    show "pair_sound x y" if "x \<in> set (st_artifacts t)" "y \<in> set (st_blobs t)" "owns x y" for x y
    proof (cases "y = ?b")
      case True
      then have "pair_sound x b" using that store_soundD(3) [OF assms(1)] b(1) same_blob_owns [OF same] arts by metis
      with True b show ?thesis by (auto simp: pair_sound_def)
    qed (use that blobs arts store_soundD(3) [OF assms(1)] in auto)
    show "x = a" if "a \<in> set (st_artifacts t)" "x \<in> set (st_artifacts t)" "y \<in> set (st_blobs t)" "owns a y" "owns x y"
      "ab_state y = BlobIntegrityState.Staging" for a x y
      using that store_soundD(4) [OF assms(1), of a x y] unfolding blobs arts by auto
    show "unprotected t a" if "a \<in> set (st_artifacts t)" "at_state a \<in> {ArtifactState.Deleting, ArtifactState.Deleted}" for a
      using that store_soundD(5) [OF assms(1)] unprotected_rows [of t s] by (simp add: t)
    show "content_once t"
      by (rule content_once_mono [OF store_soundD(6) [OF assms(1)]]) (auto simp: blobs)
  qed
qed

lemma prepared_keeps_sound:
  assumes "store_sound s" and "artifact_prepared s t"
  shows "store_sound t"
proof -
  from assms(2) obtain a b g where fresh: "artifact_key a \<notin> artifact_key ` set (st_artifacts s)"
      "blob_key b \<notin> blob_key ` set (st_blobs s)"
    and ab: "owns a b" "at_state a = ArtifactState.Staging" "ab_state b = BlobIntegrityState.Staging"
      "ab_object_generation b = None" "ab_content_digest b = None"
    and g: "ag_tenant_id g = at_tenant_id a" "ag_artifact_id g = at_artifact_id a"
    and t: "t = s\<lparr>st_artifacts := st_artifacts s @ [a], st_blobs := st_blobs s @ [b], st_grants := st_grants s @ [g]\<rparr>"
    unfolding artifact_prepared_def has_row_iff by blast
  have pair: "pair_sound a b" using ab by (simp add: pair_sound_def)
  have only: "x = a \<longleftrightarrow> y = b" if "x \<in> set (st_artifacts t)" "y \<in> set (st_blobs t)" "owns x y" for x y
  proof
    assume "x = a"
    then have "blob_key y = blob_key b" using owns_key ab(1) that(3) by blast
    then show "y = b" using that(2) fresh(2) by (auto simp: t rev_image_eqI)
  next
    assume y: "y = b"
    show "x = a"
    proof (rule ccontr)
      assume "x \<noteq> a"
      then have "x \<in> set (st_artifacts s)" using that(1) by (simp add: t)
      then obtain z where "z \<in> set (st_blobs s)" "owns x z" using store_soundD(2) [OF assms(1)] by blast
      with owns_key [of x b z] that(3) y fresh(2) show False by (auto simp: rev_image_eqI)
    qed
  qed
  show ?thesis
  proof (rule store_soundI)
    show "keys_sound t" using store_soundD(1) [OF assms(1)] fresh by (simp add: keys_sound_def t)
    show "\<exists>y \<in> set (st_blobs t). owns x y" if "x \<in> set (st_artifacts t)" for x
      using that ab(1) store_soundD(2) [OF assms(1)] by (auto simp: t)
    show "pair_sound x y" if "x \<in> set (st_artifacts t)" "y \<in> set (st_blobs t)" "owns x y" for x y
    proof (cases "x = a")
      case True
      with only [OF that] pair show ?thesis by simp
    next
      case False
      with only [OF that] that store_soundD(3) [OF assms(1)] show ?thesis by (simp add: t)
    qed
    show "x = z" if "z \<in> set (st_artifacts t)" "x \<in> set (st_artifacts t)" "y \<in> set (st_blobs t)" "owns z y" "owns x y"
      "ab_state y = BlobIntegrityState.Staging" for z x y
    proof (cases "y = b")
      case True
      with only [OF that(1,3,4)] only [OF that(2,3,5)] show ?thesis by simp
    next
      case False
      with only [OF that(1,3,4)] only [OF that(2,3,5)] that store_soundD(4) [OF assms(1), of z x y] show ?thesis by (simp add: t)
    qed
    show "unprotected t x" if "x \<in> set (st_artifacts t)" "at_state x \<in> {ArtifactState.Deleting, ArtifactState.Deleted}" for x
    proof -
      have x: "x \<in> set (st_artifacts s)" using that ab(2) by (auto simp: t)
      then have "artifact_key x \<noteq> artifact_key a" using fresh(1) by (metis image_eqI)
      moreover have "active_hold t = active_hold s" by (rule active_hold_now) (simp add: t)
      ultimately show ?thesis
        using store_soundD(5) [OF assms(1) x that(2)] g unfolding unprotected_iff by (auto simp: t artifact_key_def)
    qed
    show "content_once t"
      by (rule content_once_mono [OF store_soundD(6) [OF assms(1)]]) (use ab(3) in \<open>auto simp: t\<close>)
  qed
qed

text \<open>Every step keeps the invariant.\<close>

lemma step_keeps_sound:
  assumes "artifact_step env add limits s t" and "store_sound s"
  shows "store_sound t"
  using assms(1) store_soundD(1) [OF assms(2)]
proof (cases rule: artifact_step_cases)
  case (clock now)
  then show ?thesis by (intro links_keep_sound [OF assms(2)]) (auto intro: unprotected_clock)
next
  case changed
  then show ?thesis unfolding artifact_changed_def sound_change_def [symmetric]
    using assms(2) change_keeps_sound unfolding sound_change_def by blast
next
  case released
  show ?thesis
    by (rule links_keep_sound [OF assms(2)])
      (use released unprotected_released [OF _ released] in \<open>auto simp: link_released_def\<close>)
next
  case derived
  then show ?thesis unfolding artifact_derived_def
    by (elim exE conjE) (rule links_keep_sound [OF assms(2)], auto simp: unprotected_iff active_hold_def)
qed (use assms(2) prepared_keeps_sound cleaned_keeps_sound held_keeps_sound in blast)+

end
