(* ===== verification/ArtifactHistory.thy ===== *)
theory ArtifactHistory
  imports ArtifactRuns Versioned
begin

text \<open>
  Histories of the artifact tables: from an empty database every history is sound, the bytes of an artifact that
  was verified once stay where they are, and the provenance links stay acyclic and never lower a classification.
\<close>

section \<open>Sound histories\<close>

lemma history_sound: "(artifact_step env add limits)\<^sup>*\<^sup>* s t \<Longrightarrow> store_sound s \<Longrightarrow> store_sound t"
  by (induction rule: rtranclp_induct) (auto intro: step_keeps_sound)

lemma reachable_sound: "(artifact_step env add limits)\<^sup>*\<^sup>* (empty_store now) s \<Longrightarrow> store_sound s"
  by (rule history_sound [OF _ empty_store_sound])

text \<open>A step of a table that is sound; what is proved of every such step holds of every history.\<close>

definition sound_step ::
  "('n, 'z) artifact_env_scheme \<Rightarrow> chrono_add \<Rightarrow> ArtifactCommandLimits \<Rightarrow> artifact_store \<Rightarrow> artifact_store \<Rightarrow> bool" where
  "sound_step env add limits s t \<longleftrightarrow> store_sound s \<and> artifact_step env add limits s t"

lemma history_steps:
  assumes "(artifact_step env add limits)\<^sup>*\<^sup>* s t" and "store_sound s"
  shows "(sound_step env add limits)\<^sup>*\<^sup>* s t"
  using assms
proof (induction rule: rtranclp_induct)
  case (step t u)
  then have "store_sound t" by (blast intro: history_sound)
  with step show ?case by (auto simp: sound_step_def intro: rtranclp.rtrancl_into_rtrancl)
qed simp

section \<open>Stored bytes\<close>

definition bytes_kept :: "ArtifactBlobRecord \<Rightarrow> ArtifactBlobRecord \<Rightarrow> bool" where
  "bytes_kept b b' \<longleftrightarrow>
     same_blob b b' \<and> ab_object_generation b' = ab_object_generation b
     \<and> ab_content_digest b' = ab_content_digest b \<and> ab_size_bytes b' = ab_size_bytes b"

definition settled :: "ArtifactState \<Rightarrow> bool" where
  "settled state \<longleftrightarrow> state \<notin> {ArtifactState.Staging, ArtifactState.Uploaded, ArtifactState.Verifying}"

lemma bytes_kept_refl [simp]: "bytes_kept b b" "bytes_kept b (set_blob_state state w b)"
  by (simp_all add: bytes_kept_def change_simps same_blob_def blob_key_def)

lemma bytes_kept_trans: "bytes_kept b c \<Longrightarrow> bytes_kept c d \<Longrightarrow> bytes_kept b d"
  by (simp add: bytes_kept_def same_blob_def)

lemma same_artifact_trans: "same_artifact a c \<Longrightarrow> same_artifact c d \<Longrightarrow> same_artifact a d"
  by (simp add: same_artifact_def)

lemma same_artifact_refl [simp]: "same_artifact a a"
  by (simp add: same_artifact_def)

lemma owns_same: "at_blob_id a' = at_blob_id a \<Longrightarrow> same_artifact a a' \<Longrightarrow> owns a' z = owns a z"
  by (simp add: owns_def same_artifact_def artifact_key_def)

text \<open>The change of a blob whose first scan has ended keeps its bytes, and such an artifact keeps its blob.\<close>

lemma settled_change:
  assumes "artifact_change s a b a' b'" and "ab_state b \<noteq> BlobIntegrityState.Staging"
  shows "bytes_kept b b'" "at_blob_id a' = at_blob_id a" "ab_state b' \<noteq> BlobIntegrityState.Staging"
    "settled (at_state a) \<Longrightarrow> settled (at_state a')"
  using assms by (cases rule: artifact_change.cases; auto simp: settled_def)+

definition stores :: "artifact_store \<Rightarrow> ArtifactRecord \<Rightarrow> ArtifactBlobRecord \<Rightarrow> bool" where
  "stores s a b \<longleftrightarrow>
     (\<exists>a' b'. a' \<in> set (st_artifacts s) \<and> b' \<in> set (st_blobs s) \<and> same_artifact a a' \<and> bytes_kept b b' \<and> owns a' b'
        \<and> settled (at_state a') \<and> ab_state b' \<noteq> BlobIntegrityState.Staging)"

lemma stores_rows: "st_artifacts t = st_artifacts s \<Longrightarrow> st_blobs t = st_blobs s \<Longrightarrow> stores t x y = stores s x y"
  by (simp add: stores_def)

lemma stores_change:
  assumes C: "sound_change s t a b a' b'" and "stores s x y"
  shows "stores t x y"
proof -
  note change = sound_changeD(2) [OF C] and sound = sound_changeD(1) [OF C]
  from assms(2) obtain v w where vw: "v \<in> set (st_artifacts s)" "w \<in> set (st_blobs s)" "same_artifact x v" "bytes_kept y w"
      "owns v w" "settled (at_state v)" "ab_state w \<noteq> BlobIntegrityState.Staging"
    unfolding stores_def by blast
  note keys = store_soundD(1) [OF sound]
  have w': "\<exists>w'. w' \<in> set (st_blobs t) \<and> bytes_kept y w' \<and> owns v w' \<and> ab_state w' \<noteq> BlobIntegrityState.Staging"
  proof (cases "blob_key w = blob_key b")
    case True
    then have "w = b" using keys vw(2) before(2) [OF C] by (metis keys_sound_def row_is_unique)
    then show ?thesis
      using vw settled_change(1,3) [OF change] same_blob_owns [OF change_keeps_blob [OF change]] bytes_kept_trans in_blobs [OF C]
      by blast
  next
    case False
    with vw in_blobs [OF C] show ?thesis by blast
  qed
  show ?thesis
  proof (cases "artifact_key v = artifact_key a")
    case True
    then have v: "v = a" using keys vw(1) before(1) [OF C] by (metis keys_sound_def row_is_unique)
    then have "w = b" using vw(2,5) before(2,3) [OF C] keys owns_key by (metis keys_sound_def row_is_unique)
    then have "at_blob_id a' = at_blob_id a" "settled (at_state a')" "same_artifact x a'"
      using settled_change [OF change] vw v change_keeps_artifact [OF change] same_artifact_trans by auto
    moreover from this(1) have "owns a' z = owns a z" for z by (rule owns_same [OF _ change_keeps_artifact [OF change]])
    moreover have "a' \<in> set (st_artifacts t)" using in_artifacts [OF C] by blast
    ultimately show ?thesis using w' v unfolding stores_def by blast
  next
    case False
    then have "v \<in> set (st_artifacts t)" using vw(1) in_artifacts [OF C] by blast
    with vw w' show ?thesis unfolding stores_def by blast
  qed
qed

lemma stores_step:
  assumes "sound_step env add limits s t" and "stores s x y"
  shows "stores t x y"
proof -
  have sound: "store_sound s" and "artifact_step env add limits s t" using assms(1) by (simp_all add: sound_step_def)
  from this(2) store_soundD(1) [OF sound] show ?thesis
  proof (cases rule: artifact_step_cases)
    case changed
    then show ?thesis using sound assms(2) stores_change unfolding artifact_changed_def sound_change_def by blast
  next
    case prepared
    with assms(2) show ?thesis unfolding artifact_prepared_def stores_def by fastforce
  next
    case cleaned
    then obtain b v where b: "b \<in> set (st_blobs s)" "ab_state b = BlobIntegrityState.Deleting"
        and t: "t = s\<lparr>st_blobs := update_row blob_key (blob_key b)
                   (\<lambda>_. set_blob_state BlobIntegrityState.Deleted v b) (st_blobs s)\<rparr>"
      unfolding blob_cleaned_def by blast
    from assms(2) obtain c d where cd: "c \<in> set (st_artifacts s)" "d \<in> set (st_blobs s)" "same_artifact x c" "bytes_kept y d"
        "owns c d" "settled (at_state c)" "ab_state d \<noteq> BlobIntegrityState.Staging"
      unfolding stores_def by blast
    show ?thesis
    proof (cases "blob_key d = blob_key b")
      case True
      then have d: "d = b" using b cd(2) store_soundD(1) [OF sound] by (metis keys_sound_def row_is_unique)
      let ?b = "set_blob_state BlobIntegrityState.Deleted v b"
      have "?b \<in> set (st_blobs t)" using update_row_this [of b "st_blobs s" blob_key "blob_key b" "\<lambda>_. ?b"] b by (simp add: t)
      moreover have "owns c ?b" using cd(5) d same_blob_owns [of b ?b c] by simp
      moreover have "bytes_kept y ?b" using cd(4) d bytes_kept_trans [of y b ?b] by simp
      ultimately show ?thesis using cd unfolding stores_def t by fastforce
    next
      case False
      then have "d \<in> set (st_blobs t)" using cd(2) by (simp add: t update_row_other)
      with cd show ?thesis unfolding stores_def t by fastforce
    qed
  qed (use assms(2) stores_rows [of t s x y] in
    \<open>auto simp: artifact_held_def link_released_def artifact_derived_def\<close>)
qed

text \<open>A blob is written once: its generation by the upload, its content by the first scan.\<close>

definition blob_written :: "ArtifactBlobRecord \<Rightarrow> ArtifactBlobRecord \<Rightarrow> bool" where
  "blob_written b b' \<longleftrightarrow>
     same_blob b b' \<and> (ab_object_generation b \<noteq> None \<longrightarrow> ab_object_generation b' = ab_object_generation b)
     \<and> (ab_content_digest b \<noteq> None \<longrightarrow> ab_content_digest b' = ab_content_digest b \<and> ab_size_bytes b' = ab_size_bytes b)
     \<and> (b' = b \<or> ab_version b < ab_version b')"

lemma blob_written_refl [simp]: "blob_written b b"
  by (simp add: blob_written_def)

lemma blob_written_rows:
  "ab_version b < w \<Longrightarrow> blob_written b (set_blob_state state w b)"
  "ab_version b < w \<Longrightarrow> ab_content_digest b = None \<Longrightarrow> blob_written b (scanned_content digest bytes state w b)"
  "ab_version b < w \<Longrightarrow> ab_object_generation b = None \<Longrightarrow> blob_written b (b\<lparr>ab_object_generation := g, ab_version := w\<rparr>)"
  by (simp_all add: blob_written_def, simp_all add: change_simps)

lemma change_writes:
  assumes change: "artifact_change s a b a' b'" and pair: "pair_sound a b"
  shows "blob_written b b'"
proof -
  from pair have "ab_state b = BlobIntegrityState.Staging \<Longrightarrow> ab_content_digest b = None"
    "at_state a = ArtifactState.Staging \<Longrightarrow> ab_object_generation b = None"
    by (simp_all add: pair_sound_def)
  with change show ?thesis
    by (cases rule: artifact_change.cases) (auto intro: blob_written_rows)
qed

definition stored_blob :: "row_key \<Rightarrow> artifact_store \<Rightarrow> ArtifactBlobRecord option" where
  "stored_blob k s = lookup_row blob_key k (st_blobs s)"

lemma step_writes:
  assumes "sound_step env add limits s t" and "stored_blob k s = Some b"
  obtains b' where "stored_blob k t = Some b'" "blob_written b b'"
proof -
  have sound: "store_sound s" and "artifact_step env add limits s t" using assms(1) by (simp_all add: sound_step_def)
  have keys: "distinct (map blob_key (st_blobs s))" using store_soundD(1) [OF sound] by (simp add: keys_sound_def)
  have updated: "\<exists>b'. stored_blob k t = Some b' \<and> blob_written b b'"
    if "c \<in> set (st_blobs s)" "st_blobs t = update_row blob_key (blob_key c) (\<lambda>_. c') (st_blobs s)" "blob_written c c'" for c c'
  proof -
    have key: "blob_key c' = blob_key c" using that(3) by (simp add: blob_written_def same_blob_def)
    have "lookup_row blob_key (blob_key c) (st_blobs s) = Some c" using keys that(1) by (rule lookup_row_of)
    with that(2,3) assms(2) key show ?thesis by (auto simp: stored_blob_def lookup_update_row)
  qed
  from \<open>artifact_step env add limits s t\<close> store_soundD(1) [OF sound]
  have "\<exists>b'. stored_blob k t = Some b' \<and> blob_written b b'"
  proof (cases rule: artifact_step_cases)
    case changed
    then obtain x c x' c' where C: "sound_change s t x c x' c'" using sound
      unfolding artifact_changed_def sound_change_def by blast
    show ?thesis
      by (rule updated [of c c']) (use sound_changeD(3) [OF C] change_writes [OF sound_changeD(2) [OF C] before(4) [OF C]] in
        \<open>simp_all add: changed_rows_def\<close>)
  next
    case cleaned
    then obtain c v where c: "c \<in> set (st_blobs s)" "ab_version c < v" and t: "t = s\<lparr>st_blobs := update_row blob_key (blob_key c)
        (\<lambda>_. set_blob_state BlobIntegrityState.Deleted v c) (st_blobs s)\<rparr>"
      unfolding blob_cleaned_def by blast
    show ?thesis
      by (rule updated [of c]) (use c blob_written_rows(1) [OF c(2)] in \<open>simp_all add: t\<close>)
  next
    case prepared
    with assms(2) show ?thesis by (auto simp: stored_blob_def artifact_prepared_def)
  next
    case released
    with assms(2) show ?thesis by (auto simp: stored_blob_def link_released_def)
  next
    case held
    then have "st_blobs t = st_blobs s" unfolding artifact_held_def by force
    with assms(2) show ?thesis by (simp add: stored_blob_def)
  next
    case derived
    then have "st_blobs t = st_blobs s" unfolding artifact_derived_def by force
    with assms(2) show ?thesis by (simp add: stored_blob_def)
  qed (use assms(2) in \<open>simp_all add: stored_blob_def\<close>)
  with that show ?thesis by blast
qed

definition generation_slot :: "row_key \<Rightarrow> artifact_store \<Rightarrow> string option" where
  "generation_slot k s = Option.bind (stored_blob k s) ab_object_generation"

definition content_slot :: "row_key \<Rightarrow> artifact_store \<Rightarrow> (Sha256Digest \<times> u64 option) option" where
  "content_slot k s = Option.bind (stored_blob k s) (\<lambda>b. map_option (\<lambda>d. (d, ab_size_bytes b)) (ab_content_digest b))"

interpretation generation: write_once "sound_step env add limits" "generation_slot k" for env add limits k
proof
  fix s t v
  assume step: "sound_step env add limits s t" and "generation_slot k s = Some v"
  then obtain b where b: "stored_blob k s = Some b" "ab_object_generation b = Some v"
    by (auto simp: generation_slot_def bind_eq_Some_conv)
  from step b(1) obtain b' where "stored_blob k t = Some b'" "blob_written b b'" by (rule step_writes)
  with b(2) show "generation_slot k t = Some v" by (simp add: generation_slot_def blob_written_def)
qed

interpretation content: write_once "sound_step env add limits" "content_slot k" for env add limits k
proof
  fix s t v
  assume step: "sound_step env add limits s t" and "content_slot k s = Some v"
  then obtain b d where b: "stored_blob k s = Some b" "ab_content_digest b = Some d" "v = (d, ab_size_bytes b)"
    by (auto simp: content_slot_def bind_eq_Some_conv)
  from step b(1) obtain b' where "stored_blob k t = Some b'" "blob_written b b'" by (rule step_writes)
  with b(2,3) show "content_slot k t = Some v" by (simp add: content_slot_def blob_written_def)
qed

end
