(* ===== verification/ArtifactLineage.thy ===== *)
theory ArtifactLineage
  imports ArtifactHistory
begin

text \<open>
  The provenance links: the walk of \<open>require_acyclic_provenance\<close> finds every short path of links, so a link it lets
  through closes no cycle, and a chain of links never lowers the classification of what it derives.
\<close>

section \<open>Paths of links\<close>

text \<open>A path is listed backwards, as the walk builds it.\<close>

fun chained :: "(ResourceId \<times> ResourceId) list \<Rightarrow> ResourceId list \<Rightarrow> bool" where
  "chained edges (t # u # path) \<longleftrightarrow> (u, t) \<in> set edges \<and> chained edges (u # path)"
| "chained edges path \<longleftrightarrow> True"

lemma chained_suffix: "chained edges (xs @ ys) \<Longrightarrow> chained edges ys"
proof (induction xs)
  case (Cons x xs)
  then show ?case by (cases "xs @ ys") auto
qed simp

lemma walk_starts: "path \<in> set (provenance_walk edges n path)"
  by (cases n) simp_all

text \<open>The walk reaches every path without repetition that is short enough.\<close>

lemma walk_complete:
  assumes "chained edges (xs @ path)" and "distinct (xs @ path)" and "length xs \<le> n" and "path \<noteq> []"
  shows "xs @ path \<in> set (provenance_walk edges n path)"
  using assms
proof (induction n arbitrary: xs path)
  case 0
  then show ?case by simp
next
  case (Suc n)
  show ?case
  proof (cases xs rule: rev_cases)
    case Nil
    then show ?thesis by (simp add: walk_starts)
  next
    case (snoc ys y)
    obtain u rest where path: "path = u # rest" using Suc.prems(4) by (cases path) auto
    have "chained edges (y # path)" using Suc.prems(1) chained_suffix [of edges ys "y # path"] by (simp add: snoc)
    then have edge: "(u, y) \<in> set edges" by (simp add: path)
    have "ys @ (y # path) \<in> set (provenance_walk edges n (y # path))"
      by (rule Suc.IH) (use Suc.prems snoc in simp_all)
    moreover have "y \<notin> set path" using Suc.prems(2) by (simp add: snoc)
    ultimately show ?thesis using edge by (auto simp: snoc path intro!: bexI [of _ "(u, y)"])
  qed
qed

lemma simple_path:
  assumes "(x, y) \<in> (set edges)\<^sup>*"
  shows "\<exists>xs. chained edges (xs @ [x]) \<and> distinct (xs @ [x]) \<and> hd (xs @ [x]) = y"
  using assms
proof (induction rule: rtrancl_induct)
  case base
  show ?case by (rule exI [of _ "[]"]) simp
next
  case (step y z)
  then obtain xs where xs: "chained edges (xs @ [x])" "distinct (xs @ [x])" "hd (xs @ [x]) = y" by blast
  show ?case
  proof (cases "z \<in> set (xs @ [x])")
    case True
    then obtain us vs where split: "xs @ [x] = us @ z # vs" by (meson split_list)
    then have "chained edges (z # vs)" "distinct (z # vs)" using xs chained_suffix [of edges us "z # vs"] by auto
    moreover have "\<exists>ws. z # vs = ws @ [x]"
    proof (cases vs rule: rev_cases)
      case Nil
      with split show ?thesis by auto
    next
      case (snoc ws w)
      with split have "w = x" by (metis append.assoc append_Cons last_snoc)
      with snoc show ?thesis by auto
    qed
    ultimately show ?thesis by (metis list.sel(1))
  next
    case False
    have "chained edges ((z # xs) @ [x])" using xs step.hyps(2) by (cases "xs @ [x]") auto
    with xs False show ?thesis by (intro exI [of _ "z # xs"]) auto
  qed
qed

text \<open>A link that was let through closes no cycle.\<close>

lemma acyclic_check:
  assumes "is_ok (require_acyclic_provenance s tenant source derived depth)" and "source \<noteq> derived"
  shows "(derived, source) \<notin> (set (provenance_edges s tenant))\<^sup>*"
proof
  let ?edges = "provenance_edges s tenant"
  let ?walk = "provenance_walk ?edges (unat depth) [derived]"
  from assms(1) have accepted: "\<And>path. path \<in> set ?walk \<Longrightarrow> hd path = source \<Longrightarrow> \<not> 1 < length path"
    "\<And>path. path \<in> set ?walk \<Longrightarrow> length path = unat depth + 1 \<Longrightarrow> \<forall>(u, t) \<in> set ?edges. u \<noteq> hd path"
    by (auto simp: require_acyclic_provenance_def Let_def is_ok_iff result_simps list_ex_iff split: if_splits)
  assume "(derived, source) \<in> (set ?edges)\<^sup>*"
  then obtain xs where xs: "chained ?edges (xs @ [derived])" "distinct (xs @ [derived])" "hd (xs @ [derived]) = source"
    using simple_path by blast
  with assms(2) have "xs \<noteq> []" by auto
  show False
  proof (cases "length xs \<le> unat depth")
    case True
    with xs have "xs @ [derived] \<in> set ?walk" by (intro walk_complete) simp_all
    with accepted(1) xs(3) \<open>xs \<noteq> []\<close> show False by fastforce
  next
    case False
    define ys where "ys = drop (length xs - unat depth) xs"
    have split: "xs = take (length xs - unat depth) xs @ ys" by (simp add: ys_def)
    have len: "length ys = unat depth" using False by (simp add: ys_def)
    have "chained ?edges (take (length xs - unat depth) xs @ (ys @ [derived]))" using xs(1) split by (metis append.assoc)
    then have ys: "chained ?edges (ys @ [derived])" by (rule chained_suffix)
    have "distinct (ys @ [derived])" using xs(2) by (auto simp: ys_def dest: in_set_dropD)
    with ys len have "ys @ [derived] \<in> set ?walk" by (intro walk_complete) simp_all
    moreover obtain zs z where zs: "take (length xs - unat depth) xs = zs @ [z]"
      using False by (cases "take (length xs - unat depth) xs" rule: rev_cases) auto
    then have "chained ?edges (z # (ys @ [derived]))"
      using xs(1) split chained_suffix [of ?edges zs "z # (ys @ [derived])"] by (metis append.assoc append_Cons append_Nil)
    then have "(hd (ys @ [derived]), z) \<in> set ?edges" by (cases "ys @ [derived]") auto
    ultimately show False using accepted(2) [of "ys @ [derived]"] len by fastforce
  qed
qed

section \<open>Sound links\<close>

definition link_sound :: "artifact_store \<Rightarrow> ArtifactProvenanceRecord \<Rightarrow> bool" where
  "link_sound s p \<longleftrightarrow>
     (\<exists>x y. x \<in> set (st_artifacts s) \<and> y \<in> set (st_artifacts s)
        \<and> artifact_key x = (av_tenant_id p, av_source_artifact_id p)
        \<and> artifact_key y = (av_tenant_id p, av_derived_artifact_id p)
        \<and> classification_rank (at_classification x) \<le> classification_rank (at_classification y))"

definition lineage_sound :: "artifact_store \<Rightarrow> bool" where
  "lineage_sound s \<longleftrightarrow>
     (\<forall>tenant. acyclic (set (provenance_edges s tenant))) \<and> (\<forall>p \<in> set (st_provenance s). link_sound s p)"

text \<open>No step loses an artifact, or changes what was declared of it.\<close>

lemma step_keeps_artifacts:
  assumes "sound_step env add limits s t" and "x \<in> set (st_artifacts s)"
  shows "\<exists>x' \<in> set (st_artifacts t). same_artifact x x'"
proof -
  have sound: "store_sound s" and "artifact_step env add limits s t" using assms(1) by (simp_all add: sound_step_def)
  from this(2) store_soundD(1) [OF sound] show ?thesis
  proof (cases rule: artifact_step_cases)
    case changed
    then obtain a b a' b' where C: "sound_change s t a b a' b'" using sound
      unfolding artifact_changed_def sound_change_def by blast
    show ?thesis
    proof (cases "artifact_key x = artifact_key a")
      case True
      then have "x = a" using store_soundD(1) [OF sound] assms(2) before(1) [OF C] by (metis keys_sound_def row_is_unique)
      with change_keeps_artifact [OF sound_changeD(2) [OF C]] in_artifacts [OF C] show ?thesis by blast
    next
      case False
      with assms(2) in_artifacts [OF C] same_artifact_refl show ?thesis by blast
    qed
  next
    case prepared
    with assms(2) show ?thesis unfolding artifact_prepared_def by (fastforce intro: same_artifact_refl)
  next
    case cleaned
    with assms(2) show ?thesis unfolding blob_cleaned_def by (fastforce intro: same_artifact_refl)
  next
    case held
    with assms(2) show ?thesis unfolding artifact_held_def by (fastforce intro: same_artifact_refl)
  next
    case released
    with assms(2) show ?thesis unfolding link_released_def by (fastforce intro: same_artifact_refl)
  next
    case derived
    with assms(2) show ?thesis unfolding artifact_derived_def by (fastforce intro: same_artifact_refl)
  qed (use assms(2) in \<open>auto intro: same_artifact_refl\<close>)
qed

lemma link_sound_step:
  assumes "sound_step env add limits s t" and "link_sound s p"
  shows "link_sound t p"
proof -
  from assms(2) obtain x y where xy: "x \<in> set (st_artifacts s)" "y \<in> set (st_artifacts s)"
      "artifact_key x = (av_tenant_id p, av_source_artifact_id p)"
      "artifact_key y = (av_tenant_id p, av_derived_artifact_id p)"
      "classification_rank (at_classification x) \<le> classification_rank (at_classification y)"
    unfolding link_sound_def by blast
  obtain x' y' where "x' \<in> set (st_artifacts t)" "same_artifact x x'" "y' \<in> set (st_artifacts t)" "same_artifact y y'"
    using step_keeps_artifacts [OF assms(1)] xy(1,2) by blast
  with xy(3-) show ?thesis unfolding link_sound_def same_artifact_def by (intro exI [of _ x'] exI [of _ y']) simp
qed

text \<open>Only the creation of a link changes the links.\<close>

lemma step_links:
  assumes "sound_step env add limits s t"
  shows "st_provenance t = st_provenance s \<or> artifact_derived (al_maximum_provenance_depth limits) s t"
proof -
  have sound: "store_sound s" and "artifact_step env add limits s t" using assms by (simp_all add: sound_step_def)
  from this(2) store_soundD(1) [OF sound] show ?thesis
  proof (cases rule: artifact_step_cases)
    case changed
    then show ?thesis by (auto simp: artifact_changed_def changed_rows_def)
  next
    case prepared
    then show ?thesis unfolding artifact_prepared_def by force
  next
    case cleaned
    then show ?thesis unfolding blob_cleaned_def by force
  next
    case held
    then show ?thesis unfolding artifact_held_def by force
  next
    case released
    then show ?thesis unfolding link_released_def by force
  qed simp_all
qed

lemma lineage_step:
  assumes step: "sound_step env add limits s t" and lineage: "lineage_sound s"
  shows "lineage_sound t"
  using step_links [OF step]
proof
  assume same: "st_provenance t = st_provenance s"
  then have "provenance_edges t tenant = provenance_edges s tenant" for tenant by (simp add: provenance_edges_def)
  with same lineage link_sound_step [OF step] show ?thesis by (simp add: lineage_sound_def)
next
  assume "artifact_derived (al_maximum_provenance_depth limits) s t"
  then obtain p x y where p: "av_state p = ArtifactLinkState.Active" "x \<in> set (st_artifacts s)" "y \<in> set (st_artifacts s)"
      "at_tenant_id x = av_tenant_id p" "at_artifact_id x = av_source_artifact_id p"
      "at_tenant_id y = av_tenant_id p" "at_artifact_id y = av_derived_artifact_id p"
      "classification_rank (at_classification x) \<le> classification_rank (at_classification y)"
      "is_ok (require_acyclic_provenance s (av_tenant_id p) (av_source_artifact_id p) (av_derived_artifact_id p)
         (al_maximum_provenance_depth limits))"
      "av_source_artifact_id p \<noteq> av_derived_artifact_id p"
    and t: "t = s\<lparr>st_provenance := st_provenance s @ [p]\<rparr>"
    unfolding artifact_derived_def by blast
  have "link_sound s p" unfolding link_sound_def
    by (intro exI [of _ x] exI [of _ y]) (use p in \<open>simp add: artifact_key_def\<close>)
  then have links: "\<forall>q \<in> set (st_provenance t). link_sound t q"
    using lineage link_sound_step [OF step] by (auto simp: lineage_sound_def t)
  have edges: "set (provenance_edges t tenant) = (if tenant = av_tenant_id p
      then insert (av_source_artifact_id p, av_derived_artifact_id p) (set (provenance_edges s tenant))
      else set (provenance_edges s tenant))" for tenant
    using p(1) by (auto simp: provenance_edges_def t)
  have "acyclic (set (provenance_edges t tenant))" for tenant
    unfolding edges using lineage acyclic_check [OF p(9,10)] by (simp add: lineage_sound_def acyclic_insert)
  with links show ?thesis by (simp add: lineage_sound_def)
qed

lemma reachable_lineage:
  assumes "(artifact_step env add limits)\<^sup>*\<^sup>* (empty_store now) s"
  shows "lineage_sound s"
  using history_steps [OF assms empty_store_sound]
proof (induction rule: rtranclp_induct)
  case base
  show ?case by (simp add: lineage_sound_def empty_store_def provenance_edges_def acyclic_def)
next
  case (step t u)
  then show ?case by (blast intro: lineage_step)
qed

text \<open>Along a chain of links the classification never falls.\<close>

lemma chain_rises:
  assumes "store_sound s" "lineage_sound s" and "(i, j) \<in> (set (provenance_edges s tenant))\<^sup>+"
    and "x \<in> set (st_artifacts s)" "artifact_key x = (tenant, i)"
    and "y \<in> set (st_artifacts s)" "artifact_key y = (tenant, j)"
  shows "classification_rank (at_classification x) \<le> classification_rank (at_classification y)"
  using assms(3,6,7)
proof (induction arbitrary: y rule: trancl_induct)
  have link: "\<exists>u v. u \<in> set (st_artifacts s) \<and> v \<in> set (st_artifacts s) \<and> artifact_key u = (tenant, k)
      \<and> artifact_key v = (tenant, l) \<and> classification_rank (at_classification u) \<le> classification_rank (at_classification v)"
    if "(k, l) \<in> set (provenance_edges s tenant)" for k l
    using that assms(2) by (auto simp: provenance_edges_def lineage_sound_def link_sound_def)
  have unique: "u = v" if "u \<in> set (st_artifacts s)" "v \<in> set (st_artifacts s)" "artifact_key u = artifact_key v" for u v
    using that store_soundD(1) [OF assms(1)] by (metis keys_sound_def row_is_unique)
  {
    case (base j)
    then show ?case using link [of i j] unique assms(4,5) by metis
  next
    case (step k j)
    then obtain u v where uv: "u \<in> set (st_artifacts s)" "v \<in> set (st_artifacts s)" "artifact_key u = (tenant, k)"
      "artifact_key v = (tenant, j)" "classification_rank (at_classification u) \<le> classification_rank (at_classification v)"
      using link by blast
    then have "v = y" using step.prems unique by metis
    with uv step.IH [of u] show ?case by (auto intro: order_trans)
  }
qed

end
