(* ===== verification/ArtifactExamples.thy ===== *)
theory ArtifactExamples
  imports ArtifactLineage
begin

text \<open>
  A concrete history of two artifacts with the same bytes: each is prepared, uploaded, scanned and made ready, the
  second settles on the blob of the first; then one is derived from the other, held, released and deleted.
\<close>

section \<open>Parameters and commands\<close>

definition xa_artifact_env :: "string artifact_env" where
  "xa_artifact_env = \<lparr>de_number = (\<lambda>_. []), de_jcs = (\<lambda>_. Some []), de_sha256 = (\<lambda>_. replicate 32 0),
     pe_uuid = \<lparr>uuid_parse = (\<lambda>_. None), uuid_show = (\<lambda>_. []), uuid_is_v7 = (\<lambda>_. False)\<rparr>,
     ax_timestamp = (\<lambda>_. [])\<rparr>"

definition xa_add :: chrono_add where "xa_add t d = Some (t + d)"

definition no_digest :: Sha256Digest where "no_digest = ''sha256:'' @ replicate 64 CHR ''0''"

definition xa_artifact_limits :: ArtifactCommandLimits where
  "xa_artifact_limits = \<lparr>al_maximum_single_bytes = 1000, al_maximum_staging_seconds = 3600,
     al_maximum_job_attempts = 3, al_maximum_links_per_artifact = 8, al_maximum_provenance_depth = 4\<rparr>"

abbreviation "xa_tenant \<equiv> ResourceId ResourceKind.Tenant 1"
abbreviation "xa_principal \<equiv> ResourceId ResourceKind.Principal 1"
abbreviation "xa_process \<equiv> ResourceId ResourceKind.WorkerProcessGeneration 1"
abbreviation "xa_op m \<equiv> ResourceId ResourceKind.Job m"
abbreviation "xa_art m \<equiv> ResourceId ResourceKind.Artifact m"
abbreviation "xa_blb m \<equiv> ResourceId ResourceKind.InternalBlob m"
abbreviation "xa_grt m \<equiv> ResourceId ResourceKind.ArtifactGrant m"
abbreviation "xa_lnk m \<equiv> ResourceId ResourceKind.ArtifactLink m"
abbreviation "xa_policy \<equiv> ResourceId ResourceKind.PolicyRevision 1"
abbreviation "xa_domain \<equiv> ResourceId ResourceKind.EncryptionDomain 1"

definition xa_audit :: CommandAudit where
  "xa_audit = \<lparr>ca_trace = \<lparr>ti_schema_version = 1, ti_trace_id = TraceId []\<rparr>, ca_tenant_id = xa_tenant,
     ca_principal_id = xa_principal, ca_principal_kind = PrincipalKind.AgentRunner,
     ca_receipt_id = ResourceId ResourceKind.Receipt 1, ca_event_id = ResourceId ResourceKind.Event 1,
     ca_outbox_id = ResourceId ResourceKind.OutboxEvent 1, ca_idempotency_key_digest = [],
     ca_request_digest = [], ca_receipt_expires_at = 1000000000000\<rparr>"

definition xa_worker_audit :: ArtifactWorkerAudit where
  "xa_worker_audit = \<lparr>wa_trace = \<lparr>ti_schema_version = 1, ti_trace_id = TraceId []\<rparr>, wa_tenant_id = xa_tenant,
     wa_worker_process_generation_id = xa_process, wa_receipt_id = ResourceId ResourceKind.Receipt 1,
     wa_event_id = ResourceId ResourceKind.Event 1, wa_outbox_id = ResourceId ResourceKind.OutboxEvent 1,
     wa_idempotency_key_digest = [], wa_request_digest = [], wa_receipt_expires_at = 1000000000000\<rparr>"

definition xa_scan_policy :: ExactVersionRef where
  "xa_scan_policy = \<lparr>xv_revision_id = xa_policy, xv_resource_kind = ResourceKind.PolicyRevision,
     xv_semantic_digest = no_digest\<rparr>"

definition xa_prepare :: "u128 \<Rightarrow> PrepareArtifact" where
  "xa_prepare m = \<lparr>pa_audit = xa_audit, pa_operation_id = xa_op m, pa_artifact_id = xa_art m, pa_blob_id = xa_blb m,
     pa_upload_grant_id = xa_grt m, pa_quota_account_id = ResourceId ResourceKind.QuotaAccount 1,
     pa_quota_entry_id = ResourceId ResourceKind.QuotaLedgerEntry m, pa_purpose = ArtifactPurpose.Export,
     pa_classification = DataClassification.Internal, pa_expected_size_bytes = 5, pa_expected_digest = None,
     pa_declared_media_type = None, pa_retention_policy_revision_id = xa_policy,
     pa_scan_policy_revision = xa_scan_policy, pa_scanner_contract_digest = no_digest, pa_ruleset_digest = no_digest,
     pa_evidence_ttl_milliseconds = 1000, pa_retry_backoff_milliseconds = 10, pa_retain_until = 200,
     pa_operation_deadline = 100, pa_grant_expires_at = 100, pa_grant_token_digest = no_digest,
     pa_storage_backend = ''s'', pa_storage_binding_digest = no_digest, pa_object_reference_ciphertext = [0],
     pa_key_id = ''k'', pa_encryption_domain_id = xa_domain, pa_display_name = None\<rparr>"

definition xa_upload :: "u128 \<Rightarrow> CompleteArtifactUpload" where
  "xa_upload m = \<lparr>cu_audit = xa_audit, cu_operation_id = xa_op m, cu_artifact_id = xa_art m, cu_blob_id = xa_blb m,
     cu_upload_grant_id = xa_grt m, cu_expected_artifact_version = 1, cu_expected_blob_version = 1,
     cu_expected_operation_version = 1, cu_expected_grant_version = 1, cu_grant_generation = 1,
     cu_grant_token_digest = no_digest, cu_object_generation = ''g'', cu_observed_size_bytes = 5,
     cu_backend_evidence_digest = no_digest\<rparr>"

definition xa_operation :: "u128 \<Rightarrow> ArtifactOperationRecord" where
  "xa_operation m = \<lparr>ao_tenant_id = xa_tenant, ao_operation_id = xa_op m, ao_state = JobState.Waiting, ao_version = 1,
     ao_snapshot = operation_snapshot (xa_prepare m), ao_deadline = 100, ao_created_at = 0\<rparr>"

definition xa_scan :: "u128 \<Rightarrow> ScheduleInitialArtifactScan" where
  "xa_scan m = \<lparr>si_audit = xa_audit, si_scan_job_id = xa_op m, si_operation_id = xa_op m, si_artifact_id = xa_art m,
     si_blob_id = xa_blb m, si_expected_artifact_version = 2, si_expected_blob_version = 2,
     si_expected_operation_version = 1, si_scan_policy_revision = xa_scan_policy,
     si_scanner_contract_digest = no_digest, si_ruleset_digest = no_digest, si_evidence_ttl_milliseconds = 1000,
     si_retry_backoff_milliseconds = 10, si_deadline = 100\<rparr>"

definition xa_scan_job :: "u128 \<Rightarrow> ArtifactScanJobSnapshot" where
  "xa_scan_job m = \<lparr>sj_schema_version = 2, sj_scan_kind = ArtifactScanKind.Initial, sj_operation_id = xa_op m,
     sj_producer_job_id = None, sj_artifact_id = xa_art m, sj_blob_id = xa_blb m,
     sj_expected_artifact_version = 3, sj_expected_blob_version = 2, sj_expected_operation_version = 2,
     sj_object_generation = ''g'', sj_scan_policy_revision = xa_scan_policy, sj_scanner_contract_digest = no_digest,
     sj_ruleset_digest = no_digest, sj_evidence_ttl_milliseconds = 1000, sj_retry_backoff_milliseconds = 10\<rparr>"

definition xa_evidence :: "u128 \<Rightarrow> ArtifactScanEvidence" where
  "xa_evidence m = \<lparr>se_schema_version = 1, se_scan_kind = ArtifactScanKind.Initial, se_scan_job_id = xa_op m,
     se_scan_policy_revision = xa_scan_policy, se_scanner_contract_digest = no_digest, se_ruleset_digest = no_digest,
     se_object_generation = ''g'', se_content_digest = no_digest, se_size_bytes = 5,
     se_verified_media_type = ''a/b'', se_disposition = ArtifactScanDisposition.Verified, se_reason_class = None,
     se_observed_at = 0, se_expires_at = 1000000000, se_canonical_digest = no_digest\<rparr>"

definition xa_fence :: JobFence where
  "xa_fence = \<lparr>jf_expected_version = 2, jf_worker_process_generation_id = xa_process, jf_lease_generation = 1,
     jf_token_digest = no_digest\<rparr>"

definition xa_outcome :: "u128 \<Rightarrow> CommitArtifactScanOutcome" where
  "xa_outcome m = \<lparr>cs_audit = xa_worker_audit, cs_scan_job_id = xa_op m, cs_fence = xa_fence, cs_operation_id = xa_op m,
     cs_artifact_id = xa_art m, cs_blob_id = xa_blb m, cs_expected_artifact_version = 3,
     cs_expected_blob_version = 2, cs_expected_operation_version = 2, cs_evidence = xa_evidence m,
     cs_duplicate_blob_cleanup_job_id = xa_op 9\<rparr>"

definition xa_worker_operation :: "u128 \<Rightarrow> ArtifactWorkerOperationRecord" where
  "xa_worker_operation m = \<lparr>wo_tenant_id = xa_tenant, wo_operation_id = xa_op m, wo_state = JobState.Running,
     wo_version = 2, wo_scan_kind = ArtifactScanKind.Initial\<rparr>"

definition xa_finalize :: "u128 \<Rightarrow> u128 \<Rightarrow> FinalizeArtifact" where
  "xa_finalize m b = \<lparr>fz_audit = xa_audit, fz_operation_id = xa_op m, fz_artifact_id = xa_art m, fz_blob_id = xa_blb b,
     fz_upload_grant_id = xa_grt m, fz_artifact_reference_id = xa_lnk m,
     fz_quota_account_id = ResourceId ResourceKind.QuotaAccount 1,
     fz_quota_settle_entry_id = ResourceId ResourceKind.QuotaLedgerEntry m, fz_expected_artifact_version = 4,
     fz_expected_blob_version = 3, fz_expected_operation_version = 1, fz_expected_grant_version = 2,
     fz_expected_quota_account_version = 1, fz_grant_generation = 1, fz_object_generation = ''g'',
     fz_content_digest = no_digest, fz_size_bytes = 5, fz_verified_media_type = ''a/b'',
     fz_reference_kind = ArtifactReferenceKind.Output\<rparr>"

section \<open>Rows\<close>

definition xa_metadata :: "u128 \<Rightarrow> bool \<Rightarrow> ArtifactMetadataSnapshot" where
  "xa_metadata m verified = \<lparr>md_schema_version = 2, md_display_name = None, md_origin = Upload (xa_op m),
     md_current_verification = (if verified then Some (evidence_current (xa_evidence m)) else None)\<rparr>"

definition xa_artifact :: "u128 \<Rightarrow> u128 \<Rightarrow> ArtifactState \<Rightarrow> u64 \<Rightarrow> bool \<Rightarrow> ArtifactRecord" where
  "xa_artifact m b state v verified = \<lparr>at_tenant_id = xa_tenant, at_artifact_id = xa_art m, at_blob_id = Some (xa_blb b),
     at_purpose = ArtifactPurpose.Export, at_classification = DataClassification.Internal,
     at_expected_size_bytes = 5, at_expected_digest = None, at_declared_media_type = None,
     at_verified_media_type = (if verified then Some ''a/b'' else None), at_state = state, at_version = v,
     at_metadata = xa_metadata m verified, at_retention_policy_revision_id = xa_policy, at_retain_until = 200,
     at_created_by = xa_principal, at_created_at = 0, at_updated_at = 0, at_terminal_at = None\<rparr>"

definition xa_blob :: "u128 \<Rightarrow> bool \<Rightarrow> bool \<Rightarrow> BlobIntegrityState \<Rightarrow> u64 \<Rightarrow> ArtifactBlobRecord" where
  "xa_blob m uploaded scanned state v = \<lparr>ab_tenant_id = xa_tenant, ab_blob_id = xa_blb m, ab_backend = ''s'',
     ab_storage_binding_digest = no_digest, ab_security_domain_digest = no_digest,
     ab_object_generation = (if uploaded then Some ''g'' else None), ab_encryption_domain_id = xa_domain,
     ab_content_digest = (if scanned then Some no_digest else None), ab_size_bytes = (if scanned then Some 5 else None),
     ab_state = state, ab_version = v\<rparr>"

definition xa_grant :: "u128 \<Rightarrow> ArtifactLinkState \<Rightarrow> u64 \<Rightarrow> ArtifactGrantRecord" where
  "xa_grant m state v = \<lparr>ag_tenant_id = xa_tenant, ag_upload_grant_id = xa_grt m, ag_artifact_id = xa_art m,
     ag_state = state, ag_version = v,
     ag_snapshot = \<lparr>ug_schema_version = 1, ug_artifact_id = xa_art m, ug_operation_id = xa_op m,
       ug_subject_principal_id = xa_principal, ug_subject_principal_kind = PrincipalKind.AgentRunner,
       ug_operations = [ArtifactGrantOperation.WriteStaging, ArtifactGrantOperation.CommitStaging],
       ug_audience = ArtifactWorkloadAudience.Principal, ug_purpose = ArtifactPurpose.Export, ug_max_bytes = 5,
       ug_token_digest = no_digest, ug_expires_at = 100, ug_generation = 1\<rparr>,
     ag_link_key_digest = no_digest, ag_created_at = 0\<rparr>"

definition xa_reference :: "u128 \<Rightarrow> ArtifactReferenceRecord" where
  "xa_reference m = \<lparr>af_tenant_id = xa_tenant, af_artifact_reference_id = xa_lnk m, af_artifact_id = xa_art m,
     af_state = ArtifactLinkState.Active, af_version = 1,
     af_snapshot = \<lparr>rs_schema_version = 1, rs_artifact_id = xa_art m, rs_owner_id = xa_op m,
       rs_reference_kind = ArtifactReferenceKind.Output, rs_purpose = ArtifactPurpose.Export,
       rs_created_by = xa_principal\<rparr>,
     af_link_key_digest = no_digest, af_created_at = 0, af_released_at = None\<rparr>"

definition xa_tables ::
  "ArtifactRecord list \<Rightarrow> ArtifactBlobRecord list \<Rightarrow> ArtifactGrantRecord list \<Rightarrow> ArtifactReferenceRecord list \<Rightarrow> artifact_store" where
  "xa_tables as bs gs rs = \<lparr>st_now = 0, st_artifacts = as, st_blobs = bs, st_grants = gs, st_holds = [],
     st_references = rs, st_provenance = []\<rparr>"

text \<open>The fields of the commands and of the rows.\<close>

lemma xa_audit_simps [simp]:
  "ca_trace xa_audit = \<lparr>ti_schema_version = 1, ti_trace_id = TraceId []\<rparr>"
  "ca_tenant_id xa_audit = xa_tenant" "ca_principal_id xa_audit = xa_principal"
  "ca_principal_kind xa_audit = PrincipalKind.AgentRunner" "ca_receipt_id xa_audit = ResourceId ResourceKind.Receipt 1"
  "ca_event_id xa_audit = ResourceId ResourceKind.Event 1"
  "ca_outbox_id xa_audit = ResourceId ResourceKind.OutboxEvent 1" "ca_idempotency_key_digest xa_audit = []"
  "ca_request_digest xa_audit = []" "ca_receipt_expires_at xa_audit = 1000000000000"
  by (simp_all add: xa_audit_def)

lemma xa_worker_audit_simps [simp]:
  "wa_trace xa_worker_audit = \<lparr>ti_schema_version = 1, ti_trace_id = TraceId []\<rparr>"
  "wa_tenant_id xa_worker_audit = xa_tenant" "wa_worker_process_generation_id xa_worker_audit = xa_process"
  "wa_receipt_id xa_worker_audit = ResourceId ResourceKind.Receipt 1"
  "wa_event_id xa_worker_audit = ResourceId ResourceKind.Event 1"
  "wa_outbox_id xa_worker_audit = ResourceId ResourceKind.OutboxEvent 1"
  "wa_idempotency_key_digest xa_worker_audit = []" "wa_request_digest xa_worker_audit = []"
  "wa_receipt_expires_at xa_worker_audit = 1000000000000"
  by (simp_all add: xa_worker_audit_def)

lemma xa_scan_policy_simps [simp]:
  "xv_revision_id xa_scan_policy = xa_policy" "xv_resource_kind xa_scan_policy = ResourceKind.PolicyRevision"
  "xv_semantic_digest xa_scan_policy = no_digest"
  by (simp_all add: xa_scan_policy_def)

lemma xa_prepare_simps [simp]:
  "pa_audit (xa_prepare m) = xa_audit" "pa_operation_id (xa_prepare m) = xa_op m"
  "pa_artifact_id (xa_prepare m) = xa_art m" "pa_blob_id (xa_prepare m) = xa_blb m"
  "pa_upload_grant_id (xa_prepare m) = xa_grt m"
  "pa_quota_account_id (xa_prepare m) = ResourceId ResourceKind.QuotaAccount 1"
  "pa_quota_entry_id (xa_prepare m) = ResourceId ResourceKind.QuotaLedgerEntry m"
  "pa_purpose (xa_prepare m) = ArtifactPurpose.Export" "pa_classification (xa_prepare m) = DataClassification.Internal"
  "pa_expected_size_bytes (xa_prepare m) = 5" "pa_expected_digest (xa_prepare m) = None"
  "pa_declared_media_type (xa_prepare m) = None" "pa_retention_policy_revision_id (xa_prepare m) = xa_policy"
  "pa_scan_policy_revision (xa_prepare m) = xa_scan_policy" "pa_scanner_contract_digest (xa_prepare m) = no_digest"
  "pa_ruleset_digest (xa_prepare m) = no_digest" "pa_evidence_ttl_milliseconds (xa_prepare m) = 1000"
  "pa_retry_backoff_milliseconds (xa_prepare m) = 10" "pa_retain_until (xa_prepare m) = 200"
  "pa_operation_deadline (xa_prepare m) = 100" "pa_grant_expires_at (xa_prepare m) = 100"
  "pa_grant_token_digest (xa_prepare m) = no_digest" "pa_storage_backend (xa_prepare m) = ''s''"
  "pa_storage_binding_digest (xa_prepare m) = no_digest" "pa_object_reference_ciphertext (xa_prepare m) = [0]"
  "pa_key_id (xa_prepare m) = ''k''" "pa_encryption_domain_id (xa_prepare m) = xa_domain"
  "pa_display_name (xa_prepare m) = None"
  by (simp_all add: xa_prepare_def)

lemma xa_upload_simps [simp]:
  "cu_audit (xa_upload m) = xa_audit" "cu_operation_id (xa_upload m) = xa_op m"
  "cu_artifact_id (xa_upload m) = xa_art m" "cu_blob_id (xa_upload m) = xa_blb m"
  "cu_upload_grant_id (xa_upload m) = xa_grt m" "cu_expected_artifact_version (xa_upload m) = 1"
  "cu_expected_blob_version (xa_upload m) = 1" "cu_expected_operation_version (xa_upload m) = 1"
  "cu_expected_grant_version (xa_upload m) = 1" "cu_grant_generation (xa_upload m) = 1"
  "cu_grant_token_digest (xa_upload m) = no_digest" "cu_object_generation (xa_upload m) = ''g''"
  "cu_observed_size_bytes (xa_upload m) = 5" "cu_backend_evidence_digest (xa_upload m) = no_digest"
  by (simp_all add: xa_upload_def)

lemma xa_operation_simps [simp]:
  "ao_tenant_id (xa_operation m) = xa_tenant" "ao_operation_id (xa_operation m) = xa_op m"
  "ao_state (xa_operation m) = JobState.Waiting" "ao_version (xa_operation m) = 1"
  "ao_snapshot (xa_operation m) = operation_snapshot (xa_prepare m)" "ao_deadline (xa_operation m) = 100"
  "ao_created_at (xa_operation m) = 0"
  by (simp_all add: xa_operation_def)

lemma xa_scan_simps [simp]:
  "si_audit (xa_scan m) = xa_audit" "si_scan_job_id (xa_scan m) = xa_op m" "si_operation_id (xa_scan m) = xa_op m"
  "si_artifact_id (xa_scan m) = xa_art m" "si_blob_id (xa_scan m) = xa_blb m"
  "si_expected_artifact_version (xa_scan m) = 2" "si_expected_blob_version (xa_scan m) = 2"
  "si_expected_operation_version (xa_scan m) = 1" "si_scan_policy_revision (xa_scan m) = xa_scan_policy"
  "si_scanner_contract_digest (xa_scan m) = no_digest" "si_ruleset_digest (xa_scan m) = no_digest"
  "si_evidence_ttl_milliseconds (xa_scan m) = 1000" "si_retry_backoff_milliseconds (xa_scan m) = 10"
  "si_deadline (xa_scan m) = 100"
  by (simp_all add: xa_scan_def)

lemma xa_scan_job_simps [simp]:
  "sj_schema_version (xa_scan_job m) = 2" "sj_scan_kind (xa_scan_job m) = ArtifactScanKind.Initial"
  "sj_operation_id (xa_scan_job m) = xa_op m" "sj_producer_job_id (xa_scan_job m) = None"
  "sj_artifact_id (xa_scan_job m) = xa_art m" "sj_blob_id (xa_scan_job m) = xa_blb m"
  "sj_expected_artifact_version (xa_scan_job m) = 3" "sj_expected_blob_version (xa_scan_job m) = 2"
  "sj_expected_operation_version (xa_scan_job m) = 2" "sj_object_generation (xa_scan_job m) = ''g''"
  "sj_scan_policy_revision (xa_scan_job m) = xa_scan_policy" "sj_scanner_contract_digest (xa_scan_job m) = no_digest"
  "sj_ruleset_digest (xa_scan_job m) = no_digest" "sj_evidence_ttl_milliseconds (xa_scan_job m) = 1000"
  "sj_retry_backoff_milliseconds (xa_scan_job m) = 10"
  by (simp_all add: xa_scan_job_def)

lemma xa_evidence_simps [simp]:
  "se_schema_version (xa_evidence m) = 1" "se_scan_kind (xa_evidence m) = ArtifactScanKind.Initial"
  "se_scan_job_id (xa_evidence m) = xa_op m" "se_scan_policy_revision (xa_evidence m) = xa_scan_policy"
  "se_scanner_contract_digest (xa_evidence m) = no_digest" "se_ruleset_digest (xa_evidence m) = no_digest"
  "se_object_generation (xa_evidence m) = ''g''" "se_content_digest (xa_evidence m) = no_digest"
  "se_size_bytes (xa_evidence m) = 5" "se_verified_media_type (xa_evidence m) = ''a/b''"
  "se_disposition (xa_evidence m) = ArtifactScanDisposition.Verified" "se_reason_class (xa_evidence m) = None"
  "se_observed_at (xa_evidence m) = 0" "se_expires_at (xa_evidence m) = 1000000000"
  "se_canonical_digest (xa_evidence m) = no_digest"
  by (simp_all add: xa_evidence_def)

lemma xa_fence_simps [simp]:
  "jf_expected_version xa_fence = 2" "jf_worker_process_generation_id xa_fence = xa_process"
  "jf_lease_generation xa_fence = 1" "jf_token_digest xa_fence = no_digest"
  by (simp_all add: xa_fence_def)

lemma xa_outcome_simps [simp]:
  "cs_audit (xa_outcome m) = xa_worker_audit" "cs_scan_job_id (xa_outcome m) = xa_op m"
  "cs_fence (xa_outcome m) = xa_fence" "cs_operation_id (xa_outcome m) = xa_op m"
  "cs_artifact_id (xa_outcome m) = xa_art m" "cs_blob_id (xa_outcome m) = xa_blb m"
  "cs_expected_artifact_version (xa_outcome m) = 3" "cs_expected_blob_version (xa_outcome m) = 2"
  "cs_expected_operation_version (xa_outcome m) = 2" "cs_evidence (xa_outcome m) = xa_evidence m"
  "cs_duplicate_blob_cleanup_job_id (xa_outcome m) = xa_op 9"
  by (simp_all add: xa_outcome_def)

lemma xa_worker_operation_simps [simp]:
  "wo_tenant_id (xa_worker_operation m) = xa_tenant" "wo_operation_id (xa_worker_operation m) = xa_op m"
  "wo_state (xa_worker_operation m) = JobState.Running" "wo_version (xa_worker_operation m) = 2"
  "wo_scan_kind (xa_worker_operation m) = ArtifactScanKind.Initial"
  by (simp_all add: xa_worker_operation_def)

lemma xa_finalize_simps [simp]:
  "fz_audit (xa_finalize m b) = xa_audit" "fz_operation_id (xa_finalize m b) = xa_op m"
  "fz_artifact_id (xa_finalize m b) = xa_art m" "fz_blob_id (xa_finalize m b) = xa_blb b"
  "fz_upload_grant_id (xa_finalize m b) = xa_grt m" "fz_artifact_reference_id (xa_finalize m b) = xa_lnk m"
  "fz_quota_account_id (xa_finalize m b) = ResourceId ResourceKind.QuotaAccount 1"
  "fz_quota_settle_entry_id (xa_finalize m b) = ResourceId ResourceKind.QuotaLedgerEntry m"
  "fz_expected_artifact_version (xa_finalize m b) = 4" "fz_expected_blob_version (xa_finalize m b) = 3"
  "fz_expected_operation_version (xa_finalize m b) = 1" "fz_expected_grant_version (xa_finalize m b) = 2"
  "fz_expected_quota_account_version (xa_finalize m b) = 1" "fz_grant_generation (xa_finalize m b) = 1"
  "fz_object_generation (xa_finalize m b) = ''g''" "fz_content_digest (xa_finalize m b) = no_digest"
  "fz_size_bytes (xa_finalize m b) = 5" "fz_verified_media_type (xa_finalize m b) = ''a/b''"
  "fz_reference_kind (xa_finalize m b) = ArtifactReferenceKind.Output"
  by (simp_all add: xa_finalize_def)

lemma xa_metadata_simps [simp]:
  "md_schema_version (xa_metadata m verified) = 2" "md_display_name (xa_metadata m verified) = None"
  "md_origin (xa_metadata m verified) = Upload (xa_op m)"
  "md_current_verification (xa_metadata m verified) = (if verified then Some (evidence_current (xa_evidence m)) else None)"
  by (simp_all add: xa_metadata_def)

lemma xa_artifact_simps [simp]:
  "at_tenant_id (xa_artifact m b state v verified) = xa_tenant"
  "at_artifact_id (xa_artifact m b state v verified) = xa_art m"
  "at_blob_id (xa_artifact m b state v verified) = Some (xa_blb b)"
  "at_purpose (xa_artifact m b state v verified) = ArtifactPurpose.Export"
  "at_classification (xa_artifact m b state v verified) = DataClassification.Internal"
  "at_expected_size_bytes (xa_artifact m b state v verified) = 5"
  "at_expected_digest (xa_artifact m b state v verified) = None"
  "at_declared_media_type (xa_artifact m b state v verified) = None"
  "at_verified_media_type (xa_artifact m b state v verified) = (if verified then Some ''a/b'' else None)"
  "at_state (xa_artifact m b state v verified) = state" "at_version (xa_artifact m b state v verified) = v"
  "at_metadata (xa_artifact m b state v verified) = xa_metadata m verified"
  "at_retention_policy_revision_id (xa_artifact m b state v verified) = xa_policy"
  "at_retain_until (xa_artifact m b state v verified) = 200"
  "at_created_by (xa_artifact m b state v verified) = xa_principal"
  "at_created_at (xa_artifact m b state v verified) = 0" "at_updated_at (xa_artifact m b state v verified) = 0"
  "at_terminal_at (xa_artifact m b state v verified) = None"
  by (simp_all add: xa_artifact_def)

lemma xa_blob_simps [simp]:
  "ab_tenant_id (xa_blob m uploaded scanned state v) = xa_tenant"
  "ab_blob_id (xa_blob m uploaded scanned state v) = xa_blb m"
  "ab_backend (xa_blob m uploaded scanned state v) = ''s''"
  "ab_storage_binding_digest (xa_blob m uploaded scanned state v) = no_digest"
  "ab_security_domain_digest (xa_blob m uploaded scanned state v) = no_digest"
  "ab_object_generation (xa_blob m uploaded scanned state v) = (if uploaded then Some ''g'' else None)"
  "ab_encryption_domain_id (xa_blob m uploaded scanned state v) = xa_domain"
  "ab_content_digest (xa_blob m uploaded scanned state v) = (if scanned then Some no_digest else None)"
  "ab_size_bytes (xa_blob m uploaded scanned state v) = (if scanned then Some 5 else None)"
  "ab_state (xa_blob m uploaded scanned state v) = state" "ab_version (xa_blob m uploaded scanned state v) = v"
  by (simp_all add: xa_blob_def)

lemma xa_grant_simps [simp]:
  "ag_tenant_id (xa_grant m state v) = xa_tenant" "ag_upload_grant_id (xa_grant m state v) = xa_grt m"
  "ag_artifact_id (xa_grant m state v) = xa_art m" "ag_state (xa_grant m state v) = state"
  "ag_version (xa_grant m state v) = v"
  "ag_snapshot (xa_grant m state v) = \<lparr>ug_schema_version = 1, ug_artifact_id = xa_art m, ug_operation_id = xa_op m, ug_subject_principal_id = xa_principal, ug_subject_principal_kind = PrincipalKind.AgentRunner, ug_operations = [ArtifactGrantOperation.WriteStaging, ArtifactGrantOperation.CommitStaging], ug_audience = ArtifactWorkloadAudience.Principal, ug_purpose = ArtifactPurpose.Export, ug_max_bytes = 5, ug_token_digest = no_digest, ug_expires_at = 100, ug_generation = 1\<rparr>"
  "ag_link_key_digest (xa_grant m state v) = no_digest" "ag_created_at (xa_grant m state v) = 0"
  by (simp_all add: xa_grant_def)

lemma xa_reference_simps [simp]:
  "af_tenant_id (xa_reference m) = xa_tenant" "af_artifact_reference_id (xa_reference m) = xa_lnk m"
  "af_artifact_id (xa_reference m) = xa_art m" "af_state (xa_reference m) = ArtifactLinkState.Active"
  "af_version (xa_reference m) = 1"
  "af_snapshot (xa_reference m) = \<lparr>rs_schema_version = 1, rs_artifact_id = xa_art m, rs_owner_id = xa_op m, rs_reference_kind = ArtifactReferenceKind.Output, rs_purpose = ArtifactPurpose.Export, rs_created_by = xa_principal\<rparr>"
  "af_link_key_digest (xa_reference m) = no_digest" "af_created_at (xa_reference m) = 0"
  "af_released_at (xa_reference m) = None"
  by (simp_all add: xa_reference_def)

lemma xa_tables_simps [simp]:
  "st_now (xa_tables as bs gs rs) = 0" "st_artifacts (xa_tables as bs gs rs) = as"
  "st_blobs (xa_tables as bs gs rs) = bs" "st_grants (xa_tables as bs gs rs) = gs"
  "st_holds (xa_tables as bs gs rs) = []" "st_references (xa_tables as bs gs rs) = rs"
  "st_provenance (xa_tables as bs gs rs) = []"
  by (simp_all add: xa_tables_def)

lemma xa_artifact_limits_simps [simp]:
  "al_maximum_single_bytes xa_artifact_limits = 1000" "al_maximum_staging_seconds xa_artifact_limits = 3600"
  "al_maximum_job_attempts xa_artifact_limits = 3" "al_maximum_links_per_artifact xa_artifact_limits = 8"
  "al_maximum_provenance_depth xa_artifact_limits = 4"
  by (simp_all add: xa_artifact_limits_def)

section \<open>Checks\<close>

lemma xa_document_digest [simp]: "document_digest xa_artifact_env e v = Inr no_digest"
proof -
  have "parse_digest (''sha256:'' @ lowercase_hex (replicate 32 0)) = Some no_digest" by code_simp
  then show ?thesis by (simp add: document_digest_def canonical_digest_def canonical_json_def xa_artifact_env_def)
qed

lemma xa_digest [simp]: "artifact_digest xa_artifact_env v = Inr no_digest"
  by (simp add: artifact_digest_def)

lemma xa_strings [simp]:
  "is_code ''s'' MAX_BACKEND_BYTES" "\<not> bad_generation ''g''" "valid_object_generation ''g''"
  "valid_media_type ''a/b''" "is_media_type ''a/b''"
  by code_simp+

lemma xa_policy_valid [simp]: "version_ref_validate xa_scan_policy = Inr ()"
  by code_simp

lemma xa_audit_valid [simp]: "now < 1000000000000 \<Longrightarrow> audit_validate_at xa_audit now = Inr ()"
  by (simp add: audit_validate_at_def audit_validate_shape_def xa_audit_def trace_identity_validate_def fail_if_def)

lemma xa_audit_shape [simp]: "audit_validate_shape xa_audit = Inr ()"
  by (simp add: audit_validate_shape_def trace_identity_validate_def fail_if_def)

lemma xa_worker_valid [simp]: "now < 1000000000000 \<Longrightarrow> worker_audit_validate_at xa_worker_audit now = Inr ()"
  by (simp add: worker_audit_validate_at_def xa_worker_audit_def trace_identity_validate_def fail_if_def)

lemma xa_metadata_valid [simp]: "metadata_validate (xa_metadata m False) = Inr ()"
  by (simp add: metadata_validate_def xa_metadata_def fail_if_def)

lemma xa_operation_id [simp]: "upload_operation_id (xa_metadata m False) = Inr (xa_op m)"
  by (simp add: upload_operation_id_def)

lemma accepted_Inr [simp]: "command_failed (Inr x) = Inr x" "work_failed (Inr x) = Inr x"
  by (simp_all add: command_failed_def work_failed_def)

text \<open>Rows that a table does not have, and tables given by their rows.\<close>

lemma absent_row [simp]:
  assumes "\<not> has_row key k rows"
  shows "lookup_row key k rows = None" "update_row key k f rows = rows"
proof -
  from assms have "\<forall>q \<in> set rows. key q \<noteq> k" by (auto simp: has_row_def list_ex_iff)
  then show "lookup_row key k rows = None" "update_row key k f rows = rows"
    by (simp_all add: lookup_row_None update_row_def map_idI)
qed

lemma update_row_list [simp]:
  "update_row key k f [] = []" "update_row key k f (r # rows) = (if key r = k then f r else r) # update_row key k f rows"
  "update_row key k f (xs @ ys) = update_row key k f xs @ update_row key k f ys"
  by (simp_all add: update_row_def)

lemma lookup_row_list [simp]:
  "lookup_row key k [] = None" "lookup_row key k (r # rows) = (if key r = k then Some r else lookup_row key k rows)"
  by (simp_all add: lookup_row_def)

lemma lookup_row_appended [simp]: "lookup_row key k xs = None \<Longrightarrow> lookup_row key k (xs @ ys) = lookup_row key k ys"
  by (induction xs) (auto simp: lookup_row_def split: if_splits)

section \<open>The steps of an upload\<close>

text \<open>The tables have no row of the artifact \<open>m\<close> yet.\<close>

definition xa_absent :: "u128 \<Rightarrow> ArtifactRecord list \<Rightarrow> ArtifactBlobRecord list \<Rightarrow> ArtifactGrantRecord list \<Rightarrow> bool" where
  "xa_absent m as bs gs \<longleftrightarrow>
     \<not> has_row artifact_key (xa_tenant, xa_art m) as \<and> \<not> has_row blob_key (xa_tenant, xa_blb m) bs
     \<and> \<not> has_row grant_key (xa_tenant, xa_grt m) gs"

lemma xa_upload_metadata [simp]: "metadata_snapshot (xa_prepare m) = Inr (xa_metadata m False)"
  by (simp add: metadata_snapshot_def metadata_new_upload_def metadata_new_def xa_metadata_def metadata_validate_def fail_if_def)

lemma xa_upload_grant [simp]:
  "upload_grant_snapshot xa_artifact_env (xa_prepare m) = Inr (ag_snapshot (xa_grant m ArtifactLinkState.Active 1))"
  by (simp add: upload_grant_snapshot_def grant_digest_def grant_link_key_digest_def)

lemma xa_security_domain [simp]: "security_domain_digest xa_artifact_env (blob_security_domain (xa_prepare m)) = Inr no_digest"
  by (simp add: security_domain_digest_def blob_security_domain_def)

lemma xa_prepare_valid [simp]: "prepare_validate_at xa_artifact_env (xa_prepare m) 0 xa_artifact_limits = Inr ()"
proof -
  have "upload_operation_digest xa_artifact_env (operation_snapshot (xa_prepare m)) = Inr no_digest"
    by (simp add: upload_operation_digest_def operation_snapshot_def MAX_ARTIFACT_RETRY_BACKOFF_MILLISECONDS_def)
  then show ?thesis
    by (simp add: prepare_validate_at_def prepare_validate_shape_def MAX_KEY_ID_BYTES_def MAX_OBJECT_REFERENCE_BYTES_def
        duration_seconds_def fail_if_def)
qed

lemma xa_prepare_step:
  assumes "xa_absent m as bs gs" and "\<not> has_row reference_key (xa_tenant, xa_grt m) rs"
  shows "tx_prepare_artifact xa_artifact_env xa_artifact_limits (xa_prepare m) (xa_tables as bs gs rs) =
    Inr (xa_tables (as @ [xa_artifact m m ArtifactState.Staging 1 False]) (bs @ [xa_blob m False False BlobIntegrityState.Staging 1])
      (gs @ [xa_grant m ArtifactLinkState.Active 1]) rs)"
  using assms
  by (simp add: tx_prepare_artifact_def Let_def xa_absent_def link_exists_def has_row_def grant_link_key_digest_def
      xa_tables_def xa_artifact_def xa_blob_def xa_grant_def)

lemma xa_tables_update [simp]:
  "(xa_tables as bs gs rs)\<lparr>st_grants := gs'\<rparr> = xa_tables as bs gs' rs"
  "(xa_tables as bs gs rs)\<lparr>st_references := rs'\<rparr> = xa_tables as bs gs rs'"
  "put_artifact a f (xa_tables as bs gs rs) = xa_tables (update_row artifact_key (artifact_key a) f as) bs gs rs"
  "put_blob b g (xa_tables as bs gs rs) = xa_tables as (update_row blob_key (blob_key b) g bs) gs rs"
  by (simp_all add: xa_tables_def put_artifact_def put_blob_def)

lemma xa_find:
  assumes "xa_absent m as bs gs"
  shows "find_artifact (xa_tables (as @ [xa_artifact m b state v verified]) bs' gs' rs) xa_tenant (xa_art m) =
      Inr (xa_artifact m b state v verified)"
    "find_blob (xa_tables as' (bs @ [xa_blob m uploaded scanned blob_state w]) gs' rs) xa_tenant (xa_blb m) =
      Inr (xa_blob m uploaded scanned blob_state w)"
    "find_grant (xa_tables as' bs' (gs @ [xa_grant m link_state x]) rs) xa_tenant (xa_grt m) = Inr (xa_grant m link_state x)"
  using assms by (simp_all add: find_artifact_def find_blob_def find_grant_def xa_absent_def artifact_key_def blob_key_def grant_key_def)

lemma xa_keys [simp]:
  "artifact_key (xa_artifact m b state v verified) = (xa_tenant, xa_art m)"
  "blob_key (xa_blob m uploaded scanned blob_state w) = (xa_tenant, xa_blb m)"
  "grant_key (xa_grant m link_state x) = (xa_tenant, xa_grt m)" "reference_key (xa_reference m) = (xa_tenant, xa_lnk m)"
  by (simp_all add: key_defs)

lemma xa_absent_rows:
  assumes "xa_absent m as bs gs"
  shows "update_row artifact_key (xa_tenant, xa_art m) f as = as" "update_row blob_key (xa_tenant, xa_blb m) g bs = bs"
    "update_row grant_key (xa_tenant, xa_grt m) h gs = gs"
  using assms by (simp_all add: xa_absent_def)

lemma xa_uploaded_rows:
  "(xa_blob m False False BlobIntegrityState.Staging 1)\<lparr>ab_object_generation := Some ''g'', ab_version := 2\<rparr> =
     xa_blob m True False BlobIntegrityState.Staging 2"
  "(xa_grant m ArtifactLinkState.Active 1)\<lparr>ag_state := ArtifactLinkState.Consumed, ag_version := 2\<rparr> =
     xa_grant m ArtifactLinkState.Consumed 2"
  by (simp_all add: xa_blob_def xa_grant_def)

lemma xa_set_state [simp]:
  "set_artifact_state state' v' 0 (xa_artifact m b state v verified) = xa_artifact m b state' v' verified"
  "set_blob_state blob_state' w' (xa_blob m uploaded scanned blob_state w) = xa_blob m uploaded scanned blob_state' w'"
  by (simp_all add: set_artifact_state_def set_blob_state_def xa_artifact_def xa_blob_def)

lemma xa_versions [simp]:
  "next_version 1 = Inr 2" "next_version 2 = Inr 3" "next_version 3 = Inr 4" "next_version 4 = Inr 5"
  "next_version 5 = Inr 6" "artifact_increment 1 = Inr 2" "artifact_increment 2 = Inr 3" "artifact_increment 3 = Inr 4"
  by (simp_all add: next_version_def artifact_increment_def checked_add_def)

lemma xa_transitions [simp]:
  "artifact_state_can_transition_to ArtifactState.Staging ArtifactState.Uploaded"
  "artifact_state_can_transition_to ArtifactState.Uploaded ArtifactState.Verifying"
  "artifact_state_can_transition_to ArtifactState.Verifying ArtifactState.Verified"
  "artifact_state_can_transition_to ArtifactState.Verified ArtifactState.Ready"
  "artifact_state_can_transition_to ArtifactState.Ready ArtifactState.Deleting"
  "artifact_state_can_transition_to ArtifactState.Deleting ArtifactState.Deleted"
  "job_state_can_transition_to JobState.Waiting JobState.Ready" "job_state_can_transition_to JobState.Running JobState.Waiting"
  "job_state_can_transition_to JobState.Waiting JobState.Succeeded" "job_state_can_transition_to JobState.Running JobState.Succeeded"
  by code_simp+

lemma xa_upload_step:
  assumes "xa_absent m as bs gs"
  shows "tx_complete_upload xa_artifact_limits (xa_operation m) (xa_upload m)
      (xa_tables (as @ [xa_artifact m m ArtifactState.Staging 1 False]) (bs @ [xa_blob m False False BlobIntegrityState.Staging 1])
        (gs @ [xa_grant m ArtifactLinkState.Active 1]) rs) =
    Inr (xa_tables (as @ [xa_artifact m m ArtifactState.Uploaded 2 False]) (bs @ [xa_blob m True False BlobIntegrityState.Staging 2])
      (gs @ [xa_grant m ArtifactLinkState.Consumed 2]) rs)"
proof -
  have "upload_validate_at (xa_upload m) 0 xa_artifact_limits = Inr ()"
    by (simp add: upload_validate_at_def upload_validate_shape_def fail_if_def)
  moreover have "decide_complete_upload (xa_artifact m m ArtifactState.Staging 1 False)
      (xa_blob m False False BlobIntegrityState.Staging 1) (xa_grant m ArtifactLinkState.Active 1) (xa_operation m)
      (xa_upload m) 0 = Inr \<lparr>ud_artifact_state = ArtifactState.Uploaded, ud_artifact_version = 2, ud_blob_version = 2,
        ud_grant_state = ArtifactLinkState.Consumed, ud_grant_version = 2, ud_operation_state = JobState.Waiting,
        ud_operation_version = 2\<rparr>"
    by (simp add: decide_complete_upload_def operation_snapshot_def)
  ultimately show ?thesis
    by (simp add: tx_complete_upload_def Let_def xa_find [OF assms] xa_absent_rows [OF assms] xa_uploaded_rows)
qed

lemma xa_scan_step:
  assumes "xa_absent m as bs gs"
  shows "tx_schedule_initial_scan (xa_operation m) (xa_scan m)
      (xa_tables (as @ [xa_artifact m m ArtifactState.Uploaded 2 False]) (bs @ [xa_blob m True False BlobIntegrityState.Staging 2]) gs' rs) =
    Inr (xa_tables (as @ [xa_artifact m m ArtifactState.Verifying 3 False]) (bs @ [xa_blob m True False BlobIntegrityState.Staging 2]) gs' rs)"
proof -
  have "initial_scan_validate_at (xa_scan m) 0 = Inr ()"
    by (simp add: initial_scan_validate_at_def validate_scan_schedule_def MAX_ARTIFACT_EVIDENCE_TTL_MILLISECONDS_def
        MAX_ARTIFACT_RETRY_BACKOFF_MILLISECONDS_def fail_if_def)
  moreover have "scan_job_validate (xa_scan_job m) = Inr ()"
    by (simp add: scan_job_validate_def MAX_ARTIFACT_RETRY_BACKOFF_MILLISECONDS_def fail_if_def)
  ultimately have "decide_schedule_initial_scan (xa_artifact m m ArtifactState.Uploaded 2 False)
      (xa_blob m True False BlobIntegrityState.Staging 2) (xa_operation m) (xa_scan m) 0 =
      Inr \<lparr>ss_artifact_state = ArtifactState.Verifying, ss_artifact_version = 3, ss_job = xa_scan_job m\<rparr>"
    by (simp add: decide_schedule_initial_scan_def operation_snapshot_def Let_def xa_scan_job_def)
  then show ?thesis
    by (simp add: tx_schedule_initial_scan_def Let_def xa_find [OF assms] xa_absent_rows [OF assms])
qed

lemma xa_outcome_valid: "scan_outcome_validate_at xa_artifact_env (xa_outcome m) 0 = Inr ()"
  by (simp add: scan_outcome_validate_at_def evidence_validate_def current_verification_validate_def evidence_current_def
      evidence_digest_without_field_def fail_if_def)

lemma xa_current_valid [simp]: "current_verification_validate (evidence_current (xa_evidence m)) = Inr ()"
  by (simp add: current_verification_validate_def evidence_current_def fail_if_def)

lemma xa_metadata_verified [simp]: "metadata_validate (xa_metadata m True) = Inr ()"
  by (simp add: metadata_validate_def fail_if_def)

lemma xa_verified_id [simp]: "upload_operation_id (xa_metadata m True) = Inr (xa_op m)"
  by (simp add: upload_operation_id_def)

lemma xa_verified_metadata: "with_current_verification (xa_metadata m False) (evidence_current (xa_evidence m)) = Inr (xa_metadata m True)"
proof -
  have "(xa_metadata m False)\<lparr>md_current_verification := Some (evidence_current (xa_evidence m))\<rparr> = xa_metadata m True"
    by (simp add: xa_metadata_def)
  note q = this
  show ?thesis by (simp add: with_current_verification_def Let_def q)
qed

text \<open>The outcome of a first scan, with the verified blob it found or without one.\<close>

lemma xa_decide_scan:
  assumes "scanned_blob xa_artifact_env (xa_artifact m m ArtifactState.Verifying 3 False)
      (xa_blob m True False BlobIntegrityState.Staging 2) reusable (xa_scan_job m) (xa_evidence m) =
      Inr (i, state, version, cleanup)"
  shows "decide_commit_artifact_scan xa_artifact_env xa_add (xa_artifact m m ArtifactState.Verifying 3 False)
      (xa_blob m True False BlobIntegrityState.Staging 2) (xa_worker_operation m) reusable (xa_scan_job m) (xa_outcome m) 0 =
    Inr \<lparr>sn_artifact_state = ArtifactState.Verified, sn_artifact_version = 4, sn_blob_state = state,
      sn_blob_version = version, sn_operation_state = JobState.Waiting, sn_operation_version = 3,
      sn_metadata = xa_metadata m True, sn_artifact_blob_id = i, sn_duplicate_blob_cleanup = cleanup\<rparr>"
proof -
  have "scan_job_validate (xa_scan_job m) = Inr ()"
    by (simp add: scan_job_validate_def MAX_ARTIFACT_RETRY_BACKOFF_MILLISECONDS_def fail_if_def)
  moreover have "\<not> scan_mismatch (xa_artifact m m ArtifactState.Verifying 3 False)
      (xa_blob m True False BlobIntegrityState.Staging 2) (xa_worker_operation m) (xa_scan_job m) (xa_outcome m) 0"
    by (simp add: scan_mismatch_def)
  moreover have "add_milliseconds xa_add InvalidEvidence 0 1000 = Inr 1000000000" by code_simp
  moreover have "matches_intent (xa_artifact m m ArtifactState.Verifying 3 False) (xa_evidence m)"
    by (simp add: matches_intent_def)
  ultimately show ?thesis
    using assms by (simp add: decide_commit_artifact_scan_def xa_outcome_valid xa_verified_metadata Let_def)
qed

lemma xa_scanned_rows:
  "(xa_artifact m m ArtifactState.Verifying 3 False)\<lparr>at_blob_id := Some (xa_blb b), at_verified_media_type := Some ''a/b'',
      at_state := ArtifactState.Verified, at_version := 4, at_metadata := xa_metadata m True, at_updated_at := 0,
      at_terminal_at := None\<rparr> = xa_artifact m b ArtifactState.Verified 4 True"
  "(xa_blob m True False BlobIntegrityState.Staging 2)\<lparr>ab_content_digest := Some no_digest, ab_size_bytes := Some 5,
      ab_state := state, ab_version := 3\<rparr> = xa_blob m True True state 3"
  by (simp_all add: xa_artifact_def xa_blob_def)

lemma xa_commit_step:
  assumes "xa_absent m as bs gs" and "filter (same_content (xa_blob m True False BlobIntegrityState.Staging 2) no_digest) bs = []"
  shows "tx_commit_scan_outcome xa_artifact_env xa_add (xa_worker_operation m) (xa_scan_job m) (xa_outcome m)
      (xa_tables (as @ [xa_artifact m m ArtifactState.Verifying 3 False]) (bs @ [xa_blob m True False BlobIntegrityState.Staging 2]) gs' rs) =
    Inr (xa_tables (as @ [xa_artifact m m ArtifactState.Verified 4 True]) (bs @ [xa_blob m True True BlobIntegrityState.Verified 3]) gs' rs)"
proof -
  have "scanned_blob xa_artifact_env (xa_artifact m m ArtifactState.Verifying 3 False)
      (xa_blob m True False BlobIntegrityState.Staging 2) None (xa_scan_job m) (xa_evidence m) =
      Inr (xa_blb m, BlobIntegrityState.Verified, 3, None)"
    by (simp add: scanned_blob_def)
  note d = xa_decide_scan [OF this]
  have "load_reusable_blob (pe_uuid xa_artifact_env) (xa_tables as' (bs @ [xa_blob m True False BlobIntegrityState.Staging 2]) gs' rs)
      (xa_blob m True False BlobIntegrityState.Staging 2) no_digest 5 = Inr None" for as'
    using assms(2) by (simp add: load_reusable_blob_def) (simp add: same_content_def)
  then show ?thesis
    using d by (simp add: tx_commit_scan_outcome_def persist_scan_def Let_def xa_scanned_rows xa_find [OF assms(1)]
        xa_absent_rows [OF assms(1)])
qed

lemma xa_finalize_step:
  assumes absent: "xa_absent m as bs gs" and "\<not> has_row blob_key (xa_tenant, xa_blb b) bs0"
    and links: "\<not> has_row reference_key (xa_tenant, xa_lnk m) rs" "\<not> has_row grant_key (xa_tenant, xa_lnk m) gs"
      "\<not> list_ex (\<lambda>r. rs_owner_id (af_snapshot r) = xa_op m) rs"
  shows "tx_finalize_artifact xa_artifact_env xa_artifact_limits (xa_operation m) (xa_finalize m b)
      (xa_tables (as @ [xa_artifact m b ArtifactState.Verified 4 True]) (bs0 @ xa_blob b True True BlobIntegrityState.Verified 3 # bs1)
        (gs @ [xa_grant m ArtifactLinkState.Consumed 2]) rs) =
    Inr (xa_tables (as @ [xa_artifact m b ArtifactState.Ready 5 True]) (bs0 @ xa_blob b True True BlobIntegrityState.Verified 3 # bs1)
        (gs @ [xa_grant m ArtifactLinkState.Consumed 2]) (rs @ [xa_reference m]))"
proof -
  have "finalize_validate_at (xa_finalize m b) 0 xa_artifact_limits = Inr ()"
    by (simp add: finalize_validate_at_def fail_if_def)
  moreover have "is_ok (artifact_ref_new (xa_art m) no_digest 5 ''a/b'' DataClassification.Internal None)"
    by code_simp
  then obtain ref where "artifact_ref_new (xa_art m) no_digest 5 ''a/b'' DataClassification.Internal None = Inr ref"
    by (auto simp: is_ok_iff)
  then have "decide_finalize_artifact xa_artifact_env (xa_artifact m b ArtifactState.Verified 4 True)
      (xa_blob b True True BlobIntegrityState.Verified 3) (xa_grant m ArtifactLinkState.Consumed 2) (xa_operation m) (xa_finalize m b) =
      Inr \<lparr>fd_artifact_state = ArtifactState.Ready, fd_artifact_version = 5, fd_operation_state = JobState.Succeeded,
        fd_operation_version = 2, fd_reference = af_snapshot (xa_reference m), fd_artifact_ref = ref\<rparr>"
    by (simp add: decide_finalize_artifact_def require_artifact_operation_identity_def operation_snapshot_def
        verified_evidence_matches_def reference_snapshot_def reference_digest_def reference_link_key_digest_def Let_def fail_if_def)
  moreover have "find_blob (xa_tables as' (bs0 @ xa_blob b True True BlobIntegrityState.Verified 3 # bs1) gs' rs) xa_tenant (xa_blb b) =
      Inr (xa_blob b True True BlobIntegrityState.Verified 3)" for as' gs'
    using assms(2) by (simp add: find_blob_def blob_key_def)
  moreover have "\<not> link_exists (xa_tables as' bs' (gs @ [xa_grant m ArtifactLinkState.Consumed 2]) rs) (xa_tenant, xa_lnk m)" for as' bs'
    using links by (simp add: link_exists_def has_row_def grant_key_def)
  moreover have "\<not> list_ex (\<lambda>r. af_tenant_id r = xa_tenant \<and> af_link_key_digest r = no_digest \<and> rs_owner_id (af_snapshot r) = xa_op m) rs"
    using links(3) by (auto simp: list_ex_iff)
  ultimately show ?thesis
    by (simp add: tx_finalize_artifact_def Let_def reference_link_key_digest_def xa_find [OF absent] xa_absent_rows [OF absent]
        xa_reference_def)
qed

text \<open>The second artifact settles on the verified blob of the first.\<close>

lemma xa_reuse_step:
  "tx_commit_scan_outcome xa_artifact_env xa_add (xa_worker_operation 2) (xa_scan_job 2) (xa_outcome 2)
      (xa_tables [xa_artifact 1 1 ArtifactState.Ready 5 True, xa_artifact 2 2 ArtifactState.Verifying 3 False]
        [xa_blob 1 True True BlobIntegrityState.Verified 3, xa_blob 2 True False BlobIntegrityState.Staging 2] gs rs) =
    Inr (xa_tables [xa_artifact 1 1 ArtifactState.Ready 5 True, xa_artifact 2 1 ArtifactState.Verified 4 True]
        [xa_blob 1 True True BlobIntegrityState.Verified 3, xa_blob 2 True True BlobIntegrityState.Deleting 3] gs rs)"
  (is "tx_commit_scan_outcome _ _ _ _ _ ?s = _")
proof -
  let ?reusable = "xa_blob 1 True True BlobIntegrityState.Verified 3"
  let ?candidate = "xa_blob 2 True False BlobIntegrityState.Staging 2"
  have "blob_cleanup_digest xa_artifact_env \<lparr>bc_schema_version = 1, bc_artifact_id = xa_art 2, bc_discarded_blob_id = xa_blb 2,
      bc_replacement_blob_id = xa_blb 1, bc_object_generation = ''g'', bc_verification_evidence_digest = no_digest,
      bc_expected_blob_version = 3, bc_retry_backoff_milliseconds = 10\<rparr> = Inr no_digest"
    by (simp add: blob_cleanup_digest_def MAX_ARTIFACT_RETRY_BACKOFF_MILLISECONDS_def)
  then have "\<exists>cleanup. scanned_blob xa_artifact_env (xa_artifact 2 2 ArtifactState.Verifying 3 False) ?candidate (Some ?reusable)
      (xa_scan_job 2) (xa_evidence 2) = Inr (xa_blb 1, BlobIntegrityState.Deleting, 3, cleanup)"
    by (simp add: scanned_blob_def validate_reusable_blob_def fail_if_def)
  then obtain cleanup where d: "scanned_blob xa_artifact_env (xa_artifact 2 2 ArtifactState.Verifying 3 False) ?candidate (Some ?reusable)
      (xa_scan_job 2) (xa_evidence 2) = Inr (xa_blb 1, BlobIntegrityState.Deleting, 3, cleanup)" ..
  have "load_reusable_blob (pe_uuid xa_artifact_env) ?s ?candidate no_digest 5 = Inr (Some ?reusable)"
    by (simp add: load_reusable_blob_def same_content_def)
  moreover have "find_artifact ?s xa_tenant (xa_art 2) = Inr (xa_artifact 2 2 ArtifactState.Verifying 3 False)"
    "find_blob ?s xa_tenant (xa_blb 2) = Inr ?candidate"
    by (simp_all add: find_artifact_def find_blob_def artifact_key_def blob_key_def)
  ultimately show ?thesis
    using xa_decide_scan [OF d] by (simp add: tx_commit_scan_outcome_def persist_scan_def xa_scanned_rows)
qed

section \<open>Two artifacts with the same bytes\<close>

abbreviation "xa_step \<equiv> artifact_step xa_artifact_env xa_add xa_artifact_limits"

definition xa_ready :: artifact_store where
  "xa_ready = xa_tables [xa_artifact 1 1 ArtifactState.Ready 5 True] [xa_blob 1 True True BlobIntegrityState.Verified 3]
     [xa_grant 1 ArtifactLinkState.Consumed 2] [xa_reference 1]"

definition xa_both :: artifact_store where
  "xa_both = xa_tables [xa_artifact 1 1 ArtifactState.Ready 5 True, xa_artifact 2 1 ArtifactState.Ready 5 True]
     [xa_blob 1 True True BlobIntegrityState.Verified 3, xa_blob 2 True True BlobIntegrityState.Deleting 3]
     [xa_grant 1 ArtifactLinkState.Consumed 2, xa_grant 2 ArtifactLinkState.Consumed 2] [xa_reference 1, xa_reference 2]"

text \<open>An upload up to the end of the scan's scheduling.\<close>

lemma xa_reaches_verifying:
  assumes "xa_absent m as bs gs" and "\<not> has_row reference_key (xa_tenant, xa_grt m) rs"
  shows "xa_step\<^sup>*\<^sup>* (xa_tables as bs gs rs)
    (xa_tables (as @ [xa_artifact m m ArtifactState.Verifying 3 False]) (bs @ [xa_blob m True False BlobIntegrityState.Staging 2])
      (gs @ [xa_grant m ArtifactLinkState.Consumed 2]) rs)"
  using step_prepare [OF xa_prepare_step [OF assms]] step_upload [OF xa_upload_step [OF assms(1)]]
    step_initial_scan [OF xa_scan_step [OF assms(1)]]
  by (meson converse_rtranclp_into_rtranclp r_into_rtranclp)

lemma xa_reaches_ready: "xa_step\<^sup>*\<^sup>* (empty_store 0) xa_ready"
proof -
  have absent: "xa_absent 1 [] [] []" by (simp add: xa_absent_def has_row_def)
  have "empty_store 0 = xa_tables [] [] [] []" by (simp add: empty_store_def xa_tables_def)
  moreover have "xa_step (xa_tables [xa_artifact 1 1 ArtifactState.Verifying 3 False] [xa_blob 1 True False BlobIntegrityState.Staging 2]
      [xa_grant 1 ArtifactLinkState.Consumed 2] [])
    (xa_tables [xa_artifact 1 1 ArtifactState.Verified 4 True] [xa_blob 1 True True BlobIntegrityState.Verified 3]
      [xa_grant 1 ArtifactLinkState.Consumed 2] [])"
    using step_commit_scan [OF xa_commit_step [OF absent]] by simp
  moreover have "xa_step (xa_tables [xa_artifact 1 1 ArtifactState.Verified 4 True] [xa_blob 1 True True BlobIntegrityState.Verified 3]
      [xa_grant 1 ArtifactLinkState.Consumed 2] []) xa_ready"
    using step_finalize [OF xa_finalize_step [OF absent, of 1 "[]" "[]" "[]"]] by (simp add: xa_ready_def has_row_def)
  moreover have "xa_step\<^sup>*\<^sup>* (xa_tables [] [] [] []) (xa_tables [xa_artifact 1 1 ArtifactState.Verifying 3 False]
      [xa_blob 1 True False BlobIntegrityState.Staging 2] [xa_grant 1 ArtifactLinkState.Consumed 2] [])"
    using xa_reaches_verifying [OF absent, of "[]"] by (simp add: has_row_def)
  ultimately show ?thesis by (metis rtranclp.rtrancl_into_rtrancl)
qed

lemma xa_reaches_both: "xa_step\<^sup>*\<^sup>* (empty_store 0) xa_both"
proof -
  let ?gs = "[xa_grant 1 ArtifactLinkState.Consumed 2, xa_grant 2 ArtifactLinkState.Consumed 2]"
  have absent: "xa_absent 2 [xa_artifact 1 1 ArtifactState.Ready 5 True] [xa_blob 1 True True BlobIntegrityState.Verified 3]
      [xa_grant 1 ArtifactLinkState.Consumed 2]"
    by (simp add: xa_absent_def has_row_def)
  have "xa_step\<^sup>*\<^sup>* xa_ready (xa_tables [xa_artifact 1 1 ArtifactState.Ready 5 True, xa_artifact 2 2 ArtifactState.Verifying 3 False]
      [xa_blob 1 True True BlobIntegrityState.Verified 3, xa_blob 2 True False BlobIntegrityState.Staging 2] ?gs [xa_reference 1])"
    using xa_reaches_verifying [OF absent, of "[xa_reference 1]"] by (simp add: xa_ready_def has_row_def)
  moreover have "xa_step (xa_tables [xa_artifact 1 1 ArtifactState.Ready 5 True, xa_artifact 2 2 ArtifactState.Verifying 3 False]
      [xa_blob 1 True True BlobIntegrityState.Verified 3, xa_blob 2 True False BlobIntegrityState.Staging 2] ?gs [xa_reference 1])
    (xa_tables [xa_artifact 1 1 ArtifactState.Ready 5 True, xa_artifact 2 1 ArtifactState.Verified 4 True]
      [xa_blob 1 True True BlobIntegrityState.Verified 3, xa_blob 2 True True BlobIntegrityState.Deleting 3] ?gs [xa_reference 1])"
    by (rule step_commit_scan [OF xa_reuse_step])
  moreover have "xa_step (xa_tables [xa_artifact 1 1 ArtifactState.Ready 5 True, xa_artifact 2 1 ArtifactState.Verified 4 True]
      [xa_blob 1 True True BlobIntegrityState.Verified 3, xa_blob 2 True True BlobIntegrityState.Deleting 3] ?gs [xa_reference 1]) xa_both"
    using step_finalize [OF xa_finalize_step [OF absent, of 1 "[]" "[xa_reference 1]" "[xa_blob 2 True True BlobIntegrityState.Deleting 3]"]]
    by (simp add: xa_both_def has_row_def)
  ultimately show ?thesis using xa_reaches_ready by (meson rtranclp.rtrancl_into_rtrancl rtranclp_trans)
qed

section \<open>A derivation and a hold\<close>

definition xa_provenance :: CreateArtifactProvenance where
  "xa_provenance = \<lparr>cp_audit = xa_audit, cp_provenance_link_id = xa_lnk 7, cp_source_artifact_id = xa_art 1,
     cp_derived_artifact_id = xa_art 2, cp_transformation_deployment_id = ResourceId ResourceKind.CapabilityDeployment 1,
     cp_producer_owner_id = xa_op 7, cp_expected_source_version = 5, cp_expected_derived_version = 5,
     cp_parameters_digest = no_digest\<rparr>"

definition xa_derivation :: ArtifactProvenanceRecord where
  "xa_derivation = \<lparr>av_tenant_id = xa_tenant, av_provenance_link_id = xa_lnk 7, av_source_artifact_id = xa_art 1,
     av_derived_artifact_id = xa_art 2, av_state = ArtifactLinkState.Active, av_version = 1,
     av_snapshot = create_provenance_snapshot xa_provenance, av_link_key_digest = no_digest, av_created_at = 0\<rparr>"

definition xa_derived :: artifact_store where
  "xa_derived = xa_both\<lparr>st_provenance := [xa_derivation]\<rparr>"

definition xa_hold :: PlaceArtifactHold where
  "xa_hold = \<lparr>ph_audit = xa_audit, ph_artifact_hold_id = xa_lnk 8, ph_artifact_id = xa_art 1, ph_expected_artifact_version = 5,
     ph_hold_kind = ArtifactHoldKind.Legal, ph_reason_class = ''s'', ph_evidence_digest = no_digest, ph_expires_at = None\<rparr>"

definition xa_hold_row :: "ArtifactHoldRecord \<times> instant option" where
  "xa_hold_row = (\<lparr>ah_tenant_id = xa_tenant, ah_artifact_hold_id = xa_lnk 8, ah_artifact_id = xa_art 1,
     ah_state = ArtifactLinkState.Active, ah_version = 1, ah_snapshot = place_hold_snapshot xa_hold 0,
     ah_link_key_digest = no_digest, ah_created_at = 0, ah_released_at = None\<rparr>, None)"

definition xa_held :: artifact_store where
  "xa_held = xa_ready\<lparr>st_holds := [xa_hold_row]\<rparr>"

lemma xa_capacity:
  "link_count s tenant i < 8 \<Longrightarrow> require_artifact_link_capacity xa_artifact_limits s tenant i = Inr ()"
  by (simp add: require_artifact_link_capacity_def fail_if_def)

lemma walk_without_edges: "provenance_walk [] n path = [path]"
  by (cases n) simp_all

lemma xa_derive_step: "tx_create_provenance xa_artifact_env xa_artifact_limits xa_provenance xa_both = Inr xa_derived"
proof -
  have deployment: "is_deployment ResourceKind.CapabilityDeployment" by code_simp
  have valid: "create_provenance_validate_at xa_provenance 0 = Inr ()"
    by (simp add: create_provenance_validate_at_def xa_provenance_def is_producer_kind_def deployment fail_if_def)
  have acyclic: "require_acyclic_provenance xa_both xa_tenant (xa_art 1) (xa_art 2) 4 = Inr ()"
    by (simp add: require_acyclic_provenance_def provenance_edges_def xa_both_def walk_without_edges fail_if_def)
  have capacity: "check_all (require_artifact_link_capacity xa_artifact_limits xa_both xa_tenant) [xa_art 1, xa_art 2] = Inr ()"
    by (simp add: xa_capacity link_count_def xa_both_def)
  have decided: "decide_create_artifact_provenance xa_artifact_env (xa_artifact 1 1 ArtifactState.Ready 5 True)
      (xa_artifact 2 1 ArtifactState.Ready 5 True) xa_provenance = Inr (create_provenance_snapshot xa_provenance)"
    by (simp add: decide_create_artifact_provenance_def xa_provenance_def create_provenance_snapshot_def provenance_digest_def
        provenance_link_key_digest_def is_producer_kind_def deployment)
  have rows: "find_artifact xa_both xa_tenant (xa_art 1) = Inr (xa_artifact 1 1 ArtifactState.Ready 5 True)"
    "find_artifact xa_both xa_tenant (xa_art 2) = Inr (xa_artifact 2 1 ArtifactState.Ready 5 True)"
    by (simp_all add: find_artifact_def xa_both_def)
  have fields: "cp_audit xa_provenance = xa_audit" "cp_source_artifact_id xa_provenance = xa_art 1"
    "cp_derived_artifact_id xa_provenance = xa_art 2" "cp_provenance_link_id xa_provenance = xa_lnk 7"
    by (simp_all add: xa_provenance_def)
  have store: "st_now xa_both = 0" "st_provenance xa_both = []" "\<not> link_exists xa_both (xa_tenant, xa_lnk 7)"
    by (simp_all add: xa_both_def link_exists_def has_row_def)
  show ?thesis
    by (simp add: tx_create_provenance_def Let_def fields store rows valid acyclic capacity decided provenance_link_key_digest_def
        del: check_all.simps) (simp add: xa_derived_def xa_derivation_def)
qed

lemma xa_reaches_derived: "xa_step\<^sup>*\<^sup>* (empty_store 0) xa_derived"
  using xa_reaches_both step_provenance [OF xa_derive_step] by (rule rtranclp.rtrancl_into_rtrancl)

lemma xa_code [simp]: "is_code ''s'' 64"
  by code_simp

lemma xa_hold_step: "tx_place_hold xa_artifact_env xa_artifact_limits xa_hold xa_ready = Inr xa_held"
proof -
  have valid: "place_hold_validate_at xa_hold 0 = Inr ()"
    by (simp add: place_hold_validate_at_def xa_hold_def fail_if_def)
  have capacity: "require_artifact_link_capacity xa_artifact_limits xa_ready xa_tenant (xa_art 1) = Inr ()"
    by (simp add: xa_capacity link_count_def xa_ready_def)
  have decided: "decide_place_artifact_hold xa_artifact_env (xa_artifact 1 1 ArtifactState.Ready 5 True) xa_hold 0 =
      Inr (place_hold_snapshot xa_hold 0)"
    by (simp add: decide_place_artifact_hold_def xa_hold_def place_hold_snapshot_def hold_digest_def hold_link_key_digest_def)
  have row: "find_artifact xa_ready xa_tenant (xa_art 1) = Inr (xa_artifact 1 1 ArtifactState.Ready 5 True)"
    by (simp add: find_artifact_def xa_ready_def)
  have fields: "ph_audit xa_hold = xa_audit" "ph_artifact_id xa_hold = xa_art 1" "ph_artifact_hold_id xa_hold = xa_lnk 8"
    "ph_expires_at xa_hold = None"
    by (simp_all add: xa_hold_def)
  have store: "st_now xa_ready = 0" "st_holds xa_ready = []" "\<not> link_exists xa_ready (xa_tenant, xa_lnk 8)"
    by (simp_all add: xa_ready_def link_exists_def has_row_def)
  show ?thesis
    by (simp add: tx_place_hold_def Let_def fields store row valid capacity decided hold_link_key_digest_def xa_held_def
        xa_hold_row_def)
qed

lemma xa_reaches_held: "xa_step\<^sup>*\<^sup>* (empty_store 0) xa_held"
  using xa_reaches_ready step_place_hold [OF xa_hold_step] by (rule rtranclp.rtrancl_into_rtrancl)

section \<open>A deletion\<close>

definition xa_release :: ReleaseArtifactReference where
  "xa_release = \<lparr>rr_audit = xa_audit, rr_artifact_reference_id = xa_lnk 1, rr_artifact_id = xa_art 1,
     rr_expected_reference_version = 1, rr_reason_class = ''s''\<rparr>"

definition xa_released :: artifact_store where
  "xa_released = xa_ready\<lparr>st_references := [(xa_reference 1)\<lparr>af_state := ArtifactLinkState.Released, af_version := 2,
     af_released_at := Some 0\<rparr>]\<rparr>"

definition xa_later :: artifact_store where
  "xa_later = xa_released\<lparr>st_now := 2000000000\<rparr>"

definition xa_retention :: ArtifactRetentionPolicy where
  "xa_retention = \<lparr>rp_version = 1, rp_minimum_retention_seconds = 0, rp_gc_grace_seconds = 1,
     rp_tombstone_retention_seconds = 1, rp_retain_provenance_sources = True, rp_delete_requires_approval = False\<rparr>"

definition xa_mark :: MarkArtifactDeletion where
  "xa_mark = \<lparr>mk_audit = xa_audit, mk_deletion_operation_id = xa_op 3, mk_deletion_job_id = xa_op 3, mk_artifact_id = xa_art 1,
     mk_blob_id = xa_blb 1, mk_expected_artifact_version = 5, mk_expected_blob_version = 3, mk_approval_task_id = None,
     mk_retry_backoff_milliseconds = 10, mk_deadline = 3000000000\<rparr>"

definition xa_marked :: artifact_store where
  "xa_marked = xa_later\<lparr>st_artifacts := [(xa_artifact 1 1 ArtifactState.Deleting 6 True)\<lparr>at_updated_at := 2000000000\<rparr>],
     st_blobs := [xa_blob 1 True True BlobIntegrityState.Deleting 4]\<rparr>"

lemma xa_release_step: "tx_release_reference xa_release xa_ready = Inr xa_released"
  by (simp add: tx_release_reference_def release_reference_validate_at_def decide_release_artifact_reference_def xa_release_def
      xa_ready_def xa_released_def fail_if_def)

lemma xa_later_rows:
  "st_now xa_later = 2000000000" "st_artifacts xa_later = [xa_artifact 1 1 ArtifactState.Ready 5 True]"
  "st_blobs xa_later = [xa_blob 1 True True BlobIntegrityState.Verified 3]"
  "find_blob xa_later xa_tenant (xa_blb 1) = Inr (xa_blob 1 True True BlobIntegrityState.Verified 3)"
  by (simp_all add: xa_later_def xa_released_def xa_ready_def find_blob_def)

lemma xa_mark_decided:
  "\<exists>operation job. decide_mark_artifact_deletion xa_artifact_env xa_add (xa_artifact 1 1 ArtifactState.Ready 5 True)
      (xa_blob 1 True True BlobIntegrityState.Verified 3) None (deletion_facts xa_later xa_retention False True xa_tenant (xa_art 1))
      xa_mark 2000000000 =
    Inr \<lparr>mm_artifact_state = ArtifactState.Deleting, mm_artifact_version = 6, mm_blob_state = BlobIntegrityState.Deleting,
      mm_blob_version = 4, mm_mode = BlobGeneration ''g'', mm_operation = operation, mm_job = job\<rparr>"
proof -
  have facts: "deletion_facts xa_later xa_retention False True xa_tenant (xa_art 1) =
      \<lparr>da_approval_required = False, da_approval_satisfied = True, da_gc_grace_seconds = 1, da_live_reference_count = 0,
       da_active_hold_count = 0, da_blocking_provenance_count = 0\<rparr>"
    by (simp add: deletion_facts_def xa_retention_def live_references_def provenance_links_def xa_later_def xa_released_def
        xa_ready_def)
  have mode: "validate_deletion_mode (BlobGeneration ''g'') = Inr ()" by code_simp
  show ?thesis unfolding facts
    by (simp add: decide_mark_artifact_deletion_def xa_mark_def duration_seconds_def xa_add_def deletion_blocked_def
        deletion_mode_def marked_blob_def deletion_operation_digest_def deletion_job_digest_def mode Let_def
        MAX_ARTIFACT_RETRY_BACKOFF_MILLISECONDS_def)
qed

lemma xa_mark_step: "tx_mark_deletion xa_artifact_env xa_add xa_retention None xa_mark xa_later = Inr xa_marked"
proof -
  obtain operation job where d: "decide_mark_artifact_deletion xa_artifact_env xa_add (xa_artifact 1 1 ArtifactState.Ready 5 True)
      (xa_blob 1 True True BlobIntegrityState.Verified 3) None (deletion_facts xa_later xa_retention False True xa_tenant (xa_art 1))
      xa_mark 2000000000 =
    Inr \<lparr>mm_artifact_state = ArtifactState.Deleting, mm_artifact_version = 6, mm_blob_state = BlobIntegrityState.Deleting,
      mm_blob_version = 4, mm_mode = BlobGeneration ''g'', mm_operation = operation, mm_job = job\<rparr>"
    using xa_mark_decided by blast
  have valid: "mark_validate_at xa_mark 2000000000 = Inr ()"
    by (simp add: mark_validate_at_def xa_mark_def MAX_ARTIFACT_RETRY_BACKOFF_MILLISECONDS_def fail_if_def)
  have aliases: "blob_aliases uc xa_later xa_tenant (xa_blb 1) = [xa_artifact 1 1 ArtifactState.Ready 5 True]" for uc
    by (simp add: blob_aliases_def xa_later_rows)
  have fields: "mk_audit xa_mark = xa_audit" "mk_artifact_id xa_mark = xa_art 1" "mk_blob_id xa_mark = xa_blb 1"
    by (simp_all add: xa_mark_def)
  have policy: "\<not> rp_delete_requires_approval xa_retention" by (simp add: xa_retention_def)
  show ?thesis
    by (simp add: tx_mark_deletion_def Let_def fields xa_later_rows valid aliases policy live_alias_def d persist_mark_def
        put_artifact_def put_blob_def)
      (simp add: xa_marked_def set_artifact_state_def xa_artifact_def)
qed

lemma xa_reaches_marked: "xa_step\<^sup>*\<^sup>* xa_ready xa_marked"
proof -
  have "st_now xa_released \<le> 2000000000" by (simp add: xa_released_def xa_ready_def)
  then have "xa_step xa_released xa_later" unfolding xa_later_def by (rule step_clock)
  with step_release_reference [OF xa_release_step] step_mark [OF xa_mark_step] show ?thesis
    by (meson converse_rtranclp_into_rtranclp r_into_rtranclp)
qed

end
