(* ===== verification/ArtifactSafety.thy ===== *)
theory ArtifactSafety
  imports ArtifactExamples
begin

text \<open>
  What holds of stored artifacts in every history from an empty database: what was verified stays readable and
  unchanged, what is protected is not deleted, a deletion waits for everything it has to wait for, and an effect
  outside the database that may have happened is never repeated by itself.
\<close>

section \<open>Stored bytes\<close>

lemma ready_is_stored:
  assumes "store_sound s" "a \<in> set (st_artifacts s)" "b \<in> set (st_blobs s)" "owns a b" "verified_state (at_state a)"
  shows "stores s a b"
proof -
  have "pair_sound a b" using store_soundD(3) [OF assms(1-4)] .
  with assms show ?thesis
    unfolding stores_def pair_sound_def settled_def verified_state_def
    by (intro exI [of _ a] exI [of _ b]) auto
qed

lemma stores_history: "(sound_step env add limits)\<^sup>*\<^sup>* s t \<Longrightarrow> stores s a b \<Longrightarrow> stores t a b"
  by (induction rule: rtranclp_induct) (auto intro: stores_step)

text \<open>C16: once an artifact was verified, its row stays, what was declared of it stays, and it owns a blob with the same
  identity, the same object generation, the same content digest and the same size in every later state; and unless
  the artifact itself is being deleted, that blob is neither being deleted nor gone.\<close>

theorem verified_artifacts_keep_their_bytes:
  assumes "(artifact_step env add limits)\<^sup>*\<^sup>* (empty_store now) s" and "(artifact_step env add limits)\<^sup>*\<^sup>* s t"
    and "a \<in> set (st_artifacts s)" "b \<in> set (st_blobs s)" "owns a b"
    and "at_state a = ArtifactState.Verified \<or> at_state a = ArtifactState.Ready"
  shows "\<exists>a' \<in> set (st_artifacts t). \<exists>b' \<in> set (st_blobs t).
    same_artifact a a' \<and> owns a' b' \<and> blob_key b' = blob_key b
    \<and> ab_object_generation b' = ab_object_generation b
    \<and> ab_content_digest b' = ab_content_digest b \<and> ab_size_bytes b' = ab_size_bytes b
    \<and> (at_state a' \<notin> {ArtifactState.Deleting, ArtifactState.Deleted} \<longrightarrow>
         ab_state b' \<notin> {BlobIntegrityState.Deleting, BlobIntegrityState.Deleted})"
proof -
  have sound: "store_sound s" by (rule reachable_sound [OF assms(1)])
  have "stores s a b" using assms(3-6) by (intro ready_is_stored [OF sound]) (simp_all add: verified_state_def)
  then have "stores t a b" using history_steps [OF assms(2) sound] stores_history by blast
  then obtain a' b' where rows: "a' \<in> set (st_artifacts t)" "b' \<in> set (st_blobs t)" "same_artifact a a'" "bytes_kept b b'"
      "owns a' b'" unfolding stores_def by blast
  moreover have "at_state a' \<in> owner_states (ab_state b')"
    using rows store_soundD(3) [OF history_sound [OF assms(2) sound]] by (simp add: pair_sound_def)
  ultimately show ?thesis
    by (intro bexI [of _ a'] bexI [of _ b']) (auto simp: bytes_kept_def same_blob_def)
qed

theorem verified_artifacts_keep_their_bytes_witness:
  "\<exists>a' \<in> set (st_artifacts xa_marked). \<exists>b' \<in> set (st_blobs xa_marked).
    same_artifact (xa_artifact 1 1 ArtifactState.Ready 5 True) a' \<and> owns a' b' \<and> ab_content_digest b' = Some no_digest"
proof -
  have "\<exists>a' \<in> set (st_artifacts xa_marked). \<exists>b' \<in> set (st_blobs xa_marked).
      same_artifact (xa_artifact 1 1 ArtifactState.Ready 5 True) a' \<and> owns a' b'
      \<and> blob_key b' = blob_key (xa_blob 1 True True BlobIntegrityState.Verified 3)
      \<and> ab_object_generation b' = ab_object_generation (xa_blob 1 True True BlobIntegrityState.Verified 3)
      \<and> ab_content_digest b' = ab_content_digest (xa_blob 1 True True BlobIntegrityState.Verified 3)
      \<and> ab_size_bytes b' = ab_size_bytes (xa_blob 1 True True BlobIntegrityState.Verified 3)
      \<and> (at_state a' \<notin> {ArtifactState.Deleting, ArtifactState.Deleted} \<longrightarrow>
           ab_state b' \<notin> {BlobIntegrityState.Deleting, BlobIntegrityState.Deleted})"
    by (rule verified_artifacts_keep_their_bytes [OF xa_reaches_ready xa_reaches_marked])
      (simp_all add: xa_ready_def owns_def)
  then show ?thesis by auto
qed



section \<open>Protection\<close>

text \<open>C18: no artifact that an active hold, an active reference or a usable upload grant protects is being deleted or
  deleted, in any history: neither by a deletion, nor by links placed later on what is already being deleted.\<close>

theorem protected_artifacts_are_not_deleted:
  assumes "(artifact_step env add limits)\<^sup>*\<^sup>* (empty_store now) s" and "a \<in> set (st_artifacts s)"
    and "(\<exists>h \<in> set (st_holds s). active_hold s (at_tenant_id a) (at_artifact_id a) h)
      \<or> 0 < live_references s (at_tenant_id a) (at_artifact_id a)"
  shows "at_state a \<noteq> ArtifactState.Deleting \<and> at_state a \<noteq> ArtifactState.Deleted"
proof -
  have "\<not> unprotected s a" using assms(3) by (auto simp: unprotected_def filter_empty_conv)
  with store_soundD(5) [OF reachable_sound [OF assms(1)] assms(2)] show ?thesis by blast
qed

theorem protected_artifacts_are_not_deleted_witness:
  "at_state (xa_artifact 1 1 ArtifactState.Ready 5 True) \<noteq> ArtifactState.Deleting"
proof -
  have "xa_artifact 1 1 ArtifactState.Ready 5 True \<in> set (st_artifacts xa_held)" by (simp add: xa_held_def xa_ready_def)
  moreover have "\<exists>h \<in> set (st_holds xa_held). active_hold xa_held xa_tenant (xa_art 1) h"
    by (simp add: xa_held_def xa_hold_row_def active_hold_def)
  ultimately show ?thesis using protected_artifacts_are_not_deleted [OF xa_reaches_held] by fastforce
qed

section \<open>Provenance\<close>

text \<open>C20: the provenance links of a tenant never form a cycle, although each new link is checked by a walk of bounded
  depth only, and along every chain of links the classification of the data never falls.\<close>

theorem provenance_is_acyclic_and_never_declassifies:
  assumes "(artifact_step env add limits)\<^sup>*\<^sup>* (empty_store now) s"
  shows "acyclic (set (provenance_edges s tenant))
    \<and> (\<forall>x \<in> set (st_artifacts s). \<forall>y \<in> set (st_artifacts s).
         at_tenant_id x = tenant \<longrightarrow> at_tenant_id y = tenant \<longrightarrow>
         (at_artifact_id x, at_artifact_id y) \<in> (set (provenance_edges s tenant))\<^sup>+ \<longrightarrow>
         classification_rank (at_classification x) \<le> classification_rank (at_classification y))"
proof -
  have sound: "store_sound s" "lineage_sound s" using reachable_sound reachable_lineage assms by blast+
  then show ?thesis
    using chain_rises [OF sound] by (auto simp: lineage_sound_def artifact_key_def)
qed

theorem provenance_is_acyclic_and_never_declassifies_witness:
  "(xa_art 1, xa_art 2) \<in> set (provenance_edges xa_derived xa_tenant)
   \<and> (xa_art 2, xa_art 1) \<notin> (set (provenance_edges xa_derived xa_tenant))\<^sup>+"
proof -
  have edge: "(xa_art 1, xa_art 2) \<in> set (provenance_edges xa_derived xa_tenant)"
    by (simp add: provenance_edges_def xa_derived_def xa_derivation_def)
  have "acyclic (set (provenance_edges xa_derived xa_tenant))"
    using provenance_is_acyclic_and_never_declassifies [OF xa_reaches_derived] by blast
  with edge show ?thesis by (meson acyclic_def trancl_into_trancl)
qed

section \<open>Deletions\<close>

text \<open>C21: a deletion that is admitted finds its artifact in a state that may be deleted, its retention and the grace
  period after it over, no link that protects it, no provenance link where the policy retains the sources of
  derivations, and an approving task where the policy asks for an approval; then the artifact is being deleted.\<close>

theorem deletions_wait_for_every_permission:
  assumes "(artifact_step env add limits)\<^sup>*\<^sup>* (empty_store now) s" and "chrono_add_ok add"
    and "tx_mark_deletion env add policy approval c s = Inr t" and "t \<noteq> s"
  shows "\<exists>a \<in> set (st_artifacts s).
      artifact_key a = (ca_tenant_id (mk_audit c), mk_artifact_id c)
      \<and> at_state a \<in> {ArtifactState.Ready, ArtifactState.Rejected, ArtifactState.Quarantined, ArtifactState.Corrupt}
      \<and> at_retain_until a + uint (rp_gc_grace_seconds policy) * 1000000000 \<le> st_now s
      \<and> unprotected s a
      \<and> (rp_retain_provenance_sources policy \<longrightarrow> provenance_links s (at_tenant_id a) (at_artifact_id a) = 0)
      \<and> (rp_delete_requires_approval policy \<longrightarrow> approval = Some True)
      \<and> (\<exists>a' \<in> set (st_artifacts t). same_artifact a a' \<and> at_state a' = ArtifactState.Deleting)"
proof -
  let ?tenant = "ca_tenant_id (mk_audit c)"
  let ?aliases = "blob_aliases (pe_uuid env) s ?tenant (mk_blob_id c)"
  let ?required = "rp_delete_requires_approval policy"
  define satisfied where "satisfied = (if ?required \<and> approval \<noteq> None then approval = Some True else \<not> ?required)"
  have keys: "keys_sound s" by (rule store_soundD(1) [OF reachable_sound [OF assms(1)]])
  from assms(3,4) obtain a b d where
    find: "List.find (\<lambda>a. at_artifact_id a = mk_artifact_id c) ?aliases = Some a"
    and d: "decide_mark_artifact_deletion env add a b (live_alias ?aliases (mk_artifact_id c))
      (deletion_facts s policy ?required (satisfied \<or> (?required \<and> approval = None)) ?tenant (mk_artifact_id c)) c (st_now s) = Inr d"
    and asked: "\<not> (?required \<and> approval = None)" and t: "t = persist_mark d a b s"
    by (auto simp: tx_mark_deletion_def Let_def result_simps satisfied_def split: if_splits)
  note a = find_alias [OF keys find] and d = mark_accepted [OF d]
  note facts = not_deletion_blocked [of a b s policy ?required satisfied c]
  have free: "\<not> deletion_blocked a b (deletion_facts s policy ?required satisfied (at_tenant_id a) (at_artifact_id a)) c"
    using d(1) a asked by (auto simp: satisfied_def split: if_splits)
  have "set_artifact_state ArtifactState.Deleting (mm_artifact_version d) (st_now s) a \<in> set (st_artifacts t)"
    using update_row_this [OF a(2), of artifact_key "artifact_key a"] d(5) by (simp add: t persist_mark_def)
  moreover have "at_retain_until a + uint (rp_gc_grace_seconds policy) * 1000000000 \<le> st_now s"
    using d(8) assms(2) by (auto simp: chrono_add_ok_def deletion_facts_def)
  moreover have "?required \<longrightarrow> approval = Some True" using facts(4) [OF free] asked by (auto simp: satisfied_def split: if_splits)
  ultimately show ?thesis
    using a facts(1,3,5) [OF free] by (intro bexI [of _ a]) (auto simp: artifact_key_def intro!: bexI)
qed

theorem deletions_wait_for_every_permission_witness:
  "at_retain_until (xa_artifact 1 1 ArtifactState.Ready 5 True) + 1000000000 \<le> st_now xa_later
   \<and> unprotected xa_later (xa_artifact 1 1 ArtifactState.Ready 5 True)"
proof -
  have "st_now xa_released \<le> 2000000000" by (simp add: xa_released_def xa_ready_def)
  then have "xa_step xa_released xa_later" unfolding xa_later_def by (rule step_clock)
  with step_release_reference [OF xa_release_step] xa_reaches_ready have "xa_step\<^sup>*\<^sup>* (empty_store 0) xa_later"
    by (meson rtranclp.rtrancl_into_rtrancl)
  moreover have "chrono_add_ok xa_add" by (simp add: chrono_add_ok_def xa_add_def)
  moreover have "xa_marked \<noteq> xa_later"
  proof
    assume "xa_marked = xa_later"
    then have "st_blobs xa_marked = st_blobs xa_later" by simp
    then have "map ab_version (st_blobs xa_marked) = map ab_version (st_blobs xa_later)" by simp
    then show False by (simp add: xa_marked_def xa_later_rows)
  qed
  ultimately show ?thesis
    using deletions_wait_for_every_permission [OF _ _ xa_mark_step] by (fastforce simp: xa_later_rows xa_retention_def)
qed

section \<open>Effects outside the database\<close>

text \<open>C19: a running attempt that may already have destroyed stored bytes is never tried again by itself: when its lease
  expires or its backend fails, the job is left for reconciliation, and what recovery then writes leaves the state
  and the version of the artifact as they are.\<close>

theorem uncertain_deletions_are_never_retried:
  assumes "may_have_uncertain_physical_effect payload" and "jp_state current \<noteq> JobState.Leased"
    and "decide_expired_artifact_attempt env add current payload v g now = Inr d
      \<or> decide_artifact_backend_failure env add current payload c now = Inr d"
  shows "jp_state (rd_job d) = JobState.ReconciliationRequired
    \<and> rd_parent_action d \<in> {DeletionParent JobState.Failed, BlobCleanupReconciliation}
    \<and> (\<forall>parents after. persist_artifact_recovery_parent_action payload parents (rd_parent_action d) = Inr after \<longrightarrow>
         after = (lr_artifact_state parents, lr_artifact_version parents))"
proof -
  have outcome: "jp_state (rd_job d) = JobState.ReconciliationRequired
      \<and> rd_parent_action d \<in> {DeletionParent JobState.Failed, BlobCleanupReconciliation}"
    using assms(3)
  proof
    assume "decide_expired_artifact_attempt env add current payload v g now = Inr d"
    with assms(1,2) obtain job where job: "decide_expired_lease current v g now JobState.ReconciliationRequired None = Inr job"
      and d: "(if jp_state job \<in> {JobState.Ready, JobState.RetryScheduled} then Inr NoParentAction
              else if jp_state job = JobState.TimedOut then ended_parent_action payload JobState.TimedOut
              else if jp_state job = JobState.ReconciliationRequired then ended_parent_action payload JobState.Failed
              else Inl ArtifactWorkError.InvalidTransition) = Inr (rd_parent_action d)" "rd_job d = job"
      by (auto simp: decide_expired_artifact_attempt_def expired_target_def result_simps split: if_splits)
    from job have "jp_state job = JobState.ReconciliationRequired"
      by (auto simp: decide_expired_lease_def transition_def validated_def result_simps split: if_splits)
    with d assms(1) show ?thesis
      by (auto simp: ended_parent_action_def may_have_uncertain_physical_effect_def split: ArtifactJobPayload.splits)
  next
    assume "decide_artifact_backend_failure env add current payload c now = Inr d"
    with assms(1) show ?thesis
      by (auto simp: decide_artifact_backend_failure_def may_have_uncertain_physical_effect_def decide_reconciliation_def
          transition_def validated_def result_simps split: ArtifactJobPayload.splits ArtifactDeletionMode.splits if_splits)
  qed
  then have "after = (lr_artifact_state parents, lr_artifact_version parents)"
    if "persist_artifact_recovery_parent_action payload parents (rd_parent_action d) = Inr after" for parents after
    using that by (auto simp: persist_artifact_recovery_parent_action_def split: if_splits)
  with outcome show ?thesis by blast
qed

definition xa_cleanup :: ArtifactJobPayload where
  "xa_cleanup = CleanupPayload \<lparr>bc_schema_version = 1, bc_artifact_id = xa_art 2, bc_discarded_blob_id = xa_blb 2,
     bc_replacement_blob_id = xa_blb 1, bc_object_generation = ''g'', bc_verification_evidence_digest = no_digest,
     bc_expected_blob_version = 3, bc_retry_backoff_milliseconds = 10\<rparr>"

definition xa_job :: JobProjection where
  "xa_job = \<lparr>jp_trace = \<lparr>ti_schema_version = 1, ti_trace_id = TraceId []\<rparr>, jp_tenant_id = xa_tenant, jp_job_id = xa_op 9,
     jp_work_class = WorkClass.Artifact,
     jp_owner = \<lparr>jo_owner_id = xa_blb 2, jo_owner_kind = ResourceKind.InternalBlob\<rparr>,
     jp_state = JobState.Running, jp_version = 3, jp_attempt_count = 1, jp_attempt_limit = 3, jp_lease_generation = 1,
     jp_lease = Some \<lparr>jl_worker_process_generation_id = xa_process, jl_lease_generation = 1, jl_token_digest = ''t'',
       jl_heartbeat_at = 10, jl_expires_at = 100\<rparr>,
     jp_scheduled_at = 0, jp_retry_at = None, jp_wake = None, jp_deadline = 300\<rparr>"

theorem uncertain_deletions_are_never_retried_witness:
  "\<exists>d. decide_expired_artifact_attempt xa_artifact_env xa_add xa_job xa_cleanup 3 1 200 = Inr d
     \<and> jp_state (rd_job d) = JobState.ReconciliationRequired"
proof -
  have digest: "blob_cleanup_digest xa_artifact_env \<lparr>bc_schema_version = 1, bc_artifact_id = xa_art 2, bc_discarded_blob_id = xa_blb 2,
      bc_replacement_blob_id = xa_blb 1, bc_object_generation = ''g'', bc_verification_evidence_digest = no_digest,
      bc_expected_blob_version = 3, bc_retry_backoff_milliseconds = 10\<rparr> = Inr no_digest"
    by (simp add: blob_cleanup_digest_def MAX_ARTIFACT_RETRY_BACKOFF_MILLISECONDS_def)
  have valid: "payload_validate_for_owner xa_artifact_env xa_cleanup (xa_blb 2) = Inr ()"
    by (simp add: payload_validate_for_owner_def xa_cleanup_def digest require_owner_def fail_if_def)
  have uncertain: "may_have_uncertain_physical_effect xa_cleanup"
    by (simp add: may_have_uncertain_physical_effect_def xa_cleanup_def)
  have transitions: "job_state_can_transition_to JobState.Running JobState.ReconciliationRequired" by code_simp
  have expired: "is_ok (decide_expired_lease xa_job 3 1 200 JobState.ReconciliationRequired None)"
    by (simp add: decide_expired_lease_def job_validate_def owner_validate_for_def is_execution_work_owner_pair_def
        execution_work_owner_pairs_def lease_validate_def trace_identity_validate_def transition_def transitions validated_def
        increment_def checked_add_def is_terminal_def xa_job_def fail_if_def)
  then obtain job where job: "decide_expired_lease xa_job 3 1 200 JobState.ReconciliationRequired None = Inr job"
    by (auto simp: is_ok_iff)
  then have "jp_state job = JobState.ReconciliationRequired"
    by (auto simp: decide_expired_lease_def transition_def validated_def result_simps split: if_splits)
  then have "decide_expired_artifact_attempt xa_artifact_env xa_add xa_job xa_cleanup 3 1 200 =
      Inr \<lparr>rd_job = job, rd_parent_action = BlobCleanupReconciliation\<rparr>"
    using uncertain valid job
    by (simp add: decide_expired_artifact_attempt_def expired_target_def) (simp add: xa_job_def xa_cleanup_def ended_parent_action_def)
  note attempt = this
  have "jp_state xa_job \<noteq> JobState.Leased" by (simp add: xa_job_def)
  from uncertain_deletions_are_never_retried [OF uncertain this disjI1 [OF attempt]] attempt show ?thesis by blast
qed

section \<open>What the commands can not reach\<close>

text \<open>The outcome table of \<open>work.rs\<close> lists a rescan that quarantines, and the table of the states refuses it.\<close>

lemma rescans_never_commit_a_quarantine:
  assumes "sj_scan_kind job = ArtifactScanKind.Rescan" and "se_disposition (cs_evidence c) = ArtifactScanDisposition.Quarantined"
  shows "\<not> is_ok (decide_commit_artifact_scan env add a b operation r job c now)"
proof
  assume "is_ok (decide_commit_artifact_scan env add a b operation r job c now)"
  then obtain d where d: "decide_commit_artifact_scan env add a b operation r job c now = Inr d" by (auto simp: is_ok_iff)
  from scan_accepted [OF d] assms show False by (simp add: artifact_state_can_transition_to_def)
qed

text \<open>A scan job that expired before it started can not be recovered: its row is still leased, and the recovery of a
  scan asks for a running one.\<close>

lemma leased_scans_are_not_recovered:
  "\<not> is_ok (tx_recover_scan tenant JobState.Leased version payload scan action s)"
proof
  assume "is_ok (tx_recover_scan tenant JobState.Leased version payload scan action s)"
  then obtain a parents where "lock_scan_parents s tenant JobState.Leased version scan = Inr (a, parents)"
    by (auto simp: is_ok_iff tx_recover_scan_def rbind_eq_Inr)
  then show False by (auto simp: lock_scan_parents_def result_simps split: if_splits)
qed

text \<open>An artifact whose first scan failed is quarantined with a blob in staging, and no command leads on from there.\<close>

lemma failed_first_scans_are_stranded:
  assumes "at_state a = ArtifactState.Quarantined" and "ab_state b = BlobIntegrityState.Staging"
  shows "\<not> is_ok (decide_schedule_artifact_rescan a b c now)"
    "\<not> is_ok (decide_mark_artifact_deletion env add a b live facts mark now)"
proof -
  show "\<not> is_ok (decide_schedule_artifact_rescan a b c now)"
    using assms rescan_accepted by (fastforce simp: is_ok_iff)
  show "\<not> is_ok (decide_mark_artifact_deletion env add a b live facts mark now)"
  proof
    assume "is_ok (decide_mark_artifact_deletion env add a b live facts mark now)"
    then obtain d where "decide_mark_artifact_deletion env add a b live facts mark now = Inr d" by (auto simp: is_ok_iff)
    from mark_accepted(1) [OF this] assms show False by (simp add: deletion_blocked_def)
  qed
qed

text \<open>A media type the scanner's evidence may carry and the command that finalizes may not: such an artifact stays
  verified, where it can not be deleted either.\<close>

lemma scanned_media_types_may_block_finalizing:
  "valid_media_type ''A/b''" "\<not> is_media_type ''A/b''"
  "at_verified_media_type a = Some ''A/b'' \<Longrightarrow> is_ok (finalize_validate_at c now limits) \<Longrightarrow>
     \<not> is_ok (decide_finalize_artifact env a b g operation c)"
proof -
  show "valid_media_type ''A/b''" by code_simp
  show refused: "\<not> is_media_type ''A/b''" by code_simp
  assume a: "at_verified_media_type a = Some ''A/b''" and "is_ok (finalize_validate_at c now limits)"
  then have "is_media_type (fz_verified_media_type c)"
    by (auto simp: is_ok_iff finalize_validate_at_def result_simps Let_def)
  with refused have other: "fz_verified_media_type c \<noteq> ''A/b''" by metis
  show "\<not> is_ok (decide_finalize_artifact env a b g operation c)"
  proof
    assume "is_ok (decide_finalize_artifact env a b g operation c)"
    then obtain d where "decide_finalize_artifact env a b g operation c = Inr d" by (auto simp: is_ok_iff)
    from finalize_accepted(7) [OF this] a other show False by (simp add: verified_evidence_matches_def)
  qed
qed

text \<open>A hold is identified by its artifact, its kind and its principal, and a released hold still counts: the same
  principal can not place a hold of the same kind on the artifact again.\<close>

lemma released_holds_are_not_placed_again:
  assumes "(h, e) \<in> set (st_holds s)" and "ah_tenant_id h = ca_tenant_id (ph_audit c)"
    and "hold_link_key_digest env (ah_snapshot h) = Inr (ah_link_key_digest h)"
    and "hs_artifact_id (ah_snapshot h) = ph_artifact_id c" "hs_hold_kind (ah_snapshot h) = ph_hold_kind c"
    and "hs_authority_principal_id (ah_snapshot h) = ca_principal_id (ph_audit c)" "hs_schema_version (ah_snapshot h) = 1"
  shows "\<not> is_ok (tx_place_hold env limits c s)"
proof
  assume "is_ok (tx_place_hold env limits c s)"
  then obtain t where "tx_place_hold env limits c s = Inr t" by (auto simp: is_ok_iff)
  then obtain snapshot key a where snapshot: "decide_place_artifact_hold env a c (st_now s) = Inr snapshot"
    and key: "hold_link_key_digest env snapshot = Inr key"
    and new: "\<not> list_ex (\<lambda>(h, _). ah_tenant_id h = ca_tenant_id (ph_audit c) \<and> ah_link_key_digest h = key
               \<and> hs_authority_principal_id (ah_snapshot h) = ca_principal_id (ph_audit c)) (st_holds s)"
    unfolding tx_place_hold_def Let_def result_simps by (auto split: if_splits)
  have "snapshot = place_hold_snapshot c (st_now s)"
    using snapshot by (auto simp: decide_place_artifact_hold_def Let_def result_simps split: if_splits)
  then have "hold_link_key_digest env snapshot = hold_link_key_digest env (ah_snapshot h)"
    using assms(4-) by (simp add: hold_link_key_digest_def hold_identity_def place_hold_snapshot_def)
  with key assms(3) have "key = ah_link_key_digest h" by simp
  with new assms(1,2,6) show False by (auto simp: list_ex_iff)
qed

end
