(* ===== verification/Spec2Isabelle.thy ===== *)
theory Spec2Isabelle
  imports Contracts Registry JobHistory SchedulerVisits ExpressionRuns PlanRuns ScopeRuns ControllerRuns RunControl
    ChildLinks ConvergenceRuns CandidateRuns SchemaRuns McpFormRuns SecurityRuns TaskRuns SandboxSafety ArtifactSafety
begin

text \<open>
  Verification library of the execution core of the Insight agent platform.

  \<^bold>\<open>The program.\<close>  The platform runs agent plans as durable executions.  Every aggregate (a job, a task, a run, a
  child link, a sandbox attempt, an artifact) is a row under optimistic concurrency, and every command on it is a
  pure Rust function of the loaded row, the command and the database clock, which returns the next row or an error;
  a repository loads, decides and stores inside one transaction.  A run interprets a validated \<^emph>\<open>plan\<close>: a
  \<^emph>\<open>controller\<close> looks at a plan node and at what was committed and decides what happens next, evaluating typed
  \<^emph>\<open>expressions\<close> over the ports bound in a \<^emph>\<open>scope\<close>; work that leaves the process becomes a \<^emph>\<open>job\<close> that one worker
  at a time holds under a lease; the \<^emph>\<open>scheduler\<close> admits jobs fairly under quotas; a plan may ask a person through a
  \<^emph>\<open>task\<close>, delegate to a \<^emph>\<open>child run\<close>, choose among candidate deployments, execute code in a \<^emph>\<open>sandbox\<close> and store
  bytes as \<^emph>\<open>artifacts\<close>.  All of them share the contract crate: identities, digests, closed enums and state tables,
  JSON and schema documents, security evidence.  So does the model: each command is a definition from row, command
  and clock to \<open>error + row\<close>, \<open>Inl\<close> being \<open>Err\<close>, and the properties quantify over all sequences of accepted commands.

  \<^bold>\<open>Theories and sources\<close> (below \<open>src/crates/\<close>; \<open>contracts\<close> is \<open>foundation/platform-contracts/src\<close>).

    \<^item> Foundation.  Prelude: machine integers, the result type, checked arithmetic, and the locale of closed
      enums.  Ids: \<open>contracts/id.rs\<close>, \<open>types.rs\<close>.  States: \<open>contracts/state.rs\<close>, every transition table.  Registry and
      ArtifactKinds: \<open>contracts/registry.rs\<close>, \<open>work_ownership.rs\<close>.  Trace: \<open>contracts/trace.rs\<close>.  Digests and
      StrictJson: \<open>contracts/json.rs\<close>.  Authority and Security: \<open>contracts/security.rs\<close> and the exact references and
      failures of \<open>resource.rs\<close> and \<open>types.rs\<close>.  Schema and McpForms: \<open>contracts/schema.rs\<close>, \<open>nominal.rs\<close>.
    \<^item> Execution.  Jobs: \<open>execution/platform-jobs/src/lib.rs\<close> and the fence of \<open>store.rs\<close>.  Scheduling:
      \<open>contracts/scheduling.rs\<close> and \<open>execution/platform-scheduler/src\<close>.  Decimal and Expression:
      \<open>definitions/platform-plan/src/expression.rs\<close>.  Plan and PlanGraph: \<open>definitions/platform-plan/src/lib.rs\<close>.
      ScopeEnvironment, Controller, RunControl, ChildRuns, Convergence and Candidates:
      \<open>execution/platform-orchestrator/src\<close> (\<open>scope_environment.rs\<close>, \<open>lib.rs\<close>, \<open>child_budget.rs\<close>, \<open>convergence.rs\<close>).
    \<^item> Domains.  Tasks: \<open>domains/platform-tasks/src/lib.rs\<close>.  Sandbox and SandboxJobs:
      \<open>domains/platform-sandbox/src/contracts.rs\<close>.  Artifacts, ArtifactLifecycle, ArtifactWork and ArtifactJobs:
      \<open>domains/platform-artifacts/src/lib.rs\<close> and \<open>work.rs\<close>.  ArtifactStore: the transactions of
      \<open>adapters/platform-postgres/src/artifact_repository.rs\<close>, over the tables of artifacts, blobs and links.
    \<^item> The other theories hold no code: they are the step relations, the invariants, the concrete histories and the
      properties of the theories above, each named after the component it speaks of.

  \<^bold>\<open>Correspondence.\<close>  A struct is a record with the fields of the struct, an enum a datatype with its variants; \<open>u64\<close>,
  \<open>u32\<close> and \<open>u8\<close> are words of that width, with \<open>checked_add\<close> and the saturating operations written out; the signed
  numbers of the decimal arithmetic and of time are \<open>int\<close> with their bounds tested where the code tests them.  An
  instant is a number of nanoseconds.  Text is a list of bytes.  A \<open>BTreeMap\<close> is the list of its entries in key order.
  \<open>?\<close>, \<open>map_err\<close> and \<open>ok_or\<close> are \<open>rbind\<close>, \<open>map_err\<close> and \<open>ok_or\<close>; early returns keep the order of the code.  Where
  the code unwraps or may panic, the panic is a value of its own and a property says whether it is reached.

  \<^bold>\<open>Parameters.\<close>  Code that is not part of the repository is an argument, collected in records each of which extends the
  one before: the bytes of the canonical JSON of serde_jcs and the hash of sha2 (\<open>digest_env\<close>), the uuid codec
  (\<open>platform_env\<close>), the tokens and the numbers of serde_json (\<open>strict_env\<close>, \<open>expression_env\<close>), the encoded length and
  the table of nominal schemas (\<open>schema_env\<close>), the text chrono prints for an instant (\<open>sandbox_env\<close>, \<open>artifact_env\<close>)
  and its bounded addition (\<open>chrono_add\<close>).  The hypotheses on them state what those crates document, and every property
  with such a hypothesis has a witness at a concrete codec.

  \<^bold>\<open>Interfaces.\<close>
    \<^item> \<open>closed_registry\<close> (a list of values with distinct texts: the parser inverts the printer) and its extension
      \<open>closed_machine\<close> (with a transition test: the descriptor is complete, terminal states are those without exit),
      interpreted on every enum and every state table.
    \<^item> \<open>port_store\<close> (a bind adds one port and changes no other), interpreted on the scope environment.
    \<^item> \<open>versioned_aggregate\<close> (a command keeps the invariant and the identity and raises the version or changes nothing)
      and \<open>settling_aggregate\<close> (final states are left by no command), interpreted on jobs, child links and tasks.
    \<^item> \<open>write_once\<close> (a slot that is filled stays as it is), interpreted on the slots of a sandbox attempt and on the
      generation and the content of a stored blob.

  \<^bold>\<open>What is shown.\<close>
    \<^item> Jobs: histories refine an abstract job held by at most one worker; an accepted decision makes every earlier fence
      stale; one lease generation has one holder; wakes are consumed once; attempts are bounded; expired leases can be
      recovered.  Scheduling: a visit conserves quota and admits no more than was available.
    \<^item> Plans: the worklist searches decide reachability; ports are produced before they are read; a validated program
      never runs out of operands or inputs.  Scopes: bound ports never change.  Controllers: decisions stay in the plan.
    \<^item> Runs: stop requests are permanent, convergence is monotone, delegation ends and its budgets shrink, a selection
      follows its policy.
    \<^item> Tasks: one resolution wins, it fits what was frozen, only eligible principals are asked, and what is offered is
      accepted.  Security: what is authorized stays in its tenant.  Documents: strict JSON survives its canonical form,
      schema documents are closed at every depth and their references end, answers to forms meet no panic.
    \<^item> Sandboxes: one sandbox is activated, unknown outcomes stay unknown, creations are bounded, cleanup has one owner,
      an attempt ends exactly when every sandbox is gone.
    \<^item> Artifacts: what was verified keeps its bytes, only verified content is released, nothing protected is deleted, a
      deletion that may have happened is not repeated by itself, provenance is acyclic and never declassifies.
  The lemmas that show where the code does not do what it means to stand beside these, in the \<open>Safety\<close> theories.

  \<^bold>\<open>Termination and bounds.\<close>  Every definition is total.  The worklists of plan validation decrease the number of
  unvisited nodes, then the worklist; the walks over documents decrease their size; the search over local references
  decreases the references not on the path; the literals stop at the depth bound of the code.  The one walk with fuel is
  \<open>provenance_walk\<close>: its fuel is the depth bound of the recursive SQL statement it models, and \<open>ArtifactLineage\<close> shows
  that a walk that is neither closed nor truncated at that depth has seen every path without repetition.  The bounds of the code
  (\<open>MAX_...\<close>) are its own constants; limits the code reads from a profile are arguments.

  \<^bold>\<open>Not modelled.\<close>  SQL and locking beyond the artifact transactions (a transaction is one atomic step here); the job rows,
  receipts, permission and quota checks and the outbox of those transactions, which take the job rows they loaded as
  arguments; the store traits, run admission and the compiled envelope of a plan; instance validation by the jsonschema
  crate and the texts of the nominal schemas; the signatures of runner requests and activation frames; provider and
  backend traits; the invocation, context, model and MCP host domains; adapters, protocols, services, the command line
  and the serde glue.
\<close>

end
